(* ===== verification/Prelude.thy ===== *)
theory Prelude
  imports Complex_Main
begin

text \<open>
  Shared vocabulary of the development: results of fallible operations, loops that stop at
  the first error, database tables with generated primary keys,
  and two kinds of interface the components instantiate: \<open>row_store\<close> (what a lookup returns after
  a write), and \<open>safe_system\<close> with its extensions \<open>workflow\<close>, \<open>audited_system\<close> and
  \<open>table_flow\<close> (what a sequence of service calls, each atomic, preserves).
\<close>

named_theorems res_simps \<open>inversion of results: which branch produced a value\<close>
named_theorems frame_simps \<open>which tables an operation leaves alone\<close>

section \<open>Results\<close>

text \<open>
  The exceptions the services let escape. \<open>ValidationError\<close> carries the code of an explicit
  \<open>raise ValidationError(..., code=...)\<close>; \<open>FullClean\<close> is a failed \<open>Model.full_clean()\<close>
  (field, uniqueness, constraint or \<open>clean()\<close> errors, collected into one exception);
  \<open>IntegrityError\<close> and \<open>DataError\<close> are raised by the database (a violated constraint,
  a number too large for its column); \<open>Forbidden\<close> is \<open>ForbiddenActionError\<close>,
  \<open>PermissionDenied\<close> and \<open>Http404\<close> are what the endpoints raise, \<open>Unauthorized\<close> is the answer to a request
  without a valid token, \<open>ValueError\<close> is Python's own.
\<close>

datatype err =
    ValidationError string
  | FullClean
  | Forbidden
  | DoesNotExist
  | MultipleObjectsReturned
  | IntegrityError
  | DataError
  | ValueError
  | PermissionDenied
  | Http404
  | Unauthorized

type_synonym 'a res = "err + 'a"

definition rbind :: "'e + 'a \<Rightarrow> ('a \<Rightarrow> 'e + 'b) \<Rightarrow> 'e + 'b" where
  "rbind m f = (case m of Inl e \<Rightarrow> Inl e | Inr x \<Rightarrow> f x)"

lemma rbind_simps [simp]: "rbind (Inl e) f = Inl e" "rbind (Inr x) f = f x"
  by (simp_all add: rbind_def)

lemma rbind_Inr [res_simps]: "rbind m f = Inr y \<longleftrightarrow> (\<exists>x. m = Inr x \<and> f x = Inr y)"
  by (cases m) auto

lemma if_Inl_Inr [res_simps]: "(if c then Inl e else m) = Inr y \<longleftrightarrow> \<not> c \<and> m = Inr y"
  by simp

lemma if_Inr_Inl [res_simps]: "(if c then m else Inl e) = Inr y \<longleftrightarrow> c \<and> m = Inr y"
  by simp

lemma option_case_Inr [res_simps]:
  "(case x of None \<Rightarrow> Inl e | Some v \<Rightarrow> f v) = Inr y \<longleftrightarrow> (\<exists>v. x = Some v \<and> f v = Inr y)"
  by (cases x) auto

text \<open>A \<open>for\<close> loop whose body may raise: the first error ends it.\<close>

fun foldM :: "('a \<Rightarrow> 's \<Rightarrow> 'e + 's) \<Rightarrow> 'a list \<Rightarrow> 's \<Rightarrow> 'e + 's" where
  "foldM f [] s = Inr s"
| "foldM f (x # xs) s = rbind (f x s) (foldM f xs)"

lemma foldM_append: "foldM f (xs @ ys) s = rbind (foldM f xs s) (foldM f ys)"
  by (induction xs arbitrary: s) (auto simp: rbind_def split: sum.splits)

lemma foldM_invariant:
  assumes "foldM f xs s = Inr s'" and "P s"
    and step: "\<And>x s s'. x \<in> set xs \<Longrightarrow> P s \<Longrightarrow> f x s = Inr s' \<Longrightarrow> P s'"
  shows "P s'"
  using assms
proof (induction xs arbitrary: s)
  case Nil
  then show ?case by simp
next
  case (Cons x xs)
  from Cons.prems(1) obtain t where t: "f x s = Inr t" "foldM f xs t = Inr s'"
    by (auto simp: rbind_Inr)
  have "P t" using Cons.prems(3) [OF _ Cons.prems(2) t(1)] by simp
  then show ?case using Cons.IH [OF t(2)] Cons.prems(3) by (meson list.set_intros(2))
qed

section \<open>Tables\<close>

text \<open>
  A database table: its rows in insertion order under their primary keys, and the sequence
  that generates the next key.
\<close>

record 'r table =
  tbl_rows :: "(nat \<times> 'r) list"
  tbl_next :: nat

definition tbl_empty :: "'r table" where
  "tbl_empty = \<lparr>tbl_rows = [], tbl_next = 1\<rparr>"

definition tbl_get :: "'r table \<Rightarrow> nat \<Rightarrow> 'r option" where
  "tbl_get t k = map_of (tbl_rows t) k"

definition tbl_where :: "(nat \<Rightarrow> 'r \<Rightarrow> bool) \<Rightarrow> 'r table \<Rightarrow> (nat \<times> 'r) list" where
  "tbl_where P t = filter (\<lambda>(k, r). P k r) (tbl_rows t)"

definition tbl_exists :: "(nat \<Rightarrow> 'r \<Rightarrow> bool) \<Rightarrow> 'r table \<Rightarrow> bool" where
  "tbl_exists P t = list_ex (\<lambda>(k, r). P k r) (tbl_rows t)"

definition tbl_update_where :: "(nat \<Rightarrow> 'r \<Rightarrow> bool) \<Rightarrow> ('r \<Rightarrow> 'r) \<Rightarrow> 'r table \<Rightarrow> 'r table" where
  "tbl_update_where P f t =
     t\<lparr>tbl_rows := map (\<lambda>(k, r). (k, if P k r then f r else r)) (tbl_rows t)\<rparr>"

definition tbl_map :: "(nat \<Rightarrow> 'r \<Rightarrow> 'r) \<Rightarrow> 'r table \<Rightarrow> 'r table" where
  "tbl_map g t = t\<lparr>tbl_rows := map (\<lambda>(k, r). (k, g k r)) (tbl_rows t)\<rparr>"

definition tbl_put :: "nat \<Rightarrow> 'r \<Rightarrow> 'r table \<Rightarrow> 'r table" where
  "tbl_put k r t = tbl_update_where (\<lambda>j _. j = k) (\<lambda>_. r) t"

definition tbl_insert :: "'r \<Rightarrow> 'r table \<Rightarrow> 'r table" where
  "tbl_insert r t = \<lparr>tbl_rows = tbl_rows t @ [(tbl_next t, r)], tbl_next = Suc (tbl_next t)\<rparr>"

definition tbl_delete_where :: "(nat \<Rightarrow> 'r \<Rightarrow> bool) \<Rightarrow> 'r table \<Rightarrow> 'r table" where
  "tbl_delete_where P t = t\<lparr>tbl_rows := filter (\<lambda>(k, r). \<not> P k r) (tbl_rows t)\<rparr>"

definition tbl_wf :: "'r table \<Rightarrow> bool" where
  "tbl_wf t \<longleftrightarrow> distinct (map fst (tbl_rows t)) \<and> (\<forall>k \<in> set (map fst (tbl_rows t)). k < tbl_next t)"

lemma tbl_keys_update_where [simp]:
  "map fst (tbl_rows (tbl_update_where P f t)) = map fst (tbl_rows t)"
  by (simp add: tbl_update_where_def comp_def case_prod_unfold)

lemma tbl_next_update_where [simp]: "tbl_next (tbl_update_where P f t) = tbl_next t"
  by (simp add: tbl_update_where_def)

lemma tbl_next_insert [simp]: "tbl_next (tbl_insert r t) = Suc (tbl_next t)"
  by (simp add: tbl_insert_def)

lemma tbl_next_put [simp]: "tbl_next (tbl_put k r t) = tbl_next t"
  by (simp add: tbl_put_def)

lemma map_of_map_rows:
  "map_of (map (\<lambda>(k, r). (k, if P k r then f r else r)) xs) j =
     map_option (\<lambda>r. if P j r then f r else r) (map_of xs j)"
  by (induction xs) auto

lemma tbl_get_update_where:
  "tbl_get (tbl_update_where P f t) j = map_option (\<lambda>r. if P j r then f r else r) (tbl_get t j)"
  by (simp add: tbl_get_def tbl_update_where_def map_of_map_rows)

lemma tbl_get_put:
  "tbl_get (tbl_put k r t) j = (if j = k then map_option (\<lambda>_. r) (tbl_get t j) else tbl_get t j)"
  by (simp add: tbl_put_def tbl_get_update_where option.map_ident)

lemma tbl_wf_update_where: "tbl_wf t \<Longrightarrow> tbl_wf (tbl_update_where P f t)"
  unfolding tbl_wf_def by simp

lemma tbl_update_where_map: "tbl_update_where P f t = tbl_map (\<lambda>k r. if P k r then f r else r) t"
  by (simp add: tbl_update_where_def tbl_map_def)

lemma tbl_get_map: "tbl_get (tbl_map g t) k = map_option (g k) (tbl_get t k)"
proof -
  have "map_of (map (\<lambda>(k, r). (k, g k r)) xs) k = map_option (g k) (map_of xs k)" for xs
    by (induction xs) auto
  then show ?thesis by (simp add: tbl_map_def tbl_get_def)
qed

lemma tbl_wf_map [simp]: "tbl_wf (tbl_map g t) = tbl_wf t"
  by (simp add: tbl_wf_def tbl_map_def comp_def case_prod_unfold)

lemma tbl_wf_put [simp]: "tbl_wf t \<Longrightarrow> tbl_wf (tbl_put k r t)"
  by (simp add: tbl_put_def tbl_wf_update_where)

lemma tbl_wf_insert [simp]: "tbl_wf t \<Longrightarrow> tbl_wf (tbl_insert r t)"
  by (auto simp: tbl_wf_def tbl_insert_def less_Suc_eq)

lemma tbl_wf_empty [simp]: "tbl_wf tbl_empty"
  by (simp add: tbl_wf_def tbl_empty_def)

lemma tbl_wf_delete_where [simp]: "tbl_wf t \<Longrightarrow> tbl_wf (tbl_delete_where P t)"
  by (auto simp: tbl_wf_def tbl_delete_where_def distinct_map intro: inj_on_subset)

lemma tbl_get_fresh: "tbl_wf t \<Longrightarrow> tbl_get t (tbl_next t) = None"
  by (force simp: tbl_wf_def tbl_get_def map_of_eq_None_iff)

lemma tbl_get_insert:
  "tbl_wf t \<Longrightarrow> tbl_get (tbl_insert r t) j = (if j = tbl_next t then Some r else tbl_get t j)"
  using tbl_get_fresh [of t]
  by (auto simp: tbl_get_def tbl_insert_def map_add_def split: option.split)

lemma tbl_get_lt: "tbl_wf t \<Longrightarrow> tbl_get t k = Some r \<Longrightarrow> k < tbl_next t"
  by (force simp: tbl_wf_def tbl_get_def dest: map_of_SomeD)

lemma tbl_get_mem: "tbl_wf t \<Longrightarrow> (k, r) \<in> set (tbl_rows t) \<longleftrightarrow> tbl_get t k = Some r"
  by (auto simp: tbl_wf_def tbl_get_def)

lemma tbl_get_in: "tbl_get t k = Some r \<Longrightarrow> (k, r) \<in> set (tbl_rows t)"
  by (simp add: tbl_get_def map_of_SomeD)

lemma tbl_where_mem [simp]:
  "(k, r) \<in> set (tbl_where P t) \<longleftrightarrow> (k, r) \<in> set (tbl_rows t) \<and> P k r"
  by (auto simp: tbl_where_def)

lemma mem_keys: "k \<in> set (map fst xs) \<longleftrightarrow> (\<exists>r. (k, r) \<in> set xs)"
  by force

lemma mem_where_keys:
  "k \<in> set (map fst (tbl_where P t)) \<longleftrightarrow> (\<exists>r. (k, r) \<in> set (tbl_rows t) \<and> P k r)"
  by (simp only: mem_keys tbl_where_mem)

lemma tbl_exists_iff: "tbl_exists P t \<longleftrightarrow> (\<exists>k r. (k, r) \<in> set (tbl_rows t) \<and> P k r)"
  by (auto simp: tbl_exists_def list_ex_iff)

lemma tbl_exists_update_where:
  "tbl_exists P (tbl_update_where Q f t) = tbl_exists (\<lambda>k r. P k (if Q k r then f r else r)) t"
  by (simp add: tbl_exists_def tbl_update_where_def list_ex_iff case_prod_unfold)

lemma tbl_exists_mono: "tbl_exists P t \<Longrightarrow> (\<And>k r. P k r \<Longrightarrow> Q k r) \<Longrightarrow> tbl_exists Q t"
  by (auto simp: tbl_exists_iff)

lemma tbl_get_delete_where:
  assumes wf: "tbl_wf t"
  shows "tbl_get (tbl_delete_where P t) k = Some r \<longleftrightarrow> tbl_get t k = Some r \<and> \<not> P k r"
  using tbl_get_mem [OF tbl_wf_delete_where [OF wf, of P], of k r] tbl_get_mem [OF wf, of k r]
  by (auto simp: tbl_delete_where_def)

lemma tbl_where_insert:
  "tbl_where P (tbl_insert r t) =
     tbl_where P t @ (if P (tbl_next t) r then [(tbl_next t, r)] else [])"
  by (simp add: tbl_where_def tbl_insert_def)

lemma length_filter_mono: "(\<And>x. x \<in> set xs \<Longrightarrow> P x \<Longrightarrow> Q x) \<Longrightarrow> length (filter P xs) \<le> length (filter Q xs)"
  by (induction xs) (auto simp: le_SucI)

lemma length_tbl_where_update:
  "(\<And>k r. (k, r) \<in> set (tbl_rows t) \<Longrightarrow> P k (if Q k r then f r else r) \<Longrightarrow> P k r) \<Longrightarrow>
     length (tbl_where P (tbl_update_where Q f t)) \<le> length (tbl_where P t)"
  unfolding tbl_where_def tbl_update_where_def
  by (simp add: filter_map comp_def case_prod_unfold length_filter_mono)

lemma tbl_wf_update_insert: "tbl_wf t \<Longrightarrow> tbl_wf (tbl_insert r (tbl_update_where P f t))"
  by (simp add: tbl_wf_update_where)

subsection \<open>Row invariants and unique constraints\<close>

text \<open>
  \<open>tbl_all\<close>: every row satisfies a predicate (a check constraint). \<open>tbl_unique\<close>: a unique
  constraint on the columns \<open>key\<close> among the rows that satisfy \<open>P\<close>.
\<close>

definition tbl_all :: "('r \<Rightarrow> bool) \<Rightarrow> 'r table \<Rightarrow> bool" where
  "tbl_all P t \<longleftrightarrow> (\<forall>k r. tbl_get t k = Some r \<longrightarrow> P r)"

definition tbl_unique :: "('r \<Rightarrow> bool) \<Rightarrow> ('r \<Rightarrow> 'k) \<Rightarrow> 'r table \<Rightarrow> bool" where
  "tbl_unique P key t \<longleftrightarrow> (\<forall>i j a b. tbl_get t i = Some a \<longrightarrow> tbl_get t j = Some b \<longrightarrow>
     P a \<longrightarrow> P b \<longrightarrow> key a = key b \<longrightarrow> i = j)"

lemma tbl_allD: "tbl_all P t \<Longrightarrow> tbl_get t k = Some r \<Longrightarrow> P r"
  by (simp add: tbl_all_def)

lemma tbl_all_empty [simp]: "tbl_all P tbl_empty"
  by (simp add: tbl_all_def tbl_get_def tbl_empty_def)

lemma tbl_all_insert: "tbl_wf t \<Longrightarrow> tbl_all P t \<Longrightarrow> P r \<Longrightarrow> tbl_all P (tbl_insert r t)"
  by (simp add: tbl_all_def tbl_get_insert)

lemma tbl_all_update_where:
  "tbl_all P t \<Longrightarrow> (\<And>k r. Q k r \<Longrightarrow> P r \<Longrightarrow> P (f r)) \<Longrightarrow> tbl_all P (tbl_update_where Q f t)"
  by (auto simp: tbl_all_def tbl_get_update_where)

lemma tbl_all_put: "tbl_all P t \<Longrightarrow> P r \<Longrightarrow> tbl_all P (tbl_put k r t)"
  by (auto simp: tbl_all_def tbl_get_put)

lemma tbl_all_delete_where: "tbl_wf t \<Longrightarrow> tbl_all P t \<Longrightarrow> tbl_all P (tbl_delete_where Q t)"
  by (auto simp: tbl_all_def tbl_get_delete_where)

lemma tbl_exists_get: "tbl_wf t \<Longrightarrow> tbl_exists P t \<longleftrightarrow> (\<exists>k r. tbl_get t k = Some r \<and> P k r)"
  by (simp add: tbl_exists_iff tbl_get_mem)

lemma tbl_uniqueD:
  "tbl_unique P key t \<Longrightarrow> tbl_get t i = Some a \<Longrightarrow> tbl_get t j = Some b \<Longrightarrow> P a \<Longrightarrow> P b \<Longrightarrow>
     key a = key b \<Longrightarrow> i = j"
  unfolding tbl_unique_def by blast

lemma tbl_unique_empty [simp]: "tbl_unique P key tbl_empty"
  by (simp add: tbl_unique_def tbl_get_def tbl_empty_def)

lemma tbl_unique_insert:
  assumes "tbl_wf t" and "tbl_unique P key t"
    and "P r \<Longrightarrow> \<not> tbl_exists (\<lambda>_ b. P b \<and> key b = key r) t"
  shows "tbl_unique P key (tbl_insert r t)"
proof -
  have "\<not> (P r \<and> tbl_get t k = Some b \<and> P b \<and> key b = key r)" for k b
    using assms(3) by (auto simp: tbl_exists_get [OF assms(1)])
  then show ?thesis
    using assms(2) unfolding tbl_unique_def tbl_get_insert [OF assms(1)]
    by (auto split: if_splits; metis)
qed

lemma tbl_unique_via:
  assumes "tbl_unique P key t"
    and origin: "\<And>i a. tbl_get t' i = Some a \<Longrightarrow> P a \<Longrightarrow> \<exists>b. tbl_get t i = Some b \<and> P b \<and> key b = key a"
  shows "tbl_unique P key t'"
  unfolding tbl_unique_def
proof (intro allI impI)
  fix i j a b
  assume a: "tbl_get t' i = Some a" "P a" and b: "tbl_get t' j = Some b" "P b" and k: "key a = key b"
  obtain a0 where a0: "tbl_get t i = Some a0" "P a0" "key a0 = key a" using origin [OF a] by blast
  obtain b0 where b0: "tbl_get t j = Some b0" "P b0" "key b0 = key b" using origin [OF b] by blast
  show "i = j" using tbl_uniqueD [OF assms(1) a0(1) b0(1) a0(2) b0(2)] a0(3) b0(3) k by simp
qed

lemma tbl_unique_update_where:
  assumes "tbl_unique P key t"
    and "\<And>k r. Q k r \<Longrightarrow> P (f r) \<Longrightarrow> P r \<and> key r = key (f r)"
  shows "tbl_unique P key (tbl_update_where Q f t)"
proof (rule tbl_unique_via [OF assms(1)])
  fix i a
  assume "tbl_get (tbl_update_where Q f t) i = Some a" and "P a"
  then show "\<exists>b. tbl_get t i = Some b \<and> P b \<and> key b = key a"
    using assms(2) by (auto simp: tbl_get_update_where split: if_splits)
qed

lemma tbl_unique_put:
  assumes "tbl_unique P key t" and "tbl_get t k = Some r0" and "P r \<Longrightarrow> P r0 \<and> key r0 = key r"
  shows "tbl_unique P key (tbl_put k r t)"
  by (rule tbl_unique_via [OF assms(1)]) (use assms in \<open>auto simp: tbl_get_put split: if_splits\<close>)

lemma tbl_unique_delete_where:
  "tbl_wf t \<Longrightarrow> tbl_unique P key t \<Longrightarrow> tbl_unique P key (tbl_delete_where Q t)"
  by (rule tbl_unique_via [of P key t]) (auto simp: tbl_get_delete_where)

text \<open>
  How the services check a unique constraint before they write: no other row has the key. The next
  key of a table is nobody's.
\<close>

lemma next_key_other: "tbl_wf t \<Longrightarrow> tbl_exists (\<lambda>j b. j \<noteq> tbl_next t \<and> P b) t \<longleftrightarrow> tbl_exists (\<lambda>_. P) t"
  by (auto simp: tbl_exists_get dest: tbl_get_lt)

lemma tbl_unique_put_free:
  assumes "tbl_wf t" and "tbl_unique P key t" and "tbl_get t k = Some a"
    and "P r \<Longrightarrow> \<not> tbl_exists (\<lambda>j b. j \<noteq> k \<and> P b \<and> key b = key r) t"
  shows "tbl_unique P key (tbl_put k r t)"
  using assms unfolding tbl_unique_def
  by (simp add: tbl_get_put tbl_exists_get split: if_splits) metis

lemma tbl_unique_insert_free:
  assumes "tbl_wf t" and "tbl_unique P key t"
    and "P r \<Longrightarrow> \<not> tbl_exists (\<lambda>j b. j \<noteq> tbl_next t \<and> P b \<and> key b = key r) t"
  shows "tbl_unique P key (tbl_insert r t)"
  using assms by (intro tbl_unique_insert) (simp_all add: next_key_other)

text \<open>A sum over the rows of a table, under a write and an insert.\<close>

definition tbl_sum :: "('r \<Rightarrow> rat) \<Rightarrow> 'r table \<Rightarrow> rat" where
  "tbl_sum f t = sum_list (map (\<lambda>(_, r). f r) (tbl_rows t))"

lemma tbl_sum_insert: "tbl_sum f (tbl_insert r t) = tbl_sum f t + f r"
  by (simp add: tbl_sum_def tbl_insert_def)

lemma tbl_sum_zero:
  assumes "\<And>k r. (k, r) \<in> set (tbl_rows t) \<Longrightarrow> f r = 0"
  shows "tbl_sum f t = 0"
proof -
  have "\<forall>x \<in> set xs. f (snd x) = 0 \<Longrightarrow> sum_list (map (\<lambda>(_, r). f r) xs) = 0" for xs
    by (induction xs) auto
  then show ?thesis using assms by (fastforce simp: tbl_sum_def)
qed

lemma sum_rows_put:
  fixes f :: "'r \<Rightarrow> rat"
  assumes "distinct (map fst xs)" and "map_of xs k = Some r0"
  shows "sum_list (map (\<lambda>(j, s). f (if j = k then r else s)) xs) = sum_list (map (\<lambda>(_, s). f s) xs) - f r0 + f r"
  using assms
proof (induction xs)
  case Nil
  then show ?case by simp
next
  case (Cons x xs)
  obtain j s where x: "x = (j, s)" by fastforce
  show ?case
  proof (cases "j = k")
    case True
    with Cons.prems x have "k \<notin> fst ` set xs" by simp
    then have "sum_list (map (\<lambda>(j, s). f (if j = k then r else s)) xs) = sum_list (map (\<lambda>(_, s). f s) xs)"
      by (auto intro!: arg_cong [where f = sum_list] map_cong simp: image_iff)
    with True Cons.prems x show ?thesis by simp
  next
    case False
    with Cons x show ?thesis by simp
  qed
qed

lemma tbl_sum_put:
  "tbl_wf t \<Longrightarrow> tbl_get t k = Some r0 \<Longrightarrow> tbl_sum f (tbl_put k r t) = tbl_sum f t - f r0 + f r"
  using sum_rows_put [of "tbl_rows t" k r0 f r]
  by (simp add: tbl_sum_def tbl_put_def tbl_update_where_def tbl_wf_def tbl_get_def comp_def case_prod_unfold)

text \<open>
  The interface between the services and their tables: what a lookup returns after an
  update or an insert, and that both keep the table well formed.
\<close>

locale row_store =
  fixes get :: "'t \<Rightarrow> nat \<Rightarrow> 'r option"
    and put :: "nat \<Rightarrow> 'r \<Rightarrow> 't \<Rightarrow> 't"
    and ins :: "'r \<Rightarrow> 't \<Rightarrow> 't"
    and fresh :: "'t \<Rightarrow> nat"
    and wf :: "'t \<Rightarrow> bool"
  assumes get_put: "get (put k r t) j = (if j = k then map_option (\<lambda>_. r) (get t j) else get t j)"
    and get_ins: "wf t \<Longrightarrow> get (ins r t) j = (if j = fresh t then Some r else get t j)"
    and fresh_unused: "wf t \<Longrightarrow> get t (fresh t) = None"
    and wf_put: "wf t \<Longrightarrow> wf (put k r t)"
    and wf_ins: "wf t \<Longrightarrow> wf (ins r t)"
begin

lemma put_ins_other: "wf t \<Longrightarrow> get t k = Some s \<Longrightarrow> get (ins r t) k = Some s"
  using fresh_unused by (auto simp: get_ins)

lemma put_put: "get (put k r (put k s t)) j = get (put k r t) j"
  by (auto simp: get_put option.map_comp comp_def)

text \<open>A loop that writes one row per step: each key holds what was last written to it.\<close>

lemma get_fold_put:
  "get (fold (\<lambda>(k, r). put k r) krs t) j =
     (case map_of (rev krs) j of None \<Rightarrow> get t j | Some r \<Rightarrow> map_option (\<lambda>_. r) (get t j))"
proof (induction krs arbitrary: t)
  case Nil
  then show ?case by simp
next
  case (Cons kr krs)
  obtain k r where kr: "kr = (k, r)" by fastforce
  show ?case
    by (simp add: kr Cons.IH get_put map_add_def option.map_comp comp_def split: option.split)
qed

lemma wf_fold_put: "wf t \<Longrightarrow> wf (fold (\<lambda>(k, r). put k r) krs t)"
  by (induction krs arbitrary: t) (auto simp: wf_put)

lemma get_fold_put_None: "get (fold (\<lambda>(k, r). put k r) krs t) j = None \<longleftrightarrow> get t j = None"
  by (simp add: get_fold_put split: option.split)

end

interpretation tbl: row_store tbl_get tbl_put tbl_insert tbl_next tbl_wf
  by unfold_locales (simp_all add: tbl_get_put tbl_get_insert tbl_get_fresh)

section \<open>Arguments and results of the services\<close>

text \<open>An optional argument: \<open>if x is not None: instance.f = x\<close>.\<close>

definition given :: "'a option \<Rightarrow> 'a \<Rightarrow> 'a" where
  "given new old = (case new of None \<Rightarrow> old | Some x \<Rightarrow> x)"

text \<open>A caller fetches the instance and passes it on; between the two nothing else runs.\<close>

definition fetch :: "'r table \<Rightarrow> nat \<Rightarrow> (nat \<times> 'r \<Rightarrow> 'a res) \<Rightarrow> 'a res" where
  "fetch t k f = (case tbl_get t k of None \<Rightarrow> Inl DoesNotExist | Some r \<Rightarrow> f (k, r))"

definition fetch_optional ::
  "'r table \<Rightarrow> nat option \<Rightarrow> ((nat \<times> 'r) option \<Rightarrow> 'a res) \<Rightarrow> 'a res" where
  "fetch_optional t k f =
     (case k of None \<Rightarrow> f None | Some j \<Rightarrow> fetch t j (\<lambda>r. f (Some r)))"

text \<open>The state a call leaves, without its return value.\<close>

definition db_of :: "('a \<times> 's) res \<Rightarrow> 's res" where
  "db_of r = map_sum id snd r"

lemma fetch_Inr [res_simps]: "fetch t k f = Inr x \<longleftrightarrow> (\<exists>r. tbl_get t k = Some r \<and> f (k, r) = Inr x)"
  by (simp add: fetch_def res_simps)

lemma fetch_optional_Inr:
  "fetch_optional t k f = Inr x \<Longrightarrow> \<exists>p. f p = Inr x"
  by (auto simp: fetch_optional_def res_simps split: option.splits)

lemma db_of_Inr [res_simps]: "db_of r = Inr d \<longleftrightarrow> (\<exists>k. r = Inr (k, d))"
  by (cases r) (auto simp: db_of_def)

section \<open>Sequences of service calls\<close>

text \<open>
  Every service runs inside \<open>transaction.atomic()\<close>: a call that raises leaves the database
  as it was. A client issues calls one after the other.
\<close>

definition commit :: "'s \<Rightarrow> 'e + 's \<Rightarrow> 's" where
  "commit s r = (case r of Inl _ \<Rightarrow> s | Inr s' \<Rightarrow> s')"

lemma commit_simps [simp]: "commit s (Inl e) = s" "commit s (Inr s') = s'"
  by (simp_all add: commit_def)

fun run_calls :: "('s \<Rightarrow> 'o \<Rightarrow> 'e + 's) \<Rightarrow> 's \<Rightarrow> 'o list \<Rightarrow> 's" where
  "run_calls step s [] = s"
| "run_calls step s (x # xs) = run_calls step (commit s (step s x)) xs"

lemma run_calls_append: "run_calls step s (xs @ ys) = run_calls step (run_calls step s xs) ys"
  by (induction xs arbitrary: s) auto

text \<open>All states a sequence of calls goes through, the first one included.\<close>

fun call_states :: "('s \<Rightarrow> 'o \<Rightarrow> 'e + 's) \<Rightarrow> 's \<Rightarrow> 'o list \<Rightarrow> 's list" where
  "call_states step s [] = [s]"
| "call_states step s (x # xs) = s # call_states step (commit s (step s x)) xs"

text \<open>A feature that a call can only bring about in a state with \<open>Q\<close>: a run that brings it about passes through one.\<close>

lemma run_change:
  assumes "\<And>s x s'. step s x = Inr s' \<Longrightarrow> \<not> P s \<Longrightarrow> P s' \<Longrightarrow> Q s"
    and "\<not> P s" and "P (run_calls step s xs)"
  shows "\<exists>t \<in> set (call_states step s xs). Q t"
  using assms(2,3)
proof (induction xs arbitrary: s)
  case Nil
  then show ?case by simp
next
  case (Cons x xs)
  show ?case
  proof (cases "P (commit s (step s x))")
    case True
    with Cons.prems(1) assms(1) have "Q s" by (cases "step s x") auto
    then show ?thesis by simp
  next
    case False
    with Cons.IH [OF this] Cons.prems(2) show ?thesis by auto
  qed
qed

locale safe_system =
  fixes step :: "'s \<Rightarrow> 'o \<Rightarrow> 'e + 's"
    and inv :: "'s \<Rightarrow> bool"
  assumes step_inv: "inv s \<Longrightarrow> step s x = Inr s' \<Longrightarrow> inv s'"
begin

lemma commit_inv: "inv s \<Longrightarrow> inv (commit s (step s x))"
  by (cases "step s x") (auto dest: step_inv)

lemma run_inv: "inv s \<Longrightarrow> inv (run_calls step s xs)"
  by (induction xs arbitrary: s) (auto simp: commit_inv)

lemma states_inv: "inv s \<Longrightarrow> t \<in> set (call_states step s xs) \<Longrightarrow> inv t"
proof (induction xs arbitrary: s)
  case Nil
  then show ?case by simp
next
  case (Cons x xs)
  then show ?case using commit_inv [of s x] by auto
qed

end

text \<open>
  A workflow: every call moves a tracked row's status along an edge of a fixed graph or
  leaves it, while an invariant holds.
\<close>

locale workflow = safe_system step inv
  for step :: "'s \<Rightarrow> 'o \<Rightarrow> 'e + 's" and inv :: "'s \<Rightarrow> bool" +
  fixes status :: "'s \<Rightarrow> 'st option"
    and edge :: "'st \<Rightarrow> 'st \<Rightarrow> bool"
  assumes step_edge: "inv s \<Longrightarrow> step s x = Inr s' \<Longrightarrow> status s = Some a \<Longrightarrow>
      \<exists>b. status s' = Some b \<and> (b = a \<or> edge a b)"
begin

lemma commit_edge:
  assumes "inv s" and "status s = Some a"
  obtains b where "status (commit s (step s x)) = Some b" and "b = a \<or> edge a b"
  using assms by (cases "step s x") (auto dest: step_edge)

lemma run_path:
  "inv s \<Longrightarrow> status s = Some a \<Longrightarrow> \<exists>b. status (run_calls step s xs) = Some b \<and> edge\<^sup>*\<^sup>* a b"
proof (induction xs arbitrary: s a)
  case Nil
  then show ?case by auto
next
  case (Cons x xs)
  obtain c where c: "status (commit s (step s x)) = Some c" "c = a \<or> edge a c"
    using commit_edge [OF Cons.prems] .
  from Cons.IH [OF commit_inv [OF Cons.prems(1)] c(1)] obtain b
    where "status (run_calls step (commit s (step s x)) xs) = Some b" "edge\<^sup>*\<^sup>* c b" by blast
  with c(2) show ?case by (auto intro: converse_rtranclp_into_rtranclp)
qed

lemma absorbing:
  assumes "inv s" and "status s = Some a" and "\<And>b. \<not> edge a b"
  shows "status (run_calls step s xs) = Some a"
  using run_path [OF assms(1,2), of xs] assms(3) by (auto elim: converse_rtranclpE)

text \<open>
  If the graph without status \<open>b\<close> has no path from \<open>a\<close> to \<open>c\<close>, a run from \<open>a\<close> to \<open>c\<close>
  passes through \<open>b\<close>.
\<close>

lemma waypoint:
  assumes "inv s" and "status s = Some a" and "status (run_calls step s xs) = Some c"
    and "\<not> (\<lambda>x y. edge x y \<and> y \<noteq> b)\<^sup>*\<^sup>* a c"
  shows "\<exists>t \<in> set (call_states step s xs). status t = Some b"
  using assms
proof (induction xs arbitrary: s a)
  case Nil
  then show ?case by auto
next
  case (Cons x xs)
  obtain d where d: "status (commit s (step s x)) = Some d" "d = a \<or> edge a d"
    using commit_edge [OF Cons.prems(1,2)] .
  show ?case
  proof (cases "d = b")
    case True
    then have "commit s (step s x) \<in> set (call_states step (commit s (step s x)) xs)"
      by (cases xs) auto
    with True d(1) show ?thesis by auto
  next
    case False
    have "\<not> (\<lambda>x y. edge x y \<and> y \<noteq> b)\<^sup>*\<^sup>* d c"
      using d(2) False Cons.prems(4)
        converse_rtranclp_into_rtranclp [of "\<lambda>x y. edge x y \<and> y \<noteq> b" a d c] by blast
    then have "\<exists>t \<in> set (call_states step (commit s (step s x)) xs). status t = Some b"
      using Cons.IH [OF commit_inv [OF Cons.prems(1)] d(1)] Cons.prems(3) by simp
    then show ?thesis by auto
  qed
qed

end

text \<open>
  A log to which every successful call appends at least one entry and which a failed call
  leaves alone: it only grows, and it is at least as long as the successful calls are many.
\<close>

fun successes :: "('s \<Rightarrow> 'o \<Rightarrow> 'e + 's) \<Rightarrow> 's \<Rightarrow> 'o list \<Rightarrow> nat" where
  "successes step s [] = 0"
| "successes step s (x # xs) =
     (case step s x of Inl _ \<Rightarrow> 0 | Inr _ \<Rightarrow> 1) + successes step (commit s (step s x)) xs"

locale audited_system = safe_system step inv
  for step :: "'s \<Rightarrow> 'o \<Rightarrow> 'e + 's" and inv :: "'s \<Rightarrow> bool" +
  fixes log :: "'s \<Rightarrow> 'l list"
  assumes step_log: "inv s \<Longrightarrow> step s x = Inr s' \<Longrightarrow> \<exists>l. l \<noteq> [] \<and> log s' = log s @ l"
begin

lemma run_log: "inv s \<Longrightarrow> \<exists>l. log (run_calls step s xs) = log s @ l \<and> successes step s xs \<le> length l"
proof (induction xs arbitrary: s)
  case Nil
  then show ?case by simp
next
  case (Cons x xs)
  obtain l where l: "log (run_calls step (commit s (step s x)) xs) = log (commit s (step s x)) @ l"
    "successes step (commit s (step s x)) xs \<le> length l"
    using Cons.IH [OF commit_inv [OF Cons.prems]] by blast
  show ?case
  proof (cases "step s x")
    case (Inl err)
    with l show ?thesis by simp
  next
    case (Inr s')
    obtain m where "m \<noteq> []" "log s' = log s @ m" using step_log [OF Cons.prems Inr] by blast
    then have "log (run_calls step s (x # xs)) = log s @ (m @ l)" "0 < length m"
      using l(1) Inr by simp_all
    moreover from this(2) have "successes step s (x # xs) \<le> length (m @ l)"
      using l(2) Inr by (cases m) simp_all
    ultimately show ?thesis by blast
  qed
qed

lemma log_prefix: "inv s \<Longrightarrow> \<exists>l. log (run_calls step s xs) = log s @ l"
  using run_log by blast

end

text \<open>
  Calls that keep a table of rows: what holds of every row and of their keys, and how a call may
  move a row. No call removes one.
\<close>

definition table_ok :: "('r \<Rightarrow> bool) \<Rightarrow> ('r \<Rightarrow> 'k) \<Rightarrow> 'r table \<Rightarrow> bool" where
  "table_ok ok key t \<longleftrightarrow> tbl_wf t \<and> tbl_unique (\<lambda>_. True) key t \<and> tbl_all ok t"

definition table_moved :: "('r \<Rightarrow> bool) \<Rightarrow> ('r \<Rightarrow> 'k) \<Rightarrow> ('r \<Rightarrow> 'r \<Rightarrow> bool) \<Rightarrow> 'r table \<Rightarrow> 'r table \<Rightarrow> bool" where
  "table_moved ok key mv t t' \<longleftrightarrow> table_ok ok key t' \<and>
     (\<forall>k r. tbl_get t k = Some r \<longrightarrow> (\<exists>s. tbl_get t' k = Some s \<and> mv r s))"

lemma table_okD:
  assumes "table_ok ok key t"
  shows "tbl_wf t" and "tbl_unique (\<lambda>_. True) key t" and "tbl_get t k = Some r \<Longrightarrow> ok r"
  using assms by (auto simp: table_ok_def dest: tbl_allD)

lemma table_ok_empty [simp]: "table_ok ok key tbl_empty"
  by (simp add: table_ok_def)

lemma table_moved_same: "table_ok ok key t \<Longrightarrow> (\<And>r. mv r r) \<Longrightarrow> table_moved ok key mv t t"
  by (auto simp: table_moved_def)

lemma table_ok_put:
  "table_ok ok key t \<Longrightarrow> tbl_get t k = Some r \<Longrightarrow> key s = key r \<Longrightarrow> ok s \<Longrightarrow> table_ok ok key (tbl_put k s t)"
  by (auto simp: table_ok_def intro: tbl_unique_put tbl_all_put)

lemma table_moved_put:
  "table_ok ok key t \<Longrightarrow> tbl_get t k = Some r \<Longrightarrow> key s = key r \<Longrightarrow> ok s \<Longrightarrow> mv r s \<Longrightarrow> (\<And>r. mv r r) \<Longrightarrow>
     table_moved ok key mv t (tbl_put k s t)"
  by (auto simp: table_moved_def table_ok_put tbl_get_put)

lemma table_ok_insert:
  "table_ok ok key t \<Longrightarrow> ok r \<Longrightarrow> \<not> tbl_exists (\<lambda>_ b. key b = key r) t \<Longrightarrow> table_ok ok key (tbl_insert r t)"
  by (auto simp: table_ok_def intro: tbl_unique_insert tbl_all_insert)

lemma table_moved_insert:
  "table_ok ok key t \<Longrightarrow> ok r \<Longrightarrow> \<not> tbl_exists (\<lambda>_ b. key b = key r) t \<Longrightarrow> (\<And>r. mv r r) \<Longrightarrow>
     table_moved ok key mv t (tbl_insert r t)"
  using table_ok_insert [of ok key t r]
  by (auto simp: table_moved_def tbl_get_insert table_okD(1) dest: tbl_get_lt [OF table_okD(1)])

lemma table_moved_trans:
  assumes "table_moved ok key mv t t'" and "table_moved ok key mv t' t''"
    and "\<And>a b c. mv a b \<Longrightarrow> mv b c \<Longrightarrow> mv a c"
  shows "table_moved ok key mv t t''"
  using assms unfolding table_moved_def by meson

lemma table_moved_mono:
  "table_moved ok key mv t t' \<Longrightarrow> (\<And>a b. mv a b \<Longrightarrow> mv' a b) \<Longrightarrow> table_moved ok key mv' t t'"
  unfolding table_moved_def by meson

text \<open>\<open>get_or_create\<close>: the row with that key, or a new one; the key, the row and the table.\<close>

definition get_or_create :: "('r \<Rightarrow> bool) \<Rightarrow> 'r \<Rightarrow> 'r table \<Rightarrow> (nat \<times> 'r) \<times> 'r table" where
  "get_or_create P r t =
     (case tbl_where (\<lambda>_. P) t of [] \<Rightarrow> ((tbl_next t, r), tbl_insert r t) | x # _ \<Rightarrow> (x, t))"

lemma get_or_create_result:
  assumes "get_or_create P r t = ((k, x), t')" and "tbl_wf t"
  shows "tbl_get t k = Some x \<and> P x \<and> t' = t \<or>
    k = tbl_next t \<and> x = r \<and> t' = tbl_insert r t \<and> \<not> tbl_exists (\<lambda>_. P) t"
proof (cases "tbl_where (\<lambda>_. P) t")
  case Nil
  then have "\<not> tbl_exists (\<lambda>_. P) t" by (auto simp: tbl_exists_iff tbl_where_def filter_empty_conv)
  with Nil assms(1) show ?thesis by (auto simp: get_or_create_def)
next
  case (Cons y ys)
  then have "y \<in> set (tbl_where (\<lambda>_. P) t)" by simp
  with Cons assms show ?thesis by (auto simp: get_or_create_def tbl_get_mem)
qed

text \<open>Get or create, then save the row: a table in order stays in order.\<close>

lemma table_moved_get_or_create:
  assumes ok: "table_ok ok key t" and goc: "get_or_create P r t = ((k, x), t')"
    and P: "\<And>y. P y \<longleftrightarrow> key y = key r" and new: "ok r" and refl: "\<And>r. mv r r"
    and s: "key s = key x" "ok s" and mv: "ok x \<Longrightarrow> mv x s"
  shows "table_moved ok key mv t (tbl_put k s t') \<and> tbl_get (tbl_put k s t') k = Some s"
  using get_or_create_result [OF goc table_okD(1) [OF ok]]
proof
  assume "tbl_get t k = Some x \<and> P x \<and> t' = t"
  then show ?thesis using table_moved_put [OF ok _ s mv refl] table_okD(3) [OF ok] by (simp add: tbl_get_put)
next
  assume new_row: "k = tbl_next t \<and> x = r \<and> t' = tbl_insert r t \<and> \<not> tbl_exists (\<lambda>_. P) t"
  have "P = (\<lambda>b. key b = key r)" using P by blast
  with new_row have absent: "\<not> tbl_exists (\<lambda>_ b. key b = key r) t" by simp
  note wf = table_okD(1) [OF ok]
  have ins: "table_ok ok key t'" using table_ok_insert [OF ok new absent] new_row by simp
  have got: "tbl_get t' k = Some x" using new_row by (simp add: tbl_get_insert [OF wf])
  have "table_ok ok key (tbl_put k s t')" by (rule table_ok_put [OF ins got s])
  moreover have "tbl_get (tbl_put k s t') j = Some b" if "tbl_get t j = Some b" for j b
    using that new_row tbl_get_fresh [OF wf] by (auto simp: tbl_get_put tbl_get_insert [OF wf])
  ultimately show ?thesis using refl got by (auto simp: table_moved_def tbl_get_put)
qed

locale table_flow =
  fixes step :: "'s \<Rightarrow> 'o \<Rightarrow> 'e + 's"
    and rows :: "'s \<Rightarrow> 'r table"
    and ok :: "'r \<Rightarrow> bool"
    and key :: "'r \<Rightarrow> 'k"
    and mv :: "'r \<Rightarrow> 'r \<Rightarrow> bool"
  assumes step_moved: "table_ok ok key (rows s) \<Longrightarrow> step s x = Inr s' \<Longrightarrow> table_moved ok key mv (rows s) (rows s')"
    and mv_refl: "mv r r"

sublocale table_flow \<subseteq> safe_system step "\<lambda>s. table_ok ok key (rows s)"
  by unfold_locales (auto simp: table_moved_def dest: step_moved)

context table_flow
begin

lemma commit_row:
  assumes "table_ok ok key (rows s)" and "tbl_get (rows s) k = Some r"
  obtains r' where "tbl_get (rows (commit s (step s x))) k = Some r'" and "mv r r'"
proof (cases "step s x")
  case (Inl e)
  with assms(2) mv_refl that show thesis by simp
next
  case (Inr s')
  with step_moved [OF assms(1) Inr] assms(2) that show thesis by (auto simp: table_moved_def)
qed

lemma run_row:
  "table_ok ok key (rows s) \<Longrightarrow> tbl_get (rows s) k = Some r \<Longrightarrow>
     \<exists>r'. tbl_get (rows (run_calls step s xs)) k = Some r' \<and> mv\<^sup>*\<^sup>* r r'"
proof (induction xs arbitrary: s r)
  case Nil
  then show ?case by auto
next
  case (Cons x xs)
  obtain q where q: "tbl_get (rows (commit s (step s x))) k = Some q" "mv r q"
    using commit_row [OF Cons.prems] .
  from Cons.IH [OF commit_inv [OF Cons.prems(1)] q(1)] q(2) show ?case
    by (auto intro: converse_rtranclp_into_rtranclp)
qed

lemma states_row:
  "table_ok ok key (rows s) \<Longrightarrow> tbl_get (rows s) k = Some r \<Longrightarrow> t \<in> set (call_states step s xs) \<Longrightarrow>
     \<exists>r'. tbl_get (rows t) k = Some r' \<and> mv\<^sup>*\<^sup>* r r'"
proof (induction xs arbitrary: s r)
  case Nil
  then show ?case by auto
next
  case (Cons x xs)
  obtain q where q: "tbl_get (rows (commit s (step s x))) k = Some q" "mv r q"
    using commit_row [OF Cons.prems(1,2)] .
  show ?case
  proof (cases "t = s")
    case True
    with Cons.prems(2) show ?thesis by auto
  next
    case False
    then have "t \<in> set (call_states step (commit s (step s x)) xs)" using Cons.prems(3) by simp
    from Cons.IH [OF commit_inv [OF Cons.prems(1)] q(1) this] q(2) show ?thesis
      by (auto intro: converse_rtranclp_into_rtranclp)
  qed
qed

text \<open>
  If a feature of a row can only change while the row is open, then a run that changes it passes
  through a state in which the row is open.
\<close>

lemma change_needs_open:
  assumes closed: "\<And>r s. mv r s \<Longrightarrow> \<not> open_row r \<Longrightarrow> f s = f r"
    and "table_ok ok key (rows s)" and "tbl_get (rows s) k = Some r"
    and "tbl_get (rows (run_calls step s xs)) k = Some r'" and "f r' \<noteq> f r"
  shows "\<exists>t \<in> set (call_states step s xs). \<exists>q. tbl_get (rows t) k = Some q \<and> open_row q"
  using assms(2-)
proof (induction xs arbitrary: s r)
  case Nil
  then show ?case by simp
next
  case (Cons x xs)
  show ?case
  proof (cases "open_row r")
    case True
    with Cons.prems(2) show ?thesis by auto
  next
    case False
    obtain q where q: "tbl_get (rows (commit s (step s x))) k = Some q" "mv r q"
      using commit_row [OF Cons.prems(1,2)] .
    have "f q = f r" by (rule closed [OF q(2) False])
    then have "\<exists>t \<in> set (call_states step (commit s (step s x)) xs). \<exists>q. tbl_get (rows t) k = Some q \<and> open_row q"
      using Cons.IH [OF commit_inv [OF Cons.prems(1)] q(1)] Cons.prems(3,4) by simp
    then show ?thesis by auto
  qed
qed

text \<open>A property of rows that no move leaves holds from then on.\<close>

lemma row_absorbing:
  assumes "\<And>r s. mv r s \<Longrightarrow> P r \<Longrightarrow> P s"
    and "table_ok ok key (rows s)" and "tbl_get (rows s) k = Some r" and "P r"
  shows "\<exists>r'. tbl_get (rows (run_calls step s xs)) k = Some r' \<and> P r'"
proof -
  obtain r' where r': "tbl_get (rows (run_calls step s xs)) k = Some r'" "mv\<^sup>*\<^sup>* r r'"
    using run_row [OF assms(2,3)] by blast
  from r'(2) assms(4) have "P r'" by (induction rule: rtranclp_induct) (auto dest: assms(1))
  with r'(1) show ?thesis by blast
qed

end

end
