(* ===== verification/Values.thy ===== *)
theory Values
  imports Prelude
begin

text \<open>
  The library values the services compute with: calendar dates (\<open>datetime.date\<close>), exact
  decimals (\<open>decimal.Decimal\<close>, as rationals), and the string methods they call. Everything
  here belongs to Python's standard library or to the database's column types, so nothing
  in this theory is mapped to the program's own code.
\<close>

section \<open>Dates\<close>

datatype date = Date (date_year: nat) (date_month: nat) (date_day: nat)

instantiation date :: linorder
begin

definition less_eq_date :: "date \<Rightarrow> date \<Rightarrow> bool" where
  "less_eq_date a b \<longleftrightarrow> date_year a < date_year b \<or> date_year a = date_year b \<and>
     (date_month a < date_month b \<or> date_month a = date_month b \<and> date_day a \<le> date_day b)"

definition less_date :: "date \<Rightarrow> date \<Rightarrow> bool" where
  "less_date a b \<longleftrightarrow> a \<le> b \<and> a \<noteq> (b::date)"

lemma less_eq_date_refl: "(a::date) \<le> a"
  by (simp add: less_eq_date_def)

lemma less_eq_date_trans: "(a::date) \<le> b \<Longrightarrow> b \<le> c \<Longrightarrow> a \<le> c"
  by (auto simp: less_eq_date_def)

lemma less_eq_date_antisym: "(a::date) \<le> b \<Longrightarrow> b \<le> a \<Longrightarrow> a = b"
  by (cases a; cases b) (auto simp: less_eq_date_def)

lemma less_eq_date_linear: "(a::date) \<le> b \<or> b \<le> a"
  by (auto simp: less_eq_date_def)

instance
proof
  fix a b c :: date
  show "a < b \<longleftrightarrow> a \<le> b \<and> \<not> b \<le> a"
    by (metis less_date_def less_eq_date_antisym less_eq_date_linear)
  show "a \<le> a" by (rule less_eq_date_refl)
  show "a \<le> b \<Longrightarrow> b \<le> c \<Longrightarrow> a \<le> c" by (rule less_eq_date_trans)
  show "a \<le> b \<Longrightarrow> b \<le> a \<Longrightarrow> a = b" by (rule less_eq_date_antisym)
  show "a \<le> b \<or> b \<le> a" by (rule less_eq_date_linear)
qed

end

lemmas date_order_defs = less_date_def less_eq_date_def

definition leap_year :: "nat \<Rightarrow> bool" where
  "leap_year y \<longleftrightarrow> 4 dvd y \<and> (\<not> 100 dvd y \<or> 400 dvd y)"

definition days_in_month :: "nat \<Rightarrow> nat \<Rightarrow> nat" where
  "days_in_month y m =
     (if m = 2 then (if leap_year y then 29 else 28)
      else if m \<in> {4, 6, 9, 11} then 30 else 31)"

definition valid_date :: "date \<Rightarrow> bool" where
  "valid_date d \<longleftrightarrow> 1 \<le> date_month d \<and> date_month d \<le> 12 \<and>
     1 \<le> date_day d \<and> date_day d \<le> days_in_month (date_year d) (date_month d)"

definition month_start :: "date \<Rightarrow> date" where
  \<comment> \<open>\<open>d.replace(day=1)\<close>\<close>
  "month_start d = Date (date_year d) (date_month d) 1"

definition next_day :: "date \<Rightarrow> date" where
  "next_day d =
     (if date_day d < days_in_month (date_year d) (date_month d)
      then Date (date_year d) (date_month d) (Suc (date_day d))
      else if date_month d < 12 then Date (date_year d) (Suc (date_month d)) 1
      else Date (Suc (date_year d)) 1 1)"

definition prev_day :: "date \<Rightarrow> date" where
  "prev_day d =
     (if 1 < date_day d then Date (date_year d) (date_month d) (date_day d - 1)
      else if 1 < date_month d
      then Date (date_year d) (date_month d - 1) (days_in_month (date_year d) (date_month d - 1))
      else Date (date_year d - 1) 12 31)"

definition add_days :: "int \<Rightarrow> date \<Rightarrow> date" where
  \<comment> \<open>\<open>d + timedelta(days=n)\<close>\<close>
  "add_days n d = (if 0 \<le> n then (next_day ^^ nat n) d else (prev_day ^^ nat (- n)) d)"

text \<open>\<open>datetime.time\<close>, to the second.\<close>

datatype clock = Clock (clock_hour: nat) (clock_minute: nat) (clock_second: nat)

definition valid_clock :: "clock \<Rightarrow> bool" where
  "valid_clock t \<longleftrightarrow> clock_hour t < 24 \<and> clock_minute t < 60 \<and> clock_second t < 60"

lemma month_start_idem [simp]: "month_start (month_start d) = month_start d"
  by (simp add: month_start_def)

lemma month_start_day [simp]: "date_day (month_start d) = 1"
  by (simp add: month_start_def)

lemma month_start_le: "1 \<le> date_day d \<Longrightarrow> month_start d \<le> d"
  by (simp add: month_start_def less_eq_date_def)

lemma days_in_month_bounds: "28 \<le> days_in_month y m" "days_in_month y m \<le> 31"
  by (simp_all add: days_in_month_def)

lemma valid_next_day: "valid_date d \<Longrightarrow> valid_date (next_day d)"
  using days_in_month_bounds(1) [of "date_year d" "Suc (date_month d)"]
  by (auto simp: valid_date_def next_day_def days_in_month_def)

lemma next_day_greater: "valid_date d \<Longrightarrow> d < next_day d"
  by (cases d) (auto simp: valid_date_def next_day_def date_order_defs)

lemma prev_day_less: "valid_date d \<Longrightarrow> 1 < date_year d \<Longrightarrow> prev_day d < d"
  by (cases d) (auto simp: valid_date_def prev_day_def date_order_defs)

section \<open>Decimals\<close>

text \<open>
  What \<open>DecimalField(max_digits=m, decimal_places=p)\<close> accepts: at most \<open>p\<close> decimals and at
  most \<open>m - p\<close> digits before the point. Decimals are exact rationals, so trailing zeros are
  not distinguished.
\<close>

definition decimal_fits :: "nat \<Rightarrow> nat \<Rightarrow> rat \<Rightarrow> bool" where
  "decimal_fits m p q \<longleftrightarrow> of_int \<lfloor>q * 10 ^ p\<rfloor> = q * 10 ^ p \<and> \<bar>q\<bar> < 10 ^ (m - p)"

text \<open>
  What a numeric column of the database does to a value with too many decimals: it rounds,
  by a rule of the database. All the services rely on is that rounding keeps the order and
  leaves every value the column can hold alone.
\<close>

definition numeric_rounding :: "(rat \<Rightarrow> rat) \<Rightarrow> bool" where
  "numeric_rounding rnd \<longleftrightarrow> (\<forall>x y. x \<le> y \<longrightarrow> rnd x \<le> rnd y) \<and> (\<forall>x. decimal_fits 10 2 x \<longrightarrow> rnd x = x) \<and>
     (\<forall>x. rnd (rnd x) = rnd x)"

lemma numeric_rounding_mono: "numeric_rounding rnd \<Longrightarrow> x \<le> y \<Longrightarrow> rnd x \<le> rnd y"
  and numeric_rounding_idem: "numeric_rounding rnd \<Longrightarrow> rnd (rnd x) = rnd x"
  and numeric_rounding_fits: "numeric_rounding rnd \<Longrightarrow> decimal_fits 10 2 x \<Longrightarrow> rnd x = x"
  by (simp_all add: numeric_rounding_def)

lemma numeric_rounding_nonneg: "numeric_rounding rnd \<Longrightarrow> 0 \<le> x \<Longrightarrow> 0 \<le> rnd x"
  using numeric_rounding_mono [of rnd 0 x] numeric_rounding_fits [of rnd 0] by (simp add: decimal_fits_def)

text \<open>A value not above a stored one is still not above it once stored.\<close>

lemma numeric_rounding_cap: "numeric_rounding rnd \<Longrightarrow> x \<le> c \<Longrightarrow> rnd c = c \<Longrightarrow> rnd x \<le> c"
  using numeric_rounding_mono [of rnd x c] by simp

section \<open>Strings\<close>

definition is_space :: "char \<Rightarrow> bool" where
  "is_space c \<longleftrightarrow> of_char c \<in> {9, 10, 11, 12, 13, 28, 29, 30, 31, 32, 133, 160 :: nat}"

definition is_digit :: "char \<Rightarrow> bool" where
  "is_digit c \<longleftrightarrow> 48 \<le> (of_char c :: nat) \<and> (of_char c :: nat) \<le> 57"

definition strip :: "string \<Rightarrow> string" where
  "strip s = rev (dropWhile is_space (rev (dropWhile is_space s)))"

definition lower_char :: "char \<Rightarrow> char" where
  "lower_char c = (if 65 \<le> (of_char c :: nat) \<and> (of_char c :: nat) \<le> 90 then char_of ((of_char c :: nat) + 32) else c)"

definition lower :: "string \<Rightarrow> string" where
  "lower s = map lower_char s"

definition upper_char :: "char \<Rightarrow> char" where
  "upper_char c = (if 97 \<le> (of_char c :: nat) \<and> (of_char c :: nat) \<le> 122 then char_of ((of_char c :: nat) - 32) else c)"

definition upper :: "string \<Rightarrow> string" where
  "upper s = map upper_char s"

text \<open>
  \<open>Path(name).suffix.lower().lstrip(".")\<close> of a name without slashes: what follows the last
  dot, unless that dot is the first or the last character.
\<close>

definition file_extension :: "string \<Rightarrow> string" where
  "file_extension name =
     (let ext = rev (takeWhile (\<lambda>c. c \<noteq> CHR ''.'') (rev name));
          rest = dropWhile (\<lambda>c. c \<noteq> CHR ''.'') (rev name)
      in if 1 < length rest then map lower_char ext else [])"

definition newline :: string where
  "newline = [CHR 0x0A]"

text \<open>\<open>(old + "\n" if old else "") + new\<close>, as the services append to a notes column.\<close>

definition append_line :: "string \<Rightarrow> string \<Rightarrow> string" where
  "append_line old new = (if old = [] then [] else old @ newline) @ new"

fun str_nat :: "nat \<Rightarrow> string" where
  "str_nat n = (if n < 10 then [char_of (48 + n)] else str_nat (n div 10) @ [char_of (48 + n mod 10)])"

declare str_nat.simps [simp del]

text \<open>The decimal notation can be read back, so no two keys share one.\<close>

definition read_nat :: "string \<Rightarrow> nat" where
  "read_nat s = foldl (\<lambda>n c. 10 * n + (of_char c - 48)) 0 s"

lemma digit_value: "d < 10 \<Longrightarrow> of_char (char_of (48 + d) :: char) - 48 = (d :: nat)"
  by simp

lemma read_str_nat: "read_nat (str_nat n) = n"
proof (induction n rule: str_nat.induct)
  case (1 n)
  show ?case
  proof (cases "n < 10")
    case True
    then show ?thesis by (subst str_nat.simps) (simp add: read_nat_def)
  next
    case False
    then have "read_nat (str_nat n) = 10 * read_nat (str_nat (n div 10)) + n mod 10"
      by (subst str_nat.simps) (simp add: read_nat_def)
    then show ?thesis using 1 [OF False] by simp
  qed
qed

lemma str_nat_inj [simp]: "str_nat m = str_nat n \<longleftrightarrow> m = n"
  by (metis read_str_nat)

text \<open>\<open>date.isoformat()\<close>: four digits, two digits, two digits.\<close>

definition zero_pad :: "nat \<Rightarrow> string \<Rightarrow> string" where
  "zero_pad w s = replicate (w - length s) (CHR ''0'') @ s"

definition iso_date :: "date \<Rightarrow> string" where
  "iso_date x = zero_pad 4 (str_nat (date_year x)) @ ''-'' @ zero_pad 2 (str_nat (date_month x)) @
     ''-'' @ zero_pad 2 (str_nat (date_day x))"

definition text_column :: "bool \<Rightarrow> nat \<Rightarrow> string \<Rightarrow> bool" where
  \<comment> \<open>\<open>CharField(max_length=n)\<close>, with \<open>blank\<close> allowed or not\<close>
  "text_column blank n s \<longleftrightarrow> (s = [] \<longrightarrow> blank) \<and> length s \<le> n"

text \<open>An optional primary key in a condition: \<open>None\<close> and \<open>0\<close> are false.\<close>

definition truthy_id :: "nat option \<Rightarrow> bool" where
  "truthy_id k \<longleftrightarrow> k \<noteq> None \<and> k \<noteq> Some 0"

lemma append_line_suffix: "\<exists>p. append_line old new = p @ new"
  by (simp add: append_line_def)

lemma append_line_prefix: "take (length old) (append_line old new) = old"
  by (simp add: append_line_def)

end
