(* ===== verification/Rows.thy ===== *)
theory Rows
  imports Values
begin

text \<open>
  The rows of \<open>apps/site_management/models.py\<close> behind the workforce, the inspections, the
  reporting chain, the personal rosters, the remuneration forms and the conversations, with
  their enumerations. As in \<open>Schema\<close>, a row keeps the columns of the source except the
  automatic timestamps, and a foreign key is the primary key it stores.
\<close>

section \<open>Cleaners\<close>

datatype cleaner_status = CL_APPLICANT | CL_TRAINEE | CL_ACTIVE | CL_INACTIVE

datatype id_type = ID_BIRTH_CERTIFICATE | ID_NIDA | ID_ZANZIBAR

datatype gender = G_MALE | G_FEMALE | G_OTHER | G_UNSPECIFIED

datatype document_type = DOC_BIRTH_CERTIFICATE | DOC_NIDA | DOC_ZANZIBAR_ID | DOC_PROFILE_PHOTO | DOC_OTHER

datatype document_status = DS_PENDING | DS_VERIFIED | DS_REJECTED

datatype cleaner_assignment_type = CT_FULL_TIME | CT_SHIFT

datatype cleaner_assignment_status = CA_DRAFT | CA_ACTIVE | CA_ENDED | CA_SUSPENDED

datatype trainee_status = TP_IN_TRAINING | TP_EXTENDED | TP_PASSED | TP_FAILED | TP_DROPPED

text \<open>
  An uploaded file, by what the validators and the rows read of it. The framework keeps the
  last component of the name only, so it has no slash.
\<close>

record upload =
  up_name :: string
  up_content_type :: string
  up_size :: nat
  up_content :: string

record cleaner =
  cl_first_name :: string
  cl_last_name :: string
  cl_id_type :: id_type
  cl_id_number :: string
  cl_gender :: gender
  cl_birth_date :: date
  cl_living_location :: string
  cl_phone_number :: string
  cl_near_person_name :: string
  cl_near_person_relationship :: string
  cl_near_person_phone :: string
  cl_status :: cleaner_status
  cl_registration_date :: date
  cl_notes :: string
  cl_created_by :: "nat option"
  cl_updated_by :: "nat option"

record cleaner_document =
  cd_cleaner :: nat
  cd_document_type :: document_type
  cd_document_number :: string
  cd_file :: upload
  cd_original_filename :: string
  cd_content_type :: string
  cd_size_bytes :: nat
  cd_uploaded_by :: "nat option"
  cd_file_hash :: string
  cd_status :: document_status
  cd_verified_by :: "nat option"
  cd_verified_at :: "nat option"
  cd_rejection_reason :: string
  cd_expires_at :: "date option"
  cd_is_primary_id :: bool
  cd_created_by :: "nat option"
  cd_updated_by :: "nat option"

record cleaner_site_assignment =
  csa_cleaner :: nat
  csa_site :: nat
  csa_assignment_type :: cleaner_assignment_type
  csa_start_date :: date
  csa_end_date :: "date option"
  csa_status :: cleaner_assignment_status
  csa_assigned_by :: "nat option"
  csa_notes :: string
  csa_created_by :: "nat option"
  csa_updated_by :: "nat option"

record cleaner_shift_assignment =
  cha_assignment :: nat
  cha_shift :: nat
  cha_effective_from :: date
  cha_effective_to :: "date option"
  cha_is_active :: bool
  cha_created_by :: "nat option"
  cha_updated_by :: "nat option"

record area_schedule =
  sc_assignment :: nat
  sc_site_area :: nat
  sc_operational_role :: nat
  sc_date :: date
  sc_start_time :: clock
  sc_end_time :: clock
  sc_shift :: "nat option"
  sc_notes :: string
  sc_is_active :: bool
  sc_created_by :: "nat option"
  sc_updated_by :: "nat option"

record trainee_program =
  tp_cleaner :: nat
  tp_site :: nat
  tp_supervisor :: "nat option"
  tp_start_date :: date
  tp_expected_end_date :: date
  tp_actual_end_date :: "date option"
  tp_status :: trainee_status
  tp_notes :: string
  tp_created_by :: "nat option"
  tp_updated_by :: "nat option"

record trainee_evaluation =
  te_program :: nat
  te_evaluation_date :: date
  te_attendance_score :: nat
  te_performance_score :: nat
  te_behavior_score :: nat
  te_skill_score :: nat
  te_total_score :: "nat option"
  te_comments :: string
  te_is_final :: bool
  te_evaluated_by :: "nat option"

section \<open>Site configuration\<close>

record site_shift =
  sh_site :: nat
  sh_shift_name :: string
  sh_shift_code :: string
  sh_start_time :: clock
  sh_end_time :: clock
  sh_effective_days :: "string list"
  sh_sequence :: nat
  sh_description :: string
  sh_is_active :: bool
  sh_created_by :: "nat option"
  sh_updated_by :: "nat option"

record site_area =
  sa_site :: nat
  sa_name :: string
  sa_code :: string
  sa_floor :: string
  sa_description :: string
  sa_is_active :: bool
  sa_created_by :: "nat option"
  sa_updated_by :: "nat option"

record operational_role =
  op_name :: string
  op_code :: string
  op_description :: string
  op_is_active :: bool
  op_created_by :: "nat option"
  op_updated_by :: "nat option"

record department =
  dp_site :: nat
  dp_name :: string
  dp_description :: string
  dp_is_active :: bool
  dp_created_by :: "nat option"

datatype asset_condition = AC_OPERATIONAL | AC_UNDER_MAINTENANCE | AC_RETIRED

record asset =
  ac_site :: nat
  ac_category :: "nat option"
  ac_name :: string
  ac_serial_number :: string
  ac_quantity :: nat
  ac_condition :: asset_condition
  ac_is_active :: bool

datatype assignment_role = AR_SITE_MANAGER | AR_STAFF

record staff_assignment =
  sf_site :: nat
  sf_user :: nat
  sf_role :: assignment_role
  sf_is_primary :: bool
  sf_assigned_by :: "nat option"

section \<open>Inspections\<close>

datatype inspection_frequency = FR_DAILY | FR_WEEKLY | FR_MONTHLY | FR_MANUAL

datatype inspection_item_type = IT_YES_NO | IT_PASS_FAIL | IT_SCORE | IT_TEXT | IT_PHOTO

datatype inspection_overall = OV_PASSED | OV_FAILED | OV_NEEDS_ATTENTION

datatype inspection_status = IN_DRAFT | IN_SUBMITTED | IN_REVIEWED | IN_RETURNED

record inspection_template =
  tm_name :: string
  tm_description :: string
  tm_site :: "nat option"
  tm_area :: "nat option"
  tm_frequency :: inspection_frequency
  tm_is_active :: bool
  tm_created_by :: "nat option"
  tm_updated_by :: "nat option"

record template_item =
  ti_template :: nat
  ti_label :: string
  ti_type :: inspection_item_type
  ti_required :: bool
  ti_sequence :: nat
  ti_help_text :: string

text \<open>An empty \<open>overall_status\<close> is \<open>None\<close>.\<close>

record inspection =
  in_site :: nat
  in_area :: nat
  in_template :: nat
  in_inspection_date :: date
  in_shift :: "nat option"
  in_inspected_by :: "nat option"
  in_overall_status :: "inspection_overall option"
  in_score :: "rat option"
  in_notes :: string
  in_status :: inspection_status
  in_submitted_at :: "nat option"
  in_created_by :: "nat option"
  in_updated_by :: "nat option"

record inspection_result =
  ir_inspection :: nat
  ir_template_item :: nat
  ir_responsible_cleaner :: "nat option"
  ir_value_text :: string
  ir_value_number :: "rat option"
  ir_value_boolean :: "bool option"
  ir_passed :: "bool option"
  ir_notes :: string
  ir_file :: "upload option"
  ir_original_filename :: string
  ir_content_type :: string
  ir_size_bytes :: nat
  ir_uploaded_by :: "nat option"

section \<open>The reporting chain\<close>

datatype site_report_status =
    SR_DRAFT | SR_SUBMITTED | SR_RETURNED | SR_ZONE_REVIEWED | SR_ASSISTANT_REVIEWED
  | SR_GENERAL_APPROVED | SR_MANAGEMENT_SUBMITTED

datatype zone_report_status = ZR_DRAFT | ZR_SUBMITTED | ZR_RETURNED | ZR_ASSISTANT_REVIEWED

datatype assistant_report_status = AS_DRAFT | AS_SUBMITTED | AS_RETURNED | AS_GENERAL_REVIEWED

datatype general_report_status = GR_DRAFT | GR_SUBMITTED_TO_MANAGEMENT

text \<open>The JSON aggregates of a site and a day, with the fields the code builds them with.\<close>

record attendance_summary =
  aa_total :: nat
  aa_present :: nat
  aa_late :: nat
  aa_absent :: nat
  aa_sick :: nat
  aa_leave :: nat
  aa_permission :: nat
  aa_off :: nat
  aa_rate :: rat
  aa_review :: "(string \<times> nat) list"

record store_summary =
  ss_movements :: nat
  ss_received :: nat
  ss_issued :: nat
  ss_damaged_lost :: nat
  ss_low_stock_items :: nat

record inspection_summary =
  iz_total :: nat
  iz_passed :: nat
  iz_failed :: nat
  iz_needs_attention :: nat
  iz_average_score :: rat

record trainee_summary =
  ts_in_training :: nat
  ts_extended :: nat
  ts_passed :: nat
  ts_failed :: nat
  ts_dropped :: nat
  ts_active_today :: nat

record issues_summary =
  us_raised_today :: nat
  us_open :: nat
  us_escalated :: nat
  us_urgent :: nat

record site_snapshot =
  sn_attendance :: attendance_summary
  sn_store :: store_summary
  sn_inspections :: inspection_summary
  sn_trainees :: trainee_summary
  sn_issues :: issues_summary
  sn_generated_at :: nat
  sn_challenges :: "string list option"

text \<open>An empty JSON object is \<open>None\<close>.\<close>

record site_report =
  sr_site :: nat
  sr_report_date :: date
  sr_created_by :: "nat option"
  sr_attendance_summary :: "attendance_summary option"
  sr_store_summary :: "store_summary option"
  sr_inspection_summary :: "inspection_summary option"
  sr_trainee_summary :: "trainee_summary option"
  sr_issues_summary :: "issues_summary option"
  sr_general_comments :: string
  sr_challenges :: "string list"
  sr_status :: site_report_status
  sr_snapshot :: "site_snapshot option"
  sr_submitted_at :: "nat option"
  sr_returned_reason :: string
  sr_updated_by :: "nat option"

text \<open>An entry of a zone summary for one site report, and an extracted problem.\<close>

record zone_entry =
  ze_site :: nat
  ze_site_name :: string
  ze_status :: site_report_status
  ze_attendance_rate :: rat
  ze_issues :: "issues_summary option"
  ze_inspections :: "inspection_summary option"

record extracted_issue =
  xi_site :: nat
  xi_site_name :: string
  xi_urgent :: nat
  xi_escalated :: nat
  xi_open :: nat

record zone_report =
  zr_zone :: nat
  zr_report_date :: date
  zr_zone_supervisor :: "nat option"
  zr_summary :: string
  zr_issues_extracted :: "extracted_issue list"
  zr_site_reports :: "zone_entry list"
  zr_status :: zone_report_status
  zr_submitted_at :: "nat option"
  zr_created_by :: "nat option"
  zr_updated_by :: "nat option"

text \<open>A problem of an assistant summary names its zone as well.\<close>

type_synonym zone_problem = "nat \<times> string \<times> extracted_issue"

record assistant_report =
  as_report_date :: date
  as_supervisor :: "nat option"
  as_zone_ids :: "nat list"
  as_summary :: string
  as_problems_extracted :: "zone_problem list"
  as_recommendations :: string
  as_status :: assistant_report_status
  as_submitted_at :: "nat option"
  as_created_by :: "nat option"
  as_updated_by :: "nat option"

text \<open>A job in the management report, by the columns it copies.\<close>

record job_line =
  jl_job :: nat
  jl_title :: string
  jl_site_name :: string
  jl_status :: string
  jl_due_date :: date
  jl_assignee :: "string option"

record general_report =
  gr_report_date :: date
  gr_supervisor :: "nat option"
  gr_final_summary :: string
  gr_key_issues :: "zone_problem list"
  gr_assigned_jobs :: "job_line list"
  gr_recommendations :: string
  gr_status :: general_report_status
  gr_submitted_at :: "nat option"
  gr_created_by :: "nat option"
  gr_updated_by :: "nat option"

section \<open>Personal rosters and checklists\<close>

datatype shift_slot = SLOT_ASUBUHI | SLOT_MCHANA | SLOT_FULL_DAY

datatype checklist_kind =
    SITE_ZILIZO_TEMBELEWA | MAENEO_YALIYOKAGULIWA | KAZI_ZILIZOFANYIKA | TAARIFA_ZA_VITENDEA_KAZI

datatype review_status = CK_DRAFT | CK_SUBMITTED | CK_REVIEWED | CK_RETURNED

record timetable_entry =
  tt_supervisor :: nat
  tt_zone :: nat
  tt_site :: nat
  tt_title :: string
  tt_effective_from :: date
  tt_effective_to :: "date option"
  tt_work_days :: "string list"
  tt_off_days :: "string list"
  tt_shift_slot :: shift_slot
  tt_relief_person :: "nat option"
  tt_notes :: string
  tt_is_active :: bool
  tt_created_by :: "nat option"
  tt_updated_by :: "nat option"

text \<open>A row of a checklist table is a JSON object; it is only ever stored and copied.\<close>

type_synonym table_row = "(string \<times> string) list"

record checklist_snapshot =
  ks_table_label :: string
  ks_site_name :: string
  ks_zone_name :: string
  ks_work_date :: date
  ks_shift :: shift_slot
  ks_supervisor :: string
  ks_role :: string
  ks_entries :: "table_row list"
  ks_notes :: string

record checklist =
  ck_timetable_entry :: nat
  ck_supervisor :: nat
  ck_supervisor_role :: string
  ck_site :: nat
  ck_zone :: nat
  ck_work_date :: date
  ck_shift_slot :: shift_slot
  ck_kind :: checklist_kind
  ck_table_entries :: "table_row list"
  ck_notes :: string
  ck_status :: review_status
  ck_submitted_at :: "nat option"
  ck_reviewed_at :: "nat option"
  ck_reviewed_by :: "nat option"
  ck_return_reason :: string
  ck_snapshot :: "checklist_snapshot option"
  ck_created_by :: "nat option"
  ck_updated_by :: "nat option"

section \<open>Remuneration\<close>

datatype payment_change_status = PC_PENDING | PC_APPROVED | PC_REJECTED

record payment_profile =
  pp_cleaner :: nat
  pp_yas_zantel_phone :: string
  pp_pbz_account_number :: string
  pp_account_holder_name :: string
  pp_approved_at :: "nat option"
  pp_approved_by :: "nat option"
  pp_created_by :: "nat option"
  pp_updated_by :: "nat option"

record remuneration_snapshot_line =
  rs_cleaner_name :: string
  rs_present_days :: nat
  rs_absent_days :: nat
  rs_start_work_date :: "date option"
  rs_phone_change_recorded :: bool
  rs_account_change_recorded :: bool
  rs_holder_name_recorded :: bool

record remuneration_snapshot =
  rm_site_name :: string
  rm_period :: date
  rm_prepared_by :: string
  rm_lines :: "remuneration_snapshot_line list"

record remuneration_report =
  mr_site :: nat
  mr_period :: date
  mr_prepared_by :: nat
  mr_status :: review_status
  mr_submitted_at :: "nat option"
  mr_reviewed_at :: "nat option"
  mr_reviewed_by :: "nat option"
  mr_return_reason :: string
  mr_snapshot :: "remuneration_snapshot option"
  mr_created_by :: "nat option"
  mr_updated_by :: "nat option"

record remuneration_line =
  ml_report :: nat
  ml_cleaner :: nat
  ml_assignment :: nat
  ml_present_days :: nat
  ml_absent_days :: nat
  ml_start_work_date :: "date option"
  ml_previous_phone :: string
  ml_previous_account :: string
  ml_previous_holder_name :: string
  ml_proposed_phone :: string
  ml_proposed_account :: string
  ml_proposed_holder_name :: string
  ml_phone_change_status :: payment_change_status
  ml_account_change_status :: payment_change_status
  ml_payment_saved_by :: "nat option"
  ml_payment_saved_at :: "nat option"

section \<open>Conversations\<close>

datatype conversation_type = CV_DIRECT | CV_GROUP

datatype attachment_type = AX_DOCUMENT | AX_PDF | AX_IMAGE | AX_VOICE

record conversation =
  cv_type :: conversation_type
  cv_title :: string
  cv_direct_key :: "string option"
  cv_is_active :: bool
  cv_last_message_at :: "nat option"
  cv_created_by :: "nat option"
  cv_updated_by :: "nat option"

record membership =
  cm_conversation :: nat
  cm_user :: nat
  cm_joined_at :: nat
  cm_left_at :: "nat option"
  cm_is_active :: bool
  cm_last_read_at :: "nat option"
  cm_created_by :: "nat option"
  cm_updated_by :: "nat option"

record message =
  ms_conversation :: nat
  ms_sender :: "nat option"
  ms_body :: string
  ms_delivered_at :: "nat option"
  ms_created_by :: "nat option"
  ms_updated_by :: "nat option"

record message_attachment =
  mx_message :: nat
  mx_type :: attachment_type
  mx_file :: upload
  mx_original_filename :: string
  mx_content_type :: string
  mx_size_bytes :: nat
  mx_duration_seconds :: "nat option"
  mx_uploaded_by :: "nat option"

end
