(* ===== verification/Schema.thy ===== *)
theory Schema
  imports Rows
begin

text \<open>
  The data model: the enumerations and rows of \<open>apps/accounts/models.py\<close>,
  \<open>apps/core/models.py\<close> and \<open>apps/site_management/models.py\<close> that the modelled services
  read or write, and the database they live in. Rows keep the columns of the source
  (\<open>created_at\<close> and \<open>updated_at\<close>, which no service reads, are left out); a foreign key
  is the primary key it stores.
\<close>

section \<open>Enumerations\<close>

datatype role_code =
    SYSTEM_ADMIN | HR | STORE_MANAGER | SITE_SUPERVISOR | ZONE_SUPERVISOR
  | ASSISTANT_GENERAL_SUPERVISOR | GENERAL_SUPERVISOR | MANAGEMENT_VIEWER

datatype work_mode = WM_FULL_TIME | WM_SHIFT | WM_FULL_TIME_AND_SHIFT

datatype audit_action =
    A_CREATE | A_UPDATE | A_DELETE | A_ARCHIVE | A_RESTORE | A_STATUS_CHANGE | A_ASSIGN
  | A_UNASSIGN | A_LOGIN | A_TOKEN_CREATE | A_TOKEN_REVOKE | A_FILE_DOWNLOAD | A_EVENT_PUBLISHED

datatype event_status = EV_PENDING | EV_PUBLISHED | EV_FAILED

datatype movement_type =
    OPENING | RECEIVED | ISSUED | TRANSFER_IN | TRANSFER_OUT | RETURNED | DAMAGED | LOST | ADJUSTMENT

datatype store_type = SUPER | POWER | SITE

datatype stock_request_status =
    RQ_DRAFT | RQ_SUBMITTED | RQ_ZONE_REVIEWED | RQ_ZONE_VERIFIED | RQ_ASSISTANT_APPROVED
  | RQ_HR_PACKING | RQ_ASSEMBLED | RQ_OFFICE_PROCESSED | RQ_COMPLETED | RQ_REJECTED

datatype approval_stage =
    STG_ZONE_VERIFIED | STG_ASSISTANT_APPROVED | STG_HR_PACKED | STG_ASSEMBLED | STG_REJECTED

datatype issue_source = SRC_INSPECTION | SRC_ATTENDANCE | SRC_STORE | SRC_MANUAL | SRC_REPORT

datatype issue_category =
    CAT_CLEANING_QUALITY | CAT_MAINTENANCE | CAT_SAFETY | CAT_MATERIALS | CAT_BEHAVIOR
  | CAT_ATTENDANCE | CAT_OTHER

datatype issue_priority = PR_LOW | PR_MEDIUM | PR_HIGH | PR_URGENT

datatype issue_status =
    IS_OPEN | IS_UNDER_REVIEW | IS_ASSIGNED | IS_IN_PROGRESS | IS_COMPLETED | IS_VERIFIED
  | IS_CLOSED | IS_REOPENED

datatype job_status =
    JB_OPEN | JB_ASSIGNED | JB_IN_PROGRESS | JB_COMPLETED | JB_VERIFIED | JB_CLOSED | JB_REOPENED

datatype attendance_status =
    AT_SCHEDULED | AT_PRESENT | AT_LATE | AT_ABSENT | AT_SICK | AT_LEAVE | AT_PERMISSION | AT_OFF
  | AT_NOT_SCHEDULED

datatype attendance_review_status = RV_DRAFT | RV_SUBMITTED | RV_REVIEWED | RV_RETURNED | RV_LOCKED

section \<open>Users and the organisation\<close>

text \<open>
  \<open>u_perms\<close> are the permission strings for which Django's \<open>user.has_perm\<close> answers true.
\<close>

record user =
  u_pk :: nat
  u_role :: role_code
  u_is_superuser :: bool
  u_is_active :: bool
  u_perms :: "string list"

text \<open>
  The other columns of an account, under the key of its user: \<open>pf_other_perms\<close> are the permissions
  that do not come from the group of its role.
\<close>

record profile =
  pf_email :: string
  pf_first_name :: string
  pf_last_name :: string
  pf_phone :: string
  pf_timezone :: string
  pf_password :: string
  pf_other_perms :: "string list"

record api_token =
  tk_user :: nat
  tk_name :: string
  tk_key :: string
  tk_is_active :: bool
  tk_expires_at :: "nat option"
  tk_last_used_at :: "nat option"

text \<open>A JSON column that nothing looks into is kept as its text.\<close>

record zone =
  zn_name :: string
  zn_code :: string
  zn_description :: string
  zn_boundary :: string
  zn_is_active :: bool
  zn_created_by :: "nat option"
  zn_updated_by :: "nat option"

record site =
  si_name :: string
  si_slug :: string
  si_code :: string
  si_zone :: "nat option"
  si_site_type :: "nat option"
  si_status :: "nat option"
  si_building_name :: string
  si_location :: string
  si_description :: string
  si_address :: string
  si_city :: string
  si_region :: string
  si_country :: string
  si_postal_code :: string
  si_latitude :: "rat option"
  si_longitude :: "rat option"
  si_capacity :: nat
  si_contact_person :: string
  si_contact_email :: string
  si_contact_phone :: string
  si_work_mode :: work_mode
  si_working_days :: "string list"
  si_notes :: string
  si_is_active :: bool
  si_created_by :: "nat option"

record site_supervisor_assignment =
  ssa_user :: nat
  ssa_site :: nat
  ssa_assigned_from :: date
  ssa_assigned_to :: "date option"
  ssa_is_active :: bool
  ssa_is_primary :: bool
  ssa_created_by :: "nat option"
  ssa_updated_by :: "nat option"

record zone_supervisor_assignment =
  zsa_user :: nat
  zsa_zone :: nat
  zsa_assigned_from :: date
  zsa_assigned_to :: "date option"
  zsa_is_active :: bool
  zsa_created_by :: "nat option"
  zsa_updated_by :: "nat option"

record ags_assignment =
  ags_user :: nat
  ags_zone :: "nat option"
  ags_all_zones :: bool
  ags_assigned_from :: date
  ags_assigned_to :: "date option"
  ags_is_active :: bool
  ags_created_by :: "nat option"
  ags_updated_by :: "nat option"

section \<open>Stores\<close>

record site_store =
  st_site :: "nat option"
  st_store_name :: string
  st_store_type :: store_type
  st_parent_store :: "nat option"
  st_location :: string
  st_managed_by :: "nat option"
  st_is_active :: bool
  st_created_by :: "nat option"
  st_updated_by :: "nat option"

record company_product =
  cp_product_name :: string
  cp_product_code :: string
  cp_unit :: string
  cp_category :: string
  cp_current_unit_cost :: rat
  cp_description :: string
  cp_is_active :: bool
  cp_created_by :: "nat option"
  cp_updated_by :: "nat option"

record store_item =
  it_store :: nat
  it_product :: "nat option"
  it_item_name :: string
  it_item_code :: string
  it_unit :: string
  it_category :: string
  it_opening_stock :: rat
  it_current_stock :: rat
  it_unit_cost :: rat
  it_minimum_stock_level :: rat
  it_is_active :: bool
  it_created_by :: "nat option"
  it_updated_by :: "nat option"

record stock_transfer =
  tr_source_store :: nat
  tr_destination_store :: nat
  tr_product :: nat
  tr_source_item :: nat
  tr_destination_item :: nat
  tr_quantity :: rat
  tr_unit_cost :: rat
  tr_transfer_date :: date
  tr_notes :: string
  tr_created_by :: "nat option"
  tr_updated_by :: "nat option"

record stock_movement =
  mv_store_item :: nat
  mv_transfer :: "nat option"
  mv_movement_type :: movement_type
  mv_quantity :: rat
  mv_unit_cost :: rat
  mv_movement_date :: date
  mv_cleaner :: "nat option"
  mv_area :: "nat option"
  mv_notes :: string
  mv_recorded_by :: "nat option"
  mv_created_by :: "nat option"
  mv_updated_by :: "nat option"

record store_monthly_opening =
  mo_store_item :: nat
  mo_opening_month :: date
  mo_opening_quantity :: rat
  mo_unit_cost :: rat
  mo_opening_movement :: "nat option"
  mo_created_by :: "nat option"
  mo_updated_by :: "nat option"

record stock_request =
  rq_site :: nat
  rq_store :: nat
  rq_request_date :: date
  rq_requested_by :: "nat option"
  rq_status :: stock_request_status
  rq_notes :: string
  rq_reviewed_by :: "nat option"
  rq_reviewed_at :: "nat option"
  rq_request_month :: "date option"
  rq_created_by :: "nat option"
  rq_updated_by :: "nat option"

record stock_request_approval =
  ra_request :: nat
  ra_stage :: approval_stage
  ra_decision_by :: nat
  ra_notes :: string
  ra_created_by :: "nat option"
  ra_updated_by :: "nat option"

record stock_request_item =
  ri_request :: nat
  ri_store_item :: nat
  ri_requested_quantity :: rat
  ri_quantity_left :: rat
  ri_approved_quantity :: "rat option"
  ri_verified_quantity :: "rat option"
  ri_assistant_approved_quantity :: "rat option"
  ri_packed_quantity :: "rat option"
  ri_unit :: string
  ri_notes :: string

section \<open>Issues, jobs, attendance\<close>

record issue =
  is_title :: string
  is_description :: string
  is_source :: issue_source
  is_site :: nat
  is_area :: "nat option"
  is_cleaner :: "nat option"
  is_inspection :: "nat option"
  is_issue_category :: issue_category
  is_priority :: issue_priority
  is_status :: issue_status
  is_raised_by :: "nat option"
  is_assigned_to :: "nat option"
  is_due_date :: "date option"
  is_resolved_at :: "nat option"
  is_closed_at :: "nat option"
  is_escalation_level :: nat
  is_is_escalated :: bool
  is_created_by :: "nat option"
  is_updated_by :: "nat option"

record job =
  jb_issue :: "nat option"
  jb_job_title :: string
  jb_description :: string
  jb_site :: nat
  jb_assigned_to_user :: "nat option"
  jb_assigned_to_cleaner :: "nat option"
  jb_assigned_by :: "nat option"
  jb_due_date :: date
  jb_priority :: issue_priority
  jb_status :: job_status
  jb_completion_notes :: string
  jb_file :: "upload option"
  jb_original_filename :: string
  jb_content_type :: string
  jb_size_bytes :: nat
  jb_completed_at :: "nat option"
  jb_verified_by :: "nat option"
  jb_verified_at :: "nat option"
  jb_closed_at :: "nat option"
  jb_created_by :: "nat option"
  jb_updated_by :: "nat option"

record attendance_record =
  ar_cleaner :: nat
  ar_site :: nat
  ar_shift :: "nat option"
  ar_attendance_date :: date
  ar_status :: attendance_status
  ar_check_in_time :: "nat option"
  ar_check_out_time :: "nat option"
  ar_notes :: string
  ar_recorded_by :: "nat option"
  ar_submitted_at :: "nat option"
  ar_review_status :: attendance_review_status
  ar_return_reason :: string
  ar_created_by :: "nat option"
  ar_updated_by :: "nat option"

section \<open>Audit trail, outbox, notifications\<close>

text \<open>\<open>model_data(instance)\<close>: the row itself, tagged with its model.\<close>

datatype snapshot =
    SnapSiteSupervisor site_supervisor_assignment
  | SnapZoneSupervisor zone_supervisor_assignment
  | SnapAgs ags_assignment
  | SnapStore site_store
  | SnapProduct company_product
  | SnapItem store_item
  | SnapTransfer stock_transfer
  | SnapMovement stock_movement
  | SnapOpening store_monthly_opening
  | SnapRequest stock_request
  | SnapIssue issue
  | SnapJob job
  | SnapAttendance attendance_record
  | SnapCleaner cleaner
  | SnapDocument cleaner_document
  | SnapCleanerAssignment cleaner_site_assignment
  | SnapCleanerShift cleaner_shift_assignment
  | SnapSchedule area_schedule
  | SnapProgram trainee_program
  | SnapEvaluation trainee_evaluation
  | SnapShift site_shift
  | SnapArea site_area
  | SnapOperationalRole operational_role
  | SnapTemplate inspection_template
  | SnapInspection inspection
  | SnapResult inspection_result
  | SnapSiteReport site_report
  | SnapZoneReport zone_report
  | SnapAssistantReport assistant_report
  | SnapGeneralReport general_report
  | SnapTimetable timetable_entry
  | SnapChecklist checklist
  | SnapRemuneration remuneration_report
  | SnapRemunerationLine remuneration_line
  | SnapPaymentProfile payment_profile
  | SnapSite site
  | SnapZone zone
  | SnapFields "(string \<times> string) list"

record audit_log =
  au_user :: "nat option"
  au_action :: audit_action
  au_model_name :: string
  au_object_id :: string
  au_before_data :: "snapshot option"
  au_after_data :: "snapshot option"

text \<open>A JSON value of an event payload. Decimals and dates travel as their string form.\<close>

datatype json = JNull | JNat nat | JStr string | JDec rat | JDate date

record domain_event =
  ev_event_type :: string
  ev_aggregate_type :: string
  ev_aggregate_id :: string
  ev_payload :: "(string \<times> json) list"
  ev_schema_version :: nat
  ev_status :: event_status
  ev_created_by :: "nat option"

record notification =
  nt_recipient :: nat
  nt_actor :: "nat option"
  nt_verb :: string
  nt_object_type :: string
  nt_object_id :: string
  nt_is_read :: bool
  nt_read_at :: "nat option"
  nt_dedup_key :: string

section \<open>The database and the environment of a call\<close>

record db =
  users :: "user list"
  zones :: "zone table"
  sites :: "site table"
  supervisor_assignments :: "site_supervisor_assignment table"
  zone_supervisor_assignments :: "zone_supervisor_assignment table"
  ags_assignments :: "ags_assignment table"
  areas :: "site_area table"
  cleaners :: "cleaner table"
  cleaner_assignments :: "cleaner_site_assignment table"
  cleaner_shifts :: "cleaner_shift_assignment table"
  stores :: "site_store table"
  products :: "company_product table"
  items :: "store_item table"
  transfers :: "stock_transfer table"
  movements :: "stock_movement table"
  openings :: "store_monthly_opening table"
  requests :: "stock_request table"
  request_items :: "stock_request_item table"
  approvals :: "stock_request_approval table"
  issues :: "issue table"
  jobs :: "job table"
  attendance :: "attendance_record table"
  shifts :: "site_shift table"
  operational_roles :: "operational_role table"
  area_schedules :: "area_schedule table"
  documents :: "cleaner_document table"
  programs :: "trainee_program table"
  evaluations :: "trainee_evaluation table"
  templates :: "inspection_template table"
  template_items :: "template_item table"
  inspections :: "inspection table"
  results :: "inspection_result table"
  site_reports :: "site_report table"
  zone_reports :: "zone_report table"
  assistant_reports :: "assistant_report table"
  general_reports :: "general_report table"
  timetable :: "timetable_entry table"
  checklists :: "checklist table"
  payment_profiles :: "payment_profile table"
  remuneration_reports :: "remuneration_report table"
  remuneration_lines :: "remuneration_line table"
  conversations :: "conversation table"
  memberships :: "membership table"
  messages :: "message table"
  attachments :: "message_attachment table"
  profiles :: "profile table"
  api_tokens :: "api_token table"
  departments :: "department table"
  assets :: "asset table"
  staff_assignments :: "staff_assignment table"
  audits :: "audit_log list"
  events :: "domain_event list"
  notifications :: "notification table"

text \<open>
  What a call reads besides the database: the two calendars (\<open>datetime.date.today()\<close> and
  \<open>timezone.localdate()\<close>, which differ when the user's timezone is active), the clock, the digest function, and
  the run-time configuration (\<open>constance.config\<close>) with its fallbacks in the settings. The framework's signer
  (\<open>django.core.signing\<close>: a salt, a payload and the second it is signed in give a token, and a genuine token gives
  payload and second back), password hasher, password validators and authentication backends (an e-mail address, a
  password and the accounts give the account they belong to, if any) are parameters, and so is the random key the call draws. The clock
  counts seconds. \<open>numeric_column\<close> is the rounding of a
  two-decimal database column. \<open>django.utils.text.slugify\<close> is a parameter. The reference data that only the admin site edits
  (the keys of site types and asset categories, the keys and slugs of site statuses) is read from here too.
\<close>

record env =
  sys_today :: date
  localdate :: date
  now :: nat
  ALLOW_NEGATIVE_STOCK :: bool
  LOW_STOCK_DEFAULT :: rat
  ENABLE_NOTIFICATIONS :: bool
  MAX_SITE_SUPERVISORS_PER_SITE :: int
  JOB_COMPLETION_PHOTO_REQUIRED :: bool
  ATTENDANCE_LOCK_AFTER_DAYS :: int
  MIN_CLEANER_AGE :: int
  MAX_UPLOAD_MB :: nat
  SETTINGS_MAX_UPLOAD_MB :: nat
  ALLOWED_UPLOAD_EXTENSIONS :: "string list"
  ACCESS_TOKEN_TTL_SECONDS :: int
  REFRESH_TOKEN_TTL_SECONDS :: int
  FILE_TOKEN_TTL_SECONDS :: int
  SETTINGS_FILE_TOKEN_TTL_SECONDS :: int
  signing_dumps :: "string \<Rightarrow> (string \<times> json) list \<Rightarrow> nat \<Rightarrow> string"
  signing_loads :: "string \<Rightarrow> string \<Rightarrow> ((string \<times> json) list \<times> nat) option"
  make_password :: "string \<Rightarrow> string"
  password_valid :: "string \<Rightarrow> bool"
  auth_backend :: "string \<Rightarrow> string \<Rightarrow> db \<Rightarrow> nat option"
  token_urlsafe :: string
  numeric_column :: "rat \<Rightarrow> rat"
  sha256 :: "string \<Rightarrow> string"
  slugify :: "string \<Rightarrow> string"
  site_types :: "nat list"
  site_statuses :: "(nat \<times> string) list"
  asset_categories :: "nat list"

section \<open>Concrete instances\<close>

text \<open>An empty database and a default environment; the witnesses fill the tables they need.\<close>

definition empty_db :: db where
  "empty_db = \<lparr>users = [], zones = tbl_empty, sites = tbl_empty, supervisor_assignments = tbl_empty,
     zone_supervisor_assignments = tbl_empty, ags_assignments = tbl_empty, areas = tbl_empty,
     cleaners = tbl_empty, cleaner_assignments = tbl_empty, cleaner_shifts = tbl_empty,
     stores = tbl_empty, products = tbl_empty, items = tbl_empty, transfers = tbl_empty,
     movements = tbl_empty, openings = tbl_empty, requests = tbl_empty,
     request_items = tbl_empty, approvals = tbl_empty, issues = tbl_empty, jobs = tbl_empty,
     attendance = tbl_empty,
     shifts = tbl_empty, operational_roles = tbl_empty, area_schedules = tbl_empty,
     documents = tbl_empty, programs = tbl_empty, evaluations = tbl_empty,
     templates = tbl_empty, template_items = tbl_empty, inspections = tbl_empty,
     results = tbl_empty, site_reports = tbl_empty, zone_reports = tbl_empty,
     assistant_reports = tbl_empty, general_reports = tbl_empty, timetable = tbl_empty,
     checklists = tbl_empty, payment_profiles = tbl_empty, remuneration_reports = tbl_empty,
     remuneration_lines = tbl_empty, conversations = tbl_empty, memberships = tbl_empty,
     messages = tbl_empty, attachments = tbl_empty, profiles = tbl_empty, api_tokens = tbl_empty,
     departments = tbl_empty, assets = tbl_empty, staff_assignments = tbl_empty, audits = [], events = [], notifications = tbl_empty\<rparr>"

definition default_env :: env where
  "default_env = \<lparr>sys_today = Date 2025 6 10, localdate = Date 2025 6 10, now = 1000,
     ALLOW_NEGATIVE_STOCK = False, LOW_STOCK_DEFAULT = 5, ENABLE_NOTIFICATIONS = True,
     MAX_SITE_SUPERVISORS_PER_SITE = 2, JOB_COMPLETION_PHOTO_REQUIRED = False,
     ATTENDANCE_LOCK_AFTER_DAYS = 7, MIN_CLEANER_AGE = 18, MAX_UPLOAD_MB = 10, SETTINGS_MAX_UPLOAD_MB = 10,
     ALLOWED_UPLOAD_EXTENSIONS = [''pdf'', ''jpg'', ''jpeg'', ''png'', ''webp''],
     ACCESS_TOKEN_TTL_SECONDS = 1800, REFRESH_TOKEN_TTL_SECONDS = 604800, FILE_TOKEN_TTL_SECONDS = 900,
     SETTINGS_FILE_TOKEN_TTL_SECONDS = 900, signing_dumps = (\<lambda>_ _ _. []), signing_loads = (\<lambda>_ _. None),
     make_password = (\<lambda>s. s), password_valid = (\<lambda>s. 8 \<le> length s),
     auth_backend = (\<lambda>_ _ _. None), token_urlsafe = ''k1'',
     numeric_column = (\<lambda>q. q), sha256 = (\<lambda>s. s), slugify = (\<lambda>s. s),
     site_types = [], site_statuses = [], asset_categories = []\<rparr>"

end
