(* ===== verification/Core.thy ===== *)
theory Core
  imports Schema
begin

text \<open>
  The shared kernel: the audit trail and the domain-event outbox of
  \<open>apps/core/services.py\<close>, the upload validators of \<open>apps/core/files.py\<close> and the in-platform
  notifications of \<open>apps/site_management/services.py\<close>. Human-readable text (audit summaries, notification titles and
  bodies, links) is not kept; everything the code branches on is.
\<close>

section \<open>Audit trail and outbox\<close>

definition record_audit ::
  "audit_action \<Rightarrow> nat option \<Rightarrow> string \<Rightarrow> nat \<Rightarrow> snapshot option \<Rightarrow> snapshot option \<Rightarrow> db \<Rightarrow> db" where
  "record_audit action actor model_name pk before after d =
     d\<lparr>audits := audits d @
       [\<lparr>au_user = actor, au_action = action, au_model_name = model_name, au_object_id = str_nat pk,
         au_before_data = before, au_after_data = after\<rparr>]\<rparr>"

text \<open>
  The event is written when the surrounding transaction commits; a rolled-back call returns
  an error and no database, hence no event.
\<close>

definition publish_domain_event ::
  "string \<Rightarrow> string \<Rightarrow> nat \<Rightarrow> (string \<times> json) list \<Rightarrow> nat option \<Rightarrow> db \<Rightarrow> db" where
  "publish_domain_event event_type aggregate_type aggregate_id payload created_by d =
     d\<lparr>events := events d @
       [\<lparr>ev_event_type = event_type, ev_aggregate_type = aggregate_type,
         ev_aggregate_id = str_nat aggregate_id, ev_payload = payload, ev_schema_version = 1,
         ev_status = EV_PENDING, ev_created_by = created_by\<rparr>]\<rparr>"

definition optional_json :: "nat option \<Rightarrow> json" where
  "optional_json k = (case k of None \<Rightarrow> JNull | Some n \<Rightarrow> JNat n)"

section \<open>Upload validation\<close>

definition allowed_file_extensions :: "env \<Rightarrow> string list" where
  "allowed_file_extensions e =
     (if ALLOWED_UPLOAD_EXTENSIONS e \<noteq> [] then ALLOWED_UPLOAD_EXTENSIONS e
      else [''pdf'', ''jpg'', ''jpeg'', ''png'', ''webp''])"

definition max_upload_bytes :: "env \<Rightarrow> nat" where
  "max_upload_bytes e =
     (if MAX_UPLOAD_MB e \<noteq> 0 then MAX_UPLOAD_MB e else SETTINGS_MAX_UPLOAD_MB e) * 1024 * 1024"

definition validate_file_extension :: "env \<Rightarrow> upload \<Rightarrow> unit res" where
  "validate_file_extension e f =
     (if file_extension (up_name f) \<notin> set (allowed_file_extensions e)
      then Inl (ValidationError ''invalid_extension'') else Inr ())"

definition validate_file_size :: "env \<Rightarrow> upload \<Rightarrow> unit res" where
  "validate_file_size e f =
     (if max_upload_bytes e < up_size f then Inl (ValidationError ''file_too_large'') else Inr ())"

section \<open>Notifications\<close>

definition unread_with_key :: "nat \<Rightarrow> string \<Rightarrow> notification \<Rightarrow> bool" where
  "unread_with_key recipient key n \<longleftrightarrow>
     nt_recipient n = recipient \<and> nt_dedup_key n = key \<and> \<not> nt_is_read n"

definition notify ::
  "nat \<Rightarrow> string \<Rightarrow> nat option \<Rightarrow> string \<Rightarrow> string \<Rightarrow> string \<Rightarrow> db \<Rightarrow> db" where
  "notify recipient verb actor object_type object_id dedup_key d =
     (if dedup_key \<noteq> [] \<and> tbl_exists (\<lambda>_. unread_with_key recipient dedup_key) (notifications d)
      then d
      else d\<lparr>notifications := tbl_insert
         \<lparr>nt_recipient = recipient, nt_actor = actor, nt_verb = verb, nt_object_type = object_type,
          nt_object_id = object_id, nt_is_read = False, nt_read_at = None,
          nt_dedup_key = dedup_key\<rparr> (notifications d)\<rparr>)"

definition role_recipients :: "role_code \<Rightarrow> db \<Rightarrow> user list" where
  "role_recipients role d =
     filter (\<lambda>u. u_is_active u \<and> (u_role u = role \<or> u_is_superuser u)) (users d)"

definition notify_role ::
  "role_code \<Rightarrow> string \<Rightarrow> string \<Rightarrow> string \<Rightarrow> string \<Rightarrow> db \<Rightarrow> nat \<times> db" where
  "notify_role role verb object_type object_id dedup_key d =
     (length (role_recipients role d),
      fold (\<lambda>u. notify (u_pk u) verb None object_type object_id dedup_key) (role_recipients role d) d)"

definition mark_notifications_read :: "env \<Rightarrow> nat \<Rightarrow> nat list \<Rightarrow> db \<Rightarrow> nat \<times> db" where
  "mark_notifications_read e user ids d =
     (let P = (\<lambda>k n. nt_recipient n = user \<and> k \<in> set ids \<and> \<not> nt_is_read n)
      in (length (tbl_where P (notifications d)),
          d\<lparr>notifications := tbl_update_where P
              (\<lambda>n. n\<lparr>nt_is_read := True, nt_read_at := Some (now e)\<rparr>) (notifications d)\<rparr>))"

definition mark_all_notifications_read :: "env \<Rightarrow> nat \<Rightarrow> db \<Rightarrow> nat \<times> db" where
  "mark_all_notifications_read e user d =
     (let P = (\<lambda>(k::nat) n. nt_recipient n = user \<and> \<not> nt_is_read n)
      in (length (tbl_where P (notifications d)),
          d\<lparr>notifications := tbl_update_where P
              (\<lambda>n. n\<lparr>nt_is_read := True, nt_read_at := Some (now e)\<rparr>) (notifications d)\<rparr>))"

subsection \<open>What these operations leave alone\<close>

lemma record_audit_frame [simp]:
  "users (record_audit a u m k b c d) = users d"
    "zones (record_audit a u m k b c d) = zones d"
    "sites (record_audit a u m k b c d) = sites d"
    "supervisor_assignments (record_audit a u m k b c d) = supervisor_assignments d"
    "zone_supervisor_assignments (record_audit a u m k b c d) = zone_supervisor_assignments d"
    "ags_assignments (record_audit a u m k b c d) = ags_assignments d"
    "areas (record_audit a u m k b c d) = areas d"
    "cleaners (record_audit a u m k b c d) = cleaners d"
    "cleaner_assignments (record_audit a u m k b c d) = cleaner_assignments d"
    "cleaner_shifts (record_audit a u m k b c d) = cleaner_shifts d"
    "stores (record_audit a u m k b c d) = stores d"
    "products (record_audit a u m k b c d) = products d"
    "items (record_audit a u m k b c d) = items d"
    "transfers (record_audit a u m k b c d) = transfers d"
    "movements (record_audit a u m k b c d) = movements d"
    "openings (record_audit a u m k b c d) = openings d"
    "requests (record_audit a u m k b c d) = requests d"
    "request_items (record_audit a u m k b c d) = request_items d"
    "approvals (record_audit a u m k b c d) = approvals d"
    "issues (record_audit a u m k b c d) = issues d"
    "jobs (record_audit a u m k b c d) = jobs d"
    "attendance (record_audit a u m k b c d) = attendance d"
    "shifts (record_audit a u m k b c d) = shifts d"
    "operational_roles (record_audit a u m k b c d) = operational_roles d"
    "area_schedules (record_audit a u m k b c d) = area_schedules d"
    "documents (record_audit a u m k b c d) = documents d"
    "programs (record_audit a u m k b c d) = programs d"
    "evaluations (record_audit a u m k b c d) = evaluations d"
    "templates (record_audit a u m k b c d) = templates d"
    "template_items (record_audit a u m k b c d) = template_items d"
    "inspections (record_audit a u m k b c d) = inspections d"
    "results (record_audit a u m k b c d) = results d"
    "site_reports (record_audit a u m k b c d) = site_reports d"
    "zone_reports (record_audit a u m k b c d) = zone_reports d"
    "assistant_reports (record_audit a u m k b c d) = assistant_reports d"
    "general_reports (record_audit a u m k b c d) = general_reports d"
    "timetable (record_audit a u m k b c d) = timetable d"
    "checklists (record_audit a u m k b c d) = checklists d"
    "payment_profiles (record_audit a u m k b c d) = payment_profiles d"
    "remuneration_reports (record_audit a u m k b c d) = remuneration_reports d"
    "remuneration_lines (record_audit a u m k b c d) = remuneration_lines d"
    "conversations (record_audit a u m k b c d) = conversations d"
    "memberships (record_audit a u m k b c d) = memberships d"
    "messages (record_audit a u m k b c d) = messages d"
    "attachments (record_audit a u m k b c d) = attachments d"
    "profiles (record_audit a u m k b c d) = profiles d"
    "api_tokens (record_audit a u m k b c d) = api_tokens d"
    "departments (record_audit a u m k b c d) = departments d"
    "assets (record_audit a u m k b c d) = assets d"
    "staff_assignments (record_audit a u m k b c d) = staff_assignments d"
    "events (record_audit a u m k b c d) = events d"
    "notifications (record_audit a u m k b c d) = notifications d"
  by (simp_all add: record_audit_def)

lemma publish_domain_event_frame [simp]:
  "users (publish_domain_event t a k p u d) = users d"
    "zones (publish_domain_event t a k p u d) = zones d"
    "sites (publish_domain_event t a k p u d) = sites d"
    "supervisor_assignments (publish_domain_event t a k p u d) = supervisor_assignments d"
    "zone_supervisor_assignments (publish_domain_event t a k p u d) = zone_supervisor_assignments d"
    "ags_assignments (publish_domain_event t a k p u d) = ags_assignments d"
    "areas (publish_domain_event t a k p u d) = areas d"
    "cleaners (publish_domain_event t a k p u d) = cleaners d"
    "cleaner_assignments (publish_domain_event t a k p u d) = cleaner_assignments d"
    "cleaner_shifts (publish_domain_event t a k p u d) = cleaner_shifts d"
    "stores (publish_domain_event t a k p u d) = stores d"
    "products (publish_domain_event t a k p u d) = products d"
    "items (publish_domain_event t a k p u d) = items d"
    "transfers (publish_domain_event t a k p u d) = transfers d"
    "movements (publish_domain_event t a k p u d) = movements d"
    "openings (publish_domain_event t a k p u d) = openings d"
    "requests (publish_domain_event t a k p u d) = requests d"
    "request_items (publish_domain_event t a k p u d) = request_items d"
    "approvals (publish_domain_event t a k p u d) = approvals d"
    "issues (publish_domain_event t a k p u d) = issues d"
    "jobs (publish_domain_event t a k p u d) = jobs d"
    "attendance (publish_domain_event t a k p u d) = attendance d"
    "shifts (publish_domain_event t a k p u d) = shifts d"
    "operational_roles (publish_domain_event t a k p u d) = operational_roles d"
    "area_schedules (publish_domain_event t a k p u d) = area_schedules d"
    "documents (publish_domain_event t a k p u d) = documents d"
    "programs (publish_domain_event t a k p u d) = programs d"
    "evaluations (publish_domain_event t a k p u d) = evaluations d"
    "templates (publish_domain_event t a k p u d) = templates d"
    "template_items (publish_domain_event t a k p u d) = template_items d"
    "inspections (publish_domain_event t a k p u d) = inspections d"
    "results (publish_domain_event t a k p u d) = results d"
    "site_reports (publish_domain_event t a k p u d) = site_reports d"
    "zone_reports (publish_domain_event t a k p u d) = zone_reports d"
    "assistant_reports (publish_domain_event t a k p u d) = assistant_reports d"
    "general_reports (publish_domain_event t a k p u d) = general_reports d"
    "timetable (publish_domain_event t a k p u d) = timetable d"
    "checklists (publish_domain_event t a k p u d) = checklists d"
    "payment_profiles (publish_domain_event t a k p u d) = payment_profiles d"
    "remuneration_reports (publish_domain_event t a k p u d) = remuneration_reports d"
    "remuneration_lines (publish_domain_event t a k p u d) = remuneration_lines d"
    "conversations (publish_domain_event t a k p u d) = conversations d"
    "memberships (publish_domain_event t a k p u d) = memberships d"
    "messages (publish_domain_event t a k p u d) = messages d"
    "attachments (publish_domain_event t a k p u d) = attachments d"
    "profiles (publish_domain_event t a k p u d) = profiles d"
    "api_tokens (publish_domain_event t a k p u d) = api_tokens d"
    "departments (publish_domain_event t a k p u d) = departments d"
    "assets (publish_domain_event t a k p u d) = assets d"
    "staff_assignments (publish_domain_event t a k p u d) = staff_assignments d"
    "audits (publish_domain_event t a k p u d) = audits d"
    "notifications (publish_domain_event t a k p u d) = notifications d"
  by (simp_all add: publish_domain_event_def)

lemma notify_frame [simp]:
  "users (notify r v a t k q d) = users d"
    "zones (notify r v a t k q d) = zones d"
    "sites (notify r v a t k q d) = sites d"
    "supervisor_assignments (notify r v a t k q d) = supervisor_assignments d"
    "zone_supervisor_assignments (notify r v a t k q d) = zone_supervisor_assignments d"
    "ags_assignments (notify r v a t k q d) = ags_assignments d"
    "areas (notify r v a t k q d) = areas d"
    "cleaners (notify r v a t k q d) = cleaners d"
    "cleaner_assignments (notify r v a t k q d) = cleaner_assignments d"
    "cleaner_shifts (notify r v a t k q d) = cleaner_shifts d"
    "stores (notify r v a t k q d) = stores d"
    "products (notify r v a t k q d) = products d"
    "items (notify r v a t k q d) = items d"
    "transfers (notify r v a t k q d) = transfers d"
    "movements (notify r v a t k q d) = movements d"
    "openings (notify r v a t k q d) = openings d"
    "requests (notify r v a t k q d) = requests d"
    "request_items (notify r v a t k q d) = request_items d"
    "approvals (notify r v a t k q d) = approvals d"
    "issues (notify r v a t k q d) = issues d"
    "jobs (notify r v a t k q d) = jobs d"
    "attendance (notify r v a t k q d) = attendance d"
    "shifts (notify r v a t k q d) = shifts d"
    "operational_roles (notify r v a t k q d) = operational_roles d"
    "area_schedules (notify r v a t k q d) = area_schedules d"
    "documents (notify r v a t k q d) = documents d"
    "programs (notify r v a t k q d) = programs d"
    "evaluations (notify r v a t k q d) = evaluations d"
    "templates (notify r v a t k q d) = templates d"
    "template_items (notify r v a t k q d) = template_items d"
    "inspections (notify r v a t k q d) = inspections d"
    "results (notify r v a t k q d) = results d"
    "site_reports (notify r v a t k q d) = site_reports d"
    "zone_reports (notify r v a t k q d) = zone_reports d"
    "assistant_reports (notify r v a t k q d) = assistant_reports d"
    "general_reports (notify r v a t k q d) = general_reports d"
    "timetable (notify r v a t k q d) = timetable d"
    "checklists (notify r v a t k q d) = checklists d"
    "payment_profiles (notify r v a t k q d) = payment_profiles d"
    "remuneration_reports (notify r v a t k q d) = remuneration_reports d"
    "remuneration_lines (notify r v a t k q d) = remuneration_lines d"
    "conversations (notify r v a t k q d) = conversations d"
    "memberships (notify r v a t k q d) = memberships d"
    "messages (notify r v a t k q d) = messages d"
    "attachments (notify r v a t k q d) = attachments d"
    "profiles (notify r v a t k q d) = profiles d"
    "api_tokens (notify r v a t k q d) = api_tokens d"
    "departments (notify r v a t k q d) = departments d"
    "assets (notify r v a t k q d) = assets d"
    "staff_assignments (notify r v a t k q d) = staff_assignments d"
    "audits (notify r v a t k q d) = audits d"
    "events (notify r v a t k q d) = events d"
  by (simp_all add: notify_def)

lemma notify_fold_frame:
  assumes "\<And>r d. f (notify r v a t k q d) = f d"
  shows "f (fold (\<lambda>u. notify (u_pk u) v a t k q) us d) = f d"
  by (induction us arbitrary: d) (simp_all add: assms)

lemma notify_role_frame [simp]:
  "users (snd (notify_role r v t k q d)) = users d"
    "zones (snd (notify_role r v t k q d)) = zones d"
    "sites (snd (notify_role r v t k q d)) = sites d"
    "supervisor_assignments (snd (notify_role r v t k q d)) = supervisor_assignments d"
    "zone_supervisor_assignments (snd (notify_role r v t k q d)) = zone_supervisor_assignments d"
    "ags_assignments (snd (notify_role r v t k q d)) = ags_assignments d"
    "areas (snd (notify_role r v t k q d)) = areas d"
    "cleaners (snd (notify_role r v t k q d)) = cleaners d"
    "cleaner_assignments (snd (notify_role r v t k q d)) = cleaner_assignments d"
    "cleaner_shifts (snd (notify_role r v t k q d)) = cleaner_shifts d"
    "stores (snd (notify_role r v t k q d)) = stores d"
    "products (snd (notify_role r v t k q d)) = products d"
    "items (snd (notify_role r v t k q d)) = items d"
    "transfers (snd (notify_role r v t k q d)) = transfers d"
    "movements (snd (notify_role r v t k q d)) = movements d"
    "openings (snd (notify_role r v t k q d)) = openings d"
    "requests (snd (notify_role r v t k q d)) = requests d"
    "request_items (snd (notify_role r v t k q d)) = request_items d"
    "approvals (snd (notify_role r v t k q d)) = approvals d"
    "issues (snd (notify_role r v t k q d)) = issues d"
    "jobs (snd (notify_role r v t k q d)) = jobs d"
    "attendance (snd (notify_role r v t k q d)) = attendance d"
    "shifts (snd (notify_role r v t k q d)) = shifts d"
    "operational_roles (snd (notify_role r v t k q d)) = operational_roles d"
    "area_schedules (snd (notify_role r v t k q d)) = area_schedules d"
    "documents (snd (notify_role r v t k q d)) = documents d"
    "programs (snd (notify_role r v t k q d)) = programs d"
    "evaluations (snd (notify_role r v t k q d)) = evaluations d"
    "templates (snd (notify_role r v t k q d)) = templates d"
    "template_items (snd (notify_role r v t k q d)) = template_items d"
    "inspections (snd (notify_role r v t k q d)) = inspections d"
    "results (snd (notify_role r v t k q d)) = results d"
    "site_reports (snd (notify_role r v t k q d)) = site_reports d"
    "zone_reports (snd (notify_role r v t k q d)) = zone_reports d"
    "assistant_reports (snd (notify_role r v t k q d)) = assistant_reports d"
    "general_reports (snd (notify_role r v t k q d)) = general_reports d"
    "timetable (snd (notify_role r v t k q d)) = timetable d"
    "checklists (snd (notify_role r v t k q d)) = checklists d"
    "payment_profiles (snd (notify_role r v t k q d)) = payment_profiles d"
    "remuneration_reports (snd (notify_role r v t k q d)) = remuneration_reports d"
    "remuneration_lines (snd (notify_role r v t k q d)) = remuneration_lines d"
    "conversations (snd (notify_role r v t k q d)) = conversations d"
    "memberships (snd (notify_role r v t k q d)) = memberships d"
    "messages (snd (notify_role r v t k q d)) = messages d"
    "attachments (snd (notify_role r v t k q d)) = attachments d"
    "profiles (snd (notify_role r v t k q d)) = profiles d"
    "api_tokens (snd (notify_role r v t k q d)) = api_tokens d"
    "departments (snd (notify_role r v t k q d)) = departments d"
    "assets (snd (notify_role r v t k q d)) = assets d"
    "staff_assignments (snd (notify_role r v t k q d)) = staff_assignments d"
    "audits (snd (notify_role r v t k q d)) = audits d"
    "events (snd (notify_role r v t k q d)) = events d"
  by (simp_all add: notify_role_def notify_fold_frame)

lemma audits_record_audit [simp]:
  "audits (record_audit a u m k b c d) = audits d @
     [\<lparr>au_user = u, au_action = a, au_model_name = m, au_object_id = str_nat k,
       au_before_data = b, au_after_data = c\<rparr>]"
  by (simp add: record_audit_def)

section \<open>Notifications coalesce\<close>

text \<open>Invariant: a recipient has at most one unread notification per non-empty key.\<close>

definition notifications_coalesced :: "db \<Rightarrow> bool" where
  "notifications_coalesced d \<longleftrightarrow> tbl_wf (notifications d) \<and>
     tbl_unique (\<lambda>n. nt_dedup_key n \<noteq> [] \<and> \<not> nt_is_read n) (\<lambda>n. (nt_recipient n, nt_dedup_key n))
       (notifications d)"

lemma notify_coalesced:
  "notifications_coalesced d \<Longrightarrow> notifications_coalesced (notify r v a t k q d)"
  by (auto simp: notifications_coalesced_def notify_def unread_with_key_def tbl_exists_iff
      intro!: tbl_unique_insert)

lemma notify_fold_coalesced:
  "notifications_coalesced d \<Longrightarrow>
     notifications_coalesced (fold (\<lambda>u. notify (u_pk u) v a t k q) us d)"
  by (induction us arbitrary: d) (simp_all add: notify_coalesced)

lemma notify_role_coalesced:
  "notifications_coalesced d \<Longrightarrow> notifications_coalesced (snd (notify_role r v t k q d))"
  by (simp add: notify_role_def notify_fold_coalesced)

lemma update_read_coalesced:
  "notifications_coalesced d \<Longrightarrow> notifications_coalesced (d\<lparr>notifications :=
     tbl_update_where P (\<lambda>n. n\<lparr>nt_is_read := True, nt_read_at := w\<rparr>) (notifications d)\<rparr>)"
  by (auto simp: notifications_coalesced_def tbl_wf_update_where intro!: tbl_unique_update_where)

lemma notify_then_unread:
  assumes "tbl_wf (notifications d)" and "q \<noteq> []"
  shows "tbl_exists (\<lambda>_. unread_with_key r q) (notifications (notify r v a t k q d))"
  using assms by (auto simp: notify_def tbl_exists_get tbl_get_insert unread_with_key_def)

section \<open>Properties\<close>

lemma notify_keeps_unread:
  assumes "tbl_exists (\<lambda>_. unread_with_key r q) (notifications d)"
  shows "tbl_exists (\<lambda>_. unread_with_key r q) (notifications (notify r' v a t k q' d))"
  using assms by (auto simp: notify_def tbl_exists_def tbl_insert_def)

lemma notify_fold_unread:
  assumes "tbl_wf (notifications d)" and "q \<noteq> []" and "u \<in> set us \<or> tbl_exists (\<lambda>_. unread_with_key (u_pk u) q) (notifications d)"
  shows "tbl_exists (\<lambda>_. unread_with_key (u_pk u) q) (notifications (fold (\<lambda>u. notify (u_pk u) v a t k q) us d))"
  using assms(1,3)
proof (induction us arbitrary: d)
  case Nil
  then show ?case by simp
next
  case (Cons x us)
  have "tbl_wf (notifications (notify (u_pk x) v a t k q d))"
    using Cons.prems(1) by (simp add: notify_def)
  moreover have "u \<in> set us \<or>
      tbl_exists (\<lambda>_. unread_with_key (u_pk u) q) (notifications (notify (u_pk x) v a t k q d))"
    using Cons.prems notify_then_unread [OF Cons.prems(1) assms(2)] notify_keeps_unread by auto
  ultimately show ?case using Cons.IH by simp
qed

text \<open>
  Repeated alerts coalesce. After a role is notified under a non-empty key, every active
  holder of the role has exactly one unread notification with that key, however often it was
  sent before.
\<close>

theorem notify_role_reaches_once:
  assumes "notifications_coalesced d" and "key \<noteq> []" and "u \<in> set (role_recipients role d)"
  shows "\<exists>!k. \<exists>n. tbl_get (notifications (snd (notify_role role v t obj key d))) k = Some n \<and>
    unread_with_key (u_pk u) key n"
proof -
  let ?t = "notifications (snd (notify_role role v t obj key d))"
  have co: "tbl_wf ?t" "tbl_unique (\<lambda>n. nt_dedup_key n \<noteq> [] \<and> \<not> nt_is_read n)
      (\<lambda>n. (nt_recipient n, nt_dedup_key n)) ?t"
    using notify_role_coalesced [OF assms(1)] by (simp_all add: notifications_coalesced_def)
  have "tbl_exists (\<lambda>_. unread_with_key (u_pk u) key) ?t"
    using assms by (simp add: notify_role_def notify_fold_unread notifications_coalesced_def)
  then obtain k n where k: "tbl_get ?t k = Some n" "unread_with_key (u_pk u) key n"
    by (auto simp: tbl_exists_get [OF co(1)])
  show ?thesis
  proof (rule ex1I [of _ k])
    fix j
    assume "\<exists>n. tbl_get ?t j = Some n \<and> unread_with_key (u_pk u) key n"
    then obtain m where "tbl_get ?t j = Some m" "unread_with_key (u_pk u) key m" by blast
    then show "j = k" using tbl_uniqueD [OF co(2) _ k(1)] k(2) assms(2) by (auto simp: unread_with_key_def)
  qed (use k in blast)
qed

definition demo_hr :: user where
  "demo_hr = \<lparr>u_pk = 4, u_role = HR, u_is_superuser = False, u_is_active = True, u_perms = []\<rparr>"

theorem notify_role_reaches_once_witness:
  "\<exists>!k. \<exists>n. tbl_get (notifications (snd (notify_role HR ''hello'' [] [] ''key''
      (snd (notify_role HR ''hello'' [] [] ''key'' (empty_db\<lparr>users := [demo_hr]\<rparr>)))))) k = Some n \<and>
    unread_with_key 4 ''key'' n"
proof -
  let ?d = "snd (notify_role HR ''hello'' [] [] ''key'' (empty_db\<lparr>users := [demo_hr]\<rparr>))"
  have "notifications_coalesced ?d"
    by (intro notify_role_coalesced) (simp add: notifications_coalesced_def empty_db_def)
  moreover have "demo_hr \<in> set (role_recipients HR ?d)"
    by (simp add: role_recipients_def demo_hr_def)
  ultimately show ?thesis using notify_role_reaches_once [of ?d "''key''" demo_hr HR] by (simp add: demo_hr_def)
qed

end
