(* ===== verification/Org.thy ===== *)
theory Org
  imports Core
begin

text \<open>
  The organisation hierarchy: supervisor assignments (the \<open>clean()\<close> rules of
  \<open>apps/site_management/models.py\<close> and the services that open and end them in
  \<open>apps/site_management/services.py\<close>) and what a user can see or supervise
  (\<open>apps/site_management/scoping.py\<close>).
\<close>

section \<open>Users\<close>

definition SUPERVISOR_ROLES :: "role_code set" where
  "SUPERVISOR_ROLES =
     {SITE_SUPERVISOR, ZONE_SUPERVISOR, ASSISTANT_GENERAL_SUPERVISOR, GENERAL_SUPERVISOR}"

definition is_system_admin :: "user \<Rightarrow> bool" where
  "is_system_admin u \<longleftrightarrow> u_role u = SYSTEM_ADMIN \<or> u_is_superuser u"

definition is_management_viewer :: "user \<Rightarrow> bool" where
  "is_management_viewer u \<longleftrightarrow> u_role u = MANAGEMENT_VIEWER"

section \<open>Supervisor assignments\<close>

text \<open>\<open>AssignmentMixin.clean\<close> and \<open>AssignmentMixin.is_current\<close>, on the two dates.\<close>

definition assignment_dates_ok :: "date \<Rightarrow> date option \<Rightarrow> bool" where
  "assignment_dates_ok assigned_from assigned_to \<longleftrightarrow>
     (case assigned_to of None \<Rightarrow> True | Some t \<Rightarrow> \<not> t < assigned_from)"

definition is_current :: "env \<Rightarrow> date \<Rightarrow> date option \<Rightarrow> bool" where
  "is_current e assigned_from assigned_to \<longleftrightarrow>
     \<not> (localdate e < assigned_from \<or> (case assigned_to of None \<Rightarrow> False | Some t \<Rightarrow> t < localdate e))"

definition active_site_supervisors :: "db \<Rightarrow> nat \<Rightarrow> (nat \<times> site_supervisor_assignment) list" where
  "active_site_supervisors d site =
     tbl_where (\<lambda>_ a. ssa_site a = site \<and> ssa_is_active a) (supervisor_assignments d)"

text \<open>
  \<open>full_clean()\<close> of a new row: the dates, the per-site cap, and the partial unique
  constraint on (site, user) among active rows.
\<close>

definition site_supervisor_clean :: "env \<Rightarrow> db \<Rightarrow> site_supervisor_assignment \<Rightarrow> bool" where
  "site_supervisor_clean e d a \<longleftrightarrow>
     assignment_dates_ok (ssa_assigned_from a) (ssa_assigned_to a) \<and>
     (ssa_is_active a \<longrightarrow>
        int (length (active_site_supervisors d (ssa_site a))) < MAX_SITE_SUPERVISORS_PER_SITE e) \<and>
     \<not> (ssa_is_active a \<and>
        tbl_exists (\<lambda>_ b. ssa_site b = ssa_site a \<and> ssa_user b = ssa_user a \<and> ssa_is_active b)
          (supervisor_assignments d))"

definition assign_site_supervisor ::
  "env \<Rightarrow> nat \<Rightarrow> nat \<Rightarrow> date \<Rightarrow> date option \<Rightarrow> bool \<Rightarrow> user \<Rightarrow> db \<Rightarrow> db res" where
  "assign_site_supervisor e site user assigned_from assigned_to is_primary actor d =
     (let a = \<lparr>ssa_user = user, ssa_site = site, ssa_assigned_from = assigned_from,
               ssa_assigned_to = assigned_to, ssa_is_active = True, ssa_is_primary = is_primary,
               ssa_created_by = Some (u_pk actor), ssa_updated_by = Some (u_pk actor)\<rparr>
      in if \<not> site_supervisor_clean e d a then Inl FullClean
         else
           let t = supervisor_assignments d;
               t1 = (if is_primary
                     then tbl_update_where (\<lambda>_ b. ssa_site b = site \<and> ssa_is_active b)
                            (\<lambda>b. b\<lparr>ssa_is_primary := False\<rparr>) t
                     else t)
           in Inr (record_audit A_ASSIGN (Some (u_pk actor))
                ''site_management.sitesupervisorassignment'' (tbl_next t) None
                (Some (SnapSiteSupervisor a))
                (d\<lparr>supervisor_assignments := tbl_insert a t1\<rparr>)))"

definition end_site_supervisor_assignment :: "nat \<Rightarrow> user \<Rightarrow> db \<Rightarrow> db res" where
  "end_site_supervisor_assignment pk actor d =
     (case tbl_get (supervisor_assignments d) pk of None \<Rightarrow> Inl DoesNotExist
      | Some a \<Rightarrow>
          let a' = a\<lparr>ssa_is_active := False, ssa_updated_by := Some (u_pk actor)\<rparr>
          in Inr (record_audit A_UNASSIGN (Some (u_pk actor))
               ''site_management.sitesupervisorassignment'' pk (Some (SnapSiteSupervisor a')) None
               (d\<lparr>supervisor_assignments := tbl_put pk a' (supervisor_assignments d)\<rparr>)))"

definition zone_supervisor_clean :: "db \<Rightarrow> zone_supervisor_assignment \<Rightarrow> bool" where
  "zone_supervisor_clean d a \<longleftrightarrow>
     assignment_dates_ok (zsa_assigned_from a) (zsa_assigned_to a) \<and>
     \<not> (zsa_is_active a \<and>
        tbl_exists (\<lambda>_ b. zsa_zone b = zsa_zone a \<and> zsa_user b = zsa_user a \<and> zsa_is_active b)
          (zone_supervisor_assignments d))"

definition assign_zone_supervisor ::
  "nat \<Rightarrow> nat \<Rightarrow> date \<Rightarrow> date option \<Rightarrow> user \<Rightarrow> db \<Rightarrow> db res" where
  "assign_zone_supervisor zone user assigned_from assigned_to actor d =
     (let a = \<lparr>zsa_user = user, zsa_zone = zone, zsa_assigned_from = assigned_from,
               zsa_assigned_to = assigned_to, zsa_is_active = True,
               zsa_created_by = Some (u_pk actor), zsa_updated_by = Some (u_pk actor)\<rparr>
      in if \<not> zone_supervisor_clean d a then Inl FullClean
         else Inr (record_audit A_ASSIGN (Some (u_pk actor))
                ''site_management.zonesupervisorassignment''
                (tbl_next (zone_supervisor_assignments d)) None (Some (SnapZoneSupervisor a))
                (d\<lparr>zone_supervisor_assignments := tbl_insert a (zone_supervisor_assignments d)\<rparr>)))"

definition end_zone_supervisor_assignment :: "nat \<Rightarrow> user \<Rightarrow> db \<Rightarrow> db res" where
  "end_zone_supervisor_assignment pk actor d =
     (case tbl_get (zone_supervisor_assignments d) pk of None \<Rightarrow> Inl DoesNotExist
      | Some a \<Rightarrow>
          let a' = a\<lparr>zsa_is_active := False, zsa_updated_by := Some (u_pk actor)\<rparr>
          in Inr (record_audit A_UNASSIGN (Some (u_pk actor))
               ''site_management.zonesupervisorassignment'' pk (Some (SnapZoneSupervisor a')) None
               (d\<lparr>zone_supervisor_assignments := tbl_put pk a' (zone_supervisor_assignments d)\<rparr>)))"

text \<open>
  \<open>AssistantGeneralSupervisorAssignment.clean\<close> on a new row, with its two partial unique
  constraints (a null zone never clashes).
\<close>

definition ags_clean :: "db \<Rightarrow> ags_assignment \<Rightarrow> bool" where
  "ags_clean d a \<longleftrightarrow>
     assignment_dates_ok (ags_assigned_from a) (ags_assigned_to a) \<and>
     \<not> (ags_all_zones a \<and> ags_zone a \<noteq> None) \<and>
     \<not> (\<not> ags_all_zones a \<and> ags_zone a = None) \<and>
     (ags_is_active a \<longrightarrow>
        \<not> (ags_all_zones a \<and>
           tbl_exists (\<lambda>_ b. ags_user b = ags_user a \<and> ags_is_active b) (ags_assignments d)) \<and>
        \<not> (\<not> ags_all_zones a \<and>
           tbl_exists (\<lambda>_ b. ags_user b = ags_user a \<and> ags_is_active b \<and> ags_all_zones b)
             (ags_assignments d)) \<and>
        \<not> (ags_zone a \<noteq> None \<and>
           tbl_exists (\<lambda>_ b. ags_user b = ags_user a \<and> ags_zone b = ags_zone a \<and> ags_is_active b)
             (ags_assignments d)) \<and>
        \<not> (ags_all_zones a \<and>
           tbl_exists (\<lambda>_ b. ags_user b = ags_user a \<and> ags_is_active b \<and> ags_all_zones b)
             (ags_assignments d)))"

definition assign_assistant_general_supervisor ::
  "nat \<Rightarrow> bool \<Rightarrow> nat option \<Rightarrow> date \<Rightarrow> date option \<Rightarrow> user \<Rightarrow> db \<Rightarrow> db res" where
  "assign_assistant_general_supervisor user all_zones zone assigned_from assigned_to actor d =
     (let a = \<lparr>ags_user = user, ags_zone = zone, ags_all_zones = all_zones,
               ags_assigned_from = assigned_from, ags_assigned_to = assigned_to,
               ags_is_active = True, ags_created_by = Some (u_pk actor),
               ags_updated_by = Some (u_pk actor)\<rparr>
      in if \<not> ags_clean d a then Inl FullClean
         else Inr (record_audit A_ASSIGN (Some (u_pk actor))
                ''site_management.assistantgeneralsupervisorassignment''
                (tbl_next (ags_assignments d)) None (Some (SnapAgs a))
                (d\<lparr>ags_assignments := tbl_insert a (ags_assignments d)\<rparr>)))"

definition end_assistant_general_supervisor_assignment :: "nat \<Rightarrow> user \<Rightarrow> db \<Rightarrow> db res" where
  "end_assistant_general_supervisor_assignment pk actor d =
     (case tbl_get (ags_assignments d) pk of None \<Rightarrow> Inl DoesNotExist
      | Some a \<Rightarrow>
          let a' = a\<lparr>ags_is_active := False, ags_updated_by := Some (u_pk actor)\<rparr>
          in Inr (record_audit A_UNASSIGN (Some (u_pk actor))
               ''site_management.assistantgeneralsupervisorassignment'' pk (Some (SnapAgs a')) None
               (d\<lparr>ags_assignments := tbl_put pk a' (ags_assignments d)\<rparr>)))"

section \<open>Scoping\<close>

definition sees_all_zones :: "db \<Rightarrow> user \<Rightarrow> bool" where
  "sees_all_zones d u \<longleftrightarrow>
     (if is_system_admin u \<or> u_role u \<in> {HR, GENERAL_SUPERVISOR, MANAGEMENT_VIEWER} then True
      else if u_role u = ASSISTANT_GENERAL_SUPERVISOR
      then tbl_exists (\<lambda>_ a. ags_user a = u_pk u \<and> ags_is_active a \<and> ags_all_zones a)
             (ags_assignments d)
      else False)"

definition assigned_zone_ids :: "db \<Rightarrow> user \<Rightarrow> nat list" where
  "assigned_zone_ids d u =
     map (\<lambda>(_, a). zsa_zone a)
       (tbl_where (\<lambda>_ a. zsa_user a = u_pk u \<and> zsa_is_active a) (zone_supervisor_assignments d)) @
     map (\<lambda>(_, a). the (ags_zone a))
       (tbl_where (\<lambda>_ a. ags_user a = u_pk u \<and> ags_is_active a \<and> \<not> ags_all_zones a \<and> ags_zone a \<noteq> None)
          (ags_assignments d))"

definition visible_zones :: "db \<Rightarrow> user \<Rightarrow> nat list" where
  "visible_zones d u =
     map fst (tbl_where
       (\<lambda>k z. zn_is_active z \<and> (sees_all_zones d u \<or> k \<in> set (assigned_zone_ids d u))) (zones d))"

text \<open>
  The supervisor's site query is two chained \<open>.filter()\<close> calls across the same to-many
  relation. Each call joins the assignments anew, so the two conditions may be met by two
  different rows: the first by the user's own assignment, the second by anyone's.
\<close>

definition site_supervisor_query :: "env \<Rightarrow> db \<Rightarrow> user \<Rightarrow> nat \<Rightarrow> bool" where
  "site_supervisor_query e d u k \<longleftrightarrow>
     tbl_exists (\<lambda>_ a. ssa_site a = k \<and> ssa_user a = u_pk u \<and> ssa_is_active a \<and>
                       ssa_assigned_from a \<le> localdate e) (supervisor_assignments d) \<and>
     tbl_exists (\<lambda>_ b. ssa_site b = k \<and>
                       (case ssa_assigned_to b of None \<Rightarrow> True | Some t \<Rightarrow> localdate e \<le> t))
       (supervisor_assignments d)"

definition in_assigned_zone :: "db \<Rightarrow> user \<Rightarrow> site \<Rightarrow> bool" where
  "in_assigned_zone d u s \<longleftrightarrow>
     (case si_zone s of None \<Rightarrow> False | Some z \<Rightarrow> z \<in> set (assigned_zone_ids d u))"

text \<open>\<open>Site.objects\<close> is a soft-delete manager: archived sites never appear.\<close>

definition visible_sites :: "env \<Rightarrow> db \<Rightarrow> user \<Rightarrow> nat list" where
  "visible_sites e d u = map fst (tbl_where (\<lambda>k s. si_is_active s \<and>
     (if u_role u \<in> {HR, STORE_MANAGER} then True
      else if sees_all_zones d u then True
      else if u_role u = SITE_SUPERVISOR then site_supervisor_query e d u k
      else in_assigned_zone d u s)) (sites d))"

definition supervised_sites :: "env \<Rightarrow> db \<Rightarrow> user \<Rightarrow> nat list" where
  "supervised_sites e d u = map fst (tbl_where (\<lambda>k s. si_is_active s \<and>
     (if is_system_admin u \<or> u_role u \<in> {HR, GENERAL_SUPERVISOR, ASSISTANT_GENERAL_SUPERVISOR}
      then (if u_role u = ASSISTANT_GENERAL_SUPERVISOR \<and> \<not> sees_all_zones d u
            then in_assigned_zone d u s else True)
      else if is_management_viewer u then False
      else if u_role u = SITE_SUPERVISOR then site_supervisor_query e d u k
      else if u_role u = ZONE_SUPERVISOR then in_assigned_zone d u s
      else False)) (sites d))"

definition site_in_user_scope :: "env \<Rightarrow> db \<Rightarrow> user \<Rightarrow> nat option \<Rightarrow> bool" where
  "site_in_user_scope e d u site_id \<longleftrightarrow>
     (case site_id of None \<Rightarrow> False | Some k \<Rightarrow> k \<in> set (visible_sites e d u))"

definition active_site_supervisor_ids :: "db \<Rightarrow> nat \<Rightarrow> nat list" where
  "active_site_supervisor_ids d site = map (\<lambda>(_, a). ssa_user a) (active_site_supervisors d site)"

section \<open>Assignment services as one system\<close>

datatype org_call =
    AssignSiteSupervisor nat nat date "date option" bool user
  | EndSiteSupervisor nat user
  | AssignZoneSupervisor nat nat date "date option" user
  | EndZoneSupervisor nat user
  | AssignAgs nat bool "nat option" date "date option" user
  | EndAgs nat user

fun org_step :: "env \<Rightarrow> db \<Rightarrow> org_call \<Rightarrow> db res" where
  "org_step e d (AssignSiteSupervisor s u f t p a) = assign_site_supervisor e s u f t p a d"
| "org_step e d (EndSiteSupervisor k a) = end_site_supervisor_assignment k a d"
| "org_step e d (AssignZoneSupervisor z u f t a) = assign_zone_supervisor z u f t a d"
| "org_step e d (EndZoneSupervisor k a) = end_zone_supervisor_assignment k a d"
| "org_step e d (AssignAgs u al z f t a) = assign_assistant_general_supervisor u al z f t a d"
| "org_step e d (EndAgs k a) = end_assistant_general_supervisor_assignment k a d"

definition ags_exclusive :: "ags_assignment table \<Rightarrow> bool" where
  "ags_exclusive t \<longleftrightarrow> (\<forall>i j a b. tbl_get t i = Some a \<longrightarrow> tbl_get t j = Some b \<longrightarrow>
     ags_is_active a \<longrightarrow> ags_is_active b \<longrightarrow> ags_user a = ags_user b \<longrightarrow> ags_all_zones a \<longrightarrow> i = j)"

text \<open>
  The organisation invariant: at most the configured number of active supervisors per site,
  one active assignment per user and site (or zone), one active primary supervisor per site,
  and an all-zones assistant holds no other active assignment.
\<close>

definition site_cap :: "env \<Rightarrow> db \<Rightarrow> bool" where
  "site_cap e d \<longleftrightarrow> (\<forall>s. int (length (active_site_supervisors d s)) \<le> max 0 (MAX_SITE_SUPERVISORS_PER_SITE e))"

definition ssa_unique :: "site_supervisor_assignment table \<Rightarrow> bool" where
  "ssa_unique t \<longleftrightarrow> tbl_unique ssa_is_active (\<lambda>a. (ssa_site a, ssa_user a)) t"

definition one_primary :: "site_supervisor_assignment table \<Rightarrow> bool" where
  "one_primary t \<longleftrightarrow> tbl_unique (\<lambda>a. ssa_is_active a \<and> ssa_is_primary a) ssa_site t"

definition zsa_unique :: "zone_supervisor_assignment table \<Rightarrow> bool" where
  "zsa_unique t \<longleftrightarrow> tbl_unique zsa_is_active (\<lambda>a. (zsa_zone a, zsa_user a)) t"

definition ags_shape :: "ags_assignment table \<Rightarrow> bool" where
  "ags_shape t \<longleftrightarrow> tbl_all (\<lambda>a. ags_all_zones a \<longleftrightarrow> ags_zone a = None) t"

definition org_inv :: "env \<Rightarrow> db \<Rightarrow> bool" where
  "org_inv e d \<longleftrightarrow>
     tbl_wf (supervisor_assignments d) \<and> tbl_wf (zone_supervisor_assignments d) \<and>
     tbl_wf (ags_assignments d) \<and> site_cap e d \<and> ssa_unique (supervisor_assignments d) \<and>
     one_primary (supervisor_assignments d) \<and> zsa_unique (zone_supervisor_assignments d) \<and>
     ags_shape (ags_assignments d) \<and> ags_exclusive (ags_assignments d)"

lemma active_site_supervisors_cong:
  "supervisor_assignments d' = supervisor_assignments d \<Longrightarrow>
     active_site_supervisors d' = active_site_supervisors d"
  by (rule ext) (simp add: active_site_supervisors_def)

lemma site_cap_cong:
  "supervisor_assignments d' = supervisor_assignments d \<Longrightarrow> site_cap e d' = site_cap e d"
  by (simp add: site_cap_def active_site_supervisors_cong [of d' d])

text \<open>Writes that keep a row's site and never activate it cannot exceed the cap.\<close>

lemma active_after_update:
  assumes "\<And>k r. Q k r \<Longrightarrow> ssa_is_active (f r) \<Longrightarrow> ssa_is_active r \<and> ssa_site (f r) = ssa_site r"
  shows "length (tbl_where (\<lambda>_ a. ssa_site a = s \<and> ssa_is_active a) (tbl_update_where Q f t)) \<le>
         length (tbl_where (\<lambda>_ a. ssa_site a = s \<and> ssa_is_active a) t)"
proof (rule length_tbl_where_update [where Q = Q and f = f])
  fix k r
  assume "ssa_site (if Q k r then f r else r) = s \<and> ssa_is_active (if Q k r then f r else r)"
  then show "ssa_site r = s \<and> ssa_is_active r" using assms [of k r] by (cases "Q k r") auto
qed

lemma assign_site_supervisor_inv:
  assumes inv: "org_inv e d"
    and ok: "assign_site_supervisor e site user f t p actor d = Inr d'"
  shows "org_inv e d'"
proof -
  define a where "a = \<lparr>ssa_user = user, ssa_site = site, ssa_assigned_from = f,
     ssa_assigned_to = t, ssa_is_active = True, ssa_is_primary = p,
     ssa_created_by = Some (u_pk actor), ssa_updated_by = Some (u_pk actor)\<rparr>"
  define T where "T = supervisor_assignments d"
  define T1 where "T1 = (if p then tbl_update_where (\<lambda>_ b. ssa_site b = site \<and> ssa_is_active b)
     (\<lambda>b. b\<lparr>ssa_is_primary := False\<rparr>) T else T)"
  have clean: "site_supervisor_clean e d a" and d': "supervisor_assignments d' = tbl_insert a T1"
    "zone_supervisor_assignments d' = zone_supervisor_assignments d"
    "ags_assignments d' = ags_assignments d"
    using ok by (auto simp: assign_site_supervisor_def Let_def a_def T_def T1_def split: if_splits)
  have wf: "tbl_wf T" and u: "ssa_unique T" and o: "one_primary T"
    using inv by (simp_all add: org_inv_def T_def)
  have wf1: "tbl_wf T1" using wf by (simp add: T1_def tbl_wf_update_where)
  have u1: "ssa_unique T1"
    using u unfolding ssa_unique_def T1_def by (auto intro: tbl_unique_update_where)
  have o1: "one_primary T1"
    using o unfolding one_primary_def T1_def by (auto intro: tbl_unique_update_where)
  have none: "\<not> tbl_exists (\<lambda>_ b. ssa_is_active b \<and> (ssa_site b, ssa_user b) = (ssa_site a, ssa_user a)) T1"
  proof
    assume "tbl_exists (\<lambda>_ b. ssa_is_active b \<and> (ssa_site b, ssa_user b) = (ssa_site a, ssa_user a)) T1"
    then have "tbl_exists (\<lambda>_ b. ssa_site b = ssa_site a \<and> ssa_user b = ssa_user a \<and> ssa_is_active b) T"
      by (cases p) (auto simp: T1_def tbl_exists_update_where elim!: tbl_exists_mono split: if_splits)
    with clean show False by (simp add: site_supervisor_clean_def a_def T_def)
  qed
  have noprim: "ssa_is_active a \<and> ssa_is_primary a \<Longrightarrow>
      \<not> tbl_exists (\<lambda>_ b. (ssa_is_active b \<and> ssa_is_primary b) \<and> ssa_site b = ssa_site a) T1"
    by (simp add: T1_def a_def tbl_exists_update_where) (auto simp: tbl_exists_iff split: if_splits)
  have cap1: "length (tbl_where (\<lambda>_ b. ssa_site b = s \<and> ssa_is_active b) T1) \<le>
      length (active_site_supervisors d s)" for s
    unfolding T1_def active_site_supervisors_def T_def [symmetric]
    by (auto intro!: active_after_update)
  have "site_cap e d'"
    unfolding site_cap_def
  proof
    fix s
    show "int (length (active_site_supervisors d' s)) \<le> max 0 (MAX_SITE_SUPERVISORS_PER_SITE e)"
    proof (cases "s = site")
      case True
      with clean cap1 [of s] show ?thesis
        by (simp add: active_site_supervisors_def d'(1) tbl_where_insert site_supervisor_clean_def a_def)
    next
      case False
      then have "active_site_supervisors d' s = tbl_where (\<lambda>_ b. ssa_site b = s \<and> ssa_is_active b) T1"
        by (simp add: active_site_supervisors_def d'(1) tbl_where_insert a_def)
      moreover have "int (length (active_site_supervisors d s)) \<le> max 0 (MAX_SITE_SUPERVISORS_PER_SITE e)"
        using inv by (simp add: org_inv_def site_cap_def)
      ultimately show ?thesis using cap1 [of s] by simp
    qed
  qed
  moreover have "ssa_unique (tbl_insert a T1)"
    unfolding ssa_unique_def
    by (rule tbl_unique_insert [OF wf1]) (use u1 none in \<open>auto simp: ssa_unique_def\<close>)
  moreover have "one_primary (tbl_insert a T1)"
    unfolding one_primary_def
    by (rule tbl_unique_insert [OF wf1]) (use o1 noprim in \<open>auto simp: one_primary_def\<close>)
  ultimately show ?thesis using inv wf1 by (simp add: org_inv_def d')
qed

lemma end_site_supervisor_inv:
  assumes inv: "org_inv e d" and ok: "end_site_supervisor_assignment k actor d = Inr d'"
  shows "org_inv e d'"
proof -
  obtain a where a: "tbl_get (supervisor_assignments d) k = Some a"
    and d': "supervisor_assignments d' =
        tbl_put k (a\<lparr>ssa_is_active := False, ssa_updated_by := Some (u_pk actor)\<rparr>) (supervisor_assignments d)"
      "zone_supervisor_assignments d' = zone_supervisor_assignments d"
      "ags_assignments d' = ags_assignments d"
    using ok by (auto simp: end_site_supervisor_assignment_def Let_def split: option.splits)
  have "int (length (active_site_supervisors d' s)) \<le> max 0 (MAX_SITE_SUPERVISORS_PER_SITE e)" for s
  proof -
    have "length (active_site_supervisors d' s) \<le> length (active_site_supervisors d s)"
      unfolding active_site_supervisors_def d'(1) tbl_put_def
      by (rule length_tbl_where_update) (auto split: if_splits)
    moreover have "int (length (active_site_supervisors d s)) \<le> max 0 (MAX_SITE_SUPERVISORS_PER_SITE e)"
      using inv by (simp add: org_inv_def site_cap_def)
    ultimately show ?thesis by linarith
  qed
  then have "site_cap e d'" by (simp add: site_cap_def)
  moreover have "ssa_unique (supervisor_assignments d')" "one_primary (supervisor_assignments d')"
    using inv a unfolding d'(1) ssa_unique_def one_primary_def org_inv_def
    by (auto intro: tbl_unique_put)
  ultimately show ?thesis using inv by (simp add: org_inv_def d')
qed

lemma org_inv_cong:
  "supervisor_assignments d' = supervisor_assignments d \<Longrightarrow>
   zone_supervisor_assignments d' = zone_supervisor_assignments d \<Longrightarrow>
   ags_assignments d' = ags_assignments d \<Longrightarrow> org_inv e d' = org_inv e d"
  by (simp add: org_inv_def site_cap_cong [of d' d])

lemma org_inv_zones:
  assumes "org_inv e d" and "supervisor_assignments d' = supervisor_assignments d"
    and "ags_assignments d' = ags_assignments d"
    and "tbl_wf (zone_supervisor_assignments d')" and "zsa_unique (zone_supervisor_assignments d')"
  shows "org_inv e d'"
  using assms by (simp add: org_inv_def site_cap_cong [of d' d])

lemma org_inv_ags:
  assumes "org_inv e d" and "supervisor_assignments d' = supervisor_assignments d"
    and "zone_supervisor_assignments d' = zone_supervisor_assignments d"
    and "tbl_wf (ags_assignments d')" and "ags_shape (ags_assignments d')"
    and "ags_exclusive (ags_assignments d')"
  shows "org_inv e d'"
  using assms by (simp add: org_inv_def site_cap_cong [of d' d])

lemma assign_zone_supervisor_inv:
  assumes inv: "org_inv e d" and ok: "assign_zone_supervisor z u f t actor d = Inr d'"
  shows "org_inv e d'"
proof -
  obtain a where a: "zone_supervisor_clean d a"
    and d': "zone_supervisor_assignments d' = tbl_insert a (zone_supervisor_assignments d)"
      "supervisor_assignments d' = supervisor_assignments d" "ags_assignments d' = ags_assignments d"
    using ok by (auto simp: assign_zone_supervisor_def Let_def res_simps)
  have wf: "tbl_wf (zone_supervisor_assignments d)" using inv by (simp add: org_inv_def)
  have "zsa_unique (tbl_insert a (zone_supervisor_assignments d))"
    unfolding zsa_unique_def
  proof (rule tbl_unique_insert [OF wf])
    show "tbl_unique zsa_is_active (\<lambda>a. (zsa_zone a, zsa_user a)) (zone_supervisor_assignments d)"
      using inv by (simp add: org_inv_def zsa_unique_def)
    show "zsa_is_active a \<Longrightarrow> \<not> tbl_exists (\<lambda>_ b. zsa_is_active b \<and>
        (zsa_zone b, zsa_user b) = (zsa_zone a, zsa_user a)) (zone_supervisor_assignments d)"
      using a by (simp add: zone_supervisor_clean_def conj_ac)
  qed
  then show ?thesis using wf by (intro org_inv_zones [OF inv]) (simp_all add: d')
qed

lemma end_zone_supervisor_inv:
  assumes inv: "org_inv e d" and ok: "end_zone_supervisor_assignment k actor d = Inr d'"
  shows "org_inv e d'"
proof -
  obtain a where a: "tbl_get (zone_supervisor_assignments d) k = Some a"
    and d': "zone_supervisor_assignments d' =
        tbl_put k (a\<lparr>zsa_is_active := False, zsa_updated_by := Some (u_pk actor)\<rparr>) (zone_supervisor_assignments d)"
      "supervisor_assignments d' = supervisor_assignments d" "ags_assignments d' = ags_assignments d"
    using ok by (auto simp: end_zone_supervisor_assignment_def Let_def res_simps)
  have "zsa_unique (zone_supervisor_assignments d')"
    unfolding zsa_unique_def d'(1)
    by (rule tbl_unique_put [OF _ a]) (use inv in \<open>simp_all add: org_inv_def zsa_unique_def\<close>)
  then show ?thesis using inv by (intro org_inv_zones [OF inv]) (simp_all add: d' org_inv_def)
qed

lemma assign_ags_inv:
  assumes inv: "org_inv e d" and ok: "assign_assistant_general_supervisor u al z f t actor d = Inr d'"
  shows "org_inv e d'"
proof -
  obtain a where clean: "ags_clean d a" and act: "ags_is_active a"
    and d': "ags_assignments d' = tbl_insert a (ags_assignments d)"
      "supervisor_assignments d' = supervisor_assignments d"
      "zone_supervisor_assignments d' = zone_supervisor_assignments d"
    using ok by (auto simp: assign_assistant_general_supervisor_def Let_def res_simps)
  have wf: "tbl_wf (ags_assignments d)" and ex: "ags_exclusive (ags_assignments d)"
    and sh: "ags_shape (ags_assignments d)" using inv by (simp_all add: org_inv_def)
  have none: "tbl_get (ags_assignments d) j = Some b \<Longrightarrow> ags_user b = ags_user a \<Longrightarrow> ags_is_active b \<Longrightarrow>
      \<not> ags_all_zones a \<and> \<not> ags_all_zones b" for j b
    using clean act by (auto simp: ags_clean_def tbl_exists_get [OF wf])
  have "ags_exclusive (tbl_insert a (ags_assignments d))"
    unfolding ags_exclusive_def tbl_get_insert [OF wf]
    using ex none by (simp add: ags_exclusive_def split: if_splits)
  moreover have "ags_shape (tbl_insert a (ags_assignments d))"
    using sh clean unfolding ags_shape_def by (intro tbl_all_insert [OF wf]) (auto simp: ags_clean_def)
  ultimately show ?thesis using wf by (intro org_inv_ags [OF inv]) (simp_all add: d')
qed

lemma end_ags_inv:
  assumes inv: "org_inv e d" and ok: "end_assistant_general_supervisor_assignment k actor d = Inr d'"
  shows "org_inv e d'"
proof -
  obtain a where a: "tbl_get (ags_assignments d) k = Some a"
    and d': "ags_assignments d' =
        tbl_put k (a\<lparr>ags_is_active := False, ags_updated_by := Some (u_pk actor)\<rparr>) (ags_assignments d)"
      "supervisor_assignments d' = supervisor_assignments d"
      "zone_supervisor_assignments d' = zone_supervisor_assignments d"
    using ok by (auto simp: end_assistant_general_supervisor_assignment_def Let_def res_simps)
  have sh: "ags_shape (ags_assignments d)" and ex: "ags_exclusive (ags_assignments d)"
    using inv by (simp_all add: org_inv_def)
  have "ags_exclusive (ags_assignments d')"
    using ex unfolding ags_exclusive_def d'(1) tbl_get_put by (auto split: if_splits)
  moreover have "ags_shape (ags_assignments d')"
    using sh a unfolding ags_shape_def d'(1) by (auto intro!: tbl_all_put dest: tbl_allD)
  ultimately show ?thesis using inv by (intro org_inv_ags [OF inv]) (simp_all add: d' org_inv_def)
qed

lemma org_step_inv: "org_inv e d \<Longrightarrow> org_step e d c = Inr d' \<Longrightarrow> org_inv e d'"
  by (cases c) (auto intro: assign_site_supervisor_inv end_site_supervisor_inv
      assign_zone_supervisor_inv end_zone_supervisor_inv assign_ags_inv end_ags_inv)

interpretation org: safe_system "org_step e" "org_inv e" for e
  by unfold_locales (rule org_step_inv)

section \<open>Scope lemmas\<close>

lemma visible_sites_iff:
  "k \<in> set (visible_sites e d u) \<longleftrightarrow> (\<exists>s. (k, s) \<in> set (tbl_rows (sites d)) \<and> si_is_active s \<and>
     (u_role u = HR \<or> u_role u = STORE_MANAGER \<or> sees_all_zones d u \<or>
      u_role u = SITE_SUPERVISOR \<and> site_supervisor_query e d u k \<or>
      u_role u \<noteq> SITE_SUPERVISOR \<and> in_assigned_zone d u s))"
  unfolding visible_sites_def mem_where_keys
  by (intro arg_cong [where f = Ex] ext) (cases "u_role u"; auto)

lemma sees_all_zones_admin [simp]: "is_system_admin u \<Longrightarrow> sees_all_zones d u"
  by (simp add: sees_all_zones_def)

lemma supervised_subset_visible: "set (supervised_sites e d u) \<subseteq> set (visible_sites e d u)"
proof
  fix k
  assume "k \<in> set (supervised_sites e d u)"
  then obtain s where s: "(k, s) \<in> set (tbl_rows (sites d))" "si_is_active s"
    and w: "if is_system_admin u \<or> u_role u \<in> {HR, GENERAL_SUPERVISOR, ASSISTANT_GENERAL_SUPERVISOR}
      then (if u_role u = ASSISTANT_GENERAL_SUPERVISOR \<and> \<not> sees_all_zones d u
            then in_assigned_zone d u s else True)
      else if is_management_viewer u then False
      else if u_role u = SITE_SUPERVISOR then site_supervisor_query e d u k
      else if u_role u = ZONE_SUPERVISOR then in_assigned_zone d u s
      else False"
    unfolding supervised_sites_def mem_where_keys by blast
  from w have "u_role u = HR \<or> u_role u = STORE_MANAGER \<or> sees_all_zones d u \<or>
      u_role u = SITE_SUPERVISOR \<and> site_supervisor_query e d u k \<or>
      u_role u \<noteq> SITE_SUPERVISOR \<and> in_assigned_zone d u s"
    by (auto simp: sees_all_zones_def split: if_splits)
  with s show "k \<in> set (visible_sites e d u)" by (auto simp: visible_sites_iff)
qed

text \<open>
  The intended reading of the supervisor query: an active assignment of the user's own whose
  window contains today (\<open>AssignmentMixin.is_current\<close>).
\<close>

definition currently_supervises :: "env \<Rightarrow> db \<Rightarrow> user \<Rightarrow> nat \<Rightarrow> bool" where
  "currently_supervises e d u k \<longleftrightarrow>
     tbl_exists (\<lambda>_ a. ssa_site a = k \<and> ssa_user a = u_pk u \<and> ssa_is_active a \<and>
       is_current e (ssa_assigned_from a) (ssa_assigned_to a)) (supervisor_assignments d)"

lemma currently_supervises_query: "currently_supervises e d u k \<Longrightarrow> site_supervisor_query e d u k"
  by (fastforce simp: currently_supervises_def site_supervisor_query_def is_current_def tbl_exists_iff
      not_less split: option.splits)

lemma query_currently_supervises:
  assumes "site_supervisor_query e d u k"
    and single: "length (tbl_where (\<lambda>_ a. ssa_site a = k) (supervisor_assignments d)) \<le> 1"
  shows "currently_supervises e d u k"
proof -
  obtain i a j b where a: "(i, a) \<in> set (tbl_rows (supervisor_assignments d))" "ssa_site a = k"
      "ssa_user a = u_pk u" "ssa_is_active a" "ssa_assigned_from a \<le> localdate e"
    and b: "(j, b) \<in> set (tbl_rows (supervisor_assignments d))" "ssa_site b = k"
      "case ssa_assigned_to b of None \<Rightarrow> True | Some t \<Rightarrow> localdate e \<le> t"
    using assms(1) by (auto simp: site_supervisor_query_def tbl_exists_iff)
  have "(i, a) \<in> set (tbl_where (\<lambda>_ a. ssa_site a = k) (supervisor_assignments d))"
    "(j, b) \<in> set (tbl_where (\<lambda>_ a. ssa_site a = k) (supervisor_assignments d))"
    using a b by simp_all
  with single have "a = b"
    by (cases "tbl_where (\<lambda>_ a. ssa_site a = k) (supervisor_assignments d)") auto
  with a b have "is_current e (ssa_assigned_from a) (ssa_assigned_to a)"
    by (auto simp: is_current_def not_less split: option.splits)
  with a show ?thesis by (auto simp: currently_supervises_def tbl_exists_iff)
qed

section \<open>Properties\<close>

text \<open>
  C4: supervision limits. Whatever sequence of assignment calls runs, a site never has more
  active supervisors than configured nor the same user twice, has at most one active primary
  supervisor, a zone never has the same user twice, and an assistant general supervisor who
  covers all zones holds no other active assignment.
\<close>

theorem supervision_limits:
  assumes "org_inv e d" and "d' = run_calls (org_step e) d cs"
  shows "int (length (active_site_supervisors d' s)) \<le> max 0 (MAX_SITE_SUPERVISORS_PER_SITE e) \<and>
    tbl_unique ssa_is_active (\<lambda>a. (ssa_site a, ssa_user a)) (supervisor_assignments d') \<and>
    tbl_unique (\<lambda>a. ssa_is_active a \<and> ssa_is_primary a) ssa_site (supervisor_assignments d') \<and>
    tbl_unique zsa_is_active (\<lambda>a. (zsa_zone a, zsa_user a)) (zone_supervisor_assignments d') \<and>
    (tbl_get (ags_assignments d') i = Some a \<and> tbl_get (ags_assignments d') j = Some b \<and> ags_is_active a \<and>
     ags_is_active b \<and> ags_user a = ags_user b \<and> ags_all_zones a \<longrightarrow> i = j)"
proof -
  have "org_inv e d'" unfolding assms(2) by (rule org.run_inv [OF assms(1)])
  then show ?thesis
    unfolding org_inv_def site_cap_def ssa_unique_def one_primary_def zsa_unique_def ags_exclusive_def by blast
qed

definition demo_supervisor :: "nat \<Rightarrow> user" where
  "demo_supervisor k =
     \<lparr>u_pk = k, u_role = SITE_SUPERVISOR, u_is_superuser = False, u_is_active = True, u_perms = []\<rparr>"

definition demo_org_calls :: "org_call list" where
  "demo_org_calls =
     [AssignSiteSupervisor 1 2 (Date 2025 1 1) None True (demo_supervisor 9),
      AssignSiteSupervisor 1 3 (Date 2025 1 1) None True (demo_supervisor 9),
      AssignSiteSupervisor 1 4 (Date 2025 1 1) None True (demo_supervisor 9)]"

lemma empty_org_inv: "org_inv e empty_db"
  by (simp add: org_inv_def empty_db_def site_cap_def active_site_supervisors_def tbl_where_def
      ssa_unique_def one_primary_def zsa_unique_def ags_shape_def)
    (simp add: tbl_empty_def ags_exclusive_def tbl_get_def)

theorem supervision_limits_witness:
  "int (length (active_site_supervisors (run_calls (org_step default_env) empty_db demo_org_calls) 1)) \<le> 2 \<and>
   length (active_site_supervisors (run_calls (org_step default_env) empty_db demo_org_calls) 1) = 2"
proof -
  have "length (active_site_supervisors (run_calls (org_step default_env) empty_db demo_org_calls) 1) = 2"
    by code_simp
  then show ?thesis
    using supervision_limits [OF empty_org_inv refl, of default_env demo_org_calls 1]
    by (simp add: default_env_def)
qed

text \<open>
  C15: what a site supervisor sees. When each site has a single assignment row, a site supervisor
  sees exactly the unarchived sites with a current assignment of his own, and supervises exactly
  the sites he sees.
\<close>

theorem site_supervisor_scope:
  assumes "u_role u = SITE_SUPERVISOR" and "\<not> u_is_superuser u"
    and "\<And>k. length (tbl_where (\<lambda>_ a. ssa_site a = k) (supervisor_assignments d)) \<le> 1"
  shows "(k \<in> set (visible_sites e d u) \<longleftrightarrow>
      (\<exists>s. (k, s) \<in> set (tbl_rows (sites d)) \<and> si_is_active s \<and> currently_supervises e d u k)) \<and>
    supervised_sites e d u = visible_sites e d u"
proof -
  have q: "site_supervisor_query e d u k = currently_supervises e d u k" for k
    using query_currently_supervises assms(3) currently_supervises_query by blast
  have "\<not> sees_all_zones d u" using assms(1,2) by (simp add: sees_all_zones_def is_system_admin_def)
  then have "k \<in> set (visible_sites e d u) \<longleftrightarrow>
      (\<exists>s. (k, s) \<in> set (tbl_rows (sites d)) \<and> si_is_active s \<and> currently_supervises e d u k)"
    using assms(1) q by (auto simp: visible_sites_iff)
  moreover have "supervised_sites e d u = visible_sites e d u"
    using assms(1,2) \<open>\<not> sees_all_zones d u\<close>
    by (simp add: supervised_sites_def visible_sites_def is_system_admin_def is_management_viewer_def)
  ultimately show ?thesis by blast
qed

definition demo_site :: site where
  "demo_site = \<lparr>si_name = ''A'', si_slug = ''a'', si_code = ''A'', si_zone = None, si_site_type = None, si_status = None,
     si_building_name = [], si_location = [], si_description = [], si_address = [], si_city = [], si_region = [], si_country = ''TZ'',
     si_postal_code = [], si_latitude = None, si_longitude = None, si_capacity = 0, si_contact_person = [], si_contact_email = [],
     si_contact_phone = [], si_work_mode = WM_SHIFT, si_working_days = [], si_notes = [], si_is_active = True, si_created_by = None\<rparr>"

definition demo_assignment :: "nat \<Rightarrow> date option \<Rightarrow> site_supervisor_assignment" where
  "demo_assignment u t = \<lparr>ssa_user = u, ssa_site = 1, ssa_assigned_from = Date 2025 1 1, ssa_assigned_to = t,
     ssa_is_active = True, ssa_is_primary = False, ssa_created_by = None, ssa_updated_by = None\<rparr>"

definition demo_org :: "site_supervisor_assignment list \<Rightarrow> db" where
  "demo_org as = empty_db\<lparr>sites := \<lparr>tbl_rows = [(1, demo_site)], tbl_next = 2\<rparr>,
     supervisor_assignments := \<lparr>tbl_rows = zip [1 ..< Suc (length as)] as, tbl_next = Suc (length as)\<rparr>\<rparr>"

theorem site_supervisor_scope_witness:
  "1 \<in> set (visible_sites default_env (demo_org [demo_assignment 2 None]) (demo_supervisor 2))"
proof -
  let ?d = "demo_org [demo_assignment 2 None]"
  have "\<exists>s. (1, s) \<in> set (tbl_rows (sites ?d)) \<and> si_is_active s \<and>
      currently_supervises default_env ?d (demo_supervisor 2) 1"
    by (simp add: demo_org_def demo_site_def currently_supervises_def demo_assignment_def tbl_exists_def
        is_current_def default_env_def demo_supervisor_def date_order_defs)
  moreover have "u_role (demo_supervisor 2) = SITE_SUPERVISOR" "\<not> u_is_superuser (demo_supervisor 2)"
    "length (tbl_where (\<lambda>_ a. ssa_site a = k) (supervisor_assignments ?d)) \<le> 1" for k
    by (simp_all add: demo_org_def demo_supervisor_def tbl_where_def)
  ultimately show ?thesis using site_supervisor_scope [of "demo_supervisor 2" ?d 1 default_env] by blast
qed

text \<open>
  An expired assignment. The supervisor whose assignment ended in May still sees the site in
  June once a second supervisor is assigned to it: the two halves of the query are met by two
  different rows.
\<close>

theorem expired_supervisor_keeps_scope:
  "\<not> currently_supervises default_env (demo_org [demo_assignment 2 (Some (Date 2025 5 31)), demo_assignment 3 None])
       (demo_supervisor 2) 1 \<and>
   visible_sites default_env (demo_org [demo_assignment 2 (Some (Date 2025 5 31)), demo_assignment 3 None])
       (demo_supervisor 2) = [1] \<and>
   visible_sites default_env (demo_org [demo_assignment 2 (Some (Date 2025 5 31))]) (demo_supervisor 2) = []"
  by code_simp

end
