(* ===== verification/Policies.thy ===== *)
theory Policies
  imports Org
begin

text \<open>
  Authorisation: the role primitives of \<open>apps/accounts/permissions.py\<close>, the object-level
  predicates of \<open>apps/site_management/policies.py\<close> and the assignment policies of
  \<open>apps/site_management/assignment_policies.py\<close>. A predicate takes the primary key or the
  row it reads.
\<close>

section \<open>Role primitives\<close>

definition role_required :: "role_code list \<Rightarrow> user \<Rightarrow> bool" where
  "role_required roles u \<longleftrightarrow> u_is_superuser u \<or> u_role u \<in> set roles"

definition management_required :: "user \<Rightarrow> bool" where
  "management_required u \<longleftrightarrow> is_system_admin u \<or> u_role u = HR \<or> u_role u \<in> SUPERVISOR_ROLES"

definition user_can_manage_site :: "env \<Rightarrow> db \<Rightarrow> user \<Rightarrow> nat option \<Rightarrow> bool" where
  "user_can_manage_site e d u site_id \<longleftrightarrow>
     (if is_system_admin u \<or> u_role u \<in> {HR, GENERAL_SUPERVISOR} then True
      else if is_management_viewer u then False
      else if u_role u = SITE_SUPERVISOR then
        tbl_exists (\<lambda>_ a. ssa_user a = u_pk u \<and> Some (ssa_site a) = site_id \<and> ssa_is_active a)
          (supervisor_assignments d)
      else if u_role u \<in> {ZONE_SUPERVISOR, ASSISTANT_GENERAL_SUPERVISOR}
      then site_in_user_scope e d u site_id
      else False)"

definition user_site_ids :: "env \<Rightarrow> db \<Rightarrow> user \<Rightarrow> nat list" where
  "user_site_ids e d u = (if is_system_admin u then [] else visible_sites e d u)"

section \<open>Object-level policies\<close>

definition REVIEWER_ROLES :: "role_code set" where
  "REVIEWER_ROLES = {GENERAL_SUPERVISOR, ASSISTANT_GENERAL_SUPERVISOR, ZONE_SUPERVISOR}"

definition SENIOR_ROLES :: "role_code set" where
  "SENIOR_ROLES = {GENERAL_SUPERVISOR, ASSISTANT_GENERAL_SUPERVISOR}"

definition is_reviewer :: "user \<Rightarrow> bool" where
  "is_reviewer u \<longleftrightarrow> is_system_admin u \<or> u_role u \<in> REVIEWER_ROLES"

definition is_senior :: "user \<Rightarrow> bool" where
  "is_senior u \<longleftrightarrow> is_system_admin u \<or> u_role u \<in> SENIOR_ROLES"

definition manage_site :: "env \<Rightarrow> db \<Rightarrow> user \<Rightarrow> nat option \<Rightarrow> bool" where
  "manage_site e d u site_id \<longleftrightarrow> is_system_admin u \<or> user_can_manage_site e d u site_id"

definition can_view_zone :: "db \<Rightarrow> user \<Rightarrow> nat \<Rightarrow> bool" where
  "can_view_zone d u zone \<longleftrightarrow> zone \<in> set (visible_zones d u)"

definition can_view_site :: "env \<Rightarrow> db \<Rightarrow> user \<Rightarrow> nat \<Rightarrow> bool" where
  "can_view_site e d u site \<longleftrightarrow> site_in_user_scope e d u (Some site)"

definition can_edit_site :: "env \<Rightarrow> db \<Rightarrow> user \<Rightarrow> nat \<Rightarrow> bool" where
  "can_edit_site e d u site \<longleftrightarrow> manage_site e d u (Some site)"

definition can_view_cleaner :: "env \<Rightarrow> db \<Rightarrow> user \<Rightarrow> nat \<Rightarrow> bool" where
  "can_view_cleaner e d u cleaner \<longleftrightarrow>
     (if \<not> (management_required u \<or> is_management_viewer u) then False
      else if is_system_admin u \<or> u_role u \<in> {GENERAL_SUPERVISOR, MANAGEMENT_VIEWER} then True
      else tbl_exists (\<lambda>_ a. csa_cleaner a = cleaner \<and> csa_site a \<in> set (visible_sites e d u))
             (cleaner_assignments d))"

definition can_edit_cleaner :: "env \<Rightarrow> db \<Rightarrow> user \<Rightarrow> nat \<Rightarrow> bool" where
  "can_edit_cleaner e d u cleaner \<longleftrightarrow>
     (if is_system_admin u \<or> u_role u = GENERAL_SUPERVISOR then True
      else if is_management_viewer u then False
      else tbl_exists (\<lambda>_ a. csa_cleaner a = cleaner \<and> csa_site a \<in> set (supervised_sites e d u))
             (cleaner_assignments d))"

definition can_view_assignment :: "env \<Rightarrow> db \<Rightarrow> user \<Rightarrow> cleaner_site_assignment \<Rightarrow> bool" where
  "can_view_assignment e d u a \<longleftrightarrow>
     (if is_system_admin u then True else site_in_user_scope e d u (Some (csa_site a)))"

definition can_edit_assignment :: "env \<Rightarrow> db \<Rightarrow> user \<Rightarrow> cleaner_site_assignment \<Rightarrow> bool" where
  "can_edit_assignment e d u a \<longleftrightarrow> manage_site e d u (Some (csa_site a))"

definition can_record_attendance :: "env \<Rightarrow> db \<Rightarrow> user \<Rightarrow> nat \<Rightarrow> bool" where
  "can_record_attendance e d u site \<longleftrightarrow> manage_site e d u (Some site)"

definition can_review_attendance :: "env \<Rightarrow> db \<Rightarrow> user \<Rightarrow> nat \<Rightarrow> bool" where
  "can_review_attendance e d u site \<longleftrightarrow> is_reviewer u \<and> site_in_user_scope e d u (Some site)"

definition can_manage_store :: "env \<Rightarrow> db \<Rightarrow> user \<Rightarrow> site_store \<Rightarrow> bool" where
  "can_manage_store e d u store \<longleftrightarrow> manage_site e d u (st_site store)"

definition can_view_inspection :: "env \<Rightarrow> db \<Rightarrow> user \<Rightarrow> nat \<Rightarrow> bool" where
  "can_view_inspection e d u site_id \<longleftrightarrow> site_in_user_scope e d u (Some site_id)"

definition can_create_inspection :: "env \<Rightarrow> db \<Rightarrow> user \<Rightarrow> nat \<Rightarrow> bool" where
  "can_create_inspection e d u site \<longleftrightarrow> manage_site e d u (Some site)"

definition can_review_inspection :: "env \<Rightarrow> db \<Rightarrow> user \<Rightarrow> nat \<Rightarrow> bool" where
  "can_review_inspection e d u site_id \<longleftrightarrow> is_reviewer u \<and> site_in_user_scope e d u (Some site_id)"

definition can_view_issue :: "env \<Rightarrow> db \<Rightarrow> user \<Rightarrow> issue \<Rightarrow> bool" where
  "can_view_issue e d u i \<longleftrightarrow> site_in_user_scope e d u (Some (is_site i))"

definition can_edit_issue :: "env \<Rightarrow> db \<Rightarrow> user \<Rightarrow> issue \<Rightarrow> bool" where
  "can_edit_issue e d u i \<longleftrightarrow> manage_site e d u (Some (is_site i))"

definition has_perm :: "user \<Rightarrow> string \<Rightarrow> bool" where
  "has_perm u p \<longleftrightarrow> p \<in> set (u_perms u)"

definition can_assign_job :: "env \<Rightarrow> db \<Rightarrow> user \<Rightarrow> job \<Rightarrow> bool" where
  "can_assign_job e d u j \<longleftrightarrow> has_perm u ''accounts.assign_job'' \<and> manage_site e d u (Some (jb_site j))"

definition can_verify_job :: "env \<Rightarrow> db \<Rightarrow> user \<Rightarrow> job \<Rightarrow> bool" where
  "can_verify_job e d u j \<longleftrightarrow> has_perm u ''accounts.verify_job'' \<and> manage_site e d u (Some (jb_site j))"

definition can_submit_site_report :: "env \<Rightarrow> db \<Rightarrow> user \<Rightarrow> nat \<Rightarrow> bool" where
  "can_submit_site_report e d u site_id \<longleftrightarrow> manage_site e d u (Some site_id)"

definition can_review_site_report :: "env \<Rightarrow> db \<Rightarrow> user \<Rightarrow> nat \<Rightarrow> bool" where
  "can_review_site_report e d u site_id \<longleftrightarrow> is_reviewer u \<and> site_in_user_scope e d u (Some site_id)"

definition can_zone_review :: "db \<Rightarrow> user \<Rightarrow> nat \<Rightarrow> bool" where
  "can_zone_review d u zone_id \<longleftrightarrow>
     (if \<not> is_reviewer u then False
      else if is_system_admin u \<or> u_role u \<in> {GENERAL_SUPERVISOR, MANAGEMENT_VIEWER} then True
      else if u_role u = ASSISTANT_GENERAL_SUPERVISOR \<and> assigned_zone_ids d u = [] then True
      else zone_id \<in> set (assigned_zone_ids d u))"

definition can_review_zone_report :: "db \<Rightarrow> user \<Rightarrow> nat \<Rightarrow> bool" where
  "can_review_zone_report d u zone_id \<longleftrightarrow> can_zone_review d u zone_id"

definition can_review_assistant_report :: "user \<Rightarrow> bool" where
  "can_review_assistant_report u \<longleftrightarrow> is_senior u"

definition can_submit_general_report :: "user \<Rightarrow> bool" where
  "can_submit_general_report u \<longleftrightarrow> is_system_admin u \<or> u_role u = GENERAL_SUPERVISOR"

definition can_view_management_report :: "user \<Rightarrow> bool" where
  "can_view_management_report u \<longleftrightarrow> management_required u \<or> is_management_viewer u"

definition can_export_data :: "user \<Rightarrow> bool" where
  "can_export_data u \<longleftrightarrow> has_perm u ''accounts.export_site_management_data''"

text \<open>\<open>ensure\<close>: continue only when the predicate holds.\<close>

definition ensure :: "bool \<Rightarrow> 'a res \<Rightarrow> 'a res" where
  "ensure predicate k = (if \<not> predicate then Inl Forbidden else k)"

section \<open>Assignment policies\<close>

definition assignment_can_view :: "env \<Rightarrow> db \<Rightarrow> user \<Rightarrow> cleaner_site_assignment \<Rightarrow> bool" where
  "assignment_can_view e d u a \<longleftrightarrow>
     (if is_system_admin u \<or> u_role u = HR then True
      else site_in_user_scope e d u (Some (csa_site a)))"

definition assignment_can_edit :: "env \<Rightarrow> db \<Rightarrow> user \<Rightarrow> cleaner_site_assignment \<Rightarrow> bool" where
  "assignment_can_edit e d u a \<longleftrightarrow>
     (if is_system_admin u \<or> u_role u = HR then True
      else user_can_manage_site e d u (Some (csa_site a)))"

definition can_assign_cleaner :: "env \<Rightarrow> db \<Rightarrow> user \<Rightarrow> nat \<Rightarrow> bool" where
  "can_assign_cleaner e d u site \<longleftrightarrow> u_role u = HR \<or> user_can_manage_site e d u (Some site)"

section \<open>Lemmas\<close>

lemma ensure_Inr [res_simps]: "ensure p k = Inr x \<longleftrightarrow> p \<and> k = Inr x"
  by (simp add: ensure_def)

lemma ensure_Inl: "ensure p k = Inl x \<longleftrightarrow> \<not> p \<and> x = Forbidden \<or> p \<and> k = Inl x"
  by (auto simp: ensure_def)

lemma viewer_cannot_manage:
  "is_management_viewer u \<Longrightarrow> \<not> u_is_superuser u \<Longrightarrow>
     \<not> is_system_admin u \<and> \<not> user_can_manage_site e d u k \<and> \<not> is_reviewer u \<and> \<not> is_senior u"
  by (simp add: is_management_viewer_def is_system_admin_def user_can_manage_site_def is_reviewer_def
      is_senior_def REVIEWER_ROLES_def SENIOR_ROLES_def)

lemma viewer_supervises_nothing:
  "is_management_viewer u \<Longrightarrow> \<not> u_is_superuser u \<Longrightarrow> supervised_sites e d u = []"
  by (simp add: supervised_sites_def is_management_viewer_def is_system_admin_def tbl_where_def)

text \<open>Away from site supervisors, managing an existing, unarchived site implies seeing it.\<close>

lemma manage_implies_visible:
  assumes "user_can_manage_site e d u (Some k)"
    and "is_system_admin u \<or> u_role u \<noteq> SITE_SUPERVISOR"
    and "tbl_get (sites d) k = Some s" and "si_is_active s"
  shows "site_in_user_scope e d u (Some k)"
  using assms tbl_get_in [OF assms(3)]
  by (auto simp: user_can_manage_site_def site_in_user_scope_def visible_sites_iff sees_all_zones_def
      split: if_splits)

text \<open>A site supervisor manages a site once the assignment row is active, whatever its dates.\<close>

lemma site_supervisor_manages:
  assumes "u_role u = SITE_SUPERVISOR" and "\<not> u_is_superuser u"
  shows "user_can_manage_site e d u (Some k) \<longleftrightarrow>
     tbl_exists (\<lambda>_ a. ssa_user a = u_pk u \<and> ssa_site a = k \<and> ssa_is_active a) (supervisor_assignments d)"
  using assms by (simp add: user_can_manage_site_def is_system_admin_def is_management_viewer_def)

lemma current_supervisor_manages:
  assumes "u_role u = SITE_SUPERVISOR" and "\<not> u_is_superuser u" and "currently_supervises e d u k"
  shows "user_can_manage_site e d u (Some k)"
  using assms by (auto simp: site_supervisor_manages currently_supervises_def elim!: tbl_exists_mono)

section \<open>Properties\<close>


definition demo_viewer :: user where
  "demo_viewer = \<lparr>u_pk = 7, u_role = MANAGEMENT_VIEWER, u_is_superuser = False, u_is_active = True,
     u_perms = [''accounts.verify_job'']\<rparr>"


text \<open>
  Write access implies read access. Away from site supervisors, whoever may manage an
  unarchived site can also see it; and a site supervisor with a current assignment manages
  the site and sees it.
\<close>

theorem manage_implies_view:
  assumes "tbl_get (sites d) k = Some s" and "si_is_active s"
    and "is_system_admin u \<or> u_role u \<noteq> SITE_SUPERVISOR \<or> currently_supervises e d u k"
    and "manage_site e d u (Some k)"
  shows "can_view_site e d u k"
proof (cases "is_system_admin u \<or> u_role u \<noteq> SITE_SUPERVISOR")
  case True
  show ?thesis
  proof (cases "is_system_admin u")
    case True
    then have "user_can_manage_site e d u (Some k)" by (simp add: user_can_manage_site_def)
    from manage_implies_visible [OF this] True assms(1,2) show ?thesis by (simp add: can_view_site_def)
  next
    case False
    then have "user_can_manage_site e d u (Some k)" using assms(4) by (simp add: manage_site_def)
    from manage_implies_visible [OF this True assms(1,2)] show ?thesis by (simp add: can_view_site_def)
  qed
next
  case False
  then have "site_supervisor_query e d u k" using assms(3) currently_supervises_query by blast
  then show ?thesis
    using False tbl_get_in [OF assms(1)] assms(2)
    by (auto simp: can_view_site_def site_in_user_scope_def visible_sites_iff)
qed

theorem manage_implies_view_witness:
  "can_view_site default_env (demo_org [demo_assignment 2 None]) (demo_supervisor 2) 1"
proof -
  let ?d = "demo_org [demo_assignment 2 None]"
  have "tbl_get (sites ?d) 1 = Some demo_site" "si_is_active demo_site"
    by (simp_all add: demo_org_def tbl_get_def demo_site_def)
  moreover have "currently_supervises default_env ?d (demo_supervisor 2) 1"
    "manage_site default_env ?d (demo_supervisor 2) (Some 1)" by code_simp+
  ultimately show ?thesis by (intro manage_implies_view) simp_all
qed

text \<open>
  A site supervisor whose only assignment has expired but is still active can write to a site
  that is no longer in his scope.
\<close>

theorem expired_supervisor_writes_without_reading:
  "can_edit_site default_env (demo_org [demo_assignment 2 (Some (Date 2025 5 31))]) (demo_supervisor 2) 1 \<and>
   \<not> can_view_site default_env (demo_org [demo_assignment 2 (Some (Date 2025 5 31))]) (demo_supervisor 2) 1"
  by code_simp

end
