(* ===== verification/Store.thy ===== *)
theory Store
  imports Core
begin

text \<open>
  Stores, the product catalogue, store items and stock movements: lines 85 to 598 of
  \<open>apps/site_management/store_services.py\<close> with the \<open>clean()\<close> rules, validators and
  constraints of the models they save. A service that saves a whole model instance takes the
  instance as the caller holds it: its primary key and the row read earlier. A number that
  does not fit its numeric column is the database's error, \<open>DataError\<close>.
\<close>

section \<open>Stores\<close>

text \<open>\<open>SiteStore.full_clean()\<close>: the field validators and \<open>SiteStore.clean\<close>.\<close>

definition parent_type_in :: "db \<Rightarrow> store_type set \<Rightarrow> nat option \<Rightarrow> bool" where
  "parent_type_in d ts p \<longleftrightarrow>
     (case p of None \<Rightarrow> True
      | Some k \<Rightarrow> (case tbl_get (stores d) k of None \<Rightarrow> False | Some s \<Rightarrow> st_store_type s \<in> ts))"

definition site_store_clean :: "db \<Rightarrow> nat option \<Rightarrow> site_store \<Rightarrow> bool" where
  "site_store_clean d pk s \<longleftrightarrow>
     st_store_name s \<noteq> [] \<and> length (st_store_name s) \<le> 160 \<and> length (st_location s) \<le> 255 \<and>
     \<not> (st_parent_store s \<noteq> None \<and> st_parent_store s = pk) \<and>
     \<not> (st_store_type s = SUPER \<and> st_parent_store s \<noteq> None) \<and>
     (st_store_type s = POWER \<longrightarrow> parent_type_in d {SUPER} (st_parent_store s)) \<and>
     (st_store_type s = SITE \<longrightarrow>
        st_site s \<noteq> None \<and> parent_type_in d {SUPER, POWER} (st_parent_store s))"

definition create_store ::
  "nat option \<Rightarrow> string \<Rightarrow> user \<Rightarrow> store_type \<Rightarrow> nat option \<Rightarrow> string \<Rightarrow> nat option \<Rightarrow> db \<Rightarrow>
   (nat \<times> db) res" where
  "create_store site store_name actor type parent location managed_by d =
     (let s = \<lparr>st_site = site, st_store_name = store_name, st_store_type = type,
               st_parent_store = parent, st_location = location, st_managed_by = managed_by,
               st_is_active = True, st_created_by = Some (u_pk actor),
               st_updated_by = Some (u_pk actor)\<rparr>;
          k = tbl_next (stores d)
      in if \<not> site_store_clean d None s then Inl FullClean
         else Inr (k, record_audit A_CREATE (Some (u_pk actor)) ''site_management.sitestore'' k None
                (Some (SnapStore s)) (d\<lparr>stores := tbl_insert s (stores d)\<rparr>)))"

definition update_store ::
  "nat \<Rightarrow> site_store \<Rightarrow> user \<Rightarrow> nat option \<Rightarrow> string option \<Rightarrow> store_type option \<Rightarrow> nat option \<Rightarrow>
   string option \<Rightarrow> nat option \<Rightarrow> bool option \<Rightarrow> db \<Rightarrow> db res" where
  "update_store pk store actor site store_name type parent location managed_by is_active d =
     (let s = store\<lparr>
            st_site := (if site = None then st_site store else site),
            st_store_name := given store_name (st_store_name store),
            st_store_type := given type (st_store_type store),
            st_parent_store := (if parent = None then st_parent_store store else parent),
            st_location := given location (st_location store),
            st_managed_by := (if managed_by = None then st_managed_by store else managed_by),
            st_is_active := given is_active (st_is_active store),
            st_updated_by := Some (u_pk actor)\<rparr>
      in if \<not> site_store_clean d (Some pk) s then Inl FullClean
         else Inr (record_audit A_UPDATE (Some (u_pk actor)) ''site_management.sitestore'' pk
                (Some (SnapStore store)) (Some (SnapStore s))
                (d\<lparr>stores := tbl_put pk s (stores d)\<rparr>)))"

section \<open>The product catalogue\<close>

text \<open>
  \<open>full_clean()\<close> looks for clashes through the default manager, which hides archived rows;
  the unique index of the database covers every row.
\<close>

definition company_product_clean :: "db \<Rightarrow> nat option \<Rightarrow> company_product \<Rightarrow> bool" where
  "company_product_clean d pk p \<longleftrightarrow>
     cp_product_name p \<noteq> [] \<and> length (cp_product_name p) \<le> 160 \<and>
     cp_product_code p \<noteq> [] \<and> length (cp_product_code p) \<le> 40 \<and>
     cp_unit p \<noteq> [] \<and> length (cp_unit p) \<le> 32 \<and> length (cp_category p) \<le> 64 \<and>
     decimal_fits 12 2 (cp_current_unit_cost p) \<and> 0 \<le> cp_current_unit_cost p \<and>
     \<not> tbl_exists (\<lambda>j b. Some j \<noteq> pk \<and> cp_is_active b \<and> cp_product_code b = cp_product_code p) (products d)"

definition product_code_taken :: "db \<Rightarrow> nat option \<Rightarrow> company_product \<Rightarrow> bool" where
  "product_code_taken d pk p \<longleftrightarrow>
     tbl_exists (\<lambda>j b. Some j \<noteq> pk \<and> cp_product_code b = cp_product_code p) (products d)"

definition create_company_product ::
  "string \<Rightarrow> string \<Rightarrow> string \<Rightarrow> rat \<Rightarrow> user \<Rightarrow> string \<Rightarrow> string \<Rightarrow> db \<Rightarrow> (nat \<times> db) res" where
  "create_company_product name code unit cost actor category description d =
     (let p = \<lparr>cp_product_name = name, cp_product_code = code, cp_unit = unit,
               cp_category = category, cp_current_unit_cost = cost, cp_description = description,
               cp_is_active = True, cp_created_by = Some (u_pk actor),
               cp_updated_by = Some (u_pk actor)\<rparr>;
          k = tbl_next (products d)
      in if \<not> company_product_clean d None p then Inl FullClean
         else if product_code_taken d None p then Inl IntegrityError
         else Inr (k, record_audit A_CREATE (Some (u_pk actor)) ''site_management.companyproduct'' k
                None (Some (SnapProduct p)) (d\<lparr>products := tbl_insert p (products d)\<rparr>)))"

datatype product_value =
    PName string | PCode string | PUnit string | PCategory string | PCost rat
  | PDescription string | PActive bool

fun set_product_value :: "product_value \<Rightarrow> company_product \<Rightarrow> company_product" where
  "set_product_value (PName x) p = p\<lparr>cp_product_name := x\<rparr>"
| "set_product_value (PCode x) p = p\<lparr>cp_product_code := x\<rparr>"
| "set_product_value (PUnit x) p = p\<lparr>cp_unit := x\<rparr>"
| "set_product_value (PCategory x) p = p\<lparr>cp_category := x\<rparr>"
| "set_product_value (PCost x) p = p\<lparr>cp_current_unit_cost := x\<rparr>"
| "set_product_value (PDescription x) p = p\<lparr>cp_description := x\<rparr>"
| "set_product_value (PActive x) p = p\<lparr>cp_is_active := x\<rparr>"

definition update_company_product ::
  "nat \<Rightarrow> company_product \<Rightarrow> user \<Rightarrow> product_value list \<Rightarrow> db \<Rightarrow> db res" where
  "update_company_product pk product actor vals d =
     (let p = (fold set_product_value vals product)\<lparr>cp_updated_by := Some (u_pk actor)\<rparr>
      in if \<not> company_product_clean d (Some pk) p then Inl FullClean
         else if product_code_taken d (Some pk) p then Inl IntegrityError
         else Inr (record_audit A_UPDATE (Some (u_pk actor)) ''site_management.companyproduct'' pk
                (Some (SnapProduct product)) (Some (SnapProduct p))
                (d\<lparr>products := tbl_put pk p (products d)\<rparr>)))"

section \<open>Store items\<close>

definition store_item_clean :: "db \<Rightarrow> nat option \<Rightarrow> store_item \<Rightarrow> bool" where
  "store_item_clean d pk it \<longleftrightarrow>
     it_item_name it \<noteq> [] \<and> length (it_item_name it) \<le> 160 \<and> length (it_item_code it) \<le> 32 \<and>
     it_unit it \<noteq> [] \<and> length (it_unit it) \<le> 32 \<and> length (it_category it) \<le> 64 \<and>
     decimal_fits 10 2 (it_opening_stock it) \<and> decimal_fits 10 2 (it_current_stock it) \<and>
     decimal_fits 12 2 (it_unit_cost it) \<and> decimal_fits 10 2 (it_minimum_stock_level it) \<and>
     0 \<le> it_opening_stock it \<and> 0 \<le> it_unit_cost it \<and> 0 \<le> it_minimum_stock_level it \<and>
     \<not> tbl_exists (\<lambda>j b. Some j \<noteq> pk \<and> it_is_active b \<and> it_store b = it_store it \<and>
          it_item_name b = it_item_name it) (items d) \<and>
     \<not> (it_item_code it \<noteq> [] \<and> tbl_exists (\<lambda>j b. Some j \<noteq> pk \<and> it_is_active b \<and>
          it_store b = it_store it \<and> it_item_code b = it_item_code it) (items d))"

definition store_item_taken :: "db \<Rightarrow> nat option \<Rightarrow> store_item \<Rightarrow> bool" where
  "store_item_taken d pk it \<longleftrightarrow>
     tbl_exists (\<lambda>j b. Some j \<noteq> pk \<and> it_store b = it_store it \<and> it_item_name b = it_item_name it) (items d) \<or>
     it_item_code it \<noteq> [] \<and>
       tbl_exists (\<lambda>j b. Some j \<noteq> pk \<and> it_store b = it_store it \<and> it_item_code b = it_item_code it) (items d)"

definition add_store_item ::
  "env \<Rightarrow> nat \<Rightarrow> string \<Rightarrow> user \<Rightarrow> (nat \<times> company_product) option \<Rightarrow> string \<Rightarrow> string \<Rightarrow> string \<Rightarrow>
   rat option \<Rightarrow> rat \<Rightarrow> rat option \<Rightarrow> db \<Rightarrow> (nat \<times> db) res" where
  "add_store_item e store item_name actor product item_code unit category unit_cost opening_stock
       minimum_stock_level d =
     (if opening_stock < 0 then Inl (ValidationError ''opening_stock_invalid'')
      else
        let it = \<lparr>it_store = store, it_product = map_option fst product,
              it_item_name = (case product of None \<Rightarrow> item_name | Some (_, p) \<Rightarrow> cp_product_name p),
              it_item_code = (case product of None \<Rightarrow> item_code | Some (_, p) \<Rightarrow> cp_product_code p),
              it_unit = (case product of None \<Rightarrow> unit | Some (_, p) \<Rightarrow> cp_unit p),
              it_category = (case product of None \<Rightarrow> category | Some (_, p) \<Rightarrow> cp_category p),
              it_opening_stock = opening_stock, it_current_stock = opening_stock,
              it_unit_cost = (case unit_cost of Some c \<Rightarrow> c
                 | None \<Rightarrow> (case product of None \<Rightarrow> 0 | Some (_, p) \<Rightarrow> cp_current_unit_cost p)),
              it_minimum_stock_level = given minimum_stock_level (LOW_STOCK_DEFAULT e),
              it_is_active = True, it_created_by = Some (u_pk actor),
              it_updated_by = Some (u_pk actor)\<rparr>;
            k = tbl_next (items d)
        in if \<not> store_item_clean d None it then Inl FullClean
           else if store_item_taken d None it then Inl IntegrityError
           else
             let d1 = d\<lparr>items := tbl_insert it (items d)\<rparr>;
                 m = \<lparr>mv_store_item = k, mv_transfer = None, mv_movement_type = OPENING,
                      mv_quantity = opening_stock, mv_unit_cost = it_unit_cost it,
                      mv_movement_date = sys_today e, mv_cleaner = None, mv_area = None,
                      mv_notes = ''Opening stock'', mv_recorded_by = Some (u_pk actor),
                      mv_created_by = Some (u_pk actor), mv_updated_by = Some (u_pk actor)\<rparr>;
                 d2 = (if opening_stock > 0 then d1\<lparr>movements := tbl_insert m (movements d1)\<rparr> else d1)
             in Inr (k, record_audit A_CREATE (Some (u_pk actor)) ''site_management.storeitem'' k None
                  (Some (SnapItem it)) d2))"

text \<open>
  \<open>update_store_item\<close> saves the caller's instance with all its columns, the running quantity
  the caller read included.
\<close>

definition update_store_item ::
  "nat \<Rightarrow> store_item \<Rightarrow> user \<Rightarrow> (nat \<times> company_product) option \<Rightarrow> string option \<Rightarrow> string option \<Rightarrow>
   string option \<Rightarrow> string option \<Rightarrow> rat option \<Rightarrow> rat option \<Rightarrow> bool option \<Rightarrow> db \<Rightarrow> db res" where
  "update_store_item pk item actor product item_name item_code unit category unit_cost
       minimum_stock_level is_active d =
     (let it0 = (case product of None \<Rightarrow> item
            | Some (k, p) \<Rightarrow> item\<lparr>it_product := Some k, it_item_name := cp_product_name p,
                it_item_code := cp_product_code p, it_unit := cp_unit p, it_category := cp_category p\<rparr>);
          it = it0\<lparr>it_item_name := given item_name (it_item_name it0),
                it_item_code := given item_code (it_item_code it0),
                it_unit := given unit (it_unit it0),
                it_category := given category (it_category it0),
                it_unit_cost := given unit_cost (it_unit_cost it0),
                it_minimum_stock_level := given minimum_stock_level (it_minimum_stock_level it0),
                it_is_active := given is_active (it_is_active it0),
                it_updated_by := Some (u_pk actor)\<rparr>
      in if \<not> store_item_clean d (Some pk) it then Inl FullClean
         else if store_item_taken d (Some pk) it then Inl IntegrityError
         else Inr (record_audit A_UPDATE (Some (u_pk actor)) ''site_management.storeitem'' pk
                (Some (SnapItem item)) (Some (SnapItem it)) (d\<lparr>items := tbl_put pk it (items d)\<rparr>)))"

section \<open>Stock movements\<close>

definition movement_value :: "movement_type \<Rightarrow> string" where
  "movement_value t = (case t of OPENING \<Rightarrow> ''opening'' | RECEIVED \<Rightarrow> ''received'' | ISSUED \<Rightarrow> ''issued''
     | TRANSFER_IN \<Rightarrow> ''transfer_in'' | TRANSFER_OUT \<Rightarrow> ''transfer_out'' | RETURNED \<Rightarrow> ''returned''
     | DAMAGED \<Rightarrow> ''damaged'' | LOST \<Rightarrow> ''lost'' | ADJUSTMENT \<Rightarrow> ''adjustment'')"

definition movement_types :: "movement_type list" where
  "movement_types = [OPENING, RECEIVED, ISSUED, TRANSFER_IN, TRANSFER_OUT, RETURNED, DAMAGED, LOST, ADJUSTMENT]"

definition movement_type_of :: "string \<Rightarrow> movement_type option" where
  "movement_type_of s = find (\<lambda>t. movement_value t = s) movement_types"

definition INCREASING_MOVEMENT_TYPES :: "movement_type list" where
  "INCREASING_MOVEMENT_TYPES = [OPENING, RECEIVED, TRANSFER_IN, RETURNED]"

definition DECREASING_MOVEMENT_TYPES :: "movement_type list" where
  "DECREASING_MOVEMENT_TYPES = [ISSUED, TRANSFER_OUT, DAMAGED, LOST]"

definition movement_delta :: "string \<Rightarrow> rat \<Rightarrow> rat res" where
  "movement_delta movement_type quantity =
     (if movement_type \<in> set (map movement_value INCREASING_MOVEMENT_TYPES) then
        (if quantity \<le> 0 then Inl (ValidationError ''positive_quantity_required'') else Inr quantity)
      else if movement_type \<in> set (map movement_value DECREASING_MOVEMENT_TYPES) then
        (if quantity \<le> 0 then Inl (ValidationError ''positive_quantity_required'') else Inr (- quantity))
      else if movement_type = movement_value ADJUSTMENT then Inr quantity
      else Inl (ValidationError ''invalid_movement_type''))"

text \<open>The site of an item's store.\<close>

definition item_site :: "db \<Rightarrow> nat \<Rightarrow> nat option" where
  "item_site d item =
     (case tbl_get (items d) item of None \<Rightarrow> None
      | Some it \<Rightarrow> (case tbl_get (stores d) (it_store it) of None \<Rightarrow> None | Some s \<Rightarrow> st_site s))"

text \<open>The cleaner and the area a movement names belong to the site of the item's store.\<close>

definition movement_target_ok :: "db \<Rightarrow> nat \<Rightarrow> nat option \<Rightarrow> nat option \<Rightarrow> bool" where
  "movement_target_ok d item cleaner area \<longleftrightarrow>
     (case cleaner of None \<Rightarrow> True
      | Some c \<Rightarrow> (case item_site d item of None \<Rightarrow> False
          | Some s \<Rightarrow> tbl_exists (\<lambda>_ a. csa_cleaner a = c \<and> csa_site a = s) (cleaner_assignments d))) \<and>
     (case area of None \<Rightarrow> True
      | Some a \<Rightarrow> (case tbl_get (areas d) a of None \<Rightarrow> False
          | Some r \<Rightarrow> Some (sa_site r) = item_site d item))"

definition stock_movement_clean :: "db \<Rightarrow> stock_movement \<Rightarrow> bool" where
  "stock_movement_clean d m \<longleftrightarrow>
     decimal_fits 10 2 (mv_quantity m) \<and> decimal_fits 12 2 (mv_unit_cost m) \<and> 0 \<le> mv_unit_cost m \<and>
     mv_quantity m \<noteq> 0 \<and> \<not> (mv_movement_type m \<noteq> ADJUSTMENT \<and> mv_quantity m < 0) \<and>
     movement_target_ok d (mv_store_item m) (mv_cleaner m) (mv_area m)"

definition low_stock :: "store_item \<Rightarrow> bool" where
  "low_stock it \<longleftrightarrow> it_current_stock it \<le> it_minimum_stock_level it"

definition low_stock_key :: "nat \<Rightarrow> string" where
  "low_stock_key pk = ''low-stock:'' @ str_nat pk"

definition maybe_low_stock_alert :: "env \<Rightarrow> nat \<Rightarrow> store_item \<Rightarrow> user \<Rightarrow> db \<Rightarrow> db" where
  "maybe_low_stock_alert e pk it actor d =
     (if low_stock it then
        let d1 = publish_domain_event ''StockLow'' ''site_management.storeitem'' pk
              [(''store_item_id'', JNat pk), (''store_id'', JNat (it_store it)),
               (''site_id'', optional_json (item_site d pk)),
               (''current_stock'', JDec (it_current_stock it)),
               (''minimum_stock_level'', JDec (it_minimum_stock_level it))] (Some (u_pk actor)) d
        in (case (case tbl_get (stores d) (it_store it) of None \<Rightarrow> None | Some s \<Rightarrow> st_managed_by s) of
              None \<Rightarrow> d1
            | Some manager \<Rightarrow>
                if ENABLE_NOTIFICATIONS e
                then notify manager ''low_stock'' None ''site_management.storeitem'' (str_nat pk)
                       (low_stock_key pk) d1
                else d1)
      else d)"

text \<open>
  \<open>StoreItem.objects\<close> hides archived items, so \<open>get(pk=...)\<close> fails on one. The lock and the
  \<open>F\<close> expression make the read and the write of the running quantity one step.
\<close>

definition active_item :: "db \<Rightarrow> nat \<Rightarrow> store_item option" where
  "active_item d pk =
     (case tbl_get (items d) pk of None \<Rightarrow> None | Some it \<Rightarrow> if it_is_active it then Some it else None)"

definition add_to_stock :: "nat \<Rightarrow> store_item \<Rightarrow> rat \<Rightarrow> db \<Rightarrow> (store_item \<times> db) res" where
  "add_to_stock pk locked delta d =
     (let it = locked\<lparr>it_current_stock := it_current_stock locked + delta\<rparr>
      in if \<not> \<bar>it_current_stock it\<bar> < 10 ^ 8 then Inl DataError
         else Inr (it, d\<lparr>items := tbl_put pk it (items d)\<rparr>))"

definition record_stock_movement ::
  "env \<Rightarrow> nat \<Rightarrow> string \<Rightarrow> rat \<Rightarrow> user \<Rightarrow> date option \<Rightarrow> nat option \<Rightarrow> nat option \<Rightarrow> string \<Rightarrow>
   rat option \<Rightarrow> nat option \<Rightarrow> db \<Rightarrow> (nat \<times> db) res" where
  "record_stock_movement e pk movement_type quantity actor movement_date cleaner area notes
       unit_cost transfer d =
     (if quantity = 0 then Inl (ValidationError ''zero_quantity'')
      else case active_item d pk of None \<Rightarrow> Inl DoesNotExist
      | Some locked \<Rightarrow>
          rbind (movement_delta movement_type quantity) (\<lambda>delta.
            if it_current_stock locked + delta < 0 \<and> \<not> ALLOW_NEGATIVE_STOCK e
            then Inl (ValidationError ''insufficient_stock'')
            else
              let mt = the (movement_type_of movement_type);
                  m = \<lparr>mv_store_item = pk, mv_transfer = transfer, mv_movement_type = mt,
                       mv_quantity = (if mt = ADJUSTMENT then quantity else \<bar>delta\<bar>),
                       mv_unit_cost = given unit_cost (it_unit_cost locked),
                       mv_movement_date = given movement_date (sys_today e),
                       mv_cleaner = cleaner, mv_area = area, mv_notes = notes,
                       mv_recorded_by = Some (u_pk actor), mv_created_by = Some (u_pk actor),
                       mv_updated_by = Some (u_pk actor)\<rparr>;
                  k = tbl_next (movements d)
              in if \<not> stock_movement_clean d m then Inl FullClean
                 else rbind (add_to_stock pk locked delta (d\<lparr>movements := tbl_insert m (movements d)\<rparr>))
                   (\<lambda>(it, d1). Inr (k, maybe_low_stock_alert e pk it actor
                      (record_audit A_CREATE (Some (u_pk actor)) ''site_management.stockmovement'' k
                         None (Some (SnapMovement m)) d1)))))"

definition stock_transfer_clean :: "db \<Rightarrow> stock_transfer \<Rightarrow> bool" where
  "stock_transfer_clean d t \<longleftrightarrow>
     decimal_fits 10 2 (tr_quantity t) \<and> decimal_fits 12 2 (tr_unit_cost t) \<and>
     0 < tr_quantity t \<and> 0 \<le> tr_unit_cost t \<and> tr_source_store t \<noteq> tr_destination_store t \<and>
     (case tbl_get (items d) (tr_source_item t) of None \<Rightarrow> False
      | Some it \<Rightarrow> it_store it = tr_source_store t \<and> it_product it \<in> {None, Some (tr_product t)}) \<and>
     (case tbl_get (items d) (tr_destination_item t) of None \<Rightarrow> False
      | Some it \<Rightarrow> it_store it = tr_destination_store t \<and> it_product it \<in> {None, Some (tr_product t)})"

definition store_name_of :: "db \<Rightarrow> nat \<Rightarrow> string" where
  "store_name_of d k = (case tbl_get (stores d) k of None \<Rightarrow> [] | Some s \<Rightarrow> st_store_name s)"

definition transfer_note :: "nat \<Rightarrow> string \<Rightarrow> string \<Rightarrow> string \<Rightarrow> string" where
  "transfer_note k word store notes =
     strip (''Transfer '' @ str_nat k @ '' '' @ word @ '' '' @ store @ ''. '' @ notes)"

definition transfer_stock ::
  "env \<Rightarrow> nat \<times> store_item \<Rightarrow> nat \<times> store_item \<Rightarrow> rat \<Rightarrow> user \<Rightarrow> date option \<Rightarrow> rat option \<Rightarrow>
   string \<Rightarrow> db \<Rightarrow> (nat \<times> db) res" where
  "transfer_stock e source_item destination_item quantity actor transfer_date unit_cost notes d =
     (if it_store (snd source_item) = it_store (snd destination_item)
      then Inl (ValidationError ''transfer_same_store'')
      else if it_product (snd source_item) = None \<or> it_product (snd destination_item) = None
      then Inl (ValidationError ''transfer_product_required'')
      else if it_product (snd source_item) \<noteq> it_product (snd destination_item)
      then Inl (ValidationError ''transfer_product_mismatch'')
      else if quantity \<le> 0 then Inl (ValidationError ''transfer_quantity_invalid'')
      else case active_item d (fst source_item) of None \<Rightarrow> Inl DoesNotExist
      | Some source \<Rightarrow> (case active_item d (fst destination_item) of None \<Rightarrow> Inl DoesNotExist
      | Some destination \<Rightarrow>
          if it_current_stock source < quantity \<and> \<not> ALLOW_NEGATIVE_STOCK e
          then Inl (ValidationError ''insufficient_stock'')
          else case it_product source of None \<Rightarrow> Inl FullClean
          | Some product \<Rightarrow>
              let t = \<lparr>tr_source_store = it_store source, tr_destination_store = it_store destination,
                       tr_product = product, tr_source_item = fst source_item,
                       tr_destination_item = fst destination_item, tr_quantity = quantity,
                       tr_unit_cost = given unit_cost (it_unit_cost source),
                       tr_transfer_date = given transfer_date (sys_today e), tr_notes = notes,
                       tr_created_by = Some (u_pk actor), tr_updated_by = Some (u_pk actor)\<rparr>;
                  k = tbl_next (transfers d);
                  d0 = d\<lparr>transfers := tbl_insert t (transfers d)\<rparr>
              in if \<not> stock_transfer_clean d t then Inl FullClean
                 else rbind (record_stock_movement e (fst source_item) (movement_value TRANSFER_OUT)
                        quantity actor (Some (tr_transfer_date t)) None None
                        (transfer_note k ''to'' (store_name_of d (it_store destination)) notes)
                        (Some (tr_unit_cost t)) (Some k) d0) (\<lambda>(_, d1).
                      rbind (record_stock_movement e (fst destination_item) (movement_value TRANSFER_IN)
                        quantity actor (Some (tr_transfer_date t)) None None
                        (transfer_note k ''from'' (store_name_of d (it_store source)) notes)
                        (Some (tr_unit_cost t)) (Some k) d1) (\<lambda>(_, d2).
                      Inr (k, record_audit A_CREATE (Some (u_pk actor)) ''site_management.stocktransfer'' k
                            None (Some (SnapTransfer t)) d2)))))"

definition opening_exists :: "db \<Rightarrow> nat \<Rightarrow> date \<Rightarrow> bool" where
  "opening_exists d pk month \<longleftrightarrow>
     tbl_exists (\<lambda>_ o'. mo_store_item o' = pk \<and> mo_opening_month o' = month) (openings d)"

definition monthly_opening_clean :: "db \<Rightarrow> store_monthly_opening \<Rightarrow> bool" where
  "monthly_opening_clean d r \<longleftrightarrow>
     decimal_fits 10 2 (mo_opening_quantity r) \<and> decimal_fits 12 2 (mo_unit_cost r) \<and>
     0 \<le> mo_opening_quantity r \<and> 0 \<le> mo_unit_cost r \<and>
     \<not> opening_exists d (mo_store_item r) (mo_opening_month r) \<and>
     \<not> tbl_exists (\<lambda>_ o'. mo_opening_movement o' \<noteq> None \<and> mo_opening_movement o' = mo_opening_movement r)
          (openings d)"

definition record_monthly_opening ::
  "env \<Rightarrow> nat \<Rightarrow> date \<Rightarrow> rat \<Rightarrow> rat \<Rightarrow> user \<Rightarrow> db \<Rightarrow> (nat \<times> db) res" where
  "record_monthly_opening e pk opening_month opening_quantity unit_cost actor d =
     (let month = month_start opening_month
      in if opening_exists d pk month then Inl (ValidationError ''opening_exists'')
         else rbind (record_stock_movement e pk (movement_value OPENING) opening_quantity actor
                (Some month) None None (''Monthly opening stock for '' @ iso_date month)
                (Some unit_cost) None d) (\<lambda>(mk, d1).
              let r = \<lparr>mo_store_item = pk, mo_opening_month = month,
                       mo_opening_quantity = opening_quantity, mo_unit_cost = unit_cost,
                       mo_opening_movement = Some mk, mo_created_by = Some (u_pk actor),
                       mo_updated_by = Some (u_pk actor)\<rparr>;
                  k = tbl_next (openings d1)
              in if \<not> monthly_opening_clean d1 r then Inl FullClean
                 else Inr (k, record_audit A_CREATE (Some (u_pk actor))
                        ''site_management.storemonthlyopening'' k None (Some (SnapOpening r))
                        (d1\<lparr>openings := tbl_insert r (openings d1)\<rparr>))))"

definition receive_stock ::
  "env \<Rightarrow> nat \<Rightarrow> rat \<Rightarrow> user \<Rightarrow> date option \<Rightarrow> string \<Rightarrow> db \<Rightarrow> (nat \<times> db) res" where
  "receive_stock e pk quantity actor movement_date notes d =
     record_stock_movement e pk (movement_value RECEIVED) quantity actor movement_date None None notes
       None None d"

definition issue_stock ::
  "env \<Rightarrow> nat \<Rightarrow> rat \<Rightarrow> user \<Rightarrow> date option \<Rightarrow> nat option \<Rightarrow> nat option \<Rightarrow> string \<Rightarrow> db \<Rightarrow>
   (nat \<times> db) res" where
  "issue_stock e pk quantity actor movement_date cleaner area notes d =
     record_stock_movement e pk (movement_value ISSUED) quantity actor movement_date cleaner area notes
       None None d"

definition record_damage_loss ::
  "env \<Rightarrow> nat \<Rightarrow> string \<Rightarrow> rat \<Rightarrow> user \<Rightarrow> string \<Rightarrow> date option \<Rightarrow> string \<Rightarrow> db \<Rightarrow> (nat \<times> db) res" where
  "record_damage_loss e pk movement_type quantity actor reason movement_date notes d =
     (if movement_type \<notin> {movement_value DAMAGED, movement_value LOST}
      then Inl (ValidationError ''invalid_movement_type'')
      else if strip reason = [] then Inl (ValidationError ''reason_required'')
      else record_stock_movement e pk movement_type quantity actor movement_date None None
             (if strip notes \<noteq> [] then strip notes @ newline @ strip reason else strip reason)
             None None d)"

definition adjust_stock ::
  "env \<Rightarrow> nat \<Rightarrow> rat \<Rightarrow> user \<Rightarrow> string \<Rightarrow> date option \<Rightarrow> db \<Rightarrow> (nat \<times> db) res" where
  "adjust_stock e pk signed_quantity actor reason movement_date d =
     (if strip reason = [] then Inl (ValidationError ''reason_required'')
      else record_stock_movement e pk (movement_value ADJUSTMENT) signed_quantity actor movement_date
             None None reason None None d)"

section \<open>The services as one system\<close>

datatype store_call =
    CreateStore "nat option" string user store_type "nat option" string "nat option"
  | UpdateStore nat user "nat option" "string option" "store_type option" "nat option"
      "string option" "nat option" "bool option"
  | CreateProduct string string string rat user string string
  | UpdateProduct nat user "product_value list"
  | AddItem nat string user "nat option" string string string "rat option" rat "rat option"
  | UpdateItem nat user "nat option" "string option" "string option" "string option"
      "string option" "rat option" "rat option" "bool option"
  | Move nat string rat user "date option" "nat option" "nat option" string "rat option" "nat option"
  | Transfer nat nat rat user "date option" "rat option" string
  | MonthlyOpening nat date rat rat user
  | Receive nat rat user "date option" string
  | Issue nat rat user "date option" "nat option" "nat option" string
  | DamageLoss nat string rat user string "date option" string
  | Adjust nat rat user string "date option"

fun store_step :: "env \<Rightarrow> db \<Rightarrow> store_call \<Rightarrow> db res" where
  "store_step e d (CreateStore s n a t p l m) = db_of (create_store s n a t p l m d)"
| "store_step e d (UpdateStore k a s n t p l m ac) =
     fetch (stores d) k (\<lambda>(j, r). update_store j r a s n t p l m ac d)"
| "store_step e d (CreateProduct n c u q a cat des) = db_of (create_company_product n c u q a cat des d)"
| "store_step e d (UpdateProduct k a vs) =
     fetch (products d) k (\<lambda>(j, r). update_company_product j r a vs d)"
| "store_step e d (AddItem s n a p c u cat uc os ms) =
     fetch_optional (products d) p (\<lambda>pr. db_of (add_store_item e s n a pr c u cat uc os ms d))"
| "store_step e d (UpdateItem k a p n c u cat uc ms ac) =
     fetch (items d) k (\<lambda>(j, r). fetch_optional (products d) p
       (\<lambda>pr. update_store_item j r a pr n c u cat uc ms ac d))"
| "store_step e d (Move k t q a md cl ar n uc tr) =
     db_of (record_stock_movement e k t q a md cl ar n uc tr d)"
| "store_step e d (Transfer i j q a td uc n) =
     fetch (items d) i (\<lambda>x. fetch (items d) j (\<lambda>y. db_of (transfer_stock e x y q a td uc n d)))"
| "store_step e d (MonthlyOpening k m q uc a) = db_of (record_monthly_opening e k m q uc a d)"
| "store_step e d (Receive k q a md n) = db_of (receive_stock e k q a md n d)"
| "store_step e d (Issue k q a md cl ar n) = db_of (issue_stock e k q a md cl ar n d)"
| "store_step e d (DamageLoss k t q a r md n) = db_of (record_damage_loss e k t q a r md n d)"
| "store_step e d (Adjust k q a r md) = db_of (adjust_stock e k q a r md d)"

section \<open>The ledger\<close>

text \<open>The signed quantity of a stored movement, and what the movements of an item add up to.\<close>

definition signed_quantity :: "stock_movement \<Rightarrow> rat" where
  "signed_quantity m =
     (if mv_movement_type m \<in> set DECREASING_MOVEMENT_TYPES then - mv_quantity m else mv_quantity m)"

definition moved :: "nat \<Rightarrow> stock_movement table \<Rightarrow> rat" where
  "moved k t = tbl_sum (\<lambda>m. if mv_store_item m = k then signed_quantity m else 0) t"

definition ledger :: "db \<Rightarrow> bool" where
  "ledger d \<longleftrightarrow> (\<forall>k it. tbl_get (items d) k = Some it \<longrightarrow> it_current_stock it = moved k (movements d))"

definition movement_ok :: "stock_movement \<Rightarrow> bool" where
  "movement_ok m \<longleftrightarrow> mv_quantity m \<noteq> 0 \<and> (mv_movement_type m \<noteq> ADJUSTMENT \<longrightarrow> 0 < mv_quantity m)"

definition store_inv :: "db \<Rightarrow> bool" where
  "store_inv d \<longleftrightarrow>
     tbl_wf (items d) \<and> tbl_wf (movements d) \<and> ledger d \<and> tbl_all movement_ok (movements d) \<and>
     tbl_all (\<lambda>m. mv_store_item m < tbl_next (items d)) (movements d)"

definition stock_nonneg :: "db \<Rightarrow> bool" where
  "stock_nonneg d \<longleftrightarrow> tbl_all (\<lambda>it. 0 \<le> it_current_stock it) (items d)"

lemma moved_insert:
  "moved k (tbl_insert m t) = moved k t + (if mv_store_item m = k then signed_quantity m else 0)"
  by (simp add: moved_def tbl_sum_insert)

lemma movement_type_of_value [simp]: "movement_type_of (movement_value t) = Some t"
  by (cases t) (simp_all add: movement_type_of_def movement_types_def movement_value_def)

lemma movement_value_inj [simp]: "movement_value s = movement_value t \<longleftrightarrow> s = t"
  by (metis movement_type_of_value option.inject)

lemma movement_type_of_Some: "movement_type_of s = Some t \<longleftrightarrow> s = movement_value t"
proof
  assume "movement_type_of s = Some t"
  then show "s = movement_value t" by (auto simp: movement_type_of_def find_Some_iff)
qed simp

lemma movement_delta_cases:
  "movement_delta s q = Inr x \<longleftrightarrow> (\<exists>t. movement_type_of s = Some t \<and>
     (t = ADJUSTMENT \<and> x = q \<or>
      t \<in> set INCREASING_MOVEMENT_TYPES \<and> 0 < q \<and> x = q \<or>
      t \<in> set DECREASING_MOVEMENT_TYPES \<and> 0 < q \<and> x = - q))"
  by (auto simp: movement_delta_def movement_type_of_Some INCREASING_MOVEMENT_TYPES_def
      DECREASING_MOVEMENT_TYPES_def)

lemma movement_delta_signed:
  assumes "movement_delta s q = Inr x" and "q \<noteq> 0" and "mt = the (movement_type_of s)"
    and "mv_movement_type m = mt" and "mv_quantity m = (if mt = ADJUSTMENT then q else \<bar>x\<bar>)"
  shows "signed_quantity m = x \<and> movement_ok m"
  using assms by (auto simp: movement_delta_cases signed_quantity_def movement_ok_def
      INCREASING_MOVEMENT_TYPES_def DECREASING_MOVEMENT_TYPES_def)

subsection \<open>What a movement does\<close>

lemma maybe_low_stock_alert_frame [simp]:
  "users (maybe_low_stock_alert e k it u d) = users d"
    "zones (maybe_low_stock_alert e k it u d) = zones d"
    "sites (maybe_low_stock_alert e k it u d) = sites d"
    "supervisor_assignments (maybe_low_stock_alert e k it u d) = supervisor_assignments d"
    "zone_supervisor_assignments (maybe_low_stock_alert e k it u d) = zone_supervisor_assignments d"
    "ags_assignments (maybe_low_stock_alert e k it u d) = ags_assignments d"
    "areas (maybe_low_stock_alert e k it u d) = areas d"
    "cleaners (maybe_low_stock_alert e k it u d) = cleaners d"
    "cleaner_assignments (maybe_low_stock_alert e k it u d) = cleaner_assignments d"
    "cleaner_shifts (maybe_low_stock_alert e k it u d) = cleaner_shifts d"
    "stores (maybe_low_stock_alert e k it u d) = stores d"
    "products (maybe_low_stock_alert e k it u d) = products d"
    "items (maybe_low_stock_alert e k it u d) = items d"
    "transfers (maybe_low_stock_alert e k it u d) = transfers d"
    "movements (maybe_low_stock_alert e k it u d) = movements d"
    "openings (maybe_low_stock_alert e k it u d) = openings d"
    "requests (maybe_low_stock_alert e k it u d) = requests d"
    "request_items (maybe_low_stock_alert e k it u d) = request_items d"
    "approvals (maybe_low_stock_alert e k it u d) = approvals d"
    "issues (maybe_low_stock_alert e k it u d) = issues d"
    "jobs (maybe_low_stock_alert e k it u d) = jobs d"
    "attendance (maybe_low_stock_alert e k it u d) = attendance d"
    "audits (maybe_low_stock_alert e k it u d) = audits d"
  by (simp_all add: maybe_low_stock_alert_def Let_def split: option.split)

text \<open>
  Everything a successful \<open>record_stock_movement\<close> did: the movement it appended, the row it
  wrote, the tables it left alone.
\<close>

definition moved_item :: "store_item \<Rightarrow> rat \<Rightarrow> store_item" where
  "moved_item it delta = it\<lparr>it_current_stock := it_current_stock it + delta\<rparr>"

lemma moved_item_simps [simp]:
  "it_store (moved_item it q) = it_store it" "it_product (moved_item it q) = it_product it"
  "it_is_active (moved_item it q) = it_is_active it"
  "it_current_stock (moved_item it q) = it_current_stock it + q"
  "it_unit_cost (moved_item it q) = it_unit_cost it"
  "it_item_name (moved_item it q) = it_item_name it"
  "it_minimum_stock_level (moved_item it q) = it_minimum_stock_level it"
  by (simp_all add: moved_item_def)

lemma record_stock_movement_Inr:
  assumes "record_stock_movement e pk s q actor md cl ar n uc tr d = Inr (k, d')"
  obtains it delta m where
    "active_item d pk = Some it" "movement_delta s q = Inr delta" "q \<noteq> 0"
    "signed_quantity m = delta" "movement_ok m" "mv_store_item m = pk" "mv_transfer m = tr"
    "movement_type_of s = Some (mv_movement_type m)" "\<bar>mv_quantity m\<bar> = \<bar>q\<bar>"
    "mv_movement_date m = given md (sys_today e)" "mv_unit_cost m = given uc (it_unit_cost it)"
    "stock_movement_clean d m" "k = tbl_next (movements d)"
    "0 \<le> it_current_stock it + delta \<or> ALLOW_NEGATIVE_STOCK e"
    "movements d' = tbl_insert m (movements d)"
    "items d' = tbl_put pk (moved_item it delta) (items d)"
    "stores d' = stores d" "products d' = products d" "transfers d' = transfers d"
    "openings d' = openings d" "requests d' = requests d" "request_items d' = request_items d"
    "\<exists>l. audits d' = audits d @ [l]"
    "d' = maybe_low_stock_alert e pk (moved_item it delta) actor
       (record_audit A_CREATE (Some (u_pk actor)) ''site_management.stockmovement'' k None
         (Some (SnapMovement m))
         (d\<lparr>movements := tbl_insert m (movements d), items := tbl_put pk (moved_item it delta) (items d)\<rparr>))"
proof -
  obtain it delta where it: "active_item d pk = Some it" and delta: "movement_delta s q = Inr delta"
    and q: "q \<noteq> 0" and neg: "0 \<le> it_current_stock it + delta \<or> ALLOW_NEGATIVE_STOCK e"
    using assms by (auto simp: record_stock_movement_def res_simps Let_def not_less)
  define mt where "mt = the (movement_type_of s)"
  define m where "m = \<lparr>mv_store_item = pk, mv_transfer = tr, mv_movement_type = mt,
     mv_quantity = (if mt = ADJUSTMENT then q else \<bar>delta\<bar>), mv_unit_cost = given uc (it_unit_cost it),
     mv_movement_date = given md (sys_today e), mv_cleaner = cl, mv_area = ar, mv_notes = n,
     mv_recorded_by = Some (u_pk actor), mv_created_by = Some (u_pk actor),
     mv_updated_by = Some (u_pk actor)\<rparr>"
  have res: "stock_movement_clean d m" "k = tbl_next (movements d)"
    "d' = maybe_low_stock_alert e pk (moved_item it delta) actor
       (record_audit A_CREATE (Some (u_pk actor)) ''site_management.stockmovement'' k None
         (Some (SnapMovement m))
         (d\<lparr>movements := tbl_insert m (movements d), items := tbl_put pk (moved_item it delta) (items d)\<rparr>))"
    using assms it delta q
    by (auto simp: record_stock_movement_def add_to_stock_def res_simps Let_def m_def mt_def moved_item_def)
  have s: "signed_quantity m = delta \<and> movement_ok m"
    by (rule movement_delta_signed [OF delta q mt_def]) (simp_all add: m_def)
  have "movement_type_of s = Some mt" "\<bar>delta\<bar> = \<bar>q\<bar>"
    using delta by (auto simp: movement_delta_cases mt_def)
  then show ?thesis
    using that [of it delta m] it delta q neg res s by (simp add: m_def)
qed

subsection \<open>Every service keeps the ledger\<close>

lemma active_item_Some:
  "active_item d k = Some it \<longleftrightarrow> tbl_get (items d) k = Some it \<and> it_is_active it"
  by (auto simp: active_item_def split: option.splits)

lemma store_inv_cong:
  "items d' = items d \<Longrightarrow> movements d' = movements d \<Longrightarrow> store_inv d' = store_inv d"
  by (simp add: store_inv_def ledger_def)

lemma stock_nonneg_cong: "items d' = items d \<Longrightarrow> stock_nonneg d' = stock_nonneg d"
  by (simp add: stock_nonneg_def)

lemma ledgerD: "ledger d \<Longrightarrow> tbl_get (items d) k = Some it \<Longrightarrow> it_current_stock it = moved k (movements d)"
  by (simp add: ledger_def)

lemma store_inv_put:
  assumes "store_inv d" and "tbl_get (items d) k = Some it"
    and "it_current_stock it' = it_current_stock it"
    and "items d' = tbl_put k it' (items d)" and "movements d' = movements d"
  shows "store_inv d'"
  using assms by (auto simp: store_inv_def ledger_def tbl_get_put split: if_splits)

lemma stock_nonneg_put:
  "stock_nonneg d \<Longrightarrow> 0 \<le> it_current_stock it' \<Longrightarrow> items d' = tbl_put k it' (items d) \<Longrightarrow> stock_nonneg d'"
  unfolding stock_nonneg_def by (auto intro: tbl_all_put)

lemma record_stock_movement_inv:
  assumes inv: "store_inv d"
    and ok: "record_stock_movement e pk s q actor md cl ar n uc tr d = Inr (k, d')"
  shows "store_inv d'"
proof -
  obtain it delta m where it: "active_item d pk = Some it" and m: "signed_quantity m = delta"
      "movement_ok m" "mv_store_item m = pk" and d': "movements d' = tbl_insert m (movements d)"
      "items d' = tbl_put pk (moved_item it delta) (items d)"
    by (rule record_stock_movement_Inr [OF ok])
  have get: "tbl_get (items d) pk = Some it" using it by (simp add: active_item_Some)
  have wf: "tbl_wf (items d)" "tbl_wf (movements d)" using inv by (simp_all add: store_inv_def)
  have "ledger d'"
    using inv get unfolding ledger_def d' moved_insert m(1,3)
    by (auto simp: tbl_get_put store_inv_def ledger_def split: if_splits)
  moreover have "tbl_all movement_ok (movements d')"
    "tbl_all (\<lambda>m. mv_store_item m < tbl_next (items d')) (movements d')"
    using inv m tbl_get_lt [OF wf(1) get] unfolding d' by (auto intro!: tbl_all_insert simp: store_inv_def)
  ultimately show ?thesis using wf by (simp add: store_inv_def d')
qed

lemma record_stock_movement_nonneg:
  assumes "stock_nonneg d" and "\<not> ALLOW_NEGATIVE_STOCK e"
    and ok: "record_stock_movement e pk s q actor md cl ar n uc tr d = Inr (k, d')"
  shows "stock_nonneg d'"
proof -
  obtain it delta m where "0 \<le> it_current_stock it + delta \<or> ALLOW_NEGATIVE_STOCK e"
      "items d' = tbl_put pk (moved_item it delta) (items d)"
    by (rule record_stock_movement_Inr [OF ok])
  then show ?thesis using assms(2) by (intro stock_nonneg_put [OF assms(1)]) simp_all
qed

lemma add_store_item_Inr:
  assumes "add_store_item e s n actor p c u cat uc os ms d = Inr (k, d')"
  obtains it where "k = tbl_next (items d)" "0 \<le> os" "it_store it = s" "it_current_stock it = os"
    "it_opening_stock it = os" "it_is_active it" "it_product it = map_option fst p"
    "store_item_clean d None it"
    "\<not> store_item_taken d None it" "items d' = tbl_insert it (items d)"
    "movements d' = (if 0 < os then tbl_insert \<lparr>mv_store_item = k, mv_transfer = None,
       mv_movement_type = OPENING, mv_quantity = os, mv_unit_cost = it_unit_cost it,
       mv_movement_date = sys_today e, mv_cleaner = None, mv_area = None,
       mv_notes = ''Opening stock'', mv_recorded_by = Some (u_pk actor),
       mv_created_by = Some (u_pk actor), mv_updated_by = Some (u_pk actor)\<rparr> (movements d)
     else movements d)"
    "\<exists>l. audits d' = audits d @ [l]"
proof -
  define it where "it = \<lparr>it_store = s, it_product = map_option fst p,
    it_item_name = (case p of None \<Rightarrow> n | Some (_, p) \<Rightarrow> cp_product_name p),
    it_item_code = (case p of None \<Rightarrow> c | Some (_, p) \<Rightarrow> cp_product_code p),
    it_unit = (case p of None \<Rightarrow> u | Some (_, p) \<Rightarrow> cp_unit p),
    it_category = (case p of None \<Rightarrow> cat | Some (_, p) \<Rightarrow> cp_category p),
    it_opening_stock = os, it_current_stock = os,
    it_unit_cost = (case uc of Some c \<Rightarrow> c
       | None \<Rightarrow> (case p of None \<Rightarrow> 0 | Some (_, p) \<Rightarrow> cp_current_unit_cost p)),
    it_minimum_stock_level = given ms (LOW_STOCK_DEFAULT e),
    it_is_active = True, it_created_by = Some (u_pk actor), it_updated_by = Some (u_pk actor)\<rparr>"
  have "0 \<le> os" "store_item_clean d None it" "\<not> store_item_taken d None it"
      "k = tbl_next (items d)" "items d' = tbl_insert it (items d)" "\<exists>l. audits d' = audits d @ [l]"
    using assms by (cases "0 < os"; auto simp: add_store_item_def Let_def res_simps not_less it_def)+
  moreover have "movements d' = (if 0 < os then tbl_insert \<lparr>mv_store_item = k, mv_transfer = None,
       mv_movement_type = OPENING, mv_quantity = os, mv_unit_cost = it_unit_cost it,
       mv_movement_date = sys_today e, mv_cleaner = None, mv_area = None,
       mv_notes = ''Opening stock'', mv_recorded_by = Some (u_pk actor),
       mv_created_by = Some (u_pk actor), mv_updated_by = Some (u_pk actor)\<rparr> (movements d)
     else movements d)"
    using assms by (cases "0 < os"; auto simp: add_store_item_def Let_def res_simps it_def)
  ultimately show ?thesis by (intro that [of it]) (simp_all add: it_def)
qed

lemma add_store_item_inv:
  assumes inv: "store_inv d" and ok: "add_store_item e s n actor p c u cat uc os ms d = Inr (k, d')"
  shows "store_inv d'"
proof -
  obtain it where k: "k = tbl_next (items d)" and os: "0 \<le> os" "it_current_stock it = os"
    and i': "items d' = tbl_insert it (items d)"
    and m': "movements d' = (if 0 < os then tbl_insert \<lparr>mv_store_item = k, mv_transfer = None,
       mv_movement_type = OPENING, mv_quantity = os, mv_unit_cost = it_unit_cost it,
       mv_movement_date = sys_today e, mv_cleaner = None, mv_area = None,
       mv_notes = ''Opening stock'', mv_recorded_by = Some (u_pk actor),
       mv_created_by = Some (u_pk actor), mv_updated_by = Some (u_pk actor)\<rparr> (movements d)
     else movements d)" (is "_ = (if _ then tbl_insert ?m _ else _)")
    by (rule add_store_item_Inr [OF ok])
  have wf: "tbl_wf (items d)" "tbl_wf (movements d)" using inv by (simp_all add: store_inv_def)
  have none: "moved k (movements d) = 0"
  proof -
    have "mv_store_item r \<noteq> k" if "(j, r) \<in> set (tbl_rows (movements d))" for j r
    proof -
      have "tbl_get (movements d) j = Some r" using that by (simp add: tbl_get_mem [OF wf(2)])
      then show ?thesis using inv by (auto simp: store_inv_def k dest!: tbl_allD)
    qed
    then show ?thesis unfolding moved_def by (intro tbl_sum_zero) simp
  qed
  have sg: "signed_quantity ?m = os" by (simp add: signed_quantity_def DECREASING_MOVEMENT_TYPES_def)
  have mine: "moved k (movements d') = os" using none os by (simp add: m' moved_insert sg)
  have others: "moved j (movements d') = moved j (movements d)" if "j \<noteq> k" for j
    using that by (simp add: m' moved_insert)
  have lt: "tbl_get (items d) j \<noteq> None \<Longrightarrow> j \<noteq> k" for j
    using tbl_get_fresh [OF wf(1)] by (auto simp: k)
  have "ledger d'"
    using inv mine os(2) others lt unfolding ledger_def i' tbl_get_insert [OF wf(1)] k [symmetric]
    by (auto simp: store_inv_def ledger_def split: if_splits)
  moreover have "tbl_all movement_ok (movements d')"
    using inv wf unfolding m' by (auto intro!: tbl_all_insert simp: store_inv_def movement_ok_def)
  moreover have "tbl_all (\<lambda>m. mv_store_item m < tbl_next (items d')) (movements d)"
    using inv by (auto simp: tbl_all_def store_inv_def i' less_SucI)
  then have "tbl_all (\<lambda>m. mv_store_item m < tbl_next (items d')) (movements d')"
    using wf unfolding m' by (auto intro!: tbl_all_insert simp: i' k)
  ultimately show ?thesis using wf by (simp add: store_inv_def i' m')
qed

lemma add_store_item_nonneg:
  assumes "store_inv d" and "stock_nonneg d"
    and ok: "add_store_item e s n actor p c u cat uc os ms d = Inr (k, d')"
  shows "stock_nonneg d'"
proof -
  obtain it where "0 \<le> os" "it_current_stock it = os" "items d' = tbl_insert it (items d)"
    by (rule add_store_item_Inr [OF ok])
  then show ?thesis
    using assms(1,2) by (simp add: stock_nonneg_def store_inv_def tbl_all_insert)
qed

lemma update_store_item_Inr:
  assumes "update_store_item k item actor p n c u cat uc ms ac d = Inr d'"
  obtains it where "items d' = tbl_put k it (items d)" "it_current_stock it = it_current_stock item"
    "it_store it = it_store item" "movements d' = movements d" "\<exists>l. audits d' = audits d @ [l]"
  using assms by (auto simp: update_store_item_def Let_def res_simps split: option.splits)

lemma transfer_stock_Inr:
  assumes "transfer_stock e si di q actor td uc n d = Inr (k, d')"
  obtains source destination product t d1 d2 k1 k2 n1 n2 where
    "active_item d (fst si) = Some source" "active_item d (fst di) = Some destination"
    "it_product (snd si) \<noteq> None" "it_product (snd si) = it_product (snd di)"
    "it_store source \<noteq> it_store destination" "0 < q" "it_product source = Some product"
    "it_product destination \<in> {None, Some product}"
    "k = tbl_next (transfers d)" "tr_quantity t = q"
    "tr_source_item t = fst si" "tr_destination_item t = fst di" "tr_product t = product"
    "record_stock_movement e (fst si) (movement_value TRANSFER_OUT) q actor (Some (tr_transfer_date t))
       None None n1 (Some (tr_unit_cost t)) (Some k) (d\<lparr>transfers := tbl_insert t (transfers d)\<rparr>) = Inr (k1, d1)"
    "record_stock_movement e (fst di) (movement_value TRANSFER_IN) q actor (Some (tr_transfer_date t))
       None None n2 (Some (tr_unit_cost t)) (Some k) d1 = Inr (k2, d2)"
    "d' = record_audit A_CREATE (Some (u_pk actor)) ''site_management.stocktransfer'' k
       None (Some (SnapTransfer t)) d2"
proof -
  obtain source destination product where
      sd: "active_item d (fst si) = Some source" "active_item d (fst di) = Some destination"
      "it_product source = Some product" "0 < q" "it_product (snd si) \<noteq> None"
      "it_product (snd si) = it_product (snd di)"
    using assms by (auto simp: transfer_stock_def Let_def res_simps not_le)
  define t where "t = \<lparr>tr_source_store = it_store source, tr_destination_store = it_store destination,
    tr_product = product, tr_source_item = fst si, tr_destination_item = fst di, tr_quantity = q,
    tr_unit_cost = given uc (it_unit_cost source), tr_transfer_date = given td (sys_today e),
    tr_notes = n, tr_created_by = Some (u_pk actor), tr_updated_by = Some (u_pk actor)\<rparr>"
  obtain k1 d1 k2 d2 where "k = tbl_next (transfers d)" "stock_transfer_clean d t"
    "record_stock_movement e (fst si) (movement_value TRANSFER_OUT) q actor (Some (tr_transfer_date t))
       None None (transfer_note k ''to'' (store_name_of d (it_store destination)) n)
       (Some (tr_unit_cost t)) (Some k) (d\<lparr>transfers := tbl_insert t (transfers d)\<rparr>) = Inr (k1, d1)"
    "record_stock_movement e (fst di) (movement_value TRANSFER_IN) q actor (Some (tr_transfer_date t))
       None None (transfer_note k ''from'' (store_name_of d (it_store source)) n)
       (Some (tr_unit_cost t)) (Some k) d1 = Inr (k2, d2)"
    "d' = record_audit A_CREATE (Some (u_pk actor)) ''site_management.stocktransfer'' k
       None (Some (SnapTransfer t)) d2"
    using assms sd by (auto simp: transfer_stock_def Let_def res_simps t_def)
  then show ?thesis
    using sd by (intro that [of source destination product t])
      (auto simp: t_def stock_transfer_clean_def active_item_Some)
qed

lemma record_monthly_opening_Inr:
  assumes "record_monthly_opening e pk m q uc actor d = Inr (k, d')"
  obtains mk d1 r where "\<not> opening_exists d pk (month_start m)"
    "record_stock_movement e pk (movement_value OPENING) q actor (Some (month_start m)) None None
       (''Monthly opening stock for '' @ iso_date (month_start m)) (Some uc) None d = Inr (mk, d1)"
    "k = tbl_next (openings d1)" "mo_store_item r = pk" "mo_opening_month r = month_start m"
    "mo_opening_quantity r = q" "mo_unit_cost r = uc" "mo_opening_movement r = Some mk"
    "d' = record_audit A_CREATE (Some (u_pk actor)) ''site_management.storemonthlyopening'' k None
       (Some (SnapOpening r)) (d1\<lparr>openings := tbl_insert r (openings d1)\<rparr>)"
proof -
  obtain mk d1 where ok: "\<not> opening_exists d pk (month_start m)"
    "record_stock_movement e pk (movement_value OPENING) q actor (Some (month_start m)) None None
       (''Monthly opening stock for '' @ iso_date (month_start m)) (Some uc) None d = Inr (mk, d1)"
    using assms by (auto simp: record_monthly_opening_def Let_def rbind_Inr split: if_splits)
  define r where "r = \<lparr>mo_store_item = pk, mo_opening_month = month_start m,
    mo_opening_quantity = q, mo_unit_cost = uc, mo_opening_movement = Some mk,
    mo_created_by = Some (u_pk actor), mo_updated_by = Some (u_pk actor)\<rparr>"
  have "k = tbl_next (openings d1)"
    "d' = record_audit A_CREATE (Some (u_pk actor)) ''site_management.storemonthlyopening'' k None
       (Some (SnapOpening r)) (d1\<lparr>openings := tbl_insert r (openings d1)\<rparr>)"
    using assms ok by (auto simp add: record_monthly_opening_def Let_def r_def split: if_splits)
  with ok show ?thesis by (intro that [of mk d1 r]) (simp_all add: r_def)
qed

text \<open>
  What any store service does to items and movements, as a composition of four effects. The
  invariants are proved once per effect.
\<close>

inductive stock_effect :: "env \<Rightarrow> db \<Rightarrow> db \<Rightarrow> bool" for e where
  keep: "items d' = items d \<Longrightarrow> movements d' = movements d \<Longrightarrow> stock_effect e d d'"
| meta: "tbl_get (items d) k = Some it \<Longrightarrow> it_current_stock it' = it_current_stock it \<Longrightarrow>
     items d' = tbl_put k it' (items d) \<Longrightarrow> movements d' = movements d \<Longrightarrow> stock_effect e d d'"
| add: "add_store_item e s n actor p c u cat uc os ms d = Inr (k, d') \<Longrightarrow> stock_effect e d d'"
| move: "record_stock_movement e k s q actor md cl ar n uc tr d = Inr (j, d') \<Longrightarrow> stock_effect e d d'"
| seq: "stock_effect e d d1 \<Longrightarrow> stock_effect e d1 d2 \<Longrightarrow> stock_effect e d d2"

lemma stock_effect_inv: "stock_effect e d d' \<Longrightarrow> store_inv d \<Longrightarrow> store_inv d'"
proof (induction rule: stock_effect.induct)
  case (keep d' d)
  then show ?case using store_inv_cong by blast
next
  case (meta d k it it' d')
  then show ?case by (intro store_inv_put [of d k it it' d'])
next
  case add
  then show ?case by (rule add_store_item_inv [rotated])
next
  case move
  then show ?case by (rule record_stock_movement_inv [rotated])
qed simp

lemma stock_effect_nonneg:
  "stock_effect e d d' \<Longrightarrow> \<not> ALLOW_NEGATIVE_STOCK e \<Longrightarrow> store_inv d \<and> stock_nonneg d \<Longrightarrow>
     store_inv d' \<and> stock_nonneg d'"
proof (induction rule: stock_effect.induct)
  case (keep d' d)
  then show ?case using store_inv_cong stock_nonneg_cong by metis
next
  case (meta d k it it' d')
  moreover have "0 \<le> it_current_stock it"
    using meta.hyps(1) meta.prems by (auto simp: stock_nonneg_def dest: tbl_allD)
  ultimately show ?case
    using store_inv_put [of d k it it' d'] stock_nonneg_put [of d it' d' k] by simp
next
  case (add s n actor p c u cat uc os ms d k d')
  then show ?case using add_store_item_inv [OF _ add.hyps] add_store_item_nonneg [OF _ _ add.hyps] by simp
next
  case (move k s q actor md cl ar n uc tr d j d')
  then show ?case
    using record_stock_movement_inv [OF _ move.hyps] record_stock_movement_nonneg [OF _ _ move.hyps] by simp
qed simp

lemma record_monthly_opening_effect:
  assumes "record_monthly_opening e pk m q uc actor d = Inr (k, d')"
  shows "stock_effect e d d'"
  using assms
proof (rule record_monthly_opening_Inr, goal_cases)
  case (1 mk d1 r)
  show ?case
    by (rule stock_effect.seq [OF stock_effect.move [OF 1(2)] stock_effect.keep]) (simp_all add: 1)
qed

lemma transfer_stock_effect:
  assumes "transfer_stock e si di q actor td uc n d = Inr (k, d')"
  shows "stock_effect e d d'"
  using assms
proof (rule transfer_stock_Inr, goal_cases)
  case (1 source destination product t d1 d2 k1 k2 n1 n2)
  have "stock_effect e d (d\<lparr>transfers := tbl_insert t (transfers d)\<rparr>)"
    by (rule stock_effect.keep) simp_all
  then have "stock_effect e d d1" by (rule stock_effect.seq [OF _ stock_effect.move [OF 1(14)]])
  then have "stock_effect e d d2" by (rule stock_effect.seq [OF _ stock_effect.move [OF 1(15)]])
  then show ?case by (rule stock_effect.seq [OF _ stock_effect.keep]) (simp_all add: 1)
qed

lemma update_store_item_effect:
  assumes "tbl_get (items d) k = Some item"
    and "update_store_item k item actor p n c u cat uc ms ac d = Inr d'"
  shows "stock_effect e d d'"
  using assms(2)
proof (rule update_store_item_Inr, goal_cases)
  case (1 it)
  then show ?case by (intro stock_effect.meta [OF assms(1)])
qed

lemma store_step_effect:
  assumes ok: "store_step e d c = Inr d'"
  shows "stock_effect e d d'"
proof (cases c)
  case (UpdateItem k a p n c' u cat uc ms ac)
  obtain r where r: "tbl_get (items d) k = Some r" and fo: "fetch_optional (products d) p
      (\<lambda>pr. update_store_item k r a pr n c' u cat uc ms ac d) = Inr d'"
    using ok by (auto simp: UpdateItem fetch_Inr)
  show ?thesis using fetch_optional_Inr [OF fo] update_store_item_effect [OF r] by blast
next
  case (AddItem s n a p c' u cat uc os ms)
  have "fetch_optional (products d) p (\<lambda>pr. db_of (add_store_item e s n a pr c' u cat uc os ms d)) = Inr d'"
    using ok by (simp add: AddItem)
  from fetch_optional_Inr [OF this] show ?thesis by (auto simp: db_of_Inr intro: stock_effect.add)
next
  case Transfer
  then show ?thesis using ok by (auto simp: res_simps dest: transfer_stock_effect)
next
  case MonthlyOpening
  then show ?thesis using ok by (auto simp: res_simps dest: record_monthly_opening_effect)
next
  case CreateStore
  then show ?thesis using ok by (intro stock_effect.keep) (auto simp: create_store_def Let_def res_simps)
next
  case UpdateStore
  then show ?thesis using ok by (intro stock_effect.keep) (auto simp: update_store_def Let_def res_simps)
next
  case CreateProduct
  then show ?thesis
    using ok by (intro stock_effect.keep) (auto simp: create_company_product_def Let_def res_simps)
next
  case UpdateProduct
  then show ?thesis
    using ok by (intro stock_effect.keep) (auto simp: update_company_product_def Let_def res_simps)
qed (use ok in \<open>auto simp: res_simps receive_stock_def issue_stock_def record_damage_loss_def
    adjust_stock_def intro: stock_effect.move\<close>)

interpretation store: safe_system "store_step e" store_inv for e
  by unfold_locales (rule stock_effect_inv [OF store_step_effect])

interpretation store_nonneg:
  safe_system "store_step e" "\<lambda>d. \<not> ALLOW_NEGATIVE_STOCK e \<and> store_inv d \<and> stock_nonneg d" for e
  by unfold_locales (use stock_effect_nonneg [OF store_step_effect] in blast)

text \<open>Every successful call leaves an audit entry.\<close>

lemma record_stock_movement_log:
  "record_stock_movement e k s q actor md cl ar n uc tr d = Inr (j, d') \<Longrightarrow> \<exists>l. audits d' = audits d @ [l]"
  by (erule record_stock_movement_Inr)

lemma transfer_stock_log:
  assumes "transfer_stock e si di q actor td uc n d = Inr (k, d')"
  shows "\<exists>l. l \<noteq> [] \<and> audits d' = audits d @ l"
  using assms
proof (rule transfer_stock_Inr, goal_cases)
  case (1 source destination product t d1 d2 k1 k2 n1 n2)
  then show ?case using record_stock_movement_log [OF 1(14)] record_stock_movement_log [OF 1(15)] by auto
qed

lemma record_monthly_opening_log:
  assumes "record_monthly_opening e pk m q uc actor d = Inr (k, d')"
  shows "\<exists>l. l \<noteq> [] \<and> audits d' = audits d @ l"
  using assms
proof (rule record_monthly_opening_Inr, goal_cases)
  case (1 mk d1 r)
  then show ?case using record_stock_movement_log [OF 1(2)] by auto
qed

lemma store_step_log:
  assumes ok: "store_step e d c = Inr d'"
  shows "\<exists>l. l \<noteq> [] \<and> audits d' = audits d @ l"
proof (cases c)
  case (UpdateItem k a p n c' u cat uc ms ac)
  obtain r where fo: "fetch_optional (products d) p
      (\<lambda>pr. update_store_item k r a pr n c' u cat uc ms ac d) = Inr d'"
    using ok by (auto simp: UpdateItem fetch_Inr)
  from fetch_optional_Inr [OF fo] obtain pr
    where "update_store_item k r a pr n c' u cat uc ms ac d = Inr d'" by auto
  then show ?thesis by (rule update_store_item_Inr) auto
next
  case (AddItem s n a p c' u cat uc os ms)
  have "fetch_optional (products d) p (\<lambda>pr. db_of (add_store_item e s n a pr c' u cat uc os ms d)) = Inr d'"
    using ok by (simp add: AddItem)
  from fetch_optional_Inr [OF this] obtain pr k
    where "add_store_item e s n a pr c' u cat uc os ms d = Inr (k, d')" by (auto simp: db_of_Inr)
  then show ?thesis by (rule add_store_item_Inr) auto
next
  case Transfer
  then show ?thesis using ok by (auto simp: res_simps dest: transfer_stock_log)
next
  case MonthlyOpening
  then show ?thesis using ok by (auto simp: res_simps dest: record_monthly_opening_log)
qed (use ok in \<open>auto simp: res_simps Let_def create_store_def update_store_def create_company_product_def
    update_company_product_def receive_stock_def issue_stock_def record_damage_loss_def adjust_stock_def
    dest: record_stock_movement_log\<close>)

interpretation store_audit: audited_system "store_step e" store_inv audits for e
  by unfold_locales (rule store_step_log)

section \<open>The abstract view\<close>

text \<open>
  A store is a partial map from items to quantities. A movement adds a signed quantity to one
  entry; everything else in the row stays.
\<close>

definition stock_level :: "db \<Rightarrow> nat \<Rightarrow> rat option" where
  "stock_level d k = map_option it_current_stock (tbl_get (items d) k)"

definition type_delta :: "movement_type \<Rightarrow> rat \<Rightarrow> rat" where
  "type_delta t q = (if t \<in> set DECREASING_MOVEMENT_TYPES then - q else q)"

definition product_total :: "db \<Rightarrow> nat \<Rightarrow> rat" where
  "product_total d p = tbl_sum (\<lambda>it. if it_product it = Some p then it_current_stock it else 0) (items d)"

lemma movement_delta_type:
  "movement_delta s q = Inr x \<longleftrightarrow> (\<exists>t. movement_type_of s = Some t \<and> x = type_delta t q \<and>
     (t = ADJUSTMENT \<or> 0 < q))"
  unfolding movement_delta_cases
  by (intro arg_cong [where f = Ex] ext)
    (auto simp: type_delta_def INCREASING_MOVEMENT_TYPES_def DECREASING_MOVEMENT_TYPES_def
      intro: movement_type.exhaust)

lemma record_stock_movement_level:
  assumes ok: "record_stock_movement e k s q actor md cl ar n uc tr d = Inr (j, d')"
    and t: "movement_type_of s = Some t"
  shows "\<exists>x. stock_level d k = Some x \<and> stock_level d' = (stock_level d)(k := Some (x + type_delta t q))"
proof -
  obtain it delta where it: "active_item d k = Some it" and delta: "movement_delta s q = Inr delta"
      and i': "items d' = tbl_put k (moved_item it delta) (items d)"
    by (rule record_stock_movement_Inr [OF ok])
  have "delta = type_delta t q" using delta t by (auto simp: movement_delta_type)
  then show ?thesis
    using it by (auto simp: stock_level_def i' tbl_get_put active_item_Some)
qed

lemma record_stock_movement_total:
  assumes wf: "tbl_wf (items d)"
    and ok: "record_stock_movement e k s q actor md cl ar n uc tr d = Inr (j, d')"
    and t: "movement_type_of s = Some t" and it: "tbl_get (items d) k = Some it"
  shows "product_total d' p = product_total d p +
    (if it_product it = Some p then type_delta t q else 0)"
proof -
  obtain delta where delta: "movement_delta s q = Inr delta"
      and i': "items d' = tbl_put k (moved_item it delta) (items d)"
    by (rule record_stock_movement_Inr [OF ok]) (use it in \<open>simp add: active_item_Some\<close>)
  have "delta = type_delta t q" using delta t by (auto simp: movement_delta_type)
  then show ?thesis by (simp add: product_total_def i' tbl_sum_put [OF wf it])
qed

section \<open>A concrete network\<close>

text \<open>A power store and a site store that stock the same product; the witnesses run on it.\<close>

definition demo_actor :: user where
  "demo_actor = \<lparr>u_pk = 1, u_role = STORE_MANAGER, u_is_superuser = False, u_is_active = True, u_perms = []\<rparr>"

definition demo_store :: "store_type \<Rightarrow> nat option \<Rightarrow> site_store" where
  "demo_store t site = \<lparr>st_site = site, st_store_name = ''S'', st_store_type = t, st_parent_store = None,
     st_location = [], st_managed_by = Some 1, st_is_active = True, st_created_by = None,
     st_updated_by = None\<rparr>"

definition demo_item :: "nat \<Rightarrow> rat \<Rightarrow> store_item" where
  "demo_item store q = \<lparr>it_store = store, it_product = Some 1, it_item_name = ''Soap'', it_item_code = [],
     it_unit = ''piece'', it_category = [], it_opening_stock = q, it_current_stock = q, it_unit_cost = 3,
     it_minimum_stock_level = 2, it_is_active = True, it_created_by = None, it_updated_by = None\<rparr>"

definition demo_movement :: stock_movement where
  "demo_movement = \<lparr>mv_store_item = 1, mv_transfer = None, mv_movement_type = OPENING, mv_quantity = 10,
     mv_unit_cost = 3, mv_movement_date = Date 2025 6 1, mv_cleaner = None, mv_area = None,
     mv_notes = [], mv_recorded_by = None, mv_created_by = None, mv_updated_by = None\<rparr>"

definition demo_network :: db where
  "demo_network = empty_db\<lparr>users := [demo_actor],
     stores := \<lparr>tbl_rows = [(1, demo_store POWER None), (2, demo_store SITE (Some 1))], tbl_next = 3\<rparr>,
     items := \<lparr>tbl_rows = [(1, demo_item 1 10), (2, demo_item 2 0)], tbl_next = 3\<rparr>,
     movements := \<lparr>tbl_rows = [(1, demo_movement)], tbl_next = 2\<rparr>\<rparr>"

lemmas demo_network_defs = demo_network_def demo_item_def demo_movement_def demo_store_def demo_actor_def

lemma demo_network_inv: "store_inv demo_network" "stock_nonneg demo_network"
  by (simp add: store_inv_def)
    (simp_all add: demo_network_defs ledger_def empty_db_def tbl_wf_def tbl_all_def tbl_get_def moved_def
      tbl_sum_def signed_quantity_def movement_ok_def DECREASING_MOVEMENT_TYPES_def stock_nonneg_def)

section \<open>Properties\<close>

text \<open>
  C1: the ledger. Whatever sequence of store services runs, failed calls included, the
  running quantity of every item is the signed sum of its recorded movements.
\<close>

theorem store_ledger_runs:
  assumes "store_inv d"
    and "tbl_get (items (run_calls (store_step e) d cs)) k = Some it"
  shows "it_current_stock it = moved k (movements (run_calls (store_step e) d cs))"
proof -
  have "store_inv (run_calls (store_step e) d cs)" by (rule store.run_inv [OF assms(1)])
  then show ?thesis using assms(2) by (simp add: store_inv_def ledgerD)
qed

definition demo_calls :: "store_call list" where
  "demo_calls = [Issue 1 4 demo_actor None None None [], Issue 1 20 demo_actor None None None [],
     Transfer 1 2 3 demo_actor None None [], Adjust 2 (- 1) demo_actor ''count'' None]"

theorem store_ledger_runs_witness:
  "\<exists>it. tbl_get (items (run_calls (store_step default_env) demo_network demo_calls)) 1 = Some it \<and>
     it_current_stock it = moved 1 (movements (run_calls (store_step default_env) demo_network demo_calls)) \<and>
     it_current_stock it = 3"
proof -
  have "map_option it_current_stock
      (tbl_get (items (run_calls (store_step default_env) demo_network demo_calls)) 1) = Some 3" by code_simp
  then obtain it where "tbl_get (items (run_calls (store_step default_env) demo_network demo_calls)) 1 = Some it"
    "it_current_stock it = 3" by auto
  then show ?thesis using store_ledger_runs [OF demo_network_inv(1)] by blast
qed

text \<open>
  C5: with \<open>ALLOW_NEGATIVE_STOCK\<close> off, no sequence of store services ever makes a running
  quantity negative.
\<close>

theorem store_never_negative:
  assumes "\<not> ALLOW_NEGATIVE_STOCK e" and "store_inv d" and "stock_nonneg d"
    and "tbl_get (items (run_calls (store_step e) d cs)) k = Some it"
  shows "0 \<le> it_current_stock it"
proof -
  have "store_inv (run_calls (store_step e) d cs) \<and> stock_nonneg (run_calls (store_step e) d cs)"
    using store_nonneg.run_inv assms(1-3) by blast
  then show ?thesis using assms(4) by (auto simp: stock_nonneg_def dest: tbl_allD)
qed

theorem store_never_negative_witness:
  "\<exists>it. tbl_get (items (run_calls (store_step default_env) demo_network
       [Issue 1 20 demo_actor None None None []])) 1 = Some it \<and> 0 \<le> it_current_stock it"
proof -
  have "tbl_get (items (run_calls (store_step default_env) demo_network
       [Issue 1 20 demo_actor None None None []])) 1 \<noteq> None" by code_simp
  then obtain it where it: "tbl_get (items (run_calls (store_step default_env) demo_network
       [Issue 1 20 demo_actor None None None []])) 1 = Some it" by blast
  have "\<not> ALLOW_NEGATIVE_STOCK default_env" by (simp add: default_env_def)
  with store_never_negative [OF _ demo_network_inv it] it show ?thesis by blast
qed

text \<open>
  C8: a transfer moves stock, it neither makes nor loses any. The source loses exactly the
  quantity the destination gains, every other item keeps its row, the network total of every
  product is unchanged, and the two movements recorded carry the new transfer's key.
\<close>

theorem transfer_conserves_stock:
  assumes wf: "tbl_wf (items d)" and s: "tbl_get (items d) i = Some s" and t: "tbl_get (items d) j = Some t"
    and ok: "transfer_stock e (i, s) (j, t) q actor td uc n d = Inr (k, d')"
  shows "tbl_get (items d') i = Some (moved_item s (- q)) \<and> tbl_get (items d') j = Some (moved_item t q) \<and>
    (\<forall>l. l \<noteq> i \<longrightarrow> l \<noteq> j \<longrightarrow> tbl_get (items d') l = tbl_get (items d) l) \<and>
    (\<forall>p. product_total d' p = product_total d p) \<and>
    (\<exists>m1 m2. movements d' = tbl_insert m2 (tbl_insert m1 (movements d)) \<and>
       mv_movement_type m1 = TRANSFER_OUT \<and> mv_movement_type m2 = TRANSFER_IN \<and>
       mv_transfer m1 = Some k \<and> mv_transfer m2 = Some k \<and> mv_store_item m1 = i \<and> mv_store_item m2 = j)"
  using ok
proof (rule transfer_stock_Inr, goal_cases)
  case (1 source destination product tr d1 d2 k1 k2 n1 n2)
  let ?d0 = "d\<lparr>transfers := tbl_insert tr (transfers d)\<rparr>"
  have sd: "source = s" "destination = t" and ne: "i \<noteq> j"
    using 1(1,2,5) s t by (auto simp: active_item_Some)
  have dq: "movement_delta (movement_value TRANSFER_OUT) q = Inr x \<longleftrightarrow> x = - q"
    "movement_delta (movement_value TRANSFER_IN) q = Inr y \<longleftrightarrow> y = q" for x y
    using 1(6) by (auto simp: movement_delta_type type_delta_def DECREASING_MOVEMENT_TYPES_def)
  obtain m1 where m1: "movements d1 = tbl_insert m1 (movements ?d0)" "mv_transfer m1 = Some k"
      "mv_store_item m1 = i" "mv_movement_type m1 = TRANSFER_OUT"
    and i1: "items d1 = tbl_put i (moved_item s (- q)) (items d)"
    by (rule record_stock_movement_Inr [OF 1(14)]) (use s in \<open>simp add: active_item_Some dq\<close>)
  have t1: "tbl_get (items d1) j = Some t" using t ne by (simp add: i1 tbl_get_put)
  obtain m2 where m2: "movements d2 = tbl_insert m2 (movements d1)" "mv_transfer m2 = Some k"
      "mv_store_item m2 = j" "mv_movement_type m2 = TRANSFER_IN"
    and i2: "items d2 = tbl_put j (moved_item t q) (items d1)"
    by (rule record_stock_movement_Inr [OF 1(15)]) (use t1 in \<open>simp add: active_item_Some dq\<close>)
  have wf1: "tbl_wf (items d1)" using wf by (simp add: i1)
  have same: "it_product s = it_product t" using 1(4) by simp
  have "product_total d2 p = product_total d p" for p
    using same by (simp add: product_total_def i2 i1 tbl_sum_put [OF wf1 t1, unfolded i1] tbl_sum_put [OF wf s])
  then show ?case
    using s t ne m1 m2 by (auto simp: 1(16) i1 i2 tbl_get_put product_total_def)
qed

theorem transfer_conserves_stock_witness:
  "\<exists>k d'. transfer_stock default_env (1, demo_item 1 10) (2, demo_item 2 0) 4 demo_actor None None []
       demo_network = Inr (k, d') \<and> product_total d' 1 = product_total demo_network 1"
proof -
  have "\<not> isl (transfer_stock default_env (1, demo_item 1 10) (2, demo_item 2 0) 4 demo_actor None None []
       demo_network)" by code_simp
  then obtain k d' where ok: "transfer_stock default_env (1, demo_item 1 10) (2, demo_item 2 0) 4 demo_actor
       None None [] demo_network = Inr (k, d')" by (metis isl_def prod.exhaust sum.exhaust)
  have "tbl_wf (items demo_network)" "tbl_get (items demo_network) 1 = Some (demo_item 1 10)"
    "tbl_get (items demo_network) 2 = Some (demo_item 2 0)"
    by (simp_all add: demo_network_def tbl_wf_def tbl_get_def)
  from transfer_conserves_stock [OF this ok] ok show ?thesis by blast
qed


text \<open>
  The error for want of stock is raised exactly when the movement is otherwise addressed
  to an active item with a known type and an admissible sign, negative stock is not allowed,
  and the quantity taken exceeds what is there. Nothing is written then.
\<close>

theorem record_stock_movement_insufficient_iff:
  "record_stock_movement e k s q actor md cl ar n uc tr d = Inl (ValidationError ''insufficient_stock'') \<longleftrightarrow>
     q \<noteq> 0 \<and> \<not> ALLOW_NEGATIVE_STOCK e \<and> (\<exists>it t. active_item d k = Some it \<and> movement_type_of s = Some t \<and>
       (t = ADJUSTMENT \<or> 0 < q) \<and> it_current_stock it < - type_delta t q)"
proof (cases "movement_delta s q")
  case (Inl err)
  then have none: "\<not> (movement_type_of s = Some t \<and> (t = ADJUSTMENT \<or> 0 < q))" for t
    using movement_delta_type [of s q "type_delta t q"] by auto
  have "err \<noteq> ValidationError ''insufficient_stock''"
    using Inl by (auto simp: movement_delta_def split: if_splits)
  then have "record_stock_movement e k s q actor md cl ar n uc tr d \<noteq> Inl (ValidationError ''insufficient_stock'')"
    using Inl by (auto simp: record_stock_movement_def split: option.split)
  with none show ?thesis by blast
next
  case (Inr x)
  then obtain t where "movement_type_of s = Some t" "x = type_delta t q" "t = ADJUSTMENT \<or> 0 < q"
    by (auto simp: movement_delta_type)
  then show ?thesis
    using Inr by (auto simp: record_stock_movement_def add_to_stock_def Let_def split: option.split if_splits)
qed

text \<open>
  C12: refinement. On the abstract view of a store, a map from items to quantities, a recorded
  movement is the addition of its signed quantity at one key.
\<close>

theorem record_stock_movement_refines:
  assumes "record_stock_movement e k (movement_value t) q actor md cl ar n uc tr d = Inr (j, d')"
  shows "\<exists>x. stock_level d k = Some x \<and> stock_level d' = (stock_level d)(k := Some (x + type_delta t q))"
  by (rule record_stock_movement_level [OF assms]) simp

theorem record_stock_movement_refines_witness:
  "\<exists>j d'. record_stock_movement default_env 1 (movement_value ISSUED) 4 demo_actor None None None [] None None
       demo_network = Inr (j, d') \<and> stock_level d' 1 = Some 6"
proof -
  have "\<not> isl (record_stock_movement default_env 1 (movement_value ISSUED) 4 demo_actor None None None [] None
       None demo_network)" by code_simp
  then obtain j d' where ok: "record_stock_movement default_env 1 (movement_value ISSUED) 4 demo_actor None
       None None [] None None demo_network = Inr (j, d')" by (metis isl_def prod.exhaust sum.exhaust)
  have "stock_level demo_network 1 = Some 10" by code_simp
  with record_stock_movement_refines [OF ok] ok show ?thesis
    by (auto simp: type_delta_def DECREASING_MOVEMENT_TYPES_def)
qed

text \<open>
  C16: the low-stock alert. A movement publishes one \<open>StockLow\<close> event when it leaves the item
  at or below its reorder point and none otherwise; and then, notifications being enabled,
  the manager of the store holds an unread alert for that item.
\<close>

theorem low_stock_alert_follows:
  assumes ok: "record_stock_movement e k s q actor md cl ar n uc tr d = Inr (j, d')"
    and it: "tbl_get (items d') k = Some it" and st: "tbl_get (stores d) (it_store it) = Some st"
    and wf: "tbl_wf (notifications d)"
  shows "map ev_event_type (events d') =
      map ev_event_type (events d) @ (if low_stock it then [''StockLow''] else []) \<and>
    (low_stock it \<and> ENABLE_NOTIFICATIONS e \<and> st_managed_by st = Some u \<longrightarrow>
      tbl_exists (\<lambda>_. unread_with_key u (low_stock_key k)) (notifications d'))"
  using ok
proof (rule record_stock_movement_Inr, goal_cases)
  case (1 it0 delta m)
  have it0: "it = moved_item it0 delta" using it 1(1,16) by (auto simp: tbl_get_put active_item_Some)
  have key: "low_stock_key k \<noteq> []" by (simp add: low_stock_key_def)
  show ?case
    unfolding 1(24) it0 [symmetric]
    using st notify_then_unread [OF _ key] wf
    by (auto simp: maybe_low_stock_alert_def Let_def publish_domain_event_def record_audit_def
        split: option.split)
qed

theorem low_stock_alert_follows_witness:
  "\<exists>j d'. record_stock_movement default_env 1 ''issued'' 9 demo_actor None None None [] None None
       demo_network = Inr (j, d') \<and> map ev_event_type (events d') = [''StockLow''] \<and>
     tbl_exists (\<lambda>_. unread_with_key 1 (low_stock_key 1)) (notifications d')"
proof -
  have "case record_stock_movement default_env 1 ''issued'' 9 demo_actor None None None [] None None
       demo_network of Inl _ \<Rightarrow> False
     | Inr (_, d') \<Rightarrow> (case tbl_get (items d') 1 of None \<Rightarrow> False | Some it \<Rightarrow> it_store it = 1 \<and> low_stock it)"
    by code_simp
  then obtain j d' it where ok: "record_stock_movement default_env 1 ''issued'' 9 demo_actor None None None []
       None None demo_network = Inr (j, d')" and it: "tbl_get (items d') 1 = Some it" "it_store it = 1" "low_stock it"
    by (auto split: sum.splits option.splits)
  have st: "tbl_get (stores demo_network) (it_store it) = Some (demo_store POWER None)"
    by (simp add: it(2) demo_network_def tbl_get_def)
  have "tbl_wf (notifications demo_network)" by (simp add: demo_network_def empty_db_def)
  from low_stock_alert_follows [OF ok it(1) st this, of 1] ok it(3) show ?thesis
    by (auto simp: demo_store_def default_env_def demo_network_def empty_db_def)
qed

text \<open>
  One opening per item and month. After a recorded monthly opening, a second one for the
  same item in the same month is refused whatever its other arguments, and the movement of
  the recorded one carries its quantity, its cost and the first day of the month.
\<close>

theorem monthly_opening_once:
  assumes ok: "record_monthly_opening e k m q uc actor d = Inr (j, d')"
    and same: "month_start m' = month_start m"
  shows "record_monthly_opening e' k m' q' uc' actor' d' = Inl (ValidationError ''opening_exists'') \<and>
    (\<exists>mk mv. movements d' = tbl_insert mv (movements d) \<and> mk = tbl_next (movements d) \<and>
       tbl_exists (\<lambda>_ r. mo_store_item r = k \<and> mo_opening_movement r = Some mk) (openings d') \<and>
       mv_movement_type mv = OPENING \<and> mv_quantity mv = q \<and> mv_unit_cost mv = uc \<and>
       mv_movement_date mv = month_start m)"
  using ok
proof (rule record_monthly_opening_Inr, goal_cases)
  case (1 mk d1 r)
  have "opening_exists d' k (month_start m)"
    using 1 by (auto simp: opening_exists_def tbl_exists_def tbl_insert_def)
  then have "record_monthly_opening e' k m' q' uc' actor' d' = Inl (ValidationError ''opening_exists'')"
    by (simp add: record_monthly_opening_def same)
  moreover obtain mv where "movements d1 = tbl_insert mv (movements d)" "mk = tbl_next (movements d)"
    "mv_movement_type mv = OPENING" "mv_quantity mv = q" "mv_unit_cost mv = uc" "mv_movement_date mv = month_start m"
  proof (rule record_stock_movement_Inr [OF 1(2)], goal_cases)
    case (1 it delta mv)
    then show ?case
      by (intro 1(1) [of mv]) (auto simp: movement_delta_type movement_ok_def given_def)
  qed
  moreover have "tbl_exists (\<lambda>_ r. mo_store_item r = k \<and> mo_opening_movement r = Some mk) (openings d')"
    using 1 by (auto simp: tbl_exists_def tbl_insert_def)
  ultimately show ?case using 1(9) by auto
qed

theorem monthly_opening_once_witness:
  "\<exists>j d'. record_monthly_opening default_env 2 (Date 2025 6 17) 5 3 demo_actor demo_network = Inr (j, d') \<and>
     record_monthly_opening default_env 2 (Date 2025 6 30) 8 3 demo_actor d' = Inl (ValidationError ''opening_exists'')"
proof -
  have "\<not> isl (record_monthly_opening default_env 2 (Date 2025 6 17) 5 3 demo_actor demo_network)" by code_simp
  then obtain j d' where ok: "record_monthly_opening default_env 2 (Date 2025 6 17) 5 3 demo_actor demo_network
      = Inr (j, d')" by (metis isl_def prod.exhaust sum.exhaust)
  have "month_start (Date 2025 6 30) = month_start (Date 2025 6 17)" by (simp add: month_start_def)
  from monthly_opening_once [OF ok this] ok show ?thesis by blast
qed

text \<open>
  A lost update. \<open>update_store_item\<close> writes every column of the instance it was given. If
  a movement was recorded after the caller read the instance, saving it puts the old quantity
  back, and the item no longer agrees with its movements.
\<close>

theorem stale_item_update_loses_movement:
  assumes inv: "store_inv d" and read: "tbl_get (items d) k = Some it"
    and mv: "record_stock_movement e k s q actor md cl ar n uc tr d = Inr (j, d1)"
    and up: "update_store_item k it actor' p nm c u cat uc' ms ac d1 = Inr d2"
  shows "stock_level d2 k = stock_level d k \<and> \<not> ledger d2"
proof -
  have inv1: "store_inv d1" by (rule record_stock_movement_inv [OF inv mv])
  obtain delta where q: "q \<noteq> 0" "movement_delta s q = Inr delta"
    and i1: "items d1 = tbl_put k (moved_item it delta) (items d)"
    by (rule record_stock_movement_Inr [OF mv]) (use read in \<open>simp add: active_item_Some\<close>)
  obtain it2 where u: "items d2 = tbl_put k it2 (items d1)" "it_current_stock it2 = it_current_stock it"
    "movements d2 = movements d1" by (rule update_store_item_Inr [OF up])
  have g1: "tbl_get (items d1) k = Some (moved_item it delta)" using read by (simp add: i1 tbl_get_put)
  have "it_current_stock it + delta = moved k (movements d1)"
    using ledgerD [OF _ g1] inv1 by (simp add: store_inv_def)
  moreover have "delta \<noteq> 0" using q by (auto simp: movement_delta_cases)
  moreover have g2: "tbl_get (items d2) k = Some it2" using g1 by (simp add: u tbl_get_put)
  ultimately have "\<not> ledger d2" using ledgerD [of d2 k it2] u by auto
  then show ?thesis using read g2 u by (simp add: stock_level_def)
qed

definition demo_update :: "db \<Rightarrow> db res" where
  "demo_update d = update_store_item 1 (demo_item 1 10) demo_actor None None None None (Some ''Hygiene'') None
     None None d"

theorem stale_item_update_witness:
  "\<exists>j d1 d2. record_stock_movement default_env 1 ''issued'' 4 demo_actor None None None [] None None
       demo_network = Inr (j, d1) \<and> demo_update d1 = Inr d2 \<and> stock_level d2 1 = Some 10 \<and> \<not> ledger d2"
proof -
  have "case record_stock_movement default_env 1 ''issued'' 4 demo_actor None None None [] None None
       demo_network of Inl _ \<Rightarrow> False | Inr (_, d1) \<Rightarrow> \<not> isl (demo_update d1)" by code_simp
  then obtain j d1 d2 where ok: "record_stock_movement default_env 1 ''issued'' 4 demo_actor None None None []
       None None demo_network = Inr (j, d1)" and up: "demo_update d1 = Inr d2"
    by (auto simp: isl_def split: sum.splits) (metis sum.exhaust)
  have "tbl_get (items demo_network) 1 = Some (demo_item 1 10)" by (simp add: demo_network_def tbl_get_def)
  moreover have "stock_level demo_network 1 = Some 10" by code_simp
  ultimately show ?thesis
    using stale_item_update_loses_movement [OF demo_network_inv(1) _ ok up [unfolded demo_update_def]] ok up
    by auto
qed

text \<open>
  C0: the supply hierarchy is checked only from below. Retyping a super store into a site store
  does not look at the stores it supplies, so three accepted calls close a supply cycle.
\<close>

definition cycle_calls :: "store_call list" where
  "cycle_calls = [CreateStore None ''Central'' demo_actor SUPER None [] None,
     CreateStore None ''North'' demo_actor POWER (Some 1) [] None,
     UpdateStore 1 demo_actor (Some 1) None (Some SITE) (Some 2) None None None]"

theorem store_hierarchy_cycle:
  "map_option st_parent_store (tbl_get (stores (run_calls (store_step e) empty_db cycle_calls)) 1) = Some (Some 2) \<and>
   map_option st_parent_store (tbl_get (stores (run_calls (store_step e) empty_db cycle_calls)) 2) = Some (Some 1)"
  by code_simp

end
