(* ===== verification/StockRequests.thy ===== *)
theory StockRequests
  imports Store
begin

text \<open>
  The monthly stock request: lines 605 to 904 of \<open>apps/site_management/store_services.py\<close>,
  with the rules of \<open>StockRequest\<close>, \<open>StockRequestItem\<close> and \<open>StockRequestApproval\<close>. A service
  that advances a request takes the instance the caller holds (key and row): it tests the
  status of that instance and writes only the columns it names.
\<close>

section \<open>Drafting\<close>

record request_row =
  rr_store_item :: nat
  rr_requested_quantity :: rat
  rr_quantity_left :: rat
  rr_notes :: string

definition request_window_closed :: "env \<Rightarrow> user \<Rightarrow> bool" where
  "request_window_closed e actor \<longleftrightarrow> u_role actor = SITE_SUPERVISOR \<and> 17 < date_day (localdate e)"

definition optional_nonneg :: "rat option \<Rightarrow> bool" where
  "optional_nonneg q \<longleftrightarrow> (case q of None \<Rightarrow> True | Some x \<Rightarrow> 0 \<le> x)"

text \<open>\<open>StockRequestItem.full_clean()\<close>, given the request's store and the store item.\<close>

definition request_item_clean :: "nat \<Rightarrow> store_item \<Rightarrow> stock_request_item \<Rightarrow> bool" where
  "request_item_clean store si r \<longleftrightarrow>
     decimal_fits 10 2 (ri_requested_quantity r) \<and> decimal_fits 10 2 (ri_quantity_left r) \<and>
     length (ri_unit r) \<le> 32 \<and> 0 < ri_requested_quantity r \<and> it_store si = store \<and>
     0 \<le> ri_quantity_left r \<and> optional_nonneg (ri_approved_quantity r) \<and>
     optional_nonneg (ri_verified_quantity r) \<and> optional_nonneg (ri_assistant_approved_quantity r) \<and>
     optional_nonneg (ri_packed_quantity r)"

definition add_request_item :: "nat \<Rightarrow> nat \<Rightarrow> request_row \<Rightarrow> db \<Rightarrow> db res" where
  "add_request_item k store row d =
     (case active_item d (rr_store_item row) of None \<Rightarrow> Inl (ValidationError ''item_store_mismatch'')
      | Some si \<Rightarrow>
          if it_store si \<noteq> store then Inl (ValidationError ''item_store_mismatch'')
          else
            let r = \<lparr>ri_request = k, ri_store_item = rr_store_item row,
                     ri_requested_quantity = rr_requested_quantity row,
                     ri_quantity_left = rr_quantity_left row, ri_approved_quantity = None,
                     ri_verified_quantity = None, ri_assistant_approved_quantity = None,
                     ri_packed_quantity = None, ri_unit = it_unit si, ri_notes = rr_notes row\<rparr>
            in if \<not> request_item_clean store si r then Inl FullClean
               else Inr (d\<lparr>request_items := tbl_insert r (request_items d)\<rparr>))"

definition create_stock_request ::
  "env \<Rightarrow> nat \<Rightarrow> nat \<times> site_store \<Rightarrow> user \<Rightarrow> request_row list \<Rightarrow> date option \<Rightarrow> string \<Rightarrow> db \<Rightarrow>
   (nat \<times> db) res" where
  "create_stock_request e site store actor rows request_date notes d =
     (if request_window_closed e actor then Inl (ValidationError ''request_window_closed'')
      else if st_site (snd store) \<noteq> Some site then Inl (ValidationError ''store_site_mismatch'')
      else if rows = [] then Inl (ValidationError ''no_items'')
      else
        let requested_date = given request_date (sys_today e);
            r = \<lparr>rq_site = site, rq_store = fst store, rq_request_date = requested_date,
                 rq_requested_by = Some (u_pk actor), rq_status = RQ_DRAFT, rq_notes = notes,
                 rq_reviewed_by = None, rq_reviewed_at = None,
                 rq_request_month = Some (month_start requested_date),
                 rq_created_by = Some (u_pk actor), rq_updated_by = Some (u_pk actor)\<rparr>;
            k = tbl_next (requests d)
        in rbind (foldM (add_request_item k (fst store)) rows (d\<lparr>requests := tbl_insert r (requests d)\<rparr>))
             (\<lambda>d1. Inr (k, record_audit A_CREATE (Some (u_pk actor)) ''site_management.stockrequest'' k
                None (Some (SnapRequest r)) d1)))"

text \<open>\<open>save(update_fields=...)\<close>: the named columns of one row.\<close>

definition save_request :: "nat \<Rightarrow> (stock_request \<Rightarrow> stock_request) \<Rightarrow> db \<Rightarrow> db" where
  "save_request k f d = d\<lparr>requests := tbl_update_where (\<lambda>j _. j = k) f (requests d)\<rparr>"

definition update_stock_request ::
  "env \<Rightarrow> nat \<times> stock_request \<Rightarrow> user \<Rightarrow> request_row list \<Rightarrow> string \<Rightarrow> db \<Rightarrow> db res" where
  "update_stock_request e request actor rows notes d =
     (let k = fst request; rq = snd request in
      if request_window_closed e actor then Inl (ValidationError ''request_window_closed'')
      else if rq_status rq \<noteq> RQ_DRAFT then Inl (ValidationError ''invalid_status'')
      else if rq_requested_by rq \<noteq> Some (u_pk actor) \<and>
        \<not> (u_role actor = SYSTEM_ADMIN \<or> u_is_superuser actor) then Inl (ValidationError ''requester_required'')
      else if rows = [] then Inl (ValidationError ''no_items'')
      else
        let d0 = d\<lparr>request_items := tbl_delete_where (\<lambda>_ r. ri_request r = k) (request_items d)\<rparr>;
            f = (\<lambda>r. r\<lparr>rq_notes := notes, rq_updated_by := Some (u_pk actor)\<rparr>)
        in rbind (foldM (add_request_item k (rq_store rq)) rows d0)
             (\<lambda>d1. Inr (record_audit A_UPDATE (Some (u_pk actor)) ''site_management.stockrequest'' k
                (Some (SnapRequest rq)) (Some (SnapRequest (f rq))) (save_request k f d1))))"

definition items_of :: "db \<Rightarrow> nat \<Rightarrow> (nat \<times> stock_request_item) list" where
  "items_of d k = tbl_where (\<lambda>_ r. ri_request r = k) (request_items d)"

definition submit_stock_request :: "env \<Rightarrow> nat \<times> stock_request \<Rightarrow> user \<Rightarrow> db \<Rightarrow> db res" where
  "submit_stock_request e request actor d =
     (let k = fst request; rq = snd request in
      if request_window_closed e actor then Inl (ValidationError ''request_window_closed'')
      else if rq_status rq \<noteq> RQ_DRAFT then Inl (ValidationError ''invalid_status'')
      else if items_of d k = [] then Inl (ValidationError ''no_items'')
      else
        let f = (\<lambda>r. r\<lparr>rq_status := RQ_SUBMITTED, rq_updated_by := Some (u_pk actor)\<rparr>) in
        Inr (publish_domain_event ''StockRequestSubmitted'' ''site_management.stockrequest'' k
               [(''request_id'', JNat k), (''store_id'', JNat (rq_store rq)),
                (''site_id'', JNat (rq_site rq)), (''item_count'', JNat (length (items_of d k)))]
               (Some (u_pk actor))
             (record_audit A_STATUS_CHANGE (Some (u_pk actor)) ''site_management.stockrequest'' k
                (Some (SnapRequest rq)) (Some (SnapRequest (f rq))) (save_request k f d))))"

section \<open>The approval chain\<close>

text \<open>One row of an approval form: an item of the request and a quantity.\<close>

type_synonym quantity_row = "nat \<times> rat"

text \<open>The unique index on request and stage.\<close>

definition create_approval :: "nat \<Rightarrow> approval_stage \<Rightarrow> user \<Rightarrow> string \<Rightarrow> db \<Rightarrow> db res" where
  "create_approval k stage actor notes d =
     (if tbl_exists (\<lambda>_ a. ra_request a = k \<and> ra_stage a = stage) (approvals d) then Inl IntegrityError
      else Inr (d\<lparr>approvals := tbl_insert
        \<lparr>ra_request = k, ra_stage = stage, ra_decision_by = u_pk actor, ra_notes = notes,
         ra_created_by = Some (u_pk actor), ra_updated_by = Some (u_pk actor)\<rparr> (approvals d)\<rparr>))"

text \<open>\<open>item.save(update_fields=...)\<close> of one request item.\<close>

definition save_request_item :: "nat \<Rightarrow> (stock_request_item \<Rightarrow> stock_request_item) \<Rightarrow> db \<Rightarrow> db" where
  "save_request_item j f d = d\<lparr>request_items := tbl_update_where (\<lambda>i _. i = j) f (request_items d)\<rparr>"

definition request_item :: "db \<Rightarrow> nat \<Rightarrow> nat \<Rightarrow> stock_request_item option" where
  "request_item d k j =
     (case tbl_get (request_items d) j of None \<Rightarrow> None
      | Some r \<Rightarrow> if ri_request r = k then Some r else None)"

definition verify_item :: "env \<Rightarrow> nat \<Rightarrow> quantity_row \<Rightarrow> db \<Rightarrow> db res" where
  "verify_item e k row d =
     (case request_item d k (fst row) of None \<Rightarrow> Inl (ValidationError ''item_not_in_request'')
      | Some r \<Rightarrow>
          if snd row < 0 then Inl (ValidationError ''approved_quantity_invalid'')
          else if ri_requested_quantity r < snd row
          then Inl (ValidationError ''approved_exceeds_requested'')
          else Inr (save_request_item (fst row)
                 (\<lambda>r. r\<lparr>ri_verified_quantity := Some (numeric_column e (snd row)),
                        ri_approved_quantity := Some (numeric_column e (snd row))\<rparr>) d))"

definition assistant_approve_item :: "env \<Rightarrow> nat \<Rightarrow> quantity_row \<Rightarrow> db \<Rightarrow> db res" where
  "assistant_approve_item e k row d =
     (case request_item d k (fst row) of None \<Rightarrow> Inl (ValidationError ''item_not_in_request'')
      | Some r \<Rightarrow>
          let cap = (case ri_verified_quantity r of Some v \<Rightarrow> v | None \<Rightarrow> ri_requested_quantity r)
          in if snd row < 0 \<or> cap < snd row then Inl (ValidationError ''assistant_quantity_invalid'')
             else Inr (save_request_item (fst row)
                 (\<lambda>r. r\<lparr>ri_assistant_approved_quantity := Some (numeric_column e (snd row))\<rparr>) d))"

definition pack_item :: "env \<Rightarrow> nat \<Rightarrow> quantity_row \<Rightarrow> db \<Rightarrow> db res" where
  "pack_item e k row d =
     (case request_item d k (fst row) of None \<Rightarrow> Inl (ValidationError ''item_not_in_request'')
      | Some r \<Rightarrow>
          let cap = given (ri_assistant_approved_quantity r) 0
          in if snd row < 0 \<or> cap < snd row then Inl (ValidationError ''packed_quantity_invalid'')
             else Inr (save_request_item (fst row)
                 (\<lambda>r. r\<lparr>ri_packed_quantity := Some (numeric_column e (snd row))\<rparr>) d))"

definition new_notes :: "string \<Rightarrow> string \<Rightarrow> string" where
  "new_notes notes old = (if strip notes \<noteq> [] then notes else old)"

text \<open>
  The end of every handoff: the new status is saved, the approval is recorded, the change is
  audited. \<open>f\<close> are the columns the service writes.
\<close>

definition handoff ::
  "nat \<times> stock_request \<Rightarrow> user \<Rightarrow> approval_stage \<Rightarrow> string \<Rightarrow> (stock_request \<Rightarrow> stock_request) \<Rightarrow> db \<Rightarrow>
   db res" where
  "handoff request actor stage notes f d =
     rbind (create_approval (fst request) stage actor notes (save_request (fst request) f d))
       (\<lambda>d1. Inr (record_audit A_STATUS_CHANGE (Some (u_pk actor)) ''site_management.stockrequest''
          (fst request) (Some (SnapRequest (snd request))) (Some (SnapRequest (f (snd request)))) d1))"

definition review_stock_request ::
  "env \<Rightarrow> nat \<times> stock_request \<Rightarrow> user \<Rightarrow> quantity_row list \<Rightarrow> string \<Rightarrow> db \<Rightarrow> db res" where
  "review_stock_request e request actor approved notes d =
     (if rq_status (snd request) \<noteq> RQ_SUBMITTED then Inl (ValidationError ''invalid_status'')
      else rbind (foldM (verify_item e (fst request)) approved d)
        (handoff request actor STG_ZONE_VERIFIED notes (\<lambda>r. r\<lparr>rq_status := RQ_ZONE_VERIFIED,
           rq_notes := new_notes notes (rq_notes (snd request)), rq_reviewed_by := Some (u_pk actor),
           rq_reviewed_at := Some (now e), rq_updated_by := Some (u_pk actor)\<rparr>)))"

definition assistant_approve_stock_request ::
  "env \<Rightarrow> nat \<times> stock_request \<Rightarrow> user \<Rightarrow> quantity_row list \<Rightarrow> string \<Rightarrow> db \<Rightarrow> db res" where
  "assistant_approve_stock_request e request actor approved notes d =
     (if rq_status (snd request) \<noteq> RQ_ZONE_VERIFIED then Inl (ValidationError ''invalid_status'')
      else rbind (foldM (assistant_approve_item e (fst request)) approved d)
        (handoff request actor STG_ASSISTANT_APPROVED notes (\<lambda>r. r\<lparr>rq_status := RQ_ASSISTANT_APPROVED,
           rq_notes := new_notes notes (rq_notes (snd request)), rq_reviewed_by := Some (u_pk actor),
           rq_reviewed_at := Some (now e), rq_updated_by := Some (u_pk actor)\<rparr>)))"

definition start_hr_stock_packing ::
  "nat \<times> stock_request \<Rightarrow> user \<Rightarrow> string \<Rightarrow> db \<Rightarrow> db res" where
  "start_hr_stock_packing request actor notes d =
     (if rq_status (snd request) \<noteq> RQ_ASSISTANT_APPROVED then Inl (ValidationError ''invalid_status'')
      else handoff request actor STG_HR_PACKED notes (\<lambda>r. r\<lparr>rq_status := RQ_HR_PACKING,
           rq_notes := new_notes notes (rq_notes (snd request)), rq_updated_by := Some (u_pk actor)\<rparr>) d)"

definition assemble_stock_request ::
  "env \<Rightarrow> nat \<times> stock_request \<Rightarrow> user \<Rightarrow> quantity_row list \<Rightarrow> string \<Rightarrow> db \<Rightarrow> db res" where
  "assemble_stock_request e request actor packed notes d =
     (if rq_status (snd request) \<noteq> RQ_HR_PACKING then Inl (ValidationError ''invalid_status'')
      else rbind (foldM (pack_item e (fst request)) packed d)
        (handoff request actor STG_ASSEMBLED notes (\<lambda>r. r\<lparr>rq_status := RQ_ASSEMBLED,
           rq_notes := new_notes notes (rq_notes (snd request)), rq_updated_by := Some (u_pk actor)\<rparr>)))"

text \<open>\<open>get_or_create\<close> never clashes: an existing rejection stays as it is.\<close>

definition reject_stock_request ::
  "env \<Rightarrow> nat \<times> stock_request \<Rightarrow> user \<Rightarrow> string \<Rightarrow> db \<Rightarrow> db res" where
  "reject_stock_request e request actor reason d =
     (let k = fst request; rq = snd request in
      if rq_status rq \<notin> {RQ_SUBMITTED, RQ_ZONE_REVIEWED, RQ_ZONE_VERIFIED, RQ_ASSISTANT_APPROVED, RQ_HR_PACKING}
      then Inl (ValidationError ''invalid_status'')
      else if strip reason = [] then Inl (ValidationError ''reason_required'')
      else
        let f = (\<lambda>r. r\<lparr>rq_status := RQ_REJECTED,
               rq_notes := append_line (rq_notes rq) (''Rejected: '' @ reason),
               rq_reviewed_by := Some (u_pk actor), rq_reviewed_at := Some (now e),
               rq_updated_by := Some (u_pk actor)\<rparr>);
            d1 = save_request k f d;
            d2 = (case create_approval k STG_REJECTED actor reason d1 of Inl _ \<Rightarrow> d1 | Inr d2 \<Rightarrow> d2)
        in Inr (record_audit A_STATUS_CHANGE (Some (u_pk actor)) ''site_management.stockrequest'' k
             (Some (SnapRequest rq)) (Some (SnapRequest (f rq))) d2))"

definition complete_stock_request :: "nat \<times> stock_request \<Rightarrow> user \<Rightarrow> db \<Rightarrow> db res" where
  "complete_stock_request request actor d =
     (let k = fst request; rq = snd request in
      if rq_status rq \<noteq> RQ_ASSEMBLED then Inl (ValidationError ''invalid_status'')
      else
        let f = (\<lambda>r. r\<lparr>rq_status := RQ_COMPLETED, rq_updated_by := Some (u_pk actor)\<rparr>)
        in Inr (record_audit A_STATUS_CHANGE (Some (u_pk actor)) ''site_management.stockrequest'' k
             (Some (SnapRequest rq)) (Some (SnapRequest (f rq))) (save_request k f d)))"

section \<open>The services as one system\<close>

datatype request_call =
    CreateRequest nat nat user "request_row list" "date option" string
  | UpdateRequest nat user "request_row list" string
  | SubmitRequest nat user
  | ReviewRequest nat user "quantity_row list" string
  | AssistantApprove nat user "quantity_row list" string
  | StartPacking nat user string
  | Assemble nat user "quantity_row list" string
  | RejectRequest nat user string
  | CompleteRequest nat user

fun request_step :: "env \<Rightarrow> db \<Rightarrow> request_call \<Rightarrow> db res" where
  "request_step e d (CreateRequest s st a rows rd n) =
     fetch (stores d) st (\<lambda>x. db_of (create_stock_request e s x a rows rd n d))"
| "request_step e d (UpdateRequest k a rows n) =
     fetch (requests d) k (\<lambda>x. update_stock_request e x a rows n d)"
| "request_step e d (SubmitRequest k a) = fetch (requests d) k (\<lambda>x. submit_stock_request e x a d)"
| "request_step e d (ReviewRequest k a qs n) =
     fetch (requests d) k (\<lambda>x. review_stock_request e x a qs n d)"
| "request_step e d (AssistantApprove k a qs n) =
     fetch (requests d) k (\<lambda>x. assistant_approve_stock_request e x a qs n d)"
| "request_step e d (StartPacking k a n) = fetch (requests d) k (\<lambda>x. start_hr_stock_packing x a n d)"
| "request_step e d (Assemble k a qs n) =
     fetch (requests d) k (\<lambda>x. assemble_stock_request e x a qs n d)"
| "request_step e d (RejectRequest k a r) = fetch (requests d) k (\<lambda>x. reject_stock_request e x a r d)"
| "request_step e d (CompleteRequest k a) = fetch (requests d) k (\<lambda>x. complete_stock_request x a d)"

section \<open>The invariant of requests\<close>

text \<open>
  Along the chain a quantity is only ever cut: packed \<open>\<le>\<close> assistant-approved \<open>\<le>\<close> verified
  \<open>\<le>\<close> requested, each set only once its stage is reached.
\<close>

definition item_ok :: "(rat \<Rightarrow> rat) \<Rightarrow> stock_request_status \<Rightarrow> stock_request_item \<Rightarrow> bool" where
  "item_ok rnd s r \<longleftrightarrow>
     0 < ri_requested_quantity r \<and> rnd (ri_requested_quantity r) = ri_requested_quantity r \<and>
     ri_approved_quantity r = ri_verified_quantity r \<and>
     (case ri_verified_quantity r of None \<Rightarrow> True
      | Some v \<Rightarrow> 0 \<le> v \<and> v \<le> ri_requested_quantity r \<and> rnd v = v) \<and>
     (case ri_assistant_approved_quantity r of None \<Rightarrow> True
      | Some a \<Rightarrow> 0 \<le> a \<and> a \<le> given (ri_verified_quantity r) (ri_requested_quantity r) \<and> rnd a = a) \<and>
     (case ri_packed_quantity r of None \<Rightarrow> True
      | Some p \<Rightarrow> 0 \<le> p \<and> p \<le> given (ri_assistant_approved_quantity r) 0) \<and>
     (s \<in> {RQ_DRAFT, RQ_SUBMITTED} \<longrightarrow> ri_verified_quantity r = None) \<and>
     (s \<in> {RQ_DRAFT, RQ_SUBMITTED, RQ_ZONE_VERIFIED} \<longrightarrow> ri_assistant_approved_quantity r = None) \<and>
     (s \<in> {RQ_DRAFT, RQ_SUBMITTED, RQ_ZONE_VERIFIED, RQ_ASSISTANT_APPROVED, RQ_HR_PACKING} \<longrightarrow>
        ri_packed_quantity r = None)"

definition request_status :: "db \<Rightarrow> nat \<Rightarrow> stock_request_status option" where
  "request_status d k = map_option rq_status (tbl_get (requests d) k)"

definition items_ok ::
  "(rat \<Rightarrow> rat) \<Rightarrow> (nat \<Rightarrow> stock_request_status option) \<Rightarrow> stock_request_item table \<Rightarrow> bool" where
  "items_ok rnd st t \<longleftrightarrow>
     (\<forall>j r s. tbl_get t j = Some r \<longrightarrow> st (ri_request r) = Some s \<longrightarrow> item_ok rnd s r)"

text \<open>
  The approval trail of a request in a given status: the stages of the handoffs it went
  through, and nothing else; a rejected one has its rejection.
\<close>

fun stages_of :: "stock_request_status \<Rightarrow> approval_stage list" where
  "stages_of RQ_ZONE_VERIFIED = [STG_ZONE_VERIFIED]"
| "stages_of RQ_ASSISTANT_APPROVED = [STG_ZONE_VERIFIED, STG_ASSISTANT_APPROVED]"
| "stages_of RQ_HR_PACKING = [STG_ZONE_VERIFIED, STG_ASSISTANT_APPROVED, STG_HR_PACKED]"
| "stages_of RQ_ASSEMBLED = [STG_ZONE_VERIFIED, STG_ASSISTANT_APPROVED, STG_HR_PACKED, STG_ASSEMBLED]"
| "stages_of RQ_COMPLETED = [STG_ZONE_VERIFIED, STG_ASSISTANT_APPROVED, STG_HR_PACKED, STG_ASSEMBLED]"
| "stages_of _ = []"

definition approved_at :: "stock_request_approval table \<Rightarrow> nat \<Rightarrow> approval_stage \<Rightarrow> bool" where
  "approved_at t k stage \<longleftrightarrow> tbl_exists (\<lambda>_ a. ra_request a = k \<and> ra_stage a = stage) t"

definition trail_ok :: "stock_request_approval table \<Rightarrow> nat \<Rightarrow> stock_request_status \<Rightarrow> bool" where
  "trail_ok t k s \<longleftrightarrow>
     (if s = RQ_REJECTED then approved_at t k STG_REJECTED
      else \<forall>stage. approved_at t k stage \<longleftrightarrow> stage \<in> set (stages_of s))"

definition trails_ok :: "(nat \<Rightarrow> stock_request_status option) \<Rightarrow> stock_request_approval table \<Rightarrow> bool" where
  "trails_ok st t \<longleftrightarrow> (\<forall>k s. st k = Some s \<longrightarrow> trail_ok t k s)"

definition request_inv :: "env \<Rightarrow> db \<Rightarrow> bool" where
  "request_inv e d \<longleftrightarrow>
     tbl_wf (requests d) \<and> tbl_wf (request_items d) \<and> tbl_wf (approvals d) \<and>
     tbl_all (\<lambda>r. ri_request r < tbl_next (requests d)) (request_items d) \<and>
     tbl_all (\<lambda>a. ra_request a < tbl_next (requests d)) (approvals d) \<and>
     items_ok (numeric_column e) (request_status d) (request_items d) \<and>
     trails_ok (request_status d) (approvals d) \<and>
     tbl_unique (\<lambda>_. True) (\<lambda>a. (ra_request a, ra_stage a)) (approvals d)"

text \<open>The statuses a service moves a request between.\<close>

fun request_edge :: "stock_request_status \<Rightarrow> stock_request_status \<Rightarrow> bool" where
  "request_edge RQ_DRAFT b = (b = RQ_SUBMITTED)"
| "request_edge RQ_SUBMITTED b = (b \<in> {RQ_ZONE_VERIFIED, RQ_REJECTED})"
| "request_edge RQ_ZONE_VERIFIED b = (b \<in> {RQ_ASSISTANT_APPROVED, RQ_REJECTED})"
| "request_edge RQ_ASSISTANT_APPROVED b = (b \<in> {RQ_HR_PACKING, RQ_REJECTED})"
| "request_edge RQ_HR_PACKING b = (b \<in> {RQ_ASSEMBLED, RQ_REJECTED})"
| "request_edge RQ_ASSEMBLED b = (b = RQ_COMPLETED)"
| "request_edge RQ_ZONE_REVIEWED b = (b = RQ_REJECTED)"
| "request_edge RQ_OFFICE_PROCESSED b = False"
| "request_edge RQ_COMPLETED b = False"
| "request_edge RQ_REJECTED b = False"

subsection \<open>Request items\<close>

lemma item_ok_advance: "item_ok rnd a r \<Longrightarrow> request_edge a b \<Longrightarrow> item_ok rnd b r"
  by (cases a; cases b) (auto simp: item_ok_def)

lemma items_ok_advance:
  "items_ok rnd st t \<Longrightarrow> st k = Some a \<Longrightarrow> request_edge a b \<Longrightarrow> items_ok rnd (st(k := Some b)) t"
  unfolding items_ok_def by (auto split: if_splits intro: item_ok_advance)

lemma items_ok_save:
  assumes "items_ok rnd st t" and "tbl_get t j = Some r"
    and "ri_request (f r) = ri_request r" and "\<And>s. item_ok rnd s r \<Longrightarrow> st (ri_request r) = Some s \<Longrightarrow> item_ok rnd s (f r)"
  shows "items_ok rnd st (tbl_update_where (\<lambda>i _. i = j) f t)"
  using assms unfolding items_ok_def tbl_get_update_where by (auto split: if_splits)

text \<open>What a loop over an approval form does when every pass rewrites one item of the request.\<close>

definition item_pass ::
  "(rat \<Rightarrow> rat) \<Rightarrow> nat \<Rightarrow> stock_request_status \<Rightarrow> (quantity_row \<Rightarrow> db \<Rightarrow> db res) \<Rightarrow> bool" where
  "item_pass rnd k s g \<longleftrightarrow> (\<forall>row d d'. g row d = Inr d' \<longrightarrow>
     (\<exists>r f. tbl_get (request_items d) (fst row) = Some r \<and> ri_request r = k \<and>
        d' = save_request_item (fst row) f d \<and> (\<forall>q. ri_request (f q) = ri_request q) \<and>
        (item_ok rnd s r \<longrightarrow> item_ok rnd s (f r))))"

lemma item_pass_loop:
  assumes pass: "item_pass rnd k s g" and run: "foldM g rows d = Inr d'"
    and ok: "items_ok rnd st (request_items d)" "st k = Some s"
    and wf: "tbl_wf (request_items d)" "tbl_all (\<lambda>r. ri_request r < n) (request_items d)"
  shows "items_ok rnd st (request_items d') \<and> tbl_wf (request_items d') \<and>
    tbl_all (\<lambda>r. ri_request r < n) (request_items d') \<and> (\<exists>t. d' = d\<lparr>request_items := t\<rparr>)"
proof (rule foldM_invariant [OF run])
  have "d = d\<lparr>request_items := request_items d\<rparr>" by simp
  then show "items_ok rnd st (request_items d) \<and> tbl_wf (request_items d) \<and>
    tbl_all (\<lambda>r. ri_request r < n) (request_items d) \<and> (\<exists>t. d = d\<lparr>request_items := t\<rparr>)"
    using ok wf by blast
next
  fix row d1 d2
  assume d1: "items_ok rnd st (request_items d1) \<and> tbl_wf (request_items d1) \<and>
      tbl_all (\<lambda>r. ri_request r < n) (request_items d1) \<and> (\<exists>t. d1 = d\<lparr>request_items := t\<rparr>)"
    and g: "g row d1 = Inr d2"
  obtain r f where r: "tbl_get (request_items d1) (fst row) = Some r" "ri_request r = k"
      "d2 = save_request_item (fst row) f d1" "\<And>q. ri_request (f q) = ri_request q"
      "item_ok rnd s r \<Longrightarrow> item_ok rnd s (f r)"
    using pass g unfolding item_pass_def by blast
  have "items_ok rnd st (request_items d2)"
    unfolding r(3) save_request_item_def using d1 r ok(2) by (auto intro!: items_ok_save [where r = r])
  moreover have "tbl_all (\<lambda>r. ri_request r < n) (request_items d2)"
    using d1 r(4) by (auto simp: r(3) save_request_item_def intro: tbl_all_update_where)
  ultimately show "items_ok rnd st (request_items d2) \<and> tbl_wf (request_items d2) \<and>
      tbl_all (\<lambda>r. ri_request r < n) (request_items d2) \<and> (\<exists>t. d2 = d\<lparr>request_items := t\<rparr>)"
    using d1 by (auto simp: r(3) save_request_item_def tbl_wf_update_where)
qed

lemma request_item_Some:
  "request_item d k j = Some r \<longleftrightarrow> tbl_get (request_items d) j = Some r \<and> ri_request r = k"
  by (auto simp: request_item_def split: option.splits)

lemma verify_item_pass:
  assumes "numeric_rounding (numeric_column e)"
  shows "item_pass (numeric_column e) k RQ_ZONE_VERIFIED (verify_item e k)"
  unfolding item_pass_def
proof (intro allI impI)
  fix row d d'
  assume "verify_item e k row d = Inr d'"
  then show "\<exists>r f. tbl_get (request_items d) (fst row) = Some r \<and> ri_request r = k \<and>
      d' = save_request_item (fst row) f d \<and> (\<forall>q. ri_request (f q) = ri_request q) \<and>
      (item_ok (numeric_column e) RQ_ZONE_VERIFIED r \<longrightarrow> item_ok (numeric_column e) RQ_ZONE_VERIFIED (f r))"
    using numeric_rounding_idem [OF assms] numeric_rounding_nonneg [OF assms] numeric_rounding_cap [OF assms]
    by (intro exI [of _ "the (tbl_get (request_items d) (fst row))"]
        exI [of _ "\<lambda>r. r\<lparr>ri_verified_quantity := Some (numeric_column e (snd row)),
          ri_approved_quantity := Some (numeric_column e (snd row))\<rparr>"])
      (auto simp: verify_item_def res_simps request_item_Some item_ok_def not_less)
qed

lemma assistant_approve_item_pass:
  assumes "numeric_rounding (numeric_column e)"
  shows "item_pass (numeric_column e) k RQ_ASSISTANT_APPROVED (assistant_approve_item e k)"
  unfolding item_pass_def
proof (intro allI impI)
  fix row d d'
  assume "assistant_approve_item e k row d = Inr d'"
  then show "\<exists>r f. tbl_get (request_items d) (fst row) = Some r \<and> ri_request r = k \<and>
      d' = save_request_item (fst row) f d \<and> (\<forall>q. ri_request (f q) = ri_request q) \<and>
      (item_ok (numeric_column e) RQ_ASSISTANT_APPROVED r \<longrightarrow> item_ok (numeric_column e) RQ_ASSISTANT_APPROVED (f r))"
    using numeric_rounding_idem [OF assms] numeric_rounding_nonneg [OF assms] numeric_rounding_cap [OF assms]
    by (intro exI [of _ "the (tbl_get (request_items d) (fst row))"]
        exI [of _ "\<lambda>r. r\<lparr>ri_assistant_approved_quantity := Some (numeric_column e (snd row))\<rparr>"])
      (auto simp: assistant_approve_item_def res_simps request_item_Some item_ok_def not_less given_def Let_def
        split: option.splits)
qed

lemma pack_item_pass:
  assumes "numeric_rounding (numeric_column e)"
  shows "item_pass (numeric_column e) k RQ_ASSEMBLED (pack_item e k)"
  unfolding item_pass_def
proof (intro allI impI)
  fix row d d'
  assume "pack_item e k row d = Inr d'"
  then show "\<exists>r f. tbl_get (request_items d) (fst row) = Some r \<and> ri_request r = k \<and>
      d' = save_request_item (fst row) f d \<and> (\<forall>q. ri_request (f q) = ri_request q) \<and>
      (item_ok (numeric_column e) RQ_ASSEMBLED r \<longrightarrow> item_ok (numeric_column e) RQ_ASSEMBLED (f r))"
    using numeric_rounding_nonneg [OF assms] numeric_rounding_cap [OF assms]
      numeric_rounding_cap [OF assms, of _ 0] numeric_rounding_fits [OF assms, of 0]
    by (intro exI [of _ "the (tbl_get (request_items d) (fst row))"]
        exI [of _ "\<lambda>r. r\<lparr>ri_packed_quantity := Some (numeric_column e (snd row))\<rparr>"])
      (auto simp: pack_item_def res_simps request_item_Some item_ok_def not_less given_def Let_def
        decimal_fits_def split: option.splits)
qed

lemma add_request_items_loop:
  assumes rnd: "numeric_rounding (numeric_column e)"
    and run: "foldM (add_request_item k store) rows d = Inr d'"
    and ok: "items_ok (numeric_column e) st (request_items d)" "st k = Some RQ_DRAFT" "k < n"
    and wf: "tbl_wf (request_items d)" "tbl_all (\<lambda>r. ri_request r < n) (request_items d)"
  shows "items_ok (numeric_column e) st (request_items d') \<and> tbl_wf (request_items d') \<and>
    tbl_all (\<lambda>r. ri_request r < n) (request_items d') \<and> (\<exists>t. d' = d\<lparr>request_items := t\<rparr>)"
proof (rule foldM_invariant [OF run])
  have "d = d\<lparr>request_items := request_items d\<rparr>" by simp
  then show "items_ok (numeric_column e) st (request_items d) \<and> tbl_wf (request_items d) \<and>
    tbl_all (\<lambda>r. ri_request r < n) (request_items d) \<and> (\<exists>t. d = d\<lparr>request_items := t\<rparr>)"
    using ok wf by blast
next
  fix row d1 d2
  assume d1: "items_ok (numeric_column e) st (request_items d1) \<and> tbl_wf (request_items d1) \<and>
      tbl_all (\<lambda>r. ri_request r < n) (request_items d1) \<and> (\<exists>t. d1 = d\<lparr>request_items := t\<rparr>)"
    and g: "add_request_item k store row d1 = Inr d2"
  obtain r where r: "d2 = d1\<lparr>request_items := tbl_insert r (request_items d1)\<rparr>" "ri_request r = k"
      "item_ok (numeric_column e) RQ_DRAFT r"
    using g numeric_rounding_fits [OF rnd]
    by (auto simp: add_request_item_def Let_def res_simps request_item_clean_def item_ok_def)
  have "items_ok (numeric_column e) st (tbl_insert r (request_items d1))"
    using d1 r ok(2) by (auto simp: items_ok_def tbl_get_insert split: if_splits)
  moreover have "tbl_all (\<lambda>r. ri_request r < n) (tbl_insert r (request_items d1))"
    using d1 r ok(3) by (auto intro: tbl_all_insert)
  ultimately show "items_ok (numeric_column e) st (request_items d2) \<and> tbl_wf (request_items d2) \<and>
      tbl_all (\<lambda>r. ri_request r < n) (request_items d2) \<and> (\<exists>t. d2 = d\<lparr>request_items := t\<rparr>)"
    using d1 r(1) by auto
qed

subsection \<open>Approval trails\<close>

lemma approved_at_insert:
  "approved_at (tbl_insert a t) k stage \<longleftrightarrow> approved_at t k stage \<or> ra_request a = k \<and> ra_stage a = stage"
  by (auto simp: approved_at_def tbl_exists_def tbl_insert_def)

lemma trails_ok_insert:
  assumes "trails_ok st t" and "st k = Some a" and "a \<noteq> RQ_REJECTED" and "b \<noteq> RQ_REJECTED"
    and "set (stages_of b) = insert (ra_stage x) (set (stages_of a))" and "ra_request x = k"
  shows "trails_ok (st(k := Some b)) (tbl_insert x t)"
  using assms unfolding trails_ok_def trail_ok_def approved_at_insert by (auto split: if_splits)

lemma trails_ok_reject:
  assumes "trails_ok st t" and "approved_at t' k STG_REJECTED"
    and "\<And>j stage. j \<noteq> k \<Longrightarrow> approved_at t' j stage = approved_at t j stage"
  shows "trails_ok (st(k := Some RQ_REJECTED)) t'"
  using assms unfolding trails_ok_def trail_ok_def by (auto split: if_splits)

lemma trails_ok_keep:
  assumes "trails_ok st t" and "st k = Some a" and "a \<noteq> RQ_REJECTED" and "b \<noteq> RQ_REJECTED"
    and "stages_of b = stages_of a"
  shows "trails_ok (st(k := Some b)) t"
  using assms unfolding trails_ok_def trail_ok_def by (auto split: if_splits)

lemma trails_ok_new:
  assumes "trails_ok st t" and "tbl_wf t" and "tbl_all (\<lambda>a. ra_request a < k) t"
  shows "trails_ok (st(k := Some RQ_DRAFT)) t"
proof -
  have "\<not> approved_at t k stage" for stage
    using assms(2,3) by (auto simp: approved_at_def tbl_exists_get dest!: tbl_allD)
  then show ?thesis using assms(1) by (auto simp: trails_ok_def trail_ok_def)
qed

lemma create_approval_Inr:
  assumes "create_approval k stage u notes d = Inr d'"
  obtains a where "d' = d\<lparr>approvals := tbl_insert a (approvals d)\<rparr>" "ra_request a = k" "ra_stage a = stage"
    "\<not> approved_at (approvals d) k stage"
  using assms by (auto simp: create_approval_def res_simps approved_at_def)

lemma approvals_unique_insert:
  assumes "tbl_wf t" and "tbl_unique (\<lambda>_. True) (\<lambda>a. (ra_request a, ra_stage a)) t"
    and "\<not> approved_at t (ra_request a) (ra_stage a)"
  shows "tbl_unique (\<lambda>_. True) (\<lambda>a. (ra_request a, ra_stage a)) (tbl_insert a t)"
  using assms by (auto simp: approved_at_def conj_ac intro!: tbl_unique_insert)

subsection \<open>Every service keeps the invariant\<close>

lemma save_request_simps [simp]:
  "request_items (save_request k f d) = request_items d" "approvals (save_request k f d) = approvals d"
  "audits (save_request k f d) = audits d" "tbl_next (requests (save_request k f d)) = tbl_next (requests d)"
  by (simp_all add: save_request_def)

lemma save_request_status:
  "tbl_get (requests d) k = Some rq \<Longrightarrow> rq_status (f rq) = b \<Longrightarrow>
     request_status (save_request k f d) = (request_status d)(k := Some b)"
  by (auto simp: request_status_def save_request_def tbl_get_update_where fun_eq_iff option.map_ident)

lemma request_status_cong: "requests d' = requests d \<Longrightarrow> request_status d' = request_status d"
  by (simp add: request_status_def fun_eq_iff)

text \<open>The tables a request service may write.\<close>

definition request_only :: "db \<Rightarrow> db \<Rightarrow> bool" where
  "request_only d d' \<longleftrightarrow> (\<exists>rq ri ap au ev. d' = d\<lparr>requests := rq, request_items := ri, approvals := ap,
     audits := au, events := ev\<rparr>)"

lemma request_only_refl: "request_only d d"
  unfolding request_only_def
  by (rule exI [of _ "requests d"], rule exI [of _ "request_items d"], rule exI [of _ "approvals d"],
      rule exI [of _ "audits d"], rule exI [of _ "events d"]) simp

lemma request_only_trans: "request_only a b \<Longrightarrow> request_only b c \<Longrightarrow> request_only a c"
  unfolding request_only_def by (clarsimp; blast)

lemma request_only_writes:
  "request_only d (save_request k f d)" "request_only d (record_audit a u m j x y d)"
  "request_only d (publish_domain_event t g j p u d)" "request_only d (d\<lparr>request_items := ti\<rparr>)"
  "request_only d (d\<lparr>approvals := ta\<rparr>)" "request_only d (d\<lparr>requests := tr\<rparr>)"
  unfolding request_only_def save_request_def record_audit_def publish_domain_event_def
  by (cases d; simp)+

text \<open>
  What a successful service call amounts to: the invariant holds again, each request keeps its
  status or moves along an edge, nothing outside the request tables, the trail and the outbox
  changes, and an audit entry is left.
\<close>

definition request_result :: "env \<Rightarrow> db \<Rightarrow> db \<Rightarrow> bool" where
  "request_result e d d' \<longleftrightarrow> request_inv e d' \<and> request_only d d' \<and>
     (\<forall>k a. request_status d k = Some a \<longrightarrow> (\<exists>b. request_status d' k = Some b \<and> (b = a \<or> request_edge a b))) \<and>
     (\<exists>l. l \<noteq> [] \<and> audits d' = audits d @ l)"

lemma request_inv_cong:
  "requests d' = requests d \<Longrightarrow> request_items d' = request_items d \<Longrightarrow> approvals d' = approvals d \<Longrightarrow>
     request_inv e d' = request_inv e d"
  by (simp add: request_inv_def request_status_cong [of d' d])

lemma request_invI:
  assumes "request_inv e d" and "tbl_wf (requests d')" "tbl_wf (request_items d')" "tbl_wf (approvals d')"
    and "tbl_all (\<lambda>r. ri_request r < tbl_next (requests d')) (request_items d')"
    and "tbl_all (\<lambda>a. ra_request a < tbl_next (requests d')) (approvals d')"
    and "items_ok (numeric_column e) (request_status d') (request_items d')"
    and "trails_ok (request_status d') (approvals d')"
    and "tbl_unique (\<lambda>_. True) (\<lambda>a. (ra_request a, ra_stage a)) (approvals d')"
  shows "request_inv e d'"
  using assms by (simp add: request_inv_def)

text \<open>A handoff, after the loop over the approval form.\<close>

lemma handoff_result:
  assumes inv: "request_inv e d" and rq: "tbl_get (requests d) k = Some rq"
    and edge: "request_edge (rq_status rq) b" "b \<noteq> RQ_REJECTED"
    and stages: "stages_of b = stages_of (rq_status rq) @ [stage]" and f: "\<And>r. rq_status (f r) = b"
    and loop: "d1 = d\<lparr>request_items := t\<rparr>" "tbl_wf t" "tbl_all (\<lambda>r. ri_request r < tbl_next (requests d)) t"
      "items_ok (numeric_column e) ((request_status d)(k := Some b)) t"
    and ok: "handoff (k, rq) actor stage notes f d1 = Inr d'"
  shows "request_result e d d' \<and> request_status d' = (request_status d)(k := Some b)"
proof -
  obtain d2 where d2: "create_approval k stage actor notes (save_request k f d1) = Inr d2"
    and d': "d' = record_audit A_STATUS_CHANGE (Some (u_pk actor)) ''site_management.stockrequest'' k
       (Some (SnapRequest rq)) (Some (SnapRequest (f rq))) d2"
    using ok by (auto simp: handoff_def rbind_Inr)
  obtain a where a: "d2 = (save_request k f d1)\<lparr>approvals := tbl_insert a (approvals d1)\<rparr>"
      "ra_request a = k" "ra_stage a = stage" "\<not> approved_at (approvals d1) k stage"
    using create_approval_Inr [OF d2] by auto
  have st: "request_status d k = Some (rq_status rq)" using rq by (simp add: request_status_def)
  have st': "request_status d' = (request_status d)(k := Some b)"
    using save_request_status [of d1 k rq f b] rq f
    by (simp add: d' a(1) request_status_def save_request_def loop(1) fun_eq_iff)
  have t': "request_items d' = t" "approvals d' = tbl_insert a (approvals d)"
    "requests d' = requests (save_request k f d)"
    by (simp_all add: d' a(1) loop(1) save_request_def)
  have klt: "k < tbl_next (requests d)"
    using tbl_get_lt [OF _ rq] inv by (simp add: request_inv_def)
  have nr: "rq_status rq \<noteq> RQ_REJECTED" using edge(1) by auto
  have "request_inv e d'"
  proof (rule request_invI [OF inv])
    show "tbl_wf (requests d')" "tbl_wf (request_items d')" "tbl_wf (approvals d')"
      using inv loop(2) by (simp_all add: t' request_inv_def save_request_def tbl_wf_update_where)
    show "tbl_all (\<lambda>r. ri_request r < tbl_next (requests d')) (request_items d')" using loop(3) by (simp add: t')
    show "tbl_all (\<lambda>a. ra_request a < tbl_next (requests d')) (approvals d')"
      using inv klt a(2) by (auto simp: t' request_inv_def intro!: tbl_all_insert)
    show "items_ok (numeric_column e) (request_status d') (request_items d')"
      using loop(4) by (simp add: st' t')
    show "trails_ok (request_status d') (approvals d')"
      unfolding st' t' using inv st nr edge(2) stages a(2,3)
      by (intro trails_ok_insert) (auto simp: request_inv_def)
    show "tbl_unique (\<lambda>_. True) (\<lambda>a. (ra_request a, ra_stage a)) (approvals d')"
      unfolding t' using inv a(2-4) by (intro approvals_unique_insert) (auto simp: request_inv_def loop(1))
  qed
  moreover have "request_only d d'"
  proof -
    have "request_only d d1" "request_only d1 (save_request k f d1)" "request_only (save_request k f d1) d2"
        "request_only d2 d'"
      unfolding a(1) d' loop(1) by (rule request_only_writes)+
    then show ?thesis using request_only_trans by blast
  qed
  moreover have "audits d' \<noteq> [] \<and> (\<exists>l. l \<noteq> [] \<and> audits d' = audits d @ l)"
    by (simp add: d' a(1) loop(1))
  ultimately show ?thesis using st st' edge(1) by (auto simp: request_result_def)
qed

lemma items_loop_start:
  assumes "request_inv e d" and "tbl_get (requests d) k = Some rq" and "request_edge (rq_status rq) b"
  shows "items_ok (numeric_column e) ((request_status d)(k := Some b)) (request_items d)"
  using assms by (intro items_ok_advance [where a = "rq_status rq"]) (auto simp: request_inv_def request_status_def)

lemma pass_loop_result:
  assumes inv: "request_inv e d" and rq: "tbl_get (requests d) k = Some rq"
    and edge: "request_edge (rq_status rq) b" and pass: "item_pass (numeric_column e) k b g"
    and run: "foldM g rows d = Inr d1"
  obtains t where "d1 = d\<lparr>request_items := t\<rparr>" "tbl_wf t"
    "tbl_all (\<lambda>r. ri_request r < tbl_next (requests d)) t"
    "items_ok (numeric_column e) ((request_status d)(k := Some b)) t"
proof -
  have "tbl_wf (request_items d)" "tbl_all (\<lambda>r. ri_request r < tbl_next (requests d)) (request_items d)"
    using inv by (simp_all add: request_inv_def)
  from item_pass_loop [OF pass run items_loop_start [OF inv rq edge] _ this]
  have res: "items_ok (numeric_column e) ((request_status d)(k := Some b)) (request_items d1) \<and>
      tbl_wf (request_items d1) \<and> tbl_all (\<lambda>r. ri_request r < tbl_next (requests d)) (request_items d1) \<and>
      (\<exists>t. d1 = d\<lparr>request_items := t\<rparr>)" by simp
  then obtain t where t: "d1 = d\<lparr>request_items := t\<rparr>" by blast
  show ?thesis by (rule that [OF t]) (use res in \<open>simp_all add: t\<close>)
qed

text \<open>A change of status with no approval of its own.\<close>

lemma status_change_inv:
  assumes inv: "request_inv e d" and rq: "tbl_get (requests d) k = Some rq"
    and edge: "request_edge (rq_status rq) b" and f: "\<And>r. rq_status (f r) = b"
    and eqs: "requests d' = requests (save_request k f d)" "request_items d' = request_items d"
    and ap: "tbl_wf (approvals d')" "tbl_all (\<lambda>a. ra_request a < tbl_next (requests d)) (approvals d')"
      "trails_ok ((request_status d)(k := Some b)) (approvals d')"
      "tbl_unique (\<lambda>_. True) (\<lambda>a. (ra_request a, ra_stage a)) (approvals d')"
  shows "request_inv e d' \<and> request_status d' = (request_status d)(k := Some b)"
proof -
  have st': "request_status d' = (request_status d)(k := Some b)"
    using request_status_cong [OF eqs(1)] save_request_status [OF rq f] by simp
  have "request_inv e d'"
    using inv ap items_loop_start [OF inv rq edge]
    by (intro request_invI [OF inv])
      (simp_all add: eqs st' request_inv_def, simp_all add: save_request_def tbl_wf_update_where)
  with st' show ?thesis by simp
qed

lemma request_resultI:
  assumes "request_inv e d' \<and> request_status d' = (request_status d)(k := Some b)"
    and "request_status d k = Some a" and "b = a \<or> request_edge a b"
    and "request_only d d'" and "\<exists>l. l \<noteq> [] \<and> audits d' = audits d @ l"
  shows "request_result e d d'"
  using assms by (auto simp: request_result_def)

lemma submit_result:
  assumes inv: "request_inv e d" and rq: "tbl_get (requests d) k = Some rq"
    and ok: "submit_stock_request e (k, rq) u d = Inr d'"
  shows "request_result e d d'"
proof -
  define f :: "stock_request \<Rightarrow> stock_request" where "f = (\<lambda>r. r\<lparr>rq_status := RQ_SUBMITTED, rq_updated_by := Some (u_pk u)\<rparr>)"
  obtain pl where dr: "rq_status rq = RQ_DRAFT"
    and d': "d' = publish_domain_event ''StockRequestSubmitted'' ''site_management.stockrequest'' k pl (Some (u_pk u))
      (record_audit A_STATUS_CHANGE (Some (u_pk u)) ''site_management.stockrequest'' k (Some (SnapRequest rq))
        (Some (SnapRequest (f rq))) (save_request k f d))"
    using ok by (auto simp: submit_stock_request_def Let_def res_simps f_def)
  have st: "request_status d k = Some RQ_DRAFT" using rq dr by (simp add: request_status_def)
  have "request_inv e d' \<and> request_status d' = (request_status d)(k := Some RQ_SUBMITTED)"
    by (rule status_change_inv [OF inv rq, where f = f])
      (use inv st in \<open>auto simp: dr f_def d' request_inv_def intro!: trails_ok_keep\<close>)
  moreover have "request_only d (save_request k f d)" "request_only (save_request k f d) d'"
    using request_only_trans [OF request_only_writes(2,3)] by (auto simp: d' request_only_writes)
  then have "request_only d d'" using request_only_trans by blast
  ultimately show ?thesis using st by (intro request_resultI) (auto simp: d')
qed

lemma complete_result:
  assumes inv: "request_inv e d" and rq: "tbl_get (requests d) k = Some rq"
    and ok: "complete_stock_request (k, rq) u d = Inr d'"
  shows "request_result e d d'"
proof -
  define f :: "stock_request \<Rightarrow> stock_request" where "f = (\<lambda>r. r\<lparr>rq_status := RQ_COMPLETED, rq_updated_by := Some (u_pk u)\<rparr>)"
  have dr: "rq_status rq = RQ_ASSEMBLED"
    and d': "d' = record_audit A_STATUS_CHANGE (Some (u_pk u)) ''site_management.stockrequest'' k
        (Some (SnapRequest rq)) (Some (SnapRequest (f rq))) (save_request k f d)"
    using ok by (simp_all add: complete_stock_request_def Let_def res_simps f_def)
  have st: "request_status d k = Some RQ_ASSEMBLED" using rq dr by (simp add: request_status_def)
  have "request_inv e d' \<and> request_status d' = (request_status d)(k := Some RQ_COMPLETED)"
    by (rule status_change_inv [OF inv rq, where f = f])
      (use inv st in \<open>auto simp: dr f_def d' request_inv_def intro!: trails_ok_keep\<close>)
  moreover have "request_only d d'"
    unfolding d' by (rule request_only_trans [OF request_only_writes(1,2)])
  ultimately show ?thesis using st by (intro request_resultI) (auto simp: d')
qed

lemma reject_result:
  assumes inv: "request_inv e d" and rq: "tbl_get (requests d) k = Some rq"
    and ok: "reject_stock_request e (k, rq) u reason d = Inr d'"
  shows "request_result e d d'"
proof -
  define f :: "stock_request \<Rightarrow> stock_request" where "f = (\<lambda>r. r\<lparr>rq_status := RQ_REJECTED,
     rq_notes := append_line (rq_notes rq) (''Rejected: '' @ reason), rq_reviewed_by := Some (u_pk u),
     rq_reviewed_at := Some (now e), rq_updated_by := Some (u_pk u)\<rparr>)"
  define d1 where "d1 = save_request k f d"
  define d2 where "d2 = (case create_approval k STG_REJECTED u reason d1 of Inl _ \<Rightarrow> d1 | Inr d2 \<Rightarrow> d2)"
  have c: "rq_status rq \<in> {RQ_SUBMITTED, RQ_ZONE_REVIEWED, RQ_ZONE_VERIFIED, RQ_ASSISTANT_APPROVED, RQ_HR_PACKING}"
      "strip reason \<noteq> []"
    using ok by (simp_all add: reject_stock_request_def Let_def split: if_splits)
  then have edge: "request_edge (rq_status rq) RQ_REJECTED" by auto
  have d': "d' = record_audit A_STATUS_CHANGE (Some (u_pk u)) ''site_management.stockrequest'' k
        (Some (SnapRequest rq)) (Some (SnapRequest (f rq))) d2"
    using ok c unfolding reject_stock_request_def Let_def d2_def d1_def f_def
    by (simp cong: sum.case_cong split: if_splits)
  have klt: "k < tbl_next (requests d)" using tbl_get_lt [OF _ rq] inv by (simp add: request_inv_def)
  have ap: "approvals d1 = approvals d" by (simp add: d1_def)
  have new: "requests d2 = requests d1 \<and> request_items d2 = request_items d1 \<and> audits d2 = audits d1 \<and>
      request_only d1 d2 \<and> tbl_wf (approvals d2) \<and>
      tbl_all (\<lambda>a. ra_request a < tbl_next (requests d)) (approvals d2) \<and>
      trails_ok ((request_status d)(k := Some RQ_REJECTED)) (approvals d2) \<and>
      tbl_unique (\<lambda>_. True) (\<lambda>a. (ra_request a, ra_stage a)) (approvals d2)"
  proof (cases "create_approval k STG_REJECTED u reason d1")
    case (Inl err)
    then have "approved_at (approvals d) k STG_REJECTED"
      by (auto simp: create_approval_def approved_at_def ap split: if_splits)
    then show ?thesis
      using inv Inl by (auto simp: d2_def request_inv_def ap request_only_refl intro: trails_ok_reject)
  next
    case (Inr x)
    obtain a where a: "x = d1\<lparr>approvals := tbl_insert a (approvals d)\<rparr>" "ra_request a = k"
        "ra_stage a = STG_REJECTED" "\<not> approved_at (approvals d) k STG_REJECTED"
      using create_approval_Inr [OF Inr] by (auto simp: ap)
    have x: "d2 = x" by (simp add: d2_def Inr)
    have "trails_ok ((request_status d)(k := Some RQ_REJECTED)) (tbl_insert a (approvals d))"
      by (rule trails_ok_reject [of "request_status d" "approvals d"])
        (use inv a in \<open>auto simp: approved_at_insert request_inv_def\<close>)
    moreover have "request_only d1 x" unfolding a(1) by (rule request_only_writes)
    moreover have "tbl_unique (\<lambda>_. True) (\<lambda>a. (ra_request a, ra_stage a)) (tbl_insert a (approvals d))"
      using inv a by (intro approvals_unique_insert) (auto simp: request_inv_def)
    ultimately show ?thesis
      using inv klt a(2) by (auto simp: x a(1) request_inv_def intro!: tbl_all_insert)
  qed
  have "request_inv e d' \<and> request_status d' = (request_status d)(k := Some RQ_REJECTED)"
    by (rule status_change_inv [OF inv rq edge, where f = f])
      (use new in \<open>simp_all add: f_def d' d1_def [symmetric]\<close>, simp_all add: d1_def f_def)
  moreover have "request_only d d1" "request_only d1 d2" "request_only d2 d'"
    using new by (simp_all add: d1_def d' request_only_writes)
  then have "request_only d d'" using request_only_trans by blast
  ultimately show ?thesis
    using edge rq new by (intro request_resultI) (auto simp: d' d1_def request_status_def)
qed

lemma review_result:
  assumes rnd: "numeric_rounding (numeric_column e)" and inv: "request_inv e d"
    and rq: "tbl_get (requests d) k = Some rq" and ok: "review_stock_request e (k, rq) u qs n d = Inr d'"
  shows "request_result e d d'"
proof -
  have s: "rq_status rq = RQ_SUBMITTED" and run: "\<exists>d1. foldM (verify_item e k) qs d = Inr d1"
    using ok by (auto simp: review_stock_request_def res_simps)
  obtain d1 where run: "foldM (verify_item e k) qs d = Inr d1" using run by blast
  have edge: "request_edge (rq_status rq) RQ_ZONE_VERIFIED" by (simp add: s)
  show ?thesis
  proof (rule pass_loop_result [OF inv rq edge verify_item_pass [OF rnd] run], goal_cases)
    case (1 t)
    show ?case
      by (rule conjunct1 [OF handoff_result [OF inv rq edge _ _ _ 1]])
        (use ok run in \<open>auto simp: review_stock_request_def s res_simps\<close>)
  qed
qed

lemma assistant_approve_result:
  assumes rnd: "numeric_rounding (numeric_column e)" and inv: "request_inv e d"
    and rq: "tbl_get (requests d) k = Some rq"
    and ok: "assistant_approve_stock_request e (k, rq) u qs n d = Inr d'"
  shows "request_result e d d'"
proof -
  have s: "rq_status rq = RQ_ZONE_VERIFIED" and run: "\<exists>d1. foldM (assistant_approve_item e k) qs d = Inr d1"
    using ok by (auto simp: assistant_approve_stock_request_def res_simps)
  obtain d1 where run: "foldM (assistant_approve_item e k) qs d = Inr d1" using run by blast
  have edge: "request_edge (rq_status rq) RQ_ASSISTANT_APPROVED" by (simp add: s)
  show ?thesis
  proof (rule pass_loop_result [OF inv rq edge assistant_approve_item_pass [OF rnd] run], goal_cases)
    case (1 t)
    show ?case
      by (rule conjunct1 [OF handoff_result [OF inv rq edge _ _ _ 1]])
        (use ok run in \<open>auto simp: assistant_approve_stock_request_def s res_simps\<close>)
  qed
qed

lemma assemble_result:
  assumes rnd: "numeric_rounding (numeric_column e)" and inv: "request_inv e d"
    and rq: "tbl_get (requests d) k = Some rq" and ok: "assemble_stock_request e (k, rq) u qs n d = Inr d'"
  shows "request_result e d d'"
proof -
  have s: "rq_status rq = RQ_HR_PACKING" and run: "\<exists>d1. foldM (pack_item e k) qs d = Inr d1"
    using ok by (auto simp: assemble_stock_request_def res_simps)
  obtain d1 where run: "foldM (pack_item e k) qs d = Inr d1" using run by blast
  have edge: "request_edge (rq_status rq) RQ_ASSEMBLED" by (simp add: s)
  show ?thesis
  proof (rule pass_loop_result [OF inv rq edge pack_item_pass [OF rnd] run], goal_cases)
    case (1 t)
    show ?case
      by (rule conjunct1 [OF handoff_result [OF inv rq edge _ _ _ 1]])
        (use ok run in \<open>auto simp: assemble_stock_request_def s res_simps\<close>)
  qed
qed

lemma packing_result:
  assumes inv: "request_inv e d" and rq: "tbl_get (requests d) k = Some rq"
    and ok: "start_hr_stock_packing (k, rq) u n d = Inr d'"
  shows "request_result e d d'"
proof -
  have s: "rq_status rq = RQ_ASSISTANT_APPROVED"
    using ok by (auto simp: start_hr_stock_packing_def res_simps)
  have edge: "request_edge (rq_status rq) RQ_HR_PACKING" by (simp add: s)
  have d: "d = d\<lparr>request_items := request_items d\<rparr>" by simp
  show ?thesis
    by (rule conjunct1 [OF handoff_result [OF inv rq edge _ _ _ d]])
      (use ok inv items_loop_start [OF inv rq edge] in
        \<open>auto simp: start_hr_stock_packing_def s res_simps request_inv_def\<close>)
qed

lemma create_result:
  assumes rnd: "numeric_rounding (numeric_column e)" and inv: "request_inv e d"
    and ok: "create_stock_request e site st u rows rd n d = Inr (k, d')"
  shows "request_result e d d'"
proof -
  define r where "r = \<lparr>rq_site = site, rq_store = fst st, rq_request_date = given rd (sys_today e),
     rq_requested_by = Some (u_pk u), rq_status = RQ_DRAFT, rq_notes = n, rq_reviewed_by = None,
     rq_reviewed_at = None, rq_request_month = Some (month_start (given rd (sys_today e))),
     rq_created_by = Some (u_pk u), rq_updated_by = Some (u_pk u)\<rparr>"
  have r: "rq_status r = RQ_DRAFT" by (simp add: r_def)
  obtain d1 where k: "k = tbl_next (requests d)"
    and run: "foldM (add_request_item k (fst st)) rows (d\<lparr>requests := tbl_insert r (requests d)\<rparr>) = Inr d1"
    and d': "d' = record_audit A_CREATE (Some (u_pk u)) ''site_management.stockrequest'' k None
       (Some (SnapRequest r)) d1"
    using ok by (auto simp: create_stock_request_def Let_def res_simps r_def)
  let ?d0 = "d\<lparr>requests := tbl_insert r (requests d)\<rparr>"
  have wf: "tbl_wf (requests d)" using inv by (simp add: request_inv_def)
  have st: "request_status ?d0 = (request_status d)(k := Some RQ_DRAFT)" and none: "request_status d k = None"
    using r tbl_get_fresh [OF wf] by (auto simp: request_status_def fun_eq_iff tbl_get_insert [OF wf] k)
  have lt: "tbl_all (\<lambda>r. ri_request r < Suc k) (request_items d)" "tbl_all (\<lambda>a. ra_request a < Suc k) (approvals d)"
    using inv unfolding request_inv_def k tbl_all_def by (auto intro: less_SucI)
  have "ri_request r \<noteq> k" if "tbl_get (request_items d) j = Some r" for j r
    using tbl_allD [OF _ that] inv by (fastforce simp: request_inv_def k)
  then have items: "items_ok (numeric_column e) (request_status ?d0) (request_items d)"
    using inv unfolding st by (auto simp: items_ok_def request_inv_def)
  have res: "items_ok (numeric_column e) (request_status ?d0) (request_items d1) \<and> tbl_wf (request_items d1) \<and>
    tbl_all (\<lambda>r. ri_request r < Suc k) (request_items d1) \<and> (\<exists>t. d1 = ?d0\<lparr>request_items := t\<rparr>)"
    by (rule add_request_items_loop [OF rnd run]) (use inv items lt in \<open>auto simp: st request_inv_def\<close>)
  then have res3: "items_ok (numeric_column e) ((request_status d)(k := Some RQ_DRAFT)) (request_items d1)"
    "tbl_wf (request_items d1)" "tbl_all (\<lambda>r. ri_request r < Suc k) (request_items d1)"
    by (simp_all add: st)
  obtain t where t: "d1 = ?d0\<lparr>request_items := t\<rparr>" using res by blast
  have eqs: "requests d' = tbl_insert r (requests d)" "request_items d' = request_items d1"
    "approvals d' = approvals d" by (simp_all add: d' t)
  have st': "request_status d' = (request_status d)(k := Some RQ_DRAFT)"
    using st by (simp add: request_status_def fun_eq_iff d' t)
  have "trails_ok ((request_status d)(k := Some RQ_DRAFT)) (approvals d)"
    using inv by (intro trails_ok_new) (auto simp: request_inv_def k)
  then have "request_inv e d'"
    using inv res3 lt unfolding k by (intro request_invI [OF inv]) (simp_all add: st' eqs request_inv_def k)
  moreover have "request_only d ?d0" "request_only ?d0 d1" "request_only d1 d'"
    unfolding t d' by (rule request_only_writes)+
  then have "request_only d d'" using request_only_trans by blast
  ultimately show ?thesis using st' none by (auto simp: request_result_def d' t)
qed

lemma update_result:
  assumes rnd: "numeric_rounding (numeric_column e)" and inv: "request_inv e d"
    and rq: "tbl_get (requests d) k = Some rq" and ok: "update_stock_request e (k, rq) u rows n d = Inr d'"
  shows "request_result e d d'"
proof -
  define f :: "stock_request \<Rightarrow> stock_request"
    where "f = (\<lambda>r. r\<lparr>rq_notes := n, rq_updated_by := Some (u_pk u)\<rparr>)"
  define d0 where "d0 = d\<lparr>request_items := tbl_delete_where (\<lambda>_ r. ri_request r = k) (request_items d)\<rparr>"
  obtain d1 where dr: "rq_status rq = RQ_DRAFT"
    and run: "foldM (add_request_item k (rq_store rq)) rows d0 = Inr d1"
    and d': "d' = record_audit A_UPDATE (Some (u_pk u)) ''site_management.stockrequest'' k
       (Some (SnapRequest rq)) (Some (SnapRequest (f rq))) (save_request k f d1)"
    using ok by (auto simp: update_stock_request_def Let_def res_simps f_def d0_def)
  have wf: "tbl_wf (request_items d)" using inv by (simp add: request_inv_def)
  have st: "request_status d0 = request_status d" "request_status d k = Some RQ_DRAFT"
    using rq dr by (simp_all add: request_status_def d0_def fun_eq_iff)
  have klt: "k < tbl_next (requests d)" using tbl_get_lt [OF _ rq] inv by (simp add: request_inv_def)
  have items: "items_ok (numeric_column e) (request_status d) (request_items d0)"
    using inv by (auto simp: items_ok_def d0_def tbl_get_delete_where [OF wf] request_inv_def)
  have res: "items_ok (numeric_column e) (request_status d) (request_items d1) \<and> tbl_wf (request_items d1) \<and>
    tbl_all (\<lambda>r. ri_request r < tbl_next (requests d)) (request_items d1) \<and> (\<exists>t. d1 = d0\<lparr>request_items := t\<rparr>)"
    by (rule add_request_items_loop [OF rnd run items st(2) klt])
      (use inv wf in \<open>auto simp: d0_def request_inv_def intro: tbl_all_delete_where\<close>)
  then have res3: "items_ok (numeric_column e) (request_status d) (request_items d1)" "tbl_wf (request_items d1)"
    "tbl_all (\<lambda>r. ri_request r < tbl_next (requests d)) (request_items d1)" by simp_all
  obtain t where t: "d1 = d0\<lparr>request_items := t\<rparr>" using res by blast
  have eqs: "requests d' = tbl_update_where (\<lambda>j _. j = k) f (requests d)" "request_items d' = request_items d1"
    "approvals d' = approvals d" by (simp_all add: d' t d0_def save_request_def)
  have st': "request_status d' = request_status d"
  proof -
    have "requests d1 = requests d" by (simp add: t d0_def)
    then have "request_status (save_request k f d1) = (request_status d)(k := Some RQ_DRAFT)"
      using save_request_status [of d1 k rq f RQ_DRAFT] rq dr request_status_cong [of d1 d] by (simp add: f_def)
    then show ?thesis
      using st(2) request_status_cong [of d' "save_request k f d1"] by (simp add: d' fun_upd_idem)
  qed
  have "request_inv e d'"
    using inv res3 by (intro request_invI [OF inv]) (simp_all add: st' eqs tbl_wf_update_where request_inv_def)
  moreover have "request_only d d0" "request_only d0 d1" "request_only d1 (save_request k f d1)"
      "request_only (save_request k f d1) d'"
    unfolding t d' d0_def by (rule request_only_writes)+
  then have "request_only d d'" using request_only_trans by blast
  ultimately show ?thesis using st' by (auto simp: request_result_def d' t d0_def)
qed

lemma request_step_result:
  assumes rnd: "numeric_rounding (numeric_column e)" and inv: "request_inv e d"
    and ok: "request_step e d c = Inr d'"
  shows "request_result e d d'"
proof (cases c)
  case CreateRequest
  then show ?thesis using ok create_result [OF rnd inv] by (auto simp: fetch_Inr db_of_Inr)
next
  case UpdateRequest
  then show ?thesis using ok update_result [OF rnd inv] by (auto simp: fetch_Inr)
next
  case SubmitRequest
  then show ?thesis using ok submit_result [OF inv] by (auto simp: fetch_Inr)
next
  case ReviewRequest
  then show ?thesis using ok review_result [OF rnd inv] by (auto simp: fetch_Inr)
next
  case AssistantApprove
  then show ?thesis using ok assistant_approve_result [OF rnd inv] by (auto simp: fetch_Inr)
next
  case StartPacking
  then show ?thesis using ok packing_result [OF inv] by (auto simp: fetch_Inr)
next
  case Assemble
  then show ?thesis using ok assemble_result [OF rnd inv] by (auto simp: fetch_Inr)
next
  case RejectRequest
  then show ?thesis using ok reject_result [OF inv] by (auto simp: fetch_Inr)
next
  case CompleteRequest
  then show ?thesis using ok complete_result [OF inv] by (auto simp: fetch_Inr)
qed

definition request_world :: "env \<Rightarrow> db \<Rightarrow> bool" where
  "request_world e d \<longleftrightarrow> numeric_rounding (numeric_column e) \<and> request_inv e d"

interpretation request: workflow "request_step e" "request_world e" "\<lambda>d. request_status d k" request_edge
  for e k
proof unfold_locales
  fix d c d'
  assume "request_world e d" "request_step e d c = Inr d'"
  then show "request_world e d'"
    using request_step_result by (auto simp: request_world_def request_result_def)
next
  fix d c d' a
  assume "request_world e d" "request_step e d c = Inr d'" "request_status d k = Some a"
  then show "\<exists>b. request_status d' k = Some b \<and> (b = a \<or> request_edge a b)"
    using request_step_result by (auto simp: request_world_def request_result_def)
qed

interpretation request_audit: audited_system "request_step e" "request_world e" audits for e
  by unfold_locales (use request_step_result in \<open>auto simp: request_world_def request_result_def\<close>)

text \<open>Requests never write another component's tables.\<close>

interpretation request_frame: safe_system "request_step e" "\<lambda>d. request_world e d \<and> request_only d0 d" for e d0
  by unfold_locales
    (use request_step_result request_only_trans in \<open>fastforce simp: request_world_def request_result_def\<close>)

section \<open>Properties\<close>

definition demo_user :: "nat \<Rightarrow> role_code \<Rightarrow> user" where
  "demo_user k r = \<lparr>u_pk = k, u_role = r, u_is_superuser = False, u_is_active = True, u_perms = []\<rparr>"

text \<open>One monthly request from draft to completion, cut at every stage.\<close>

definition demo_request_calls :: "request_call list" where
  "demo_request_calls =
     [CreateRequest 1 2 (demo_user 2 SITE_SUPERVISOR)
        [\<lparr>rr_store_item = 2, rr_requested_quantity = 9, rr_quantity_left = 1, rr_notes = []\<rparr>] None [],
      SubmitRequest 1 (demo_user 2 SITE_SUPERVISOR),
      ReviewRequest 1 (demo_user 3 ZONE_SUPERVISOR) [(1, 7)] [],
      AssistantApprove 1 (demo_user 4 ASSISTANT_GENERAL_SUPERVISOR) [(1, 6)] [],
      StartPacking 1 (demo_user 5 HR) [],
      Assemble 1 (demo_user 5 HR) [(1, 5)] [],
      CompleteRequest 1 (demo_user 5 HR)]"

definition demo_request_view :: "db \<Rightarrow> (nat \<times> rat option) option \<times> stock_request_status option" where
  "demo_request_view d =
     (map_option (\<lambda>r. (ri_request r, ri_packed_quantity r)) (tbl_get (request_items d) 1), request_status d 1)"

lemma demo_request_run:
  "demo_request_view (run_calls (request_step default_env) demo_network demo_request_calls) =
     (Some (1, Some 5), Some RQ_COMPLETED)"
  by code_simp

lemma demo_request_world: "request_world default_env demo_network"
  by (simp add: request_world_def request_inv_def demo_network_def empty_db_def default_env_def
      numeric_rounding_def items_ok_def trails_ok_def request_status_def tbl_get_def tbl_empty_def)
    (simp add: tbl_unique_def tbl_get_def tbl_wf_def tbl_all_def)

text \<open>
  C2: quantities are only cut along the approval chain. Whatever calls are made, for every
  item of a request the verified quantity is at most the requested one, the assistant-approved
  at most the verified one (the requested one when the zone supervisor left it open), and the
  packed at most the approved one (zero when nothing was approved); none is negative.
\<close>

theorem request_quantities_only_cut:
  assumes "numeric_rounding (numeric_column e)" and "request_inv e d"
    and "tbl_get (request_items (run_calls (request_step e) d cs)) j = Some r"
    and "request_status (run_calls (request_step e) d cs) (ri_request r) = Some s"
  shows "0 \<le> given (ri_packed_quantity r) 0 \<and>
    given (ri_packed_quantity r) 0 \<le> given (ri_assistant_approved_quantity r) 0 \<and>
    given (ri_assistant_approved_quantity r) 0 \<le> given (ri_verified_quantity r) (ri_requested_quantity r) \<and>
    given (ri_verified_quantity r) (ri_requested_quantity r) \<le> ri_requested_quantity r"
proof -
  have "request_world e (run_calls (request_step e) d cs)"
    using request.run_inv assms(1,2) by (simp add: request_world_def)
  then have "item_ok (numeric_column e) s r"
    using assms(3,4) by (auto simp: request_world_def request_inv_def items_ok_def)
  then show ?thesis by (auto simp: item_ok_def given_def split: option.splits)
qed

theorem request_quantities_only_cut_witness:
  "\<exists>r. tbl_get (request_items (run_calls (request_step default_env) demo_network demo_request_calls)) 1 = Some r \<and>
     ri_packed_quantity r = Some 5 \<and> given (ri_packed_quantity r) 0 \<le> given (ri_assistant_approved_quantity r) 0"
proof -
  let ?d = "run_calls (request_step default_env) demo_network demo_request_calls"
  have "map_option (\<lambda>r. (ri_request r, ri_packed_quantity r)) (tbl_get (request_items ?d) 1) = Some (1, Some 5)"
    using demo_request_run by (simp only: demo_request_view_def prod.inject)
  then obtain r where r: "tbl_get (request_items ?d) 1 = Some r" "ri_request r = 1" "ri_packed_quantity r = Some 5"
    by auto
  have "request_status ?d (ri_request r) = Some RQ_COMPLETED"
    unfolding r(2) using demo_request_run by (simp only: demo_request_view_def prod.inject)
  from request_quantities_only_cut [OF _ _ r(1) this] demo_request_world r
  show ?thesis by (auto simp: request_world_def)
qed

text \<open>
  A completed request carries its whole approval trail. Exactly the four handoffs (zone
  verification, assistant approval, packing, assembly) are recorded, each once, and no
  rejection.
\<close>

theorem completed_request_trail:
  assumes "numeric_rounding (numeric_column e)" and "request_inv e d"
    and "request_status (run_calls (request_step e) d cs) k = Some RQ_COMPLETED"
  shows "(approved_at (approvals (run_calls (request_step e) d cs)) k stage \<longleftrightarrow> stage \<noteq> STG_REJECTED) \<and>
    (tbl_get (approvals (run_calls (request_step e) d cs)) i = Some a \<and>
     tbl_get (approvals (run_calls (request_step e) d cs)) j = Some b \<and>
     ra_request a = ra_request b \<and> ra_stage a = ra_stage b \<longrightarrow> i = j)"
proof -
  have inv: "request_inv e (run_calls (request_step e) d cs)"
    using request.run_inv assms(1,2) by (simp add: request_world_def)
  then have "trail_ok (approvals (run_calls (request_step e) d cs)) k RQ_COMPLETED"
    using assms(3) by (simp add: request_inv_def trails_ok_def)
  then have "approved_at (approvals (run_calls (request_step e) d cs)) k stage \<longleftrightarrow> stage \<noteq> STG_REJECTED"
    by (cases stage) (auto simp: trail_ok_def)
  moreover have "tbl_unique (\<lambda>_. True) (\<lambda>a. (ra_request a, ra_stage a))
      (approvals (run_calls (request_step e) d cs))"
    using inv by (simp add: request_inv_def)
  then have "tbl_get (approvals (run_calls (request_step e) d cs)) i = Some a \<and>
     tbl_get (approvals (run_calls (request_step e) d cs)) j = Some b \<and>
     ra_request a = ra_request b \<and> ra_stage a = ra_stage b \<longrightarrow> i = j"
    by (auto dest: tbl_uniqueD)
  ultimately show ?thesis by blast
qed

theorem completed_request_trail_witness:
  "approved_at (approvals (run_calls (request_step default_env) demo_network demo_request_calls)) 1 STG_ASSEMBLED"
proof -
  have "request_status (run_calls (request_step default_env) demo_network demo_request_calls) 1 = Some RQ_COMPLETED"
    using demo_request_run by (simp only: demo_request_view_def prod.inject)
  from completed_request_trail [OF _ _ this] demo_request_world show ?thesis
    by (auto simp: request_world_def)
qed

lemma completion_needs:
  assumes "s \<in> {RQ_SUBMITTED, RQ_ZONE_VERIFIED, RQ_ASSISTANT_APPROVED, RQ_HR_PACKING, RQ_ASSEMBLED}"
  shows "\<not> (\<lambda>x y. request_edge x y \<and> y \<noteq> s)\<^sup>*\<^sup>* RQ_DRAFT RQ_COMPLETED"
proof
  assume path: "(\<lambda>x y. request_edge x y \<and> y \<noteq> s)\<^sup>*\<^sup>* RQ_DRAFT RQ_COMPLETED"
  have step: "y \<noteq> RQ_COMPLETED" if "(\<lambda>x y. request_edge x y \<and> y \<noteq> s)\<^sup>*\<^sup>* RQ_DRAFT y" for y
  proof -
    let ?before = "{y. y = RQ_DRAFT \<or> y = RQ_REJECTED \<or>
      (s \<noteq> RQ_SUBMITTED \<and> (y = RQ_SUBMITTED \<or> (s \<noteq> RQ_ZONE_VERIFIED \<and> (y = RQ_ZONE_VERIFIED \<or>
      (s \<noteq> RQ_ASSISTANT_APPROVED \<and> (y = RQ_ASSISTANT_APPROVED \<or> (s \<noteq> RQ_HR_PACKING \<and> y = RQ_HR_PACKING)))))))}"
    have "y \<in> ?before"
      using that
    proof (induction rule: rtranclp_induct)
      case (step y z)
      then show ?case using assms by (cases y) auto
    qed simp
    then show ?thesis by auto
  qed
  then show False using path by blast
qed

text \<open>
  C10: no shortcut to completion. A request that is a draft now and completed after some calls
  was, in between, submitted, zone-verified, assistant-approved, in packing and assembled.
\<close>

theorem completion_passes_every_stage:
  assumes "numeric_rounding (numeric_column e)" and "request_inv e d"
    and "request_status d k = Some RQ_DRAFT"
    and "request_status (run_calls (request_step e) d cs) k = Some RQ_COMPLETED"
    and "s \<in> {RQ_SUBMITTED, RQ_ZONE_VERIFIED, RQ_ASSISTANT_APPROVED, RQ_HR_PACKING, RQ_ASSEMBLED}"
  shows "\<exists>t \<in> set (call_states (request_step e) d cs). request_status t k = Some s"
  by (rule request.waypoint [OF _ assms(3,4) completion_needs [OF assms(5)]])
    (simp add: request_world_def assms(1,2))

theorem completion_passes_every_stage_witness:
  "\<exists>t \<in> set (call_states (request_step default_env)
      (run_calls (request_step default_env) demo_network (take 1 demo_request_calls)) (drop 1 demo_request_calls)).
    request_status t 1 = Some RQ_ASSISTANT_APPROVED"
proof -
  let ?d = "run_calls (request_step default_env) demo_network (take 1 demo_request_calls)"
  have inv: "request_world default_env ?d" by (rule request.run_inv [OF demo_request_world])
  have draft: "request_status ?d 1 = Some RQ_DRAFT" by code_simp
  have "run_calls (request_step default_env) ?d (drop 1 demo_request_calls) =
      run_calls (request_step default_env) demo_network demo_request_calls"
    by (simp only: run_calls_append [symmetric] append_take_drop_id)
  then have "request_status (run_calls (request_step default_env) ?d (drop 1 demo_request_calls)) 1 = Some RQ_COMPLETED"
    using demo_request_run by (simp only: demo_request_view_def prod.inject)
  from completion_passes_every_stage [OF _ _ draft this] inv show ?thesis by (simp only: request_world_def) blast
qed

text \<open>
  Completed and rejected are final, and no call ever brings a request to \<open>ZONE_REVIEWED\<close> or
  \<open>OFFICE_PROCESSED\<close>, two of the declared statuses.
\<close>

theorem request_final_and_unused_statuses:
  assumes "numeric_rounding (numeric_column e)" and "request_inv e d" and "request_status d k = Some s"
  shows "(s \<in> {RQ_COMPLETED, RQ_REJECTED} \<longrightarrow> request_status (run_calls (request_step e) d cs) k = Some s) \<and>
    (s \<notin> {RQ_ZONE_REVIEWED, RQ_OFFICE_PROCESSED} \<longrightarrow>
       request_status (run_calls (request_step e) d cs) k \<notin> {Some RQ_ZONE_REVIEWED, Some RQ_OFFICE_PROCESSED})"
proof -
  have inv: "request_world e d" using assms(1,2) by (simp add: request_world_def)
  have final: "\<not> request_edge s b" if "s \<in> {RQ_COMPLETED, RQ_REJECTED}" for b using that by auto
  obtain b where b: "request_status (run_calls (request_step e) d cs) k = Some b" "request_edge\<^sup>*\<^sup>* s b"
    using request.run_path [OF inv assms(3)] by blast
  have "b \<notin> {RQ_ZONE_REVIEWED, RQ_OFFICE_PROCESSED}" if "s \<notin> {RQ_ZONE_REVIEWED, RQ_OFFICE_PROCESSED}"
    using b(2) that
  proof (induction rule: rtranclp_induct)
    case (step y z)
    then show ?case by (cases y) auto
  qed simp
  then show ?thesis using b(1) request.absorbing [OF inv assms(3)] final by auto
qed

theorem request_final_and_unused_statuses_witness:
  "request_status (run_calls (request_step default_env)
     (run_calls (request_step default_env) demo_network demo_request_calls)
     [RejectRequest 1 (demo_user 1 SYSTEM_ADMIN) ''late'']) 1 = Some RQ_COMPLETED"
proof -
  let ?d = "run_calls (request_step default_env) demo_network demo_request_calls"
  have inv: "request_world default_env ?d" by (rule request.run_inv [OF demo_request_world])
  have "request_status ?d 1 = Some RQ_COMPLETED"
    using demo_request_run by (simp only: demo_request_view_def prod.inject)
  from request_final_and_unused_statuses [OF _ _ this] inv show ?thesis by (simp only: request_world_def) blast
qed

text \<open>
  A stock request moves no stock. No sequence of request calls, completion included, changes
  an item's row, records a movement or a transfer, or touches a store.
\<close>

theorem request_calls_leave_inventory:
  assumes "numeric_rounding (numeric_column e)" and "request_inv e d"
  shows "items (run_calls (request_step e) d cs) = items d \<and> movements (run_calls (request_step e) d cs) = movements d \<and>
    transfers (run_calls (request_step e) d cs) = transfers d \<and> stores (run_calls (request_step e) d cs) = stores d"
proof -
  have "request_world e d \<and> request_only d d"
    using assms by (simp add: request_world_def request_only_refl)
  from request_frame.run_inv [OF this, of cs] obtain rq ri ap au ev
    where "run_calls (request_step e) d cs = d\<lparr>requests := rq, request_items := ri, approvals := ap,
      audits := au, events := ev\<rparr>"
    unfolding request_only_def by blast
  then show ?thesis by simp
qed

theorem request_calls_leave_inventory_witness:
  "movements (run_calls (request_step default_env) demo_network demo_request_calls) = movements demo_network"
  using request_calls_leave_inventory [of default_env demo_network demo_request_calls] demo_request_world
  by (simp only: request_world_def)

text \<open>
  The request window. After day 17 of the (local) month a site supervisor's creation, change
  and submission of a request all fail with the same error, whatever their other arguments; for
  every other role, and up to day 17, the window never is the reason of a failure.
\<close>

theorem request_window:
  "(request_window_closed e u \<longleftrightarrow> u_role u = SITE_SUPERVISOR \<and> 17 < date_day (localdate e)) \<and>
   (create_stock_request e s st u rows rd n d = Inl (ValidationError ''request_window_closed'') \<longleftrightarrow>
      request_window_closed e u) \<and>
   (update_stock_request e rq u rows n d = Inl (ValidationError ''request_window_closed'') \<longleftrightarrow>
      request_window_closed e u) \<and>
   (submit_stock_request e rq u d = Inl (ValidationError ''request_window_closed'') \<longleftrightarrow>
      request_window_closed e u)"
proof -
  have "foldM (add_request_item k t) rows d0 \<noteq> Inl (ValidationError ''request_window_closed'')" for k t d0
  proof (induction rows arbitrary: d0)
    case (Cons row rows)
    then show ?case
      by (auto simp: rbind_def add_request_item_def Let_def split: sum.splits option.splits if_splits)
  qed simp
  then show ?thesis
    by (auto simp: request_window_closed_def create_stock_request_def update_stock_request_def
        submit_stock_request_def Let_def rbind_def split: sum.split)
qed

text \<open>
  A submission succeeds exactly for a draft with at least one item inside the window, and
  then exactly one \<open>StockRequestSubmitted\<close> event with the number of items is published.
\<close>

theorem submit_stock_request_iff:
  "submit_stock_request e (k, rq) u d = Inr d' \<longleftrightarrow>
     \<not> request_window_closed e u \<and> rq_status rq = RQ_DRAFT \<and> items_of d k \<noteq> [] \<and>
     d' = d\<lparr>requests := tbl_update_where (\<lambda>j _. j = k)
              (\<lambda>r. r\<lparr>rq_status := RQ_SUBMITTED, rq_updated_by := Some (u_pk u)\<rparr>) (requests d),
            audits := audits d @ [\<lparr>au_user = Some (u_pk u), au_action = A_STATUS_CHANGE,
              au_model_name = ''site_management.stockrequest'', au_object_id = str_nat k,
              au_before_data = Some (SnapRequest rq),
              au_after_data = Some (SnapRequest (rq\<lparr>rq_status := RQ_SUBMITTED, rq_updated_by := Some (u_pk u)\<rparr>))\<rparr>],
            events := events d @ [\<lparr>ev_event_type = ''StockRequestSubmitted'',
              ev_aggregate_type = ''site_management.stockrequest'', ev_aggregate_id = str_nat k,
              ev_payload = [(''request_id'', JNat k), (''store_id'', JNat (rq_store rq)),
                (''site_id'', JNat (rq_site rq)), (''item_count'', JNat (length (items_of d k)))],
              ev_schema_version = 1, ev_status = EV_PENDING, ev_created_by = Some (u_pk u)\<rparr>]\<rparr>"
  by (auto simp: submit_stock_request_def Let_def save_request_def record_audit_def publish_domain_event_def)

text \<open>
  A stale rejection undoes a completion. The services test the status of the instance they
  were handed, not of the row. An instance read while the request was in packing still rejects
  it after it has been assembled and completed.
\<close>

theorem stale_rejection_overwrites_completion:
  assumes "tbl_get (requests d) k = Some cur" and "rq_status cur = RQ_COMPLETED"
    and "rq_status stale = RQ_HR_PACKING" and "strip reason \<noteq> []"
  shows "\<exists>d'. reject_stock_request e (k, stale) u reason d = Inr d' \<and> request_status d' k = Some RQ_REJECTED"
proof -
  let ?f = "\<lambda>r. r\<lparr>rq_status := RQ_REJECTED, rq_notes := append_line (rq_notes stale) (''Rejected: '' @ reason),
     rq_reviewed_by := Some (u_pk u), rq_reviewed_at := Some (now e), rq_updated_by := Some (u_pk u)\<rparr>"
  have s: "request_status (save_request k ?f d) k = Some RQ_REJECTED"
    using save_request_status [OF assms(1), of ?f RQ_REJECTED] by simp
  show ?thesis
  proof (cases "create_approval k STG_REJECTED u reason (save_request k ?f d)")
    case (Inl err)
    then show ?thesis
      using s assms by (auto simp: reject_stock_request_def Let_def request_status_def)
  next
    case (Inr d2)
    then have "requests d2 = requests (save_request k ?f d)" by (rule create_approval_Inr) simp
    then show ?thesis
      using s assms Inr by (auto simp: reject_stock_request_def Let_def request_status_def)
  qed
qed

end
