(* ===== verification/Issues.thy ===== *)
theory Issues
  imports Policies
begin

text \<open>
  Issues and jobs (\<open>apps/site_management/issues_services.py\<close>). An issue is reviewed, assigned,
  escalated, and closed when all its jobs are; a job is assigned, worked on, completed (with a
  photo when configured), verified, closed, and may be reopened. A service saves the instance
  the caller holds, key and row; a text too long for its column, or an escalation level above
  the column's 32767, is the database's \<open>DataError\<close>.
\<close>

section \<open>Issues\<close>

definition issue_is_terminal :: "issue \<Rightarrow> bool" where
  "issue_is_terminal i \<longleftrightarrow> is_status i = IS_CLOSED"

definition issue_payload :: "nat \<Rightarrow> nat \<Rightarrow> (string \<times> json) list" where
  "issue_payload k site = [(''id'', JNat k), (''site_id'', JNat site)]"

definition create_issue ::
  "string \<Rightarrow> nat \<Rightarrow> user \<Rightarrow> user \<Rightarrow> string \<Rightarrow> issue_source \<Rightarrow> issue_category \<Rightarrow> issue_priority \<Rightarrow>
   nat option \<Rightarrow> nat option \<Rightarrow> nat option \<Rightarrow> date option \<Rightarrow> db \<Rightarrow> (nat \<times> db) res" where
  "create_issue title site raised_by actor description source category priority area cleaner
       inspection due_date d =
     (let i = \<lparr>is_title = title, is_description = description, is_source = source, is_site = site,
               is_area = area, is_cleaner = cleaner, is_inspection = inspection,
               is_issue_category = category, is_priority = priority, is_status = IS_OPEN,
               is_raised_by = Some (u_pk raised_by), is_assigned_to = None, is_due_date = due_date,
               is_resolved_at = None, is_closed_at = None, is_escalation_level = 0,
               is_is_escalated = False, is_created_by = Some (u_pk actor),
               is_updated_by = Some (u_pk actor)\<rparr>;
          k = tbl_next (issues d)
      in if title = [] \<or> 200 < length title then Inl FullClean
         else Inr (k, publish_domain_event ''IssueCreated'' ''site_management.issue'' k (issue_payload k site)
                (Some (u_pk actor))
              (record_audit A_CREATE (Some (u_pk actor)) ''site_management.issue'' k None
                (Some (SnapIssue i)) (d\<lparr>issues := tbl_insert i (issues d)\<rparr>))))"

definition save_issue :: "nat \<Rightarrow> issue \<Rightarrow> db \<Rightarrow> db res" where
  "save_issue k i d =
     (if 200 < length (is_title i) \<or> 32767 < is_escalation_level i then Inl DataError
      else Inr (d\<lparr>issues := tbl_put k i (issues d)\<rparr>))"

definition update_issue ::
  "nat \<times> issue \<Rightarrow> user \<Rightarrow> string option \<Rightarrow> string option \<Rightarrow> issue_category option \<Rightarrow>
   issue_priority option \<Rightarrow> nat option \<Rightarrow> nat option \<Rightarrow> date option \<Rightarrow> db \<Rightarrow> db res" where
  "update_issue x actor title description category priority area cleaner due_date d =
     (let k = fst x; i = snd x in
      if issue_is_terminal i then Inl (ValidationError ''issue_closed'')
      else
        let i' = i\<lparr>is_title := given title (is_title i),
                   is_description := given description (is_description i),
                   is_issue_category := given category (is_issue_category i),
                   is_priority := given priority (is_priority i),
                   is_area := (if area = None then is_area i else area),
                   is_cleaner := (if cleaner = None then is_cleaner i else cleaner),
                   is_due_date := (if due_date = None then is_due_date i else due_date),
                   is_updated_by := Some (u_pk actor)\<rparr>
        in rbind (save_issue k i' d) (\<lambda>d1. Inr (record_audit A_UPDATE (Some (u_pk actor))
             ''site_management.issue'' k (Some (SnapIssue i)) (Some (SnapIssue i')) d1)))"

definition review_issue :: "nat \<times> issue \<Rightarrow> user \<Rightarrow> string \<Rightarrow> db \<Rightarrow> db res" where
  "review_issue x actor notes d =
     (let k = fst x; i = snd x in
      if is_status i \<notin> {IS_OPEN, IS_REOPENED} then Inl (ValidationError ''invalid_status'')
      else
        let i' = i\<lparr>is_status := IS_UNDER_REVIEW,
                   is_description := append_line (is_description i)
                     (if notes \<noteq> [] then ''Review: '' @ notes else ''Under review''),
                   is_updated_by := Some (u_pk actor)\<rparr>
        in rbind (save_issue k i' d) (\<lambda>d1. Inr (record_audit A_STATUS_CHANGE (Some (u_pk actor))
             ''site_management.issue'' k (Some (SnapIssue i)) (Some (SnapIssue i')) d1)))"

definition escalation_key :: "nat \<Rightarrow> string" where
  "escalation_key k = ''issue-escalated:'' @ str_nat k"

definition escalate_issue :: "nat \<times> issue \<Rightarrow> user \<Rightarrow> string \<Rightarrow> db \<Rightarrow> db res" where
  "escalate_issue x actor reason d =
     (let k = fst x; i = snd x in
      if issue_is_terminal i then Inl (ValidationError ''issue_closed'')
      else if strip reason = [] then Inl (ValidationError ''reason_required'')
      else
        let level = Suc (is_escalation_level i);
            i' = i\<lparr>is_escalation_level := level, is_is_escalated := True,
                   is_description := append_line (is_description i)
                     (''Escalated ('' @ str_nat level @ ''): '' @ reason),
                   is_updated_by := Some (u_pk actor)\<rparr>
        in rbind (save_issue k i' d) (\<lambda>d1. Inr (snd (notify_role GENERAL_SUPERVISOR ''issue_escalated''
             ''site_management.issue'' (str_nat k) (escalation_key k)
             (publish_domain_event ''IssueEscalated'' ''site_management.issue'' k
                [(''level'', JNat level), (''reason'', JStr reason)] (Some (u_pk actor))
             (record_audit A_STATUS_CHANGE (Some (u_pk actor)) ''site_management.issue'' k
                (Some (SnapIssue i)) (Some (SnapIssue i')) d1))))))"

text \<open>
  \<open>_set_issue_assigned\<close> and \<open>_close_issue_if_all_jobs_closed\<close> test the given instance and write
  the columns they name.
\<close>

definition set_issue_assigned :: "nat \<times> issue \<Rightarrow> user \<Rightarrow> db \<Rightarrow> db" where
  "set_issue_assigned x actor d =
     (let k = fst x; i = snd x in
      if is_status i \<in> {IS_OPEN, IS_UNDER_REVIEW, IS_REOPENED}
      then
        let f = (\<lambda>r. r\<lparr>is_status := IS_ASSIGNED, is_updated_by := Some (u_pk actor)\<rparr>) in
        record_audit A_STATUS_CHANGE (Some (u_pk actor)) ''site_management.issue'' k
          (Some (SnapIssue i)) (Some (SnapIssue (f i)))
          (d\<lparr>issues := tbl_update_where (\<lambda>j _. j = k) f (issues d)\<rparr>)
      else d)"

definition jobs_of :: "db \<Rightarrow> nat \<Rightarrow> (nat \<times> job) list" where
  "jobs_of d k = tbl_where (\<lambda>_ j. jb_issue j = Some k) (jobs d)"

definition close_issue_if_all_jobs_closed :: "env \<Rightarrow> nat \<times> issue \<Rightarrow> user \<Rightarrow> db \<Rightarrow> db" where
  "close_issue_if_all_jobs_closed e x actor d =
     (let k = fst x; i = snd x in
      if is_status i = IS_CLOSED then d
      else if jobs_of d k = [] then d
      else if list_all (\<lambda>(_, j). jb_status j = JB_CLOSED) (jobs_of d k)
      then
        let f = (\<lambda>r. r\<lparr>is_status := IS_CLOSED, is_closed_at := Some (now e), is_updated_by := Some (u_pk actor)\<rparr>) in
        record_audit A_STATUS_CHANGE (Some (u_pk actor)) ''site_management.issue'' k
          (Some (SnapIssue i)) (Some (SnapIssue (f i)))
          (d\<lparr>issues := tbl_update_where (\<lambda>j _. j = k) f (issues d)\<rparr>)
      else d)"

section \<open>Jobs\<close>

definition job_is_terminal :: "job \<Rightarrow> bool" where
  "job_is_terminal j \<longleftrightarrow> jb_status j = JB_CLOSED"

definition job_clean :: "db \<Rightarrow> job \<Rightarrow> bool" where
  "job_clean d j \<longleftrightarrow> jb_job_title j \<noteq> [] \<and> length (jb_job_title j) \<le> 200 \<and>
     (case jb_issue j of None \<Rightarrow> True
      | Some k \<Rightarrow> (case tbl_get (issues d) k of None \<Rightarrow> False | Some i \<Rightarrow> is_site i = jb_site j))"

definition save_job :: "nat \<Rightarrow> job \<Rightarrow> db \<Rightarrow> db res" where
  "save_job k j d =
     (if 200 < length (jb_job_title j) \<or> 255 < length (jb_original_filename j) \<or>
         127 < length (jb_content_type j) then Inl DataError
      else Inr (d\<lparr>jobs := tbl_put k j (jobs d)\<rparr>))"

definition emit_job :: "string \<Rightarrow> nat \<Rightarrow> job \<Rightarrow> user \<Rightarrow> db \<Rightarrow> db" where
  "emit_job event k j actor d = publish_domain_event event ''site_management.job'' k
     [(''id'', JNat k), (''site_id'', JNat (jb_site j))] (Some (u_pk actor)) d"

definition audit_job :: "audit_action \<Rightarrow> nat \<Rightarrow> job \<Rightarrow> job \<Rightarrow> user \<Rightarrow> db \<Rightarrow> db" where
  "audit_job action k before after actor d = record_audit action (Some (u_pk actor)) ''site_management.job'' k
     (Some (SnapJob before)) (Some (SnapJob after)) d"

text \<open>\<open>_transition\<close>: the instance in memory and the database after it.\<close>

definition transition ::
  "nat \<Rightarrow> job \<Rightarrow> job_status \<Rightarrow> user \<Rightarrow> string option \<Rightarrow> string \<Rightarrow> db \<Rightarrow> (job \<times> db) res" where
  "transition k j status actor emit notes d =
     (let j' = j\<lparr>jb_status := status,
                 jb_completion_notes := (if notes \<noteq> [] then append_line (jb_completion_notes j) notes
                                         else jb_completion_notes j),
                 jb_updated_by := Some (u_pk actor)\<rparr>
      in rbind (save_job k j' d) (\<lambda>d1.
           let d2 = audit_job A_STATUS_CHANGE k j j' actor d1
           in Inr (j', (case emit of None \<Rightarrow> d2 | Some event \<Rightarrow> emit_job event k j' actor d2))))"

text \<open>What the job services do with the job's issue, when it has one.\<close>

definition with_issue :: "job \<Rightarrow> (nat \<times> issue \<Rightarrow> db \<Rightarrow> db) \<Rightarrow> db \<Rightarrow> db" where
  "with_issue j f d =
     (case jb_issue j of None \<Rightarrow> d
      | Some k \<Rightarrow> (case tbl_get (issues d) k of None \<Rightarrow> d | Some i \<Rightarrow> f (k, i) d))"

definition create_job ::
  "env \<Rightarrow> string \<Rightarrow> nat \<Rightarrow> user \<Rightarrow> user \<Rightarrow> string \<Rightarrow> (nat \<times> issue) option \<Rightarrow> nat option \<Rightarrow> nat option \<Rightarrow>
   date option \<Rightarrow> issue_priority \<Rightarrow> db \<Rightarrow> (nat \<times> db) res" where
  "create_job e job_title site assigned_by actor description issue to_user to_cleaner due_date priority d =
     (let j = \<lparr>jb_issue = map_option fst issue, jb_job_title = job_title, jb_description = description,
               jb_site = site, jb_assigned_to_user = to_user, jb_assigned_to_cleaner = to_cleaner,
               jb_assigned_by = Some (u_pk assigned_by),
               jb_due_date = given due_date (add_days 3 (sys_today e)), jb_priority = priority,
               jb_status = JB_OPEN, jb_completion_notes = [], jb_file = None,
               jb_original_filename = [], jb_content_type = [], jb_size_bytes = 0,
               jb_completed_at = None, jb_verified_by = None, jb_verified_at = None,
               jb_closed_at = None, jb_created_by = Some (u_pk actor),
               jb_updated_by = Some (u_pk actor)\<rparr>;
          k = tbl_next (jobs d)
      in if \<not> job_clean d j then Inl FullClean
         else
           let d1 = record_audit A_CREATE (Some (u_pk actor)) ''site_management.job'' k None
                 (Some (SnapJob j)) (d\<lparr>jobs := tbl_insert j (jobs d)\<rparr>)
           in rbind (if to_user \<noteq> None \<or> to_cleaner \<noteq> None
                 then transition k j JB_ASSIGNED actor (Some ''JobAssigned'') [] d1 else Inr (j, d1))
              (\<lambda>(_, d2). Inr (k, case issue of None \<Rightarrow> d2 | Some x \<Rightarrow> set_issue_assigned x actor d2)))"

definition assign_job_from_issue ::
  "env \<Rightarrow> nat \<times> issue \<Rightarrow> user \<Rightarrow> string option \<Rightarrow> string \<Rightarrow> nat option \<Rightarrow> nat option \<Rightarrow> date option \<Rightarrow>
   issue_priority option \<Rightarrow> db \<Rightarrow> (nat \<times> db) res" where
  "assign_job_from_issue e x actor job_title description to_user to_cleaner due_date priority d =
     create_job e (if job_title \<in> {None, Some []} then is_title (snd x) else the job_title) (is_site (snd x))
       actor actor (if description = [] then is_description (snd x) else description) (Some x) to_user
       to_cleaner due_date (given priority (is_priority (snd x))) d"

definition update_job ::
  "nat \<times> job \<Rightarrow> user \<Rightarrow> string option \<Rightarrow> string option \<Rightarrow> date option \<Rightarrow> issue_priority option \<Rightarrow> db \<Rightarrow>
   db res" where
  "update_job x actor job_title description due_date priority d =
     (let k = fst x; j = snd x in
      if job_is_terminal j then Inl (ValidationError ''job_closed'')
      else
        let j' = j\<lparr>jb_job_title := given job_title (jb_job_title j),
                   jb_description := given description (jb_description j),
                   jb_due_date := given due_date (jb_due_date j),
                   jb_priority := given priority (jb_priority j),
                   jb_updated_by := Some (u_pk actor)\<rparr>
        in rbind (save_job k j' d) (\<lambda>d1. Inr (audit_job A_UPDATE k j j' actor d1)))"

definition assign_job ::
  "env \<Rightarrow> nat \<times> job \<Rightarrow> user \<Rightarrow> nat option \<Rightarrow> nat option \<Rightarrow> db \<Rightarrow> db res" where
  "assign_job e x actor to_user to_cleaner d =
     (let k = fst x; j = snd x in
      ensure (can_assign_job e d actor j)
        (if jb_status j \<notin> {JB_OPEN, JB_REOPENED} then Inl (ValidationError ''invalid_status'')
         else if to_user = None \<and> to_cleaner = None then Inl (ValidationError ''assignee_required'')
         else
           let j' = j\<lparr>jb_assigned_to_user := to_user, jb_assigned_to_cleaner := to_cleaner,
                      jb_assigned_by := Some (u_pk actor), jb_status := JB_ASSIGNED,
                      jb_updated_by := Some (u_pk actor)\<rparr>
           in rbind (save_job k j' d) (\<lambda>d1. Inr (with_issue j' (\<lambda>i. set_issue_assigned i actor)
                (publish_domain_event ''JobAssigned'' ''site_management.job'' k
                   [(''assigned_to_user_id'', optional_json to_user),
                    (''assigned_to_cleaner_id'', optional_json to_cleaner)] (Some (u_pk actor))
                   (audit_job A_ASSIGN k j j' actor d1))))))"

definition start_job :: "nat \<times> job \<Rightarrow> user \<Rightarrow> db \<Rightarrow> db res" where
  "start_job x actor d =
     (let k = fst x; j = snd x in
      if jb_status j \<noteq> JB_ASSIGNED then Inl (ValidationError ''invalid_status'')
      else rbind (transition k j JB_IN_PROGRESS actor None [] d)
        (\<lambda>(j', d1). Inr (with_issue j' (\<lambda>i. set_issue_assigned i actor) d1)))"

text \<open>The columns a stored photo fills.\<close>

definition with_photo :: "upload \<Rightarrow> job \<Rightarrow> job" where
  "with_photo f j = j\<lparr>jb_file := Some f, jb_original_filename := up_name f,
     jb_content_type := up_content_type f, jb_size_bytes := up_size f\<rparr>"

definition validate_photo :: "env \<Rightarrow> upload option \<Rightarrow> unit res" where
  "validate_photo e photo =
     (case photo of
        None \<Rightarrow> if JOB_COMPLETION_PHOTO_REQUIRED e then Inl (ValidationError ''photo_required'') else Inr ()
      | Some f \<Rightarrow> rbind (validate_file_extension e f) (\<lambda>_. validate_file_size e f))"

definition complete_job ::
  "env \<Rightarrow> nat \<times> job \<Rightarrow> user \<Rightarrow> string \<Rightarrow> upload option \<Rightarrow> db \<Rightarrow> db res" where
  "complete_job e x actor completion_notes photo d =
     (let k = fst x; j = snd x in
      ensure (is_system_admin actor \<or> user_can_manage_site e d actor (Some (jb_site j)))
        (if jb_status j \<notin> {JB_ASSIGNED, JB_IN_PROGRESS} then Inl (ValidationError ''invalid_status'')
         else rbind (validate_photo e photo) (\<lambda>_.
           let j1 = (case photo of None \<Rightarrow> j | Some f \<Rightarrow> with_photo f j)\<lparr>jb_completed_at := Some (now e)\<rparr>
           in rbind (transition k j1 JB_COMPLETED actor (Some ''JobCompleted'') completion_notes d)
                (\<lambda>(j', d1). Inr (with_issue j' (\<lambda>i. close_issue_if_all_jobs_closed e i actor) d1)))))"

definition verify_job :: "env \<Rightarrow> nat \<times> job \<Rightarrow> user \<Rightarrow> db \<Rightarrow> db res" where
  "verify_job e x actor d =
     (let k = fst x; j = snd x in
      ensure (can_verify_job e d actor j)
        (if jb_status j \<noteq> JB_COMPLETED then Inl (ValidationError ''invalid_status'')
         else
           let j' = j\<lparr>jb_status := JB_VERIFIED, jb_verified_by := Some (u_pk actor),
                      jb_verified_at := Some (now e), jb_updated_by := Some (u_pk actor)\<rparr>
           in rbind (save_job k j' d) (\<lambda>d1. Inr (emit_job ''JobVerified'' k j' actor
                (audit_job A_STATUS_CHANGE k j j' actor d1)))))"

definition close_job :: "env \<Rightarrow> nat \<times> job \<Rightarrow> user \<Rightarrow> db \<Rightarrow> db res" where
  "close_job e x actor d =
     (let k = fst x; j = snd x in
      if jb_status j \<noteq> JB_VERIFIED then Inl (ValidationError ''verify_required'')
      else
        let j' = j\<lparr>jb_status := JB_CLOSED, jb_closed_at := Some (now e),
                   jb_updated_by := Some (u_pk actor)\<rparr>
        in rbind (save_job k j' d) (\<lambda>d1.
             Inr (with_issue j' (\<lambda>i. close_issue_if_all_jobs_closed e i actor)
               (audit_job A_STATUS_CHANGE k j j' actor d1))))"

definition reopen_job :: "nat \<times> job \<Rightarrow> user \<Rightarrow> string \<Rightarrow> db \<Rightarrow> db res" where
  "reopen_job x actor reason d =
     (let k = fst x; j = snd x in
      if jb_status j \<notin> {JB_CLOSED, JB_COMPLETED, JB_VERIFIED} then Inl (ValidationError ''invalid_status'')
      else if strip reason = [] then Inl (ValidationError ''reason_required'')
      else
        let j' = j\<lparr>jb_status := JB_REOPENED, jb_verified_by := None, jb_verified_at := None,
                   jb_completed_at := None, jb_closed_at := None,
                   jb_completion_notes := append_line (jb_completion_notes j) (''Reopened: '' @ reason),
                   jb_updated_by := Some (u_pk actor)\<rparr>
        in rbind (save_job k j' d) (\<lambda>d1. Inr (audit_job A_STATUS_CHANGE k j j' actor d1)))"

definition upload_job_photo :: "env \<Rightarrow> nat \<times> job \<Rightarrow> upload \<Rightarrow> user \<Rightarrow> db \<Rightarrow> db res" where
  "upload_job_photo e x f actor d =
     (let k = fst x; j = snd x in
      if job_is_terminal j then Inl (ValidationError ''job_closed'')
      else rbind (validate_file_extension e f) (\<lambda>_. rbind (validate_file_size e f) (\<lambda>_.
        let j' = (with_photo f j)\<lparr>jb_updated_by := Some (u_pk actor)\<rparr>
        in rbind (save_job k j' d) (\<lambda>d1. Inr (record_audit A_UPDATE (Some (u_pk actor))
             ''site_management.job'' k None None d1)))))"

section \<open>The services as one system\<close>

datatype issue_call =
    CreateIssue string nat user user string issue_source issue_category issue_priority
      "nat option" "nat option" "nat option" "date option"
  | UpdateIssue nat user "string option" "string option" "issue_category option"
      "issue_priority option" "nat option" "nat option" "date option"
  | ReviewIssue nat user string
  | EscalateIssue nat user string
  | CreateJob string nat user user string "nat option" "nat option" "nat option" "date option"
      issue_priority
  | AssignJobFromIssue nat user "string option" string "nat option" "nat option" "date option"
      "issue_priority option"
  | UpdateJob nat user "string option" "string option" "date option" "issue_priority option"
  | AssignJob nat user "nat option" "nat option"
  | StartJob nat user
  | CompleteJob nat user string "upload option"
  | VerifyJob nat user
  | CloseJob nat user
  | ReopenJob nat user string
  | UploadJobPhoto nat upload user

fun issue_step :: "env \<Rightarrow> db \<Rightarrow> issue_call \<Rightarrow> db res" where
  "issue_step e d (CreateIssue t s r a des src c p ar cl i dd) =
     db_of (create_issue t s r a des src c p ar cl i dd d)"
| "issue_step e d (UpdateIssue k a t des c p ar cl dd) =
     fetch (issues d) k (\<lambda>x. update_issue x a t des c p ar cl dd d)"
| "issue_step e d (ReviewIssue k a n) = fetch (issues d) k (\<lambda>x. review_issue x a n d)"
| "issue_step e d (EscalateIssue k a r) = fetch (issues d) k (\<lambda>x. escalate_issue x a r d)"
| "issue_step e d (CreateJob t s b a des i u c dd p) =
     fetch_optional (issues d) i (\<lambda>x. db_of (create_job e t s b a des x u c dd p d))"
| "issue_step e d (AssignJobFromIssue k a t des u c dd p) =
     fetch (issues d) k (\<lambda>x. db_of (assign_job_from_issue e x a t des u c dd p d))"
| "issue_step e d (UpdateJob k a t des dd p) = fetch (jobs d) k (\<lambda>x. update_job x a t des dd p d)"
| "issue_step e d (AssignJob k a u c) = fetch (jobs d) k (\<lambda>x. assign_job e x a u c d)"
| "issue_step e d (StartJob k a) = fetch (jobs d) k (\<lambda>x. start_job x a d)"
| "issue_step e d (CompleteJob k a n f) = fetch (jobs d) k (\<lambda>x. complete_job e x a n f d)"
| "issue_step e d (VerifyJob k a) = fetch (jobs d) k (\<lambda>x. verify_job e x a d)"
| "issue_step e d (CloseJob k a) = fetch (jobs d) k (\<lambda>x. close_job e x a d)"
| "issue_step e d (ReopenJob k a r) = fetch (jobs d) k (\<lambda>x. reopen_job x a r d)"
| "issue_step e d (UploadJobPhoto k f a) = fetch (jobs d) k (\<lambda>x. upload_job_photo e x f a d)"

fun job_edge :: "job_status \<Rightarrow> job_status \<Rightarrow> bool" where
  "job_edge JB_OPEN b = (b = JB_ASSIGNED)"
| "job_edge JB_ASSIGNED b = (b \<in> {JB_IN_PROGRESS, JB_COMPLETED})"
| "job_edge JB_IN_PROGRESS b = (b = JB_COMPLETED)"
| "job_edge JB_COMPLETED b = (b \<in> {JB_VERIFIED, JB_REOPENED})"
| "job_edge JB_VERIFIED b = (b \<in> {JB_CLOSED, JB_REOPENED})"
| "job_edge JB_CLOSED b = (b = JB_REOPENED)"
| "job_edge JB_REOPENED b = (b = JB_ASSIGNED)"

fun issue_edge :: "issue_status \<Rightarrow> issue_status \<Rightarrow> bool" where
  "issue_edge IS_CLOSED b = False"
| "issue_edge IS_OPEN b = (b \<in> {IS_UNDER_REVIEW, IS_ASSIGNED, IS_CLOSED})"
| "issue_edge IS_REOPENED b = (b \<in> {IS_UNDER_REVIEW, IS_ASSIGNED, IS_CLOSED})"
| "issue_edge IS_UNDER_REVIEW b = (b \<in> {IS_ASSIGNED, IS_CLOSED})"
| "issue_edge _ b = (b = IS_CLOSED)"

definition upload_ok :: "env \<Rightarrow> upload \<Rightarrow> bool" where
  "upload_ok e f \<longleftrightarrow> file_extension (up_name f) \<in> set (allowed_file_extensions e) \<and> up_size f \<le> max_upload_bytes e"

text \<open>
  What the stamps of a job say of its status, and that a stored photo passed validation; where
  photos are required, a completed job has one.
\<close>

definition job_ok :: "env \<Rightarrow> job \<Rightarrow> bool" where
  "job_ok e j \<longleftrightarrow>
     (jb_completed_at j \<noteq> None \<longleftrightarrow> jb_status j \<in> {JB_COMPLETED, JB_VERIFIED, JB_CLOSED}) \<and>
     (jb_verified_by j \<noteq> None \<longleftrightarrow> jb_status j \<in> {JB_VERIFIED, JB_CLOSED}) \<and>
     (jb_verified_at j \<noteq> None \<longleftrightarrow> jb_status j \<in> {JB_VERIFIED, JB_CLOSED}) \<and>
     (jb_closed_at j \<noteq> None \<longleftrightarrow> jb_status j = JB_CLOSED) \<and>
     (JOB_COMPLETION_PHOTO_REQUIRED e \<and> jb_status j \<in> {JB_COMPLETED, JB_VERIFIED, JB_CLOSED} \<longrightarrow> jb_file j \<noteq> None) \<and>
     (case jb_file j of None \<Rightarrow> True | Some f \<Rightarrow> upload_ok e f)"

definition issue_ok :: "issue \<Rightarrow> bool" where
  "issue_ok i \<longleftrightarrow> (is_closed_at i \<noteq> None \<longleftrightarrow> is_status i = IS_CLOSED) \<and>
     (is_is_escalated i \<longleftrightarrow> 0 < is_escalation_level i) \<and> is_escalation_level i \<le> 32767"

definition issue_inv :: "env \<Rightarrow> db \<Rightarrow> bool" where
  "issue_inv e d \<longleftrightarrow> tbl_wf (jobs d) \<and> tbl_wf (issues d) \<and> tbl_all (job_ok e) (jobs d) \<and> tbl_all issue_ok (issues d)"

subsection \<open>How the two tables move\<close>

definition jobs_move :: "env \<Rightarrow> job table \<Rightarrow> job table \<Rightarrow> bool" where
  "jobs_move e t t' \<longleftrightarrow> tbl_wf t' \<and> tbl_all (job_ok e) t' \<and>
     (\<forall>k j. tbl_get t k = Some j \<longrightarrow>
        (\<exists>j'. tbl_get t' k = Some j' \<and> (jb_status j' = jb_status j \<or> job_edge (jb_status j) (jb_status j'))))"

definition issues_move :: "issue table \<Rightarrow> issue table \<Rightarrow> bool" where
  "issues_move t t' \<longleftrightarrow> tbl_wf t' \<and> tbl_all issue_ok t' \<and>
     (\<forall>k i. tbl_get t k = Some i \<longrightarrow>
        (\<exists>i'. tbl_get t' k = Some i' \<and> (is_status i' = is_status i \<or> issue_edge (is_status i) (is_status i')) \<and>
           is_escalation_level i \<le> is_escalation_level i'))"

text \<open>An issue that becomes closed has jobs, and all of them are closed.\<close>

definition closes_properly :: "db \<Rightarrow> db \<Rightarrow> bool" where
  "closes_properly d d' \<longleftrightarrow> (\<forall>k i i'. tbl_get (issues d) k = Some i \<longrightarrow> tbl_get (issues d') k = Some i' \<longrightarrow>
     is_status i \<noteq> IS_CLOSED \<longrightarrow> is_status i' = IS_CLOSED \<longrightarrow>
     jobs_of d' k \<noteq> [] \<and> list_all (\<lambda>(_, j). jb_status j = JB_CLOSED) (jobs_of d' k))"

definition issue_result :: "env \<Rightarrow> db \<Rightarrow> db \<Rightarrow> bool" where
  "issue_result e d d' \<longleftrightarrow> jobs_move e (jobs d) (jobs d') \<and> issues_move (issues d) (issues d') \<and>
     closes_properly d d' \<and> (\<exists>l. l \<noteq> [] \<and> audits d' = audits d @ l)"

lemma jobs_move_refl: "issue_inv e d \<Longrightarrow> jobs_move e (jobs d) (jobs d)"
  by (auto simp: jobs_move_def issue_inv_def)

lemma issues_move_refl: "issue_inv e d \<Longrightarrow> issues_move (issues d) (issues d)"
  by (auto simp: issues_move_def issue_inv_def)

lemma jobs_move_put:
  assumes "issue_inv e d" and "tbl_get (jobs d) k = Some j" and "job_ok e j'"
    and "jb_status j' = jb_status j \<or> job_edge (jb_status j) (jb_status j')"
  shows "jobs_move e (jobs d) (tbl_put k j' (jobs d))"
  using assms by (auto simp: jobs_move_def issue_inv_def tbl_get_put intro: tbl_all_put)

lemma jobs_move_insert:
  assumes "issue_inv e d" and "job_ok e j"
  shows "jobs_move e (jobs d) (tbl_insert j (jobs d))"
  using assms tbl_get_fresh [of "jobs d"]
  by (auto simp: jobs_move_def issue_inv_def tbl_get_insert intro!: tbl_all_insert)

lemma issues_move_insert:
  assumes "issue_inv e d" and "issue_ok i"
  shows "issues_move (issues d) (tbl_insert i (issues d))"
  using assms tbl_get_fresh [of "issues d"]
  by (auto simp: issues_move_def issue_inv_def tbl_get_insert intro!: tbl_all_insert)

lemma issues_move_put:
  assumes "issue_inv e d" and "tbl_get (issues d) k = Some i" and "issue_ok i'"
    and "is_status i' = is_status i \<or> issue_edge (is_status i) (is_status i')"
    and "is_escalation_level i \<le> is_escalation_level i'"
  shows "issues_move (issues d) (tbl_put k i' (issues d))"
  using assms by (auto simp: issues_move_def issue_inv_def tbl_get_put intro: tbl_all_put)

lemma save_job_Inr [res_simps]:
  "save_job k j d = Inr d' \<longleftrightarrow> length (jb_job_title j) \<le> 200 \<and> length (jb_original_filename j) \<le> 255 \<and>
     length (jb_content_type j) \<le> 127 \<and> d' = d\<lparr>jobs := tbl_put k j (jobs d)\<rparr>"
  by (auto simp: save_job_def)

lemma save_issue_Inr [res_simps]:
  "save_issue k i d = Inr d' \<longleftrightarrow> length (is_title i) \<le> 200 \<and> is_escalation_level i \<le> 32767 \<and>
     d' = d\<lparr>issues := tbl_put k i (issues d)\<rparr>"
  by (auto simp: save_issue_def)

lemma audit_job_frame [simp]:
  "jobs (audit_job a k x y u d) = jobs d" "issues (audit_job a k x y u d) = issues d"
  "audits (audit_job a k x y u d) = audits d @ [\<lparr>au_user = Some (u_pk u), au_action = a,
     au_model_name = ''site_management.job'', au_object_id = str_nat k, au_before_data = Some (SnapJob x),
     au_after_data = Some (SnapJob y)\<rparr>]"
  by (simp_all add: audit_job_def)

lemma emit_job_frame [simp]:
  "jobs (emit_job t k j u d) = jobs d" "issues (emit_job t k j u d) = issues d"
  "audits (emit_job t k j u d) = audits d"
  by (simp_all add: emit_job_def)

text \<open>A write of the columns of one issue.\<close>

lemma issues_move_update:
  assumes "tbl_wf (issues d)" and "tbl_all issue_ok (issues d)" and "tbl_get (issues d) k = Some i"
    and "issue_ok (f i)" and "is_status (f i) = is_status i \<or> issue_edge (is_status i) (is_status (f i))"
    and "is_escalation_level i \<le> is_escalation_level (f i)"
  shows "issues_move (issues d) (tbl_update_where (\<lambda>j _. j = k) f (issues d))"
  using assms by (auto simp: issues_move_def tbl_get_update_where tbl_wf_update_where tbl_all_def split: if_splits)

text \<open>What the services do with the issue of a job leaves the jobs alone.\<close>

definition issue_part :: "db \<Rightarrow> db \<Rightarrow> bool" where
  "issue_part d d' \<longleftrightarrow> jobs d' = jobs d \<and> issues_move (issues d) (issues d') \<and> closes_properly d d' \<and>
     (\<exists>l. audits d' = audits d @ l)"

lemma closes_properly_same: "issues d' = issues d \<Longrightarrow> closes_properly d d'"
  by (simp add: closes_properly_def)

lemma issue_part_refl: "tbl_wf (issues d) \<Longrightarrow> tbl_all issue_ok (issues d) \<Longrightarrow> issue_part d d"
  by (auto simp: issue_part_def issues_move_def closes_properly_def)

lemma set_issue_assigned_part:
  assumes ok: "tbl_wf (issues d)" "tbl_all issue_ok (issues d)" and i: "tbl_get (issues d) k = Some i"
  shows "issue_part d (set_issue_assigned (k, i) u d)"
proof (cases "is_status i \<in> {IS_OPEN, IS_UNDER_REVIEW, IS_REOPENED}")
  case False
  then show ?thesis using issue_part_refl [OF ok] by (simp add: set_issue_assigned_def)
next
  case True
  define f :: "issue \<Rightarrow> issue" where "f = (\<lambda>r. r\<lparr>is_status := IS_ASSIGNED, is_updated_by := Some (u_pk u)\<rparr>)"
  let ?d = "set_issue_assigned (k, i) u d"
  have d': "issues ?d = tbl_update_where (\<lambda>j _. j = k) f (issues d)" "jobs ?d = jobs d"
    "\<exists>l. audits ?d = audits d @ l"
    using True by (simp_all add: set_issue_assigned_def Let_def f_def)
  have "issues_move (issues d) (issues ?d)"
    unfolding d' by (rule issues_move_update [OF ok i])
      (use True tbl_allD [OF ok(2) i] in \<open>auto simp: f_def issue_ok_def\<close>)
  moreover have "closes_properly d ?d"
    using i by (auto simp: closes_properly_def d' tbl_get_update_where f_def)
  ultimately show ?thesis using d' by (simp add: issue_part_def)
qed

lemma close_issue_part:
  assumes ok: "tbl_wf (issues d)" "tbl_all issue_ok (issues d)" and i: "tbl_get (issues d) k = Some i"
  shows "issue_part d (close_issue_if_all_jobs_closed e (k, i) u d)"
proof (cases "is_status i \<noteq> IS_CLOSED \<and> jobs_of d k \<noteq> [] \<and> list_all (\<lambda>(_, j). jb_status j = JB_CLOSED) (jobs_of d k)")
  case False
  then show ?thesis
    using issue_part_refl [OF ok] by (auto simp: close_issue_if_all_jobs_closed_def Let_def)
next
  case True
  define f :: "issue \<Rightarrow> issue" where "f = (\<lambda>r. r\<lparr>is_status := IS_CLOSED, is_closed_at := Some (now e),
     is_updated_by := Some (u_pk u)\<rparr>)"
  let ?d = "close_issue_if_all_jobs_closed e (k, i) u d"
  have d': "issues ?d = tbl_update_where (\<lambda>j _. j = k) f (issues d)" "jobs ?d = jobs d"
    "\<exists>l. audits ?d = audits d @ l"
    using True by (simp_all add: close_issue_if_all_jobs_closed_def Let_def f_def)
  have "issues_move (issues d) (issues ?d)"
    unfolding d'
  proof (rule issues_move_update [OF ok i])
    show "issue_ok (f i)" using tbl_allD [OF ok(2) i] by (simp add: f_def issue_ok_def)
    show "is_status (f i) = is_status i \<or> issue_edge (is_status i) (is_status (f i))"
      using True by (cases "is_status i") (auto simp: f_def)
  qed (simp add: f_def)
  moreover have "closes_properly d ?d"
    using i True d'(2) by (auto simp: closes_properly_def d'(1) tbl_get_update_where jobs_of_def)
  ultimately show ?thesis using d' by (simp add: issue_part_def)
qed

lemma with_issue_part:
  assumes ok: "tbl_wf (issues d)" "tbl_all issue_ok (issues d)"
  shows "issue_part d (with_issue j (\<lambda>i. set_issue_assigned i u) d)"
    "issue_part d (with_issue j (\<lambda>i. close_issue_if_all_jobs_closed e i u) d)"
  using set_issue_assigned_part [OF ok] close_issue_part [OF ok] issue_part_refl [OF ok]
  by (auto simp: with_issue_def split: option.split)

text \<open>The shape of a job service: one job row is written and audited, then the issue follows.\<close>

lemma job_write_result:
  assumes inv: "issue_inv e d" and mv: "jobs_move e (jobs d) (jobs d1)"
    and d1: "issues d1 = issues d" "\<exists>l. l \<noteq> [] \<and> audits d1 = audits d @ l"
    and part: "issue_part d1 d'"
  shows "issue_result e d d'"
  using assms by (auto simp: issue_result_def issue_part_def closes_properly_def)

lemma issue_write_result:
  assumes inv: "issue_inv e d" and mv: "issues_move (issues d) (issues d')"
    and d': "jobs d' = jobs d" "\<exists>l. l \<noteq> [] \<and> audits d' = audits d @ l"
    and open_still: "\<And>k i i'. tbl_get (issues d) k = Some i \<Longrightarrow> tbl_get (issues d') k = Some i' \<Longrightarrow>
      is_status i' = IS_CLOSED \<Longrightarrow> is_status i = IS_CLOSED"
  shows "issue_result e d d'"
  using mv d' open_still jobs_move_refl [OF inv] by (auto simp: issue_result_def closes_properly_def)

lemma issue_invD:
  assumes "issue_inv e d"
  shows "tbl_wf (issues d)" "tbl_all issue_ok (issues d)" "tbl_get (jobs d) k = Some j \<Longrightarrow> job_ok e j"
    "tbl_get (issues d) k = Some i \<Longrightarrow> issue_ok i"
  using assms by (auto simp: issue_inv_def dest: tbl_allD)

subsection \<open>The issue services\<close>

lemma create_issue_result:
  assumes inv: "issue_inv e d"
    and ok: "create_issue t s r u des src c p ar cl ins dd d = Inr (k, d')"
  shows "issue_result e d d'"
proof -
  obtain i where i: "issues d' = tbl_insert i (issues d)" "issue_ok i" "is_status i = IS_OPEN" "jobs d' = jobs d"
      "\<exists>l. l \<noteq> [] \<and> audits d' = audits d @ l"
    using ok by (auto simp: create_issue_def Let_def res_simps issue_ok_def)
  show ?thesis
    by (rule issue_write_result [OF inv _ i(4,5)])
      (use i issues_move_insert [OF inv i(2)] issue_invD(1) [OF inv] in \<open>auto simp: tbl_get_insert split: if_splits\<close>)
qed

lemma issue_put_result:
  assumes inv: "issue_inv e d" and i: "tbl_get (issues d) k = Some i"
    and d': "issues d' = tbl_put k i' (issues d)" "jobs d' = jobs d" "\<exists>l. l \<noteq> [] \<and> audits d' = audits d @ l"
    and i': "issue_ok i'" "is_status i' = is_status i \<or> issue_edge (is_status i) (is_status i')"
      "is_escalation_level i \<le> is_escalation_level i'" "is_status i' = IS_CLOSED \<Longrightarrow> is_status i = IS_CLOSED"
  shows "issue_result e d d'"
  by (rule issue_write_result [OF inv _ d'(2,3)])
    (use i i' issues_move_put [OF inv i i'(1-3)] in \<open>auto simp: d'(1) tbl_get_put split: if_splits\<close>)

lemma update_issue_result:
  assumes inv: "issue_inv e d" and i: "tbl_get (issues d) k = Some i"
    and ok: "update_issue (k, i) u t des c p ar cl dd d = Inr d'"
  shows "issue_result e d d'"
proof -
  obtain i' where "issues d' = tbl_put k i' (issues d)" "jobs d' = jobs d" "\<exists>l. l \<noteq> [] \<and> audits d' = audits d @ l"
    "issue_ok i'" "is_status i' = is_status i" "is_escalation_level i' = is_escalation_level i"
    using ok issue_invD(4) [OF inv i] by (auto simp: update_issue_def Let_def res_simps issue_ok_def)
  then show ?thesis by (intro issue_put_result [OF inv i, where i' = i']) auto
qed

lemma review_issue_result:
  assumes inv: "issue_inv e d" and i: "tbl_get (issues d) k = Some i" and ok: "review_issue (k, i) u n d = Inr d'"
  shows "issue_result e d d'"
proof -
  obtain i' where "issues d' = tbl_put k i' (issues d)" "jobs d' = jobs d" "\<exists>l. l \<noteq> [] \<and> audits d' = audits d @ l"
    "issue_ok i'" "is_status i' = IS_UNDER_REVIEW" "issue_edge (is_status i) IS_UNDER_REVIEW"
    "is_escalation_level i' = is_escalation_level i"
    using ok issue_invD(4) [OF inv i] by (auto simp: review_issue_def Let_def res_simps issue_ok_def)
  then show ?thesis by (intro issue_put_result [OF inv i, where i' = i']) auto
qed

lemma escalate_issue_Inr:
  assumes "escalate_issue (k, i) u r d = Inr d'"
  obtains i' where "issues d' = tbl_put k i' (issues d)" "jobs d' = jobs d" "\<exists>l. l \<noteq> [] \<and> audits d' = audits d @ l"
    "is_status i' = is_status i" "is_closed_at i' = is_closed_at i" "is_status i \<noteq> IS_CLOSED" "strip r \<noteq> []"
    "is_escalation_level i' = Suc (is_escalation_level i)" "is_is_escalated i'" "Suc (is_escalation_level i) \<le> 32767"
  using assms by (auto simp: escalate_issue_def Let_def res_simps issue_is_terminal_def)

lemma escalate_issue_result:
  assumes inv: "issue_inv e d" and i: "tbl_get (issues d) k = Some i" and ok: "escalate_issue (k, i) u r d = Inr d'"
  shows "issue_result e d d'"
proof -
  obtain i' where "issues d' = tbl_put k i' (issues d)" "jobs d' = jobs d" "\<exists>l. l \<noteq> [] \<and> audits d' = audits d @ l"
    "is_status i' = is_status i" "is_closed_at i' = is_closed_at i"
    "is_escalation_level i' = Suc (is_escalation_level i)" "is_is_escalated i'" "Suc (is_escalation_level i) \<le> 32767"
    by (rule escalate_issue_Inr [OF ok])
  moreover from this have "issue_ok i'" using issue_invD(4) [OF inv i] by (auto simp: issue_ok_def)
  ultimately show ?thesis by (intro issue_put_result [OF inv i, where i' = i']) auto
qed

subsection \<open>The job services\<close>

lemma transition_Inr:
  assumes "transition k j s u em n d = Inr (j', d')"
  obtains "j' = j\<lparr>jb_status := s,
       jb_completion_notes := (if n \<noteq> [] then append_line (jb_completion_notes j) n else jb_completion_notes j),
       jb_updated_by := Some (u_pk u)\<rparr>"
    "jobs d' = tbl_put k j' (jobs d)" "issues d' = issues d" "\<exists>l. l \<noteq> [] \<and> audits d' = audits d @ l"
  using assms by (cases em) (auto simp: transition_def Let_def res_simps)

lemma job_put_result:
  assumes inv: "issue_inv e d" and j: "tbl_get (jobs d) k = Some j"
    and d1: "jobs d1 = tbl_put k j' (jobs d)" "issues d1 = issues d" "\<exists>l. l \<noteq> [] \<and> audits d1 = audits d @ l"
    and j': "job_ok e j'" "jb_status j' = jb_status j \<or> job_edge (jb_status j) (jb_status j')"
    and part: "issue_part d1 d'"
  shows "issue_result e d d'"
  by (rule job_write_result [OF inv _ d1(2,3) part]) (use jobs_move_put [OF inv j j'] d1 in simp)

lemma same_issue_part: "issue_inv e d \<Longrightarrow> issues d1 = issues d \<Longrightarrow> issue_part d1 d1"
  by (intro issue_part_refl) (simp_all add: issue_inv_def)

lemma issue_part_of:
  assumes "issue_inv e d" and "issues d1 = issues d"
  shows "issue_part d1 (with_issue j (\<lambda>i. set_issue_assigned i u) d1)"
    "issue_part d1 (with_issue j (\<lambda>i. close_issue_if_all_jobs_closed e' i u) d1)"
  using assms by (intro with_issue_part; simp add: issue_inv_def)+

lemma create_job_result:
  assumes inv: "issue_inv e d"
    and x: "\<And>i r. x = Some (i, r) \<Longrightarrow> tbl_get (issues d) i = Some r"
    and ok: "create_job e t s b u des x to_user to_cleaner dd p d = Inr (k, d')"
  shows "issue_result e d d'"
proof -
  define j where "j = \<lparr>jb_issue = map_option fst x, jb_job_title = t, jb_description = des, jb_site = s,
     jb_assigned_to_user = to_user, jb_assigned_to_cleaner = to_cleaner, jb_assigned_by = Some (u_pk b),
     jb_due_date = given dd (add_days 3 (sys_today e)), jb_priority = p, jb_status = JB_OPEN,
     jb_completion_notes = [], jb_file = None, jb_original_filename = [], jb_content_type = [],
     jb_size_bytes = 0, jb_completed_at = None, jb_verified_by = None, jb_verified_at = None,
     jb_closed_at = None, jb_created_by = Some (u_pk u), jb_updated_by = Some (u_pk u)\<rparr>"
  define d1 where "d1 = record_audit A_CREATE (Some (u_pk u)) ''site_management.job'' (tbl_next (jobs d)) None
     (Some (SnapJob j)) (d\<lparr>jobs := tbl_insert j (jobs d)\<rparr>)"
  obtain j2 d2 where tr: "(if to_user \<noteq> None \<or> to_cleaner \<noteq> None
       then transition (tbl_next (jobs d)) j JB_ASSIGNED u (Some ''JobAssigned'') [] d1 else Inr (j, d1)) = Inr (j2, d2)"
    and d': "d' = (case x of None \<Rightarrow> d2 | Some x \<Rightarrow> set_issue_assigned x u d2)"
    using ok by (auto simp: create_job_def Let_def rbind_Inr j_def d1_def split: if_splits)
  have jok: "job_ok e j" by (simp add: j_def job_ok_def)
  have wf: "tbl_wf (jobs d)" "tbl_wf (jobs d1)" using inv by (simp_all add: issue_inv_def d1_def)
  have d2: "issues d2 = issues d \<and> (\<exists>l. l \<noteq> [] \<and> audits d2 = audits d @ l) \<and> jobs_move e (jobs d) (jobs d2)"
  proof (cases "to_user \<noteq> None \<or> to_cleaner \<noteq> None")
    case False
    then have "d2 = d1" using tr by simp
    then show ?thesis using jobs_move_insert [OF inv jok] by (simp add: d1_def)
  next
    case True
    then have "transition (tbl_next (jobs d)) j JB_ASSIGNED u (Some ''JobAssigned'') [] d1 = Inr (j2, d2)"
      using tr by simp
    then show ?thesis
    proof (rule transition_Inr, goal_cases)
      case 1
      have ok2: "job_ok e j2" by (simp add: 1(1) j_def job_ok_def)
      have "jobs_move e (jobs d) (jobs d2)"
        using inv ok2 jok tbl_get_fresh [OF wf(1)]
        by (auto simp: jobs_move_def 1(2) d1_def issue_inv_def tbl_get_put tbl_get_insert
            intro!: tbl_all_put tbl_all_insert)
      then show ?case using 1(3,4) by (auto simp: d1_def)
    qed
  qed
  have part: "issue_part d2 d'"
  proof (cases x)
    case None
    then show ?thesis using same_issue_part [OF inv] d2 by (simp add: d')
  next
    case (Some a)
    have "tbl_get (issues d2) (fst a) = Some (snd a)" using x [of "fst a" "snd a"] d2 Some by simp
    with set_issue_assigned_part [of d2 "fst a" "snd a" u] show ?thesis
      using inv d2 Some by (simp add: d' issue_inv_def)
  qed
  show ?thesis by (rule job_write_result [OF inv _ _ _ part]) (use d2 in auto)
qed

lemma assign_job_result:
  assumes inv: "issue_inv e d" and j: "tbl_get (jobs d) k = Some j"
    and ok: "assign_job e (k, j) u to_user to_cleaner d = Inr d'"
  shows "issue_result e d d'"
proof -
  define j' where "j' = j\<lparr>jb_assigned_to_user := to_user, jb_assigned_to_cleaner := to_cleaner,
     jb_assigned_by := Some (u_pk u), jb_status := JB_ASSIGNED, jb_updated_by := Some (u_pk u)\<rparr>"
  define d1 where "d1 = publish_domain_event ''JobAssigned'' ''site_management.job'' k
     [(''assigned_to_user_id'', optional_json to_user), (''assigned_to_cleaner_id'', optional_json to_cleaner)]
     (Some (u_pk u)) (audit_job A_ASSIGN k j j' u (d\<lparr>jobs := tbl_put k j' (jobs d)\<rparr>))"
  have s: "jb_status j \<in> {JB_OPEN, JB_REOPENED}" and d': "d' = with_issue j' (\<lambda>i. set_issue_assigned i u) d1"
    using ok by (simp_all add: assign_job_def Let_def res_simps j'_def d1_def)
  have "job_ok e j'" using issue_invD(3) [OF inv j] s by (auto simp: job_ok_def j'_def)
  moreover have "job_edge (jb_status j) (jb_status j')" using s by (auto simp: j'_def)
  moreover have d1: "jobs d1 = tbl_put k j' (jobs d)" "issues d1 = issues d" "\<exists>l. l \<noteq> [] \<and> audits d1 = audits d @ l"
    by (simp_all add: d1_def)
  ultimately show ?thesis
    unfolding d' by (intro job_put_result [OF inv j d1] issue_part_of [OF inv d1(2)]) simp_all
qed

lemma start_job_result:
  assumes inv: "issue_inv e d" and j: "tbl_get (jobs d) k = Some j" and ok: "start_job (k, j) u d = Inr d'"
  shows "issue_result e d d'"
proof -
  have s: "jb_status j = JB_ASSIGNED" using ok by (auto simp: start_job_def res_simps)
  obtain j' d1 where tr: "transition k j JB_IN_PROGRESS u None [] d = Inr (j', d1)"
    and d': "d' = with_issue j' (\<lambda>i. set_issue_assigned i u) d1"
    using ok by (auto simp: start_job_def Let_def res_simps)
  show ?thesis
    using tr
  proof (rule transition_Inr, goal_cases)
    case 1
    have "job_ok e j'" using issue_invD(3) [OF inv j] s by (simp add: 1(1) job_ok_def)
    then show ?case
      unfolding d' by (intro job_put_result [OF inv j 1(2-4)] issue_part_of [OF inv 1(3)]) (simp_all add: 1(1) s)
  qed
qed

lemma validate_photo_Inr:
  assumes "validate_photo e photo = Inr x"
  shows "case photo of None \<Rightarrow> \<not> JOB_COMPLETION_PHOTO_REQUIRED e | Some f \<Rightarrow> upload_ok e f"
  using assms
  by (auto simp: validate_photo_def validate_file_extension_def validate_file_size_def upload_ok_def res_simps
      split: option.splits if_splits)

lemma complete_job_Inr:
  assumes "complete_job e (k, j) u n photo d = Inr d'"
  obtains j1 j' d1 where "jb_status j \<in> {JB_ASSIGNED, JB_IN_PROGRESS}" "validate_photo e photo = Inr ()"
    "j1 = (case photo of None \<Rightarrow> j | Some f \<Rightarrow> with_photo f j)\<lparr>jb_completed_at := Some (now e)\<rparr>"
    "transition k j1 JB_COMPLETED u (Some ''JobCompleted'') n d = Inr (j', d1)"
    "d' = with_issue j' (\<lambda>i. close_issue_if_all_jobs_closed e i u) d1"
  using assms by (auto simp: complete_job_def Let_def res_simps)

lemma with_photo_simps [simp]:
  "jb_status (with_photo f j) = jb_status j" "jb_file (with_photo f j) = Some f"
  "jb_verified_by (with_photo f j) = jb_verified_by j" "jb_verified_at (with_photo f j) = jb_verified_at j"
  "jb_closed_at (with_photo f j) = jb_closed_at j" "jb_completed_at (with_photo f j) = jb_completed_at j"
  "jb_issue (with_photo f j) = jb_issue j"
  by (simp_all add: with_photo_def)

lemma complete_job_result:
  assumes inv: "issue_inv e d" and j: "tbl_get (jobs d) k = Some j"
    and ok: "complete_job e (k, j) u n photo d = Inr d'"
  shows "issue_result e d d'"
  using ok
proof (rule complete_job_Inr, goal_cases)
  case c: (1 j1 j' d1)
  show ?case
    using c(4)
  proof (rule transition_Inr, goal_cases)
    case 1
    have "job_ok e j'"
      using issue_invD(3) [OF inv j] validate_photo_Inr [OF c(2)] c(1)
      by (cases photo) (auto simp: 1(1) c(3) job_ok_def)
    moreover have "job_edge (jb_status j) (jb_status j')" using c(1) by (auto simp: 1(1))
    ultimately show ?case
      unfolding c(5) by (intro job_put_result [OF inv j 1(2-4)] issue_part_of [OF inv 1(3)]) simp_all
  qed
qed

lemma verify_job_result:
  assumes inv: "issue_inv e d" and j: "tbl_get (jobs d) k = Some j" and ok: "verify_job e (k, j) u d = Inr d'"
  shows "issue_result e d d'"
proof -
  define j' where "j' = j\<lparr>jb_status := JB_VERIFIED, jb_verified_by := Some (u_pk u),
     jb_verified_at := Some (now e), jb_updated_by := Some (u_pk u)\<rparr>"
  have s: "jb_status j = JB_COMPLETED" and d': "jobs d' = tbl_put k j' (jobs d)" "issues d' = issues d"
      "\<exists>l. l \<noteq> [] \<and> audits d' = audits d @ l"
    using ok by (auto simp: verify_job_def Let_def res_simps j'_def)
  have "job_ok e j'" using issue_invD(3) [OF inv j] s by (simp add: job_ok_def j'_def)
  then show ?thesis
    by (intro job_put_result [OF inv j d'] same_issue_part [OF inv d'(2)]) (simp_all add: j'_def s)
qed

lemma close_job_result:
  assumes inv: "issue_inv e d" and j: "tbl_get (jobs d) k = Some j" and ok: "close_job e (k, j) u d = Inr d'"
  shows "issue_result e d d'"
proof -
  define j' where "j' = j\<lparr>jb_status := JB_CLOSED, jb_closed_at := Some (now e), jb_updated_by := Some (u_pk u)\<rparr>"
  define d1 where "d1 = audit_job A_STATUS_CHANGE k j j' u (d\<lparr>jobs := tbl_put k j' (jobs d)\<rparr>)"
  have s: "jb_status j = JB_VERIFIED" and d': "d' = with_issue j' (\<lambda>i. close_issue_if_all_jobs_closed e i u) d1"
    using ok by (simp_all add: close_job_def Let_def res_simps j'_def d1_def)
  have "job_ok e j'" using issue_invD(3) [OF inv j] s by (simp add: job_ok_def j'_def)
  moreover have d1: "jobs d1 = tbl_put k j' (jobs d)" "issues d1 = issues d" "\<exists>l. l \<noteq> [] \<and> audits d1 = audits d @ l"
    by (simp_all add: d1_def)
  ultimately show ?thesis
    unfolding d' by (intro job_put_result [OF inv j d1] issue_part_of [OF inv d1(2)]) (simp_all add: j'_def s)
qed

lemma reopen_job_result:
  assumes inv: "issue_inv e d" and j: "tbl_get (jobs d) k = Some j" and ok: "reopen_job (k, j) u r d = Inr d'"
  shows "issue_result e d d'"
proof -
  define j' where "j' = j\<lparr>jb_status := JB_REOPENED, jb_verified_by := None, jb_verified_at := None,
     jb_completed_at := None, jb_closed_at := None,
     jb_completion_notes := append_line (jb_completion_notes j) (''Reopened: '' @ r),
     jb_updated_by := Some (u_pk u)\<rparr>"
  have s: "jb_status j \<in> {JB_CLOSED, JB_COMPLETED, JB_VERIFIED}"
    using ok by (simp add: reopen_job_def Let_def res_simps)
  have d': "jobs d' = tbl_put k j' (jobs d)" "issues d' = issues d" "\<exists>l. l \<noteq> [] \<and> audits d' = audits d @ l"
    using ok by (auto simp: reopen_job_def Let_def res_simps j'_def)
  have "job_ok e j'" using issue_invD(3) [OF inv j] by (simp add: job_ok_def j'_def)
  moreover have "job_edge (jb_status j) (jb_status j')" using s by (auto simp: j'_def)
  ultimately show ?thesis by (intro job_put_result [OF inv j d'] same_issue_part [OF inv d'(2)]) simp_all
qed

lemma update_job_result:
  assumes inv: "issue_inv e d" and j: "tbl_get (jobs d) k = Some j"
    and ok: "update_job (k, j) u t des dd p d = Inr d'"
  shows "issue_result e d d'"
proof -
  define j' where "j' = j\<lparr>jb_job_title := given t (jb_job_title j), jb_description := given des (jb_description j),
     jb_due_date := given dd (jb_due_date j), jb_priority := given p (jb_priority j),
     jb_updated_by := Some (u_pk u)\<rparr>"
  have d': "jobs d' = tbl_put k j' (jobs d)" "issues d' = issues d" "\<exists>l. l \<noteq> [] \<and> audits d' = audits d @ l"
    using ok by (auto simp: update_job_def Let_def res_simps j'_def)
  have "job_ok e j'" using issue_invD(3) [OF inv j] by (simp add: job_ok_def j'_def)
  then show ?thesis
    by (intro job_put_result [OF inv j d'] same_issue_part [OF inv d'(2)]) (simp_all add: j'_def)
qed

lemma upload_job_photo_result:
  assumes inv: "issue_inv e d" and j: "tbl_get (jobs d) k = Some j"
    and ok: "upload_job_photo e (k, j) f u d = Inr d'"
  shows "issue_result e d d'"
proof -
  define j' where "j' = (with_photo f j)\<lparr>jb_updated_by := Some (u_pk u)\<rparr>"
  have d': "jobs d' = tbl_put k j' (jobs d)" "issues d' = issues d" "\<exists>l. l \<noteq> [] \<and> audits d' = audits d @ l"
      "upload_ok e f"
    using ok by (auto simp: upload_job_photo_def Let_def res_simps j'_def validate_file_extension_def
        validate_file_size_def upload_ok_def)
  have "job_ok e j'" using issue_invD(3) [OF inv j] d'(4) by (simp add: job_ok_def j'_def)
  then show ?thesis
    by (intro job_put_result [OF inv j d'(1-3)] same_issue_part [OF inv d'(2)]) (simp_all add: j'_def)
qed

section \<open>The system keeps its invariant\<close>

lemma issue_step_result:
  assumes inv: "issue_inv e d" and ok: "issue_step e d c = Inr d'"
  shows "issue_result e d d'"
proof (cases c)
  case CreateIssue
  then show ?thesis using ok create_issue_result [OF inv] by (auto simp: db_of_Inr)
next
  case UpdateIssue
  then show ?thesis using ok update_issue_result [OF inv] by (auto simp: fetch_Inr)
next
  case ReviewIssue
  then show ?thesis using ok review_issue_result [OF inv] by (auto simp: fetch_Inr)
next
  case EscalateIssue
  then show ?thesis using ok escalate_issue_result [OF inv] by (auto simp: fetch_Inr)
next
  case (CreateJob t s b a des i u c' dd p)
  show ?thesis
  proof (cases i)
    case None
    then obtain k where "create_job e t s b a des None u c' dd p d = Inr (k, d')"
      using ok CreateJob by (auto simp: fetch_optional_def db_of_Inr)
    then show ?thesis by (rule create_job_result [OF inv, rotated]) simp
  next
    case (Some j)
    then obtain k r where "tbl_get (issues d) j = Some r" "create_job e t s b a des (Some (j, r)) u c' dd p d = Inr (k, d')"
      using ok CreateJob by (auto simp: fetch_optional_def fetch_Inr db_of_Inr)
    then show ?thesis by (intro create_job_result [OF inv]) auto
  qed
next
  case (AssignJobFromIssue j a t des u c' dd p)
  then obtain r k where "tbl_get (issues d) j = Some r"
      "assign_job_from_issue e (j, r) a t des u c' dd p d = Inr (k, d')"
    using ok by (auto simp: fetch_Inr db_of_Inr)
  then show ?thesis
    unfolding assign_job_from_issue_def by (intro create_job_result [OF inv, rotated]) auto
next
  case UpdateJob
  then show ?thesis using ok update_job_result [OF inv] by (auto simp: fetch_Inr)
next
  case AssignJob
  then show ?thesis using ok assign_job_result [OF inv] by (auto simp: fetch_Inr)
next
  case StartJob
  then show ?thesis using ok start_job_result [OF inv] by (auto simp: fetch_Inr)
next
  case CompleteJob
  then show ?thesis using ok complete_job_result [OF inv] by (auto simp: fetch_Inr)
next
  case VerifyJob
  then show ?thesis using ok verify_job_result [OF inv] by (auto simp: fetch_Inr)
next
  case CloseJob
  then show ?thesis using ok close_job_result [OF inv] by (auto simp: fetch_Inr)
next
  case ReopenJob
  then show ?thesis using ok reopen_job_result [OF inv] by (auto simp: fetch_Inr)
next
  case UploadJobPhoto
  then show ?thesis using ok upload_job_photo_result [OF inv] by (auto simp: fetch_Inr)
qed

definition job_status_of :: "db \<Rightarrow> nat \<Rightarrow> job_status option" where
  "job_status_of d k = map_option jb_status (tbl_get (jobs d) k)"

definition issue_status_of :: "db \<Rightarrow> nat \<Rightarrow> issue_status option" where
  "issue_status_of d k = map_option is_status (tbl_get (issues d) k)"

lemma issue_step_inv: "issue_inv e d \<Longrightarrow> issue_step e d c = Inr d' \<Longrightarrow> issue_inv e d'"
  using issue_step_result [of e d c d']
  by (simp add: issue_result_def jobs_move_def issues_move_def issue_inv_def)

interpretation job: workflow "issue_step e" "issue_inv e" "\<lambda>d. job_status_of d k" job_edge for e k
proof unfold_locales
  fix d c d' a
  assume "issue_inv e d" "issue_step e d c = Inr d'" "job_status_of d k = Some a"
  then show "\<exists>b. job_status_of d' k = Some b \<and> (b = a \<or> job_edge a b)"
    using issue_step_result [of e d c d'] by (fastforce simp: issue_result_def jobs_move_def job_status_of_def)
qed (rule issue_step_inv)

interpretation issue: workflow "issue_step e" "issue_inv e" "\<lambda>d. issue_status_of d k" issue_edge for e k
proof unfold_locales
  fix d c d' a
  assume "issue_inv e d" "issue_step e d c = Inr d'" "issue_status_of d k = Some a"
  then show "\<exists>b. issue_status_of d' k = Some b \<and> (b = a \<or> issue_edge a b)"
    using issue_step_result [of e d c d'] by (fastforce simp: issue_result_def issues_move_def issue_status_of_def)
qed

interpretation issue_audit: audited_system "issue_step e" "issue_inv e" audits for e
  by unfold_locales (drule (1) issue_step_result, simp add: issue_result_def)

section \<open>Properties\<close>

lemma verification_needed:
  assumes "a \<notin> {JB_VERIFIED, JB_CLOSED}"
  shows "\<not> (\<lambda>x y. job_edge x y \<and> y \<noteq> JB_VERIFIED)\<^sup>*\<^sup>* a JB_CLOSED"
proof
  assume "(\<lambda>x y. job_edge x y \<and> y \<noteq> JB_VERIFIED)\<^sup>*\<^sup>* a JB_CLOSED"
  moreover have "y \<notin> {JB_VERIFIED, JB_CLOSED}" if "(\<lambda>x y. job_edge x y \<and> y \<noteq> JB_VERIFIED)\<^sup>*\<^sup>* a y" for y
    using that assms
  proof (induction rule: rtranclp_induct)
    case (step y z)
    then show ?case by (cases y) auto
  qed simp
  ultimately show False by blast
qed

text \<open>
  C3: no job is closed unverified. A job that is neither verified nor closed now and is closed
  after some calls was in status verified in between.
\<close>

theorem job_verified_before_closed:
  assumes "issue_inv e d" and "job_status_of d k = Some a" and "a \<notin> {JB_VERIFIED, JB_CLOSED}"
    and "job_status_of (run_calls (issue_step e) d cs) k = Some JB_CLOSED"
  shows "\<exists>t \<in> set (call_states (issue_step e) d cs). job_status_of t k = Some JB_VERIFIED"
  by (rule job.waypoint [OF assms(1,2,4) verification_needed [OF assms(3)]])

definition demo_admin :: user where
  "demo_admin = \<lparr>u_pk = 1, u_role = SYSTEM_ADMIN, u_is_superuser = True, u_is_active = True,
     u_perms = [''accounts.assign_job'', ''accounts.verify_job'']\<rparr>"

definition demo_issue :: issue where
  "demo_issue = \<lparr>is_title = ''Leak'', is_description = [], is_source = SRC_MANUAL, is_site = 1, is_area = None,
     is_cleaner = None, is_inspection = None, is_issue_category = CAT_OTHER, is_priority = PR_HIGH,
     is_status = IS_ASSIGNED, is_raised_by = None, is_assigned_to = None, is_due_date = None,
     is_resolved_at = None, is_closed_at = None, is_escalation_level = 0, is_is_escalated = False,
     is_created_by = None, is_updated_by = None\<rparr>"

definition demo_job :: job where
  "demo_job = \<lparr>jb_issue = Some 1, jb_job_title = ''Fix'', jb_description = [], jb_site = 1,
     jb_assigned_to_user = Some 1, jb_assigned_to_cleaner = None, jb_assigned_by = None,
     jb_due_date = Date 2025 6 12, jb_priority = PR_HIGH, jb_status = JB_ASSIGNED, jb_completion_notes = [],
     jb_file = None, jb_original_filename = [], jb_content_type = [], jb_size_bytes = 0,
     jb_completed_at = None, jb_verified_by = None, jb_verified_at = None, jb_closed_at = None,
     jb_created_by = None, jb_updated_by = None\<rparr>"

definition demo_issue_db :: db where
  "demo_issue_db = empty_db\<lparr>issues := \<lparr>tbl_rows = [(1, demo_issue)], tbl_next = 2\<rparr>,
     jobs := \<lparr>tbl_rows = [(1, demo_job)], tbl_next = 2\<rparr>\<rparr>"

definition demo_job_calls :: "issue_call list" where
  "demo_job_calls = [CompleteJob 1 demo_admin [] None, CloseJob 1 demo_admin, VerifyJob 1 demo_admin,
     CloseJob 1 demo_admin]"

lemma demo_issue_inv: "issue_inv default_env demo_issue_db"
  by (simp add: issue_inv_def demo_issue_db_def tbl_wf_def tbl_all_def tbl_get_def job_ok_def issue_ok_def
      demo_issue_def demo_job_def default_env_def)

lemma demo_job_run:
  "job_status_of (run_calls (issue_step default_env) demo_issue_db demo_job_calls) 1 = Some JB_CLOSED"
  by code_simp

theorem job_verified_before_closed_witness:
  "\<exists>t \<in> set (call_states (issue_step default_env) demo_issue_db demo_job_calls). job_status_of t 1 = Some JB_VERIFIED"
  by (rule job_verified_before_closed [OF demo_issue_inv _ _ demo_job_run, of JB_ASSIGNED])
    (simp_all add: job_status_of_def demo_issue_db_def tbl_get_def demo_job_def)

text \<open>
  What the row of a closed job proves. Whatever calls were made, a closed job is stamped
  completed, verified (by whom and when) and closed; a photo it holds passed the extension and
  size checks, and where photos are required it holds one.
\<close>

theorem closed_job_record:
  assumes "issue_inv e d" and "tbl_get (jobs (run_calls (issue_step e) d cs)) k = Some j"
    and "jb_status j = JB_CLOSED"
  shows "jb_completed_at j \<noteq> None \<and> jb_verified_by j \<noteq> None \<and> jb_verified_at j \<noteq> None \<and> jb_closed_at j \<noteq> None \<and>
    (JOB_COMPLETION_PHOTO_REQUIRED e \<longrightarrow> jb_file j \<noteq> None) \<and>
    (\<forall>f. jb_file j = Some f \<longrightarrow>
       file_extension (up_name f) \<in> set (allowed_file_extensions e) \<and> up_size f \<le> max_upload_bytes e)"
proof -
  have "job_ok e j" using issue_invD(3) [OF job.run_inv [OF assms(1)] assms(2)] .
  then show ?thesis using assms(3) by (auto simp: job_ok_def upload_ok_def)
qed

theorem closed_job_record_witness:
  "\<exists>j. tbl_get (jobs (run_calls (issue_step default_env) demo_issue_db demo_job_calls)) 1 = Some j \<and>
     jb_verified_by j \<noteq> None"
proof -
  obtain j where j: "tbl_get (jobs (run_calls (issue_step default_env) demo_issue_db demo_job_calls)) 1 = Some j"
      "jb_status j = JB_CLOSED"
    using demo_job_run by (auto simp only: job_status_of_def map_option_eq_Some)
  from closed_job_record [OF demo_issue_inv j] j(1) show ?thesis by blast
qed

text \<open>
  C11: an issue is closed only by its jobs. When a call takes an issue from any other status to
  closed, the issue has jobs and all of them are closed; and a closed issue stays closed
  whatever is called afterwards.
\<close>

theorem issue_closes_with_its_jobs:
  assumes inv: "issue_inv e d" and ok: "issue_step e d c = Inr d'" and a: "issue_status_of d k = Some a" "a \<noteq> IS_CLOSED"
    and closed: "issue_status_of d' k = Some IS_CLOSED"
  shows "jobs_of d' k \<noteq> [] \<and> list_all (\<lambda>(_, j). jb_status j = JB_CLOSED) (jobs_of d' k) \<and>
    issue_status_of (run_calls (issue_step e) d' cs) k = Some IS_CLOSED"
proof -
  have r: "issue_result e d d'" by (rule issue_step_result [OF inv ok])
  then have "jobs_of d' k \<noteq> [] \<and> list_all (\<lambda>(_, j). jb_status j = JB_CLOSED) (jobs_of d' k)"
    using a closed by (auto simp: issue_result_def closes_properly_def issue_status_of_def)
  moreover have "issue_status_of (run_calls (issue_step e) d' cs) k = Some IS_CLOSED"
    by (rule issue.absorbing [OF issue_step_inv [OF inv ok] closed]) simp
  ultimately show ?thesis by blast
qed

definition demo_verified_db :: db where
  "demo_verified_db = demo_issue_db\<lparr>jobs := \<lparr>tbl_rows = [(1, demo_job\<lparr>jb_status := JB_VERIFIED,
     jb_completed_at := Some 1, jb_verified_by := Some 1, jb_verified_at := Some 1\<rparr>)], tbl_next = 2\<rparr>\<rparr>"

theorem issue_closes_with_its_jobs_witness:
  "\<exists>d'. issue_step default_env demo_verified_db (CloseJob 1 demo_admin) = Inr d' \<and> jobs_of d' 1 \<noteq> [] \<and>
     issue_status_of (run_calls (issue_step default_env) d' [ReopenJob 1 demo_admin ''leaks'']) 1 = Some IS_CLOSED"
proof -
  have inv: "issue_inv default_env demo_verified_db"
    by (simp add: issue_inv_def demo_verified_db_def demo_issue_db_def tbl_wf_def tbl_all_def tbl_get_def
        job_ok_def issue_ok_def demo_issue_def demo_job_def default_env_def)
  have "case issue_step default_env demo_verified_db (CloseJob 1 demo_admin) of Inl _ \<Rightarrow> False
     | Inr d' \<Rightarrow> issue_status_of d' 1 = Some IS_CLOSED" by code_simp
  then obtain d' where ok: "issue_step default_env demo_verified_db (CloseJob 1 demo_admin) = Inr d'"
      "issue_status_of d' 1 = Some IS_CLOSED" by (auto split: sum.splits)
  have "issue_status_of demo_verified_db 1 = Some IS_ASSIGNED"
    by (simp add: issue_status_of_def demo_verified_db_def demo_issue_db_def tbl_get_def demo_issue_def)
  from issue_closes_with_its_jobs [OF inv ok(1) this _ ok(2)] ok(1) show ?thesis by blast
qed

text \<open>
  Completing a job never closes its issue. The check made on completion looks at all jobs of
  the issue, among them the one just completed, which is not closed.
\<close>

theorem complete_job_leaves_issue:
  assumes wf: "tbl_wf (jobs d)" and j: "tbl_get (jobs d) k = Some j"
    and ok: "complete_job e (k, j) u n photo d = Inr d'"
  shows "issues d' = issues d \<and> job_status_of d' k = Some JB_COMPLETED"
  using ok
proof (rule complete_job_Inr, goal_cases)
  case c: (1 j1 j' d1)
  show ?case
    using c(4)
  proof (rule transition_Inr, goal_cases)
    case 1
    have s: "jb_status j' = JB_COMPLETED" by (simp add: 1(1))
    have in1: "(k, j') \<in> set (tbl_rows (jobs d1))"
      using wf j by (intro tbl_get_in) (simp add: 1(2) tbl_get_put)
    have "with_issue j' (\<lambda>i. close_issue_if_all_jobs_closed e i u) d1 = d1"
    proof (cases "jb_issue j'")
      case (Some i)
      then have "(k, j') \<in> set (jobs_of d1 i)" using in1 by (simp add: jobs_of_def)
      then have "\<not> list_all (\<lambda>(_, j). jb_status j = JB_CLOSED) (jobs_of d1 i)"
        using s by (auto simp: list_all_iff intro: bexI [of _ "(k, j')"])
      then show ?thesis
        using Some
        by (cases "tbl_get (issues d1) i") (simp_all add: with_issue_def close_issue_if_all_jobs_closed_def Let_def)
    qed (simp add: with_issue_def)
    then show ?thesis using 1(2,3) c(5) j s by (simp add: job_status_of_def tbl_get_put)
  qed
qed

theorem complete_job_leaves_issue_witness:
  "\<exists>d'. complete_job default_env (1, demo_job) demo_admin [] None demo_issue_db = Inr d' \<and>
     issues d' = issues demo_issue_db"
proof -
  have "\<not> isl (complete_job default_env (1, demo_job) demo_admin [] None demo_issue_db)" by code_simp
  then obtain d' where ok: "complete_job default_env (1, demo_job) demo_admin [] None demo_issue_db = Inr d'"
    by (metis isl_def sum.exhaust)
  have "tbl_wf (jobs demo_issue_db)" "tbl_get (jobs demo_issue_db) 1 = Some demo_job"
    by (simp_all add: demo_issue_db_def tbl_wf_def tbl_get_def)
  from complete_job_leaves_issue [OF this ok] ok show ?thesis by blast
qed

text \<open>
  Who may verify, and when. Without the permission to verify or without managing the job's
  site the call is forbidden whatever the job's status; with both, it succeeds exactly for a
  completed job, and then records the verifier.
\<close>

theorem verify_job_decision:
  assumes "length (jb_job_title j) \<le> 200" and "length (jb_original_filename j) \<le> 255"
    and "length (jb_content_type j) \<le> 127"
  shows "(verify_job e (k, j) u d = Inl Forbidden \<longleftrightarrow>
      \<not> (has_perm u ''accounts.verify_job'' \<and> manage_site e d u (Some (jb_site j)))) \<and>
    ((\<exists>d'. verify_job e (k, j) u d = Inr d') \<longleftrightarrow>
      has_perm u ''accounts.verify_job'' \<and> manage_site e d u (Some (jb_site j)) \<and> jb_status j = JB_COMPLETED) \<and>
    (verify_job e (k, j) u d = Inr d' \<longrightarrow> tbl_get (jobs d) k \<noteq> None \<longrightarrow>
      map_option jb_verified_by (tbl_get (jobs d') k) = Some (Some (u_pk u)))"
  using assms
  by (auto simp: verify_job_def Let_def can_verify_job_def ensure_def save_job_def tbl_get_put)

theorem verify_job_decision_witness:
  "verify_job default_env (1, demo_job\<lparr>jb_status := JB_COMPLETED\<rparr>) demo_viewer demo_issue_db = Inl Forbidden"
proof -
  have "length (jb_job_title (demo_job\<lparr>jb_status := JB_COMPLETED\<rparr>)) \<le> 200"
    "length (jb_original_filename (demo_job\<lparr>jb_status := JB_COMPLETED\<rparr>)) \<le> 255"
    "length (jb_content_type (demo_job\<lparr>jb_status := JB_COMPLETED\<rparr>)) \<le> 127" by (simp_all add: demo_job_def)
  from verify_job_decision [OF this] show ?thesis
    by (simp add: manage_site_def demo_viewer_def is_system_admin_def user_can_manage_site_def
        is_management_viewer_def)
qed

text \<open>
  Reopening a closed job does not reopen its issue: the issue is closed with a job in status
  reopened.
\<close>

theorem reopened_job_under_closed_issue:
  "case issue_step default_env demo_verified_db (CloseJob 1 demo_admin) of Inl _ \<Rightarrow> False
   | Inr d \<Rightarrow> (case issue_step default_env d (ReopenJob 1 demo_admin ''leaks'') of Inl _ \<Rightarrow> False
     | Inr d' \<Rightarrow> job_status_of d' 1 = Some JB_REOPENED \<and> issue_status_of d' 1 = Some IS_CLOSED)"
  by code_simp

end
