(* ===== verification/Attendance.thy ===== *)
theory Attendance
  imports Policies
begin

text \<open>
  Attendance (\<open>apps/site_management/attendance_services.py\<close>): generating a day's sheet, bulk and
  single entry, submission, review, return and locking. The two unique constraints of
  \<open>AttendanceRecord\<close> say together that cleaner, site, shift (or none) and date determine a
  record. A \<open>ValidationError\<close> raised without a code carries the empty one.
\<close>

section \<open>Rows and keys\<close>

type_synonym attendance_key = "nat \<times> nat \<times> nat option \<times> date"

definition attendance_key :: "attendance_record \<Rightarrow> attendance_key" where
  "attendance_key r = (ar_cleaner r, ar_site r, ar_shift r, ar_attendance_date r)"

definition is_editable :: "attendance_record \<Rightarrow> bool" where
  "is_editable r \<longleftrightarrow> ar_review_status r \<in> {RV_DRAFT, RV_RETURNED}"

text \<open>\<open>Site.objects\<close> hides archived sites.\<close>

definition active_site :: "db \<Rightarrow> nat \<Rightarrow> site option" where
  "active_site d k =
     (case tbl_get (sites d) k of None \<Rightarrow> None | Some s \<Rightarrow> if si_is_active s then Some s else None)"

definition require_attendance_review :: "env \<Rightarrow> db \<Rightarrow> user \<Rightarrow> nat \<Rightarrow> 'a res \<Rightarrow> 'a res" where
  "require_attendance_review e d u site_id k =
     ensure (active_site d site_id \<noteq> None \<and> can_review_attendance e d u site_id) k"

definition require_attendance_record :: "env \<Rightarrow> db \<Rightarrow> user \<Rightarrow> nat \<Rightarrow> 'a res \<Rightarrow> 'a res" where
  "require_attendance_record e d u site_id k =
     ensure (is_system_admin u \<or> user_can_manage_site e d u (Some site_id)) k"

section \<open>Generating a sheet\<close>

definition assignment_covers :: "date \<Rightarrow> cleaner_site_assignment \<Rightarrow> bool" where
  "assignment_covers day a \<longleftrightarrow> csa_start_date a \<le> day \<and>
     (case csa_end_date a of None \<Rightarrow> True | Some t \<Rightarrow> day \<le> t)"

definition live_assignments :: "db \<Rightarrow> nat \<Rightarrow> date \<Rightarrow> (nat \<times> cleaner_site_assignment) list" where
  "live_assignments d site day =
     tbl_where (\<lambda>_ a. csa_site a = site \<and> csa_status a = CA_ACTIVE \<and>
       (case tbl_get (cleaners d) (csa_cleaner a) of None \<Rightarrow> False | Some c \<Rightarrow> cl_status c = CL_ACTIVE) \<and>
       assignment_covers day a) (cleaner_assignments d)"

definition binding_covers :: "date \<Rightarrow> cleaner_shift_assignment \<Rightarrow> bool" where
  "binding_covers day b \<longleftrightarrow> cha_is_active b \<and> cha_effective_from b \<le> day \<and>
     (case cha_effective_to b of None \<Rightarrow> True | Some t \<Rightarrow> day \<le> t)"

definition scheduled_pairs :: "db \<Rightarrow> nat \<Rightarrow> site \<Rightarrow> date \<Rightarrow> nat option \<Rightarrow> (nat \<times> nat option) list" where
  "scheduled_pairs d site_id site day shift_id =
     (let assignments = live_assignments d site_id day;
          full_time = filter (\<lambda>(_, a). csa_assignment_type a = CT_FULL_TIME) assignments;
          shift = filter (\<lambda>(_, a). csa_assignment_type a = CT_SHIFT) assignments;
          bindings = tbl_where (\<lambda>_ b. cha_assignment b \<in> fst ` set shift \<and> binding_covers day b \<and>
            (truthy_id shift_id \<longrightarrow> Some (cha_shift b) = shift_id)) (cleaner_shifts d)
      in (if si_work_mode site \<noteq> WM_SHIFT then map (\<lambda>(_, a). (csa_cleaner a, None)) full_time else []) @
         (if si_work_mode site \<noteq> WM_FULL_TIME
          then map (\<lambda>(_, b). (csa_cleaner (the (tbl_get (cleaner_assignments d) (cha_assignment b))),
                 Some (cha_shift b))) bindings
          else []))"

definition day_records :: "db \<Rightarrow> nat \<Rightarrow> date \<Rightarrow> nat option \<Rightarrow> (nat \<times> attendance_record) list" where
  "day_records d site_id day shift_id =
     tbl_where (\<lambda>_ r. ar_site r = site_id \<and> ar_attendance_date r = day \<and>
       (truthy_id shift_id \<longrightarrow> ar_shift r = shift_id)) (attendance d)"

text \<open>\<open>bulk_create\<close>: rows are inserted one after the other under the unique constraints.\<close>

definition insert_attendance :: "attendance_record \<Rightarrow> db \<Rightarrow> db res" where
  "insert_attendance r d =
     (if tbl_exists (\<lambda>_ b. attendance_key b = attendance_key r) (attendance d) then Inl IntegrityError
      else Inr (d\<lparr>attendance := tbl_insert r (attendance d)\<rparr>))"

definition audit_site :: "audit_action \<Rightarrow> nat option \<Rightarrow> nat \<Rightarrow> db \<Rightarrow> db" where
  "audit_site action actor site_id d = record_audit action actor ''site_management.site'' site_id None None d"

definition new_record :: "nat \<Rightarrow> nat \<Rightarrow> nat option \<Rightarrow> date \<Rightarrow> nat option \<Rightarrow> attendance_record" where
  "new_record cleaner site shift day actor =
     \<lparr>ar_cleaner = cleaner, ar_site = site, ar_shift = shift, ar_attendance_date = day,
      ar_status = AT_SCHEDULED, ar_check_in_time = None, ar_check_out_time = None, ar_notes = [],
      ar_recorded_by = actor, ar_submitted_at = None, ar_review_status = RV_DRAFT,
      ar_return_reason = [], ar_created_by = actor, ar_updated_by = actor\<rparr>"

definition generate_daily_attendance_sheet ::
  "nat \<Rightarrow> date \<Rightarrow> nat option \<Rightarrow> user option \<Rightarrow> db \<Rightarrow> db res" where
  "generate_daily_attendance_sheet site_id day shift_id actor d =
     (case active_site d site_id of None \<Rightarrow> Inl (ValidationError [])
      | Some site \<Rightarrow>
          let pairs = scheduled_pairs d site_id site day shift_id;
              existing = map (\<lambda>(_, r). (ar_cleaner r, ar_shift r)) (day_records d site_id day shift_id);
              to_create = map (\<lambda>(c, s). new_record c site_id s day (map_option u_pk actor))
                (filter (\<lambda>p. p \<notin> set existing) pairs)
          in rbind (foldM insert_attendance to_create d) (\<lambda>d1.
               Inr (case actor of None \<Rightarrow> d1 | Some u \<Rightarrow> audit_site A_CREATE (Some (u_pk u)) site_id d1)))"

section \<open>Entry\<close>

record attendance_entry =
  en_record_id :: "nat option"
  en_cleaner_id :: "nat option"
  en_shift_id :: "nat option"
  en_status :: "attendance_status option"
  en_check_in_time :: "nat option"
  en_check_out_time :: "nat option"
  en_notes :: "string option"

definition validate_future :: "env \<Rightarrow> date \<Rightarrow> bool \<Rightarrow> unit res" where
  "validate_future e day allow_future =
     (if localdate e < day \<and> \<not> allow_future then Inl (ValidationError ''future_date'') else Inr ())"

definition validate_work_mode_entry :: "site \<Rightarrow> attendance_entry \<Rightarrow> unit res" where
  "validate_work_mode_entry site en =
     (if si_work_mode site = WM_FULL_TIME \<and> en_shift_id en \<noteq> None then Inl (ValidationError ''shift_not_allowed'')
      else if si_work_mode site = WM_SHIFT \<and> en_shift_id en = None then Inl (ValidationError ''shift_required'')
      else Inr ())"

definition filled :: "attendance_entry \<Rightarrow> user \<Rightarrow> attendance_record \<Rightarrow> attendance_record" where
  "filled en actor r = r\<lparr>ar_status := given (en_status en) AT_SCHEDULED,
     ar_check_in_time := en_check_in_time en, ar_check_out_time := en_check_out_time en,
     ar_notes := given (en_notes en) (ar_notes r), ar_recorded_by := Some (u_pk actor),
     ar_updated_by := Some (u_pk actor)\<rparr>"

text \<open>An entry resolves to an editable record, with its key, or to a new one without.\<close>

definition entry_record ::
  "nat \<Rightarrow> date \<Rightarrow> attendance_entry \<Rightarrow> user \<Rightarrow> db \<Rightarrow> (nat option \<times> attendance_record) res" where
  "entry_record site_id day en actor d =
     (if truthy_id (en_record_id en) then
        (case tbl_get (attendance d) (the (en_record_id en)) of None \<Rightarrow> Inl (ValidationError [])
         | Some r \<Rightarrow>
             if ar_site r \<noteq> site_id \<or> ar_attendance_date r \<noteq> day then Inl (ValidationError [])
             else if \<not> is_editable r then Inl (ValidationError ''not_editable'')
             else Inr (en_record_id en, filled en actor r))
      else if \<not> truthy_id (en_cleaner_id en) then Inl (ValidationError [])
      else if tbl_get (cleaners d) (the (en_cleaner_id en)) = None then Inl (ValidationError [])
      else
        (case tbl_where (\<lambda>_ r. attendance_key r = (the (en_cleaner_id en), site_id, en_shift_id en, day))
            (attendance d) of
           [] \<Rightarrow> Inr (None, filled en actor
                  (new_record (the (en_cleaner_id en)) site_id (en_shift_id en) day (Some (u_pk actor))))
         | (k, r) # _ \<Rightarrow>
             if \<not> is_editable r then Inl (ValidationError ''not_editable'')
             else Inr (Some k, filled en actor r)))"

fun entry_records ::
  "site \<Rightarrow> nat \<Rightarrow> date \<Rightarrow> user \<Rightarrow> db \<Rightarrow> attendance_entry list \<Rightarrow> (nat option \<times> attendance_record) list res" where
  "entry_records site site_id day actor d [] = Inr []"
| "entry_records site site_id day actor d (en # ens) =
     rbind (validate_work_mode_entry site en) (\<lambda>_.
     rbind (entry_record site_id day en actor d) (\<lambda>r.
     rbind (entry_records site site_id day actor d ens) (\<lambda>rs. Inr (r # rs))))"

text \<open>
  \<open>bulk_update\<close> writes the named columns; of two instances with the same key the first wins.
\<close>

definition entry_columns :: "attendance_record \<Rightarrow> attendance_record \<Rightarrow> attendance_record" where
  "entry_columns x r = r\<lparr>ar_status := ar_status x, ar_check_in_time := ar_check_in_time x,
     ar_check_out_time := ar_check_out_time x, ar_notes := ar_notes x,
     ar_recorded_by := ar_recorded_by x, ar_updated_by := ar_updated_by x\<rparr>"

definition bulk_update_entries :: "(nat \<times> attendance_record) list \<Rightarrow> db \<Rightarrow> db" where
  "bulk_update_entries xs d = d\<lparr>attendance := tbl_map (\<lambda>k r.
     case map_of xs k of None \<Rightarrow> r | Some x \<Rightarrow> entry_columns x r) (attendance d)\<rparr>"

definition bulk_upsert_attendance ::
  "env \<Rightarrow> nat \<Rightarrow> date \<Rightarrow> attendance_entry list \<Rightarrow> user \<Rightarrow> bool \<Rightarrow> db \<Rightarrow> db res" where
  "bulk_upsert_attendance e site_id day entries user allow_future d =
     rbind (validate_future e day allow_future) (\<lambda>_.
     case active_site d site_id of None \<Rightarrow> Inl (ValidationError [])
     | Some site \<Rightarrow>
         rbind (entry_records site site_id day user d entries) (\<lambda>rs.
           if rs = [] then Inr d
           else
             let fresh = map snd (filter (\<lambda>(k, _). k = None) rs);
                 old = map (\<lambda>(k, r). (the k, r)) (filter (\<lambda>(k, _). k \<noteq> None) rs)
             in rbind (foldM insert_attendance fresh d) (\<lambda>d1.
                  Inr (audit_site A_UPDATE (Some (u_pk user)) site_id (bulk_update_entries old d1)))))"

definition save_attendance_draft ::
  "env \<Rightarrow> nat \<Rightarrow> date \<Rightarrow> attendance_entry list \<Rightarrow> user \<Rightarrow> db \<Rightarrow> db res" where
  "save_attendance_draft e site_id day entries user d =
     bulk_upsert_attendance e site_id day entries user False d"

definition record_single_attendance ::
  "nat \<Rightarrow> attendance_status \<Rightarrow> user \<Rightarrow> nat option \<Rightarrow> nat option \<Rightarrow> string \<Rightarrow> db \<Rightarrow> db res" where
  "record_single_attendance k status user check_in check_out notes d =
     (case tbl_get (attendance d) k of None \<Rightarrow> Inl (ValidationError [])
      | Some r \<Rightarrow>
          if \<not> is_editable r then Inl (ValidationError ''not_editable'')
          else
            let r' = r\<lparr>ar_status := status, ar_check_in_time := check_in, ar_check_out_time := check_out,
                       ar_notes := (if notes \<noteq> [] then notes else ar_notes r),
                       ar_recorded_by := Some (u_pk user), ar_updated_by := Some (u_pk user)\<rparr>
            in Inr (record_audit A_UPDATE (Some (u_pk user)) ''site_management.attendancerecord'' k
                 (Some (SnapAttendance r)) (Some (SnapAttendance r'))
                 (d\<lparr>attendance := tbl_put k r' (attendance d)\<rparr>)))"

section \<open>Submission, review, return, lock\<close>

text \<open>The columns a group operation writes to the records it selected, by key.\<close>

definition update_records :: "nat list \<Rightarrow> (attendance_record \<Rightarrow> attendance_record) \<Rightarrow> db \<Rightarrow> db" where
  "update_records ks f d = d\<lparr>attendance := tbl_update_where (\<lambda>k _. k \<in> set ks) f (attendance d)\<rparr>"

definition submitted_event :: "nat \<Rightarrow> date \<Rightarrow> user \<Rightarrow> nat \<times> attendance_record \<Rightarrow> db \<Rightarrow> db" where
  "submitted_event site_id day user x d =
     publish_domain_event ''AttendanceSubmitted'' ''site_management.attendancerecord'' (fst x)
       [(''record_id'', JNat (fst x)), (''cleaner_id'', JNat (ar_cleaner (snd x))),
        (''site_id'', JNat site_id), (''attendance_date'', JDate day)] (Some (u_pk user)) d"

definition submit_daily_attendance ::
  "env \<Rightarrow> nat \<Rightarrow> date \<Rightarrow> user \<Rightarrow> nat option \<Rightarrow> db \<Rightarrow> (nat \<times> db) res" where
  "submit_daily_attendance e site_id day user shift_id d =
     require_attendance_record e d user site_id
       (let rs = day_records d site_id day shift_id in
        if rs = [] then Inl (ValidationError ''nothing_to_submit'')
        else if list_ex (\<lambda>(_, r). ar_status r = AT_SCHEDULED) rs
        then Inl (ValidationError ''scheduled_not_marked'')
        else Inr (length rs, fold (submitted_event site_id day user) rs
          (audit_site A_STATUS_CHANGE (Some (u_pk user)) site_id
            (update_records (map fst rs) (\<lambda>r. r\<lparr>ar_review_status := RV_SUBMITTED,
               ar_submitted_at := Some (now e), ar_updated_by := Some (u_pk user),
               ar_recorded_by := Some (u_pk user)\<rparr>) d))))"

definition return_attendance_record :: "nat \<times> attendance_record \<Rightarrow> user \<Rightarrow> string \<Rightarrow> db \<Rightarrow> db res" where
  "return_attendance_record x user reason d =
     (let k = fst x; r = snd x;
          f = (\<lambda>r. r\<lparr>ar_review_status := RV_RETURNED, ar_return_reason := reason,
                     ar_updated_by := Some (u_pk user)\<rparr>)
      in if ar_review_status r = RV_LOCKED then Inl (ValidationError ''locked'')
         else Inr (record_audit A_UPDATE (Some (u_pk user)) ''site_management.attendancerecord'' k
                (Some (SnapAttendance r)) (Some (SnapAttendance (f r))) (update_records [k] f d)))"

definition return_attendance_group ::
  "env \<Rightarrow> nat \<Rightarrow> date \<Rightarrow> user \<Rightarrow> string \<Rightarrow> nat option \<Rightarrow> db \<Rightarrow> (nat \<times> db) res" where
  "return_attendance_group e site_id day user reason shift_id d =
     require_attendance_review e d user site_id
       (let rs = filter (\<lambda>(_, r). ar_review_status r \<noteq> RV_LOCKED) (day_records d site_id day shift_id) in
        if rs = [] then Inl (ValidationError ''nothing_to_return'')
        else Inr (length rs, audit_site A_UPDATE (Some (u_pk user)) site_id
          (update_records (map fst rs) (\<lambda>r. r\<lparr>ar_review_status := RV_RETURNED,
             ar_return_reason := reason, ar_updated_by := Some (u_pk user)\<rparr>) d)))"

text \<open>
  \<open>lock_attendance_if_required\<close> runs outside any transaction of its own: when the audit fails
  (an archived site cannot be found, and \<open>record_audit\<close> raises \<open>ValueError\<close>), the rows stay
  locked. The result is the outcome and the database, whatever the outcome.
\<close>

definition lock_cutoff :: "env \<Rightarrow> date" where
  "lock_cutoff e = add_days (- ATTENDANCE_LOCK_AFTER_DAYS e) (localdate e)"

definition lockable :: "env \<Rightarrow> nat \<Rightarrow> nat option \<Rightarrow> attendance_record \<Rightarrow> bool" where
  "lockable e site_id shift_id r \<longleftrightarrow> ar_site r = site_id \<and> ar_attendance_date r \<le> lock_cutoff e \<and>
     ar_review_status r = RV_REVIEWED \<and> (truthy_id shift_id \<longrightarrow> ar_shift r = shift_id)"

definition lock_attendance_if_required ::
  "env \<Rightarrow> nat \<Rightarrow> nat option \<Rightarrow> user \<Rightarrow> db \<Rightarrow> nat res \<times> db" where
  "lock_attendance_if_required e site_id shift_id user d =
     (let n = length (tbl_where (\<lambda>_. lockable e site_id shift_id) (attendance d));
          d1 = d\<lparr>attendance := tbl_update_where (\<lambda>_. lockable e site_id shift_id)
                  (\<lambda>r. r\<lparr>ar_review_status := RV_LOCKED\<rparr>) (attendance d)\<rparr>
      in if n = 0 then (Inr 0, d)
         else if active_site d1 site_id = None then (Inl ValueError, d1)
         else (Inr n, audit_site A_UPDATE (Some (u_pk user)) site_id d1))"

text \<open>The transaction of a group review, and the service: the lock comes after the commit.\<close>

definition review_records ::
  "env \<Rightarrow> nat \<Rightarrow> date \<Rightarrow> user \<Rightarrow> nat option \<Rightarrow> db \<Rightarrow> (nat \<times> db) res" where
  "review_records e site_id day user shift_id d =
     require_attendance_review e d user site_id
       (let rs = filter (\<lambda>(_, r). ar_review_status r = RV_SUBMITTED) (day_records d site_id day shift_id) in
        if rs = [] then Inl (ValidationError ''nothing_to_review'')
        else Inr (length rs, audit_site A_UPDATE (Some (u_pk user)) site_id
          (update_records (map fst rs) (\<lambda>r. r\<lparr>ar_review_status := RV_REVIEWED,
             ar_updated_by := Some (u_pk user)\<rparr>) d)))"

definition review_attendance_group ::
  "env \<Rightarrow> nat \<Rightarrow> date \<Rightarrow> user \<Rightarrow> nat option \<Rightarrow> db \<Rightarrow> nat res \<times> db" where
  "review_attendance_group e site_id day user shift_id d =
     (case review_records e site_id day user shift_id d of Inl err \<Rightarrow> (Inl err, d)
      | Inr (n, d1) \<Rightarrow>
          (case lock_attendance_if_required e site_id shift_id user d1 of
             (Inl err, d2) \<Rightarrow> (Inl err, d2) | (Inr _, d2) \<Rightarrow> (Inr n, d2)))"

definition review_attendance_record :: "nat \<times> attendance_record \<Rightarrow> user \<Rightarrow> db \<Rightarrow> db res" where
  "review_attendance_record x user d =
     (let k = fst x; r = snd x;
          f = (\<lambda>r. r\<lparr>ar_review_status := RV_REVIEWED, ar_updated_by := Some (u_pk user)\<rparr>)
      in if ar_review_status r \<noteq> RV_SUBMITTED then Inl (ValidationError ''invalid_review'')
         else Inr (record_audit A_UPDATE (Some (u_pk user)) ''site_management.attendancerecord'' k None
                (Some (SnapAttendance (f r))) (update_records [k] f d)))"

section \<open>The services as one system\<close>

text \<open>
  Group review and locking commit what they wrote even when they end in an error, so their step
  is the database they leave.
\<close>

datatype attendance_call =
    GenerateSheet nat date "nat option" "user option"
  | BulkUpsert nat date "attendance_entry list" user bool
  | SaveDraft nat date "attendance_entry list" user
  | RecordSingle nat attendance_status user "nat option" "nat option" string
  | SubmitDay nat date user "nat option"
  | ReturnRecord nat user string
  | ReturnGroup nat date user string "nat option"
  | ReviewGroup nat date user "nat option"
  | ReviewRecord nat user
  | LockAttendance nat "nat option" user

fun attendance_step :: "env \<Rightarrow> db \<Rightarrow> attendance_call \<Rightarrow> db res" where
  "attendance_step e d (GenerateSheet s day sh a) = generate_daily_attendance_sheet s day sh a d"
| "attendance_step e d (BulkUpsert s day ens u fut) = bulk_upsert_attendance e s day ens u fut d"
| "attendance_step e d (SaveDraft s day ens u) = save_attendance_draft e s day ens u d"
| "attendance_step e d (RecordSingle k st u i out n) = record_single_attendance k st u i out n d"
| "attendance_step e d (SubmitDay s day u sh) = db_of (submit_daily_attendance e s day u sh d)"
| "attendance_step e d (ReturnRecord k u r) = fetch (attendance d) k (\<lambda>x. return_attendance_record x u r d)"
| "attendance_step e d (ReturnGroup s day u r sh) = db_of (return_attendance_group e s day u r sh d)"
| "attendance_step e d (ReviewGroup s day u sh) = Inr (snd (review_attendance_group e s day u sh d))"
| "attendance_step e d (ReviewRecord k u) = fetch (attendance d) k (\<lambda>x. review_attendance_record x u d)"
| "attendance_step e d (LockAttendance s sh u) = Inr (snd (lock_attendance_if_required e s sh u d))"

fun review_edge :: "attendance_review_status \<Rightarrow> attendance_review_status \<Rightarrow> bool" where
  "review_edge RV_DRAFT b = (b \<in> {RV_SUBMITTED, RV_RETURNED})"
| "review_edge RV_SUBMITTED b = (b \<in> {RV_REVIEWED, RV_RETURNED})"
| "review_edge RV_REVIEWED b = (b \<in> {RV_LOCKED, RV_RETURNED, RV_SUBMITTED})"
| "review_edge RV_RETURNED b = (b = RV_SUBMITTED)"
| "review_edge RV_LOCKED b = (b = RV_SUBMITTED)"

text \<open>A record under review has a mark and a submission time.\<close>

definition record_ok :: "attendance_record \<Rightarrow> bool" where
  "record_ok r \<longleftrightarrow> (ar_review_status r \<in> {RV_SUBMITTED, RV_REVIEWED, RV_LOCKED} \<longrightarrow>
     ar_status r \<noteq> AT_SCHEDULED \<and> ar_submitted_at r \<noteq> None)"

definition attendance_inv :: "db \<Rightarrow> bool" where
  "attendance_inv d \<longleftrightarrow> tbl_wf (attendance d) \<and> tbl_unique (\<lambda>_. True) attendance_key (attendance d) \<and>
     tbl_all record_ok (attendance d)"

text \<open>What the supervisor entered.\<close>

definition content :: "attendance_record \<Rightarrow> attendance_status \<times> nat option \<times> nat option \<times> string" where
  "content r = (ar_status r, ar_check_in_time r, ar_check_out_time r, ar_notes r)"

text \<open>
  How a call may change a record: its key stays, its review status follows the graph, and its
  content changes only while it is editable.
\<close>

definition record_moves :: "attendance_record \<Rightarrow> attendance_record \<Rightarrow> bool" where
  "record_moves r r' \<longleftrightarrow> attendance_key r' = attendance_key r \<and>
     review_edge\<^sup>*\<^sup>* (ar_review_status r) (ar_review_status r') \<and> (is_editable r \<or> content r' = content r)"

text \<open>Every row is kept, moved by \<open>R\<close>, and the invariant holds afterwards.\<close>

definition rows_moved :: "(attendance_record \<Rightarrow> attendance_record \<Rightarrow> bool) \<Rightarrow> db \<Rightarrow> db \<Rightarrow> bool" where
  "rows_moved R d d' \<longleftrightarrow> attendance_inv d' \<and>
     (\<forall>k r. tbl_get (attendance d) k = Some r \<longrightarrow> (\<exists>r'. tbl_get (attendance d') k = Some r' \<and> R r r'))"

definition reviewed_moves :: "attendance_record \<Rightarrow> attendance_record \<Rightarrow> bool" where
  "reviewed_moves r r' \<longleftrightarrow> record_moves r r' \<and> content r' = content r"

lemma record_moves_refl: "record_moves r r"
  by (simp add: record_moves_def)

lemma rows_moved_cong: "attendance d'' = attendance d' \<Longrightarrow> rows_moved R d d'' = rows_moved R d d'"
  by (simp add: rows_moved_def attendance_inv_def)

lemma rows_moved_refl: "attendance_inv d \<Longrightarrow> rows_moved record_moves d d"
  by (simp add: rows_moved_def record_moves_refl)

lemma reviewed_moves_trans: "reviewed_moves r s \<Longrightarrow> reviewed_moves s t \<Longrightarrow> reviewed_moves r t"
  by (auto simp: reviewed_moves_def record_moves_def)

lemma rows_moved_trans:
  assumes "rows_moved reviewed_moves d d1" and "rows_moved reviewed_moves d1 d2"
  shows "rows_moved reviewed_moves d d2"
  using assms unfolding rows_moved_def by (meson reviewed_moves_trans)

lemma reviewed_result: "rows_moved reviewed_moves d d' \<Longrightarrow> rows_moved record_moves d d'"
  unfolding rows_moved_def reviewed_moves_def by blast

text \<open>A write of each row on its own, and its special case, a write of selected rows.\<close>

lemma map_rows_moved:
  assumes inv: "attendance_inv d" and d': "attendance d' = tbl_map g (attendance d)"
    and step: "\<And>k r. tbl_get (attendance d) k = Some r \<Longrightarrow> R r (g k r) \<and>
        attendance_key (g k r) = attendance_key r \<and> record_ok (g k r)"
  shows "rows_moved R d d'"
proof -
  have wf: "tbl_wf (attendance d')" using inv by (simp add: attendance_inv_def d')
  have get: "tbl_get (attendance d') k = map_option (g k) (tbl_get (attendance d) k)" for k
    by (simp add: d' tbl_get_map)
  have "tbl_unique (\<lambda>_. True) attendance_key (attendance d')"
  proof (rule tbl_unique_via [of "\<lambda>_. True" attendance_key "attendance d"])
    show "tbl_unique (\<lambda>_. True) attendance_key (attendance d)" using inv by (simp add: attendance_inv_def)
    fix k r' assume "tbl_get (attendance d') k = Some r'"
    then obtain r where "tbl_get (attendance d) k = Some r" "r' = g k r" by (auto simp: get)
    with step show "\<exists>b. tbl_get (attendance d) k = Some b \<and> True \<and> attendance_key b = attendance_key r'" by auto
  qed
  moreover have "tbl_all record_ok (attendance d')" using step by (auto simp: tbl_all_def get)
  ultimately show ?thesis using wf step by (simp add: rows_moved_def attendance_inv_def get)
qed

lemma update_where_moved:
  assumes "attendance_inv d" and "attendance d' = tbl_update_where P f (attendance d)"
    and "\<And>k r. tbl_get (attendance d) k = Some r \<Longrightarrow> P k r \<Longrightarrow> R r (f r) \<and>
        attendance_key (f r) = attendance_key r \<and> record_ok (f r)"
    and "\<And>r. R r r"
  shows "rows_moved R d d'"
proof (rule map_rows_moved [OF assms(1), where g = "\<lambda>k r. if P k r then f r else r"])
  show "attendance d' = tbl_map (\<lambda>k r. if P k r then f r else r) (attendance d)"
    by (simp add: assms(2) tbl_update_where_map)
  fix k r assume r: "tbl_get (attendance d) k = Some r"
  then have "record_ok r" using assms(1) by (auto simp: attendance_inv_def dest: tbl_allD)
  with assms(3) [OF r] assms(4) show "R r (if P k r then f r else r) \<and>
      attendance_key (if P k r then f r else r) = attendance_key r \<and> record_ok (if P k r then f r else r)" by simp
qed

text \<open>New drafts.\<close>

definition only_adds :: "db \<Rightarrow> db \<Rightarrow> bool" where
  "only_adds d d' \<longleftrightarrow> attendance_inv d' \<and>
     (\<forall>k r. tbl_get (attendance d) k = Some r \<longrightarrow> tbl_get (attendance d') k = Some r)"

lemma insert_attendance_adds:
  assumes inv: "attendance_inv d" and ok: "insert_attendance r d = Inr d'" and r: "record_ok r"
  shows "only_adds d d'"
proof -
  have d': "d' = d\<lparr>attendance := tbl_insert r (attendance d)\<rparr>"
    and new: "\<not> tbl_exists (\<lambda>_ b. attendance_key b = attendance_key r) (attendance d)"
    using ok by (auto simp: insert_attendance_def res_simps)
  have wf: "tbl_wf (attendance d)" using inv by (simp add: attendance_inv_def)
  have "attendance_inv d'"
    using inv new r unfolding attendance_inv_def d'
    by (auto intro!: tbl_unique_insert tbl_all_insert)
  moreover have "tbl_get (attendance d') k = Some s" if "tbl_get (attendance d) k = Some s" for k s
    using that tbl_get_fresh [OF wf] by (auto simp: d' tbl_get_insert [OF wf])
  ultimately show ?thesis by (simp add: only_adds_def)
qed

lemma insert_all_adds:
  assumes inv: "attendance_inv d" and ok: "foldM insert_attendance rs d = Inr d'"
    and rs: "\<And>r. r \<in> set rs \<Longrightarrow> record_ok r"
  shows "only_adds d d'"
proof (rule foldM_invariant [OF ok])
  show "only_adds d d" using inv by (simp add: only_adds_def)
next
  fix r d1 d2
  assume "r \<in> set rs" "only_adds d d1" "insert_attendance r d1 = Inr d2"
  then show "only_adds d d2"
    using insert_attendance_adds [of d1 r d2] rs by (auto simp: only_adds_def)
qed

lemma only_adds_result: "only_adds d d' \<Longrightarrow> rows_moved record_moves d d'"
  by (simp add: only_adds_def rows_moved_def record_moves_refl)

lemma only_adds_then: "only_adds d d1 \<Longrightarrow> rows_moved record_moves d1 d2 \<Longrightarrow> rows_moved record_moves d d2"
  by (simp add: only_adds_def rows_moved_def)

lemma record_ok_draft: "ar_review_status r \<in> {RV_DRAFT, RV_RETURNED} \<Longrightarrow> record_ok r"
  by (auto simp: record_ok_def)

lemma audit_site_attendance [simp]: "attendance (audit_site a u s d) = attendance d"
  by (simp add: audit_site_def)

lemma generate_result:
  assumes inv: "attendance_inv d" and ok: "generate_daily_attendance_sheet s day sh a d = Inr d'"
  shows "rows_moved record_moves d d'"
proof -
  obtain site where site: "active_site d s = Some site"
    using ok by (cases "active_site d s") (simp_all add: generate_daily_attendance_sheet_def)
  define rs where "rs = map (\<lambda>(c, h). new_record c s h day (map_option u_pk a))
    (filter (\<lambda>p. p \<notin> set (map (\<lambda>(_, r). (ar_cleaner r, ar_shift r)) (day_records d s day sh)))
      (scheduled_pairs d s site day sh))"
  obtain d1 where ins: "foldM insert_attendance rs d = Inr d1"
      and d': "d' = (case a of None \<Rightarrow> d1 | Some u \<Rightarrow> audit_site A_CREATE (Some (u_pk u)) s d1)"
    using ok unfolding generate_daily_attendance_sheet_def site option.case Let_def rs_def [symmetric]
      rbind_Inr by blast
  have "ar_review_status r = RV_DRAFT" if "r \<in> set rs" for r
    using that by (auto simp: rs_def new_record_def)
  then have "only_adds d d1" using insert_all_adds [OF inv ins] record_ok_draft by simp
  then have "rows_moved record_moves d d1" by (rule only_adds_result)
  moreover have "attendance d' = attendance d1" by (simp add: d' split: option.split)
  ultimately show ?thesis using rows_moved_cong by blast
qed

text \<open>Bulk entry: what the entries resolve to.\<close>

definition resolved :: "db \<Rightarrow> nat option \<times> attendance_record \<Rightarrow> bool" where
  "resolved d x \<longleftrightarrow> (case fst x of None \<Rightarrow> ar_review_status (snd x) = RV_DRAFT
     | Some k \<Rightarrow> \<exists>r. tbl_get (attendance d) k = Some r \<and> is_editable r)"

lemma filled_keeps [simp]:
  "attendance_key (filled en u r) = attendance_key r" "ar_review_status (filled en u r) = ar_review_status r"
  by (simp_all add: filled_def attendance_key_def)

lemma entry_record_resolved:
  assumes wf: "tbl_wf (attendance d)" and ok: "entry_record s day en u d = Inr x"
  shows "resolved d x"
proof (cases "truthy_id (en_record_id en)")
  case True
  then obtain k where "en_record_id en = Some k" by (cases "en_record_id en") (auto simp: truthy_id_def)
  with ok True show ?thesis by (auto simp: entry_record_def resolved_def res_simps split: if_splits option.splits)
next
  case False
  show ?thesis
  proof (cases "tbl_where (\<lambda>_ r. attendance_key r = (the (en_cleaner_id en), s, en_shift_id en, day)) (attendance d)")
    case Nil
    with ok False show ?thesis
      by (auto simp: entry_record_def resolved_def new_record_def split: if_splits)
  next
    case (Cons y ys)
    obtain k r where y: "y = (k, r)" by fastforce
    have "y \<in> set (tbl_where (\<lambda>_ r. attendance_key r = (the (en_cleaner_id en), s, en_shift_id en, day)) (attendance d))"
      using Cons by simp
    then have "tbl_get (attendance d) k = Some r" using wf by (simp add: y tbl_get_mem)
    with ok False Cons y show ?thesis by (auto simp: entry_record_def resolved_def split: if_splits)
  qed
qed

lemma entry_records_resolved:
  "tbl_wf (attendance d) \<Longrightarrow> entry_records site s day u d ens = Inr rs \<Longrightarrow> x \<in> set rs \<Longrightarrow> resolved d x"
  by (induction ens arbitrary: rs) (auto simp: res_simps dest: entry_record_resolved)

lemma bulk_update_moved:
  assumes inv: "attendance_inv d"
    and old: "\<And>k x. map_of xs k = Some x \<Longrightarrow> \<exists>r. tbl_get (attendance d) k = Some r \<and> is_editable r"
  shows "rows_moved record_moves d (bulk_update_entries xs d)"
proof (rule map_rows_moved [OF inv, where g = "\<lambda>k r. case map_of xs k of None \<Rightarrow> r | Some x \<Rightarrow> entry_columns x r"])
  show "attendance (bulk_update_entries xs d) =
      tbl_map (\<lambda>k r. case map_of xs k of None \<Rightarrow> r | Some x \<Rightarrow> entry_columns x r) (attendance d)"
    by (simp add: bulk_update_entries_def)
  fix k r assume r: "tbl_get (attendance d) k = Some r"
  let ?r = "case map_of xs k of None \<Rightarrow> r | Some x \<Rightarrow> entry_columns x r"
  show "record_moves r ?r \<and> attendance_key ?r = attendance_key r \<and> record_ok ?r"
  proof (cases "map_of xs k")
    case None
    with r inv show ?thesis by (auto simp: record_moves_refl attendance_inv_def dest: tbl_allD)
  next
    case (Some x)
    with old r have "is_editable r" by force
    with Some show ?thesis
      by (auto simp: record_moves_def entry_columns_def attendance_key_def is_editable_def record_ok_def)
  qed
qed

lemma bulk_upsert_result:
  assumes inv: "attendance_inv d" and ok: "bulk_upsert_attendance e s day ens u fut d = Inr d'"
  shows "rows_moved record_moves d d'"
proof -
  have wf: "tbl_wf (attendance d)" using inv by (simp add: attendance_inv_def)
  obtain site where site: "active_site d s = Some site"
    using ok by (cases "active_site d s") (auto simp: bulk_upsert_attendance_def res_simps)
  obtain rs where rs: "entry_records site s day u d ens = Inr rs"
    using ok by (auto simp: bulk_upsert_attendance_def res_simps site)
  define fresh where "fresh = map snd (filter (\<lambda>(k, _). k = None) rs)"
  define old where "old = map (\<lambda>(k, r). (the k, r)) (filter (\<lambda>(k, _). k \<noteq> None) rs)"
  show ?thesis
  proof (cases "rs = []")
    case True
    then have "d' = d" using ok by (simp add: bulk_upsert_attendance_def res_simps site rs)
    then show ?thesis using inv by (simp add: rows_moved_refl)
  next
    case False
    then obtain d1 where ins: "foldM insert_attendance fresh d = Inr d1"
      and d': "d' = audit_site A_UPDATE (Some (u_pk u)) s (bulk_update_entries old d1)"
      using ok by (auto simp: bulk_upsert_attendance_def res_simps site rs Let_def fresh_def old_def)
    have "record_ok r" if "r \<in> set fresh" for r
      using that entry_records_resolved [OF wf rs]
      by (fastforce simp: fresh_def resolved_def record_ok_def split: prod.splits)
    then have add: "only_adds d d1" by (rule insert_all_adds [OF inv ins])
    have "\<exists>r. tbl_get (attendance d1) k = Some r \<and> is_editable r" if x: "map_of old k = Some x" for k x
    proof -
      from map_of_SomeD [OF x] have "(Some k, x) \<in> set rs" by (auto simp: old_def)
      from entry_records_resolved [OF wf rs this] show ?thesis
        using add by (auto simp: resolved_def only_adds_def)
    qed
    from bulk_update_moved [OF _ this] have "rows_moved record_moves d1 (bulk_update_entries old d1)"
      using add by (simp add: only_adds_def)
    then have "rows_moved record_moves d1 d'" by (simp add: d' rows_moved_cong [OF audit_site_attendance])
    with add show ?thesis by (rule only_adds_then)
  qed
qed

lemma record_single_result:
  assumes inv: "attendance_inv d" and ok: "record_single_attendance k st u i out n d = Inr d'"
  shows "rows_moved record_moves d d'"
proof -
  obtain r where r: "tbl_get (attendance d) k = Some r" and ed: "is_editable r"
    using ok by (auto simp: record_single_attendance_def split: option.splits if_splits)
  define r' where "r' = r\<lparr>ar_status := st, ar_check_in_time := i, ar_check_out_time := out,
     ar_notes := (if n \<noteq> [] then n else ar_notes r), ar_recorded_by := Some (u_pk u), ar_updated_by := Some (u_pk u)\<rparr>"
  have at: "attendance d' = tbl_update_where (\<lambda>j _. j = k) (\<lambda>_. r') (attendance d)"
    using ok r ed by (auto simp: record_single_attendance_def r'_def Let_def tbl_put_def)
  have "record_moves r r' \<and> attendance_key r' = attendance_key r \<and> record_ok r'"
    using ed by (auto simp: r'_def record_moves_def attendance_key_def is_editable_def record_ok_def)
  then show ?thesis using r by (intro update_where_moved [OF inv at]) (auto simp: record_moves_refl)
qed

text \<open>A group write of selected keys, all of whose rows may take it.\<close>

lemma update_records_moved:
  assumes inv: "attendance_inv d"
    and sel: "\<And>k r. (k, r) \<in> set rs \<Longrightarrow> tbl_get (attendance d) k = Some r"
    and step: "\<And>k r. (k, r) \<in> set rs \<Longrightarrow> reviewed_moves r (f r) \<and> record_ok (f r)"
    and d': "attendance d' = attendance (update_records (map fst rs) f d)"
  shows "rows_moved reviewed_moves d d'"
proof (rule update_where_moved [OF inv, where P = "\<lambda>k _. k \<in> set (map fst rs)" and f = f])
  show "attendance d' = tbl_update_where (\<lambda>k _. k \<in> set (map fst rs)) f (attendance d)"
    by (simp add: d' update_records_def)
  fix k r assume r: "tbl_get (attendance d) k = Some r" and k: "k \<in> set (map fst rs)"
  from k obtain s where s: "(k, s) \<in> set rs" by auto
  with sel r have "s = r" by fastforce
  with s step have "reviewed_moves r (f r) \<and> record_ok (f r)" by blast
  then show "reviewed_moves r (f r) \<and> attendance_key (f r) = attendance_key r \<and> record_ok (f r)"
    by (simp add: reviewed_moves_def record_moves_def)
qed (simp add: reviewed_moves_def record_moves_refl)

lemma day_records_get:
  "tbl_wf (attendance d) \<Longrightarrow> (k, r) \<in> set (day_records d s day sh) \<Longrightarrow> tbl_get (attendance d) k = Some r"
  by (simp add: day_records_def tbl_get_mem)

lemma submitted_events_attendance [simp]:
  "attendance (fold (submitted_event s day u) rs d) = attendance d"
  by (induction rs arbitrary: d) (auto simp: submitted_event_def)

lemma attendance_inv_wf: "attendance_inv d \<Longrightarrow> tbl_wf (attendance d)"
  by (simp add: attendance_inv_def)

lemma attendance_inv_ok: "attendance_inv d \<Longrightarrow> tbl_get (attendance d) k = Some r \<Longrightarrow> record_ok r"
  by (auto simp: attendance_inv_def dest: tbl_allD)

lemma edge_path [intro]: "review_edge a b \<Longrightarrow> review_edge\<^sup>*\<^sup>* a b"
  by blast

lemma to_submitted: "review_edge\<^sup>*\<^sup>* a RV_SUBMITTED"
  by (cases a) auto

lemma to_returned: "a \<noteq> RV_LOCKED \<Longrightarrow> review_edge\<^sup>*\<^sup>* a RV_RETURNED"
  by (cases a) auto

lemma submit_day_result:
  assumes inv: "attendance_inv d" and ok: "submit_daily_attendance e s day u sh d = Inr (n, d')"
  shows "rows_moved reviewed_moves d d'"
proof -
  let ?rs = "day_records d s day sh"
  define f :: "attendance_record \<Rightarrow> attendance_record" where "f = (\<lambda>r. r\<lparr>ar_review_status := RV_SUBMITTED, ar_submitted_at := Some (now e),
     ar_updated_by := Some (u_pk u), ar_recorded_by := Some (u_pk u)\<rparr>)"
  have marked: "\<not> list_ex (\<lambda>(_, r). ar_status r = AT_SCHEDULED) ?rs"
    and at: "attendance d' = attendance (update_records (map fst ?rs) f d)"
    using ok by (auto simp: submit_daily_attendance_def require_attendance_record_def res_simps Let_def f_def
        split: if_splits)
  show ?thesis
  proof (rule update_records_moved [OF inv _ _ at])
    show "tbl_get (attendance d) k = Some r" if "(k, r) \<in> set ?rs" for k r
      using that day_records_get [OF attendance_inv_wf [OF inv]] by simp
    show "reviewed_moves r (f r) \<and> record_ok (f r)" if "(k, r) \<in> set ?rs" for k r
      using that marked by (fastforce simp: reviewed_moves_def record_moves_def f_def content_def
          attendance_key_def record_ok_def to_submitted list_ex_iff)
  qed
qed

text \<open>Returning: any record but a locked one.\<close>

definition returned :: "user \<Rightarrow> string \<Rightarrow> attendance_record \<Rightarrow> attendance_record" where
  "returned u reason r = r\<lparr>ar_review_status := RV_RETURNED, ar_return_reason := reason, ar_updated_by := Some (u_pk u)\<rparr>"

lemma returned_moves: "ar_review_status r \<noteq> RV_LOCKED \<Longrightarrow> reviewed_moves r (returned u x r) \<and> record_ok (returned u x r)"
  by (simp add: reviewed_moves_def record_moves_def returned_def content_def attendance_key_def record_ok_def to_returned)

lemma return_record_result:
  assumes inv: "attendance_inv d" and r: "tbl_get (attendance d) k = Some r"
    and ok: "return_attendance_record (k, r) u reason d = Inr d'"
  shows "rows_moved reviewed_moves d d'"
proof -
  have nl: "ar_review_status r \<noteq> RV_LOCKED"
    and at: "attendance d' = attendance (update_records (map fst [(k, r)]) (returned u reason) d)"
    using ok by (auto simp: return_attendance_record_def Let_def returned_def [abs_def] split: if_splits)
  show ?thesis by (rule update_records_moved [OF inv _ _ at]) (use r returned_moves [OF nl] in auto)
qed

lemma return_group_result:
  assumes inv: "attendance_inv d" and ok: "return_attendance_group e s day u reason sh d = Inr (n, d')"
  shows "rows_moved reviewed_moves d d'"
proof -
  let ?rs = "filter (\<lambda>(_, r). ar_review_status r \<noteq> RV_LOCKED) (day_records d s day sh)"
  have at: "attendance d' = attendance (update_records (map fst ?rs) (returned u reason) d)"
    using ok by (auto simp: return_attendance_group_def require_attendance_review_def res_simps Let_def
        returned_def [abs_def] split: if_splits)
  show ?thesis
    by (rule update_records_moved [OF inv _ _ at])
      (use returned_moves day_records_get [OF attendance_inv_wf [OF inv]] in auto)
qed

text \<open>Reviewing and locking.\<close>

definition reviewed :: "user \<Rightarrow> attendance_record \<Rightarrow> attendance_record" where
  "reviewed u r = r\<lparr>ar_review_status := RV_REVIEWED, ar_updated_by := Some (u_pk u)\<rparr>"

lemma reviewed_row_moves:
  "ar_review_status r = RV_SUBMITTED \<Longrightarrow> record_ok r \<Longrightarrow> reviewed_moves r (reviewed u r) \<and> record_ok (reviewed u r)"
  by (auto simp: reviewed_moves_def record_moves_def reviewed_def content_def attendance_key_def record_ok_def)

lemma review_record_result:
  assumes inv: "attendance_inv d" and r: "tbl_get (attendance d) k = Some r"
    and ok: "review_attendance_record (k, r) u d = Inr d'"
  shows "rows_moved reviewed_moves d d'"
proof -
  have st: "ar_review_status r = RV_SUBMITTED"
    and at: "attendance d' = attendance (update_records (map fst [(k, r)]) (reviewed u) d)"
    using ok by (auto simp: review_attendance_record_def Let_def reviewed_def [abs_def] split: if_splits)
  show ?thesis
    by (rule update_records_moved [OF inv _ _ at])
      (use r reviewed_row_moves [OF st attendance_inv_ok [OF inv r]] in auto)
qed

lemma review_records_result:
  assumes inv: "attendance_inv d" and ok: "review_records e s day u sh d = Inr (n, d')"
  shows "rows_moved reviewed_moves d d'"
proof -
  let ?rs = "filter (\<lambda>(_, r). ar_review_status r = RV_SUBMITTED) (day_records d s day sh)"
  have at: "attendance d' = attendance (update_records (map fst ?rs) (reviewed u) d)"
    using ok by (auto simp: review_records_def require_attendance_review_def res_simps Let_def
        reviewed_def [abs_def] split: if_splits)
  note get = day_records_get [OF attendance_inv_wf [OF inv]]
  show ?thesis
  proof (rule update_records_moved [OF inv _ _ at])
    show "tbl_get (attendance d) k = Some r" if "(k, r) \<in> set ?rs" for k r using that by (auto dest: get)
    show "reviewed_moves r (reviewed u r) \<and> record_ok (reviewed u r)" if "(k, r) \<in> set ?rs" for k r
      using that attendance_inv_ok [OF inv get] by (intro reviewed_row_moves) auto
  qed
qed

lemma lock_result:
  assumes inv: "attendance_inv d"
  shows "rows_moved reviewed_moves d (snd (lock_attendance_if_required e s sh u d))"
proof -
  define d1 where "d1 = d\<lparr>attendance := tbl_update_where (\<lambda>_. lockable e s sh)
      (\<lambda>r. r\<lparr>ar_review_status := RV_LOCKED\<rparr>) (attendance d)\<rparr>"
  have step: "rows_moved reviewed_moves d d1"
  proof (rule update_where_moved [OF inv, where P = "\<lambda>_. lockable e s sh" and f = "\<lambda>r. r\<lparr>ar_review_status := RV_LOCKED\<rparr>"])
    fix k r assume "tbl_get (attendance d) k = Some r" "lockable e s sh r"
    with attendance_inv_ok [OF inv] show "reviewed_moves r (r\<lparr>ar_review_status := RV_LOCKED\<rparr>) \<and>
        attendance_key (r\<lparr>ar_review_status := RV_LOCKED\<rparr>) = attendance_key r \<and>
        record_ok (r\<lparr>ar_review_status := RV_LOCKED\<rparr>)"
      by (auto simp: reviewed_moves_def record_moves_def lockable_def content_def attendance_key_def record_ok_def)
  qed (simp_all add: d1_def reviewed_moves_def record_moves_refl)
  have "snd (lock_attendance_if_required e s sh u d) \<in> {d, d1, audit_site A_UPDATE (Some (u_pk u)) s d1}"
    by (simp add: lock_attendance_if_required_def Let_def d1_def)
  moreover have "rows_moved reviewed_moves d d"
    using inv by (simp add: rows_moved_def reviewed_moves_def record_moves_refl)
  ultimately show ?thesis using step rows_moved_cong [OF audit_site_attendance] by auto
qed

lemma review_group_result:
  assumes inv: "attendance_inv d"
  shows "rows_moved reviewed_moves d (snd (review_attendance_group e s day u sh d))"
proof (cases "review_records e s day u sh d")
  case (Inl x)
  then show ?thesis
    using inv by (simp add: review_attendance_group_def rows_moved_def reviewed_moves_def record_moves_refl)
next
  case (Inr y)
  obtain n d1 where y: "y = (n, d1)" by fastforce
  have step: "rows_moved reviewed_moves d d1" using review_records_result [OF inv] Inr y by simp
  then have "rows_moved reviewed_moves d1 (snd (lock_attendance_if_required e s sh u d1))"
    by (intro lock_result) (simp add: rows_moved_def)
  moreover have "snd (review_attendance_group e s day u sh d) = snd (lock_attendance_if_required e s sh u d1)"
    by (simp add: review_attendance_group_def Inr y split: prod.split sum.split)
  ultimately show ?thesis using step rows_moved_trans by simp
qed

lemma attendance_step_result:
  assumes inv: "attendance_inv d" and ok: "attendance_step e d c = Inr d'"
  shows "rows_moved record_moves d d'"
proof (cases c)
  case (GenerateSheet s day sh a)
  then show ?thesis using ok generate_result [OF inv] by simp
next
  case (BulkUpsert s day ens u fut)
  then show ?thesis using ok bulk_upsert_result [OF inv] by simp
next
  case (SaveDraft s day ens u)
  then show ?thesis using ok bulk_upsert_result [OF inv] by (simp add: save_attendance_draft_def)
next
  case (RecordSingle k st u i out n)
  then show ?thesis using ok record_single_result [OF inv] by simp
next
  case (SubmitDay s day u sh)
  then show ?thesis using ok submit_day_result [OF inv] reviewed_result by (auto simp: db_of_Inr)
next
  case (ReturnRecord k u r)
  then show ?thesis using ok return_record_result [OF inv] reviewed_result by (auto simp: fetch_Inr)
next
  case (ReturnGroup s day u r sh)
  then show ?thesis using ok return_group_result [OF inv] reviewed_result by (auto simp: db_of_Inr)
next
  case (ReviewGroup s day u sh)
  then show ?thesis using ok review_group_result [OF inv] reviewed_result by auto
next
  case (ReviewRecord k u)
  then show ?thesis using ok review_record_result [OF inv] reviewed_result by (auto simp: fetch_Inr)
next
  case (LockAttendance s sh u)
  then show ?thesis using ok lock_result [OF inv] reviewed_result by auto
qed

interpretation attendance: safe_system "attendance_step e" attendance_inv
  by unfold_locales (use attendance_step_result in \<open>auto simp: rows_moved_def\<close>)

section \<open>Properties\<close>

text \<open>A small site: two cleaners present, one site administrator.\<close>

definition demo_admin_user :: user where
  "demo_admin_user = \<lparr>u_pk = 1, u_role = SYSTEM_ADMIN, u_is_superuser = True, u_is_active = True, u_perms = []\<rparr>"

definition demo_cleaner :: cleaner where
  "demo_cleaner = \<lparr>cl_first_name = ''A'', cl_last_name = ''B'', cl_id_type = ID_NIDA, cl_id_number = ''1'',
     cl_gender = G_FEMALE, cl_birth_date = Date 1990 1 1, cl_living_location = [], cl_phone_number = [],
     cl_near_person_name = [], cl_near_person_relationship = [], cl_near_person_phone = [],
     cl_status = CL_ACTIVE, cl_registration_date = Date 2025 1 1, cl_notes = [],
     cl_created_by = None, cl_updated_by = None\<rparr>"

definition demo_posting :: "nat \<Rightarrow> cleaner_assignment_type \<Rightarrow> cleaner_site_assignment" where
  "demo_posting c t = \<lparr>csa_cleaner = c, csa_site = 1, csa_assignment_type = t, csa_start_date = Date 2025 1 1,
     csa_end_date = None, csa_status = CA_ACTIVE, csa_assigned_by = None, csa_notes = [],
     csa_created_by = None, csa_updated_by = None\<rparr>"

definition demo_binding :: cleaner_shift_assignment where
  "demo_binding = \<lparr>cha_assignment = 2, cha_shift = 5, cha_effective_from = Date 2025 1 1, cha_effective_to = None,
     cha_is_active = True, cha_created_by = None, cha_updated_by = None\<rparr>"

definition demo_attendance_db :: db where
  "demo_attendance_db = empty_db\<lparr>
     sites := \<lparr>tbl_rows = [(1, demo_site\<lparr>si_work_mode := WM_FULL_TIME_AND_SHIFT\<rparr>)], tbl_next = 2\<rparr>,
     cleaners := \<lparr>tbl_rows = [(1, demo_cleaner), (2, demo_cleaner)], tbl_next = 3\<rparr>,
     cleaner_assignments := \<lparr>tbl_rows = [(1, demo_posting 1 CT_FULL_TIME), (2, demo_posting 2 CT_SHIFT)], tbl_next = 3\<rparr>,
     cleaner_shifts := \<lparr>tbl_rows = [(1, demo_binding)], tbl_next = 2\<rparr>\<rparr>"

definition demo_day :: date where
  "demo_day = Date 2025 6 2"

definition demo_attendance_calls :: "attendance_call list" where
  "demo_attendance_calls =
     [GenerateSheet 1 demo_day None (Some demo_admin_user),
      RecordSingle 1 AT_PRESENT demo_admin_user (Some 480) None ''on time'',
      RecordSingle 2 AT_LATE demo_admin_user (Some 500) None [],
      SubmitDay 1 demo_day demo_admin_user None,
      RecordSingle 1 AT_ABSENT demo_admin_user None None [],
      ReviewGroup 1 demo_day demo_admin_user None]"

lemma demo_attendance_inv: "attendance_inv demo_attendance_db"
  by (simp add: attendance_inv_def demo_attendance_db_def empty_db_def)

text \<open>
  C17: attendance records stay consistent. Whatever calls are made, a cleaner, a site, a shift (or
  none) and a date determine one record, and a record that is submitted, reviewed or locked has
  been marked and carries its submission time.
\<close>

theorem attendance_records_consistent:
  assumes "attendance_inv d" and "d' = run_calls (attendance_step e) d cs"
    and "tbl_get (attendance d') j = Some r" and "tbl_get (attendance d') k = Some s"
  shows "(attendance_key r = attendance_key s \<longrightarrow> j = k) \<and>
    (ar_review_status r \<in> {RV_SUBMITTED, RV_REVIEWED, RV_LOCKED} \<longrightarrow>
       ar_status r \<noteq> AT_SCHEDULED \<and> ar_submitted_at r \<noteq> None)"
proof -
  have inv: "attendance_inv d'" using attendance.run_inv [OF assms(1)] assms(2) by simp
  then have "tbl_unique (\<lambda>_. True) attendance_key (attendance d')" by (simp add: attendance_inv_def)
  from tbl_uniqueD [OF this assms(3,4)] attendance_inv_ok [OF inv assms(3)] show ?thesis
    by (simp add: record_ok_def)
qed

definition demo_attendance_view :: "db \<Rightarrow> (attendance_status \<times> attendance_review_status) list" where
  "demo_attendance_view d = map (\<lambda>(_, r). (ar_status r, ar_review_status r)) (tbl_rows (attendance d))"

text \<open>Evaluation by rewriting with the definitions.\<close>

lemma default_env_day: "localdate default_env = Date 2025 6 10"
  by (simp add: default_env_def)

lemma lock_cutoff_default: "lock_cutoff default_env = Date 2025 6 3"
  by (simp add: lock_cutoff_def default_env_def add_days_def prev_day_def eval_nat_numeral)

lemmas attendance_eval = demo_attendance_calls_def demo_attendance_db_def demo_attendance_view_def demo_day_def
  demo_admin_user_def demo_cleaner_def demo_posting_def demo_binding_def demo_site_def empty_db_def
  generate_daily_attendance_sheet_def active_site_def scheduled_pairs_def live_assignments_def assignment_covers_def
  binding_covers_def truthy_id_def day_records_def new_record_def insert_attendance_def attendance_key_def
  tbl_get_def tbl_where_def tbl_exists_def tbl_insert_def tbl_update_where_def tbl_put_def tbl_empty_def
  record_single_attendance_def is_editable_def audit_site_def record_audit_def submit_daily_attendance_def
  require_attendance_record_def ensure_def is_system_admin_def update_records_def submitted_event_def
  publish_domain_event_def review_attendance_group_def review_records_def require_attendance_review_def
  can_review_attendance_def is_reviewer_def site_in_user_scope_def visible_sites_def sees_all_zones_def
  lock_attendance_if_required_def lockable_def lock_cutoff_default date_order_defs db_of_def default_env_day


lemma demo_attendance_run:
  "demo_attendance_view (run_calls (attendance_step default_env) demo_attendance_db demo_attendance_calls) =
     [(AT_PRESENT, RV_LOCKED), (AT_LATE, RV_LOCKED)]"
  by (simp add: attendance_eval Let_def del: set_filter)

text \<open>
  C18: what is under review is frozen. As long as a record is submitted, reviewed or locked, no call
  changes its mark, its times, its notes, or whose and which day's record it is.
\<close>

theorem reviewed_record_frozen:
  assumes "attendance_inv d" and "tbl_get (attendance d) k = Some r"
    and "\<And>t s. t \<in> set (call_states (attendance_step e) d cs) \<Longrightarrow> tbl_get (attendance t) k = Some s \<Longrightarrow>
      \<not> is_editable s"
  shows "\<exists>r'. tbl_get (attendance (run_calls (attendance_step e) d cs)) k = Some r' \<and>
    content r' = content r \<and> attendance_key r' = attendance_key r"
  using assms
proof (induction cs arbitrary: d r)
  case Nil
  then show ?case by simp
next
  case (Cons c cs)
  let ?d = "commit d (attendance_step e d c)"
  have "rows_moved record_moves d ?d"
    using Cons.prems(1) attendance_step_result
    by (cases "attendance_step e d c") (auto simp: rows_moved_refl)
  then obtain s where s: "tbl_get (attendance ?d) k = Some s" "record_moves r s" and inv: "attendance_inv ?d"
    using Cons.prems(2) by (auto simp: rows_moved_def)
  have "\<not> is_editable r" using Cons.prems(3) [of d r] Cons.prems(2) by simp
  with s have same: "content s = content r \<and> attendance_key s = attendance_key r" by (simp add: record_moves_def)
  from Cons.IH [OF inv s(1)] Cons.prems(3) same show ?case by auto
qed

theorem attendance_records_consistent_witness:
  "\<exists>r. tbl_get (attendance (run_calls (attendance_step default_env) demo_attendance_db demo_attendance_calls)) 1 = Some r \<and>
     ar_review_status r = RV_LOCKED \<and> ar_status r \<noteq> AT_SCHEDULED \<and> ar_submitted_at r \<noteq> None"
proof -
  let ?d = "run_calls (attendance_step default_env) demo_attendance_db demo_attendance_calls"
  obtain r where r: "tbl_get (attendance ?d) 1 = Some r" "ar_review_status r = RV_LOCKED"
    by (simp add: attendance_eval Let_def del: set_filter)
  from attendance_records_consistent [OF demo_attendance_inv refl r(1) r(1)] r show ?thesis by simp
qed

lemma demo_attendance_submitted:
  "\<exists>r. tbl_get (attendance (run_calls (attendance_step default_env) demo_attendance_db (take 4 demo_attendance_calls))) 1 = Some r \<and>
     content r = (AT_PRESENT, Some 480, None, ''on time'') \<and> ar_review_status r = RV_SUBMITTED"
  by (simp add: attendance_eval content_def Let_def del: set_filter)

theorem reviewed_record_frozen_witness:
  "\<exists>r. tbl_get (attendance (run_calls (attendance_step default_env)
       (run_calls (attendance_step default_env) demo_attendance_db (take 4 demo_attendance_calls))
       [RecordSingle 1 AT_ABSENT demo_admin_user None None []])) 1 = Some r \<and>
     content r = (AT_PRESENT, Some 480, None, ''on time'')"
proof -
  let ?d = "run_calls (attendance_step default_env) demo_attendance_db (take 4 demo_attendance_calls)"
  let ?c = "RecordSingle 1 AT_ABSENT demo_admin_user None None []"
  obtain r where r: "tbl_get (attendance ?d) 1 = Some r" "content r = (AT_PRESENT, Some 480, None, ''on time'')"
    "ar_review_status r = RV_SUBMITTED" using demo_attendance_submitted by blast
  have inv: "attendance_inv ?d" by (rule attendance.run_inv [OF demo_attendance_inv])
  have stuck: "commit ?d (attendance_step default_env ?d ?c) = ?d"
    using r(1,3) by (simp add: record_single_attendance_def is_editable_def)
  have under: "\<not> is_editable s" if "t \<in> set (call_states (attendance_step default_env) ?d [?c])"
      and "tbl_get (attendance t) 1 = Some s" for t s
    using that r(1,3) by (simp only: call_states.simps stuck) (auto simp: is_editable_def)
  have "\<exists>r'. tbl_get (attendance (run_calls (attendance_step default_env) ?d [?c])) 1 = Some r' \<and>
      content r' = content r \<and> attendance_key r' = attendance_key r"
    by (rule reviewed_record_frozen [OF inv r(1)]) (rule under)
  then obtain r' where "tbl_get (attendance (run_calls (attendance_step default_env) ?d [?c])) 1 = Some r'"
      "content r' = content r" by blast
  then show ?thesis using r(2) by (intro exI [of _ r']) simp
qed

text \<open>
  What a submission does. It succeeds for a group with at least one record, all marked, and
  then every record of the group is submitted now and one \<open>AttendanceSubmitted\<close> event per record,
  in the order of the group, is published.
\<close>

theorem submitted_day:
  assumes "attendance_inv d" and "submit_daily_attendance e s day u sh d = Inr (n, d')"
  shows "n = length (day_records d s day sh) \<and> 0 < n \<and>
    map ev_aggregate_id (drop (length (events d)) (events d')) = map (str_nat \<circ> fst) (day_records d s day sh) \<and>
    (\<forall>k r. tbl_get (attendance d') k = Some r \<and> ar_site r = s \<and> ar_attendance_date r = day \<and>
       (truthy_id sh \<longrightarrow> ar_shift r = sh) \<longrightarrow>
       ar_review_status r = RV_SUBMITTED \<and> ar_status r \<noteq> AT_SCHEDULED \<and> ar_submitted_at r = Some (now e))"
proof -
  let ?rs = "day_records d s day sh"
  define f :: "attendance_record \<Rightarrow> attendance_record" where "f = (\<lambda>r. r\<lparr>ar_review_status := RV_SUBMITTED, ar_submitted_at := Some (now e),
     ar_updated_by := Some (u_pk u), ar_recorded_by := Some (u_pk u)\<rparr>)"
  have nonempty: "?rs \<noteq> []" and n: "n = length ?rs"
    and d': "d' = fold (submitted_event s day u) ?rs (audit_site A_STATUS_CHANGE (Some (u_pk u)) s
       (update_records (map fst ?rs) f d))"
    and marked: "\<And>k r. (k, r) \<in> set ?rs \<Longrightarrow> ar_status r \<noteq> AT_SCHEDULED"
    using assms(2) by (auto simp: submit_daily_attendance_def require_attendance_record_def res_simps Let_def f_def
        list_ex_iff split: if_splits)
  have ev: "events (fold (submitted_event s day u) rs x) = events x @ concat (map (\<lambda>y. drop (length (events x)) (events (submitted_event s day u y x))) rs)" for rs x
    by (induction rs arbitrary: x) (simp_all add: submitted_event_def publish_domain_event_def)
  have "events d' = events d @ concat (map (\<lambda>y. drop (length (events d)) (events (submitted_event s day u y d))) ?rs)"
    by (simp add: d' ev audit_site_def update_records_def submitted_event_def publish_domain_event_def)
  then have events: "map ev_aggregate_id (drop (length (events d)) (events d')) = map (str_nat \<circ> fst) ?rs"
    by (simp add: submitted_event_def publish_domain_event_def map_concat comp_def)
  have "ar_review_status r = RV_SUBMITTED \<and> ar_status r \<noteq> AT_SCHEDULED \<and> ar_submitted_at r = Some (now e)"
    if r: "tbl_get (attendance d') k = Some r" and grp: "ar_site r = s" "ar_attendance_date r = day"
      "truthy_id sh \<longrightarrow> ar_shift r = sh" for k r
  proof -
    obtain r0 where r0: "tbl_get (attendance d) k = Some r0" and rr: "r = (if k \<in> set (map fst ?rs) then f r0 else r0)"
      using r by (auto simp: d' update_records_def tbl_get_update_where)
    have "(k, r0) \<in> set ?rs" using grp rr r0 by (auto simp: day_records_def f_def dest: tbl_get_in split: if_splits)
    then have "r = f r0" "ar_status r0 \<noteq> AT_SCHEDULED" using rr marked by (force simp: image_iff)+
    then show ?thesis by (simp add: f_def)
  qed
  then have "\<forall>k r. tbl_get (attendance d') k = Some r \<and> ar_site r = s \<and> ar_attendance_date r = day \<and>
      (truthy_id sh \<longrightarrow> ar_shift r = sh) \<longrightarrow>
      ar_review_status r = RV_SUBMITTED \<and> ar_status r \<noteq> AT_SCHEDULED \<and> ar_submitted_at r = Some (now e)" by blast
  then show ?thesis using nonempty n events by simp
qed

theorem submitted_day_witness:
  "\<exists>n d'. submit_daily_attendance default_env 1 demo_day demo_admin_user None
      (run_calls (attendance_step default_env) demo_attendance_db (take 3 demo_attendance_calls)) = Inr (n, d') \<and> 0 < n"
proof -
  let ?d = "run_calls (attendance_step default_env) demo_attendance_db (take 3 demo_attendance_calls)"
  have inv: "attendance_inv ?d" by (rule attendance.run_inv [OF demo_attendance_inv])
  obtain n d' where ok: "submit_daily_attendance default_env 1 demo_day demo_admin_user None ?d = Inr (n, d')"
    by (simp add: attendance_eval Let_def del: set_filter)
  from submitted_day [OF inv this] ok show ?thesis by blast
qed

text \<open>The rows a generation wrote are there afterwards, and nothing else it depends on changed.\<close>

lemma insert_all_rows:
  assumes "foldM insert_attendance rs d = Inr d'"
  shows "set (tbl_rows (attendance d)) \<subseteq> set (tbl_rows (attendance d')) \<and>
    (\<forall>r \<in> set rs. \<exists>k. (k, r) \<in> set (tbl_rows (attendance d'))) \<and>
    d'\<lparr>attendance := attendance d\<rparr> = d"
  using assms
proof (induction rs arbitrary: d)
  case Nil
  then show ?case by simp
next
  case (Cons r rs)
  then obtain d1 where ins: "insert_attendance r d = Inr d1" and rest: "foldM insert_attendance rs d1 = Inr d'"
    by (auto simp: res_simps)
  from ins have d1: "d1 = d\<lparr>attendance := tbl_insert r (attendance d)\<rparr>" by (auto simp: insert_attendance_def split: if_splits)
  have undo: "d1\<lparr>attendance := attendance d\<rparr> = d" by (simp add: d1)
  have here: "(tbl_next (attendance d), r) \<in> set (tbl_rows (attendance d1))"
    and keep: "set (tbl_rows (attendance d)) \<subseteq> set (tbl_rows (attendance d1))" by (auto simp: d1 tbl_insert_def)
  note ih = Cons.IH [OF rest]
  have "d'\<lparr>attendance := attendance d\<rparr> = (d'\<lparr>attendance := attendance d1\<rparr>)\<lparr>attendance := attendance d\<rparr>" by simp
  also have "\<dots> = d" using ih undo by simp
  finally show ?case using ih here keep by (auto intro: exI [of _ "tbl_next (attendance d)"])
qed

lemma scheduled_pairs_attendance [simp]:
  "scheduled_pairs (d\<lparr>attendance := t\<rparr>) s site day sh = scheduled_pairs d s site day sh"
  "active_site (d\<lparr>attendance := t\<rparr>) s = active_site d s"
  by (simp_all add: scheduled_pairs_def live_assignments_def active_site_def Let_def)

lemma scheduled_pairs_audit [simp]:
  "scheduled_pairs (audit_site a u k d) s site day sh = scheduled_pairs d s site day sh"
  "active_site (audit_site a u k d) s = active_site d s"
  by (simp_all add: scheduled_pairs_def live_assignments_def active_site_def audit_site_def Let_def)

text \<open>
  Generating the sheet of a whole day is idempotent. After it, every scheduled cleaner and shift
  has a record, and generating it again succeeds and writes no record. (For a single shift it is
  not: see \<open>generate_shift_twice_fails\<close>.)
\<close>

theorem generate_day_idempotent:
  assumes "generate_daily_attendance_sheet s day sh a d = Inr d1" and "\<not> truthy_id sh"
  shows "\<exists>site d2. active_site d s = Some site \<and>
    set (scheduled_pairs d s site day sh) \<subseteq> (\<lambda>(_, r). (ar_cleaner r, ar_shift r)) ` set (day_records d1 s day sh) \<and>
    generate_daily_attendance_sheet s day sh a d1 = Inr d2 \<and> attendance d2 = attendance d1"
proof -
  obtain site where site: "active_site d s = Some site"
    using assms(1) by (cases "active_site d s") (simp_all add: generate_daily_attendance_sheet_def)
  define key :: "nat \<times> attendance_record \<Rightarrow> nat \<times> nat option" where "key = (\<lambda>(_, r). (ar_cleaner r, ar_shift r))"
  define fresh where "fresh = filter (\<lambda>p. p \<notin> set (map key (day_records d s day sh))) (scheduled_pairs d s site day sh)"
  define rs where "rs = map (\<lambda>(c, h). new_record c s h day (map_option u_pk a)) fresh"
  obtain d0 where ins: "foldM insert_attendance rs d = Inr d0"
    and d1: "d1 = (case a of None \<Rightarrow> d0 | Some u \<Rightarrow> audit_site A_CREATE (Some (u_pk u)) s d0)"
    using assms(1) unfolding generate_daily_attendance_sheet_def site option.case Let_def rs_def fresh_def key_def rbind_Inr
    by auto
  have at: "attendance d1 = attendance d0" by (simp add: d1 split: option.split)
  note rows = insert_all_rows [OF ins]
  have "d\<lparr>attendance := attendance d0\<rparr> = (d0\<lparr>attendance := attendance d\<rparr>)\<lparr>attendance := attendance d0\<rparr>"
    using rows by simp
  also have "\<dots> = d0" by simp
  finally have d0: "d\<lparr>attendance := attendance d0\<rparr> = d0" .
  have "scheduled_pairs d0 s site day sh = scheduled_pairs d s site day sh" "active_site d0 s = Some site"
    using scheduled_pairs_attendance [where d = d and t = "attendance d0"] by (simp_all only: d0 site)
  then have same: "scheduled_pairs d1 s site day sh = scheduled_pairs d s site day sh" "active_site d1 s = Some site"
    by (simp_all add: d1 split: option.split)
  have "p \<in> key ` set (day_records d1 s day sh)" if p: "p \<in> set (scheduled_pairs d s site day sh)" for p
  proof (cases "p \<in> set fresh")
    case True
    obtain c h where ch: "p = (c, h)" by fastforce
    with True have "new_record c s h day (map_option u_pk a) \<in> set rs" by (force simp: rs_def)
    with rows obtain k where "(k, new_record c s h day (map_option u_pk a)) \<in> set (tbl_rows (attendance d1))"
      by (auto simp: at)
    then have "(k, new_record c s h day (map_option u_pk a)) \<in> set (day_records d1 s day sh)"
      using assms(2) by (simp add: day_records_def new_record_def)
    then show ?thesis by (force simp: key_def new_record_def ch)
  next
    case False
    with p have "p \<in> key ` set (day_records d s day sh)" by (simp add: fresh_def)
    moreover have "set (day_records d s day sh) \<subseteq> set (day_records d1 s day sh)"
      using rows by (auto simp: day_records_def at)
    ultimately show ?thesis by blast
  qed
  then have covered: "set (scheduled_pairs d s site day sh) \<subseteq> key ` set (day_records d1 s day sh)" by blast
  then have "filter (\<lambda>p. p \<notin> set (map key (day_records d1 s day sh))) (scheduled_pairs d1 s site day sh) = []"
    by (auto simp: same filter_empty_conv)
  then obtain d2 where "generate_daily_attendance_sheet s day sh a d1 = Inr d2" "attendance d2 = attendance d1"
    by (cases a) (simp_all add: generate_daily_attendance_sheet_def same Let_def key_def)
  with site covered show ?thesis unfolding key_def by blast
qed

theorem generate_day_idempotent_witness:
  "\<exists>d1 d2. generate_daily_attendance_sheet 1 demo_day None None demo_attendance_db = Inr d1 \<and>
     generate_daily_attendance_sheet 1 demo_day None None d1 = Inr d2 \<and> attendance d2 = attendance d1"
proof -
  obtain d1 where "generate_daily_attendance_sheet 1 demo_day None None demo_attendance_db = Inr d1"
    by (simp add: attendance_eval Let_def del: set_filter)
  from generate_day_idempotent [OF this] this show ?thesis by (auto simp: truthy_id_def)
qed

text \<open>
  Generating the sheet of one shift of a site that also has full-time staff is not idempotent: the
  search for existing records is narrowed to the shift while the full-time rows are planned again,
  and the second run clashes with the unique constraint.
\<close>

theorem generate_shift_twice_fails:
  "\<exists>d1. generate_daily_attendance_sheet 1 demo_day (Some 5) None demo_attendance_db = Inr d1 \<and>
     generate_daily_attendance_sheet 1 demo_day (Some 5) None d1 = Inl IntegrityError"
  by (simp add: attendance_eval Let_def del: set_filter)

text \<open>Submitting a day again takes its locked records back to submitted.\<close>

theorem submission_unlocks:
  "\<exists>r r'. tbl_get (attendance (run_calls (attendance_step default_env) demo_attendance_db demo_attendance_calls)) 1 = Some r \<and>
     tbl_get (attendance (run_calls (attendance_step default_env) demo_attendance_db
       (demo_attendance_calls @ [SubmitDay 1 demo_day demo_admin_user None]))) 1 = Some r' \<and>
     ar_review_status r = RV_LOCKED \<and> ar_review_status r' = RV_SUBMITTED"
  by (simp add: attendance_eval Let_def del: set_filter)

end
