(* ===== verification/Calendar.thy ===== *)
theory Calendar
  imports Values
begin

text \<open>
  The part of Python's \<open>datetime.date\<close> and \<open>calendar\<close> that counts days: the proleptic
  Gregorian ordinal, the weekday, month ends, and what \<open>timedelta\<close> arithmetic does to them.
\<close>

definition days_before_year :: "nat \<Rightarrow> nat" where
  "days_before_year y = (y - 1) * 365 + (y - 1) div 4 - (y - 1) div 100 + (y - 1) div 400"

definition days_before_month :: "nat \<Rightarrow> nat \<Rightarrow> nat" where
  "days_before_month y m = sum_list (map (days_in_month y) [1..<m])"

text \<open>\<open>date.toordinal()\<close> and \<open>date.weekday()\<close> (Monday is 0).\<close>

definition ordinal :: "date \<Rightarrow> nat" where
  "ordinal d = days_before_year (date_year d) + days_before_month (date_year d) (date_month d) + date_day d"

definition weekday :: "date \<Rightarrow> nat" where
  "weekday d = (ordinal d + 6) mod 7"

definition month_end :: "date \<Rightarrow> date" where
  "month_end d = Date (date_year d) (date_month d) (days_in_month (date_year d) (date_month d))"

definition weekday_code :: "nat \<Rightarrow> string" where
  \<comment> \<open>\<open>strftime("%a").lower()\<close> in the C locale\<close>
  "weekday_code n = [''mon'', ''tue'', ''wed'', ''thu'', ''fri'', ''sat'', ''sun''] ! (n mod 7)"

lemma days_before_month_Suc:
  "1 \<le> m \<Longrightarrow> days_before_month y (Suc m) = days_before_month y m + days_in_month y m"
  by (simp add: days_before_month_def)

lemma days_before_month_1 [simp]: "days_before_month y (Suc 0) = 0"
  by (simp add: days_before_month_def)

lemma year_length: "days_before_month y 12 + 31 = (if leap_year y then 366 else 365)"
  by (simp add: days_before_month_def days_in_month_def upt_rec)

lemma div_step: "0 < k \<Longrightarrow> Suc n div k = n div k + (if k dvd Suc n then 1 else 0)" for k n :: nat
  by (simp add: div_Suc dvd_eq_mod_eq_0)

lemma days_before_year_Suc:
  assumes "1 \<le> y"
  shows "days_before_year (Suc y) = days_before_year y + (if leap_year y then 366 else 365)"
proof -
  obtain n where y: "y = Suc n" using assms by (cases y) auto
  have le: "n div 100 \<le> n div 4" "Suc n div 100 \<le> Suc n div 4" by (simp_all add: div_le_mono2)
  have steps: "Suc n div 4 = n div 4 + (if 4 dvd Suc n then 1 else 0)"
    "Suc n div 100 = n div 100 + (if 100 dvd Suc n then 1 else 0)"
    "Suc n div 400 = n div 400 + (if 400 dvd Suc n then 1 else 0)" by (simp_all only: div_step zero_less_numeral)
  have up: "100 dvd Suc n \<longrightarrow> 4 dvd Suc n" "400 dvd Suc n \<longrightarrow> 100 dvd Suc n"
    using dvd_trans [of 4 100 "Suc n"] dvd_trans [of 100 400 "Suc n"] by simp_all
  define A B C where "A = n div 4" and "B = n div 100" and "C = n div 400"
  from le(1) obtain K where K: "A = B + K" unfolding A_def B_def using le_Suc_ex by blast
  show ?thesis
    unfolding days_before_year_def leap_year_def y diff_Suc_1 steps A_def [symmetric] B_def [symmetric] C_def [symmetric] K
    using up by (cases "4 dvd Suc n"; cases "100 dvd Suc n"; cases "400 dvd Suc n") simp_all
qed

text \<open>One day later is one more on the ordinal and on the weekday.\<close>

lemma ordinal_next_day:
  assumes "valid_date d" and "1 \<le> date_year d"
  shows "ordinal (next_day d) = Suc (ordinal d)"
proof (cases "date_day d < days_in_month (date_year d) (date_month d)")
  case True
  then show ?thesis by (simp add: ordinal_def next_day_def)
next
  case last: False
  then have day: "date_day d = days_in_month (date_year d) (date_month d)" and m: "1 \<le> date_month d"
    using assms(1) by (auto simp: valid_date_def)
  show ?thesis
  proof (cases "date_month d < 12")
    case True
    then show ?thesis using last day m by (simp add: ordinal_def next_day_def days_before_month_Suc)
  next
    case False
    then have "date_month d = 12" using assms(1) by (simp add: valid_date_def)
    then show ?thesis
      using last day days_before_year_Suc [OF assms(2)] year_length [of "date_year d"]
      by (simp add: ordinal_def next_day_def days_in_month_def split: if_splits)
  qed
qed

lemma weekday_next_day:
  "valid_date d \<Longrightarrow> 1 \<le> date_year d \<Longrightarrow> weekday (next_day d) = (weekday d + 1) mod 7"
  by (simp add: weekday_def ordinal_next_day mod_Suc_eq)

lemma next_prev_day:
  assumes "valid_date d" and "1 < date_year d"
  shows "next_day (prev_day d) = d" and "valid_date (prev_day d)"
proof -
  obtain y m k where d: "d = Date y m k" by (cases d)
  have v: "1 \<le> m" "m \<le> 12" "1 \<le> k" "k \<le> days_in_month y m" "1 < y"
    using assms by (simp_all add: valid_date_def d)
  have "next_day (prev_day d) = d \<and> valid_date (prev_day d)"
  proof (cases "1 < k")
    case True
    then obtain j where "k = Suc j" "1 \<le> j" by (cases k) auto
    with v show ?thesis by (simp add: d prev_day_def next_day_def valid_date_def)
  next
    case False
    then have k: "k = 1" using v by simp
    show ?thesis
    proof (cases "1 < m")
      case True
      then obtain j where "m = Suc j" "1 \<le> j" by (cases m) auto
      with v k days_in_month_bounds(1) [of y j] show ?thesis
        by (simp add: d prev_day_def next_day_def valid_date_def)
    next
      case False
      with v k show ?thesis by (simp add: d prev_day_def next_day_def valid_date_def days_in_month_def)
    qed
  qed
  then show "next_day (prev_day d) = d" and "valid_date (prev_day d)" by simp_all
qed

lemma next_days_valid: "valid_date d \<Longrightarrow> valid_date ((next_day ^^ n) d)"
  by (induction n) (simp_all add: valid_next_day)

lemma next_day_year: "date_year d \<le> date_year (next_day d)"
  by (simp add: next_day_def)

lemma prev_day_year: "date_year d - 1 \<le> date_year (prev_day d)"
  by (simp add: prev_day_def)

text \<open>Going back \<open>n\<close> days and forward again.\<close>

lemma prev_days:
  assumes "valid_date d" and "n < date_year d"
  shows "valid_date ((prev_day ^^ n) d) \<and> date_year d - n \<le> date_year ((prev_day ^^ n) d) \<and>
    (next_day ^^ n) ((prev_day ^^ n) d) = d"
  using assms(2)
proof (induction n)
  case 0
  then show ?case using assms(1) by simp
next
  case (Suc n)
  let ?p = "(prev_day ^^ n) d"
  have ih: "valid_date ?p" "date_year d - n \<le> date_year ?p" "(next_day ^^ n) ?p = d" using Suc by simp_all
  then have "1 < date_year ?p" using Suc.prems by simp
  note step = next_prev_day [OF ih(1) this]
  have "(next_day ^^ Suc n) (prev_day ?p) = (next_day ^^ n) ?p" by (simp add: funpow_Suc_right step(1) del: funpow.simps)
  then show ?case using step(2) ih prev_day_year [of ?p] Suc.prems by simp
qed

lemma add_days_back:
  "valid_date d \<Longrightarrow> n < date_year d \<Longrightarrow> add_days (int n) (add_days (- int n) d) = d"
  using prev_days [of d n] by (cases "n = 0") (simp_all add: add_days_def)

end
