(* ===== verification/Endpoints.thy ===== *)
theory Endpoints
  imports Policies
begin

text \<open>
  What the handlers of \<open>apps/site_management/api.py\<close> share: the permission checks that open
  them and the lookups that answer 404. The validation of the payloads by their schemas and the
  response bodies are not modelled.
\<close>

section \<open>Checks and lookups\<close>

definition permit :: "bool \<Rightarrow> 'a res \<Rightarrow> 'a res" where
  "permit p k = (if p then k else Inl PermissionDenied)"

definition found :: "'r option \<Rightarrow> ('r \<Rightarrow> 'a res) \<Rightarrow> 'a res" where
  "found x f = (case x of None \<Rightarrow> Inl Http404 | Some r \<Rightarrow> f r)"

definition load_site_or_404 :: "db \<Rightarrow> nat \<Rightarrow> 'a res \<Rightarrow> 'a res" where
  "load_site_or_404 d k f = found (tbl_get (sites d) k) (\<lambda>s. if si_is_active s then f else Inl Http404)"

definition load_or_404 :: "'r table \<Rightarrow> nat \<Rightarrow> (nat \<times> 'r \<Rightarrow> 'a res) \<Rightarrow> 'a res" where
  "load_or_404 t k f = found (tbl_get t k) (\<lambda>r. f (k, r))"

text \<open>The default manager of the archivable models sees their active rows only.\<close>

definition active_row :: "('r \<Rightarrow> bool) \<Rightarrow> 'r table \<Rightarrow> nat \<Rightarrow> 'r option" where
  "active_row active t k = (case tbl_get t k of None \<Rightarrow> None | Some r \<Rightarrow> if active r then Some r else None)"

lemma active_row_Some [res_simps]: "active_row active t k = Some r \<longleftrightarrow> tbl_get t k = Some r \<and> active r"
  by (auto simp: active_row_def split: option.splits)

lemma permit_Inr [res_simps]: "permit p k = Inr x \<longleftrightarrow> p \<and> k = Inr x"
  by (simp add: permit_def)

lemma found_Inr [res_simps]: "found x f = Inr y \<longleftrightarrow> (\<exists>r. x = Some r \<and> f r = Inr y)"
  by (simp add: found_def res_simps)

lemma load_site_Inr [res_simps]:
  "load_site_or_404 d k f = Inr x \<longleftrightarrow> (\<exists>s. tbl_get (sites d) k = Some s \<and> si_is_active s) \<and> f = Inr x"
  by (auto simp: load_site_or_404_def res_simps)

lemma load_Inr [res_simps]:
  "load_or_404 t k f = Inr x \<longleftrightarrow> (\<exists>r. tbl_get t k = Some r \<and> f (k, r) = Inr x)"
  by (simp add: load_or_404_def res_simps)

section \<open>Role checks\<close>

definition report_read :: "user \<Rightarrow> bool" where
  "report_read u \<longleftrightarrow> management_required u \<or> is_management_viewer u"

definition issues_manage :: "env \<Rightarrow> db \<Rightarrow> user \<Rightarrow> nat \<Rightarrow> bool" where
  "issues_manage e d u site \<longleftrightarrow> report_read u \<and> user_can_manage_site e d u (Some site)"

definition report_review :: "user \<Rightarrow> bool" where
  "report_review u \<longleftrightarrow> is_system_admin u \<or>
     u_role u \<in> {GENERAL_SUPERVISOR, ASSISTANT_GENERAL_SUPERVISOR, ZONE_SUPERVISOR}"

definition assistant_report_manage :: "user \<Rightarrow> bool" where
  "assistant_report_manage u \<longleftrightarrow> is_system_admin u \<or> u_role u \<in> {GENERAL_SUPERVISOR, ASSISTANT_GENERAL_SUPERVISOR}"

definition general_report_manage :: "user \<Rightarrow> bool" where
  "general_report_manage u \<longleftrightarrow> is_system_admin u \<or> u_role u = GENERAL_SUPERVISOR"

text \<open>A management viewer passes the read checks and none of the others.\<close>

lemma viewer_reads_only:
  "is_management_viewer u \<Longrightarrow> \<not> u_is_superuser u \<Longrightarrow>
     report_read u \<and> \<not> issues_manage e d u s \<and> \<not> report_review u \<and> \<not> assistant_report_manage u \<and>
     \<not> general_report_manage u"
  using viewer_cannot_manage [of u e d "Some s"]
  by (simp add: report_read_def issues_manage_def report_review_def assistant_report_manage_def
      general_report_manage_def is_management_viewer_def is_system_admin_def)

end
