(* ===== verification/Reporting.thy ===== *)
theory Reporting
  imports Endpoints Store Calendar
begin

text \<open>
  The reporting chain (\<open>apps/site_management/reporting_services.py\<close>): the aggregates of a site
  and a day, the daily site report, the zone and assistant summaries, the management report, and
  the weekly site report. A service that changes a report takes the instance the caller holds and
  saves all its columns; the report caches are not modelled.
\<close>

section \<open>What the reports read besides the rows\<close>

text \<open>
  The columns no service writes by itself (creation times, e-mail addresses), the day bounds of
  \<open>timezone.make_aware\<close>, and the two floating-point results the reports contain: the attendance
  rate \<open>round((a / b) * 100, 2)\<close> and the average of the scores as the database returns it.
\<close>

record report_env =
  issue_created_at :: "nat \<Rightarrow> nat"
  job_created_on :: "nat \<Rightarrow> date"
  user_email :: "nat \<Rightarrow> string"
  day_start :: "date \<Rightarrow> nat"
  day_end :: "date \<Rightarrow> nat"
  rate_of :: "nat \<Rightarrow> nat \<Rightarrow> rat"
  average_of :: "rat list \<Rightarrow> rat"

section \<open>Aggregates of a site and a day\<close>

definition count_where :: "('r \<Rightarrow> bool) \<Rightarrow> (nat \<times> 'r) list \<Rightarrow> nat" where
  "count_where P rs = length (filter (\<lambda>(_, r). P r) rs)"

definition review_value :: "attendance_review_status \<Rightarrow> string" where
  "review_value s = (case s of RV_DRAFT \<Rightarrow> ''draft'' | RV_SUBMITTED \<Rightarrow> ''submitted'' | RV_REVIEWED \<Rightarrow> ''reviewed''
     | RV_RETURNED \<Rightarrow> ''returned'' | RV_LOCKED \<Rightarrow> ''locked'')"

definition review_counts :: "(nat \<times> attendance_record) list \<Rightarrow> (string \<times> nat) list" where
  "review_counts rs = filter (\<lambda>(_, n). n \<noteq> 0)
     (map (\<lambda>s. (review_value s, count_where (\<lambda>r. ar_review_status r = s) rs))
       [RV_DRAFT, RV_SUBMITTED, RV_REVIEWED, RV_RETURNED, RV_LOCKED])"

definition attendance_data :: "report_env \<Rightarrow> db \<Rightarrow> nat \<Rightarrow> date \<Rightarrow> attendance_summary" where
  "attendance_data q d site day =
     (let rs = tbl_where (\<lambda>_ r. ar_site r = site \<and> ar_attendance_date r = day) (attendance d);
          n = (\<lambda>s. count_where (\<lambda>r. ar_status r = s) rs);
          attended = n AT_PRESENT + n AT_LATE;
          denominator = attended + n AT_ABSENT
      in \<lparr>aa_total = length rs, aa_present = n AT_PRESENT, aa_late = n AT_LATE, aa_absent = n AT_ABSENT,
          aa_sick = n AT_SICK, aa_leave = n AT_LEAVE, aa_permission = n AT_PERMISSION, aa_off = n AT_OFF,
          aa_rate = (if denominator \<noteq> 0 then rate_of q attended denominator else 0),
          aa_review = review_counts rs\<rparr>)"

definition store_data :: "db \<Rightarrow> nat \<Rightarrow> date \<Rightarrow> store_summary" where
  "store_data d site day =
     (let ms = tbl_where (\<lambda>_ m. item_site d (mv_store_item m) = Some site \<and> mv_movement_date m = day) (movements d);
          n = (\<lambda>t. count_where (\<lambda>m. mv_movement_type m = t) ms)
      in \<lparr>ss_movements = length ms, ss_received = n RECEIVED, ss_issued = n ISSUED,
          ss_damaged_lost = n DAMAGED + n LOST,
          ss_low_stock_items = length (tbl_where (\<lambda>k it. it_is_active it \<and> item_site d k = Some site \<and> low_stock it) (items d))\<rparr>)"

definition inspection_data :: "report_env \<Rightarrow> db \<Rightarrow> nat \<Rightarrow> date \<Rightarrow> inspection_summary" where
  "inspection_data q d site day =
     (let rs = tbl_where (\<lambda>_ i. in_site i = site \<and> in_inspection_date i = day \<and> in_status i \<noteq> IN_DRAFT) (inspections d);
          n = (\<lambda>v. count_where (\<lambda>i. in_overall_status i = Some v) rs);
          scores = List.map_filter (\<lambda>(_, i). in_score i) rs
      in \<lparr>iz_total = length rs, iz_passed = n OV_PASSED, iz_failed = n OV_FAILED,
          iz_needs_attention = n OV_NEEDS_ATTENTION,
          iz_average_score = (if scores = [] then 0 else average_of q scores)\<rparr>)"

definition trainee_data :: "db \<Rightarrow> nat \<Rightarrow> date \<Rightarrow> trainee_summary" where
  "trainee_data d site day =
     (let rs = tbl_where (\<lambda>_ p. tp_site p = site \<and> tp_start_date p \<le> day) (programs d);
          n = (\<lambda>s. count_where (\<lambda>p. tp_status p = s) rs)
      in \<lparr>ts_in_training = n TP_IN_TRAINING, ts_extended = n TP_EXTENDED, ts_passed = n TP_PASSED,
          ts_failed = n TP_FAILED, ts_dropped = n TP_DROPPED,
          ts_active_today = count_where (\<lambda>p. tp_status p \<in> {TP_IN_TRAINING, TP_EXTENDED}) rs\<rparr>)"

definition issue_data :: "report_env \<Rightarrow> db \<Rightarrow> nat \<Rightarrow> date \<Rightarrow> issues_summary" where
  "issue_data q d site day =
     (let rs = tbl_where (\<lambda>_ i. is_site i = site) (issues d)
      in \<lparr>us_raised_today = length (filter (\<lambda>(k, _). day_start q day \<le> issue_created_at q k \<and>
            issue_created_at q k \<le> day_end q day) rs),
          us_open = count_where (\<lambda>i. is_status i \<noteq> IS_CLOSED) rs,
          us_escalated = count_where is_is_escalated rs,
          us_urgent = count_where (\<lambda>i. is_priority i = PR_URGENT \<and> is_status i \<noteq> IS_CLOSED) rs\<rparr>)"

definition site_data_snapshot :: "env \<Rightarrow> report_env \<Rightarrow> db \<Rightarrow> nat \<Rightarrow> date \<Rightarrow> site_snapshot" where
  "site_data_snapshot e q d site day =
     \<lparr>sn_attendance = attendance_data q d site day, sn_store = store_data d site day,
      sn_inspections = inspection_data q d site day, sn_trainees = trainee_data d site day,
      sn_issues = issue_data q d site day, sn_generated_at = now e, sn_challenges = None\<rparr>"

definition apply_snapshot :: "site_snapshot \<Rightarrow> site_report \<Rightarrow> site_report" where
  "apply_snapshot s r = r\<lparr>sr_attendance_summary := Some (sn_attendance s), sr_store_summary := Some (sn_store s),
     sr_inspection_summary := Some (sn_inspections s), sr_trainee_summary := Some (sn_trainees s),
     sr_issues_summary := Some (sn_issues s)\<rparr>"

section \<open>Audit and events\<close>

definition audit_after :: "audit_action \<Rightarrow> string \<Rightarrow> nat \<Rightarrow> snapshot \<Rightarrow> user \<Rightarrow> db \<Rightarrow> db" where
  "audit_after action model_name k snap u d = record_audit action (Some (u_pk u)) model_name k None (Some snap) d"

definition emit_report :: "string \<Rightarrow> string \<Rightarrow> nat \<Rightarrow> date \<Rightarrow> user \<Rightarrow> db \<Rightarrow> db" where
  "emit_report event model_name k day u d = publish_domain_event event model_name k
     [(''id'', JNat k), (''report_date'', JDate day)] (Some (u_pk u)) d"

section \<open>Site reports\<close>

definition SITE_REPORT :: string where "SITE_REPORT = ''site_management.dailysitereport''"
definition ZONE_REPORT :: string where "ZONE_REPORT = ''site_management.zonesummaryreport''"
definition ASSISTANT_REPORT :: string where "ASSISTANT_REPORT = ''site_management.assistantgeneralsummaryreport''"
definition GENERAL_REPORT :: string where "GENERAL_REPORT = ''site_management.generalmanagementreport''"

definition new_site_report :: "nat \<Rightarrow> date \<Rightarrow> user \<Rightarrow> site_report" where
  "new_site_report site day u =
     \<lparr>sr_site = site, sr_report_date = day, sr_created_by = Some (u_pk u), sr_attendance_summary = None,
      sr_store_summary = None, sr_inspection_summary = None, sr_trainee_summary = None,
      sr_issues_summary = None, sr_general_comments = [], sr_challenges = [], sr_status = SR_DRAFT,
      sr_snapshot = None, sr_submitted_at = None, sr_returned_reason = [], sr_updated_by = Some (u_pk u)\<rparr>"

definition generate_site_report ::
  "env \<Rightarrow> report_env \<Rightarrow> nat \<Rightarrow> date \<Rightarrow> user \<Rightarrow> db \<Rightarrow> (nat \<times> db) res" where
  "generate_site_report e q site day u d =
     (if tbl_get (sites d) site = None then Inl (ValidationError [])
      else
        let ((k, r), t) = get_or_create (\<lambda>r. sr_site r = site \<and> sr_report_date r = day)
              (new_site_report site day u) (site_reports d)
        in if sr_status r \<noteq> SR_DRAFT then Inl (ValidationError ''report_not_draft'')
           else
             let r' = (apply_snapshot (site_data_snapshot e q d site day) r)\<lparr>sr_snapshot := None,
                   sr_updated_by := Some (u_pk u)\<rparr>
             in Inr (k, audit_after A_UPDATE SITE_REPORT k (SnapSiteReport r') u
                  (d\<lparr>site_reports := tbl_put k r' t\<rparr>)))"

text \<open>The columns a submission writes.\<close>

definition submitted_site_report :: "env \<Rightarrow> report_env \<Rightarrow> db \<Rightarrow> user \<Rightarrow> site_report \<Rightarrow> site_report" where
  "submitted_site_report e q d u r =
     (let s = site_data_snapshot e q d (sr_site r) (sr_report_date r)
      in (apply_snapshot s r)\<lparr>sr_snapshot := Some (s\<lparr>sn_challenges := Some (sr_challenges r)\<rparr>),
           sr_status := SR_SUBMITTED, sr_submitted_at := Some (now e), sr_returned_reason := [],
           sr_updated_by := Some (u_pk u)\<rparr>)"

definition submit_site_report :: "env \<Rightarrow> report_env \<Rightarrow> nat \<times> site_report \<Rightarrow> user \<Rightarrow> db \<Rightarrow> db res" where
  "submit_site_report e q x u d =
     (let k = fst x; r = snd x in
      ensure (can_submit_site_report e d u (sr_site r))
        (if sr_status r \<notin> {SR_DRAFT, SR_RETURNED} then Inl (ValidationError ''invalid_status'')
         else
           let r' = submitted_site_report e q d u r
           in Inr (emit_report ''SiteReportSubmitted'' SITE_REPORT k (sr_report_date r') u
                (audit_after A_STATUS_CHANGE SITE_REPORT k (SnapSiteReport r') u
                  (d\<lparr>site_reports := tbl_put k r' (site_reports d)\<rparr>)))))"

definition report_returned_key :: "nat \<Rightarrow> string" where
  "report_returned_key k = ''report-returned:'' @ str_nat k"

definition return_site_report :: "env \<Rightarrow> nat \<times> site_report \<Rightarrow> user \<Rightarrow> string \<Rightarrow> db \<Rightarrow> db res" where
  "return_site_report e x u reason d =
     (let k = fst x; r = snd x in
      ensure (can_review_site_report e d u (sr_site r))
        (if sr_status r \<notin> {SR_SUBMITTED, SR_ZONE_REVIEWED} then Inl (ValidationError ''invalid_status'')
         else if strip reason = [] then Inl (ValidationError ''reason_required'')
         else if 255 < length reason then Inl DataError
         else
           let r' = r\<lparr>sr_status := SR_RETURNED, sr_returned_reason := reason, sr_updated_by := Some (u_pk u)\<rparr>;
               d1 = audit_after A_STATUS_CHANGE SITE_REPORT k (SnapSiteReport r') u
                      (d\<lparr>site_reports := tbl_put k r' (site_reports d)\<rparr>)
           in Inr (case sr_created_by r of None \<Rightarrow> d1
                | Some author \<Rightarrow> notify author ''report_returned'' (Some (u_pk u)) SITE_REPORT (str_nat k)
                    (report_returned_key k) d1)))"

fun advance_target :: "site_report_status \<Rightarrow> site_report_status option" where
  "advance_target SR_SUBMITTED = Some SR_ZONE_REVIEWED"
| "advance_target SR_ZONE_REVIEWED = Some SR_ASSISTANT_REVIEWED"
| "advance_target SR_ASSISTANT_REVIEWED = Some SR_GENERAL_APPROVED"
| "advance_target SR_GENERAL_APPROVED = Some SR_MANAGEMENT_SUBMITTED"
| "advance_target _ = None"

definition advance_site_report :: "nat \<times> site_report \<Rightarrow> user \<Rightarrow> site_report_status \<Rightarrow> db \<Rightarrow> db res" where
  "advance_site_report x u target d =
     (let k = fst x; r = snd x in
      if advance_target (sr_status r) \<noteq> Some target then Inl (ValidationError ''invalid_status'')
      else
        let r' = r\<lparr>sr_status := target, sr_updated_by := Some (u_pk u)\<rparr>
        in Inr (audit_after A_STATUS_CHANGE SITE_REPORT k (SnapSiteReport r') u
             (d\<lparr>site_reports := tbl_put k r' (site_reports d)\<rparr>)))"

definition review_site_report_by_zone :: "env \<Rightarrow> nat \<times> site_report \<Rightarrow> user \<Rightarrow> db \<Rightarrow> db res" where
  "review_site_report_by_zone e x u d =
     ensure (can_review_site_report e d u (sr_site (snd x))) (advance_site_report x u SR_ZONE_REVIEWED d)"

text \<open>
  \<open>recalculate_report_snapshots\<close> runs without a transaction of its own, one report after the
  other, each from the data as it then is; the number of reports and the database.
\<close>

definition recalculate_one :: "env \<Rightarrow> report_env \<Rightarrow> date \<Rightarrow> user \<Rightarrow> nat \<times> site_report \<Rightarrow> db \<Rightarrow> db" where
  "recalculate_one e q day u x d =
     (let k = fst x; r = snd x;
          r' = (apply_snapshot (site_data_snapshot e q d (sr_site r) day) r)\<lparr>sr_updated_by := Some (u_pk u)\<rparr>
      in audit_after A_UPDATE SITE_REPORT k (SnapSiteReport r') u (d\<lparr>site_reports := tbl_put k r' (site_reports d)\<rparr>))"

definition recalculate_report_snapshots :: "env \<Rightarrow> report_env \<Rightarrow> date \<Rightarrow> user \<Rightarrow> db \<Rightarrow> nat \<times> db" where
  "recalculate_report_snapshots e q day u d =
     (let rs = tbl_where (\<lambda>_ r. sr_report_date r = day \<and> sr_status r = SR_DRAFT) (site_reports d)
      in (length rs, fold (recalculate_one e q day u) rs d))"

section \<open>The weekly site report\<close>

text \<open>A day of the weekly report: its date, the status of its daily report, the data.\<close>

type_synonym weekly_day = "date \<times> site_report_status option \<times> site_snapshot"

definition weekly_day :: "env \<Rightarrow> report_env \<Rightarrow> db \<Rightarrow> nat \<Rightarrow> date \<Rightarrow> weekly_day" where
  "weekly_day e q d site day =
     (let existing = tbl_where (\<lambda>_ r. sr_site r = site \<and> sr_report_date r = day) (site_reports d);
          challenges = (case existing of [] \<Rightarrow> [] | (_, r) # _ \<Rightarrow> sr_challenges r)
      in (day, (case existing of [] \<Rightarrow> None | (_, r) # _ \<Rightarrow> Some (sr_status r)),
          (site_data_snapshot e q d site day)\<lparr>sn_challenges := Some challenges\<rparr>))"

definition generate_weekly_site_report ::
  "env \<Rightarrow> report_env \<Rightarrow> nat \<Rightarrow> date \<Rightarrow> user \<Rightarrow> db \<Rightarrow> (weekly_day list \<times> db) res" where
  "generate_weekly_site_report e q site friday u d =
     (if weekday friday \<noteq> 4 then Inl (ValidationError [])
      else case tbl_get (sites d) site of None \<Rightarrow> Inl (ValidationError [])
      | Some s \<Rightarrow>
          let monday = add_days (-4) friday;
              days = map (\<lambda>offset. weekly_day e q d site (add_days (int offset) monday)) [0..<5]
          in Inr (days, audit_after A_UPDATE ''site_management.site'' site (SnapSite s) u d))"

section \<open>Zone summaries\<close>

definition new_zone_report :: "nat \<Rightarrow> date \<Rightarrow> user \<Rightarrow> zone_report" where
  "new_zone_report zone day u =
     \<lparr>zr_zone = zone, zr_report_date = day, zr_zone_supervisor = Some (u_pk u), zr_summary = [],
      zr_issues_extracted = [], zr_site_reports = [], zr_status = ZR_DRAFT, zr_submitted_at = None,
      zr_created_by = Some (u_pk u), zr_updated_by = None\<rparr>"

definition site_name_of :: "db \<Rightarrow> nat \<Rightarrow> string" where
  "site_name_of d k = (case tbl_get (sites d) k of None \<Rightarrow> [] | Some s \<Rightarrow> si_name s)"

definition zone_site_reports :: "db \<Rightarrow> nat \<Rightarrow> date \<Rightarrow> (nat \<times> site_report) list" where
  "zone_site_reports d zone day =
     tbl_where (\<lambda>_ r. (case tbl_get (sites d) (sr_site r) of None \<Rightarrow> False | Some s \<Rightarrow> si_zone s = Some zone) \<and>
       sr_report_date r = day \<and> sr_status r \<in> {SR_SUBMITTED, SR_ZONE_REVIEWED}) (site_reports d)"

definition zone_entry_of :: "db \<Rightarrow> site_report \<Rightarrow> zone_entry" where
  "zone_entry_of d r =
     \<lparr>ze_site = sr_site r, ze_site_name = site_name_of d (sr_site r), ze_status = sr_status r,
      ze_attendance_rate = (case sr_attendance_summary r of None \<Rightarrow> 0 | Some a \<Rightarrow> aa_rate a),
      ze_issues = sr_issues_summary r, ze_inspections = sr_inspection_summary r\<rparr>"

definition issue_count :: "(issues_summary \<Rightarrow> nat) \<Rightarrow> site_report \<Rightarrow> nat" where
  "issue_count f r = (case sr_issues_summary r of None \<Rightarrow> 0 | Some s \<Rightarrow> f s)"

definition extracted_of :: "db \<Rightarrow> site_report \<Rightarrow> extracted_issue" where
  "extracted_of d r =
     \<lparr>xi_site = sr_site r, xi_site_name = site_name_of d (sr_site r), xi_urgent = issue_count us_urgent r,
      xi_escalated = issue_count us_escalated r, xi_open = issue_count us_open r\<rparr>"

definition generate_zone_summary :: "nat \<Rightarrow> date \<Rightarrow> user \<Rightarrow> db \<Rightarrow> (nat \<times> db) res" where
  "generate_zone_summary zone day u d =
     (let ((k, r), t) = get_or_create (\<lambda>r. zr_zone r = zone \<and> zr_report_date r = day) (new_zone_report zone day u)
            (zone_reports d)
      in if tbl_get (zones d) zone = None then Inl IntegrityError
         else if zr_status r \<noteq> ZR_DRAFT then Inl (ValidationError ''report_not_draft'')
         else
           let rs = zone_site_reports d zone day;
               r' = r\<lparr>zr_site_reports := map (\<lambda>(_, sr). zone_entry_of d sr) rs,
                      zr_issues_extracted := map (\<lambda>(_, sr). extracted_of d sr)
                        (filter (\<lambda>(_, sr). issue_count us_urgent sr \<noteq> 0 \<or> issue_count us_escalated sr \<noteq> 0) rs),
                      zr_summary := ''Zone report for '' @ iso_date day @ '': '' @ str_nat (length rs) @ '' site report(s).'',
                      zr_updated_by := Some (u_pk u)\<rparr>
           in Inr (k, audit_after A_UPDATE ZONE_REPORT k (SnapZoneReport r') u (d\<lparr>zone_reports := tbl_put k r' t\<rparr>)))"

definition submit_zone_summary :: "env \<Rightarrow> nat \<times> zone_report \<Rightarrow> user \<Rightarrow> db \<Rightarrow> db res" where
  "submit_zone_summary e x u d =
     (let k = fst x; r = snd x in
      ensure (can_review_zone_report d u (zr_zone r))
        (if zr_status r \<noteq> ZR_DRAFT then Inl (ValidationError ''invalid_status'')
         else
           let r' = r\<lparr>zr_status := ZR_SUBMITTED, zr_submitted_at := Some (now e), zr_updated_by := Some (u_pk u)\<rparr>
           in Inr (emit_report ''ZoneReportSubmitted'' ZONE_REPORT k (zr_report_date r') u
                (audit_after A_STATUS_CHANGE ZONE_REPORT k (SnapZoneReport r') u
                  (d\<lparr>zone_reports := tbl_put k r' (zone_reports d)\<rparr>)))))"

definition return_zone_summary :: "nat \<times> zone_report \<Rightarrow> user \<Rightarrow> string \<Rightarrow> db \<Rightarrow> db res" where
  "return_zone_summary x u reason d =
     (let k = fst x; r = snd x in
      if zr_status r \<noteq> ZR_SUBMITTED then Inl (ValidationError ''invalid_status'')
      else if strip reason = [] then Inl (ValidationError ''reason_required'')
      else
        let r' = r\<lparr>zr_status := ZR_RETURNED, zr_summary := append_line (zr_summary r) (''Returned: '' @ reason),
                   zr_updated_by := Some (u_pk u)\<rparr>
        in Inr (audit_after A_STATUS_CHANGE ZONE_REPORT k (SnapZoneReport r') u
             (d\<lparr>zone_reports := tbl_put k r' (zone_reports d)\<rparr>)))"

section \<open>Assistant general summaries\<close>

definition new_assistant_report :: "date \<Rightarrow> user \<Rightarrow> assistant_report" where
  "new_assistant_report day u =
     \<lparr>as_report_date = day, as_supervisor = Some (u_pk u), as_zone_ids = [], as_summary = [],
      as_problems_extracted = [], as_recommendations = [], as_status = AS_DRAFT, as_submitted_at = None,
      as_created_by = Some (u_pk u), as_updated_by = None\<rparr>"

definition zone_name_of :: "db \<Rightarrow> nat \<Rightarrow> string" where
  "zone_name_of d k = (case tbl_get (zones d) k of None \<Rightarrow> [] | Some z \<Rightarrow> zn_name z)"

text \<open>\<open>Zone.objects\<close> hides archived zones.\<close>

definition selected_zones :: "db \<Rightarrow> nat list option \<Rightarrow> nat list" where
  "selected_zones d zone_ids = map fst (tbl_where (\<lambda>k z. zn_is_active z \<and>
     (case zone_ids of None \<Rightarrow> True | Some ks \<Rightarrow> k \<in> set ks)) (zones d))"

definition zone_problems :: "db \<Rightarrow> date \<Rightarrow> nat list \<Rightarrow> zone_problem list" where
  "zone_problems d day ks =
     concat (map (\<lambda>(_, zr). map (\<lambda>x. (zr_zone zr, zone_name_of d (zr_zone zr), x)) (zr_issues_extracted zr))
       (tbl_where (\<lambda>_ zr. zr_report_date zr = day \<and> zr_zone zr \<in> set ks \<and> zr_status zr = ZR_SUBMITTED) (zone_reports d)))"

definition generate_assistant_summary :: "date \<Rightarrow> user \<Rightarrow> nat list option \<Rightarrow> db \<Rightarrow> (nat \<times> db) res" where
  "generate_assistant_summary day u zone_ids d =
     (let ((k, r), t) = get_or_create (\<lambda>r. as_report_date r = day) (new_assistant_report day u) (assistant_reports d)
      in if as_status r \<noteq> AS_DRAFT then Inl (ValidationError ''report_not_draft'')
         else
           let ks = selected_zones d zone_ids;
               r' = r\<lparr>as_zone_ids := ks, as_problems_extracted := zone_problems d day ks,
                      as_summary := ''Assistant summary for '' @ iso_date day @ '' across '' @
                        str_nat (length ks) @ '' zone(s).'',
                      as_updated_by := Some (u_pk u)\<rparr>
           in Inr (k, audit_after A_UPDATE ASSISTANT_REPORT k (SnapAssistantReport r') u
                (d\<lparr>assistant_reports := tbl_put k r' t\<rparr>)))"

definition submit_assistant_summary :: "env \<Rightarrow> nat \<times> assistant_report \<Rightarrow> user \<Rightarrow> db \<Rightarrow> db res" where
  "submit_assistant_summary e x u d =
     (let k = fst x; r = snd x in
      ensure (can_review_assistant_report u)
        (if as_status r \<noteq> AS_DRAFT then Inl (ValidationError ''invalid_status'')
         else
           let r' = r\<lparr>as_status := AS_SUBMITTED, as_submitted_at := Some (now e), as_updated_by := Some (u_pk u)\<rparr>
           in Inr (emit_report ''AssistantReportSubmitted'' ASSISTANT_REPORT k (as_report_date r') u
                (audit_after A_STATUS_CHANGE ASSISTANT_REPORT k (SnapAssistantReport r') u
                  (d\<lparr>assistant_reports := tbl_put k r' (assistant_reports d)\<rparr>)))))"

definition return_assistant_summary :: "nat \<times> assistant_report \<Rightarrow> user \<Rightarrow> string \<Rightarrow> db \<Rightarrow> db res" where
  "return_assistant_summary x u reason d =
     (let k = fst x; r = snd x in
      if as_status r \<noteq> AS_SUBMITTED then Inl (ValidationError ''invalid_status'')
      else if strip reason = [] then Inl (ValidationError ''reason_required'')
      else
        let r' = r\<lparr>as_status := AS_RETURNED,
                   as_recommendations := append_line (as_recommendations r) (''Returned: '' @ reason),
                   as_updated_by := Some (u_pk u)\<rparr>
        in Inr (audit_after A_STATUS_CHANGE ASSISTANT_REPORT k (SnapAssistantReport r') u
             (d\<lparr>assistant_reports := tbl_put k r' (assistant_reports d)\<rparr>)))"

section \<open>The general management report\<close>

definition job_status_value :: "job_status \<Rightarrow> string" where
  "job_status_value s = (case s of JB_OPEN \<Rightarrow> ''open'' | JB_ASSIGNED \<Rightarrow> ''assigned'' | JB_IN_PROGRESS \<Rightarrow> ''in_progress''
     | JB_COMPLETED \<Rightarrow> ''completed'' | JB_VERIFIED \<Rightarrow> ''verified'' | JB_CLOSED \<Rightarrow> ''closed'' | JB_REOPENED \<Rightarrow> ''reopened'')"

definition cleaner_full_name :: "cleaner \<Rightarrow> string" where
  "cleaner_full_name c = strip (cl_first_name c @ '' '' @ cl_last_name c)"

definition assigned_jobs_snapshot :: "report_env \<Rightarrow> db \<Rightarrow> date \<Rightarrow> job_line list" where
  "assigned_jobs_snapshot q d day =
     map (\<lambda>(k, j). \<lparr>jl_job = k, jl_title = jb_job_title j, jl_site_name = site_name_of d (jb_site j),
        jl_status = job_status_value (jb_status j), jl_due_date = jb_due_date j,
        jl_assignee = (case jb_assigned_to_user j of Some u \<Rightarrow> Some (user_email q u)
          | None \<Rightarrow> (case jb_assigned_to_cleaner j of None \<Rightarrow> None
             | Some c \<Rightarrow> map_option cleaner_full_name (tbl_get (cleaners d) c)))\<rparr>)
       (tbl_where (\<lambda>k _. job_created_on q k = day) (jobs d))"

definition new_general_report :: "date \<Rightarrow> user \<Rightarrow> general_report" where
  "new_general_report day u =
     \<lparr>gr_report_date = day, gr_supervisor = Some (u_pk u), gr_final_summary = [], gr_key_issues = [],
      gr_assigned_jobs = [], gr_recommendations = [], gr_status = GR_DRAFT, gr_submitted_at = None,
      gr_created_by = Some (u_pk u), gr_updated_by = None\<rparr>"

definition key_issues :: "db \<Rightarrow> date \<Rightarrow> zone_problem list" where
  "key_issues d day = concat (map (\<lambda>(_, a). as_problems_extracted a)
     (tbl_where (\<lambda>_ a. as_report_date a = day \<and> as_status a = AS_SUBMITTED) (assistant_reports d)))"

definition generate_general_management_report :: "report_env \<Rightarrow> date \<Rightarrow> user \<Rightarrow> db \<Rightarrow> (nat \<times> db) res" where
  "generate_general_management_report q day u d =
     (let ((k, r), t) = get_or_create (\<lambda>r. gr_report_date r = day) (new_general_report day u) (general_reports d)
      in if gr_status r \<noteq> GR_DRAFT then Inl (ValidationError ''report_not_draft'')
         else
           let xs = key_issues d day; js = assigned_jobs_snapshot q d day;
               r' = r\<lparr>gr_key_issues := xs, gr_assigned_jobs := js, gr_recommendations := ''Awaiting final review.'',
                      gr_final_summary := ''Management report for '' @ iso_date day @ '': '' @ str_nat (length xs) @
                        '' issue(s), '' @ str_nat (length js) @ '' job(s).'',
                      gr_updated_by := Some (u_pk u)\<rparr>
           in Inr (k, audit_after A_UPDATE GENERAL_REPORT k (SnapGeneralReport r') u
                (d\<lparr>general_reports := tbl_put k r' t\<rparr>)))"

definition submit_general_management_report :: "env \<Rightarrow> nat \<times> general_report \<Rightarrow> user \<Rightarrow> db \<Rightarrow> db res" where
  "submit_general_management_report e x u d =
     (let k = fst x; r = snd x in
      ensure (can_submit_general_report u)
        (if gr_status r \<noteq> GR_DRAFT then Inl (ValidationError ''invalid_status'')
         else
           let r' = r\<lparr>gr_status := GR_SUBMITTED_TO_MANAGEMENT, gr_submitted_at := Some (now e),
                      gr_updated_by := Some (u_pk u)\<rparr>
           in Inr (emit_report ''GeneralReportSubmitted'' GENERAL_REPORT k (gr_report_date r') u
                (audit_after A_STATUS_CHANGE GENERAL_REPORT k (SnapGeneralReport r') u
                  (d\<lparr>general_reports := tbl_put k r' (general_reports d)\<rparr>)))))"

section \<open>Selectors\<close>

definition site_report_detail :: "db \<Rightarrow> nat \<Rightarrow> date \<Rightarrow> (nat \<times> site_report) option" where
  "site_report_detail d site day =
     (case tbl_where (\<lambda>_ r. sr_site r = site \<and> sr_report_date r = day) (site_reports d) of [] \<Rightarrow> None | x # _ \<Rightarrow> Some x)"

definition site_reports_for_day :: "env \<Rightarrow> db \<Rightarrow> user \<Rightarrow> date \<Rightarrow> (nat \<times> site_report) list" where
  "site_reports_for_day e d u day =
     tbl_where (\<lambda>_ r. sr_report_date r = day \<and> (is_system_admin u \<or> sr_site r \<in> set (visible_sites e d u)))
       (site_reports d)"

definition missing_site_reports :: "env \<Rightarrow> db \<Rightarrow> user \<Rightarrow> date \<Rightarrow> nat list" where
  "missing_site_reports e d u day =
     filter (\<lambda>s. s \<notin> (\<lambda>(_, r). sr_site r) ` set (tbl_where (\<lambda>_ r. sr_report_date r = day) (site_reports d)))
       (visible_sites e d u)"

definition overdue :: "env \<Rightarrow> date \<Rightarrow> site_report \<Rightarrow> bool" where
  "overdue e day r \<longleftrightarrow> day < localdate e \<and> sr_status r = SR_DRAFT"

section \<open>Endpoints\<close>

text \<open>
  The handlers of \<open>api.py\<close>: what they load, their permission checks, the service they call.
\<close>

definition site_report_generate_endpoint :: "env \<Rightarrow> report_env \<Rightarrow> nat \<Rightarrow> date \<Rightarrow> user \<Rightarrow> db \<Rightarrow> db res" where
  "site_report_generate_endpoint e q site day u d =
     load_site_or_404 d site (permit (issues_manage e d u site) (db_of (generate_site_report e q site day u d)))"

text \<open>The seven lines of the worksheet, saved on the report the generation returns.\<close>

definition site_report_challenges_endpoint ::
  "env \<Rightarrow> report_env \<Rightarrow> nat \<Rightarrow> date \<Rightarrow> user \<Rightarrow> string list \<Rightarrow> db \<Rightarrow> db res" where
  "site_report_challenges_endpoint e q site day u entries d =
     load_site_or_404 d site (permit (issues_manage e d u site)
       (let challenges = map strip entries in
        if 7 < length challenges then Inl (ValidationError [])
        else rbind (generate_site_report e q site day u d) (\<lambda>(k, d1).
          fetch (site_reports d1) k (\<lambda>(k, r).
            let r' = r\<lparr>sr_challenges := challenges, sr_updated_by := Some (u_pk u)\<rparr>
            in Inr (audit_after A_UPDATE SITE_REPORT k (SnapSiteReport r') u
                 (d1\<lparr>site_reports := tbl_put k r' (site_reports d1)\<rparr>))))))"

definition site_report_submit_endpoint :: "env \<Rightarrow> report_env \<Rightarrow> nat \<Rightarrow> date \<Rightarrow> user \<Rightarrow> db \<Rightarrow> db res" where
  "site_report_submit_endpoint e q site day u d =
     found (site_report_detail d site day) (\<lambda>x.
       permit (issues_manage e d u (sr_site (snd x))) (submit_site_report e q x u d))"

definition site_report_return_endpoint :: "env \<Rightarrow> nat \<Rightarrow> date \<Rightarrow> user \<Rightarrow> string \<Rightarrow> db \<Rightarrow> db res" where
  "site_report_return_endpoint e site day u reason d =
     found (site_report_detail d site day) (\<lambda>x. permit (report_review u) (return_site_report e x u reason d))"

definition site_weekly_report_generate_endpoint ::
  "env \<Rightarrow> report_env \<Rightarrow> nat \<Rightarrow> date \<Rightarrow> user \<Rightarrow> db \<Rightarrow> (weekly_day list \<times> db) res" where
  "site_weekly_report_generate_endpoint e q site day u d =
     load_site_or_404 d site (permit (issues_manage e d u site) (generate_weekly_site_report e q site day u d))"

definition zone_report_generate_endpoint :: "nat \<Rightarrow> date \<Rightarrow> user \<Rightarrow> db \<Rightarrow> db res" where
  "zone_report_generate_endpoint zone day u d = permit (report_review u) (db_of (generate_zone_summary zone day u d))"

definition zone_report_submit_endpoint :: "env \<Rightarrow> nat \<Rightarrow> user \<Rightarrow> db \<Rightarrow> db res" where
  "zone_report_submit_endpoint e k u d =
     load_or_404 (zone_reports d) k (\<lambda>x. permit (report_review u) (submit_zone_summary e x u d))"

definition zone_report_return_endpoint :: "nat \<Rightarrow> user \<Rightarrow> string \<Rightarrow> db \<Rightarrow> db res" where
  "zone_report_return_endpoint k u reason d =
     load_or_404 (zone_reports d) k (\<lambda>x. permit (assistant_report_manage u) (return_zone_summary x u reason d))"

definition assistant_report_generate_endpoint :: "date \<Rightarrow> user \<Rightarrow> nat list option \<Rightarrow> db \<Rightarrow> db res" where
  "assistant_report_generate_endpoint day u zone_ids d =
     permit (assistant_report_manage u) (db_of (generate_assistant_summary day u zone_ids d))"

definition assistant_report_submit_endpoint :: "env \<Rightarrow> nat \<Rightarrow> user \<Rightarrow> db \<Rightarrow> db res" where
  "assistant_report_submit_endpoint e k u d =
     load_or_404 (assistant_reports d) k (\<lambda>x. permit (assistant_report_manage u) (submit_assistant_summary e x u d))"

definition assistant_report_return_endpoint :: "nat \<Rightarrow> user \<Rightarrow> string \<Rightarrow> db \<Rightarrow> db res" where
  "assistant_report_return_endpoint k u reason d =
     load_or_404 (assistant_reports d) k (\<lambda>x. permit (general_report_manage u) (return_assistant_summary x u reason d))"

definition general_report_generate_endpoint :: "report_env \<Rightarrow> date \<Rightarrow> user \<Rightarrow> db \<Rightarrow> db res" where
  "general_report_generate_endpoint q day u d =
     permit (general_report_manage u) (db_of (generate_general_management_report q day u d))"

definition general_report_submit_endpoint :: "env \<Rightarrow> nat \<Rightarrow> user \<Rightarrow> db \<Rightarrow> db res" where
  "general_report_submit_endpoint e k u d =
     load_or_404 (general_reports d) k (\<lambda>x. permit (general_report_manage u) (submit_general_management_report e x u d))"

section \<open>Sequences of calls\<close>

text \<open>
  The calls that touch the reports: the endpoints, and the two services only commands and tasks
  call. \<open>Meanwhile\<close> stands for anything that happens to the other tables.
\<close>

datatype report_call =
    GenerateSite nat date user
  | SaveChallenges nat date user "string list"
  | SubmitSite nat date user
  | ReturnSite nat date user string
  | ZoneReview nat user
  | Recalculate date user
  | Weekly nat date user
  | GenerateZone nat date user
  | SubmitZone nat user
  | ReturnZone nat user string
  | GenerateAssistant date user "nat list option"
  | SubmitAssistant nat user
  | ReturnAssistant nat user string
  | GenerateGeneral date user
  | SubmitGeneral nat user
  | Meanwhile db

definition with_reports_of :: "db \<Rightarrow> db \<Rightarrow> db" where
  "with_reports_of d x = x\<lparr>site_reports := site_reports d, zone_reports := zone_reports d,
     assistant_reports := assistant_reports d, general_reports := general_reports d\<rparr>"

text \<open>Each call is made in the environment of its time.\<close>

fun report_step :: "db \<Rightarrow> (env \<times> report_env) \<times> report_call \<Rightarrow> db res" where
  "report_step d ((e, q), GenerateSite site day u) = site_report_generate_endpoint e q site day u d"
| "report_step d ((e, q), SaveChallenges site day u xs) = site_report_challenges_endpoint e q site day u xs d"
| "report_step d ((e, q), SubmitSite site day u) = site_report_submit_endpoint e q site day u d"
| "report_step d ((e, q), ReturnSite site day u reason) = site_report_return_endpoint e site day u reason d"
| "report_step d ((e, q), ZoneReview k u) = fetch (site_reports d) k (\<lambda>x. review_site_report_by_zone e x u d)"
| "report_step d ((e, q), Recalculate day u) = Inr (snd (recalculate_report_snapshots e q day u d))"
| "report_step d ((e, q), Weekly site day u) = db_of (site_weekly_report_generate_endpoint e q site day u d)"
| "report_step d ((e, q), GenerateZone zone day u) = zone_report_generate_endpoint zone day u d"
| "report_step d ((e, q), SubmitZone k u) = zone_report_submit_endpoint e k u d"
| "report_step d ((e, q), ReturnZone k u reason) = zone_report_return_endpoint k u reason d"
| "report_step d ((e, q), GenerateAssistant day u ks) = assistant_report_generate_endpoint day u ks d"
| "report_step d ((e, q), SubmitAssistant k u) = assistant_report_submit_endpoint e k u d"
| "report_step d ((e, q), ReturnAssistant k u reason) = assistant_report_return_endpoint k u reason d"
| "report_step d ((e, q), GenerateGeneral day u) = general_report_generate_endpoint q day u d"
| "report_step d ((e, q), SubmitGeneral k u) = general_report_submit_endpoint e k u d"
| "report_step d ((e, q), Meanwhile x) = Inr (with_reports_of d x)"

section \<open>Rows and how calls move them\<close>

definition site_key :: "site_report \<Rightarrow> nat \<times> date" where
  "site_key r = (sr_site r, sr_report_date r)"

text \<open>The snapshot holds what the columns of the report show.\<close>

definition evidence_matches :: "site_report \<Rightarrow> site_snapshot \<Rightarrow> bool" where
  "evidence_matches r s \<longleftrightarrow>
     sr_attendance_summary r = Some (sn_attendance s) \<and> sr_store_summary r = Some (sn_store s) \<and>
     sr_inspection_summary r = Some (sn_inspections s) \<and> sr_trainee_summary r = Some (sn_trainees s) \<and>
     sr_issues_summary r = Some (sn_issues s) \<and> sn_challenges s = Some (sr_challenges r)"

definition site_report_ok :: "site_report \<Rightarrow> bool" where
  "site_report_ok r \<longleftrightarrow>
     (if sr_status r = SR_DRAFT then sr_snapshot r = None \<and> sr_submitted_at r = None
      else sr_submitted_at r \<noteq> None \<and>
        (case sr_snapshot r of None \<Rightarrow> False | Some s \<Rightarrow> evidence_matches r s))"

text \<open>What a submission fixes.\<close>

definition evidence :: "site_report \<Rightarrow> site_snapshot option \<times> string list \<times> nat option" where
  "evidence r = (sr_snapshot r, sr_challenges r, sr_submitted_at r)"

fun site_report_edge :: "site_report_status \<Rightarrow> site_report_status \<Rightarrow> bool" where
  "site_report_edge SR_DRAFT SR_SUBMITTED = True"
| "site_report_edge SR_RETURNED SR_SUBMITTED = True"
| "site_report_edge SR_SUBMITTED SR_ZONE_REVIEWED = True"
| "site_report_edge SR_SUBMITTED SR_RETURNED = True"
| "site_report_edge SR_ZONE_REVIEWED SR_RETURNED = True"
| "site_report_edge _ _ = False"

definition site_report_moves :: "site_report \<Rightarrow> site_report \<Rightarrow> bool" where
  "site_report_moves r s \<longleftrightarrow> site_key s = site_key r \<and>
     (sr_status s = sr_status r \<or> site_report_edge (sr_status r) (sr_status s)) \<and>
     (sr_status r \<notin> {SR_DRAFT, SR_RETURNED} \<longrightarrow> evidence s = evidence r)"

text \<open>The moves of a report that is still a draft; they compose.\<close>

definition draft_moves :: "site_report \<Rightarrow> site_report \<Rightarrow> bool" where
  "draft_moves r s \<longleftrightarrow> s = r \<or> site_key s = site_key r \<and> sr_status r = SR_DRAFT \<and> sr_status s = SR_DRAFT"

abbreviation site_reports_ok :: "site_report table \<Rightarrow> bool" where
  "site_reports_ok \<equiv> table_ok site_report_ok site_key"

abbreviation site_reports_drafted :: "site_report table \<Rightarrow> site_report table \<Rightarrow> bool" where
  "site_reports_drafted \<equiv> table_moved site_report_ok site_key draft_moves"

abbreviation site_reports_moved :: "site_report table \<Rightarrow> site_report table \<Rightarrow> bool" where
  "site_reports_moved \<equiv> table_moved site_report_ok site_key site_report_moves"

lemma site_report_moves_refl [simp]: "site_report_moves r r"
  by (simp add: site_report_moves_def)

lemma draft_moves_refl [simp]: "draft_moves r r"
  by (simp add: draft_moves_def)

lemma draft_moves_trans: "draft_moves a b \<Longrightarrow> draft_moves b c \<Longrightarrow> draft_moves a c"
  by (auto simp: draft_moves_def)

lemma drafted_moved: "site_reports_drafted t t' \<Longrightarrow> site_reports_moved t t'"
  by (erule table_moved_mono) (auto simp: draft_moves_def site_report_moves_def)

lemma apply_snapshot_keeps [simp]:
  "site_key (apply_snapshot s r) = site_key r" "sr_status (apply_snapshot s r) = sr_status r"
  "sr_snapshot (apply_snapshot s r) = sr_snapshot r" "sr_submitted_at (apply_snapshot s r) = sr_submitted_at r"
  "sr_challenges (apply_snapshot s r) = sr_challenges r"
  by (simp_all add: apply_snapshot_def site_key_def)

lemma site_key_update [simp]:
  "site_key (r\<lparr>sr_snapshot := a\<rparr>) = site_key r" "site_key (r\<lparr>sr_updated_by := b\<rparr>) = site_key r"
  "site_key (r\<lparr>sr_challenges := c\<rparr>) = site_key r" "site_key (r\<lparr>sr_status := st\<rparr>) = site_key r"
  "site_key (r\<lparr>sr_returned_reason := x\<rparr>) = site_key r" "site_key (r\<lparr>sr_submitted_at := w\<rparr>) = site_key r"
  by (simp_all add: site_key_def)

lemma new_site_report_ok [simp]: "site_report_ok (new_site_report site day u)"
  by (simp add: site_report_ok_def new_site_report_def)

lemma audit_emit_frame [simp]:
  "site_reports (audit_after a m k s u d) = site_reports d" "zone_reports (audit_after a m k s u d) = zone_reports d"
  "assistant_reports (audit_after a m k s u d) = assistant_reports d" "general_reports (audit_after a m k s u d) = general_reports d"
  "zones (audit_after a m k s u d) = zones d" "sites (audit_after a m k s u d) = sites d"
  "site_reports (emit_report ev m k day u d) = site_reports d" "zone_reports (emit_report ev m k day u d) = zone_reports d"
  "assistant_reports (emit_report ev m k day u d) = assistant_reports d" "general_reports (emit_report ev m k day u d) = general_reports d"
  "zones (emit_report ev m k day u d) = zones d" "sites (emit_report ev m k day u d) = sites d"
  by (simp_all add: audit_after_def emit_report_def)

section \<open>Site reports: every call\<close>

lemma generate_site_report_drafted:
  assumes ok: "site_reports_ok (site_reports d)" and run: "generate_site_report e q site day u d = Inr (k, d')"
  shows "site_reports_drafted (site_reports d) (site_reports d') \<and>
    (\<exists>r. tbl_get (site_reports d') k = Some r \<and> sr_status r = SR_DRAFT)"
proof -
  obtain j r t where goc: "get_or_create (\<lambda>r. sr_site r = site \<and> sr_report_date r = day)
      (new_site_report site day u) (site_reports d) = ((j, r), t)" by (metis prod.exhaust)
  let ?r = "(apply_snapshot (site_data_snapshot e q d site day) r)\<lparr>sr_snapshot := None, sr_updated_by := Some (u_pk u)\<rparr>"
  have draft: "sr_status r = SR_DRAFT" and k: "k = j" and d': "site_reports d' = tbl_put j ?r t"
    using run by (auto simp: generate_site_report_def goc Let_def split: if_splits)
  have "site_reports_drafted (site_reports d) (tbl_put j ?r t) \<and> tbl_get (tbl_put j ?r t) j = Some ?r"
    by (rule table_moved_get_or_create [OF ok goc])
      (use draft get_or_create_result [OF goc table_okD(1) [OF ok]] table_okD(3) [OF ok] in
        \<open>auto simp: site_key_def new_site_report_def draft_moves_def site_report_ok_def apply_snapshot_def\<close>)
  with draft show ?thesis by (auto simp: k d')
qed

lemma challenges_drafted:
  assumes ok: "site_reports_ok (site_reports d)"
    and run: "site_report_challenges_endpoint e q site day u xs d = Inr d'"
  shows "site_reports_drafted (site_reports d) (site_reports d')"
proof -
  obtain k d1 r where gen: "generate_site_report e q site day u d = Inr (k, d1)"
    and r: "tbl_get (site_reports d1) k = Some r"
    and d': "site_reports d' = tbl_put k (r\<lparr>sr_challenges := map strip xs, sr_updated_by := Some (u_pk u)\<rparr>) (site_reports d1)"
    using run by (auto simp: site_report_challenges_endpoint_def res_simps Let_def split: if_splits)
  have moved: "site_reports_drafted (site_reports d) (site_reports d1)" and draft: "sr_status r = SR_DRAFT"
    using generate_site_report_drafted [OF ok gen] r by auto
  have ok1: "site_reports_ok (site_reports d1)" using moved by (simp add: table_moved_def)
  have "site_reports_drafted (site_reports d1) (site_reports d')"
    unfolding d' by (rule table_moved_put [OF ok1 r])
      (use draft table_okD(3) [OF ok1 r] in \<open>auto simp: draft_moves_def site_report_ok_def\<close>)
  with moved show ?thesis by (rule table_moved_trans) (rule draft_moves_trans)
qed

lemma recalculate_drafted:
  assumes "site_reports_ok (site_reports d)"
    and "\<And>k r. (k, r) \<in> set rs \<Longrightarrow> tbl_get (site_reports d) k = Some r \<and> sr_status r = SR_DRAFT" and "distinct (map fst rs)"
  shows "site_reports_drafted (site_reports d) (site_reports (fold (recalculate_one e q day u) rs d))"
  using assms
proof (induction rs arbitrary: d)
  case Nil
  then show ?case by (simp add: table_moved_same)
next
  case (Cons x rs)
  obtain k r where x: "x = (k, r)" by fastforce
  have r: "tbl_get (site_reports d) k = Some r" "sr_status r = SR_DRAFT" using Cons.prems(2) [of k r] by (simp_all add: x)
  let ?d = "recalculate_one e q day u x d"
  let ?r = "(apply_snapshot (site_data_snapshot e q d (sr_site r) day) r)\<lparr>sr_updated_by := Some (u_pk u)\<rparr>"
  have put: "site_reports ?d = tbl_put k ?r (site_reports d)" by (simp add: recalculate_one_def x Let_def)
  have "site_reports_drafted (site_reports d) (site_reports ?d)"
    unfolding put by (rule table_moved_put [OF Cons.prems(1) r(1)])
      (use r(2) table_okD(3) [OF Cons.prems(1) r(1)] in \<open>auto simp: draft_moves_def site_report_ok_def\<close>)
  moreover from this have "site_reports_ok (site_reports ?d)" by (simp add: table_moved_def)
  then have "site_reports_drafted (site_reports ?d) (site_reports (fold (recalculate_one e q day u) rs ?d))"
  proof (rule Cons.IH)
    show "distinct (map fst rs)" using Cons.prems(3) by simp
    show "tbl_get (site_reports ?d) j = Some s \<and> sr_status s = SR_DRAFT" if "(j, s) \<in> set rs" for j s
    proof -
      have "j \<noteq> k" using that Cons.prems(3) by (auto simp: x image_iff)
      then show ?thesis unfolding put using that Cons.prems(2) [of j s] by (simp add: tbl_get_put)
    qed
  qed
  ultimately show ?case by (auto intro: table_moved_trans draft_moves_trans)
qed

lemma submit_site_report_moved:
  assumes ok: "site_reports_ok (site_reports d)" and r: "tbl_get (site_reports d) k = Some r"
    and run: "submit_site_report e q (k, r) u d = Inr d'"
  shows "site_reports_moved (site_reports d) (site_reports d')"
proof -
  let ?r = "submitted_site_report e q d u r"
  have st: "sr_status r \<in> {SR_DRAFT, SR_RETURNED}" and d': "site_reports d' = tbl_put k ?r (site_reports d)"
    using run by (auto simp: submit_site_report_def res_simps Let_def split: if_splits)
  show ?thesis unfolding d'
    by (rule table_moved_put [OF ok r])
      (use st in \<open>auto simp: submitted_site_report_def Let_def site_report_ok_def evidence_matches_def
        apply_snapshot_def site_key_def site_report_moves_def\<close>)
qed

text \<open>Returning and reviewing keep everything but the status, the reason and the author.\<close>

lemma site_status_moved:
  assumes ok: "site_reports_ok (site_reports d)" and r: "tbl_get (site_reports d) k = Some r"
    and edge: "site_report_edge (sr_status r) st" "sr_status r \<in> {SR_SUBMITTED, SR_ZONE_REVIEWED}"
    and d': "site_reports d' = tbl_put k (r\<lparr>sr_status := st, sr_returned_reason := x, sr_updated_by := y\<rparr>) (site_reports d)"
  shows "site_reports_moved (site_reports d) (site_reports d')"
  unfolding d'
proof (rule table_moved_put [OF ok r])
  have "st \<noteq> SR_DRAFT" using edge(1) by (cases "sr_status r") auto
  then show "site_report_ok (r\<lparr>sr_status := st, sr_returned_reason := x, sr_updated_by := y\<rparr>)"
    using table_okD(3) [OF ok r] edge(2)
    by (auto simp: site_report_ok_def evidence_matches_def split: if_splits option.splits)
qed (use edge in \<open>auto simp: site_report_moves_def evidence_def\<close>)

lemma return_site_report_moved:
  assumes ok: "site_reports_ok (site_reports d)" and r: "tbl_get (site_reports d) k = Some r"
    and run: "return_site_report e (k, r) u reason d = Inr d'"
  shows "site_reports_moved (site_reports d) (site_reports d')"
proof (rule site_status_moved [OF ok r])
  show "sr_status r \<in> {SR_SUBMITTED, SR_ZONE_REVIEWED}"
    and "site_reports d' = tbl_put k (r\<lparr>sr_status := SR_RETURNED, sr_returned_reason := reason,
      sr_updated_by := Some (u_pk u)\<rparr>) (site_reports d)"
    using run by (auto simp: return_site_report_def res_simps Let_def split: if_splits option.splits)
  then show "site_report_edge (sr_status r) SR_RETURNED" by auto
qed

lemma zone_review_moved:
  assumes ok: "site_reports_ok (site_reports d)" and r: "tbl_get (site_reports d) k = Some r"
    and run: "review_site_report_by_zone e (k, r) u d = Inr d'"
  shows "site_reports_moved (site_reports d) (site_reports d')"
proof (rule site_status_moved [OF ok r])
  have st: "advance_target (sr_status r) = Some SR_ZONE_REVIEWED"
    and d': "site_reports d' = tbl_put k (r\<lparr>sr_status := SR_ZONE_REVIEWED, sr_updated_by := Some (u_pk u)\<rparr>) (site_reports d)"
    using run by (auto simp: review_site_report_by_zone_def advance_site_report_def res_simps Let_def split: if_splits)
  from st have "sr_status r = SR_SUBMITTED" by (cases "sr_status r") auto
  then show "site_report_edge (sr_status r) SR_ZONE_REVIEWED" "sr_status r \<in> {SR_SUBMITTED, SR_ZONE_REVIEWED}" by simp_all
  show "site_reports d' = tbl_put k (r\<lparr>sr_status := SR_ZONE_REVIEWED, sr_returned_reason := sr_returned_reason r,
      sr_updated_by := Some (u_pk u)\<rparr>) (site_reports d)"
    by (simp add: d')
qed

section \<open>Which call writes which table\<close>

lemma site_calls_frame:
  "generate_site_report e q site day u d = Inr (k, d') \<Longrightarrow> zone_reports d' = zone_reports d \<and>
     assistant_reports d' = assistant_reports d \<and> general_reports d' = general_reports d"
  "submit_site_report e q x u d = Inr d' \<Longrightarrow> zone_reports d' = zone_reports d \<and>
     assistant_reports d' = assistant_reports d \<and> general_reports d' = general_reports d"
  "return_site_report e x u reason d = Inr d' \<Longrightarrow> zone_reports d' = zone_reports d \<and>
     assistant_reports d' = assistant_reports d \<and> general_reports d' = general_reports d"
  "review_site_report_by_zone e x u d = Inr d' \<Longrightarrow> zone_reports d' = zone_reports d \<and>
     assistant_reports d' = assistant_reports d \<and> general_reports d' = general_reports d"
  by (auto simp: generate_site_report_def submit_site_report_def return_site_report_def review_site_report_by_zone_def
      advance_site_report_def res_simps Let_def split: if_splits option.splits prod.splits)

lemma challenges_frame:
  "site_report_challenges_endpoint e q site day u xs d = Inr d' \<Longrightarrow> zone_reports d' = zone_reports d \<and>
     assistant_reports d' = assistant_reports d \<and> general_reports d' = general_reports d"
  by (auto simp: site_report_challenges_endpoint_def res_simps Let_def dest: site_calls_frame(1) split: if_splits)

lemma recalculate_frame [simp]:
  "zone_reports (fold (recalculate_one e q day u) rs d) = zone_reports d"
  "assistant_reports (fold (recalculate_one e q day u) rs d) = assistant_reports d"
  "general_reports (fold (recalculate_one e q day u) rs d) = general_reports d"
  by (induction rs arbitrary: d) (simp_all add: recalculate_one_def Let_def)

lemma weekly_frame:
  "generate_weekly_site_report e q site day u d = Inr (ws, d') \<Longrightarrow> site_reports d' = site_reports d \<and>
     zone_reports d' = zone_reports d \<and> assistant_reports d' = assistant_reports d \<and> general_reports d' = general_reports d"
  by (auto simp: generate_weekly_site_report_def res_simps Let_def split: if_splits)

lemma zone_calls_frame:
  "generate_zone_summary zone day u d = Inr (k, d') \<Longrightarrow> site_reports d' = site_reports d \<and>
     assistant_reports d' = assistant_reports d \<and> general_reports d' = general_reports d"
  "submit_zone_summary e x u d = Inr d' \<Longrightarrow> site_reports d' = site_reports d \<and>
     assistant_reports d' = assistant_reports d \<and> general_reports d' = general_reports d"
  "return_zone_summary x u reason d = Inr d' \<Longrightarrow> site_reports d' = site_reports d \<and>
     assistant_reports d' = assistant_reports d \<and> general_reports d' = general_reports d"
  by (auto simp: generate_zone_summary_def submit_zone_summary_def return_zone_summary_def res_simps Let_def
      split: if_splits prod.splits)

lemma assistant_calls_frame:
  "generate_assistant_summary day u ks d = Inr (k, d') \<Longrightarrow> site_reports d' = site_reports d \<and>
     zone_reports d' = zone_reports d \<and> general_reports d' = general_reports d"
  "submit_assistant_summary e y u d = Inr d' \<Longrightarrow> site_reports d' = site_reports d \<and>
     zone_reports d' = zone_reports d \<and> general_reports d' = general_reports d"
  "return_assistant_summary y u reason d = Inr d' \<Longrightarrow> site_reports d' = site_reports d \<and>
     zone_reports d' = zone_reports d \<and> general_reports d' = general_reports d"
  by (auto simp: generate_assistant_summary_def submit_assistant_summary_def return_assistant_summary_def res_simps
      Let_def split: if_splits prod.splits)

lemma general_calls_frame:
  "generate_general_management_report q day u d = Inr (k, d') \<Longrightarrow> site_reports d' = site_reports d \<and>
     zone_reports d' = zone_reports d \<and> assistant_reports d' = assistant_reports d"
  "submit_general_management_report e z u d = Inr d' \<Longrightarrow> site_reports d' = site_reports d \<and>
     zone_reports d' = zone_reports d \<and> assistant_reports d' = assistant_reports d"
  by (auto simp: generate_general_management_report_def submit_general_management_report_def res_simps
      Let_def split: if_splits prod.splits)

lemmas endpoint_defs =
  site_report_generate_endpoint_def site_report_submit_endpoint_def
  site_report_return_endpoint_def site_weekly_report_generate_endpoint_def zone_report_generate_endpoint_def
  zone_report_submit_endpoint_def zone_report_return_endpoint_def assistant_report_generate_endpoint_def
  assistant_report_submit_endpoint_def assistant_report_return_endpoint_def general_report_generate_endpoint_def
  general_report_submit_endpoint_def

lemmas call_frames =
  site_calls_frame challenges_frame weekly_frame zone_calls_frame assistant_calls_frame general_calls_frame

lemma with_reports_frame [simp]:
  "site_reports (with_reports_of d x) = site_reports d" "zone_reports (with_reports_of d x) = zone_reports d"
  "assistant_reports (with_reports_of d x) = assistant_reports d" "general_reports (with_reports_of d x) = general_reports d"
  by (simp_all add: with_reports_of_def)

lemma site_report_detail_get:
  assumes "tbl_wf (site_reports d)" and "site_report_detail d site day = Some x"
  shows "tbl_get (site_reports d) (fst x) = Some (snd x)"
proof -
  from assms(2) have "x \<in> set (tbl_where (\<lambda>_ r. sr_site r = site \<and> sr_report_date r = day) (site_reports d))"
    by (auto simp: site_report_detail_def split: list.splits)
  with assms(1) show ?thesis by (cases x) (simp add: tbl_get_mem)
qed

lemma report_step_site_reports:
  assumes ok: "site_reports_ok (site_reports d)" and run: "report_step d ((e, q), c) = Inr d'"
  shows "site_reports_moved (site_reports d) (site_reports d')"
proof -
  note wf = table_okD(1) [OF ok]
  have same: ?thesis if "site_reports d' = site_reports d"
    unfolding that by (rule table_moved_same [OF ok]) simp
  show ?thesis
  proof (cases c)
    case (GenerateSite site day u)
    with run obtain k where "generate_site_report e q site day u d = Inr (k, d')"
      by (auto simp: endpoint_defs res_simps)
    from generate_site_report_drafted [OF ok this] show ?thesis by (blast intro: drafted_moved)
  next
    case (SaveChallenges site day u xs)
    with run show ?thesis by (auto intro: drafted_moved challenges_drafted [OF ok])
  next
    case (SubmitSite site day u)
    with run obtain x where x: "site_report_detail d site day = Some x" "submit_site_report e q x u d = Inr d'"
      by (auto simp: endpoint_defs res_simps)
    from submit_site_report_moved [OF ok site_report_detail_get [OF wf x(1)]] x(2) show ?thesis by simp
  next
    case (ReturnSite site day u reason)
    with run obtain x where x: "site_report_detail d site day = Some x" "return_site_report e x u reason d = Inr d'"
      by (auto simp: endpoint_defs res_simps)
    from return_site_report_moved [OF ok site_report_detail_get [OF wf x(1)]] x(2) show ?thesis by simp
  next
    case (ZoneReview k u)
    with run obtain r where "tbl_get (site_reports d) k = Some r" "review_site_report_by_zone e (k, r) u d = Inr d'"
      by (auto simp: res_simps)
    from zone_review_moved [OF ok this] show ?thesis .
  next
    case (Recalculate day u)
    let ?rs = "tbl_where (\<lambda>_ r. sr_report_date r = day \<and> sr_status r = SR_DRAFT) (site_reports d)"
    have d': "d' = fold (recalculate_one e q day u) ?rs d"
      using run by (simp add: Recalculate recalculate_report_snapshots_def Let_def)
    have "distinct (map fst ?rs)" using wf by (simp add: tbl_wf_def tbl_where_def distinct_map_filter)
    then have "site_reports_drafted (site_reports d) (site_reports d')"
      unfolding d' by (intro recalculate_drafted [OF ok]) (simp_all add: tbl_get_mem [OF wf])
    then show ?thesis by (rule drafted_moved)
  qed (use run in \<open>auto intro!: same simp: endpoint_defs res_simps table_moved_same [OF ok] dest!: call_frames\<close>)
qed

interpretation site_flow: table_flow report_step site_reports site_report_ok site_key site_report_moves
proof
  show "table_moved site_report_ok site_key site_report_moves (site_reports d) (site_reports d')"
    if "table_ok site_report_ok site_key (site_reports d)" "report_step d x = Inr d'" for d x d'
    using that report_step_site_reports [of d "fst (fst x)" "snd (fst x)" "snd x"] by simp
qed simp

section \<open>Summaries: every call\<close>

definition zone_key :: "zone_report \<Rightarrow> nat \<times> date" where
  "zone_key r = (zr_zone r, zr_report_date r)"

definition zone_report_ok :: "zone_report \<Rightarrow> bool" where
  "zone_report_ok r \<longleftrightarrow> (zr_status r = ZR_DRAFT) = (zr_submitted_at r = None)"

fun zone_report_edge :: "zone_report_status \<Rightarrow> zone_report_status \<Rightarrow> bool" where
  "zone_report_edge ZR_DRAFT ZR_SUBMITTED = True"
| "zone_report_edge ZR_SUBMITTED ZR_RETURNED = True"
| "zone_report_edge _ _ = False"

definition zone_report_moves :: "zone_report \<Rightarrow> zone_report \<Rightarrow> bool" where
  "zone_report_moves r s \<longleftrightarrow> zone_key s = zone_key r \<and>
     (zr_status s = zr_status r \<or> zone_report_edge (zr_status r) (zr_status s)) \<and>
     (zr_status r \<noteq> ZR_DRAFT \<longrightarrow> zr_issues_extracted s = zr_issues_extracted r \<and>
        zr_site_reports s = zr_site_reports r \<and> zr_submitted_at s = zr_submitted_at r)"

definition assistant_report_ok :: "assistant_report \<Rightarrow> bool" where
  "assistant_report_ok r \<longleftrightarrow> (as_status r = AS_DRAFT) = (as_submitted_at r = None)"

fun assistant_report_edge :: "assistant_report_status \<Rightarrow> assistant_report_status \<Rightarrow> bool" where
  "assistant_report_edge AS_DRAFT AS_SUBMITTED = True"
| "assistant_report_edge AS_SUBMITTED AS_RETURNED = True"
| "assistant_report_edge _ _ = False"

definition assistant_report_moves :: "assistant_report \<Rightarrow> assistant_report \<Rightarrow> bool" where
  "assistant_report_moves r s \<longleftrightarrow> as_report_date s = as_report_date r \<and>
     (as_status s = as_status r \<or> assistant_report_edge (as_status r) (as_status s)) \<and>
     (as_status r \<noteq> AS_DRAFT \<longrightarrow> as_problems_extracted s = as_problems_extracted r \<and>
        as_zone_ids s = as_zone_ids r \<and> as_submitted_at s = as_submitted_at r)"

lemma summary_moves_refl [simp]: "zone_report_moves r r" "assistant_report_moves a a"
  by (simp_all add: zone_report_moves_def assistant_report_moves_def)

lemma generate_zone_moved:
  assumes ok: "table_ok zone_report_ok zone_key (zone_reports d)"
    and run: "generate_zone_summary zone day u d = Inr (k, d')"
  shows "table_moved zone_report_ok zone_key zone_report_moves (zone_reports d) (zone_reports d')"
proof -
  obtain j r t where goc: "get_or_create (\<lambda>r. zr_zone r = zone \<and> zr_report_date r = day)
      (new_zone_report zone day u) (zone_reports d) = ((j, r), t)" by (metis prod.exhaust)
  obtain a b s where draft: "zr_status r = ZR_DRAFT" and d': "zone_reports d' = tbl_put j
      (r\<lparr>zr_site_reports := a, zr_issues_extracted := b, zr_summary := s, zr_updated_by := Some (u_pk u)\<rparr>) t"
    using run by (auto simp: generate_zone_summary_def goc Let_def split: if_splits)
  have "zone_report_ok r"
    using get_or_create_result [OF goc table_okD(1) [OF ok]] table_okD(3) [OF ok]
    by (auto simp: zone_report_ok_def new_zone_report_def)
  then show ?thesis unfolding d'
    by (intro conjunct1 [OF table_moved_get_or_create [OF ok goc]])
      (use draft in \<open>auto simp: zone_key_def new_zone_report_def zone_report_moves_def zone_report_ok_def\<close>)
qed

lemma zone_put_moved:
  assumes ok: "table_ok zone_report_ok zone_key (zone_reports d)"
    and r: "tbl_get (zone_reports d) k = Some r"
    and run: "submit_zone_summary e (k, r) u d = Inr d' \<or> return_zone_summary (k, r) u reason d = Inr d'"
  shows "table_moved zone_report_ok zone_key zone_report_moves (zone_reports d) (zone_reports d')"
  using run
proof
  assume "submit_zone_summary e (k, r) u d = Inr d'"
  then have st: "zr_status r = ZR_DRAFT" and d': "zone_reports d' = tbl_put k (r\<lparr>zr_status := ZR_SUBMITTED,
      zr_submitted_at := Some (now e), zr_updated_by := Some (u_pk u)\<rparr>) (zone_reports d)"
    by (auto simp: submit_zone_summary_def res_simps Let_def split: if_splits)
  show ?thesis unfolding d' by (rule table_moved_put [OF ok r])
      (use st in \<open>auto simp: zone_key_def zone_report_moves_def zone_report_ok_def\<close>)
next
  assume "return_zone_summary (k, r) u reason d = Inr d'"
  then have st: "zr_status r = ZR_SUBMITTED" and d': "zone_reports d' = tbl_put k (r\<lparr>zr_status := ZR_RETURNED,
      zr_summary := append_line (zr_summary r) (''Returned: '' @ reason), zr_updated_by := Some (u_pk u)\<rparr>) (zone_reports d)"
    by (auto simp: return_zone_summary_def res_simps Let_def split: if_splits)
  show ?thesis unfolding d' by (rule table_moved_put [OF ok r])
      (use st table_okD(3) [OF ok r] in \<open>auto simp: zone_key_def zone_report_moves_def zone_report_ok_def\<close>)
qed

lemma report_step_zone_reports:
  assumes ok: "table_ok zone_report_ok zone_key (zone_reports d)" and run: "report_step d ((e, q), c) = Inr d'"
  shows "table_moved zone_report_ok zone_key zone_report_moves (zone_reports d) (zone_reports d')"
proof -
  have same: ?thesis if "zone_reports d' = zone_reports d"
    unfolding that by (rule table_moved_same [OF ok]) simp
  show ?thesis
  proof (cases c)
    case (GenerateZone zone day u)
    with run obtain k where "generate_zone_summary zone day u d = Inr (k, d')" by (auto simp: endpoint_defs res_simps)
    from generate_zone_moved [OF ok this] show ?thesis .
  next
    case (SubmitZone k u)
    with run obtain r where "tbl_get (zone_reports d) k = Some r" "submit_zone_summary e (k, r) u d = Inr d'"
      by (auto simp: endpoint_defs res_simps)
    with zone_put_moved [OF ok] show ?thesis by blast
  next
    case (ReturnZone k u reason)
    with run obtain r where "tbl_get (zone_reports d) k = Some r" "return_zone_summary (k, r) u reason d = Inr d'"
      by (auto simp: endpoint_defs res_simps)
    with zone_put_moved [OF ok] show ?thesis by blast
  qed (use run in \<open>auto intro!: same simp: endpoint_defs res_simps recalculate_report_snapshots_def Let_def
      table_moved_same [OF ok] dest!: call_frames\<close>)
qed

interpretation zone_flow: table_flow report_step zone_reports zone_report_ok zone_key zone_report_moves
proof
  show "table_moved zone_report_ok zone_key zone_report_moves (zone_reports d) (zone_reports d')"
    if "table_ok zone_report_ok zone_key (zone_reports d)" "report_step d x = Inr d'" for d x d'
    using that report_step_zone_reports [of d "fst (fst x)" "snd (fst x)" "snd x"] by simp
qed simp

lemma assistant_put_moved:
  assumes ok: "table_ok assistant_report_ok as_report_date (assistant_reports d)"
    and r: "tbl_get (assistant_reports d) k = Some r"
    and run: "submit_assistant_summary e (k, r) u d = Inr d' \<or> return_assistant_summary (k, r) u reason d = Inr d'"
  shows "table_moved assistant_report_ok as_report_date assistant_report_moves (assistant_reports d) (assistant_reports d')"
  using run
proof
  assume "submit_assistant_summary e (k, r) u d = Inr d'"
  then have st: "as_status r = AS_DRAFT" and d': "assistant_reports d' = tbl_put k (r\<lparr>as_status := AS_SUBMITTED,
      as_submitted_at := Some (now e), as_updated_by := Some (u_pk u)\<rparr>) (assistant_reports d)"
    by (auto simp: submit_assistant_summary_def res_simps Let_def split: if_splits)
  show ?thesis unfolding d' by (rule table_moved_put [OF ok r])
      (use st in \<open>auto simp: assistant_report_moves_def assistant_report_ok_def\<close>)
next
  assume "return_assistant_summary (k, r) u reason d = Inr d'"
  then have st: "as_status r = AS_SUBMITTED" and d': "assistant_reports d' = tbl_put k (r\<lparr>as_status := AS_RETURNED,
      as_recommendations := append_line (as_recommendations r) (''Returned: '' @ reason),
      as_updated_by := Some (u_pk u)\<rparr>) (assistant_reports d)"
    by (auto simp: return_assistant_summary_def res_simps Let_def split: if_splits)
  show ?thesis unfolding d' by (rule table_moved_put [OF ok r])
      (use st table_okD(3) [OF ok r] in \<open>auto simp: assistant_report_moves_def assistant_report_ok_def\<close>)
qed

lemma generate_assistant_moved:
  assumes ok: "table_ok assistant_report_ok as_report_date (assistant_reports d)"
    and run: "generate_assistant_summary day u ks d = Inr (k, d')"
  shows "table_moved assistant_report_ok as_report_date assistant_report_moves (assistant_reports d) (assistant_reports d')"
proof -
  obtain j r t where goc: "get_or_create (\<lambda>r. as_report_date r = day)
      (new_assistant_report day u) (assistant_reports d) = ((j, r), t)" by (metis prod.exhaust)
  obtain a b s where draft: "as_status r = AS_DRAFT" and d': "assistant_reports d' = tbl_put j
      (r\<lparr>as_zone_ids := a, as_problems_extracted := b, as_summary := s, as_updated_by := Some (u_pk u)\<rparr>) t"
    using run by (auto simp: generate_assistant_summary_def goc Let_def split: if_splits)
  have "assistant_report_ok r"
    using get_or_create_result [OF goc table_okD(1) [OF ok]] table_okD(3) [OF ok]
    by (auto simp: assistant_report_ok_def new_assistant_report_def)
  then show ?thesis unfolding d'
    by (intro conjunct1 [OF table_moved_get_or_create [OF ok goc]])
      (use draft in \<open>auto simp: new_assistant_report_def assistant_report_moves_def assistant_report_ok_def\<close>)
qed

lemma report_step_assistant_reports:
  assumes ok: "table_ok assistant_report_ok as_report_date (assistant_reports d)" and run: "report_step d ((e, q), c) = Inr d'"
  shows "table_moved assistant_report_ok as_report_date assistant_report_moves (assistant_reports d) (assistant_reports d')"
proof -
  have same: ?thesis if "assistant_reports d' = assistant_reports d"
    unfolding that by (rule table_moved_same [OF ok]) simp
  show ?thesis
  proof (cases c)
    case (GenerateAssistant day u ks)
    with run obtain k where "generate_assistant_summary day u ks d = Inr (k, d')" by (auto simp: endpoint_defs res_simps)
    from generate_assistant_moved [OF ok this] show ?thesis .
  next
    case (SubmitAssistant k u)
    with run obtain r where "tbl_get (assistant_reports d) k = Some r" "submit_assistant_summary e (k, r) u d = Inr d'"
      by (auto simp: endpoint_defs res_simps)
    with assistant_put_moved [OF ok] show ?thesis by blast
  next
    case (ReturnAssistant k u reason)
    with run obtain r where "tbl_get (assistant_reports d) k = Some r" "return_assistant_summary (k, r) u reason d = Inr d'"
      by (auto simp: endpoint_defs res_simps)
    with assistant_put_moved [OF ok] show ?thesis by blast
  qed (use run in \<open>auto intro!: same simp: endpoint_defs res_simps recalculate_report_snapshots_def Let_def
      table_moved_same [OF ok] dest!: call_frames\<close>)
qed

interpretation assistant_flow:
  table_flow report_step assistant_reports assistant_report_ok as_report_date assistant_report_moves
proof
  show "table_moved assistant_report_ok as_report_date assistant_report_moves (assistant_reports d) (assistant_reports d')"
    if "table_ok assistant_report_ok as_report_date (assistant_reports d)" "report_step d x = Inr d'" for d x d'
    using that report_step_assistant_reports [of d "fst (fst x)" "snd (fst x)" "snd x"] by simp
qed simp

section \<open>Properties\<close>

text \<open>
  C19: a report that left the draft stage carries its evidence. After any sequence of calls, and
  whatever happens to the rest of the database, every non-draft site report has a submission time
  and a snapshot that agrees with each of its five summaries and its challenges, a draft has
  neither, and a site has at most one report per day.
\<close>

theorem site_reports_carry_evidence:
  assumes "table_ok site_report_ok site_key (site_reports d)" and "d' = run_calls report_step d xs"
    and "tbl_get (site_reports d') k = Some r"
  shows "(sr_status r = SR_DRAFT \<longrightarrow> sr_snapshot r = None \<and> sr_submitted_at r = None) \<and>
    (sr_status r \<noteq> SR_DRAFT \<longrightarrow> sr_submitted_at r \<noteq> None \<and>
       (\<exists>s. sr_snapshot r = Some s \<and> evidence_matches r s)) \<and>
    (\<forall>j t. tbl_get (site_reports d') j = Some t \<and> sr_site t = sr_site r \<and> sr_report_date t = sr_report_date r \<longrightarrow> j = k)"
proof -
  have ok: "site_reports_ok (site_reports d')" unfolding assms(2) by (rule site_flow.run_inv [OF assms(1)])
  have "j = k" if "tbl_get (site_reports d') j = Some t" "sr_site t = sr_site r" "sr_report_date t = sr_report_date r" for j t
    using tbl_uniqueD [OF table_okD(2) [OF ok] that(1) assms(3)] that by (simp add: site_key_def)
  then show ?thesis
    using table_okD(3) [OF ok assms(3)] by (auto simp: site_report_ok_def split: if_splits option.splits)
qed

lemma path_of_moves:
  assumes "mv\<^sup>*\<^sup>* r s" and "\<And>a b. mv a b \<Longrightarrow> st b = st a \<or> edge (st a) (st b)"
  shows "edge\<^sup>*\<^sup>* (st r) (st s)"
  using assms(1)
proof (induction rule: rtranclp_induct)
  case base
  then show ?case by simp
next
  case (step b c)
  with assms(2) [OF step.hyps(2)] show ?case by auto
qed

lemma site_report_path: "site_report_moves\<^sup>*\<^sup>* r s \<Longrightarrow> site_report_edge\<^sup>*\<^sup>* (sr_status r) (sr_status s)"
  by (rule path_of_moves [where mv = site_report_moves and st = sr_status and edge = site_report_edge]) (auto simp: site_report_moves_def)

lemma site_report_reach:
  assumes "site_report_edge\<^sup>*\<^sup>* a b"
  shows "(a \<noteq> SR_DRAFT \<longrightarrow> b \<noteq> SR_DRAFT) \<and>
    (b \<in> {SR_ASSISTANT_REVIEWED, SR_GENERAL_APPROVED, SR_MANAGEMENT_SUBMITTED} \<longrightarrow> a = b)"
  using assms
proof (induction rule: rtranclp_induct)
  case base
  then show ?case by simp
next
  case (step b c)
  then show ?case by (cases b; cases c) auto
qed

text \<open>
  C20: a submitted report is frozen. Once a site report is submitted or reviewed, a sequence of
  calls (with arbitrary changes to attendance, stock, inspections, trainees and issues in between)
  that changes its snapshot, challenges or submission time passes through a state in which the
  report has been returned.
\<close>

theorem submitted_report_frozen:
  assumes "table_ok site_report_ok site_key (site_reports d)" and "tbl_get (site_reports d) k = Some r"
    and "sr_status r \<in> {SR_SUBMITTED, SR_ZONE_REVIEWED}"
    and "tbl_get (site_reports (run_calls report_step d xs)) k = Some r'" and "evidence r' \<noteq> evidence r"
  shows "\<exists>t \<in> set (call_states report_step d xs). \<exists>q. tbl_get (site_reports t) k = Some q \<and> sr_status q = SR_RETURNED"
proof -
  have "\<exists>t \<in> set (call_states report_step d xs). \<exists>q. tbl_get (site_reports t) k = Some q \<and>
      sr_status q \<in> {SR_DRAFT, SR_RETURNED}"
    by (rule site_flow.change_needs_open [where f = evidence, OF _ assms(1,2,4,5)]) (auto simp: site_report_moves_def)
  then obtain t q where t: "t \<in> set (call_states report_step d xs)" and q: "tbl_get (site_reports t) k = Some q"
    "sr_status q \<in> {SR_DRAFT, SR_RETURNED}" by blast
  from site_flow.states_row [OF assms(1,2) t] q(1) have "site_report_moves\<^sup>*\<^sup>* r q" by auto
  from site_report_reach [OF site_report_path [OF this]] assms(3) have "sr_status q \<noteq> SR_DRAFT" by auto
  with t q show ?thesis by auto
qed

text \<open>
  The services never take a site report beyond the zone review: no sequence of calls brings a
  report to one of the last three statuses of the chain unless it was there at the start.
\<close>

theorem chain_stops_at_zone_review:
  assumes "table_ok site_report_ok site_key (site_reports d)" and "tbl_get (site_reports d) k = Some r"
    and "tbl_get (site_reports (run_calls report_step d xs)) k = Some r'"
    and "sr_status r \<notin> {SR_ASSISTANT_REVIEWED, SR_GENERAL_APPROVED, SR_MANAGEMENT_SUBMITTED}"
  shows "sr_status r' \<notin> {SR_ASSISTANT_REVIEWED, SR_GENERAL_APPROVED, SR_MANAGEMENT_SUBMITTED}"
proof -
  from site_flow.run_row [OF assms(1,2), of xs] assms(3) have "site_report_moves\<^sup>*\<^sup>* r r'" by auto
  from site_report_reach [OF site_report_path [OF this]] assms(4) show ?thesis by auto
qed

text \<open>
  A returned zone summary is a dead end. Through any sequence of calls it stays returned, and
  it can neither be generated again nor submitted, so no summary of that zone and day is ever
  submitted again.
\<close>

theorem returned_zone_summary_dead_end:
  assumes "table_ok zone_report_ok zone_key (zone_reports d)" and "tbl_get (zone_reports d) k = Some r"
    and "zr_status r = ZR_RETURNED" and "d' = run_calls report_step d xs"
    and "tbl_get (zone_reports d') j = Some s" and "zr_zone s = zr_zone r" and "zr_report_date s = zr_report_date r"
  shows "j = k \<and> zr_status s = ZR_RETURNED \<and>
    (\<forall>u. \<not> (\<exists>x. generate_zone_summary (zr_zone r) (zr_report_date r) u d' = Inr x)) \<and>
    (\<forall>e u. submit_zone_summary e (j, s) u d' \<in> {Inl Forbidden, Inl (ValidationError ''invalid_status'')})"
proof -
  have ok: "table_ok zone_report_ok zone_key (zone_reports d')" unfolding assms(4) by (rule zone_flow.run_inv [OF assms(1)])
  have "\<exists>r'. tbl_get (zone_reports (run_calls report_step d xs)) k = Some r' \<and>
      (zr_status r' = ZR_RETURNED \<and> zone_key r' = zone_key r)"
    by (rule zone_flow.row_absorbing [OF _ assms(1,2)]) (use assms(3) in \<open>auto simp: zone_report_moves_def\<close>)
  then obtain r' where r': "tbl_get (zone_reports d') k = Some r'" "zr_status r' = ZR_RETURNED" "zone_key r' = zone_key r"
    using assms(4) by blast
  then have jk: "j = k" using tbl_uniqueD [OF table_okD(2) [OF ok] assms(5) r'(1)] assms(6,7) by (simp add: zone_key_def)
  then have s: "zr_status s = ZR_RETURNED" using r' assms(5) by simp
  have "\<not> (\<exists>x. generate_zone_summary (zr_zone r) (zr_report_date r) u d' = Inr x)" for u
  proof -
    obtain i t t' where goc: "get_or_create (\<lambda>y. zr_zone y = zr_zone r \<and> zr_report_date y = zr_report_date r)
        (new_zone_report (zr_zone r) (zr_report_date r) u) (zone_reports d') = ((i, t), t')" by (metis prod.exhaust)
    have ex: "tbl_exists (\<lambda>_ y. zr_zone y = zr_zone r \<and> zr_report_date y = zr_report_date r) (zone_reports d')"
      using assms(5-7) table_okD(1) [OF ok] by (auto simp: tbl_exists_get)
    with get_or_create_result [OF goc table_okD(1) [OF ok]]
    have t: "tbl_get (zone_reports d') i = Some t" "zr_zone t = zr_zone r" "zr_report_date t = zr_report_date r" by auto
    have "i = j" using tbl_uniqueD [OF table_okD(2) [OF ok] t(1) assms(5)] t assms(6,7) by (simp add: zone_key_def)
    with t(1) assms(5) s have "zr_status t = ZR_RETURNED" by simp
    then show ?thesis by (simp add: generate_zone_summary_def goc)
  qed
  moreover have "submit_zone_summary e (j, s) u d' \<in> {Inl Forbidden, Inl (ValidationError ''invalid_status'')}" for e u
    by (simp add: submit_zone_summary_def ensure_def s)
  ultimately show ?thesis using jk s by blast
qed

text \<open>The weekdays of the days after a date.\<close>

lemma weekday_days_after:
  assumes "valid_date m" and "1 \<le> date_year m"
  shows "weekday ((next_day ^^ i) m) = (weekday m + i) mod 7 \<and> 1 \<le> date_year ((next_day ^^ i) m)"
proof (induction i)
  case 0
  then show ?case using assms(2) by (simp add: weekday_def)
next
  case (Suc i)
  have "weekday (next_day ((next_day ^^ i) m)) = (weekday ((next_day ^^ i) m) + 1) mod 7"
    using Suc next_days_valid [OF assms(1)] by (intro weekday_next_day) simp_all
  with Suc next_day_year [of "(next_day ^^ i) m"] show ?case by (simp add: mod_simps)
qed

text \<open>
  The weekly report covers one working week. It is produced only for a Friday, and then it has
  five days, Monday to that Friday, each the day after the one before, and the data of each is the
  snapshot a daily report of that day would take.
\<close>

theorem weekly_report_is_the_week:
  assumes "generate_weekly_site_report e q site friday u d = Inr (ws, d')"
    and "valid_date friday" and "4 < date_year friday"
  shows "map (weekday \<circ> fst) ws = [0, 1, 2, 3, 4] \<and> fst (last ws) = friday \<and>
    (\<forall>i < 4. fst (ws ! Suc i) = next_day (fst (ws ! i))) \<and>
    (\<forall>w \<in> set ws. (snd (snd w))\<lparr>sn_challenges := None\<rparr> = site_data_snapshot e q d site (fst w))"
proof -
  define m where "m = (prev_day ^^ 4) friday"
  have m: "valid_date m" "1 \<le> date_year m" "(next_day ^^ 4) m = friday"
    using prev_days [OF assms(2,3)] assms(3) unfolding m_def by linarith+
  have fri: "weekday friday = 4" and ws: "ws = map (\<lambda>i. weekly_day e q d site ((next_day ^^ i) m)) [0..<5]"
    using assms(1) by (auto simp: generate_weekly_site_report_def add_days_def m_def Let_def
        split: if_splits option.splits)
  have "(weekday m + 4) mod 7 = 4" using weekday_days_after [OF m(1,2), of 4] m(3) fri by simp
  moreover have "weekday m < 7" by (simp add: weekday_def)
  ultimately have "weekday m = 0" by presburger
  then have days: "weekday ((next_day ^^ i) m) = i mod 7" for i using weekday_days_after [OF m(1,2), of i] by simp
  have day: "fst (weekly_day e q d site x) = x" for x by (simp add: weekly_day_def Let_def)
  have list: "[0..<5] = [0, 1, 2, 3, 4::nat]" by (simp add: upt_rec)
  have "map (weekday \<circ> fst) ws = map (\<lambda>i. i mod 7) [0..<5]" by (simp add: ws day days)
  then have "map (weekday \<circ> fst) ws = [0, 1, 2, 3, 4]" by (simp add: list)
  moreover have "fst (last ws) = friday" by (simp add: ws list day m(3))
  moreover have "fst (ws ! Suc i) = next_day (fst (ws ! i))" if "i < 4" for i using that by (simp add: ws day)
  moreover have "(snd (snd w))\<lparr>sn_challenges := None\<rparr> = site_data_snapshot e q d site (fst w)" if "w \<in> set ws" for w
    using that by (auto simp: ws weekly_day_def Let_def site_data_snapshot_def)
  ultimately show ?thesis by blast
qed

section \<open>The chain from a site to management\<close>

lemma generate_zone_result:
  assumes wf: "tbl_wf (zone_reports d)" and run: "generate_zone_summary zone day u d = Inr (k, d')"
  shows "zones d' = zones d \<and> sites d' = sites d \<and> tbl_wf (zone_reports d') \<and>
    (\<exists>z. tbl_get (zone_reports d') k = Some z \<and> zr_status z = ZR_DRAFT \<and> zr_zone z = zone \<and> zr_report_date z = day \<and>
       zr_issues_extracted z = map (\<lambda>(_, sr). extracted_of d sr)
         (filter (\<lambda>(_, sr). issue_count us_urgent sr \<noteq> 0 \<or> issue_count us_escalated sr \<noteq> 0) (zone_site_reports d zone day)))"
proof -
  obtain j r t where goc: "get_or_create (\<lambda>r. zr_zone r = zone \<and> zr_report_date r = day)
      (new_zone_report zone day u) (zone_reports d) = ((j, r), t)" by (metis prod.exhaust)
  from get_or_create_result [OF goc wf] wf
  have r: "tbl_get t j = Some r" "zr_zone r = zone" "zr_report_date r = day" "tbl_wf t"
    by (auto simp: new_zone_report_def tbl_get_insert)
  show ?thesis using run r by (auto simp: generate_zone_summary_def goc Let_def tbl_get_put split: if_splits)
qed

lemma submit_zone_result:
  assumes "tbl_get (zone_reports d) k = Some z" and "submit_zone_summary e (k, z) u d = Inr d'"
  shows "zones d' = zones d \<and> tbl_get (zone_reports d') k = Some (z\<lparr>zr_status := ZR_SUBMITTED,
    zr_submitted_at := Some (now e), zr_updated_by := Some (u_pk u)\<rparr>)"
  using assms by (auto simp: submit_zone_summary_def res_simps Let_def tbl_get_put split: if_splits)

lemma generate_assistant_result:
  assumes wf: "tbl_wf (assistant_reports d)" and run: "generate_assistant_summary day u ks d = Inr (k, d')"
  shows "\<exists>a. tbl_get (assistant_reports d') k = Some a \<and> as_report_date a = day \<and>
    as_problems_extracted a = zone_problems d day (selected_zones d ks)"
proof -
  obtain j r t where goc: "get_or_create (\<lambda>r. as_report_date r = day)
      (new_assistant_report day u) (assistant_reports d) = ((j, r), t)" by (metis prod.exhaust)
  from get_or_create_result [OF goc wf] wf have r: "tbl_get t j = Some r" "as_report_date r = day"
    by (auto simp: new_assistant_report_def tbl_get_insert)
  show ?thesis using run r by (auto simp: generate_assistant_summary_def goc Let_def tbl_get_put split: if_splits)
qed

lemma submit_assistant_result:
  assumes "tbl_get (assistant_reports d) k = Some a" and "submit_assistant_summary e (k, a) u d = Inr d'"
  shows "tbl_get (assistant_reports d') k = Some (a\<lparr>as_status := AS_SUBMITTED,
    as_submitted_at := Some (now e), as_updated_by := Some (u_pk u)\<rparr>)"
  using assms by (auto simp: submit_assistant_summary_def res_simps Let_def tbl_get_put split: if_splits)

lemma generate_general_result:
  assumes wf: "tbl_wf (general_reports d)" and run: "generate_general_management_report q day u d = Inr (k, d')"
  shows "\<exists>g. tbl_get (general_reports d') k = Some g \<and> gr_key_issues g = key_issues d day"
proof -
  obtain j r t where goc: "get_or_create (\<lambda>r. gr_report_date r = day)
      (new_general_report day u) (general_reports d) = ((j, r), t)" by (metis prod.exhaust)
  from get_or_create_result [OF goc wf] wf have r: "tbl_get t j = Some r" by (auto simp: tbl_get_insert)
  show ?thesis using run r by (auto simp: generate_general_management_report_def goc Let_def tbl_get_put split: if_splits)
qed

lemma zone_problems_mem:
  "(k, zr) \<in> set (tbl_rows (zone_reports d)) \<Longrightarrow> zr_report_date zr = day \<Longrightarrow> zr_zone zr \<in> set ks \<Longrightarrow>
     zr_status zr = ZR_SUBMITTED \<Longrightarrow> x \<in> set (zr_issues_extracted zr) \<Longrightarrow>
     (zr_zone zr, zone_name_of d (zr_zone zr), x) \<in> set (zone_problems d day ks)"
  by (auto simp: zone_problems_def intro!: bexI [of _ "(k, zr)"])

lemma key_issues_mem:
  "(k, a) \<in> set (tbl_rows (assistant_reports d)) \<Longrightarrow> as_report_date a = day \<Longrightarrow> as_status a = AS_SUBMITTED \<Longrightarrow>
     x \<in> set (as_problems_extracted a) \<Longrightarrow> x \<in> set (key_issues d day)"
  by (auto simp: key_issues_def intro!: bexI [of _ "(k, a)"])

text \<open>
  C21: an urgent or escalated issue reaches management. If a submitted report of a site shows one,
  then generating and submitting the summary of its (unarchived) zone and the assistant summary
  over all zones puts that site, with its counts, among the key issues of the management report.
\<close>

theorem urgent_issue_reaches_management:
  assumes "tbl_wf (zone_reports d)" "tbl_wf (assistant_reports d)" "tbl_wf (general_reports d)"
    and "tbl_get (zones d) zone = Some z" "zn_is_active z" "tbl_get (sites d) (sr_site r) = Some s" "si_zone s = Some zone"
    and "tbl_get (site_reports d) k = Some r" "sr_report_date r = day" "sr_status r \<in> {SR_SUBMITTED, SR_ZONE_REVIEWED}"
    and "issue_count us_urgent r \<noteq> 0 \<or> issue_count us_escalated r \<noteq> 0"
    and "generate_zone_summary zone day u1 d = Inr (kz, d1)"
    and "fetch (zone_reports d1) kz (\<lambda>x. submit_zone_summary e2 x u2 d1) = Inr d2"
    and "generate_assistant_summary day u3 None d2 = Inr (ka, d3)"
    and "fetch (assistant_reports d3) ka (\<lambda>x. submit_assistant_summary e4 x u4 d3) = Inr d4"
    and "generate_general_management_report q day u5 d4 = Inr (kg, d5)"
  shows "\<exists>g. tbl_get (general_reports d5) kg = Some g \<and>
    (zone, zn_name z, \<lparr>xi_site = sr_site r, xi_site_name = si_name s, xi_urgent = issue_count us_urgent r,
       xi_escalated = issue_count us_escalated r, xi_open = issue_count us_open r\<rparr>) \<in> set (gr_key_issues g)"
proof -
  define x where "x = extracted_of d r"
  have x: "x = \<lparr>xi_site = sr_site r, xi_site_name = si_name s, xi_urgent = issue_count us_urgent r,
       xi_escalated = issue_count us_escalated r, xi_open = issue_count us_open r\<rparr>"
    by (simp add: x_def extracted_of_def site_name_of_def assms(6))
  have "(k, r) \<in> set (zone_site_reports d zone day)"
    using assms(6,7,9,10) tbl_get_in [OF assms(8)] by (simp add: zone_site_reports_def)
  then obtain zr where zr: "tbl_get (zone_reports d1) kz = Some zr" "zr_zone zr = zone" "zr_report_date zr = day"
      "x \<in> set (zr_issues_extracted zr)" and z1: "zones d1 = zones d"
    using generate_zone_result [OF assms(1,12)] assms(11) unfolding x_def by force
  obtain zs where zs: "tbl_get (zone_reports d2) kz = Some zs" "zr_zone zs = zone" "zr_report_date zs = day"
      "x \<in> set (zr_issues_extracted zs)" "zr_status zs = ZR_SUBMITTED" and z2: "zones d2 = zones d"
    using assms(13) submit_zone_result [OF zr(1)] zr z1 by (auto simp: fetch_Inr)
  have "zone \<in> set (selected_zones d2 None)"
    unfolding selected_zones_def mem_where_keys z2 using tbl_get_in [OF assms(4)] assms(5) by auto
  then have p: "(zone, zn_name z, x) \<in> set (zone_problems d2 day (selected_zones d2 None))"
    using zone_problems_mem [OF tbl_get_in [OF zs(1)] zs(3) _ zs(5,4)] zs(2) assms(4) by (simp add: zone_name_of_def z2)
  have wf2: "tbl_wf (assistant_reports d2)" and gen2: "general_reports d2 = general_reports d"
    using assms(2,13) zone_calls_frame(1) [OF assms(12)] by (auto simp: fetch_Inr dest!: zone_calls_frame(2))
  obtain a where a: "tbl_get (assistant_reports d3) ka = Some a" "as_report_date a = day"
      "(zone, zn_name z, x) \<in> set (as_problems_extracted a)"
    using generate_assistant_result [OF wf2 assms(14)] p by auto
  obtain b where b: "tbl_get (assistant_reports d4) ka = Some b" "as_report_date b = day" "as_status b = AS_SUBMITTED"
      "(zone, zn_name z, x) \<in> set (as_problems_extracted b)"
    using assms(15) submit_assistant_result [OF a(1)] a by (auto simp: fetch_Inr)
  then have "(zone, zn_name z, x) \<in> set (key_issues d4 day)" by (intro key_issues_mem [OF tbl_get_in])
  moreover have "tbl_wf (general_reports d4)"
    using assms(3,15) assistant_calls_frame(1) [OF assms(14)] gen2 by (auto simp: fetch_Inr dest!: assistant_calls_frame(2))
  ultimately show ?thesis using generate_general_result [OF _ assms(16)] unfolding x by auto
qed

section \<open>Concrete instances\<close>

definition report_admin :: user where
  "report_admin = \<lparr>u_pk = 1, u_role = SYSTEM_ADMIN, u_is_superuser = True, u_is_active = True, u_perms = []\<rparr>"

definition demo_report_env :: report_env where
  "demo_report_env = \<lparr>issue_created_at = (\<lambda>_. 900), job_created_on = (\<lambda>_. Date 2025 6 2), user_email = (\<lambda>_. ''a@b''),
     day_start = (\<lambda>_. 0), day_end = (\<lambda>_. 2000), rate_of = (\<lambda>a b. of_nat a / of_nat b * 100),
     average_of = (\<lambda>xs. sum_list xs / of_nat (length xs))\<rparr>"

definition urgent_issue :: issue where
  "urgent_issue = \<lparr>is_title = ''Leak'', is_description = [], is_source = SRC_MANUAL, is_site = 1, is_area = None,
     is_cleaner = None, is_inspection = None, is_issue_category = CAT_OTHER, is_priority = PR_URGENT, is_status = IS_OPEN,
     is_raised_by = None, is_assigned_to = None, is_due_date = None, is_resolved_at = None, is_closed_at = None,
     is_escalation_level = 0, is_is_escalated = False, is_created_by = None, is_updated_by = None\<rparr>"

text \<open>One site in one zone, with one urgent issue.\<close>

definition demo_report_db :: db where
  "demo_report_db = empty_db\<lparr>
     zones := \<lparr>tbl_rows = [(1, \<lparr>zn_name = ''North'', zn_code = ''N'', zn_description = [], zn_boundary = ''{}'', zn_is_active = True,
       zn_created_by = None, zn_updated_by = None\<rparr>)], tbl_next = 2\<rparr>,
     sites := \<lparr>tbl_rows = [(1, demo_site\<lparr>si_zone := Some 1\<rparr>)], tbl_next = 2\<rparr>,
     issues := \<lparr>tbl_rows = [(1, urgent_issue)], tbl_next = 2\<rparr>\<rparr>"

abbreviation report_day :: date where
  "report_day \<equiv> Date 2025 6 2"

definition at_time :: "nat \<Rightarrow> report_call \<Rightarrow> (env \<times> report_env) \<times> report_call" where
  "at_time t c = ((default_env\<lparr>now := t\<rparr>, demo_report_env), c)"

lemmas report_eval = demo_report_db_def empty_db_def demo_site_def report_admin_def at_time_def default_env_def
  demo_report_env_def urgent_issue_def endpoint_defs load_site_or_404_def load_or_404_def found_def permit_def issues_manage_def
  report_read_def report_review_def assistant_report_manage_def general_report_manage_def
  management_required_def is_system_admin_def user_can_manage_site_def db_of_def
  generate_site_report_def get_or_create_def new_site_report_def submit_site_report_def submitted_site_report_def
  return_site_report_def site_report_detail_def apply_snapshot_def site_data_snapshot_def
  attendance_data_def review_counts_def count_where_def store_data_def inspection_data_def trainee_data_def issue_data_def
  can_submit_site_report_def manage_site_def can_review_site_report_def is_reviewer_def site_in_user_scope_def
  visible_sites_def sees_all_zones_def ensure_def audit_after_def emit_report_def record_audit_def
  publish_domain_event_def issue_count_def List.map_filter_def
  tbl_get_def tbl_where_def tbl_exists_def tbl_insert_def tbl_update_where_def tbl_put_def tbl_empty_def

lemma demo_report_ok:
  "table_ok site_report_ok site_key (site_reports demo_report_db)"
  "table_ok zone_report_ok zone_key (zone_reports demo_report_db)"
  by (simp_all add: demo_report_db_def empty_db_def)

lemma demo_submitted:
  "\<exists>r. tbl_get (site_reports (run_calls report_step demo_report_db
       [at_time 10 (GenerateSite 1 report_day report_admin), at_time 20 (SubmitSite 1 report_day report_admin)])) 1 = Some r \<and>
     sr_status r = SR_SUBMITTED \<and> sr_submitted_at r = Some 20 \<and> issue_count us_urgent r = 1"
  by (simp add: report_eval Let_def del: set_filter)

theorem site_reports_carry_evidence_witness:
  "\<exists>r s. tbl_get (site_reports (run_calls report_step demo_report_db
       [at_time 10 (GenerateSite 1 report_day report_admin), at_time 20 (SubmitSite 1 report_day report_admin)])) 1 = Some r \<and>
     sr_snapshot r = Some s \<and> evidence_matches r s \<and> us_urgent (sn_issues s) = 1"
proof -
  let ?d = "run_calls report_step demo_report_db
       [at_time 10 (GenerateSite 1 report_day report_admin), at_time 20 (SubmitSite 1 report_day report_admin)]"
  obtain r where r: "tbl_get (site_reports ?d) 1 = Some r" "sr_status r = SR_SUBMITTED" "issue_count us_urgent r = 1"
    using demo_submitted by blast
  from site_reports_carry_evidence [OF demo_report_ok(1) refl r(1)] r(2) obtain s
    where "sr_snapshot r = Some s" "evidence_matches r s" by auto
  with r show ?thesis by (auto simp: evidence_matches_def issue_count_def)
qed

abbreviation demo_reported :: db where
  "demo_reported \<equiv> run_calls report_step demo_report_db
     [at_time 10 (GenerateSite 1 report_day report_admin), at_time 20 (SubmitSite 1 report_day report_admin)]"

lemma demo_resubmitted:
  "\<exists>r. tbl_get (site_reports (run_calls report_step demo_reported
       [at_time 30 (ReturnSite 1 report_day report_admin ''redo''), at_time 40 (SubmitSite 1 report_day report_admin)])) 1 = Some r \<and>
     sr_submitted_at r = Some 40"
  by (simp add: report_eval Let_def strip_def is_space_def del: set_filter)

lemma demo_reported_ok: "table_ok site_report_ok site_key (site_reports demo_reported)"
  by (rule site_flow.run_inv [OF demo_report_ok(1)])

theorem submitted_report_frozen_witness:
  "\<exists>t \<in> set (call_states report_step demo_reported
       [at_time 30 (ReturnSite 1 report_day report_admin ''redo''), at_time 40 (SubmitSite 1 report_day report_admin)]).
     \<exists>q. tbl_get (site_reports t) 1 = Some q \<and> sr_status q = SR_RETURNED"
proof -
  obtain r where r: "tbl_get (site_reports demo_reported) 1 = Some r" "sr_status r = SR_SUBMITTED" "sr_submitted_at r = Some 20"
    using demo_submitted by blast
  obtain r' where r': "tbl_get (site_reports (run_calls report_step demo_reported
       [at_time 30 (ReturnSite 1 report_day report_admin ''redo''), at_time 40 (SubmitSite 1 report_day report_admin)])) 1 = Some r'"
      "sr_submitted_at r' = Some 40"
    using demo_resubmitted by blast
  show ?thesis
    by (rule submitted_report_frozen [OF demo_reported_ok r(1) _ r'(1)]) (use r r' in \<open>auto simp: evidence_def\<close>)
qed

theorem chain_stops_at_zone_review_witness:
  "\<exists>r. tbl_get (site_reports (run_calls report_step demo_reported [at_time 30 (ZoneReview 1 report_admin)])) 1 = Some r \<and>
     sr_status r \<noteq> SR_ASSISTANT_REVIEWED"
proof -
  obtain r where r: "tbl_get (site_reports demo_reported) 1 = Some r" "sr_status r = SR_SUBMITTED"
    using demo_submitted by blast
  obtain r' where r': "tbl_get (site_reports (run_calls report_step demo_reported [at_time 30 (ZoneReview 1 report_admin)])) 1 = Some r'"
    using site_flow.run_row [OF demo_reported_ok r(1)] by blast
  from chain_stops_at_zone_review [OF demo_reported_ok r(1) r'] r(2) r' show ?thesis by auto
qed

definition demo_returned_zone :: zone_report where
  "demo_returned_zone = (new_zone_report 1 report_day report_admin)\<lparr>zr_status := ZR_RETURNED, zr_submitted_at := Some 5\<rparr>"

definition demo_returned_db :: db where
  "demo_returned_db = demo_report_db\<lparr>zone_reports := \<lparr>tbl_rows = [(1, demo_returned_zone)], tbl_next = 2\<rparr>\<rparr>"

theorem returned_zone_summary_dead_end_witness:
  "\<not> (\<exists>x. generate_zone_summary 1 report_day report_admin
       (run_calls report_step demo_returned_db [at_time 10 (GenerateZone 1 report_day report_admin)]) = Inr x)"
proof -
  let ?d = "run_calls report_step demo_returned_db [at_time 10 (GenerateZone 1 report_day report_admin)]"
  have ok: "table_ok zone_report_ok zone_key (zone_reports demo_returned_db)"
    by (simp add: table_ok_def demo_returned_db_def tbl_wf_def tbl_unique_def tbl_all_def tbl_get_def zone_report_ok_def
        demo_returned_zone_def)
  have r: "tbl_get (zone_reports demo_returned_db) 1 = Some demo_returned_zone" by (simp add: demo_returned_db_def tbl_get_def)
  have st: "zr_status demo_returned_zone = ZR_RETURNED" and z: "zr_zone demo_returned_zone = 1"
    "zr_report_date demo_returned_zone = report_day" by (simp_all add: demo_returned_zone_def new_zone_report_def)
  obtain s where s: "tbl_get (zone_reports ?d) 1 = Some s" "zone_report_moves\<^sup>*\<^sup>* demo_returned_zone s"
    using zone_flow.run_row [OF ok r] by blast
  from s(2) have "zone_key s = zone_key demo_returned_zone"
    by (induction rule: rtranclp_induct) (simp_all add: zone_report_moves_def)
  with returned_zone_summary_dead_end [OF ok r st refl s(1)] z show ?thesis by (simp add: zone_key_def)
qed

lemma demo_friday: "weekday (Date 2025 6 6) = 4"
  by (simp add: weekday_def ordinal_def days_before_year_def days_before_month_def days_in_month_def leap_year_def upt_rec)

theorem weekly_report_is_the_week_witness:
  "\<exists>ws d'. generate_weekly_site_report default_env demo_report_env 1 (Date 2025 6 6) report_admin demo_report_db = Inr (ws, d') \<and>
     map (weekday \<circ> fst) ws = [0, 1, 2, 3, 4]"
proof -
  obtain ws d' where run: "generate_weekly_site_report default_env demo_report_env 1 (Date 2025 6 6) report_admin demo_report_db = Inr (ws, d')"
    by (simp add: generate_weekly_site_report_def demo_friday demo_report_db_def tbl_get_def Let_def)
  have "map (weekday \<circ> fst) ws = [0, 1, 2, 3, 4]"
    using weekly_report_is_the_week [OF run] by (simp add: valid_date_def days_in_month_def)
  with run show ?thesis by (intro exI conjI)
qed

definition demo_urgent_report :: site_report where
  "demo_urgent_report = (new_site_report 1 report_day report_admin)\<lparr>sr_status := SR_SUBMITTED, sr_submitted_at := Some 5,
     sr_issues_summary := Some \<lparr>us_raised_today = 1, us_open = 1, us_escalated = 0, us_urgent = 1\<rparr>\<rparr>"

definition demo_chain_db :: db where
  "demo_chain_db = demo_report_db\<lparr>site_reports := \<lparr>tbl_rows = [(1, demo_urgent_report)], tbl_next = 2\<rparr>\<rparr>"

definition demo_chain :: "(nat \<times> db) res" where
  "demo_chain =
     rbind (generate_zone_summary 1 report_day report_admin demo_chain_db) (\<lambda>(kz, d1).
     rbind (fetch (zone_reports d1) kz (\<lambda>x. submit_zone_summary default_env x report_admin d1)) (\<lambda>d2.
     rbind (generate_assistant_summary report_day report_admin None d2) (\<lambda>(ka, d3).
     rbind (fetch (assistant_reports d3) ka (\<lambda>x. submit_assistant_summary default_env x report_admin d3)) (\<lambda>d4.
     generate_general_management_report demo_report_env report_day report_admin d4))))"

lemma demo_chain_runs: "\<not> isl demo_chain"
  by code_simp

theorem urgent_issue_reaches_management_witness:
  "\<exists>kg d5 g. demo_chain = Inr (kg, d5) \<and> tbl_get (general_reports d5) kg = Some g \<and>
     (1, ''North'', extracted_of demo_chain_db demo_urgent_report) \<in> set (gr_key_issues g)"
proof -
  obtain kz d1 d2 ka d3 d4 kg d5 where run: "generate_zone_summary 1 report_day report_admin demo_chain_db = Inr (kz, d1)"
     "fetch (zone_reports d1) kz (\<lambda>x. submit_zone_summary default_env x report_admin d1) = Inr d2"
     "generate_assistant_summary report_day report_admin None d2 = Inr (ka, d3)"
     "fetch (assistant_reports d3) ka (\<lambda>x. submit_assistant_summary default_env x report_admin d3) = Inr d4"
     "generate_general_management_report demo_report_env report_day report_admin d4 = Inr (kg, d5)"
    using demo_chain_runs by (cases demo_chain) (auto simp: demo_chain_def rbind_Inr)
  have "tbl_wf (zone_reports demo_chain_db)" "tbl_wf (assistant_reports demo_chain_db)" "tbl_wf (general_reports demo_chain_db)"
    "tbl_get (zones demo_chain_db) 1 = Some \<lparr>zn_name = ''North'', zn_code = ''N'', zn_description = [], zn_boundary = ''{}'', zn_is_active = True,
       zn_created_by = None, zn_updated_by = None\<rparr>"
    "tbl_get (sites demo_chain_db) (sr_site demo_urgent_report) = Some (demo_site\<lparr>si_zone := Some 1\<rparr>)"
    "tbl_get (site_reports demo_chain_db) 1 = Some demo_urgent_report"
    "sr_report_date demo_urgent_report = report_day" "sr_status demo_urgent_report = SR_SUBMITTED"
    "issue_count us_urgent demo_urgent_report = 1"
    by (simp_all add: demo_chain_db_def demo_report_db_def empty_db_def demo_urgent_report_def new_site_report_def
        tbl_get_def issue_count_def)
  note facts = this
  have "\<exists>g. tbl_get (general_reports d5) kg = Some g \<and> (1, ''North'', extracted_of demo_chain_db demo_urgent_report) \<in> set (gr_key_issues g)"
    using urgent_issue_reaches_management [OF facts(1-4) _ facts(5) _ facts(6,7) _ _ run] facts(5,8,9)
    by (simp add: extracted_of_def site_name_of_def)
  then obtain g where "tbl_get (general_reports d5) kg = Some g"
    "(1, ''North'', extracted_of demo_chain_db demo_urgent_report) \<in> set (gr_key_issues g)" by blast
  moreover have "demo_chain = Inr (kg, d5)" using run by (simp add: demo_chain_def)
  ultimately show ?thesis by blast
qed

section \<open>Two readings of the documentation\<close>

text \<open>
  \<open>missing_site_reports\<close> is documented as the sites without a submitted report; a site with a mere draft is not listed.
\<close>

theorem draft_report_is_not_missing:
  "missing_site_reports default_env demo_report_db report_admin report_day = [1] \<and>
   missing_site_reports default_env (demo_report_db\<lparr>site_reports :=
       \<lparr>tbl_rows = [(1, new_site_report 1 report_day report_admin)], tbl_next = 2\<rparr>\<rparr>) report_admin report_day = []"
  by (simp add: missing_site_reports_def report_eval)

end
