(* ===== verification/Inspections.thy ===== *)
theory Inspections
  imports Endpoints
begin

text \<open>
  The inspection engine (\<open>apps/site_management/inspection_services.py\<close>) with the \<open>clean()\<close> rules of
  its models and its endpoints: templates and their items, the draft, submit, review, return workflow
  of an inspection, its answers and the score computed from them.
\<close>

section \<open>\<open>Decimal.quantize\<close>\<close>

text \<open>Rounding to two decimals, halves to the even neighbour (the default context of \<open>decimal\<close>).\<close>

definition quantize2 :: "rat \<Rightarrow> rat" where
  "quantize2 x =
     (let f = \<lfloor>x * 100\<rfloor>; r = x * 100 - of_int f
      in of_int (if r < 1 / 2 then f else if 1 / 2 < r then f + 1 else if even f then f else f + 1) / 100)"

section \<open>Rules of the models\<close>

definition inspection_is_editable :: "inspection \<Rightarrow> bool" where
  "inspection_is_editable i \<longleftrightarrow> in_status i \<in> {IN_DRAFT, IN_RETURNED}"

definition area_of :: "db \<Rightarrow> nat \<Rightarrow> nat option" where
  "area_of d a = map_option sa_site (tbl_get (areas d) a)"

text \<open>\<open>full_clean()\<close> of a template: its name, and an area only within the template's site.\<close>

definition template_clean :: "db \<Rightarrow> inspection_template \<Rightarrow> bool" where
  "template_clean d t \<longleftrightarrow> tm_name t \<noteq> [] \<and> length (tm_name t) \<le> 160 \<and>
     (case tm_area t of None \<Rightarrow> True | Some a \<Rightarrow> area_of d a = tm_site t \<and> tm_site t \<noteq> None)"

definition template_item_clean :: "db \<Rightarrow> template_item \<Rightarrow> bool" where
  "template_item_clean d i \<longleftrightarrow> ti_label i \<noteq> [] \<and> length (ti_label i) \<le> 255 \<and> length (ti_help_text i) \<le> 255 \<and>
     ti_sequence i \<le> 32767 \<and> tbl_get (templates d) (ti_template i) \<noteq> None \<and>
     \<not> tbl_exists (\<lambda>_ j. ti_template j = ti_template i \<and> ti_sequence j = ti_sequence i) (template_items d)"

definition inspection_clean :: "db \<Rightarrow> inspection \<Rightarrow> bool" where
  "inspection_clean d i \<longleftrightarrow> area_of d (in_area i) = Some (in_site i) \<and>
     (case tbl_get (templates d) (in_template i) of None \<Rightarrow> False
      | Some t \<Rightarrow> tm_site t = None \<or> tm_site t = Some (in_site i)) \<and>
     (case in_shift i of None \<Rightarrow> True
      | Some s \<Rightarrow> map_option sh_site (tbl_get (shifts d) s) = Some (in_site i))"

text \<open>
  \<open>InspectionResult.clean\<close> rejects an answer that does not fit the item, and derives the verdict of
  yes/no and score items and the boolean of pass/fail items.
\<close>

definition answer_clean :: "inspection_item_type \<Rightarrow> inspection_result \<Rightarrow> inspection_result option" where
  "answer_clean ty r =
     (case ty of
        IT_YES_NO \<Rightarrow> (case ir_value_boolean r of None \<Rightarrow> None | Some b \<Rightarrow> Some (r\<lparr>ir_passed := Some b\<rparr>))
      | IT_PASS_FAIL \<Rightarrow> (case ir_passed r of None \<Rightarrow> None | Some b \<Rightarrow> Some (r\<lparr>ir_value_boolean := Some b\<rparr>))
      | IT_SCORE \<Rightarrow> (case ir_value_number r of None \<Rightarrow> None
          | Some v \<Rightarrow> if 0 \<le> v \<and> v \<le> 100 then Some (r\<lparr>ir_passed := Some (50 \<le> v)\<rparr>) else None)
      | IT_TEXT \<Rightarrow> if strip (ir_value_text r) = [] then None else Some r
      | IT_PHOTO \<Rightarrow> Some r)"

text \<open>
  \<open>full_clean(exclude=["file"])\<close> of the answer \<open>k\<close> (a fresh key for a new one): the decimal field, one answer per item and
  inspection, an item of the inspection's template, and the rules above. It returns the row to save.
\<close>

definition result_clean :: "db \<Rightarrow> nat \<Rightarrow> inspection_result \<Rightarrow> inspection_result option" where
  "result_clean d k r =
     (case (tbl_get (template_items d) (ir_template_item r), tbl_get (inspections d) (ir_inspection r)) of
        (Some ti, Some i) \<Rightarrow>
          if ti_template ti \<noteq> in_template i then None
          else if \<not> (case ir_value_number r of None \<Rightarrow> True | Some v \<Rightarrow> decimal_fits 6 2 v) then None
          else if tbl_exists (\<lambda>j s. j \<noteq> k \<and> ir_inspection s = ir_inspection r \<and> ir_template_item s = ir_template_item r) (results d)
          then None
          else answer_clean (ti_type ti) r
      | _ \<Rightarrow> None)"

section \<open>Templates\<close>

text \<open>A row of the \<open>items\<close> argument; absent keys take the defaults of \<open>row.get\<close>.\<close>

record item_row =
  rw_label :: string
  rw_type :: inspection_item_type
  rw_required :: "bool option"
  rw_sequence :: "int option"
  rw_help_text :: "string option"

definition create_template_item :: "nat \<Rightarrow> user \<Rightarrow> item_row \<Rightarrow> db \<Rightarrow> db res" where
  "create_template_item template actor row d =
     (let s = given (rw_sequence row) 0;
          i = \<lparr>ti_template = template, ti_label = rw_label row, ti_type = rw_type row,
               ti_required = given (rw_required row) True, ti_sequence = nat s,
               ti_help_text = given (rw_help_text row) []\<rparr>
      in if s < 0 \<or> \<not> template_item_clean d i then Inl FullClean
         else Inr (record_audit A_CREATE (Some (u_pk actor)) ''site_management.inspectiontemplateitem''
                (tbl_next (template_items d)) None None (d\<lparr>template_items := tbl_insert i (template_items d)\<rparr>)))"

definition create_template ::
  "string \<Rightarrow> user \<Rightarrow> string \<Rightarrow> nat option \<Rightarrow> nat option \<Rightarrow> inspection_frequency \<Rightarrow> item_row list \<Rightarrow> db \<Rightarrow> (nat \<times> db) res" where
  "create_template name actor description site area frequency rows d =
     (let t = \<lparr>tm_name = name, tm_description = description, tm_site = site, tm_area = area, tm_frequency = frequency,
               tm_is_active = True, tm_created_by = Some (u_pk actor), tm_updated_by = Some (u_pk actor)\<rparr>;
          k = tbl_next (templates d)
      in if (case area of None \<Rightarrow> False | Some a \<Rightarrow> site = None \<or> area_of d a \<noteq> site)
         then Inl (ValidationError ''area_site_mismatch'')
         else if \<not> template_clean d t then Inl FullClean
         else rbind (foldM (create_template_item k actor) rows (d\<lparr>templates := tbl_insert t (templates d)\<rparr>))
                (\<lambda>d1. Inr (k, record_audit A_CREATE (Some (u_pk actor)) ''site_management.inspectiontemplate'' k None
                   (Some (SnapTemplate t)) d1)))"

text \<open>\<open>template.items.all().delete()\<close>: the answers to a deleted item go with it (\<open>on_delete=CASCADE\<close>).\<close>

definition delete_items :: "nat \<Rightarrow> db \<Rightarrow> db" where
  "delete_items template d =
     d\<lparr>template_items := tbl_delete_where (\<lambda>_ i. ti_template i = template) (template_items d),
       results := tbl_delete_where (\<lambda>_ r. ir_template_item r \<in>
         set (map fst (tbl_where (\<lambda>_ i. ti_template i = template) (template_items d)))) (results d)\<rparr>"

definition update_template ::
  "nat \<times> inspection_template \<Rightarrow> user \<Rightarrow> string option \<Rightarrow> string option \<Rightarrow> inspection_frequency option \<Rightarrow>
   item_row list option \<Rightarrow> db \<Rightarrow> db res" where
  "update_template x actor name description frequency rows d =
     (let k = fst x; t = snd x;
          t' = t\<lparr>tm_name := given name (tm_name t), tm_description := given description (tm_description t),
                 tm_frequency := given frequency (tm_frequency t), tm_updated_by := Some (u_pk actor)\<rparr>;
          d1 = d\<lparr>templates := tbl_put k t' (templates d)\<rparr>
      in if \<not> template_clean d t' then Inl FullClean
         else rbind (case rows of None \<Rightarrow> Inr d1 | Some rs \<Rightarrow> foldM (create_template_item k actor) rs (delete_items k d1))
                (\<lambda>d2. Inr (record_audit A_UPDATE (Some (u_pk actor)) ''site_management.inspectiontemplate'' k
                   (Some (SnapTemplate t)) None d2)))"

text \<open>\<open>save(update_fields=...)\<close>: two columns, whatever else the row holds by now.\<close>

definition set_template_active :: "nat \<Rightarrow> bool \<Rightarrow> user \<Rightarrow> db \<Rightarrow> db" where
  "set_template_active k active actor d =
     d\<lparr>templates := tbl_update_where (\<lambda>j _. j = k)
        (\<lambda>t. t\<lparr>tm_is_active := active, tm_updated_by := Some (u_pk actor)\<rparr>) (templates d)\<rparr>"

definition deactivate_template :: "nat \<times> inspection_template \<Rightarrow> user \<Rightarrow> db \<Rightarrow> db" where
  "deactivate_template x actor d =
     record_audit A_ARCHIVE (Some (u_pk actor)) ''site_management.inspectiontemplate'' (fst x) (Some (SnapTemplate (snd x)))
       None (set_template_active (fst x) False actor d)"

section \<open>Scores\<close>

definition PASS_THRESHOLD :: rat where "PASS_THRESHOLD = 70"

definition answers :: "db \<Rightarrow> nat \<Rightarrow> (nat \<times> inspection_result) list" where
  "answers d k = tbl_where (\<lambda>_ r. ir_inspection r = k) (results d)"

definition score_of :: "inspection_result list \<Rightarrow> rat option" where
  "score_of rs =
     (let scores = List.map_filter ir_value_number rs
      in if scores = [] then None else Some (quantize2 (sum_list scores / of_nat (length scores))))"

definition overall_of :: "inspection_result list \<Rightarrow> inspection_overall" where
  "overall_of rs =
     (if list_ex (\<lambda>r. ir_passed r = Some False) rs then OV_FAILED
      else case score_of rs of None \<Rightarrow> OV_PASSED
           | Some s \<Rightarrow> if s < PASS_THRESHOLD then OV_NEEDS_ATTENTION else OV_PASSED)"

definition calculate_inspection_score :: "db \<Rightarrow> nat \<Rightarrow> rat option \<times> inspection_overall" where
  "calculate_inspection_score d k = (let rs = map snd (answers d k) in (score_of rs, overall_of rs))"

text \<open>The answer to an item is complete.\<close>

definition answer_complete :: "inspection_item_type \<Rightarrow> inspection_result \<Rightarrow> bool" where
  "answer_complete ty r \<longleftrightarrow>
     \<not> (ty = IT_PHOTO \<and> ir_file r = None \<or> ty = IT_TEXT \<and> strip (ir_value_text r) = [] \<or>
        ty = IT_SCORE \<and> ir_value_number r = None \<or> ty \<in> {IT_YES_NO, IT_PASS_FAIL} \<and> ir_passed r = None)"

definition required_items_missing :: "db \<Rightarrow> nat \<times> inspection \<Rightarrow> string list" where
  "required_items_missing d x =
     map (\<lambda>(_, ti). ti_label ti)
       (filter (\<lambda>(j, ti). \<not> list_ex (\<lambda>(_, r). ir_template_item r = j \<and> answer_complete (ti_type ti) r) (answers d (fst x)))
         (tbl_where (\<lambda>_ ti. ti_template ti = in_template (snd x) \<and> ti_required ti) (template_items d)))"

section \<open>Inspections\<close>

text \<open>Saving an inspection; its score has five digits.\<close>

definition save_inspection :: "nat \<Rightarrow> inspection \<Rightarrow> db \<Rightarrow> db res" where
  "save_inspection k i d =
     (if (case in_score i of None \<Rightarrow> False | Some s \<Rightarrow> \<not> decimal_fits 5 2 s) then Inl DataError
      else Inr (d\<lparr>inspections := tbl_put k i (inspections d)\<rparr>))"

definition audit_inspection :: "audit_action \<Rightarrow> nat \<Rightarrow> inspection option \<Rightarrow> inspection \<Rightarrow> user \<Rightarrow> db \<Rightarrow> db" where
  "audit_inspection action k before after actor d =
     record_audit action (Some (u_pk actor)) ''site_management.inspection'' k (map_option SnapInspection before)
       (Some (SnapInspection after)) d"

definition emit_inspection :: "string \<Rightarrow> nat \<Rightarrow> (string \<times> json) list \<Rightarrow> user \<Rightarrow> db \<Rightarrow> db" where
  "emit_inspection event k payload actor d =
     publish_domain_event event ''site_management.inspection'' k payload (Some (u_pk actor)) d"

definition start_inspection ::
  "env \<Rightarrow> nat \<Rightarrow> nat \<Rightarrow> nat \<times> inspection_template \<Rightarrow> user \<Rightarrow> user \<Rightarrow> date option \<Rightarrow> nat option \<Rightarrow> string \<Rightarrow> db \<Rightarrow> (nat \<times> db) res" where
  "start_inspection e site area template inspected_by actor day shift notes d =
     (let k = tbl_next (inspections d);
          i = \<lparr>in_site = site, in_area = area, in_template = fst template, in_inspection_date = given day (sys_today e),
               in_shift = shift, in_inspected_by = Some (u_pk inspected_by), in_overall_status = None, in_score = None,
               in_notes = notes, in_status = IN_DRAFT, in_submitted_at = None, in_created_by = Some (u_pk actor),
               in_updated_by = Some (u_pk actor)\<rparr>
      in if truthy_id (tm_site (snd template)) \<and> tm_site (snd template) \<noteq> Some site
         then Inl (ValidationError ''template_site_mismatch'')
         else if \<not> inspection_clean d i then Inl FullClean
         else Inr (k, audit_inspection A_CREATE k None i actor (d\<lparr>inspections := tbl_insert i (inspections d)\<rparr>)))"

definition audit_result :: "audit_action \<Rightarrow> nat \<Rightarrow> inspection_result option \<Rightarrow> inspection_result option \<Rightarrow> user \<Rightarrow> db \<Rightarrow> db" where
  "audit_result action k before after actor d =
     record_audit action (Some (u_pk actor)) ''site_management.inspectionresult'' k (map_option SnapResult before)
       (map_option SnapResult after) d"

definition add_inspection_result ::
  "nat \<times> inspection \<Rightarrow> nat \<Rightarrow> user \<Rightarrow> string \<Rightarrow> rat option \<Rightarrow> bool option \<Rightarrow> bool option \<Rightarrow> string \<Rightarrow> nat option \<Rightarrow>
   db \<Rightarrow> (nat \<times> db) res" where
  "add_inspection_result x item actor value_text value_number value_boolean passed notes cleaner d =
     (let k = tbl_next (results d);
          r = \<lparr>ir_inspection = fst x, ir_template_item = item, ir_responsible_cleaner = cleaner, ir_value_text = value_text,
               ir_value_number = value_number, ir_value_boolean = value_boolean, ir_passed = passed, ir_notes = notes,
               ir_file = None, ir_original_filename = [], ir_content_type = [], ir_size_bytes = 0,
               ir_uploaded_by = Some (u_pk actor)\<rparr>
      in if \<not> inspection_is_editable (snd x) then Inl (ValidationError ''inspection_immutable'')
         else case result_clean d k r of None \<Rightarrow> Inl FullClean
              | Some r' \<Rightarrow> Inr (k, audit_result A_CREATE k None (Some r') actor (d\<lparr>results := tbl_insert r' (results d)\<rparr>)))"

definition update_inspection_result ::
  "nat \<times> inspection_result \<Rightarrow> user \<Rightarrow> string option \<Rightarrow> rat option \<Rightarrow> bool option \<Rightarrow> bool option \<Rightarrow> string option \<Rightarrow>
   nat option \<Rightarrow> db \<Rightarrow> db res" where
  "update_inspection_result x actor value_text value_number value_boolean passed notes cleaner d =
     (let k = fst x; r = snd x;
          r1 = r\<lparr>ir_value_text := given value_text (ir_value_text r),
                 ir_value_number := (case value_number of None \<Rightarrow> ir_value_number r | Some v \<Rightarrow> Some v),
                 ir_value_boolean := (case value_boolean of None \<Rightarrow> ir_value_boolean r | Some v \<Rightarrow> Some v),
                 ir_passed := (case passed of None \<Rightarrow> ir_passed r | Some v \<Rightarrow> Some v),
                 ir_notes := given notes (ir_notes r),
                 ir_responsible_cleaner := (case cleaner of None \<Rightarrow> ir_responsible_cleaner r | Some c \<Rightarrow> Some c)\<rparr>
      in fetch (inspections d) (ir_inspection r) (\<lambda>(_, i).
           if \<not> inspection_is_editable i then Inl (ValidationError ''inspection_immutable'')
           else case result_clean d k r1 of None \<Rightarrow> Inl FullClean
                | Some r' \<Rightarrow> Inr (audit_result A_UPDATE k (Some r) None actor (d\<lparr>results := tbl_put k r' (results d)\<rparr>))))"

definition upload_result_photo :: "env \<Rightarrow> nat \<times> inspection_result \<Rightarrow> upload \<Rightarrow> user \<Rightarrow> db \<Rightarrow> db res" where
  "upload_result_photo e x f actor d =
     (let k = fst x; r = snd x in
      fetch (inspections d) (ir_inspection r) (\<lambda>(_, i).
        if \<not> inspection_is_editable i then Inl (ValidationError ''inspection_immutable'')
        else if map_option ti_type (tbl_get (template_items d) (ir_template_item r)) \<noteq> Some IT_PHOTO
        then Inl (ValidationError ''not_photo_item'')
        else rbind (validate_file_extension e f) (\<lambda>_. rbind (validate_file_size e f) (\<lambda>_.
          if 255 < length (up_name f) \<or> 127 < length (up_content_type f) then Inl DataError
          else
            let r' = r\<lparr>ir_file := Some f, ir_original_filename := up_name f, ir_content_type := up_content_type f,
                       ir_size_bytes := up_size f, ir_uploaded_by := Some (u_pk actor)\<rparr>
            in Inr (audit_result A_CREATE k None None actor (d\<lparr>results := tbl_put k r' (results d)\<rparr>))))))"

definition scored :: "db \<Rightarrow> nat \<Rightarrow> inspection \<Rightarrow> inspection" where
  "scored d k i = i\<lparr>in_score := fst (calculate_inspection_score d k),
     in_overall_status := Some (snd (calculate_inspection_score d k))\<rparr>"

definition save_inspection_draft :: "nat \<times> inspection \<Rightarrow> user \<Rightarrow> string option \<Rightarrow> db \<Rightarrow> db res" where
  "save_inspection_draft x actor notes d =
     (let k = fst x; i = snd x in
      if \<not> inspection_is_editable i then Inl (ValidationError ''inspection_immutable'')
      else
        let i' = (scored d k (i\<lparr>in_notes := given notes (in_notes i)\<rparr>))\<lparr>in_updated_by := Some (u_pk actor)\<rparr>
        in rbind (save_inspection k i' d) (\<lambda>d1. Inr (audit_inspection A_UPDATE k (Some i) i' actor d1)))"

text \<open>The hook for failed answers: an event and a notification to the actor, in the order of the checklist.\<close>

definition create_issue_from_failed_result :: "nat \<times> inspection \<Rightarrow> user \<Rightarrow> nat \<times> inspection_result \<Rightarrow> db \<Rightarrow> db" where
  "create_issue_from_failed_result x actor kr d =
     (let label = (case tbl_get (template_items d) (ir_template_item (snd kr)) of None \<Rightarrow> [] | Some ti \<Rightarrow> ti_label ti)
      in notify (u_pk actor) ''inspection'' None ''inspection'' (str_nat (fst x)) []
           (emit_inspection ''InspectionIssueDetected'' (fst x)
              [(''inspection_id'', JNat (fst x)), (''site_id'', JNat (in_site (snd x))), (''area_id'', JNat (in_area (snd x))),
               (''result_id'', JNat (fst kr)), (''item_label'', JStr label)] actor d))"

definition failed_results :: "db \<Rightarrow> nat \<Rightarrow> (nat \<times> inspection_result) list" where
  "failed_results d k =
     sort_key (\<lambda>(_, r). case tbl_get (template_items d) (ir_template_item r) of None \<Rightarrow> 0 | Some ti \<Rightarrow> ti_sequence ti)
       (filter (\<lambda>(_, r). ir_passed r = Some False) (answers d k))"

definition overall_value :: "inspection_overall \<Rightarrow> string" where
  "overall_value v = (case v of OV_PASSED \<Rightarrow> ''passed'' | OV_FAILED \<Rightarrow> ''failed'' | OV_NEEDS_ATTENTION \<Rightarrow> ''needs_attention'')"

definition submit_inspection :: "env \<Rightarrow> nat \<times> inspection \<Rightarrow> user \<Rightarrow> db \<Rightarrow> db res" where
  "submit_inspection e x actor d =
     (let k = fst x; i = snd x in
      if in_status i \<notin> {IN_DRAFT, IN_RETURNED} then Inl (ValidationError ''invalid_status'')
      else if required_items_missing d x \<noteq> [] then Inl (ValidationError ''required_items_incomplete'')
      else
        let i' = (scored d k i)\<lparr>in_status := IN_SUBMITTED, in_submitted_at := Some (now e), in_updated_by := Some (u_pk actor)\<rparr>
        in rbind (save_inspection k i' d) (\<lambda>d1. Inr (fold (create_issue_from_failed_result (k, i') actor) (failed_results d k)
             (emit_inspection ''InspectionSubmitted'' k
                [(''overall_status'', JStr (overall_value (snd (calculate_inspection_score d k)))),
                 (''score'', case in_score i' of None \<Rightarrow> JNull | Some s \<Rightarrow> JDec s)] actor
                (audit_inspection A_STATUS_CHANGE k (Some i) i' actor d1)))))"

definition return_inspection :: "env \<Rightarrow> nat \<times> inspection \<Rightarrow> user \<Rightarrow> string \<Rightarrow> db \<Rightarrow> db res" where
  "return_inspection e x actor reason d =
     (let k = fst x; i = snd x in
      ensure (can_review_inspection e d actor (in_site i))
        (if in_status i \<notin> {IN_SUBMITTED, IN_REVIEWED} then Inl (ValidationError ''invalid_status'')
         else if strip reason = [] then Inl (ValidationError ''reason_required'')
         else
           let i' = i\<lparr>in_status := IN_RETURNED, in_notes := append_line (in_notes i) (''Returned: '' @ reason),
                      in_updated_by := Some (u_pk actor)\<rparr>
           in rbind (save_inspection k i' d) (\<lambda>d1. Inr (audit_inspection A_STATUS_CHANGE k (Some i) i' actor d1))))"

definition review_inspection :: "env \<Rightarrow> nat \<times> inspection \<Rightarrow> user \<Rightarrow> db \<Rightarrow> db res" where
  "review_inspection e x actor d =
     (let k = fst x; i = snd x in
      ensure (can_review_inspection e d actor (in_site i))
        (if in_status i \<noteq> IN_SUBMITTED then Inl (ValidationError ''invalid_status'')
         else
           let i' = (scored d k i)\<lparr>in_status := IN_REVIEWED, in_updated_by := Some (u_pk actor)\<rparr>
           in rbind (save_inspection k i' d) (\<lambda>d1. Inr (audit_inspection A_STATUS_CHANGE k (Some i) i' actor d1))))"

section \<open>Endpoints\<close>

definition inspection_read :: "user \<Rightarrow> bool" where
  "inspection_read u \<longleftrightarrow> management_required u \<or> is_management_viewer u"

definition inspection_manage :: "env \<Rightarrow> db \<Rightarrow> user \<Rightarrow> nat \<Rightarrow> bool" where
  "inspection_manage e d u site \<longleftrightarrow> inspection_read u \<and> user_can_manage_site e d u (Some site)"

definition inspection_review_role :: "user \<Rightarrow> bool" where
  "inspection_review_role u \<longleftrightarrow> is_system_admin u \<or>
     u_role u \<in> {GENERAL_SUPERVISOR, ASSISTANT_GENERAL_SUPERVISOR, ZONE_SUPERVISOR}"

text \<open>The templates' endpoints ask for the site's permission only when the template has a site.\<close>

definition template_permission :: "env \<Rightarrow> db \<Rightarrow> user \<Rightarrow> inspection_template \<Rightarrow> bool" where
  "template_permission e d u t \<longleftrightarrow> \<not> truthy_id (tm_site t) \<or> user_can_manage_site e d u (tm_site t)"

definition inspection_template_create ::
  "env \<Rightarrow> user \<Rightarrow> string \<Rightarrow> string \<Rightarrow> nat option \<Rightarrow> nat option \<Rightarrow> inspection_frequency \<Rightarrow> item_row list \<Rightarrow> db \<Rightarrow> db res" where
  "inspection_template_create e u name description site_id area_id frequency rows d =
     permit (inspection_read u)
       (let area = (if truthy_id area_id \<and> active_row sa_is_active (areas d) (the area_id) \<noteq> None then area_id else None)
        in case (if truthy_id site_id then site_id else None) of
             None \<Rightarrow> db_of (create_template name u description None area frequency rows d)
           | Some s \<Rightarrow> load_site_or_404 d s (permit (inspection_manage e d u s)
               (db_of (create_template name u description (Some s) area frequency rows d))))"

definition inspection_template_update ::
  "env \<Rightarrow> user \<Rightarrow> nat \<Rightarrow> string option \<Rightarrow> string option \<Rightarrow> inspection_frequency option \<Rightarrow> item_row list option \<Rightarrow> db \<Rightarrow> db res" where
  "inspection_template_update e u k name description frequency rows d =
     permit (inspection_read u) (load_or_404 (templates d) k (\<lambda>x.
       permit (template_permission e d u (snd x)) (update_template x u name description frequency rows d)))"

definition inspection_template_status :: "env \<Rightarrow> user \<Rightarrow> nat \<Rightarrow> bool \<Rightarrow> db \<Rightarrow> db res" where
  "inspection_template_status e u k active d =
     permit (inspection_read u) (load_or_404 (templates d) k (\<lambda>x.
       permit (template_permission e d u (snd x))
         (Inr (if active then set_template_active k True u d else deactivate_template x u d))))"

definition inspection_start ::
  "env \<Rightarrow> user \<Rightarrow> nat \<Rightarrow> nat \<Rightarrow> nat \<Rightarrow> nat option \<Rightarrow> date option \<Rightarrow> nat option \<Rightarrow> string \<Rightarrow> db \<Rightarrow> db res" where
  "inspection_start e u site area template shift_id day inspector notes d =
     load_site_or_404 d site (permit (inspection_manage e d u site)
       (if map_option sa_site (active_row sa_is_active (areas d) area) \<noteq> Some site then Inl Http404
        else load_or_404 (templates d) template (\<lambda>t.
          permit (\<not> (truthy_id (tm_site (snd t)) \<and> tm_site (snd t) \<noteq> Some site))
            (let shift = (if truthy_id shift_id \<and> map_option sh_site (active_row sh_is_active (shifts d) (the shift_id)) = Some site
                          then shift_id else None)
             in found (if truthy_id inspector then find (\<lambda>v. Some (u_pk v) = inspector) (users d) else Some u) (\<lambda>by.
                  db_of (start_inspection e site area t by u day shift notes d))))))"

definition inspection_update :: "env \<Rightarrow> user \<Rightarrow> nat \<Rightarrow> string option \<Rightarrow> db \<Rightarrow> db res" where
  "inspection_update e u k notes d =
     load_or_404 (inspections d) k (\<lambda>x. permit (inspection_manage e d u (in_site (snd x))) (save_inspection_draft x u notes d))"

definition inspection_submit :: "env \<Rightarrow> user \<Rightarrow> nat \<Rightarrow> db \<Rightarrow> db res" where
  "inspection_submit e u k d =
     load_or_404 (inspections d) k (\<lambda>x. permit (inspection_manage e d u (in_site (snd x))) (submit_inspection e x u d))"

definition inspection_return :: "env \<Rightarrow> user \<Rightarrow> nat \<Rightarrow> string \<Rightarrow> db \<Rightarrow> db res" where
  "inspection_return e u k reason d =
     load_or_404 (inspections d) k (\<lambda>x. permit (inspection_review_role u) (return_inspection e x u reason d))"

definition inspection_review :: "env \<Rightarrow> user \<Rightarrow> nat \<Rightarrow> db \<Rightarrow> db res" where
  "inspection_review e u k d =
     load_or_404 (inspections d) k (\<lambda>x. permit (inspection_review_role u) (review_inspection e x u d))"

text \<open>The responsible cleaner of an answer, if one is found, must be posted to the site.\<close>

definition responsible_cleaner :: "db \<Rightarrow> nat option \<Rightarrow> nat option" where
  "responsible_cleaner d c = (if truthy_id c \<and> tbl_get (cleaners d) (the c) \<noteq> None then c else None)"

definition responsible_at :: "db \<Rightarrow> nat option \<Rightarrow> nat \<Rightarrow> bool" where
  "responsible_at d c site \<longleftrightarrow> c = None \<or>
     tbl_exists (\<lambda>_ a. Some (csa_cleaner a) = c \<and> csa_site a = site \<and> csa_status a = CA_ACTIVE) (cleaner_assignments d)"

definition inspection_result_create ::
  "env \<Rightarrow> user \<Rightarrow> nat \<Rightarrow> nat \<Rightarrow> nat option \<Rightarrow> string \<Rightarrow> rat option \<Rightarrow> bool option \<Rightarrow> bool option \<Rightarrow> string \<Rightarrow> db \<Rightarrow> db res" where
  "inspection_result_create e u k item cleaner value_text value_number value_boolean passed notes d =
     load_or_404 (inspections d) k (\<lambda>x.
       permit (inspection_manage e d u (in_site (snd x)))
         (if map_option ti_template (tbl_get (template_items d) item) \<noteq> Some (in_template (snd x)) then Inl Http404
          else
            let c = responsible_cleaner d cleaner
            in permit (responsible_at d c (in_site (snd x)))
                 (case tbl_where (\<lambda>_ r. ir_inspection r = k \<and> ir_template_item r = item) (results d) of
                    y # _ \<Rightarrow> update_inspection_result y u (Some value_text) value_number value_boolean passed (Some notes) c d
                  | [] \<Rightarrow> db_of (add_inspection_result x item u value_text value_number value_boolean passed notes c d))))"

definition load_result_or_404 :: "db \<Rightarrow> nat \<Rightarrow> nat \<Rightarrow> (nat \<times> inspection_result \<Rightarrow> 'a res) \<Rightarrow> 'a res" where
  "load_result_or_404 d k j f =
     found (tbl_get (results d) j) (\<lambda>r. if ir_inspection r = k then f (j, r) else Inl Http404)"

definition inspection_result_update ::
  "env \<Rightarrow> user \<Rightarrow> nat \<Rightarrow> nat \<Rightarrow> nat option \<Rightarrow> string option \<Rightarrow> rat option \<Rightarrow> bool option \<Rightarrow> bool option \<Rightarrow> string option \<Rightarrow>
   db \<Rightarrow> db res" where
  "inspection_result_update e u k j cleaner value_text value_number value_boolean passed notes d =
     load_or_404 (inspections d) k (\<lambda>x.
       permit (inspection_manage e d u (in_site (snd x)))
         (load_result_or_404 d k j (\<lambda>y.
            let c = responsible_cleaner d cleaner
            in permit (responsible_at d c (in_site (snd x)))
                 (update_inspection_result y u value_text value_number value_boolean passed notes c d))))"

definition inspection_result_photo :: "env \<Rightarrow> user \<Rightarrow> nat \<Rightarrow> nat \<Rightarrow> upload \<Rightarrow> db \<Rightarrow> db res" where
  "inspection_result_photo e u k j f d =
     load_or_404 (inspections d) k (\<lambda>x.
       permit (inspection_manage e d u (in_site (snd x))) (load_result_or_404 d k j (\<lambda>y. upload_result_photo e y f u d)))"

section \<open>Sequences of calls\<close>

text \<open>
  Every write endpoint, except that \<open>RenameTemplate\<close> is the update without \<open>items\<close>: replacing the
  items of a template is taken apart below.
\<close>

datatype inspection_call =
    CreateTemplate user string string "nat option" "nat option" inspection_frequency "item_row list"
  | RenameTemplate user nat "string option" "string option" "inspection_frequency option"
  | TemplateStatus user nat bool
  | StartInspection user nat nat nat "nat option" "date option" "nat option" string
  | SaveDraft user nat "string option"
  | SubmitInspection user nat
  | ReturnInspection user nat string
  | ReviewInspection user nat
  | CreateResult user nat nat "nat option" string "rat option" "bool option" "bool option" string
  | UpdateResult user nat nat "nat option" "string option" "rat option" "bool option" "bool option" "string option"
  | ResultPhoto user nat nat upload

fun inspection_step :: "db \<Rightarrow> env \<times> inspection_call \<Rightarrow> db res" where
  "inspection_step d (e, CreateTemplate u name desc s a fr rows) = inspection_template_create e u name desc s a fr rows d"
| "inspection_step d (e, RenameTemplate u k name desc fr) = inspection_template_update e u k name desc fr None d"
| "inspection_step d (e, TemplateStatus u k active) = inspection_template_status e u k active d"
| "inspection_step d (e, StartInspection u s a t sh day by notes) = inspection_start e u s a t sh day by notes d"
| "inspection_step d (e, SaveDraft u k notes) = inspection_update e u k notes d"
| "inspection_step d (e, SubmitInspection u k) = inspection_submit e u k d"
| "inspection_step d (e, ReturnInspection u k reason) = inspection_return e u k reason d"
| "inspection_step d (e, ReviewInspection u k) = inspection_review e u k d"
| "inspection_step d (e, CreateResult u k item c t n b p notes) = inspection_result_create e u k item c t n b p notes d"
| "inspection_step d (e, UpdateResult u k j c t n b p notes) = inspection_result_update e u k j c t n b p notes d"
| "inspection_step d (e, ResultPhoto u k j f) = inspection_result_photo e u k j f d"

section \<open>The invariant\<close>

text \<open>What a submission establishes: complete answers, and the score and verdict computed from them.\<close>

definition sealed :: "db \<Rightarrow> nat \<Rightarrow> inspection \<Rightarrow> bool" where
  "sealed d k i \<longleftrightarrow> required_items_missing d (k, i) = [] \<and> in_score i = score_of (map snd (answers d k)) \<and>
     in_overall_status i = Some (overall_of (map snd (answers d k))) \<and> in_submitted_at i \<noteq> None"

definition inspection_inv :: "db \<Rightarrow> bool" where
  "inspection_inv d \<longleftrightarrow> tbl_wf (inspections d) \<and> tbl_wf (results d) \<and> tbl_wf (template_items d) \<and> tbl_wf (templates d) \<and>
     (\<forall>k i. tbl_get (inspections d) k = Some i \<longrightarrow> tbl_get (templates d) (in_template i) \<noteq> None \<and>
        (\<not> inspection_is_editable i \<longrightarrow> sealed d k i))"

lemma inspection_invD:
  assumes "inspection_inv d"
  shows "tbl_wf (inspections d)" "tbl_wf (results d)" "tbl_wf (template_items d)" "tbl_wf (templates d)"
    and "tbl_get (inspections d) k = Some i \<Longrightarrow> tbl_get (templates d) (in_template i) \<noteq> None"
    and "tbl_get (inspections d) k = Some i \<Longrightarrow> \<not> inspection_is_editable i \<Longrightarrow> sealed d k i"
  using assms by (auto simp: inspection_inv_def)

definition template_items_of :: "db \<Rightarrow> nat \<Rightarrow> (nat \<times> template_item) list" where
  "template_items_of d t = tbl_where (\<lambda>_ ti. ti_template ti = t) (template_items d)"

lemma required_items: "tbl_where (\<lambda>_ ti. ti_template ti = t \<and> ti_required ti) (template_items d) =
    filter (\<lambda>(_, ti). ti_required ti) (template_items_of d t)"
  by (auto simp: template_items_of_def tbl_where_def intro: filter_cong)

lemma sealed_cong:
  "answers d' k = answers d k \<Longrightarrow> template_items_of d' (in_template i) = template_items_of d (in_template i) \<Longrightarrow> sealed d' k i = sealed d k i"
  by (simp add: sealed_def required_items_missing_def required_items)

lemma tbl_where_put_other:
  assumes "tbl_wf t" and "tbl_get t k = Some r" and "\<not> P k r" and "\<not> P k s"
  shows "tbl_where P (tbl_put k s t) = tbl_where P t"
proof -
  have only: "b = r" if "(k, b) \<in> set (tbl_rows t)" for b using that assms(1,2) by (simp add: tbl_get_mem)
  have "filter (\<lambda>(j, b). P j b) (map (\<lambda>(j, b). (j, if j = k then s else b)) xs) = filter (\<lambda>(j, b). P j b) xs"
    if "\<And>b. (k, b) \<in> set xs \<Longrightarrow> b = r" for xs
    using that
  proof (induction xs)
    case Nil
    then show ?case by simp
  next
    case (Cons x xs)
    have "\<And>b. (k, b) \<in> set xs \<Longrightarrow> b = r" using Cons.prems by simp
    note ih = Cons.IH [OF this]
    obtain j b where x: "x = (j, b)" by fastforce
    have "j = k \<Longrightarrow> b = r" using Cons.prems [of b] x by simp
    then show ?case using ih assms(3,4) x by auto
  qed
  from this [of "tbl_rows t"] only show ?thesis by (simp add: tbl_where_def tbl_put_def tbl_update_where_def)
qed

lemma audit_emit_inspection_frame [simp]:
  "inspections (audit_inspection a k b c u d) = inspections d" "results (audit_inspection a k b c u d) = results d"
  "template_items (audit_inspection a k b c u d) = template_items d" "templates (audit_inspection a k b c u d) = templates d"
  "inspections (audit_result a k x y u d) = inspections d" "results (audit_result a k x y u d) = results d"
  "template_items (audit_result a k x y u d) = template_items d" "templates (audit_result a k x y u d) = templates d"
  "inspections (emit_inspection ev k p u d) = inspections d" "results (emit_inspection ev k p u d) = results d"
  "template_items (emit_inspection ev k p u d) = template_items d" "templates (emit_inspection ev k p u d) = templates d"
  by (simp_all add: audit_inspection_def audit_result_def emit_inspection_def)

lemma failed_hook_frame [simp]:
  "inspections (fold (create_issue_from_failed_result x u) rs d) = inspections d"
  "results (fold (create_issue_from_failed_result x u) rs d) = results d"
  "template_items (fold (create_issue_from_failed_result x u) rs d) = template_items d"
  "templates (fold (create_issue_from_failed_result x u) rs d) = templates d"
  by (induction rs arbitrary: d) (simp_all add: create_issue_from_failed_result_def Let_def)

text \<open>The four tables are all the invariant reads.\<close>

lemma inspection_inv_cong:
  "inspections d' = inspections d \<Longrightarrow> results d' = results d \<Longrightarrow> template_items d' = template_items d \<Longrightarrow>
     templates d' = templates d \<Longrightarrow> inspection_inv d' = inspection_inv d"
  by (simp add: inspection_inv_def sealed_def answers_def required_items_missing_def)

section \<open>Every call keeps it\<close>

text \<open>A write to the answers of one editable inspection.\<close>

lemma answers_write_inv:
  assumes inv: "inspection_inv d" and i: "tbl_get (inspections d) k = Some i" "inspection_is_editable i"
    and same: "inspections d' = inspections d" "template_items d' = template_items d" "templates d' = templates d"
    and wf: "tbl_wf (results d')" and other: "\<And>j. j \<noteq> k \<Longrightarrow> answers d' j = answers d j"
  shows "inspection_inv d'"
proof -
  have "sealed d' j x" if x: "tbl_get (inspections d) j = Some x" "\<not> inspection_is_editable x" for j x
  proof -
    have "j \<noteq> k" using x i by auto
    then have "sealed d' j x = sealed d j x" by (intro sealed_cong) (simp_all add: other template_items_of_def same)
    with inspection_invD(6) [OF inv x] show ?thesis by simp
  qed
  then show ?thesis using inv wf by (auto simp: inspection_inv_def same)
qed

lemma answers_put_inv:
  assumes inv: "inspection_inv d" and i: "tbl_get (inspections d) (ir_inspection r) = Some i" "inspection_is_editable i"
    and r: "tbl_get (results d) j = Some r" and s: "ir_inspection s = ir_inspection r"
    and same: "inspections d' = inspections d" "template_items d' = template_items d" "templates d' = templates d"
    and put: "results d' = tbl_put j s (results d)"
  shows "inspection_inv d'"
proof (rule answers_write_inv [OF inv i same])
  show "tbl_wf (results d')" using inspection_invD(2) [OF inv] by (simp add: put)
  show "answers d' k = answers d k" if "k \<noteq> ir_inspection r" for k
    unfolding answers_def put using that s by (intro tbl_where_put_other [OF inspection_invD(2) [OF inv] r]) auto
qed

text \<open>A write of one inspection, and a new one.\<close>

lemma inspection_write_inv:
  assumes inv: "inspection_inv d" and i: "tbl_get (inspections d) k = Some i"
    and put: "inspections d' = tbl_put k i' (inspections d)"
    and same: "results d' = results d" "template_items d' = template_items d" "templates d' = templates d"
    and i': "in_template i' = in_template i" "\<not> inspection_is_editable i' \<Longrightarrow> sealed d k i'"
  shows "inspection_inv d'"
proof -
  have seal: "sealed d' j x = sealed d j x" for j x by (rule sealed_cong) (simp_all add: answers_def template_items_of_def same)
  show ?thesis
    unfolding inspection_inv_def seal put same
    using inspection_invD [OF inv] i i' by (auto simp: tbl_get_put split: if_splits)
qed

lemma inspection_insert_inv:
  assumes inv: "inspection_inv d" and ins: "inspections d' = tbl_insert i (inspections d)"
    and same: "results d' = results d" "template_items d' = template_items d" "templates d' = templates d"
    and i: "tbl_get (templates d) (in_template i) \<noteq> None" "inspection_is_editable i"
  shows "inspection_inv d'"
proof -
  have seal: "sealed d' j x = sealed d j x" for j x by (rule sealed_cong) (simp_all add: answers_def template_items_of_def same)
  show ?thesis
    unfolding inspection_inv_def seal ins same
    using inspection_invD [OF inv] i by (auto simp: tbl_get_insert split: if_splits)
qed

text \<open>A write to templates that keeps the items of those in use.\<close>

lemma template_write_inv:
  assumes inv: "inspection_inv d" and same: "inspections d' = inspections d" "results d' = results d"
    and wf: "tbl_wf (template_items d')" "tbl_wf (templates d')"
    and keep: "\<And>t. tbl_get (templates d) t \<noteq> None \<Longrightarrow> tbl_get (templates d') t \<noteq> None \<and> template_items_of d' t = template_items_of d t"
  shows "inspection_inv d'"
proof -
  have "sealed d' j x" if x: "tbl_get (inspections d) j = Some x" "\<not> inspection_is_editable x" for j x
  proof -
    have "sealed d' j x = sealed d j x"
      using keep [OF inspection_invD(5) [OF inv x(1)]] by (intro sealed_cong) (simp_all add: answers_def same)
    with inspection_invD(6) [OF inv x] show ?thesis by simp
  qed
  then show ?thesis
    using inspection_invD [OF inv] keep wf unfolding inspection_inv_def same by blast
qed

lemma answer_clean_keeps: "answer_clean ty r = Some s \<Longrightarrow> ir_inspection s = ir_inspection r \<and> ir_template_item s = ir_template_item r"
  by (auto simp: answer_clean_def split: inspection_item_type.splits option.splits if_splits)

lemma result_clean_keeps: "result_clean d k r = Some s \<Longrightarrow> ir_inspection s = ir_inspection r"
  by (auto simp: result_clean_def dest: answer_clean_keeps split: option.splits if_splits)

lemma add_result_inv:
  assumes inv: "inspection_inv d" and i: "tbl_get (inspections d) k = Some i"
    and run: "add_inspection_result (k, i) item u t n b p notes c d = Inr (j, d')"
  shows "inspection_inv d'"
proof -
  obtain r r' where ed: "inspection_is_editable i" and clean: "result_clean d (tbl_next (results d)) r = Some r'"
    and k: "ir_inspection r = k" and d': "d' = audit_result A_CREATE j None (Some r') u (d\<lparr>results := tbl_insert r' (results d)\<rparr>)"
    using run by (auto simp: add_inspection_result_def Let_def split: if_splits option.splits)
  show ?thesis
  proof (rule answers_write_inv [OF inv i ed])
    show "tbl_wf (results d')" using inspection_invD(2) [OF inv] by (simp add: d')
    show "answers d' x = answers d x" if "x \<noteq> k" for x
      using that result_clean_keeps [OF clean] k by (simp add: d' answers_def tbl_where_insert)
  qed (simp_all add: d')
qed

lemma update_result_inv:
  assumes inv: "inspection_inv d" and r: "tbl_get (results d) j = Some r"
    and run: "update_inspection_result (j, r) u t n b p notes c d = Inr d'"
  shows "inspection_inv d'"
proof -
  obtain i r1 r' where i: "tbl_get (inspections d) (ir_inspection r) = Some i" "inspection_is_editable i"
    and clean: "result_clean d j r1 = Some r'" and r1: "ir_inspection r1 = ir_inspection r"
    and d': "d' = audit_result A_UPDATE j (Some r) None u (d\<lparr>results := tbl_put j r' (results d)\<rparr>)"
    using run by (auto simp: update_inspection_result_def fetch_Inr Let_def split: if_splits option.splits)
  show ?thesis
    by (rule answers_put_inv [OF inv i r, where s = r']) (use result_clean_keeps [OF clean] r1 in \<open>simp_all add: d'\<close>)
qed

lemma upload_photo_inv:
  assumes inv: "inspection_inv d" and r: "tbl_get (results d) j = Some r"
    and run: "upload_result_photo e (j, r) f u d = Inr d'"
  shows "inspection_inv d'"
proof -
  define r' where "r' = r\<lparr>ir_file := Some f, ir_original_filename := up_name f, ir_content_type := up_content_type f,
     ir_size_bytes := up_size f, ir_uploaded_by := Some (u_pk u)\<rparr>"
  obtain i where i: "tbl_get (inspections d) (ir_inspection r) = Some i" "inspection_is_editable i"
    and d': "d' = audit_result A_CREATE j None None u (d\<lparr>results := tbl_put j r' (results d)\<rparr>)"
    using run by (auto simp: upload_result_photo_def fetch_Inr rbind_Inr Let_def r'_def split: if_splits)
  show ?thesis by (rule answers_put_inv [OF inv i r, where s = r']) (simp_all add: d' r'_def)
qed

lemma scored_simps [simp]:
  "in_status (scored d k i) = in_status i" "in_template (scored d k i) = in_template i"
  "in_submitted_at (scored d k i) = in_submitted_at i"
  "in_score (scored d k i) = score_of (map snd (answers d k))"
  "in_overall_status (scored d k i) = Some (overall_of (map snd (answers d k)))"
  by (simp_all add: scored_def calculate_inspection_score_def Let_def)

lemma save_inspection_Inr [res_simps]:
  "save_inspection k i d = Inr d' \<longleftrightarrow> (case in_score i of None \<Rightarrow> True | Some s \<Rightarrow> decimal_fits 5 2 s) \<and>
     d' = d\<lparr>inspections := tbl_put k i (inspections d)\<rparr>"
  by (auto simp: save_inspection_def split: option.splits)

lemma required_items_missing_template:
  "in_template i' = in_template i \<Longrightarrow> required_items_missing d (k, i') = required_items_missing d (k, i)"
  by (simp add: required_items_missing_def)

lemma save_draft_inv:
  assumes inv: "inspection_inv d" and i: "tbl_get (inspections d) k = Some i"
    and run: "save_inspection_draft (k, i) u notes d = Inr d'"
  shows "inspection_inv d'"
proof (rule inspection_write_inv [OF inv i])
  let ?i = "(scored d k (i\<lparr>in_notes := given notes (in_notes i)\<rparr>))\<lparr>in_updated_by := Some (u_pk u)\<rparr>"
  show "inspections d' = tbl_put k ?i (inspections d)" "results d' = results d" "template_items d' = template_items d"
    "templates d' = templates d" and "\<not> inspection_is_editable ?i \<Longrightarrow> sealed d k ?i"
    using run by (auto simp: save_inspection_draft_def res_simps Let_def inspection_is_editable_def split: if_splits)
qed simp

lemma submit_inspection_Inr:
  assumes "submit_inspection e (k, i) u d = Inr d'"
  shows "inspection_is_editable i \<and> required_items_missing d (k, i) = [] \<and>
    inspections d' = tbl_put k ((scored d k i)\<lparr>in_status := IN_SUBMITTED, in_submitted_at := Some (now e),
      in_updated_by := Some (u_pk u)\<rparr>) (inspections d) \<and>
    results d' = results d \<and> template_items d' = template_items d \<and> templates d' = templates d"
  using assms by (auto simp: submit_inspection_def inspection_is_editable_def res_simps Let_def split: if_splits)

lemma submit_inspection_inv:
  assumes inv: "inspection_inv d" and i: "tbl_get (inspections d) k = Some i"
    and run: "submit_inspection e (k, i) u d = Inr d'"
  shows "inspection_inv d'"
proof (rule inspection_write_inv [OF inv i])
  let ?i = "(scored d k i)\<lparr>in_status := IN_SUBMITTED, in_submitted_at := Some (now e), in_updated_by := Some (u_pk u)\<rparr>"
  note facts = submit_inspection_Inr [OF run]
  show "inspections d' = tbl_put k ?i (inspections d)" "results d' = results d" "template_items d' = template_items d"
    "templates d' = templates d" using facts by simp_all
  show "sealed d k ?i" using facts by (simp add: sealed_def required_items_missing_template [of ?i i])
qed simp

lemma return_inspection_inv:
  assumes inv: "inspection_inv d" and i: "tbl_get (inspections d) k = Some i"
    and run: "return_inspection e (k, i) u reason d = Inr d'"
  shows "inspection_inv d'"
proof (rule inspection_write_inv [OF inv i])
  let ?i = "i\<lparr>in_status := IN_RETURNED, in_notes := append_line (in_notes i) (''Returned: '' @ reason), in_updated_by := Some (u_pk u)\<rparr>"
  show "inspections d' = tbl_put k ?i (inspections d)" "results d' = results d" "template_items d' = template_items d"
    "templates d' = templates d" and "\<not> inspection_is_editable ?i \<Longrightarrow> sealed d k ?i"
    using run by (auto simp: return_inspection_def res_simps Let_def inspection_is_editable_def split: if_splits)
qed simp

lemma review_inspection_inv:
  assumes inv: "inspection_inv d" and i: "tbl_get (inspections d) k = Some i"
    and run: "review_inspection e (k, i) u d = Inr d'"
  shows "inspection_inv d'"
proof (rule inspection_write_inv [OF inv i])
  let ?i = "(scored d k i)\<lparr>in_status := IN_REVIEWED, in_updated_by := Some (u_pk u)\<rparr>"
  have st: "in_status i = IN_SUBMITTED"
    using run by (auto simp: review_inspection_def res_simps Let_def split: if_splits)
  show "inspections d' = tbl_put k ?i (inspections d)" "results d' = results d" "template_items d' = template_items d"
    "templates d' = templates d"
    using run by (auto simp: review_inspection_def res_simps Let_def split: if_splits)
  have "sealed d k i" using inspection_invD(6) [OF inv i] st by (simp add: inspection_is_editable_def)
  then show "sealed d k ?i" by (simp add: sealed_def required_items_missing_template [of ?i i])
qed simp

lemma start_inspection_inv:
  assumes inv: "inspection_inv d" and run: "start_inspection e s a t by u day sh notes d = Inr (k, d')"
  shows "inspection_inv d'"
proof -
  obtain i where clean: "inspection_clean d i" and st: "in_status i = IN_DRAFT"
    and d': "d' = audit_inspection A_CREATE k None i u (d\<lparr>inspections := tbl_insert i (inspections d)\<rparr>)"
    using run by (auto simp: start_inspection_def Let_def split: if_splits)
  have "tbl_get (templates d) (in_template i) \<noteq> None" using clean by (auto simp: inspection_clean_def split: option.splits)
  then show ?thesis
    by (intro inspection_insert_inv [OF inv, of d' i]) (simp_all add: d' inspection_is_editable_def st)
qed

text \<open>Items are added to one template only.\<close>

lemma create_item_effect:
  assumes "create_template_item k u row d = Inr d'"
  shows "inspections d' = inspections d \<and> results d' = results d \<and> templates d' = templates d \<and>
    (tbl_wf (template_items d) \<longrightarrow> tbl_wf (template_items d')) \<and> (\<forall>t. t \<noteq> k \<longrightarrow> template_items_of d' t = template_items_of d t)"
  using assms by (auto simp: create_template_item_def Let_def template_items_of_def tbl_where_insert split: if_splits)

lemma create_items_effect:
  assumes "foldM (create_template_item k u) rows d = Inr d'"
  shows "inspections d' = inspections d \<and> results d' = results d \<and> templates d' = templates d \<and>
    (tbl_wf (template_items d) \<longrightarrow> tbl_wf (template_items d')) \<and> (\<forall>t. t \<noteq> k \<longrightarrow> template_items_of d' t = template_items_of d t)"
  by (rule foldM_invariant [OF assms]) (auto dest: create_item_effect)

lemma create_template_inv:
  assumes inv: "inspection_inv d" and run: "create_template name u desc s a fr rows d = Inr (k, d')"
  shows "inspection_inv d'"
proof -
  obtain t d1 where k: "k = tbl_next (templates d)"
    and items: "foldM (create_template_item k u) rows (d\<lparr>templates := tbl_insert t (templates d)\<rparr>) = Inr d1"
    and d': "inspections d' = inspections d1" "results d' = results d1" "template_items d' = template_items d1" "templates d' = templates d1"
    using run by (auto simp: create_template_def res_simps Let_def split: if_splits)
  note eff = create_items_effect [OF items]
  show ?thesis
  proof (rule template_write_inv [OF inv])
    show "inspections d' = inspections d" "results d' = results d" "tbl_wf (template_items d')" "tbl_wf (templates d')"
      using eff inspection_invD [OF inv] by (simp_all add: d')
    fix j assume j: "tbl_get (templates d) j \<noteq> None"
    then have "j \<noteq> k" using tbl_get_fresh [OF inspection_invD(4) [OF inv]] by (auto simp: k)
    with j eff show "tbl_get (templates d') j \<noteq> None \<and> template_items_of d' j = template_items_of d j"
      by (simp add: d' template_items_of_def tbl_get_insert inspection_invD(4) [OF inv])
  qed
qed

lemma template_columns_inv:
  assumes inv: "inspection_inv d" and same: "inspections d' = inspections d" "results d' = results d"
    "template_items d' = template_items d" and t: "templates d' = tbl_update_where P f (templates d)"
  shows "inspection_inv d'"
  by (rule template_write_inv [OF inv same(1,2)])
    (use inspection_invD [OF inv] in \<open>auto simp: same t tbl_wf_update_where tbl_get_update_where template_items_of_def\<close>)

lemma rename_template_inv:
  assumes inv: "inspection_inv d" and run: "update_template x u name desc fr None d = Inr d'"
  shows "inspection_inv d'"
  using run by (intro template_columns_inv [OF inv]) (auto simp: update_template_def res_simps Let_def tbl_put_def split: if_splits)

lemma template_status_inv:
  assumes inv: "inspection_inv d"
  shows "inspection_inv (set_template_active k active u d)" "inspection_inv (deactivate_template x u d)"
  by (rule template_columns_inv [OF inv]; simp add: set_template_active_def deactivate_template_def)+

lemma inspection_step_inv:
  assumes inv: "inspection_inv d" and run: "inspection_step d (e, c) = Inr d'"
  shows "inspection_inv d'"
proof (cases c)
  case (CreateTemplate u name desc s a fr rows)
  with run show ?thesis
    by (auto simp: inspection_template_create_def res_simps Let_def intro: create_template_inv [OF inv] split: option.splits if_splits)
next
  case (RenameTemplate u k name desc fr)
  with run show ?thesis by (auto simp: inspection_template_update_def res_simps intro: rename_template_inv [OF inv])
next
  case (TemplateStatus u k active)
  with run show ?thesis
    by (auto simp: inspection_template_status_def res_simps template_status_inv [OF inv] split: if_splits)
next
  case (StartInspection u s a t sh day i text_notes)
  with run show ?thesis
    by (auto simp: inspection_start_def res_simps Let_def intro: start_inspection_inv [OF inv] split: if_splits)
next
  case (SaveDraft u k new_notes)
  with run show ?thesis by (auto simp: inspection_update_def res_simps intro: save_draft_inv [OF inv])
next
  case (SubmitInspection u k)
  with run show ?thesis by (auto simp: inspection_submit_def res_simps intro: submit_inspection_inv [OF inv])
next
  case (ReturnInspection u k reason)
  with run show ?thesis by (auto simp: inspection_return_def res_simps intro: return_inspection_inv [OF inv])
next
  case (ReviewInspection u k)
  with run show ?thesis by (auto simp: inspection_review_def res_simps intro: review_inspection_inv [OF inv])
next
  case (CreateResult u k item c t n b p nts)
  then obtain i where i: "tbl_get (inspections d) k = Some i"
    and ok: "(case tbl_where (\<lambda>_ r. ir_inspection r = k \<and> ir_template_item r = item) (results d) of
        y # _ \<Rightarrow> update_inspection_result y u (Some t) n b p (Some nts) (responsible_cleaner d c) d
      | [] \<Rightarrow> db_of (add_inspection_result (k, i) item u t n b p nts (responsible_cleaner d c) d)) = Inr d'"
    using run by (auto simp: inspection_result_create_def res_simps Let_def split: if_splits)
  show ?thesis
  proof (cases "tbl_where (\<lambda>_ r. ir_inspection r = k \<and> ir_template_item r = item) (results d)")
    case Nil
    with ok show ?thesis by (auto simp: res_simps intro: add_result_inv [OF inv i])
  next
    case (Cons y ys)
    obtain j r where y: "y = (j, r)" by fastforce
    have "(j, r) \<in> set (tbl_where (\<lambda>_ r. ir_inspection r = k \<and> ir_template_item r = item) (results d))"
      unfolding Cons y by simp
    then have "tbl_get (results d) j = Some r" by (simp add: tbl_get_mem inspection_invD(2) [OF inv])
    with ok Cons y show ?thesis by (auto intro: update_result_inv [OF inv])
  qed
next
  case (UpdateResult u k j c t n b p nts)
  with run show ?thesis
    by (auto simp: inspection_result_update_def load_result_or_404_def res_simps Let_def
        intro: update_result_inv [OF inv] split: if_splits)
next
  case (ResultPhoto u k j f)
  with run show ?thesis
    by (auto simp: inspection_result_photo_def load_result_or_404_def res_simps intro: upload_photo_inv [OF inv] split: if_splits)
qed

interpretation inspection: safe_system inspection_step inspection_inv
  by unfold_locales (metis inspection_step_inv prod.exhaust)

section \<open>Bounds of the score\<close>

lemma quantize2_whole: "quantize2 x * 100 \<in> \<int>"
  by (simp add: quantize2_def Let_def)

lemma quantize2_range:
  assumes "0 \<le> x" and "x \<le> 100"
  shows "0 \<le> quantize2 x \<and> quantize2 x \<le> 100"
proof -
  define f where "f = \<lfloor>x * 100\<rfloor>"
  have le: "of_int f \<le> x * 100" by (simp add: f_def)
  have f: "0 \<le> f" "f \<le> 10000" using assms by (simp_all add: f_def floor_le_iff le_floor_iff)
  define n where "n = (let r = x * 100 - of_int f in if r < 1 / 2 then f else if 1 / 2 < r then f + 1 else if even f then f else f + 1)"
  have q: "quantize2 x = of_int n / 100" by (simp add: quantize2_def n_def f_def Let_def)
  have "n = f \<or> n = f + 1 \<and> f < 10000"
  proof (cases "f = 10000")
    case True
    then have "x * 100 - of_int f \<le> 0" using assms(2) by simp
    then show ?thesis by (simp add: n_def)
  next
    case False
    with f show ?thesis by (auto simp: n_def Let_def)
  qed
  then have "0 \<le> n \<and> n \<le> 10000" using f by auto
  then have "(0::rat) \<le> of_int n \<and> (of_int n::rat) \<le> of_int 10000" by (simp only: of_int_le_iff of_int_0_le_iff)
  then show ?thesis by (simp add: q)
qed

lemma sum_list_range:
  fixes xs :: "rat list"
  assumes "\<And>x. x \<in> set xs \<Longrightarrow> 0 \<le> x \<and> x \<le> 100"
  shows "0 \<le> sum_list xs \<and> sum_list xs \<le> 100 * of_nat (length xs)"
  using assms
proof (induction xs)
  case Nil
  then show ?case by simp
next
  case (Cons x xs)
  then have "0 \<le> sum_list xs \<and> sum_list xs \<le> 100 * of_nat (length xs)" "0 \<le> x \<and> x \<le> 100" by simp_all
  then show ?case by (simp add: algebra_simps)
qed

definition numbers_in_range :: "inspection_result list \<Rightarrow> bool" where
  "numbers_in_range rs \<longleftrightarrow> list_all (\<lambda>r. case ir_value_number r of None \<Rightarrow> True | Some v \<Rightarrow> 0 \<le> v \<and> v \<le> 100) rs"

lemma score_range:
  assumes "numbers_in_range rs" and "score_of rs = Some s"
  shows "0 \<le> s \<and> s \<le> 100 \<and> decimal_fits 5 2 s"
proof -
  let ?xs = "List.map_filter ir_value_number rs"
  have ne: "?xs \<noteq> []" and s: "s = quantize2 (sum_list ?xs / of_nat (length ?xs))"
    using assms(2) by (auto simp: score_of_def Let_def split: if_splits)
  have "0 \<le> x \<and> x \<le> 100" if "x \<in> set ?xs" for x
    using that assms(1) by (auto simp: numbers_in_range_def list_all_iff List.map_filter_def split: option.splits)
  from sum_list_range [OF this] have "0 \<le> sum_list ?xs / of_nat (length ?xs)" "sum_list ?xs / of_nat (length ?xs) \<le> 100"
    using ne by (simp_all add: divide_le_eq)
  from quantize2_range [OF this] have range: "0 \<le> s" "s \<le> 100" by (simp_all add: s)
  obtain n where "s * 100 = of_int n" using quantize2_whole [of "sum_list ?xs / of_nat (length ?xs)"] by (auto simp: s Ints_def)
  then have "decimal_fits 5 2 s" using range by (simp add: decimal_fits_def)
  with range show ?thesis by simp
qed

lemma failed_hook_events:
  "length (events (fold (create_issue_from_failed_result x u) rs d)) = length (events d) + length rs"
  by (induction rs arbitrary: d) (simp_all add: create_issue_from_failed_result_def emit_inspection_def publish_domain_event_def Let_def)

section \<open>Properties\<close>


text \<open>
  C23: a submitted inspection stays sealed. Whatever calls are made short of replacing the items of
  a template, every submitted or reviewed inspection has all required items answered, and its score
  and verdict are those of the answers it has now.
\<close>

theorem submitted_inspections_sealed:
  assumes "inspection_inv d" and "d' = run_calls inspection_step d cs"
    and "tbl_get (inspections d') k = Some i" and "in_status i \<in> {IN_SUBMITTED, IN_REVIEWED}"
  shows "required_items_missing d' (k, i) = [] \<and>
    (in_score i, in_overall_status i) = (fst (calculate_inspection_score d' k), Some (snd (calculate_inspection_score d' k))) \<and>
    in_submitted_at i \<noteq> None"
proof -
  have "inspection_inv d'" unfolding assms(2) by (rule inspection.run_inv [OF assms(1)])
  from inspection_invD(6) [OF this assms(3)] assms(4) have "sealed d' k i" by (auto simp: inspection_is_editable_def)
  then show ?thesis by (simp add: sealed_def calculate_inspection_score_def Let_def)
qed

section \<open>Concrete instances\<close>

definition inspection_admin :: user where
  "inspection_admin = \<lparr>u_pk = 1, u_role = SYSTEM_ADMIN, u_is_superuser = True, u_is_active = True, u_perms = []\<rparr>"

text \<open>A global template with one required score item, and a draft inspection of an area with it.\<close>

definition demo_inspection_db :: db where
  "demo_inspection_db = empty_db\<lparr>
     sites := \<lparr>tbl_rows = [(1, demo_site)], tbl_next = 2\<rparr>,
     areas := \<lparr>tbl_rows = [(1, \<lparr>sa_site = 1, sa_name = ''Hall'', sa_code = ''H'', sa_floor = [], sa_description = [],
       sa_is_active = True, sa_created_by = None, sa_updated_by = None\<rparr>)], tbl_next = 2\<rparr>,
     templates := \<lparr>tbl_rows = [(1, \<lparr>tm_name = ''Daily'', tm_description = [], tm_site = None, tm_area = None,
       tm_frequency = FR_DAILY, tm_is_active = True, tm_created_by = None, tm_updated_by = None\<rparr>)], tbl_next = 2\<rparr>,
     template_items := \<lparr>tbl_rows = [(1, \<lparr>ti_template = 1, ti_label = ''Floor'', ti_type = IT_SCORE, ti_required = True,
       ti_sequence = 1, ti_help_text = []\<rparr>)], tbl_next = 2\<rparr>,
     inspections := \<lparr>tbl_rows = [(1, \<lparr>in_site = 1, in_area = 1, in_template = 1, in_inspection_date = Date 2025 6 2,
       in_shift = None, in_inspected_by = None, in_overall_status = None, in_score = None, in_notes = [],
       in_status = IN_DRAFT, in_submitted_at = None, in_created_by = None, in_updated_by = None\<rparr>)], tbl_next = 2\<rparr>\<rparr>"

lemmas inspection_eval = demo_inspection_db_def empty_db_def demo_site_def inspection_admin_def default_env_def
  load_site_or_404_def load_or_404_def load_result_or_404_def found_def permit_def inspection_read_def inspection_manage_def
  inspection_review_role_def template_permission_def truthy_id_def management_required_def is_system_admin_def
  is_management_viewer_def user_can_manage_site_def db_of_def responsible_cleaner_def responsible_at_def
  inspection_result_create_def add_inspection_result_def result_clean_def answer_clean_def inspection_is_editable_def
  inspection_submit_def submit_inspection_def required_items_missing_def answer_complete_def answers_def
  scored_def calculate_inspection_score_def score_of_def overall_of_def PASS_THRESHOLD_def quantize2_def decimal_fits_def
  save_inspection_def failed_results_def create_issue_from_failed_result_def
  audit_inspection_def audit_result_def emit_inspection_def record_audit_def publish_domain_event_def notify_def
  inspection_template_update_def update_template_def delete_items_def template_clean_def create_template_item_def
  template_item_clean_def given_def inspection_review_def review_inspection_def ensure_def can_review_inspection_def
  is_reviewer_def site_in_user_scope_def visible_sites_def sees_all_zones_def List.map_filter_def
  tbl_get_def tbl_where_def tbl_exists_def tbl_insert_def tbl_update_where_def tbl_put_def tbl_delete_where_def tbl_empty_def

abbreviation demo_submitted_inspection :: db where
  "demo_submitted_inspection \<equiv> run_calls inspection_step demo_inspection_db
     [(default_env, CreateResult inspection_admin 1 1 None [] (Some 30) None None []),
      (default_env, SubmitInspection inspection_admin 1)]"

lemma demo_inspection_inv: "inspection_inv demo_inspection_db"
  by (simp add: inspection_inv_def demo_inspection_db_def empty_db_def tbl_wf_def tbl_empty_def tbl_get_def
      inspection_is_editable_def)

lemma demo_inspection_failed:
  "\<exists>i. tbl_get (inspections demo_submitted_inspection) 1 = Some i \<and> in_status i = IN_SUBMITTED \<and>
     in_overall_status i = Some OV_FAILED \<and> in_score i = Some 30"
  by (simp add: inspection_eval Let_def del: set_filter)

theorem submitted_inspections_sealed_witness:
  "\<exists>i. tbl_get (inspections demo_submitted_inspection) 1 = Some i \<and>
     in_score i = fst (calculate_inspection_score demo_submitted_inspection 1) \<and> in_score i = Some 30"
proof -
  obtain i where i: "tbl_get (inspections demo_submitted_inspection) 1 = Some i" "in_status i = IN_SUBMITTED" "in_score i = Some 30"
    using demo_inspection_failed by blast
  have "in_score i = fst (calculate_inspection_score demo_submitted_inspection 1)"
    using submitted_inspections_sealed [OF demo_inspection_inv refl i(1)] i(2) by simp
  with i show ?thesis by blast
qed

abbreviation demo_answered_inspection :: db where
  "demo_answered_inspection \<equiv> run_calls inspection_step demo_inspection_db
     [(default_env, CreateResult inspection_admin 1 1 None [] (Some 30) None None [])]"

lemma demo_answered:
  "\<exists>i. tbl_get (inspections demo_answered_inspection) 1 = Some i \<and> in_status i = IN_DRAFT \<and>
     required_items_missing demo_answered_inspection (1, i) = [] \<and> numbers_in_range (map snd (answers demo_answered_inspection 1)) \<and>
     length (filter (\<lambda>(_, r). ir_passed r = Some False) (answers demo_answered_inspection 1)) = 1"
  by (simp add: inspection_eval numbers_in_range_def Let_def del: set_filter)


section \<open>What the rules do not protect\<close>

text \<open>
  A global template can be edited by everyone who may read inspections. A management viewer, who
  may write nothing else, replaces its items; the answers of a submitted, failed inspection are
  deleted with the old items, and its review then finds it passed and without a score.
\<close>

theorem viewer_erases_answers:
  "\<exists>i j d1 d2. tbl_get (inspections demo_submitted_inspection) 1 = Some i \<and> in_overall_status i = Some OV_FAILED \<and>
     inspection_template_update default_env demo_viewer 1 None None None
       (Some [\<lparr>rw_label = ''Wall'', rw_type = IT_YES_NO, rw_required = None, rw_sequence = None, rw_help_text = None\<rparr>])
       demo_submitted_inspection = Inr d1 \<and>
     answers d1 1 = [] \<and> inspection_review default_env inspection_admin 1 d1 = Inr d2 \<and>
     tbl_get (inspections d2) 1 = Some j \<and> in_status j = IN_REVIEWED \<and> in_overall_status j = Some OV_PASSED \<and> in_score j = None"
  by (simp add: inspection_eval demo_viewer_def SUPERVISOR_ROLES_def Let_def del: set_filter)

text \<open>
  The score is documented as the average of the score items. A number sent with a pass/fail answer counts as well.
\<close>

definition plain_answer :: "rat \<Rightarrow> bool \<Rightarrow> inspection_result" where
  "plain_answer v p = \<lparr>ir_inspection = 1, ir_template_item = 1, ir_responsible_cleaner = None, ir_value_text = [],
     ir_value_number = Some v, ir_value_boolean = Some p, ir_passed = Some p, ir_notes = [], ir_file = None,
     ir_original_filename = [], ir_content_type = [], ir_size_bytes = 0, ir_uploaded_by = None\<rparr>"

theorem score_counts_every_number:
  "answer_clean IT_SCORE (plain_answer 90 True) = Some (plain_answer 90 True) \<and>
   answer_clean IT_PASS_FAIL (plain_answer 10 True) = Some (plain_answer 10 True) \<and>
   score_of [plain_answer 90 True, plain_answer 10 True] = Some 50 \<and>
   overall_of [plain_answer 90 True, plain_answer 10 True] = OV_NEEDS_ATTENTION"
  by (simp add: answer_clean_def plain_answer_def score_of_def overall_of_def PASS_THRESHOLD_def quantize2_def
      List.map_filter_def Let_def)

end
