(* ===== verification/Assignments.thy ===== *)
theory Assignments
  imports Endpoints
begin

text \<open>
  Cleaner postings and schedules (\<open>apps/site_management/assignment_services.py\<close>, the \<open>clean\<close>
  rules of their three models and the write endpoints of \<open>api.py\<close>): assigning a cleaner to a site,
  binding shifts, and scheduling areas hour by hour. The overlap test of two schedules is related
  to the minutes of the day they occupy, and the invariant says that no cleaner is ever scheduled
  twice for the same minute of a date.
\<close>

section \<open>Rules of the models\<close>

definition assignment_type_matches_site :: "cleaner_assignment_type \<Rightarrow> site \<Rightarrow> bool" where
  "assignment_type_matches_site t s \<longleftrightarrow>
     (case si_work_mode s of WM_FULL_TIME \<Rightarrow> t = CT_FULL_TIME | WM_SHIFT \<Rightarrow> t = CT_SHIFT
      | WM_FULL_TIME_AND_SHIFT \<Rightarrow> t \<in> {CT_FULL_TIME, CT_SHIFT})"

text \<open>\<open>uniq_active_cleaner_site_assignment\<close>: the rows it covers and the columns it keeps apart.\<close>

definition assignment_live :: "cleaner_site_assignment \<Rightarrow> bool" where
  "assignment_live a \<longleftrightarrow> csa_status a \<in> {CA_ACTIVE, CA_SUSPENDED}"

definition assignment_place :: "cleaner_site_assignment \<Rightarrow> nat \<times> nat" where
  "assignment_place a = (csa_cleaner a, csa_site a)"

definition assignment_clash :: "db \<Rightarrow> nat \<Rightarrow> cleaner_site_assignment \<Rightarrow> bool" where
  "assignment_clash d k a \<longleftrightarrow> assignment_live a \<and>
     tbl_exists (\<lambda>j b. j \<noteq> k \<and> assignment_live b \<and> assignment_place b = assignment_place a) (cleaner_assignments d)"

definition date_order :: "date \<Rightarrow> date option \<Rightarrow> bool" where
  "date_order from to \<longleftrightarrow> (case to of None \<Rightarrow> True | Some t \<Rightarrow> from \<le> t)"

definition cleaner_active :: "db \<Rightarrow> nat \<Rightarrow> bool" where
  "cleaner_active d c \<longleftrightarrow> map_option cl_status (tbl_get (cleaners d) c) = Some CL_ACTIVE"

definition assignment_clean :: "db \<Rightarrow> nat \<Rightarrow> cleaner_site_assignment \<Rightarrow> bool" where
  "assignment_clean d k a \<longleftrightarrow> tbl_get (cleaners d) (csa_cleaner a) \<noteq> None \<and>
     (case tbl_get (sites d) (csa_site a) of None \<Rightarrow> False
      | Some s \<Rightarrow> assignment_type_matches_site (csa_assignment_type a) s) \<and>
     date_order (csa_start_date a) (csa_end_date a) \<and>
     (csa_status a = CA_ACTIVE \<longrightarrow> cleaner_active d (csa_cleaner a)) \<and> \<not> assignment_clash d k a"

definition shift_clean :: "db \<Rightarrow> nat \<Rightarrow> cleaner_shift_assignment \<Rightarrow> bool" where
  "shift_clean d k b \<longleftrightarrow>
     (case tbl_get (cleaner_assignments d) (cha_assignment b) of None \<Rightarrow> False
      | Some a \<Rightarrow> map_option sh_site (tbl_get (shifts d) (cha_shift b)) = Some (csa_site a) \<and>
          csa_assignment_type a = CT_SHIFT) \<and>
     date_order (cha_effective_from b) (cha_effective_to b) \<and>
     \<not> (cha_is_active b \<and> tbl_exists (\<lambda>j c. j \<noteq> k \<and> cha_is_active c \<and> cha_assignment c = cha_assignment b \<and>
          cha_shift c = cha_shift b) (cleaner_shifts d))"

definition schedule_clean :: "db \<Rightarrow> area_schedule \<Rightarrow> bool" where
  "schedule_clean d sc \<longleftrightarrow> tbl_get (operational_roles d) (sc_operational_role sc) \<noteq> None \<and>
     (case tbl_get (cleaner_assignments d) (sc_assignment sc) of None \<Rightarrow> False
      | Some a \<Rightarrow> map_option sa_site (tbl_get (areas d) (sc_site_area sc)) = Some (csa_site a) \<and>
          (case sc_shift sc of None \<Rightarrow> True
           | Some s \<Rightarrow> map_option sh_site (tbl_get (shifts d) s) = Some (csa_site a)))"

section \<open>Assignments\<close>

definition emit_assignment :: "string \<Rightarrow> nat \<Rightarrow> cleaner_site_assignment \<Rightarrow> user \<Rightarrow> db \<Rightarrow> db" where
  "emit_assignment event k a actor d =
     publish_domain_event event ''site_management.cleanersiteassignment'' k
       [(''assignment_id'', JNat k), (''cleaner_id'', JNat (csa_cleaner a)), (''site_id'', JNat (csa_site a))]
       (Some (u_pk actor)) d"

definition assignment_audit ::
  "audit_action \<Rightarrow> nat \<Rightarrow> cleaner_site_assignment option \<Rightarrow> cleaner_site_assignment \<Rightarrow> user \<Rightarrow> db \<Rightarrow> db" where
  "assignment_audit action k before a actor d =
     record_audit action (Some (u_pk actor)) ''site_management.cleanersiteassignment'' k
       (map_option SnapCleanerAssignment before) (Some (SnapCleanerAssignment a)) d"

text \<open>A save of one row; the unique constraint is the database's.\<close>

definition save_assignment :: "nat \<Rightarrow> cleaner_site_assignment \<Rightarrow> db \<Rightarrow> db res" where
  "save_assignment k a d =
     (if assignment_clash d k a then Inl IntegrityError
      else Inr (d\<lparr>cleaner_assignments := tbl_put k a (cleaner_assignments d)\<rparr>))"

definition assign_cleaner_to_site ::
  "nat \<times> cleaner \<Rightarrow> nat \<Rightarrow> cleaner_assignment_type \<Rightarrow> date \<Rightarrow> date option \<Rightarrow> string \<Rightarrow> user \<Rightarrow> db \<Rightarrow> (nat \<times> db) res" where
  "assign_cleaner_to_site c site type start_date end_date notes actor d =
     (let k = tbl_next (cleaner_assignments d);
          status = (if cl_status (snd c) = CL_ACTIVE then CA_ACTIVE else CA_DRAFT);
          a = \<lparr>csa_cleaner = fst c, csa_site = site, csa_assignment_type = type, csa_start_date = start_date,
               csa_end_date = end_date, csa_status = status, csa_assigned_by = Some (u_pk actor), csa_notes = notes,
               csa_created_by = Some (u_pk actor), csa_updated_by = Some (u_pk actor)\<rparr>
      in if cl_status (snd c) = CL_INACTIVE then Inl (ValidationError ''cleaner_inactive'')
         else if \<not> assignment_clean d k a then Inl FullClean
         else
           let d1 = assignment_audit A_CREATE k None a actor
                      (d\<lparr>cleaner_assignments := tbl_insert a (cleaner_assignments d)\<rparr>)
           in Inr (k, if status = CA_ACTIVE then emit_assignment ''CleanerAssigned'' k a actor d1 else d1))"

definition update_assignment ::
  "nat \<times> cleaner_site_assignment \<Rightarrow> user \<Rightarrow> date option \<Rightarrow> string option \<Rightarrow> db \<Rightarrow> db res" where
  "update_assignment x actor end_date notes d =
     (let k = fst x; a = snd x;
          a' = a\<lparr>csa_end_date := (case end_date of None \<Rightarrow> csa_end_date a | Some t \<Rightarrow> Some t),
                 csa_notes := given notes (csa_notes a), csa_updated_by := Some (u_pk actor)\<rparr>
      in if \<not> assignment_clean d k a' then Inl FullClean
         else rbind (save_assignment k a' d) (\<lambda>d1. Inr (assignment_audit A_UPDATE k (Some a) a' actor d1)))"

definition end_assignment ::
  "env \<Rightarrow> nat \<times> cleaner_site_assignment \<Rightarrow> user \<Rightarrow> date option \<Rightarrow> db \<Rightarrow> db res" where
  "end_assignment e x actor end_date d =
     (let k = fst x; a = snd x;
          a' = a\<lparr>csa_status := CA_ENDED,
                 csa_end_date := (case csa_end_date a of None \<Rightarrow> Some (given end_date (sys_today e)) | Some t \<Rightarrow> Some t),
                 csa_updated_by := Some (u_pk actor)\<rparr>
      in rbind (save_assignment k a' d) (\<lambda>d1.
           Inr (emit_assignment ''CleanerUnassigned'' k a' actor (assignment_audit A_UNASSIGN k (Some a) a' actor d1))))"

definition suspend_assignment :: "nat \<times> cleaner_site_assignment \<Rightarrow> user \<Rightarrow> db \<Rightarrow> db res" where
  "suspend_assignment x actor d =
     (let k = fst x; a = snd x; a' = a\<lparr>csa_status := CA_SUSPENDED, csa_updated_by := Some (u_pk actor)\<rparr>
      in rbind (save_assignment k a' d) (\<lambda>d1. Inr (assignment_audit A_STATUS_CHANGE k (Some a) a' actor d1)))"

definition activate_assignment :: "nat \<times> cleaner_site_assignment \<Rightarrow> user \<Rightarrow> db \<Rightarrow> db res" where
  "activate_assignment x actor d =
     (let k = fst x; a = snd x; a' = a\<lparr>csa_status := CA_ACTIVE, csa_updated_by := Some (u_pk actor)\<rparr>
      in fetch (cleaners d) (csa_cleaner a) (\<lambda>(_, c).
           if cl_status c \<noteq> CL_ACTIVE then Inl (ValidationError ''cleaner_not_active'')
           else if \<not> assignment_clean d k a' then Inl FullClean
           else rbind (save_assignment k a' d) (\<lambda>d1.
             Inr (emit_assignment ''CleanerAssigned'' k a' actor (assignment_audit A_STATUS_CHANGE k (Some a) a' actor d1)))))"

section \<open>Shift bindings\<close>

definition audit_shift :: "audit_action \<Rightarrow> nat \<Rightarrow> cleaner_shift_assignment option \<Rightarrow> cleaner_shift_assignment option \<Rightarrow> user \<Rightarrow> db \<Rightarrow> db" where
  "audit_shift action k before after actor d =
     record_audit action (Some (u_pk actor)) ''site_management.cleanershiftassignment'' k
       (map_option SnapCleanerShift before) (map_option SnapCleanerShift after) d"

definition assign_cleaner_shift ::
  "nat \<Rightarrow> nat \<Rightarrow> date \<Rightarrow> date option \<Rightarrow> user \<Rightarrow> db \<Rightarrow> (nat \<times> db) res" where
  "assign_cleaner_shift assignment shift effective_from effective_to actor d =
     (let k = tbl_next (cleaner_shifts d);
          b = \<lparr>cha_assignment = assignment, cha_shift = shift, cha_effective_from = effective_from,
               cha_effective_to = effective_to, cha_is_active = True, cha_created_by = Some (u_pk actor),
               cha_updated_by = Some (u_pk actor)\<rparr>
      in if \<not> shift_clean d k b then Inl FullClean
         else Inr (k, audit_shift A_ASSIGN k None (Some b) actor (d\<lparr>cleaner_shifts := tbl_insert b (cleaner_shifts d)\<rparr>)))"

text \<open>The snapshot before the change is taken after it.\<close>

definition remove_cleaner_shift :: "nat \<times> cleaner_shift_assignment \<Rightarrow> user \<Rightarrow> db \<Rightarrow> db" where
  "remove_cleaner_shift x actor d =
     (let k = fst x; b' = (snd x)\<lparr>cha_is_active := False, cha_updated_by := Some (u_pk actor)\<rparr>
      in audit_shift A_UNASSIGN k (Some b') None actor (d\<lparr>cleaner_shifts := tbl_put k b' (cleaner_shifts d)\<rparr>))"

section \<open>Area schedules\<close>

definition minutes :: "clock \<Rightarrow> int" where
  "minutes t = int (clock_hour t) * 60 + int (clock_minute t)"

text \<open>The nested function \<open>contains\<close>.\<close>

definition span_contains :: "clock \<Rightarrow> clock \<Rightarrow> int \<Rightarrow> bool" where
  "span_contains s e point \<longleftrightarrow>
     (let duration = minutes e - minutes s;
          duration' = (if duration \<le> 0 then duration + 1440 else duration)
      in (point - minutes s) mod 1440 < duration')"

definition spans_overlap :: "clock \<Rightarrow> clock \<Rightarrow> clock \<Rightarrow> clock \<Rightarrow> bool" where
  "spans_overlap start1 end1 start2 end2 \<longleftrightarrow>
     span_contains start1 end1 (minutes start2) \<or> span_contains start2 end2 (minutes start1)"

definition schedule_cleaner :: "db \<Rightarrow> area_schedule \<Rightarrow> nat option" where
  "schedule_cleaner d sc = map_option csa_cleaner (tbl_get (cleaner_assignments d) (sc_assignment sc))"

definition validate_no_schedule_overlap :: "db \<Rightarrow> nat option \<Rightarrow> date \<Rightarrow> nat \<Rightarrow> area_schedule \<Rightarrow> unit res" where
  "validate_no_schedule_overlap d cleaner day k sc =
     (if tbl_exists (\<lambda>j other. schedule_cleaner d other = cleaner \<and> sc_date other = day \<and> sc_is_active other \<and> j \<noteq> k \<and>
           spans_overlap (sc_start_time sc) (sc_end_time sc) (sc_start_time other) (sc_end_time other)) (area_schedules d)
      then Inl (ValidationError ''overlapping_schedule'') else Inr ())"

definition audit_schedule :: "audit_action \<Rightarrow> nat \<Rightarrow> area_schedule option \<Rightarrow> area_schedule option \<Rightarrow> user \<Rightarrow> db \<Rightarrow> db" where
  "audit_schedule action k before after actor d =
     record_audit action (Some (u_pk actor)) ''site_management.cleanerareaschedule'' k
       (map_option SnapSchedule before) (map_option SnapSchedule after) d"

definition assign_cleaner_area_schedule ::
  "nat \<times> cleaner_site_assignment \<Rightarrow> nat \<Rightarrow> nat \<Rightarrow> date \<Rightarrow> clock \<Rightarrow> clock \<Rightarrow> nat option \<Rightarrow> string \<Rightarrow> user \<Rightarrow> db \<Rightarrow>
   (nat \<times> db) res" where
  "assign_cleaner_area_schedule x area role day start_time end_time shift notes actor d =
     (let k = tbl_next (area_schedules d);
          sc = \<lparr>sc_assignment = fst x, sc_site_area = area, sc_operational_role = role, sc_date = day,
                sc_start_time = start_time, sc_end_time = end_time, sc_shift = shift, sc_notes = notes,
                sc_is_active = True, sc_created_by = Some (u_pk actor), sc_updated_by = Some (u_pk actor)\<rparr>
      in if \<not> schedule_clean d sc then Inl FullClean
         else rbind (validate_no_schedule_overlap d (Some (csa_cleaner (snd x))) day k sc) (\<lambda>_.
           Inr (k, audit_schedule A_ASSIGN k None (Some sc) actor (d\<lparr>area_schedules := tbl_insert sc (area_schedules d)\<rparr>))))"

definition update_area_schedule ::
  "nat \<times> area_schedule \<Rightarrow> user \<Rightarrow> nat option \<Rightarrow> nat option \<Rightarrow> clock option \<Rightarrow> clock option \<Rightarrow> nat option \<Rightarrow> string option \<Rightarrow>
   db \<Rightarrow> db res" where
  "update_area_schedule x actor area role start_time end_time shift notes d =
     (let k = fst x; sc = snd x;
          sc' = sc\<lparr>sc_site_area := given area (sc_site_area sc), sc_operational_role := given role (sc_operational_role sc),
                   sc_start_time := given start_time (sc_start_time sc), sc_end_time := given end_time (sc_end_time sc),
                   sc_shift := (case shift of None \<Rightarrow> sc_shift sc | Some s \<Rightarrow> Some s),
                   sc_notes := given notes (sc_notes sc), sc_updated_by := Some (u_pk actor)\<rparr>
      in if \<not> schedule_clean d sc' then Inl FullClean
         else rbind (validate_no_schedule_overlap d (schedule_cleaner d sc') (sc_date sc') k sc') (\<lambda>_.
           Inr (audit_schedule A_UPDATE k (Some sc) (Some sc') actor (d\<lparr>area_schedules := tbl_put k sc' (area_schedules d)\<rparr>))))"

definition deactivate_area_schedule :: "nat \<times> area_schedule \<Rightarrow> user \<Rightarrow> db \<Rightarrow> db" where
  "deactivate_area_schedule x actor d =
     (let k = fst x; sc' = (snd x)\<lparr>sc_is_active := False, sc_updated_by := Some (u_pk actor)\<rparr>
      in audit_schedule A_DELETE k (Some sc') None actor (d\<lparr>area_schedules := tbl_put k sc' (area_schedules d)\<rparr>))"

text \<open>
  Copying a date: the rows come in the order of their start, and one that would overlap what is
  there already, an earlier copy included, is skipped.
\<close>

definition clock_seconds :: "clock \<Rightarrow> nat" where
  "clock_seconds t = (clock_hour t * 60 + clock_minute t) * 60 + clock_second t"

definition copied_schedule :: "nat \<Rightarrow> date \<Rightarrow> user \<Rightarrow> area_schedule \<Rightarrow> area_schedule" where
  "copied_schedule assignment to_date actor source =
     \<lparr>sc_assignment = assignment, sc_site_area = sc_site_area source, sc_operational_role = sc_operational_role source,
      sc_date = to_date, sc_start_time = sc_start_time source, sc_end_time = sc_end_time source,
      sc_shift = sc_shift source, sc_notes = sc_notes source, sc_is_active = True,
      sc_created_by = Some (u_pk actor), sc_updated_by = Some (u_pk actor)\<rparr>"

definition copy_one :: "nat \<times> cleaner_site_assignment \<Rightarrow> date \<Rightarrow> user \<Rightarrow> area_schedule \<Rightarrow> nat \<times> db \<Rightarrow> (nat \<times> db) res" where
  "copy_one x to_date actor source s =
     (let created = fst s; d = snd s; sc = copied_schedule (fst x) to_date actor source
      in if \<not> schedule_clean d sc then Inl FullClean
         else case validate_no_schedule_overlap d (Some (csa_cleaner (snd x))) to_date (tbl_next (area_schedules d)) sc of
                Inl _ \<Rightarrow> Inr (created, d)
              | Inr _ \<Rightarrow> Inr (Suc created, d\<lparr>area_schedules := tbl_insert sc (area_schedules d)\<rparr>))"

definition copy_schedule_from_date ::
  "nat \<times> cleaner_site_assignment \<Rightarrow> date \<Rightarrow> date \<Rightarrow> user \<Rightarrow> db \<Rightarrow> (nat \<times> db) res" where
  "copy_schedule_from_date x from_date to_date actor d =
     (let sources = sort_key (clock_seconds \<circ> sc_start_time) (map snd (tbl_where (\<lambda>_ sc. sc_assignment sc = fst x \<and>
            sc_date sc = from_date \<and> sc_is_active sc) (area_schedules d)))
      in if sources = [] then Inr (0, d)
         else rbind (foldM (copy_one x to_date actor) sources (0, d)) (\<lambda>(created, d1).
           Inr (created, record_audit A_CREATE (Some (u_pk actor)) ''site_management.cleanersiteassignment'' (fst x)
             None None d1)))"

section \<open>Endpoints\<close>

definition assignment_read :: "user \<Rightarrow> bool" where
  "assignment_read u \<longleftrightarrow> management_required u \<or> is_management_viewer u"

definition cleaner_assignment_create ::
  "env \<Rightarrow> user \<Rightarrow> nat \<Rightarrow> nat \<Rightarrow> cleaner_assignment_type \<Rightarrow> date \<Rightarrow> date option \<Rightarrow> string \<Rightarrow> db \<Rightarrow> db res" where
  "cleaner_assignment_create e u cleaner site type start_date end_date notes d =
     permit (assignment_read u) (load_or_404 (cleaners d) cleaner (\<lambda>c. load_site_or_404 d site
       (permit (can_assign_cleaner e d u site) (db_of (assign_cleaner_to_site c site type start_date end_date notes u d)))))"

text \<open>The opening of the endpoints under one assignment.\<close>

definition with_assignment :: "env \<Rightarrow> user \<Rightarrow> nat \<Rightarrow> db \<Rightarrow> (nat \<times> cleaner_site_assignment \<Rightarrow> 'a res) \<Rightarrow> 'a res" where
  "with_assignment e u k d f =
     permit (assignment_read u) (load_or_404 (cleaner_assignments d) k (\<lambda>x. permit (assignment_can_edit e d u (snd x)) (f x)))"

definition cleaner_assignment_update :: "env \<Rightarrow> user \<Rightarrow> nat \<Rightarrow> date option \<Rightarrow> string option \<Rightarrow> db \<Rightarrow> db res" where
  "cleaner_assignment_update e u k end_date notes d = with_assignment e u k d (\<lambda>x. update_assignment x u end_date notes d)"

definition cleaner_assignment_end :: "env \<Rightarrow> user \<Rightarrow> nat \<Rightarrow> db \<Rightarrow> db res" where
  "cleaner_assignment_end e u k d = with_assignment e u k d (\<lambda>x. end_assignment e x u None d)"

definition cleaner_assignment_suspend :: "env \<Rightarrow> user \<Rightarrow> nat \<Rightarrow> db \<Rightarrow> db res" where
  "cleaner_assignment_suspend e u k d = with_assignment e u k d (\<lambda>x. suspend_assignment x u d)"

definition cleaner_assignment_activate :: "env \<Rightarrow> user \<Rightarrow> nat \<Rightarrow> db \<Rightarrow> db res" where
  "cleaner_assignment_activate e u k d = with_assignment e u k d (\<lambda>x. activate_assignment x u d)"

definition cleaner_assignment_shift_create ::
  "env \<Rightarrow> user \<Rightarrow> nat \<Rightarrow> nat \<Rightarrow> date \<Rightarrow> date option \<Rightarrow> db \<Rightarrow> db res" where
  "cleaner_assignment_shift_create e u k shift effective_from effective_to d =
     with_assignment e u k d (\<lambda>x. found (active_row sh_is_active (shifts d) shift) (\<lambda>_.
       db_of (assign_cleaner_shift k shift effective_from effective_to u d)))"

definition cleaner_assignment_shift_delete :: "env \<Rightarrow> user \<Rightarrow> nat \<Rightarrow> nat \<Rightarrow> db \<Rightarrow> db res" where
  "cleaner_assignment_shift_delete e u k j d =
     with_assignment e u k d (\<lambda>x. found (tbl_get (cleaner_shifts d) j) (\<lambda>b.
       if cha_assignment b \<noteq> k then Inl Http404 else Inr (remove_cleaner_shift (j, b) u d)))"

text \<open>An optional reference of a payload: a missing or archived row counts as not given.\<close>

definition optional_row :: "('r \<Rightarrow> bool) \<Rightarrow> 'r table \<Rightarrow> nat option \<Rightarrow> nat option" where
  "optional_row active t k = (if truthy_id k \<and> active_row active t (the k) \<noteq> None then k else None)"

definition cleaner_assignment_schedule_create ::
  "env \<Rightarrow> user \<Rightarrow> nat \<Rightarrow> nat \<Rightarrow> nat \<Rightarrow> date \<Rightarrow> clock \<Rightarrow> clock \<Rightarrow> nat option \<Rightarrow> string \<Rightarrow> db \<Rightarrow> db res" where
  "cleaner_assignment_schedule_create e u k area role day start_time end_time shift notes d =
     with_assignment e u k d (\<lambda>x.
       found (active_row sa_is_active (areas d) area) (\<lambda>_. found (active_row op_is_active (operational_roles d) role) (\<lambda>_.
         db_of (assign_cleaner_area_schedule x area role day start_time end_time
           (optional_row sh_is_active (shifts d) shift) notes u d))))"

definition load_schedule_or_404 :: "db \<Rightarrow> nat \<Rightarrow> nat \<Rightarrow> (nat \<times> area_schedule \<Rightarrow> 'a res) \<Rightarrow> 'a res" where
  "load_schedule_or_404 d k j f =
     found (tbl_get (area_schedules d) j) (\<lambda>sc. if sc_assignment sc = k then f (j, sc) else Inl Http404)"

definition cleaner_assignment_schedule_update ::
  "env \<Rightarrow> user \<Rightarrow> nat \<Rightarrow> nat \<Rightarrow> nat option \<Rightarrow> nat option \<Rightarrow> clock option \<Rightarrow> clock option \<Rightarrow> nat option \<Rightarrow> string option \<Rightarrow>
   db \<Rightarrow> db res" where
  "cleaner_assignment_schedule_update e u k j area role start_time end_time shift notes d =
     with_assignment e u k d (\<lambda>x. load_schedule_or_404 d k j (\<lambda>y.
       update_area_schedule y u (optional_row sa_is_active (areas d) area)
         (optional_row op_is_active (operational_roles d) role) start_time end_time
         (optional_row sh_is_active (shifts d) shift) notes d))"

definition cleaner_assignment_schedule_delete :: "env \<Rightarrow> user \<Rightarrow> nat \<Rightarrow> nat \<Rightarrow> db \<Rightarrow> db res" where
  "cleaner_assignment_schedule_delete e u k j d =
     with_assignment e u k d (\<lambda>x. load_schedule_or_404 d k j (\<lambda>y. Inr (deactivate_area_schedule y u d)))"

section \<open>Sequences of calls\<close>

text \<open>The write endpoints, and the copy of a date, which no endpoint calls.\<close>

datatype assignment_call =
    CreateAssignment user nat nat cleaner_assignment_type date "date option" string
  | UpdateAssignment user nat "date option" "string option"
  | EndAssignment user nat
  | SuspendAssignment user nat
  | ActivateAssignment user nat
  | AddShift user nat nat date "date option"
  | RemoveShift user nat nat
  | AddSchedule user nat nat nat date clock clock "nat option" string
  | UpdateSchedule user nat nat "nat option" "nat option" "clock option" "clock option" "nat option" "string option"
  | RemoveSchedule user nat nat
  | CopySchedules user nat date date

fun assignment_step :: "db \<Rightarrow> env \<times> assignment_call \<Rightarrow> db res" where
  "assignment_step d (e, CreateAssignment u c s t from to notes) = cleaner_assignment_create e u c s t from to notes d"
| "assignment_step d (e, UpdateAssignment u k to notes) = cleaner_assignment_update e u k to notes d"
| "assignment_step d (e, EndAssignment u k) = cleaner_assignment_end e u k d"
| "assignment_step d (e, SuspendAssignment u k) = cleaner_assignment_suspend e u k d"
| "assignment_step d (e, ActivateAssignment u k) = cleaner_assignment_activate e u k d"
| "assignment_step d (e, AddShift u k s from to) = cleaner_assignment_shift_create e u k s from to d"
| "assignment_step d (e, RemoveShift u k j) = cleaner_assignment_shift_delete e u k j d"
| "assignment_step d (e, AddSchedule u k a r day s t sh notes) = cleaner_assignment_schedule_create e u k a r day s t sh notes d"
| "assignment_step d (e, UpdateSchedule u k j a r s t sh notes) = cleaner_assignment_schedule_update e u k j a r s t sh notes d"
| "assignment_step d (e, RemoveSchedule u k j) = cleaner_assignment_schedule_delete e u k j d"
| "assignment_step d (e, CopySchedules u k from to) =
     fetch (cleaner_assignments d) k (\<lambda>x. db_of (copy_schedule_from_date x from to u d))"
section \<open>The overlap test\<close>

text \<open>
  The reference: a schedule occupies the minutes of the day from its start to its end, across
  midnight when the end is not after the start.
\<close>

definition on_duty :: "clock \<Rightarrow> clock \<Rightarrow> int \<Rightarrow> bool" where
  "on_duty s e m \<longleftrightarrow> (if minutes s < minutes e then minutes s \<le> m \<and> m < minutes e else minutes s \<le> m \<or> m < minutes e)"

lemma minutes_range: "valid_clock t \<Longrightarrow> 0 \<le> minutes t \<and> minutes t < 1440"
  by (simp add: valid_clock_def minutes_def)

lemma mod_day:
  fixes m s :: int
  assumes "0 \<le> m" and "m < 1440" and "0 \<le> s" and "s < 1440"
  shows "(m - s) mod 1440 = (if s \<le> m then m - s else m - s + 1440)"
proof (cases "s \<le> m")
  case True
  with assms show ?thesis by simp
next
  case False
  have "(m - s) mod 1440 = (m - s + 1440) mod 1440" by simp
  also have "\<dots> = m - s + 1440" using assms False by (intro mod_pos_pos_trivial) simp_all
  finally show ?thesis using False by simp
qed

lemma span_contains_on_duty:
  assumes "valid_clock s" and "valid_clock e" and "0 \<le> m" and "m < 1440"
  shows "span_contains s e m \<longleftrightarrow> on_duty s e m"
  using minutes_range [OF assms(1)] minutes_range [OF assms(2)] assms(3,4)
  by (auto simp: span_contains_def on_duty_def mod_day Let_def)

lemma on_duty_start: "on_duty s e (minutes s)"
  by (simp add: on_duty_def)

lemma spans_overlap_commute: "spans_overlap s1 e1 s2 e2 \<longleftrightarrow> spans_overlap s2 e2 s1 e1"
  by (auto simp: spans_overlap_def)

lemma on_duty_common:
  assumes "on_duty s1 e1 m" and "on_duty s2 e2 m" and "valid_clock s1" and "valid_clock s2"
    and "0 \<le> m" and "m < 1440"
  shows "on_duty s1 e1 (minutes s2) \<or> on_duty s2 e2 (minutes s1)"
  using assms minutes_range [OF assms(3)] minutes_range [OF assms(4)]
  by (simp add: on_duty_def split: if_splits; linarith)

section \<open>The invariant\<close>

definition never_twice :: "db \<Rightarrow> bool" where
  "never_twice d \<longleftrightarrow> (\<forall>i j a b. tbl_get (area_schedules d) i = Some a \<longrightarrow> tbl_get (area_schedules d) j = Some b \<longrightarrow> i \<noteq> j \<longrightarrow>
     sc_is_active a \<longrightarrow> sc_is_active b \<longrightarrow> sc_date a = sc_date b \<longrightarrow> schedule_cleaner d a = schedule_cleaner d b \<longrightarrow>
     \<not> spans_overlap (sc_start_time a) (sc_end_time a) (sc_start_time b) (sc_end_time b))"

definition postings_ok :: "db \<Rightarrow> bool" where
  "postings_ok d \<longleftrightarrow> tbl_wf (cleaner_assignments d) \<and> tbl_unique assignment_live assignment_place (cleaner_assignments d) \<and>
     tbl_all (\<lambda>a. csa_status a = CA_ACTIVE \<longrightarrow> cleaner_active d (csa_cleaner a)) (cleaner_assignments d)"

definition binding_ok :: "db \<Rightarrow> cleaner_shift_assignment \<Rightarrow> bool" where
  "binding_ok d b \<longleftrightarrow> (\<exists>a. tbl_get (cleaner_assignments d) (cha_assignment b) = Some a \<and> csa_assignment_type a = CT_SHIFT \<and>
     map_option sh_site (tbl_get (shifts d) (cha_shift b)) = Some (csa_site a))"

definition bindings_ok :: "db \<Rightarrow> bool" where
  "bindings_ok d \<longleftrightarrow> tbl_wf (cleaner_shifts d) \<and>
     tbl_unique cha_is_active (\<lambda>b. (cha_assignment b, cha_shift b)) (cleaner_shifts d) \<and>
     tbl_all (binding_ok d) (cleaner_shifts d)"

definition schedule_ok :: "db \<Rightarrow> area_schedule \<Rightarrow> bool" where
  "schedule_ok d sc \<longleftrightarrow> (\<exists>a. tbl_get (cleaner_assignments d) (sc_assignment sc) = Some a \<and>
     map_option sa_site (tbl_get (areas d) (sc_site_area sc)) = Some (csa_site a))"

definition assignment_inv :: "db \<Rightarrow> bool" where
  "assignment_inv d \<longleftrightarrow> postings_ok d \<and> bindings_ok d \<and> tbl_wf (area_schedules d) \<and>
     tbl_all (schedule_ok d) (area_schedules d) \<and> never_twice d"

lemma assignment_invD:
  assumes "assignment_inv d"
  shows "tbl_wf (cleaner_assignments d)" "tbl_wf (cleaner_shifts d)" "tbl_wf (area_schedules d)"
    "postings_ok d" "bindings_ok d" "never_twice d" "tbl_all (schedule_ok d) (area_schedules d)"
  using assms by (simp_all add: assignment_inv_def postings_ok_def bindings_ok_def)

text \<open>The audit trail and the outbox are not part of it.\<close>

definition same_roster :: "db \<Rightarrow> db \<Rightarrow> bool" where
  "same_roster d d' \<longleftrightarrow> cleaner_assignments d' = cleaner_assignments d \<and> cleaner_shifts d' = cleaner_shifts d \<and>
     area_schedules d' = area_schedules d \<and> cleaners d' = cleaners d \<and> shifts d' = shifts d \<and> areas d' = areas d"

lemma assignment_inv_cong: "same_roster d d' \<Longrightarrow> assignment_inv d' = assignment_inv d"
  by (simp add: same_roster_def assignment_inv_def postings_ok_def bindings_ok_def tbl_all_def binding_ok_def schedule_ok_def
      never_twice_def schedule_cleaner_def cleaner_active_def)

lemma audited_roster [simp]:
  "assignment_inv (assignment_audit ac k b a u d) = assignment_inv d"
  "assignment_inv (emit_assignment ev k a u d) = assignment_inv d"
  "assignment_inv (audit_shift ac k bs as u d) = assignment_inv d"
  "assignment_inv (audit_schedule ac k bc sc u d) = assignment_inv d"
  "assignment_inv (record_audit ac q m k x y d) = assignment_inv d"
  by (auto intro!: assignment_inv_cong
      simp: same_roster_def assignment_audit_def emit_assignment_def audit_shift_def audit_schedule_def)

text \<open>An assignment keeps its cleaner, its site and its type; then shifts and schedules stay in order.\<close>

definition same_posting :: "cleaner_site_assignment \<Rightarrow> cleaner_site_assignment \<Rightarrow> bool" where
  "same_posting a b \<longleftrightarrow> csa_cleaner b = csa_cleaner a \<and> csa_site b = csa_site a \<and> csa_assignment_type b = csa_assignment_type a"

lemma postings_write_inv:
  assumes inv: "assignment_inv d"
    and kept: "\<And>k a. tbl_get (cleaner_assignments d) k = Some a \<Longrightarrow> \<exists>b. tbl_get t k = Some b \<and> same_posting a b"
    and ok: "postings_ok (d\<lparr>cleaner_assignments := t\<rparr>)"
  shows "assignment_inv (d\<lparr>cleaner_assignments := t\<rparr>)"
proof -
  let ?d = "d\<lparr>cleaner_assignments := t\<rparr>"
  have bind: "binding_ok d b \<Longrightarrow> binding_ok ?d b" for b
    using kept [of "cha_assignment b"] by (force simp: binding_ok_def same_posting_def)
  have sched: "schedule_ok d sc \<Longrightarrow> schedule_ok ?d sc" for sc
    using kept [of "sc_assignment sc"] by (force simp: schedule_ok_def same_posting_def)
  have who: "schedule_cleaner ?d sc = schedule_cleaner d sc" if "schedule_ok d sc" for sc
    using that kept [of "sc_assignment sc"] by (force simp: schedule_ok_def schedule_cleaner_def same_posting_def)
  have "never_twice ?d" unfolding never_twice_def
  proof (intro allI impI)
    fix i j a b
    assume ij: "tbl_get (area_schedules ?d) i = Some a" "tbl_get (area_schedules ?d) j = Some b" "i \<noteq> j"
      and ab: "sc_is_active a" "sc_is_active b" "sc_date a = sc_date b" "schedule_cleaner ?d a = schedule_cleaner ?d b"
    have "schedule_ok d a" "schedule_ok d b" using ij assignment_invD(7) [OF inv] by (auto dest: tbl_allD)
    then show "\<not> spans_overlap (sc_start_time a) (sc_end_time a) (sc_start_time b) (sc_end_time b)"
      using assignment_invD(6) [OF inv] ij ab who unfolding never_twice_def by simp
  qed
  then show ?thesis
    using inv ok bind sched by (auto simp: assignment_inv_def bindings_ok_def tbl_all_def)
qed

lemma save_assignment_inv:
  assumes inv: "assignment_inv d" and a: "tbl_get (cleaner_assignments d) k = Some a" and save: "save_assignment k a' d = Inr d'"
    and same: "same_posting a a'" and active: "csa_status a' = CA_ACTIVE \<Longrightarrow> cleaner_active d (csa_cleaner a')"
  shows "assignment_inv d'"
proof -
  have free: "\<not> assignment_clash d k a'" and d': "d' = d\<lparr>cleaner_assignments := tbl_put k a' (cleaner_assignments d)\<rparr>"
    using save by (auto simp: save_assignment_def split: if_splits)
  have ok: "postings_ok d" by (rule assignment_invD(4) [OF inv])
  have "postings_ok d'"
    using ok a free active by (auto simp: d' postings_ok_def cleaner_active_def assignment_clash_def
        intro: tbl_unique_put_free tbl_all_put)
  moreover have "same_posting b b" for b by (simp add: same_posting_def)
  ultimately show ?thesis using inv a same unfolding d' by (intro postings_write_inv) (auto simp: tbl_get_put)
qed

lemma roster_parts [simp]:
  "binding_ok (d\<lparr>cleaner_shifts := h\<rparr>) = binding_ok d" "schedule_ok (d\<lparr>cleaner_shifts := h\<rparr>) = schedule_ok d"
  "schedule_cleaner (d\<lparr>cleaner_shifts := h\<rparr>) = schedule_cleaner d" "cleaner_active (d\<lparr>cleaner_shifts := h\<rparr>) = cleaner_active d"
  "binding_ok (d\<lparr>area_schedules := t\<rparr>) = binding_ok d" "schedule_ok (d\<lparr>area_schedules := t\<rparr>) = schedule_ok d"
  "schedule_cleaner (d\<lparr>area_schedules := t\<rparr>) = schedule_cleaner d" "cleaner_active (d\<lparr>area_schedules := t\<rparr>) = cleaner_active d"
  by (simp_all add: binding_ok_def schedule_ok_def schedule_cleaner_def cleaner_active_def fun_eq_iff)

lemma assign_cleaner_inv:
  assumes inv: "assignment_inv d" and run: "assign_cleaner_to_site c s t from to notes u d = Inr (k, d')"
  shows "assignment_inv d'"
proof -
  define a where "a = \<lparr>csa_cleaner = fst c, csa_site = s, csa_assignment_type = t, csa_start_date = from,
    csa_end_date = to, csa_status = (if cl_status (snd c) = CL_ACTIVE then CA_ACTIVE else CA_DRAFT), csa_assigned_by = Some (u_pk u),
    csa_notes = notes, csa_created_by = Some (u_pk u), csa_updated_by = Some (u_pk u)\<rparr>"
  define d1 where "d1 = d\<lparr>cleaner_assignments := tbl_insert a (cleaner_assignments d)\<rparr>"
  note wf = assignment_invD(1) [OF inv]
  have clean: "assignment_clean d (tbl_next (cleaner_assignments d)) a" and d': "assignment_inv d' = assignment_inv d1"
    using run by (auto simp: assign_cleaner_to_site_def a_def d1_def Let_def split: if_splits)
  have "\<not> tbl_exists (\<lambda>_ b. assignment_live b \<and> assignment_place b = assignment_place a) (cleaner_assignments d)"
    if "assignment_live a"
    using clean that by (simp add: assignment_clean_def assignment_clash_def next_key_other [OF wf])
  then have "postings_ok d1"
    using assignment_invD(4) [OF inv] clean
    by (auto simp: d1_def postings_ok_def cleaner_active_def assignment_clean_def intro: tbl_unique_insert tbl_all_insert)
  then have "assignment_inv d1"
    using inv tbl_get_fresh [OF wf] unfolding d1_def
    by (intro postings_write_inv) (auto simp: tbl_get_insert [OF wf] same_posting_def)
  with d' show ?thesis by simp
qed

lemma assignment_update_inv:
  assumes inv: "assignment_inv d" and a: "tbl_get (cleaner_assignments d) k = Some a"
  shows "update_assignment (k, a) u to notes d = Inr d' \<Longrightarrow> assignment_inv d'"
    and "end_assignment e (k, a) u to d = Inr d' \<Longrightarrow> assignment_inv d'"
    and "suspend_assignment (k, a) u d = Inr d' \<Longrightarrow> assignment_inv d'"
    and "activate_assignment (k, a) u d = Inr d' \<Longrightarrow> assignment_inv d'"
  using save_assignment_inv [OF inv a]
  by (fastforce simp: update_assignment_def end_assignment_def suspend_assignment_def activate_assignment_def
      assignment_clean_def same_posting_def Let_def res_simps)+

lemma assign_shift_inv:
  assumes inv: "assignment_inv d" and run: "assign_cleaner_shift a s from to u d = Inr (k, d')"
  shows "assignment_inv d'"
proof -
  define b where "b = \<lparr>cha_assignment = a, cha_shift = s, cha_effective_from = from, cha_effective_to = to,
    cha_is_active = True, cha_created_by = Some (u_pk u), cha_updated_by = Some (u_pk u)\<rparr>"
  define d1 where "d1 = d\<lparr>cleaner_shifts := tbl_insert b (cleaner_shifts d)\<rparr>"
  note wf = assignment_invD(2) [OF inv]
  have clean: "shift_clean d (tbl_next (cleaner_shifts d)) b" and d': "assignment_inv d' = assignment_inv d1"
    using run by (auto simp: assign_cleaner_shift_def b_def d1_def Let_def split: if_splits)
  have ok: "binding_ok d b" using clean by (auto simp: shift_clean_def binding_ok_def split: option.splits)
  have "\<not> tbl_exists (\<lambda>_ c. cha_is_active c \<and> (cha_assignment c, cha_shift c) = (cha_assignment b, cha_shift b)) (cleaner_shifts d)"
    using clean by (simp add: shift_clean_def next_key_other [OF wf] b_def)
  then have "bindings_ok d1"
    using assignment_invD(5) [OF inv] ok
    by (auto simp: d1_def bindings_ok_def intro: tbl_unique_insert tbl_all_insert)
  then have "assignment_inv d1"
    using inv by (simp add: assignment_inv_def postings_ok_def d1_def never_twice_def)
  with d' show ?thesis by simp
qed

lemma remove_shift_inv:
  assumes inv: "assignment_inv d" and b: "tbl_get (cleaner_shifts d) k = Some b"
  shows "assignment_inv (remove_cleaner_shift (k, b) u d)"
proof -
  let ?b = "b\<lparr>cha_is_active := False, cha_updated_by := Some (u_pk u)\<rparr>"
  let ?d = "d\<lparr>cleaner_shifts := tbl_put k ?b (cleaner_shifts d)\<rparr>"
  have ok: "bindings_ok d" by (rule assignment_invD(5) [OF inv])
  have "binding_ok d b" using ok b by (auto simp: bindings_ok_def dest: tbl_allD)
  then have "bindings_ok ?d"
    using ok b by (auto simp: bindings_ok_def binding_ok_def [of d "b\<lparr>cha_is_active := False, cha_updated_by := Some (u_pk u)\<rparr>"]
        binding_ok_def [of d b] intro!: tbl_unique_put tbl_all_put)
  then have "assignment_inv ?d"
    using inv by (simp add: assignment_inv_def postings_ok_def never_twice_def)
  then show ?thesis by (simp add: remove_cleaner_shift_def Let_def)
qed

text \<open>Writing schedules: whatever was refused at the check cannot be in the table afterwards.\<close>

lemma schedules_write_inv:
  assumes inv: "assignment_inv d" and wf: "tbl_wf t" and ok: "tbl_all (schedule_ok d) t"
    and twice: "never_twice (d\<lparr>area_schedules := t\<rparr>)"
  shows "assignment_inv (d\<lparr>area_schedules := t\<rparr>)"
  using assms by (simp add: assignment_inv_def postings_ok_def bindings_ok_def)

lemma no_overlap:
  assumes "validate_no_schedule_overlap d (schedule_cleaner d sc) (sc_date sc) k sc = Inr v" and "tbl_wf (area_schedules d)"
    and "tbl_get (area_schedules d) j = Some b" and "j \<noteq> k" and "sc_is_active b" and "sc_date b = sc_date sc"
    and "schedule_cleaner d b = schedule_cleaner d sc"
  shows "\<not> spans_overlap (sc_start_time sc) (sc_end_time sc) (sc_start_time b) (sc_end_time b)"
  using assms by (auto simp: validate_no_schedule_overlap_def tbl_exists_get split: if_splits)

lemma schedule_clean_ok: "schedule_clean d sc \<Longrightarrow> schedule_ok d sc"
  by (auto simp: schedule_clean_def schedule_ok_def split: option.splits)

lemma schedule_written_inv:
  assumes inv: "assignment_inv d" and wf: "tbl_wf t" and ok: "tbl_all (schedule_ok d) t"
    and rows: "\<And>j b. tbl_get t j = Some b \<Longrightarrow> j = k \<and> b = sc \<or> j \<noteq> k \<and> tbl_get (area_schedules d) j = Some b"
    and free: "sc_is_active sc \<Longrightarrow> validate_no_schedule_overlap d (schedule_cleaner d sc) (sc_date sc) k sc = Inr v"
  shows "assignment_inv (d\<lparr>area_schedules := t\<rparr>)"
proof (rule schedules_write_inv [OF inv wf ok])
  note old_wf = assignment_invD(3) [OF inv]
  have apart: "\<not> spans_overlap (sc_start_time sc) (sc_end_time sc) (sc_start_time b) (sc_end_time b)"
    if "tbl_get (area_schedules d) j = Some b" "j \<noteq> k" "sc_is_active b" "sc_date b = sc_date sc"
      "schedule_cleaner d b = schedule_cleaner d sc" "sc_is_active sc" for j b
    by (rule no_overlap [OF free [OF that(6)] old_wf that(1-5)])
  show "never_twice (d\<lparr>area_schedules := t\<rparr>)"
    unfolding never_twice_def
  proof (intro allI impI)
    fix i j a b
    let ?d = "d\<lparr>area_schedules := t\<rparr>"
    assume ij: "tbl_get (area_schedules ?d) i = Some a" "tbl_get (area_schedules ?d) j = Some b" "i \<noteq> j"
      and ab: "sc_is_active a" "sc_is_active b" "sc_date a = sc_date b" "schedule_cleaner ?d a = schedule_cleaner ?d b"
    have who: "schedule_cleaner d a = schedule_cleaner d b" using ab(4) by simp
    consider "i = k" "a = sc" "tbl_get (area_schedules d) j = Some b" | "j = k" "b = sc" "tbl_get (area_schedules d) i = Some a"
      | "tbl_get (area_schedules d) i = Some a" "tbl_get (area_schedules d) j = Some b"
      using rows [of i a] rows [of j b] ij by auto
    then show "\<not> spans_overlap (sc_start_time a) (sc_end_time a) (sc_start_time b) (sc_end_time b)"
    proof cases
      case 1
      then show ?thesis using apart [OF 1(3)] ij(3) ab who by simp
    next
      case 2
      have "\<not> spans_overlap (sc_start_time b) (sc_end_time b) (sc_start_time a) (sc_end_time a)"
        using apart [OF 2(3)] 2 ij(3) ab who by simp
      then show ?thesis by (subst spans_overlap_commute)
    next
      case 3
      then show ?thesis using assignment_invD(6) [OF inv] ij(3) ab who unfolding never_twice_def by blast
    qed
  qed
qed

lemma insert_schedule_inv:
  assumes inv: "assignment_inv d" and clean: "schedule_clean d sc"
    and free: "validate_no_schedule_overlap d (schedule_cleaner d sc) (sc_date sc) (tbl_next (area_schedules d)) sc = Inr v"
  shows "assignment_inv (d\<lparr>area_schedules := tbl_insert sc (area_schedules d)\<rparr>)"
proof (rule schedule_written_inv [OF inv _ _ _ free])
  note wf = assignment_invD(3) [OF inv]
  show "tbl_wf (tbl_insert sc (area_schedules d))" using wf by simp
  show "tbl_all (schedule_ok d) (tbl_insert sc (area_schedules d))"
    by (rule tbl_all_insert [OF wf assignment_invD(7) [OF inv] schedule_clean_ok [OF clean]])
  fix j b
  assume "tbl_get (tbl_insert sc (area_schedules d)) j = Some b"
  then show "j = tbl_next (area_schedules d) \<and> b = sc \<or> j \<noteq> tbl_next (area_schedules d) \<and> tbl_get (area_schedules d) j = Some b"
    by (auto simp: tbl_get_insert [OF wf] split: if_splits)
qed

text \<open>A change of an active schedule passed the check, or only switched the schedule off.\<close>

lemma put_schedule_inv:
  assumes inv: "assignment_inv d" and old: "tbl_get (area_schedules d) k = Some a0" and ok: "schedule_ok d sc"
    and free: "sc_is_active sc \<Longrightarrow> validate_no_schedule_overlap d (schedule_cleaner d sc) (sc_date sc) k sc = Inr v"
  shows "assignment_inv (d\<lparr>area_schedules := tbl_put k sc (area_schedules d)\<rparr>)"
proof (rule schedule_written_inv [OF inv _ _ _ free])
  show "tbl_wf (tbl_put k sc (area_schedules d))" using assignment_invD(3) [OF inv] by simp
  show "tbl_all (schedule_ok d) (tbl_put k sc (area_schedules d))"
    using assignment_invD(7) [OF inv] ok by (rule tbl_all_put)
  fix j b
  assume "tbl_get (tbl_put k sc (area_schedules d)) j = Some b"
  then show "j = k \<and> b = sc \<or> j \<noteq> k \<and> tbl_get (area_schedules d) j = Some b"
    by (auto simp: tbl_get_put split: if_splits)
qed

lemma create_schedule_inv:
  assumes inv: "assignment_inv d" and x: "tbl_get (cleaner_assignments d) k = Some a"
    and run: "assign_cleaner_area_schedule (k, a) area role day s t sh notes u d = Inr (j, d')"
  shows "assignment_inv d'"
proof -
  define sc where "sc = \<lparr>sc_assignment = k, sc_site_area = area, sc_operational_role = role, sc_date = day,
    sc_start_time = s, sc_end_time = t, sc_shift = sh, sc_notes = notes, sc_is_active = True,
    sc_created_by = Some (u_pk u), sc_updated_by = Some (u_pk u)\<rparr>"
  have who: "schedule_cleaner d sc = Some (csa_cleaner a)" and day: "sc_date sc = day"
    using x by (simp_all add: schedule_cleaner_def sc_def)
  have run': "schedule_clean d sc" "validate_no_schedule_overlap d (Some (csa_cleaner a)) day (tbl_next (area_schedules d)) sc = Inr ()"
    "assignment_inv d' = assignment_inv (d\<lparr>area_schedules := tbl_insert sc (area_schedules d)\<rparr>)"
    using run by (auto simp: assign_cleaner_area_schedule_def sc_def [symmetric] Let_def res_simps)
  then show ?thesis using insert_schedule_inv [OF inv run'(1)] who day by simp
qed

lemma update_schedule_inv:
  assumes inv: "assignment_inv d" and old: "tbl_get (area_schedules d) k = Some sc"
    and run: "update_area_schedule (k, sc) u area role s t sh notes d = Inr d'"
  shows "assignment_inv d'"
proof -
  obtain sc' where "schedule_clean d sc'"
    "validate_no_schedule_overlap d (schedule_cleaner d sc') (sc_date sc') k sc' = Inr ()"
    "assignment_inv d' = assignment_inv (d\<lparr>area_schedules := tbl_put k sc' (area_schedules d)\<rparr>)"
    using run by (auto simp: update_area_schedule_def Let_def res_simps)
  then show ?thesis using put_schedule_inv [OF inv old schedule_clean_ok] by simp
qed

lemma remove_schedule_inv:
  assumes inv: "assignment_inv d" and old: "tbl_get (area_schedules d) k = Some sc"
  shows "assignment_inv (deactivate_area_schedule (k, sc) u d)"
proof -
  have "schedule_ok d sc" using assignment_invD(7) [OF inv] old by (rule tbl_allD)
  then have "schedule_ok d (sc\<lparr>sc_is_active := False, sc_updated_by := Some (u_pk u)\<rparr>)" by (simp add: schedule_ok_def)
  from put_schedule_inv [OF inv old this] show ?thesis by (simp add: deactivate_area_schedule_def Let_def)
qed

lemma copy_one_inv:
  assumes inv: "assignment_inv d" and x: "tbl_get (cleaner_assignments d) k = Some a"
    and run: "copy_one (k, a) day u src (n, d) = Inr (n', d')"
  shows "assignment_inv d' \<and> cleaner_assignments d' = cleaner_assignments d"
proof -
  let ?sc = "copied_schedule k day u src"
  have who: "schedule_cleaner d ?sc = Some (csa_cleaner a)" and day: "sc_date ?sc = day"
    using x by (simp_all add: schedule_cleaner_def copied_schedule_def)
  have clean: "schedule_clean d ?sc" using run by (auto simp: copy_one_def Let_def split: if_splits)
  show ?thesis
  proof (cases "validate_no_schedule_overlap d (Some (csa_cleaner a)) day (tbl_next (area_schedules d)) ?sc")
    case (Inl e)
    with run clean inv show ?thesis by (simp add: copy_one_def Let_def)
  next
    case (Inr v)
    with run clean have "d' = d\<lparr>area_schedules := tbl_insert ?sc (area_schedules d)\<rparr>" by (simp add: copy_one_def Let_def)
    with insert_schedule_inv [OF inv clean, of v] Inr who day show ?thesis by simp
  qed
qed

lemma copy_schedules_inv:
  assumes inv: "assignment_inv d" and x: "tbl_get (cleaner_assignments d) k = Some a"
    and run: "copy_schedule_from_date (k, a) from to u d = Inr (n, d')"
  shows "assignment_inv d'"
proof -
  have loop: "assignment_inv d1" if "foldM (copy_one (k, a) to u) xs (0, d) = Inr (m, d1)" for xs m d1
  proof -
    let ?P = "\<lambda>s. assignment_inv (snd s) \<and> cleaner_assignments (snd s) = cleaner_assignments d"
    have step: "?P s'" if "?P s" and "copy_one (k, a) to u src s = Inr s'" for s s' src
      using that x copy_one_inv [of "snd s" k a to u src "fst s" "fst s'" "snd s'"] by simp
    have "?P (m, d1)" 
    proof (rule foldM_invariant [where P = ?P, OF that])
      show "?P (0, d)" using inv by simp
    qed (rule step)
    then show ?thesis by simp
  qed
  show ?thesis
    using run inv by (auto simp: copy_schedule_from_date_def Let_def res_simps dest: loop split: if_splits)
qed

lemma with_assignment_Inr [res_simps]:
  "with_assignment e u k d f = Inr y \<longleftrightarrow> assignment_read u \<and>
     (\<exists>a. tbl_get (cleaner_assignments d) k = Some a \<and> assignment_can_edit e d u a \<and> f (k, a) = Inr y)"
  by (auto simp: with_assignment_def res_simps)

lemma load_schedule_Inr [res_simps]:
  "load_schedule_or_404 d k j f = Inr y \<longleftrightarrow>
     (\<exists>sc. tbl_get (area_schedules d) j = Some sc \<and> sc_assignment sc = k \<and> f (j, sc) = Inr y)"
  by (auto simp: load_schedule_or_404_def res_simps)

lemmas assignment_endpoint_defs = cleaner_assignment_create_def cleaner_assignment_update_def cleaner_assignment_end_def
  cleaner_assignment_suspend_def cleaner_assignment_activate_def cleaner_assignment_shift_create_def
  cleaner_assignment_shift_delete_def cleaner_assignment_schedule_create_def cleaner_assignment_schedule_update_def
  cleaner_assignment_schedule_delete_def

lemma assignment_step_inv:
  assumes inv: "assignment_inv d" and run: "assignment_step d x = Inr d'"
  shows "assignment_inv d'"
proof -
  obtain e c where x: "x = (e, c)" by fastforce
  note effects = assign_cleaner_inv [OF inv] assignment_update_inv [OF inv] assign_shift_inv [OF inv]
    remove_shift_inv [OF inv] create_schedule_inv [OF inv] update_schedule_inv [OF inv] remove_schedule_inv [OF inv]
    copy_schedules_inv [OF inv]
  show ?thesis
    using run unfolding x
    by (cases c; simp only: assignment_step.simps assignment_endpoint_defs res_simps; elim exE conjE;
        (simp only: Inr_Inl_False sum.inject)?; blast intro: effects)
qed

interpretation postings: safe_system assignment_step assignment_inv
  by unfold_locales (rule assignment_step_inv)

section \<open>Properties\<close>

text \<open>
  C25: the overlap test is the right one for one day. Two schedules overlap according to
  \<open>_spans_overlap\<close>, which only looks at their two start minutes, if and only if some minute of the
  day lies in both, across midnight or not.
\<close>

theorem spans_overlap_reference:
  assumes "valid_clock s1" and "valid_clock e1" and "valid_clock s2" and "valid_clock e2"
  shows "spans_overlap s1 e1 s2 e2 \<longleftrightarrow> (\<exists>m. 0 \<le> m \<and> m < 1440 \<and> on_duty s1 e1 m \<and> on_duty s2 e2 m)"
proof -
  note r1 = minutes_range [OF assms(1)] and r2 = minutes_range [OF assms(3)]
  have "spans_overlap s1 e1 s2 e2 \<longleftrightarrow> on_duty s1 e1 (minutes s2) \<or> on_duty s2 e2 (minutes s1)"
    using r1 r2 assms by (simp add: spans_overlap_def span_contains_on_duty)
  then show ?thesis
    using r1 r2 on_duty_start on_duty_common [OF _ _ assms(1,3)] by blast
qed

theorem spans_overlap_reference_witness:
  "spans_overlap (Clock 22 0 0) (Clock 6 0 0) (Clock 5 30 0) (Clock 9 0 0) \<and>
   (\<exists>m. 0 \<le> m \<and> m < 1440 \<and> on_duty (Clock 22 0 0) (Clock 6 0 0) m \<and> on_duty (Clock 5 30 0) (Clock 9 0 0) m)"
proof -
  have "spans_overlap (Clock 22 0 0) (Clock 6 0 0) (Clock 5 30 0) (Clock 9 0 0)"
    by (simp add: spans_overlap_def span_contains_def minutes_def)
  with spans_overlap_reference [of "Clock 22 0 0" "Clock 6 0 0" "Clock 5 30 0" "Clock 9 0 0"]
  show ?thesis by (simp add: valid_clock_def)
qed


section \<open>Concrete instances\<close>

definition roster_admin :: user where
  "roster_admin = \<lparr>u_pk = 1, u_role = SYSTEM_ADMIN, u_is_superuser = True, u_is_active = True, u_perms = []\<rparr>"

definition roster_cleaner :: cleaner where
  "roster_cleaner = \<lparr>cl_first_name = ''Asha'', cl_last_name = ''Ali'', cl_id_type = ID_NIDA, cl_id_number = ''1'',
     cl_gender = G_FEMALE, cl_birth_date = Date 1990 1 1, cl_living_location = [], cl_phone_number = [],
     cl_near_person_name = [], cl_near_person_relationship = [], cl_near_person_phone = [], cl_status = CL_ACTIVE,
     cl_registration_date = Date 2025 1 1, cl_notes = [], cl_created_by = None, cl_updated_by = None\<rparr>"

definition demo_roster_db :: db where
  "demo_roster_db = empty_db\<lparr>
     sites := \<lparr>tbl_rows = [(1, demo_site)], tbl_next = 2\<rparr>,
     areas := \<lparr>tbl_rows = [(1, \<lparr>sa_site = 1, sa_name = ''Hall'', sa_code = ''H'', sa_floor = [], sa_description = [],
       sa_is_active = True, sa_created_by = None, sa_updated_by = None\<rparr>)], tbl_next = 2\<rparr>,
     operational_roles := \<lparr>tbl_rows = [(1, \<lparr>op_name = ''Cleaner'', op_code = ''C'', op_description = [], op_is_active = True,
       op_created_by = None, op_updated_by = None\<rparr>)], tbl_next = 2\<rparr>,
     cleaners := \<lparr>tbl_rows = [(1, roster_cleaner)], tbl_next = 2\<rparr>\<rparr>"

definition demo_roster_calls :: "(env \<times> assignment_call) list" where
  "demo_roster_calls =
     [(default_env, CreateAssignment roster_admin 1 1 CT_SHIFT (Date 2025 7 1) None []),
      (default_env, AddSchedule roster_admin 1 1 1 (Date 2025 7 7) (Clock 22 0 0) (Clock 6 0 0) None []),
      (default_env, AddSchedule roster_admin 1 1 1 (Date 2025 7 7) (Clock 5 0 0) (Clock 7 0 0) None []),
      (default_env, AddSchedule roster_admin 1 1 1 (Date 2025 7 7) (Clock 8 0 0) (Clock 12 0 0) None []),
      (default_env, AddSchedule roster_admin 1 1 1 (Date 2025 7 8) (Clock 5 0 0) (Clock 13 0 0) None [])]"

lemmas roster_eval = demo_roster_db_def empty_db_def demo_site_def roster_admin_def roster_cleaner_def default_env_def
  cleaner_assignment_create_def cleaner_assignment_schedule_create_def cleaner_assignment_end_def cleaner_assignment_update_def
  with_assignment_def load_site_or_404_def load_or_404_def found_def permit_def assignment_read_def can_assign_cleaner_def
  assignment_can_edit_def management_required_def is_system_admin_def user_can_manage_site_def
  assign_cleaner_to_site_def assignment_clean_def assignment_type_matches_site_def date_order_def cleaner_active_def
  assignment_clash_def assignment_live_def assignment_place_def active_row_def optional_row_def truthy_id_def
  assign_cleaner_area_schedule_def schedule_clean_def validate_no_schedule_overlap_def schedule_cleaner_def
  spans_overlap_def span_contains_def minutes_def end_assignment_def update_assignment_def save_assignment_def given_def
  assignment_audit_def emit_assignment_def audit_schedule_def record_audit_def publish_domain_event_def db_of_def date_order_defs
  tbl_get_def tbl_exists_def tbl_insert_def tbl_put_def tbl_update_where_def tbl_empty_def

abbreviation demo_roster :: db where
  "demo_roster \<equiv> run_calls assignment_step demo_roster_db demo_roster_calls"

lemma demo_roster_inv: "assignment_inv demo_roster_db"
  by (simp add: assignment_inv_def postings_ok_def bindings_ok_def never_twice_def demo_roster_db_def empty_db_def
      tbl_get_def tbl_empty_def tbl_wf_def tbl_unique_def tbl_all_def)

lemma demo_roster_run:
  "map (\<lambda>(k, sc). (k, sc_assignment sc, sc_date sc, sc_start_time sc, sc_end_time sc, sc_is_active sc)) (tbl_rows (area_schedules demo_roster)) =
     [(1, 1, Date 2025 7 7, Clock 22 0 0, Clock 6 0 0, True), (2, 1, Date 2025 7 7, Clock 8 0 0, Clock 12 0 0, True),
      (3, 1, Date 2025 7 8, Clock 5 0 0, Clock 13 0 0, True)]"
  by (simp add: demo_roster_calls_def roster_eval Let_def)


section \<open>What the rules do not cover\<close>

text \<open>
  A night shift is compared with the other schedules of the date it starts on, as if its morning
  were that date's. The roster above refuses 5:00 to 7:00 before the night shift of 7 July, when
  the cleaner is free, and accepts 5:00 to 13:00 on 8 July, when the night shift is still running.
\<close>

theorem night_shift_checked_on_its_own_date:
  "on_duty (Clock 5 0 0) (Clock 13 0 0) 300 \<and> 300 < minutes (Clock 6 0 0) \<and>
   (\<exists>d. assignment_step (run_calls assignment_step demo_roster_db (take 4 demo_roster_calls)) (demo_roster_calls ! 4) = Inr d) \<and>
   assignment_step (run_calls assignment_step demo_roster_db (take 2 demo_roster_calls)) (demo_roster_calls ! 2) =
     Inl (ValidationError ''overlapping_schedule'')"
  by (intro conjI; simp add: demo_roster_calls_def roster_eval on_duty_def Let_def)

text \<open>
  Ending an assignment skips the validation. One that has not started yet ends before it starts,
  and from then on every update of it is refused.
\<close>

theorem ended_before_it_started:
  "\<exists>d a. assignment_step (run_calls assignment_step demo_roster_db (take 1 demo_roster_calls)) (default_env, EndAssignment roster_admin 1) = Inr d \<and>
     tbl_get (cleaner_assignments d) 1 = Some a \<and> csa_start_date a = Date 2025 7 1 \<and> csa_end_date a = Some (Date 2025 6 10) \<and>
     assignment_step d (default_env, UpdateAssignment roster_admin 1 None (Some ''note'')) = Inl FullClean"
  by (simp add: demo_roster_calls_def roster_eval Let_def)

end
