(* ===== verification/Cleaners.thy ===== *)
theory Cleaners
  imports Endpoints
begin

text \<open>
  The cleaner registry (\<open>apps/site_management/cleaner_services.py\<close>, the \<open>clean\<close> rules of
  \<open>Cleaner\<close> and its endpoints): registration, profile updates, the status machine, identity
  documents and their verification.
\<close>

section \<open>Rules of the model\<close>

text \<open>
  \<open>validate_phone\<close>: an international number with an optional plus sign and eight to fifteen digits,
  or a local one with nine to eleven digits; Python's \<open>$\<close> lets a final newline pass.
\<close>

fun international_number :: "string \<Rightarrow> bool" where
  "international_number [] \<longleftrightarrow> False"
| "international_number (c # ds) \<longleftrightarrow> is_digit c \<and> c \<noteq> CHR ''0'' \<and> list_all is_digit ds \<and> 7 \<le> length ds \<and> length ds \<le> 14"

fun local_number :: "string \<Rightarrow> bool" where
  "local_number [] \<longleftrightarrow> False"
| "local_number (c # ds) \<longleftrightarrow> c = CHR ''0'' \<and> list_all is_digit ds \<and> 8 \<le> length ds \<and> length ds \<le> 10"

definition phone_pattern :: "string \<Rightarrow> bool" where
  "phone_pattern s \<longleftrightarrow> international_number (if s \<noteq> [] \<and> hd s = CHR ''+'' then tl s else s) \<or> local_number s"

definition validate_phone :: "string \<Rightarrow> bool" where
  "validate_phone s \<longleftrightarrow> phone_pattern s \<or> s \<noteq> [] \<and> last s = CHR 0x0A \<and> phone_pattern (butlast s)"

definition age_years :: "date \<Rightarrow> date \<Rightarrow> int" where
  "age_years birth today = int (date_year today) - int (date_year birth) -
     (if date_month today < date_month birth \<or> date_month today = date_month birth \<and> date_day today < date_day birth then 1 else 0)"

definition phone_column :: "string \<Rightarrow> bool" where
  "phone_column s \<longleftrightarrow> s = [] \<or> length s \<le> 16 \<and> validate_phone s"

definition identity :: "cleaner \<Rightarrow> id_type \<times> string" where
  "identity c = (cl_id_type c, cl_id_number c)"

definition identity_taken :: "db \<Rightarrow> nat \<Rightarrow> cleaner \<Rightarrow> bool" where
  "identity_taken d k c \<longleftrightarrow> tbl_exists (\<lambda>j b. j \<noteq> k \<and> identity b = identity c) (cleaners d)"

definition cleaner_clean :: "env \<Rightarrow> db \<Rightarrow> nat \<Rightarrow> cleaner \<Rightarrow> bool" where
  "cleaner_clean e d k c \<longleftrightarrow> text_column False 150 (cl_first_name c) \<and> text_column False 150 (cl_last_name c) \<and>
     text_column False 64 (cl_id_number c) \<and> text_column True 255 (cl_living_location c) \<and>
     phone_column (cl_phone_number c) \<and> text_column True 150 (cl_near_person_name c) \<and>
     text_column True 120 (cl_near_person_relationship c) \<and> phone_column (cl_near_person_phone c) \<and>
     cl_birth_date c \<le> localdate e \<and> MIN_CLEANER_AGE e \<le> age_years (cl_birth_date c) (localdate e) \<and>
     \<not> identity_taken d k c"

text \<open>
  \<open>Cleaner.save\<close> stores the identity number trimmed and in upper case (of ASCII letters here), after
  the validation looked at it as it was typed; then the unique constraint is the database's.
\<close>

definition normalised :: "cleaner \<Rightarrow> cleaner" where
  "normalised c = c\<lparr>cl_id_number := upper (strip (cl_id_number c))\<rparr>"

definition has_verified_id :: "db \<Rightarrow> nat \<Rightarrow> bool" where
  "has_verified_id d c \<longleftrightarrow> tbl_exists (\<lambda>_ x. cd_cleaner x = c \<and> cd_status x = DS_VERIFIED \<and>
     cd_document_type x \<in> {DOC_BIRTH_CERTIFICATE, DOC_NIDA, DOC_ZANZIBAR_ID}) (documents d)"

section \<open>The registry\<close>

definition full_name :: "cleaner \<Rightarrow> string" where
  "full_name c = strip (cl_first_name c @ '' '' @ cl_last_name c)"

definition emit_cleaner :: "string \<Rightarrow> nat \<Rightarrow> cleaner \<Rightarrow> user \<Rightarrow> db \<Rightarrow> db" where
  "emit_cleaner event k c actor d =
     publish_domain_event event ''site_management.cleaner'' k
       [(''cleaner_id'', JNat k), (''full_name'', JStr (full_name c))] (Some (u_pk actor)) d"

definition cleaner_audit :: "audit_action \<Rightarrow> nat \<Rightarrow> cleaner option \<Rightarrow> cleaner \<Rightarrow> user \<Rightarrow> db \<Rightarrow> db" where
  "cleaner_audit action k before c actor d =
     record_audit action (Some (u_pk actor)) ''site_management.cleaner'' k (map_option SnapCleaner before)
       (Some (SnapCleaner c)) d"

text \<open>The columns a client fills in.\<close>

record cleaner_form =
  fm_first_name :: string
  fm_last_name :: string
  fm_id_type :: id_type
  fm_id_number :: string
  fm_birth_date :: date
  fm_gender :: gender
  fm_living_location :: string
  fm_phone_number :: string
  fm_near_person_name :: string
  fm_near_person_relationship :: string
  fm_near_person_phone :: string
  fm_notes :: string

definition new_cleaner :: "env \<Rightarrow> cleaner_form \<Rightarrow> cleaner_status \<Rightarrow> date \<Rightarrow> user \<Rightarrow> cleaner" where
  "new_cleaner e f status registered actor =
     \<lparr>cl_first_name = fm_first_name f, cl_last_name = fm_last_name f, cl_id_type = fm_id_type f,
      cl_id_number = fm_id_number f, cl_gender = fm_gender f, cl_birth_date = fm_birth_date f,
      cl_living_location = fm_living_location f, cl_phone_number = fm_phone_number f,
      cl_near_person_name = fm_near_person_name f, cl_near_person_relationship = fm_near_person_relationship f,
      cl_near_person_phone = fm_near_person_phone f, cl_status = status, cl_registration_date = registered,
      cl_notes = fm_notes f, cl_created_by = Some (u_pk actor), cl_updated_by = Some (u_pk actor)\<rparr>"

definition insert_cleaner :: "cleaner \<Rightarrow> db \<Rightarrow> ((nat \<times> cleaner) \<times> db) res" where
  "insert_cleaner c d =
     (let k = tbl_next (cleaners d); c' = normalised c
      in if identity_taken d k c' then Inl IntegrityError
         else Inr ((k, c'), d\<lparr>cleaners := tbl_insert c' (cleaners d)\<rparr>))"

definition register_cleaner ::
  "env \<Rightarrow> cleaner_form \<Rightarrow> cleaner_status \<Rightarrow> user \<Rightarrow> db \<Rightarrow> ((nat \<times> cleaner) \<times> db) res" where
  "register_cleaner e f initial_status actor d =
     (let c = new_cleaner e f initial_status (sys_today e) actor
      in if \<not> cleaner_clean e d (tbl_next (cleaners d)) c then Inl FullClean
         else rbind (insert_cleaner c d) (\<lambda>((k, c'), d1).
           Inr ((k, c'), emit_cleaner ''CleanerRegistered'' k c' actor (cleaner_audit A_CREATE k None c' actor d1))))"

record cleaner_update =
  up_first_name :: "string option"
  up_last_name :: "string option"
  up_gender :: "gender option"
  up_living_location :: "string option"
  up_phone_number :: "string option"
  up_near_person_name :: "string option"
  up_near_person_relationship :: "string option"
  up_near_person_phone :: "string option"
  up_notes :: "string option"

definition update_cleaner :: "env \<Rightarrow> nat \<times> cleaner \<Rightarrow> user \<Rightarrow> cleaner_update \<Rightarrow> db \<Rightarrow> db res" where
  "update_cleaner e x actor f d =
     (let k = fst x; c = snd x;
          c1 = c\<lparr>cl_first_name := given (up_first_name f) (cl_first_name c),
                 cl_last_name := given (up_last_name f) (cl_last_name c),
                 cl_gender := given (up_gender f) (cl_gender c),
                 cl_living_location := given (up_living_location f) (cl_living_location c),
                 cl_phone_number := given (up_phone_number f) (cl_phone_number c),
                 cl_near_person_name := given (up_near_person_name f) (cl_near_person_name c),
                 cl_near_person_relationship := given (up_near_person_relationship f) (cl_near_person_relationship c),
                 cl_near_person_phone := given (up_near_person_phone f) (cl_near_person_phone c),
                 cl_notes := given (up_notes f) (cl_notes c), cl_updated_by := Some (u_pk actor)\<rparr>;
          c2 = normalised c1
      in if \<not> cleaner_clean e d k c1 then Inl FullClean
         else if identity_taken d k c2 then Inl IntegrityError
         else Inr (cleaner_audit A_UPDATE k (Some c) c2 actor (d\<lparr>cleaners := tbl_put k c2 (cleaners d)\<rparr>)))"

section \<open>The status machine\<close>

definition cleaner_transitions :: "cleaner_status \<Rightarrow> cleaner_status set" where
  "cleaner_transitions s = (case s of
     CL_APPLICANT \<Rightarrow> {CL_TRAINEE, CL_INACTIVE}
   | CL_TRAINEE \<Rightarrow> {CL_ACTIVE, CL_INACTIVE, CL_APPLICANT}
   | CL_ACTIVE \<Rightarrow> {CL_INACTIVE, CL_TRAINEE}
   | CL_INACTIVE \<Rightarrow> {CL_ACTIVE, CL_TRAINEE, CL_APPLICANT})"

definition set_status :: "cleaner_status \<Rightarrow> user \<Rightarrow> cleaner \<Rightarrow> cleaner" where
  "set_status s actor c = c\<lparr>cl_status := s, cl_updated_by := Some (u_pk actor)\<rparr>"

definition change_cleaner_status :: "nat \<times> cleaner \<Rightarrow> cleaner_status \<Rightarrow> user \<Rightarrow> db \<Rightarrow> db res" where
  "change_cleaner_status x target actor d =
     (let k = fst x; c = snd x; c' = set_status target actor c in
      if target = cl_status c then Inr d
      else if target \<notin> cleaner_transitions (cl_status c) then Inl (ValidationError ''invalid_transition'')
      else if target = CL_ACTIVE \<and> \<not> has_verified_id d k then Inl (ValidationError ''missing_verified_id'')
      else
        let d1 = cleaner_audit A_STATUS_CHANGE k (Some c) c' actor (d\<lparr>cleaners := tbl_put k c' (cleaners d)\<rparr>)
        in Inr (if target = CL_ACTIVE then emit_cleaner ''CleanerActivated'' k c' actor d1
                else if target = CL_INACTIVE then emit_cleaner ''CleanerDeactivated'' k c' actor d1
                else d1))"

definition activate_cleaner_if_eligible :: "nat \<times> cleaner \<Rightarrow> user \<Rightarrow> db \<Rightarrow> db res" where
  "activate_cleaner_if_eligible x actor d =
     (let k = fst x; c = snd x; c' = set_status CL_ACTIVE actor c in
      if \<not> has_verified_id d k then Inl (ValidationError ''missing_verified_id'')
      else if cl_status c = CL_ACTIVE then Inr d
      else Inr (emit_cleaner ''CleanerActivated'' k c' actor
             (cleaner_audit A_STATUS_CHANGE k (Some c) c' actor (d\<lparr>cleaners := tbl_put k c' (cleaners d)\<rparr>))))"

definition deactivate_cleaner :: "nat \<times> cleaner \<Rightarrow> user \<Rightarrow> db \<Rightarrow> db" where
  "deactivate_cleaner x actor d =
     (let k = fst x; c = snd x; c' = set_status CL_INACTIVE actor c in
      if cl_status c = CL_INACTIVE then d
      else emit_cleaner ''CleanerDeactivated'' k c' actor
             (cleaner_audit A_ARCHIVE k (Some c) c' actor (d\<lparr>cleaners := tbl_put k c' (cleaners d)\<rparr>)))"

section \<open>Documents\<close>

definition audit_document ::
  "audit_action \<Rightarrow> nat \<Rightarrow> cleaner_document option \<Rightarrow> cleaner_document \<Rightarrow> user \<Rightarrow> db \<Rightarrow> db" where
  "audit_document action k before x actor d =
     record_audit action (Some (u_pk actor)) ''site_management.cleanerdocument'' k (map_option SnapDocument before)
       (Some (SnapDocument x)) d"

definition upload_cleaner_document ::
  "env \<Rightarrow> nat \<times> cleaner \<Rightarrow> upload \<Rightarrow> document_type \<Rightarrow> string \<Rightarrow> date option \<Rightarrow> bool \<Rightarrow> user \<Rightarrow> db \<Rightarrow> (nat \<times> db) res" where
  "upload_cleaner_document e c f type number expires_at is_primary_id actor d =
     rbind (validate_file_extension e f) (\<lambda>_. rbind (validate_file_size e f) (\<lambda>_.
       let file_hash = sha256 e (up_content f); k = tbl_next (documents d);
           x = \<lparr>cd_cleaner = fst c, cd_document_type = type, cd_document_number = upper (strip number), cd_file = f,
                cd_original_filename = up_name f, cd_content_type = up_content_type f, cd_size_bytes = up_size f,
                cd_uploaded_by = Some (u_pk actor), cd_file_hash = file_hash, cd_status = DS_PENDING,
                cd_verified_by = None, cd_verified_at = None, cd_rejection_reason = [], cd_expires_at = expires_at,
                cd_is_primary_id = is_primary_id, cd_created_by = Some (u_pk actor), cd_updated_by = Some (u_pk actor)\<rparr>
       in if tbl_exists (\<lambda>_ y. cd_cleaner y = fst c \<and> cd_file_hash y = file_hash) (documents d)
          then Inl (ValidationError ''duplicate_document'')
          else if 64 < length (cd_document_number x) \<or> 255 < length (up_name f) \<or> 127 < length (up_content_type f)
          then Inl DataError
          else Inr (k, audit_document A_CREATE k None x actor (d\<lparr>documents := tbl_insert x (documents d)\<rparr>))))"

definition verify_cleaner_document :: "env \<Rightarrow> nat \<times> cleaner_document \<Rightarrow> user \<Rightarrow> db \<Rightarrow> db" where
  "verify_cleaner_document e x actor d =
     (let k = fst x; y = snd x;
          y' = y\<lparr>cd_status := DS_VERIFIED, cd_verified_by := Some (u_pk actor), cd_verified_at := Some (now e),
                 cd_rejection_reason := [], cd_updated_by := Some (u_pk actor)\<rparr>
      in if cd_status y = DS_VERIFIED then d
         else audit_document A_UPDATE k (Some y) y' actor (d\<lparr>documents := tbl_put k y' (documents d)\<rparr>))"

definition reject_cleaner_document :: "nat \<times> cleaner_document \<Rightarrow> user \<Rightarrow> string \<Rightarrow> db \<Rightarrow> db" where
  "reject_cleaner_document x actor reason d =
     (let k = fst x; y = snd x;
          y' = y\<lparr>cd_status := DS_REJECTED, cd_rejection_reason := reason, cd_updated_by := Some (u_pk actor)\<rparr>
      in if cd_status y = DS_REJECTED then d
         else audit_document A_UPDATE k (Some y) y' actor (d\<lparr>documents := tbl_put k y' (documents d)\<rparr>))"

section \<open>Endpoints\<close>

definition cleaner_write :: "user \<Rightarrow> bool" where
  "cleaner_write u \<longleftrightarrow> is_system_admin u \<or> u_role u = HR"

definition document_review :: "user \<Rightarrow> bool" where
  "document_review u \<longleftrightarrow> is_system_admin u \<or> u_role u = GENERAL_SUPERVISOR \<or>
     has_perm u ''accounts.view_sensitive_cleaner_documents''"

definition cleaner_update_endpoint :: "env \<Rightarrow> user \<Rightarrow> nat \<Rightarrow> cleaner_update \<Rightarrow> db \<Rightarrow> db res" where
  "cleaner_update_endpoint e u k f d =
     permit (cleaner_write u) (load_or_404 (cleaners d) k (\<lambda>x. update_cleaner e x u f d))"

definition cleaner_status_endpoint :: "user \<Rightarrow> nat \<Rightarrow> cleaner_status \<Rightarrow> db \<Rightarrow> db res" where
  "cleaner_status_endpoint u k target d =
     permit (cleaner_write u) (load_or_404 (cleaners d) k (\<lambda>x. change_cleaner_status x target u d))"

definition document_upload ::
  "env \<Rightarrow> user \<Rightarrow> nat \<Rightarrow> upload \<Rightarrow> document_type \<Rightarrow> string \<Rightarrow> date option \<Rightarrow> bool \<Rightarrow> db \<Rightarrow> db res" where
  "document_upload e u k f type number expires_at is_primary_id d =
     permit (cleaner_write u) (load_or_404 (cleaners d) k (\<lambda>x.
       db_of (upload_cleaner_document e x f type number expires_at is_primary_id u d)))"

definition load_document_or_404 :: "db \<Rightarrow> nat \<Rightarrow> nat \<Rightarrow> (nat \<times> cleaner_document \<Rightarrow> 'a res) \<Rightarrow> 'a res" where
  "load_document_or_404 d k j f =
     found (tbl_get (documents d) j) (\<lambda>x. if cd_cleaner x = k then f (j, x) else Inl Http404)"

definition document_verify :: "env \<Rightarrow> user \<Rightarrow> nat \<Rightarrow> nat \<Rightarrow> db \<Rightarrow> db res" where
  "document_verify e u k j d =
     permit (document_review u) (load_document_or_404 d k j (\<lambda>x. Inr (verify_cleaner_document e x u d)))"

definition document_reject :: "user \<Rightarrow> nat \<Rightarrow> nat \<Rightarrow> string \<Rightarrow> db \<Rightarrow> db res" where
  "document_reject u k j reason d =
     permit (document_review u) (load_document_or_404 d k j (\<lambda>x. Inr (reject_cleaner_document x u reason d)))"

end
