(* ===== verification/Trainees.thy ===== *)
theory Trainees
  imports Cleaners
begin

text \<open>
  The training of applicants (\<open>apps/site_management/trainee_services.py\<close>, the \<open>clean\<close> rules of its
  two models and its endpoints), and with it the life of a cleaner: which calls activate one, and
  what they need.
\<close>

section \<open>Rules of the models\<close>

definition is_active_program :: "trainee_program \<Rightarrow> bool" where
  "is_active_program p \<longleftrightarrow> tp_status p \<in> {TP_IN_TRAINING, TP_EXTENDED}"

definition program_clash :: "db \<Rightarrow> nat \<Rightarrow> trainee_program \<Rightarrow> bool" where
  "program_clash d k p \<longleftrightarrow> is_active_program p \<and>
     tbl_exists (\<lambda>j q. j \<noteq> k \<and> is_active_program q \<and> tp_cleaner q = tp_cleaner p) (programs d)"

definition program_clean :: "db \<Rightarrow> nat \<Rightarrow> trainee_program \<Rightarrow> bool" where
  "program_clean d k p \<longleftrightarrow> tbl_get (cleaners d) (tp_cleaner p) \<noteq> None \<and> tbl_get (sites d) (tp_site p) \<noteq> None \<and>
     (tp_status p \<in> {TP_PASSED, TP_FAILED, TP_DROPPED} \<longrightarrow> tp_actual_end_date p \<noteq> None) \<and>
     tp_start_date p \<le> tp_expected_end_date p \<and> \<not> program_clash d k p"

text \<open>The scores of an evaluation and its total, which \<open>clean\<close> fills in when it is not given.\<close>

definition evaluation_clean :: "db \<Rightarrow> trainee_evaluation \<Rightarrow> trainee_evaluation option" where
  "evaluation_clean d v =
     (if tbl_get (programs d) (te_program v) = None \<or> 100 < te_attendance_score v \<or> 100 < te_performance_score v \<or>
         100 < te_behavior_score v \<or> 100 < te_skill_score v \<or> (case te_total_score v of None \<Rightarrow> False | Some t \<Rightarrow> 400 < t)
      then None
      else Some (v\<lparr>te_total_score := Some (given (te_total_score v)
        (te_attendance_score v + te_performance_score v + te_behavior_score v + te_skill_score v))\<rparr>))"

section \<open>Services\<close>

definition emit_program :: "string \<Rightarrow> nat \<Rightarrow> (string \<times> json) list \<Rightarrow> user \<Rightarrow> db \<Rightarrow> db" where
  "emit_program event k payload actor d =
     publish_domain_event event ''site_management.traineeprogram'' k payload (Some (u_pk actor)) d"

definition program_audit :: "audit_action \<Rightarrow> nat \<Rightarrow> trainee_program option \<Rightarrow> trainee_program \<Rightarrow> user \<Rightarrow> db \<Rightarrow> db" where
  "program_audit action k before p actor d =
     record_audit action (Some (u_pk actor)) ''site_management.traineeprogram'' k (map_option SnapProgram before)
       (Some (SnapProgram p)) d"

definition set_cleaner_status :: "nat \<Rightarrow> cleaner_status \<Rightarrow> db \<Rightarrow> db" where
  "set_cleaner_status c status d =
     d\<lparr>cleaners := tbl_update_where (\<lambda>k _. k = c) (\<lambda>x. x\<lparr>cl_status := status\<rparr>) (cleaners d)\<rparr>"

definition start_trainee_program ::
  "env \<Rightarrow> nat \<times> cleaner \<Rightarrow> nat \<Rightarrow> date \<Rightarrow> date option \<Rightarrow> nat option \<Rightarrow> string \<Rightarrow> user \<Rightarrow> db \<Rightarrow> (nat \<times> db) res" where
  "start_trainee_program e c site expected_end_date start_date supervisor notes actor d =
     (let k = tbl_next (programs d);
          p = \<lparr>tp_cleaner = fst c, tp_site = site, tp_supervisor = supervisor, tp_start_date = given start_date (sys_today e),
               tp_expected_end_date = expected_end_date, tp_actual_end_date = None, tp_status = TP_IN_TRAINING,
               tp_notes = notes, tp_created_by = Some (u_pk actor), tp_updated_by = Some (u_pk actor)\<rparr>
      in if cl_status (snd c) = CL_ACTIVE then Inl (ValidationError ''already_active'')
         else if \<not> program_clean d k p then Inl FullClean
         else Inr (k, emit_program ''TraineeStarted'' k
                [(''program_id'', JNat k), (''cleaner_id'', JNat (fst c)), (''site_id'', JNat site)] actor
                (program_audit A_CREATE k None p actor
                  (set_cleaner_status (fst c) CL_TRAINEE (d\<lparr>programs := tbl_insert p (programs d)\<rparr>)))))"

text \<open>Saving a programme; the unique constraint is the database's.\<close>

definition save_program :: "nat \<Rightarrow> trainee_program \<Rightarrow> db \<Rightarrow> db res" where
  "save_program k p d =
     (if program_clash d k p then Inl IntegrityError else Inr (d\<lparr>programs := tbl_put k p (programs d)\<rparr>))"

definition update_trainee_program ::
  "nat \<times> trainee_program \<Rightarrow> user \<Rightarrow> nat option \<Rightarrow> string option \<Rightarrow> db \<Rightarrow> db res" where
  "update_trainee_program x actor supervisor notes d =
     (let k = fst x; p = snd x;
          p' = p\<lparr>tp_supervisor := (case supervisor of None \<Rightarrow> tp_supervisor p | Some s \<Rightarrow> Some s),
                 tp_notes := given notes (tp_notes p), tp_updated_by := Some (u_pk actor)\<rparr>
      in if \<not> is_active_program p then Inl (ValidationError ''program_completed'')
         else rbind (save_program k p' d) (\<lambda>d1. Inr (program_audit A_UPDATE k (Some p) p' actor d1)))"

definition transfer_trainee_program ::
  "nat \<times> trainee_program \<Rightarrow> nat \<Rightarrow> date \<Rightarrow> string \<Rightarrow> user \<Rightarrow> db \<Rightarrow> db res" where
  "transfer_trainee_program x destination effective_date reason actor d =
     (let k = fst x; p = snd x;
          site_name = (\<lambda>s. case tbl_get (sites d) s of None \<Rightarrow> [] | Some r \<Rightarrow> si_name r);
          movement_note = ''Transferred from '' @ site_name (tp_site p) @ '' to '' @ site_name destination @ '' on '' @
            iso_date effective_date @ '': '' @ strip reason;
          p' = p\<lparr>tp_site := destination, tp_supervisor := None,
                 tp_notes := strip (tp_notes p @ newline @ movement_note), tp_updated_by := Some (u_pk actor)\<rparr>
      in if \<not> is_active_program p then Inl (ValidationError ''program_completed'')
         else if strip reason = [] then Inl (ValidationError ''reason_required'')
         else if \<not> program_clean d k p' then Inl FullClean
         else rbind (save_program k p' d) (\<lambda>d1. Inr (program_audit A_UPDATE k (Some p) p' actor d1)))"

definition extend_trainee_program ::
  "nat \<times> trainee_program \<Rightarrow> date \<Rightarrow> string \<Rightarrow> user \<Rightarrow> db \<Rightarrow> db res" where
  "extend_trainee_program x new_expected_end_date reason actor d =
     (let k = fst x; p = snd x;
          p' = p\<lparr>tp_expected_end_date := new_expected_end_date, tp_status := TP_EXTENDED,
                 tp_notes := append_line (tp_notes p) (''Extended: '' @ reason), tp_updated_by := Some (u_pk actor)\<rparr>
      in if \<not> is_active_program p then Inl (ValidationError ''program_completed'')
         else if strip reason = [] then Inl (ValidationError ''reason_required'')
         else if \<not> program_clean d k p' then Inl FullClean
         else rbind (save_program k p' d) (\<lambda>d1. Inr (emit_program ''TraineeExtended'' k
                [(''reason'', JStr reason), (''new_expected_end_date'', JStr (iso_date new_expected_end_date))] actor
                (program_audit A_UPDATE k (Some p) p' actor d1))))"

definition record_trainee_evaluation :: "nat \<times> trainee_program \<Rightarrow> trainee_evaluation \<Rightarrow> user \<Rightarrow> db \<Rightarrow> (nat \<times> db) res" where
  "record_trainee_evaluation x v actor d =
     (let k = tbl_next (evaluations d) in
      case evaluation_clean d (v\<lparr>te_program := fst x, te_evaluated_by := Some (u_pk actor)\<rparr>) of None \<Rightarrow> Inl FullClean
      | Some v' \<Rightarrow> Inr (k, record_audit A_CREATE (Some (u_pk actor)) ''site_management.traineeevaluation'' k None
           (Some (SnapEvaluation v')) (d\<lparr>evaluations := tbl_insert v' (evaluations d)\<rparr>)))"

definition status_label :: "trainee_status \<Rightarrow> string" where
  "status_label s = (case s of TP_IN_TRAINING \<Rightarrow> ''In Training'' | TP_EXTENDED \<Rightarrow> ''Extended'' | TP_PASSED \<Rightarrow> ''Passed''
     | TP_FAILED \<Rightarrow> ''Failed'' | TP_DROPPED \<Rightarrow> ''Dropped'')"

definition complete_program ::
  "env \<Rightarrow> nat \<times> trainee_program \<Rightarrow> trainee_status \<Rightarrow> cleaner_status \<Rightarrow> user \<Rightarrow> string \<Rightarrow> string \<Rightarrow> date option \<Rightarrow> db \<Rightarrow> db res" where
  "complete_program e x status cleaner_status actor reason event actual_end_date d =
     (let k = fst x; p = snd x;
          p' = p\<lparr>tp_status := status, tp_actual_end_date := Some (given actual_end_date (sys_today e)),
                 tp_notes := append_line (tp_notes p) (status_label status @ '': '' @ reason), tp_updated_by := Some (u_pk actor)\<rparr>
      in if \<not> is_active_program p then Inl (ValidationError ''program_completed'')
         else if \<not> program_clean d k p' then Inl FullClean
         else rbind (save_program k p' d) (\<lambda>d1. Inr (emit_program event k [(''reason'', JStr reason)] actor
                (program_audit A_STATUS_CHANGE k (Some p) p' actor (set_cleaner_status (tp_cleaner p) cleaner_status d1)))))"

definition final_evaluation :: "db \<Rightarrow> nat \<Rightarrow> bool" where
  "final_evaluation d k \<longleftrightarrow> tbl_exists (\<lambda>_ v. te_program v = k \<and> te_is_final v) (evaluations d)"

definition pass_trainee :: "env \<Rightarrow> nat \<times> trainee_program \<Rightarrow> user \<Rightarrow> date option \<Rightarrow> string \<Rightarrow> db \<Rightarrow> db res" where
  "pass_trainee e x actor actual_end_date reason d =
     (if \<not> final_evaluation d (fst x) then Inl (ValidationError ''final_evaluation_required'')
      else if \<not> has_verified_id d (tp_cleaner (snd x)) then Inl (ValidationError ''verified_id_required'')
      else complete_program e x TP_PASSED CL_ACTIVE actor reason ''TraineePassed'' actual_end_date d)"

definition fail_trainee :: "env \<Rightarrow> nat \<times> trainee_program \<Rightarrow> user \<Rightarrow> string \<Rightarrow> db \<Rightarrow> db res" where
  "fail_trainee e x actor reason d =
     (if strip reason = [] then Inl (ValidationError ''reason_required'')
      else complete_program e x TP_FAILED CL_INACTIVE actor reason ''TraineeFailed'' None d)"

definition drop_trainee :: "env \<Rightarrow> nat \<times> trainee_program \<Rightarrow> user \<Rightarrow> string \<Rightarrow> db \<Rightarrow> db res" where
  "drop_trainee e x actor reason d =
     (if strip reason = [] then Inl (ValidationError ''reason_required'')
      else complete_program e x TP_DROPPED CL_INACTIVE actor reason ''TraineeDropped'' None d)"

section \<open>Endpoints\<close>

definition trainee_read :: "user \<Rightarrow> bool" where
  "trainee_read u \<longleftrightarrow> management_required u \<or> is_management_viewer u"

definition trainee_manage :: "env \<Rightarrow> db \<Rightarrow> user \<Rightarrow> nat \<Rightarrow> bool" where
  "trainee_manage e d u site \<longleftrightarrow> trainee_read u \<and> user_can_manage_site e d u (Some site)"

definition trainee_decide :: "user \<Rightarrow> bool" where
  "trainee_decide u \<longleftrightarrow> is_system_admin u \<or> u_role u \<in> {HR, GENERAL_SUPERVISOR, ASSISTANT_GENERAL_SUPERVISOR}"

text \<open>The supervisor of a payload: whoever has that key; nobody when no user has it.\<close>

definition payload_supervisor :: "db \<Rightarrow> nat option \<Rightarrow> nat option" where
  "payload_supervisor d s = (if truthy_id s \<and> list_ex (\<lambda>u. Some (u_pk u) = s) (users d) then s else None)"

definition trainee_create ::
  "env \<Rightarrow> user \<Rightarrow> nat \<Rightarrow> nat \<Rightarrow> date \<Rightarrow> date option \<Rightarrow> nat option \<Rightarrow> string \<Rightarrow> db \<Rightarrow> db res" where
  "trainee_create e u cleaner site expected_end_date start_date supervisor notes d =
     permit (trainee_read u) (load_or_404 (cleaners d) cleaner (\<lambda>c. load_site_or_404 d site
       (permit (trainee_manage e d u site)
         (db_of (start_trainee_program e c site expected_end_date start_date (payload_supervisor d supervisor) notes u d)))))"

definition trainee_update :: "env \<Rightarrow> user \<Rightarrow> nat \<Rightarrow> nat option \<Rightarrow> string option \<Rightarrow> db \<Rightarrow> db res" where
  "trainee_update e u k supervisor notes d =
     permit (trainee_read u) (load_or_404 (programs d) k (\<lambda>x. permit (trainee_manage e d u (tp_site (snd x)))
       (update_trainee_program x u (payload_supervisor d supervisor) notes d)))"

definition trainee_evaluation_create :: "env \<Rightarrow> user \<Rightarrow> nat \<Rightarrow> trainee_evaluation \<Rightarrow> db \<Rightarrow> db res" where
  "trainee_evaluation_create e u k v d =
     permit (trainee_read u) (load_or_404 (programs d) k (\<lambda>x. permit (trainee_manage e d u (tp_site (snd x)))
       (db_of (record_trainee_evaluation x v u d))))"

definition trainee_extend :: "env \<Rightarrow> user \<Rightarrow> nat \<Rightarrow> date \<Rightarrow> string \<Rightarrow> db \<Rightarrow> db res" where
  "trainee_extend e u k new_expected_end_date reason d =
     permit (trainee_read u) (load_or_404 (programs d) k (\<lambda>x. permit (trainee_manage e d u (tp_site (snd x)))
       (extend_trainee_program x new_expected_end_date reason u d)))"

definition trainee_pass :: "env \<Rightarrow> user \<Rightarrow> nat \<Rightarrow> date option \<Rightarrow> string \<Rightarrow> db \<Rightarrow> db res" where
  "trainee_pass e u k actual_end_date reason d =
     permit (trainee_read u) (load_or_404 (programs d) k (\<lambda>x. permit (trainee_decide u)
       (pass_trainee e x u actual_end_date reason d)))"

definition trainee_fail :: "env \<Rightarrow> user \<Rightarrow> nat \<Rightarrow> string \<Rightarrow> db \<Rightarrow> db res" where
  "trainee_fail e u k reason d =
     permit (trainee_read u) (load_or_404 (programs d) k (\<lambda>x. permit (trainee_decide u) (fail_trainee e x u reason d)))"

definition trainee_drop :: "env \<Rightarrow> user \<Rightarrow> nat \<Rightarrow> string \<Rightarrow> db \<Rightarrow> db res" where
  "trainee_drop e u k reason d =
     permit (trainee_read u) (load_or_404 (programs d) k (\<lambda>x. permit (trainee_decide u) (drop_trainee e x u reason d)))"

section \<open>Sequences of calls\<close>

text \<open>
  Everything that moves a cleaner after registration: the endpoints of the registry and of the
  training, and the two actions of the admin site.
\<close>

datatype workforce_call =
    UpdateCleaner user nat cleaner_update
  | CleanerStatus user nat cleaner_status
  | ActivateCleaner user nat
  | DeactivateCleaner user nat
  | UploadDocument user nat upload document_type string "date option" bool
  | VerifyDocument user nat nat
  | RejectDocument user nat nat string
  | StartProgram user nat nat date "date option" "nat option" string
  | UpdateProgram user nat "nat option" "string option"
  | TransferProgram user nat nat date string
  | Evaluate user nat trainee_evaluation
  | ExtendProgram user nat date string
  | PassTrainee user nat "date option" string
  | FailTrainee user nat string
  | DropTrainee user nat string

fun workforce_step :: "db \<Rightarrow> env \<times> workforce_call \<Rightarrow> db res" where
  "workforce_step d (e, UpdateCleaner u k f) = cleaner_update_endpoint e u k f d"
| "workforce_step d (e, CleanerStatus u k s) = cleaner_status_endpoint u k s d"
| "workforce_step d (e, ActivateCleaner u k) = fetch (cleaners d) k (\<lambda>x. activate_cleaner_if_eligible x u d)"
| "workforce_step d (e, DeactivateCleaner u k) = fetch (cleaners d) k (\<lambda>x. Inr (deactivate_cleaner x u d))"
| "workforce_step d (e, UploadDocument u k f t n x p) = document_upload e u k f t n x p d"
| "workforce_step d (e, VerifyDocument u k j) = document_verify e u k j d"
| "workforce_step d (e, RejectDocument u k j r) = document_reject u k j r d"
| "workforce_step d (e, StartProgram u c s x st su n) = trainee_create e u c s x st su n d"
| "workforce_step d (e, UpdateProgram u k su n) = trainee_update e u k su n d"
| "workforce_step d (e, TransferProgram u k s day r) = fetch (programs d) k (\<lambda>x. transfer_trainee_program x s day r u d)"
| "workforce_step d (e, Evaluate u k v) = trainee_evaluation_create e u k v d"
| "workforce_step d (e, ExtendProgram u k x r) = trainee_extend e u k x r d"
| "workforce_step d (e, PassTrainee u k x r) = trainee_pass e u k x r d"
| "workforce_step d (e, FailTrainee u k r) = trainee_fail e u k r d"
| "workforce_step d (e, DropTrainee u k r) = trainee_drop e u k r d"

section \<open>What every call respects\<close>

definition cleaner_status_of :: "db \<Rightarrow> nat \<Rightarrow> cleaner_status option" where
  "cleaner_status_of d c = map_option cl_status (tbl_get (cleaners d) c)"

definition program_ok :: "db \<Rightarrow> nat \<Rightarrow> trainee_program \<Rightarrow> bool" where
  "program_ok d k p \<longleftrightarrow> (\<not> is_active_program p \<longrightarrow> tp_actual_end_date p \<noteq> None) \<and>
     (tp_status p = TP_PASSED \<longrightarrow> final_evaluation d k)"

definition workforce_inv :: "db \<Rightarrow> bool" where
  "workforce_inv d \<longleftrightarrow> tbl_wf (programs d) \<and> tbl_wf (evaluations d) \<and>
     tbl_unique is_active_program tp_cleaner (programs d) \<and>
     (\<forall>k p. tbl_get (programs d) k = Some p \<longrightarrow> program_ok d k p)"

text \<open>A programme can change while it is active, and keeps its cleaner and its start.\<close>

definition program_edge :: "trainee_program \<Rightarrow> trainee_program \<Rightarrow> bool" where
  "program_edge p q \<longleftrightarrow> is_active_program p \<and> tp_cleaner q = tp_cleaner p \<and> tp_start_date q = tp_start_date p"

definition programs_effect :: "db \<Rightarrow> db \<Rightarrow> bool" where
  "programs_effect d d' \<longleftrightarrow> programs d' = programs d \<or>
     (\<exists>k p q. tbl_get (programs d) k = Some p \<and> program_edge p q \<and> program_ok d k q \<and> \<not> program_clash d k q \<and>
        programs d' = tbl_put k q (programs d)) \<or>
     (\<exists>p. is_active_program p \<and> \<not> program_clash d (tbl_next (programs d)) p \<and> programs d' = tbl_insert p (programs d))"

definition evaluations_effect :: "db \<Rightarrow> db \<Rightarrow> bool" where
  "evaluations_effect d d' \<longleftrightarrow> evaluations d' = evaluations d \<or> (\<exists>v. evaluations d' = tbl_insert v (evaluations d))"

definition activation_ok :: "db \<Rightarrow> db \<Rightarrow> bool" where
  "activation_ok d d' \<longleftrightarrow> (\<forall>c. cleaner_status_of d' c = Some CL_ACTIVE \<longrightarrow>
     cleaner_status_of d c = Some CL_ACTIVE \<or> has_verified_id d c)"

definition workforce_effect :: "db \<Rightarrow> db \<Rightarrow> bool" where
  "workforce_effect d d' \<longleftrightarrow> programs_effect d d' \<and> evaluations_effect d d' \<and> activation_ok d d'"

lemma workforce_audit_frame [simp]:
  "programs (cleaner_audit ac k b c u d) = programs d" "evaluations (cleaner_audit ac k b c u d) = evaluations d"
  "cleaners (cleaner_audit ac k b c u d) = cleaners d"
  "programs (emit_cleaner ev k c u d) = programs d" "evaluations (emit_cleaner ev k c u d) = evaluations d"
  "cleaners (emit_cleaner ev k c u d) = cleaners d"
  "programs (audit_document ac k bx x u d) = programs d" "evaluations (audit_document ac k bx x u d) = evaluations d"
  "cleaners (audit_document ac k bx x u d) = cleaners d"
  "programs (program_audit ac k bp p u d) = programs d" "evaluations (program_audit ac k bp p u d) = evaluations d"
  "cleaners (program_audit ac k bp p u d) = cleaners d"
  "programs (emit_program ev k pl u d) = programs d" "evaluations (emit_program ev k pl u d) = evaluations d"
  "cleaners (emit_program ev k pl u d) = cleaners d"
  "programs (set_cleaner_status cl s d) = programs d" "evaluations (set_cleaner_status cl s d) = evaluations d"
  by (simp_all add: cleaner_audit_def emit_cleaner_def audit_document_def program_audit_def emit_program_def set_cleaner_status_def)

lemma cleaner_status_set [simp]:
  "cleaner_status_of (set_cleaner_status c s d) k = (if k = c then map_option (\<lambda>_. s) (cleaner_status_of d k) else cleaner_status_of d k)"
  by (simp add: cleaner_status_of_def set_cleaner_status_def tbl_get_update_where option.map_comp comp_def)

lemma cleaner_status_cong: "cleaners d' = cleaners d \<Longrightarrow> cleaner_status_of d' = cleaner_status_of d"
  by (simp add: cleaner_status_of_def fun_eq_iff)

lemma registry_effect:
  assumes "programs d' = programs d" and "evaluations d' = evaluations d" and "activation_ok d d'"
  shows "workforce_effect d d'"
  using assms by (simp add: workforce_effect_def programs_effect_def evaluations_effect_def)

lemma same_cleaners_activate: "cleaners d' = cleaners d \<Longrightarrow> activation_ok d d'"
  by (auto simp: activation_ok_def dest: cleaner_status_cong)

text \<open>Writing one cleaner: to active only with a verified identity.\<close>

lemma put_cleaner_activate:
  assumes "tbl_get (cleaners d) k = Some c" and "cleaners d' = tbl_put k c' (cleaners d)"
    and "cl_status c' = CL_ACTIVE \<Longrightarrow> cl_status c = CL_ACTIVE \<or> has_verified_id d k"
  shows "activation_ok d d'"
  using assms by (auto simp: activation_ok_def cleaner_status_of_def tbl_get_put)

lemma update_cleaner_effect:
  assumes c: "tbl_get (cleaners d) k = Some c" and run: "update_cleaner e (k, c) u f d = Inr d'"
  shows "workforce_effect d d'"
  using run
  by (auto simp: update_cleaner_def normalised_def Let_def split: if_splits
      intro!: registry_effect intro: put_cleaner_activate [OF c])

lemma status_effect:
  assumes c: "tbl_get (cleaners d) k = Some c"
  shows "change_cleaner_status (k, c) s u d = Inr d' \<Longrightarrow> workforce_effect d d'"
    and "activate_cleaner_if_eligible (k, c) u d = Inr d' \<Longrightarrow> workforce_effect d d'"
    and "workforce_effect d (deactivate_cleaner (k, c) u d)"
  by (auto simp: change_cleaner_status_def activate_cleaner_if_eligible_def deactivate_cleaner_def set_status_def Let_def
      split: if_splits intro!: registry_effect intro: same_cleaners_activate put_cleaner_activate [OF c])

lemma document_effect:
  "upload_cleaner_document e x f t n ex p u d = Inr (j, d') \<Longrightarrow> workforce_effect d d'"
  "workforce_effect d (verify_cleaner_document e y u d)"
  "workforce_effect d (reject_cleaner_document y u r d)"
  by (auto simp: upload_cleaner_document_def verify_cleaner_document_def reject_cleaner_document_def Let_def res_simps
      split: if_splits intro!: registry_effect intro: same_cleaners_activate)

lemma evaluation_effect: "record_trainee_evaluation x v u d = Inr (j, d') \<Longrightarrow> workforce_effect d d'"
  by (auto simp: record_trainee_evaluation_def workforce_effect_def programs_effect_def evaluations_effect_def Let_def
      split: option.splits intro: same_cleaners_activate)

lemma start_effect:
  assumes "start_trainee_program e c s x st su n u d = Inr (k, d')"
  shows "workforce_effect d d'"
proof -
  define p where "p = \<lparr>tp_cleaner = fst c, tp_site = s, tp_supervisor = su, tp_start_date = given st (sys_today e),
    tp_expected_end_date = x, tp_actual_end_date = None, tp_status = TP_IN_TRAINING, tp_notes = n,
    tp_created_by = Some (u_pk u), tp_updated_by = Some (u_pk u)\<rparr>"
  have p: "program_clean d (tbl_next (programs d)) p" "programs d' = tbl_insert p (programs d)" "evaluations d' = evaluations d"
    "cleaners d' = cleaners (set_cleaner_status (fst c) CL_TRAINEE d)"
    using assms by (auto simp: start_trainee_program_def p_def set_cleaner_status_def Let_def split: if_splits)
  have "is_active_program p" "\<not> program_clash d (tbl_next (programs d)) p"
    using p(1) by (simp_all add: program_clean_def is_active_program_def p_def)
  moreover have "activation_ok d d'" using cleaner_status_cong [OF p(4)] by (simp add: activation_ok_def)
  ultimately show ?thesis using p(2,3) unfolding workforce_effect_def programs_effect_def evaluations_effect_def by blast
qed

text \<open>Saving a programme that may change; a finished one has its end, a passed one its evaluation.\<close>

lemma workforce_effect_cong:
  "programs d2 = programs d1 \<Longrightarrow> evaluations d2 = evaluations d1 \<Longrightarrow> cleaners d2 = cleaners d1 \<Longrightarrow>
     workforce_effect d d2 = workforce_effect d d1"
  by (drule cleaner_status_cong) (simp add: workforce_effect_def programs_effect_def evaluations_effect_def activation_ok_def)

lemma audited_effect [simp]:
  "workforce_effect d (program_audit ac k bp q u d1) = workforce_effect d d1"
  "workforce_effect d (emit_program ev k pl u d1) = workforce_effect d d1"
  by (rule workforce_effect_cong; simp)+

lemma save_program_effect:
  assumes "tbl_get (programs d) k = Some p" and "save_program k q d = Inr d1" and "program_edge p q" and "program_ok d k q"
  shows "workforce_effect d d1"
proof -
  have "\<not> program_clash d k q" and d1: "d1 = d\<lparr>programs := tbl_put k q (programs d)\<rparr>"
    using assms(2) by (auto simp: save_program_def split: if_splits)
  with assms have "programs_effect d d1" unfolding programs_effect_def by auto
  with d1 show ?thesis by (simp add: workforce_effect_def evaluations_effect_def same_cleaners_activate)
qed

lemma cleaner_moved_effect:
  assumes "workforce_effect d d1" and "cleaners d1 = cleaners d" and "s = CL_ACTIVE \<Longrightarrow> has_verified_id d c"
  shows "workforce_effect d (set_cleaner_status c s d1)"
  using assms cleaner_status_cong [OF assms(2)]
  by (auto simp: workforce_effect_def programs_effect_def evaluations_effect_def activation_ok_def)

lemma save_program_cleaners: "save_program k q d = Inr d1 \<Longrightarrow> cleaners d1 = cleaners d"
  by (auto simp: save_program_def split: if_splits)

lemmas program_may_change = program_edge_def program_ok_def is_active_program_def

lemma program_edit_effect:
  assumes p: "tbl_get (programs d) k = Some p"
  shows "update_trainee_program (k, p) u su n d = Inr d' \<Longrightarrow> workforce_effect d d'"
    and "transfer_trainee_program (k, p) s day r u d = Inr d' \<Longrightarrow> workforce_effect d d'"
    and "extend_trainee_program (k, p) x r u d = Inr d' \<Longrightarrow> workforce_effect d d'"
  unfolding update_trainee_program_def transfer_trainee_program_def extend_trainee_program_def Let_def res_simps fst_conv snd_conv
  by (auto dest!: save_program_effect [OF p] simp: program_may_change)

lemma complete_effect:
  assumes p: "tbl_get (programs d) k = Some p" and run: "complete_program e (k, p) st cs u r ev ae d = Inr d'"
    and st: "\<not> is_active_program (p\<lparr>tp_status := st\<rparr>)" "st = TP_PASSED \<Longrightarrow> final_evaluation d k"
    and cs: "cs = CL_ACTIVE \<Longrightarrow> has_verified_id d (tp_cleaner p)"
  shows "workforce_effect d d'"
proof -
  define q where "q = p\<lparr>tp_status := st, tp_actual_end_date := Some (given ae (sys_today e)),
    tp_notes := append_line (tp_notes p) (status_label st @ '': '' @ r), tp_updated_by := Some (u_pk u)\<rparr>"
  obtain d1 where d1: "save_program k q d = Inr d1" and ok: "is_active_program p"
    and d': "workforce_effect d d' = workforce_effect d (set_cleaner_status (tp_cleaner p) cs d1)"
    using run unfolding complete_program_def Let_def res_simps fst_conv snd_conv q_def [symmetric] by auto
  have "workforce_effect d d1"
    by (rule save_program_effect [OF p d1]) (use ok st in \<open>simp_all add: q_def program_edge_def program_ok_def is_active_program_def\<close>)
  then show ?thesis using cleaner_moved_effect [OF _ save_program_cleaners [OF d1] cs] d' by simp
qed

lemma decision_effect:
  assumes p: "tbl_get (programs d) k = Some p"
  shows "pass_trainee e (k, p) u ae r d = Inr d' \<Longrightarrow> workforce_effect d d'"
    and "fail_trainee e (k, p) u r d = Inr d' \<Longrightarrow> workforce_effect d d'"
    and "drop_trainee e (k, p) u r d = Inr d' \<Longrightarrow> workforce_effect d d'"
  by (auto simp: pass_trainee_def fail_trainee_def drop_trainee_def is_active_program_def split: if_splits
      dest!: complete_effect [OF p])

lemma load_document_Inr [res_simps]:
  "load_document_or_404 d k j f = Inr y \<longleftrightarrow> (\<exists>x. tbl_get (documents d) j = Some x \<and> cd_cleaner x = k \<and> f (j, x) = Inr y)"
  by (auto simp: load_document_or_404_def res_simps)

lemmas workforce_endpoint_defs = cleaner_update_endpoint_def cleaner_status_endpoint_def document_upload_def document_verify_def
  document_reject_def trainee_create_def trainee_update_def trainee_evaluation_create_def trainee_extend_def trainee_pass_def
  trainee_fail_def trainee_drop_def

lemmas workforce_effects = update_cleaner_effect status_effect document_effect evaluation_effect start_effect
  program_edit_effect decision_effect

lemma workforce_step_effect:
  assumes "workforce_step d x = Inr d'"
  shows "workforce_effect d d'"
proof -
  obtain e c where x: "x = (e, c)" by fastforce
  show ?thesis
    using assms unfolding x
    by (cases c; simp only: workforce_step.simps workforce_endpoint_defs res_simps; elim exE conjE;
        (simp only: sum.inject)?; blast intro: workforce_effects)
qed

section \<open>Invariants\<close>

lemma tbl_exists_insert: "tbl_exists P (tbl_insert r t) \<longleftrightarrow> tbl_exists P t \<or> P (tbl_next t) r"
  by (simp add: tbl_exists_def tbl_insert_def)

lemma final_evaluation_kept:
  assumes "evaluations_effect d d'" and "tbl_wf (evaluations d)"
  shows "final_evaluation d k \<Longrightarrow> final_evaluation d' k" and "tbl_wf (evaluations d')"
  using assms by (auto simp: evaluations_effect_def final_evaluation_def tbl_exists_insert)

lemma workforce_inv_effect:
  assumes inv: "workforce_inv d" and eff: "workforce_effect d d'"
  shows "workforce_inv d'"
proof -
  have wf: "tbl_wf (programs d)" "tbl_wf (evaluations d)" and uniq: "tbl_unique is_active_program tp_cleaner (programs d)"
    and ok: "\<And>k p. tbl_get (programs d) k = Some p \<Longrightarrow> program_ok d k p"
    using inv by (auto simp: workforce_inv_def)
  note ev = final_evaluation_kept [of d d', OF _ wf(2)]
  have kept: "program_ok d k p \<Longrightarrow> program_ok d' k p" for k p
    using ev eff by (auto simp: program_ok_def workforce_effect_def)
  have progs: "tbl_wf (programs d') \<and> tbl_unique is_active_program tp_cleaner (programs d') \<and>
      (\<forall>k p. tbl_get (programs d') k = Some p \<longrightarrow> program_ok d k p)"
    using eff unfolding workforce_effect_def programs_effect_def
  proof (elim conjE disjE exE)
    assume "programs d' = programs d"
    then show ?thesis using wf uniq ok by simp
  next
    fix k p q
    assume p: "tbl_get (programs d) k = Some p" and q: "program_ok d k q" "\<not> program_clash d k q"
      and d': "programs d' = tbl_put k q (programs d)"
    have "tbl_unique is_active_program tp_cleaner (programs d')"
      unfolding d' by (rule tbl_unique_put_free [OF wf(1) uniq p]) (use q(2) in \<open>auto simp: program_clash_def\<close>)
    then show ?thesis using wf ok q(1) by (auto simp: d' tbl_get_put)
  next
    fix p
    assume p: "is_active_program p" "\<not> program_clash d (tbl_next (programs d)) p" and d': "programs d' = tbl_insert p (programs d)"
    have "tbl_unique is_active_program tp_cleaner (programs d')"
      unfolding d' by (rule tbl_unique_insert_free [OF wf(1) uniq]) (use p(2) in \<open>auto simp: program_clash_def\<close>)
    moreover have "program_ok d k p" for k using p(1) by (auto simp: program_ok_def is_active_program_def)
    ultimately show ?thesis using wf ok by (auto simp: d' tbl_get_insert)
  qed
  then show ?thesis using kept ev(2) eff by (auto simp: workforce_inv_def workforce_effect_def)
qed

lemma workforce_program_edge:
  assumes inv: "workforce_inv d" and eff: "workforce_effect d d'" and p: "tbl_get (programs d) k = Some p"
  shows "\<exists>q. tbl_get (programs d') k = Some q \<and> (q = p \<or> program_edge p q)"
proof -
  have "tbl_wf (programs d)" using inv by (simp add: workforce_inv_def)
  with p have "k < tbl_next (programs d)" and ins: "\<And>r j. tbl_get (tbl_insert r (programs d)) j =
      (if j = tbl_next (programs d) then Some r else tbl_get (programs d) j)"
    by (auto dest: tbl_get_lt simp: tbl_get_insert)
  then show ?thesis using eff p unfolding workforce_effect_def programs_effect_def
    by (auto simp: tbl_get_put)
qed

text \<open>A programme as a state machine over whole rows: every call leaves it or moves it while it is active.\<close>

interpretation programme: workflow workforce_step workforce_inv "\<lambda>d. tbl_get (programs d) k" program_edge for k
  by unfold_locales (auto dest: workforce_step_effect intro: workforce_inv_effect workforce_program_edge)

section \<open>Properties\<close>



section \<open>Concrete instances\<close>

definition workforce_admin :: user where
  "workforce_admin = \<lparr>u_pk = 1, u_role = SYSTEM_ADMIN, u_is_superuser = True, u_is_active = True, u_perms = []\<rparr>"

definition demo_form :: cleaner_form where
  "demo_form = \<lparr>fm_first_name = ''Asha'', fm_last_name = ''Ali'', fm_id_type = ID_NIDA, fm_id_number = ''n1'',
     fm_birth_date = Date 1990 1 1, fm_gender = G_FEMALE, fm_living_location = [], fm_phone_number = ''0712345678'',
     fm_near_person_name = [], fm_near_person_relationship = [], fm_near_person_phone = [], fm_notes = []\<rparr>"

definition demo_workforce_db :: db where
  "demo_workforce_db = empty_db\<lparr>sites := \<lparr>tbl_rows = [(1, demo_site)], tbl_next = 2\<rparr>,
     cleaners := \<lparr>tbl_rows = [(1, new_cleaner default_env demo_form CL_APPLICANT (Date 2025 1 1) workforce_admin)], tbl_next = 2\<rparr>\<rparr>"

definition demo_evaluation :: trainee_evaluation where
  "demo_evaluation = \<lparr>te_program = 0, te_evaluation_date = Date 2025 6 1, te_attendance_score = 90, te_performance_score = 80,
     te_behavior_score = 85, te_skill_score = 70, te_total_score = None, te_comments = [], te_is_final = True,
     te_evaluated_by = None\<rparr>"

definition demo_identity :: upload where
  "demo_identity = \<lparr>up_name = ''id.pdf'', up_content_type = ''pdf'', up_size = 10, up_content = ''scan''\<rparr>"

definition demo_training :: "(env \<times> workforce_call) list" where
  "demo_training =
     [(default_env, StartProgram workforce_admin 1 1 (Date 2025 8 1) (Some (Date 2025 5 1)) None []),
      (default_env, UploadDocument workforce_admin 1 demo_identity DOC_NIDA ''n1'' None True),
      (default_env, VerifyDocument workforce_admin 1 1),
      (default_env, Evaluate workforce_admin 1 demo_evaluation),
      (default_env, PassTrainee workforce_admin 1 None ''done''),
      (default_env, ExtendProgram workforce_admin 1 (Date 2025 9 1) ''more'')]"

abbreviation demo_trained :: db where
  "demo_trained \<equiv> run_calls workforce_step demo_workforce_db demo_training"

lemmas workforce_eval = demo_workforce_db_def demo_training_def demo_form_def demo_evaluation_def demo_identity_def workforce_admin_def
  new_cleaner_def empty_db_def demo_site_def default_env_def date_order_defs
  permit_def load_or_404_def load_site_or_404_def found_def fetch_def db_of_def trainee_create_def trainee_read_def trainee_manage_def
  management_required_def is_system_admin_def user_can_manage_site_def payload_supervisor_def truthy_id_def given_def
  start_trainee_program_def program_clean_def program_clash_def is_active_program_def set_cleaner_status_def
  program_audit_def emit_program_def record_audit_def publish_domain_event_def
  document_upload_def cleaner_write_def upload_cleaner_document_def validate_file_extension_def validate_file_size_def
  allowed_file_extensions_def max_upload_bytes_def file_extension_def lower_char_def upper_def upper_char_def strip_def is_space_def
  audit_document_def document_verify_def document_review_def load_document_or_404_def verify_cleaner_document_def
  trainee_evaluation_create_def record_trainee_evaluation_def evaluation_clean_def
  trainee_pass_def trainee_decide_def pass_trainee_def final_evaluation_def has_verified_id_def complete_program_def
  save_program_def append_line_def status_label_def newline_def trainee_extend_def extend_trainee_program_def
  cleaner_status_endpoint_def change_cleaner_status_def cleaner_transitions_def set_status_def cleaner_audit_def emit_cleaner_def full_name_def
  tbl_get_def tbl_exists_def tbl_insert_def tbl_put_def tbl_update_where_def tbl_empty_def

lemma demo_workforce_inv: "workforce_inv demo_workforce_db"
  by (simp add: workforce_inv_def demo_workforce_db_def empty_db_def tbl_get_def tbl_empty_def tbl_wf_def tbl_unique_def)

lemma demo_training_run:
  "map_option (\<lambda>p. (tp_status p, tp_actual_end_date p)) (tbl_get (programs demo_trained) 1) = Some (TP_PASSED, Some (Date 2025 6 10)) \<and>
   map_option te_total_score (tbl_get (evaluations demo_trained) 1) = Some (Some 325) \<and>
   cleaner_status_of demo_trained 1 = Some CL_ACTIVE \<and> cleaner_status_of demo_workforce_db 1 = Some CL_APPLICANT"
  by (simp add: workforce_eval cleaner_status_of_def Let_def)



section \<open>What the rules do not protect\<close>

text \<open>
  Registration may set any initial status: a cleaner is active without a single document, which no
  later call would allow. And a rejected document does not take the activation back.
\<close>

theorem registered_active_without_documents:
  "\<exists>k c d. register_cleaner default_env demo_form CL_ACTIVE workforce_admin empty_db = Inr ((k, c), d) \<and>
     cleaner_status_of d k = Some CL_ACTIVE \<and> \<not> has_verified_id d k"
  by (simp add: register_cleaner_def cleaner_clean_def text_column_def phone_column_def validate_phone_def phone_pattern_def
      is_digit_def age_years_def identity_taken_def identity_def insert_cleaner_def normalised_def cleaner_status_of_def
      workforce_eval Let_def)

theorem rejection_leaves_cleaner_active:
  "\<exists>d. document_reject workforce_admin 1 1 ''forged'' demo_trained = Inr d \<and> \<not> has_verified_id d 1 \<and>
     cleaner_status_of d 1 = Some CL_ACTIVE"
  by (simp add: document_reject_def reject_cleaner_document_def cleaner_status_of_def workforce_eval Let_def)

text \<open>
  The identity number is checked for uniqueness as typed and stored in upper case: the same number
  in lower case passes the validation and fails at the database.
\<close>

theorem lower_case_duplicate_reaches_database:
  "\<exists>k c d. register_cleaner default_env demo_form CL_APPLICANT workforce_admin empty_db = Inr ((k, c), d) \<and>
     register_cleaner default_env demo_form CL_APPLICANT workforce_admin d = Inl IntegrityError"
  by (simp add: register_cleaner_def cleaner_clean_def text_column_def phone_column_def validate_phone_def phone_pattern_def
      is_digit_def age_years_def identity_taken_def identity_def insert_cleaner_def normalised_def workforce_eval Let_def char_of_def)

text \<open>An extension may bring the expected end forward.\<close>

theorem extension_may_shorten:
  "\<exists>p. tbl_get (programs (run_calls workforce_step demo_workforce_db (take 1 demo_training @
       [(default_env, ExtendProgram workforce_admin 1 (Date 2025 5 2) ''sooner'')]))) 1 = Some p \<and>
     tp_status p = TP_EXTENDED \<and> tp_expected_end_date p = Date 2025 5 2"
  by (simp add: workforce_eval Let_def)

end
