(* ===== verification/Onboarding.thy ===== *)
theory Onboarding
  imports Assignments Trainees
begin

text \<open>
  HR: onboarding one cleaner (the endpoint that creates a cleaner), importing a workbook and
  transferring people between sites (\<open>apps/site_management/hr_services.py\<close>). These compose the
  registry, the assignments and the training. Reading a workbook is not modelled: an import starts
  from the rows its preview accepted.
\<close>

section \<open>Onboarding one cleaner\<close>

definition status_value :: "cleaner_status \<Rightarrow> string" where
  "status_value s = (case s of CL_APPLICANT \<Rightarrow> ''applicant'' | CL_TRAINEE \<Rightarrow> ''trainee'' | CL_ACTIVE \<Rightarrow> ''active''
     | CL_INACTIVE \<Rightarrow> ''inactive'')"

text \<open>
  The endpoint calls three services, each a transaction of its own: when a later one raises, what
  the earlier ones wrote stays. The result comes with the database it leaves.
\<close>

definition cleaner_create :: "env \<Rightarrow> user \<Rightarrow> cleaner_form \<Rightarrow> cleaner_status \<Rightarrow> nat \<Rightarrow> db \<Rightarrow> unit res \<times> db" where
  "cleaner_create e u f status site d =
     (if \<not> cleaner_write u then (Inl PermissionDenied, d)
      else if active_row si_is_active (sites d) site = None then (Inl (ValidationError []), d)
      else case register_cleaner e f status u d of Inl x \<Rightarrow> (Inl x, d)
      | Inr (c, d1) \<Rightarrow>
          (case assign_cleaner_to_site c site CT_FULL_TIME (sys_today e) None
              (''Initial '' @ status_value status @ '' onboarding assignment.'') u d1 of
             Inl x \<Rightarrow> (Inl x, d1)
           | Inr (_, d2) \<Rightarrow>
               if status = CL_TRAINEE then
                 (case start_trainee_program e c site (add_days 90 (sys_today e)) None None
                     ''Started from individual HR onboarding.'' u d2 of
                    Inl x \<Rightarrow> (Inl x, d2)
                  | Inr (_, d3) \<Rightarrow> (Inr (), d3))
               else (Inr (), d2)))"

section \<open>Importing a workbook\<close>

definition configuration :: "cleaner_status \<Rightarrow> site \<Rightarrow> unit res" where
  "configuration status site =
     (if status \<notin> {CL_TRAINEE, CL_ACTIVE} then Inl (ValidationError [])
      else if \<not> si_is_active site then Inl (ValidationError []) else Inr ())"

text \<open>A row the preview accepted: its number, its columns and the registration date.\<close>

type_synonym import_row = "nat \<times> cleaner_form \<times> date"

definition upper_identity :: "cleaner_form \<Rightarrow> cleaner_form" where
  "upper_identity f = f\<lparr>fm_id_number := upper (fm_id_number f)\<rparr>"

text \<open>\<open>Cleaner.objects.get_or_create\<close>: the columns are not validated, only the column widths hold.\<close>

definition get_or_create_cleaner ::
  "env \<Rightarrow> cleaner_form \<Rightarrow> cleaner_status \<Rightarrow> date \<Rightarrow> user \<Rightarrow> db \<Rightarrow> ((nat \<times> cleaner) \<times> db) res" where
  "get_or_create_cleaner e f status registered actor d =
     (let c = new_cleaner e (upper_identity f) status registered actor in
      case tbl_where (\<lambda>_ b. identity b = identity c) (cleaners d) of
        x # _ \<Rightarrow> Inr (x, d)
      | [] \<Rightarrow>
          if 150 < length (cl_first_name c) \<or> 150 < length (cl_last_name c) \<or> 64 < length (strip (cl_id_number c)) \<or>
             255 < length (cl_living_location c) \<or> 16 < length (cl_phone_number c) \<or> 150 < length (cl_near_person_name c) \<or>
             120 < length (cl_near_person_relationship c) \<or> 16 < length (cl_near_person_phone c)
          then Inl DataError
          else insert_cleaner c d)"

definition import_one :: "env \<Rightarrow> cleaner_status \<Rightarrow> nat \<Rightarrow> user \<Rightarrow> import_row \<Rightarrow> db \<Rightarrow> db res" where
  "import_one e status site actor r d =
     (let (n, f, registered) = r in
      rbind (get_or_create_cleaner e f status registered actor d) (\<lambda>(c, d1).
      rbind (if tbl_exists (\<lambda>_ a. csa_cleaner a = fst c \<and> csa_site a = site \<and> csa_status a \<in> {CA_ACTIVE, CA_DRAFT}) (cleaner_assignments d1)
             then Inr d1
             else db_of (assign_cleaner_to_site c site CT_FULL_TIME registered None
                    (''Bulk HR '' @ status_value status @ '' onboarding row '' @ str_nat n @ ''.'') actor d1)) (\<lambda>d2.
      if status = CL_TRAINEE \<and> \<not> tbl_exists (\<lambda>_ p. tp_cleaner p = fst c \<and> is_active_program p) (programs d2)
      then db_of (start_trainee_program e c site (add_days 90 registered) (Some registered) None
             (''Created from HR workbook row '' @ str_nat n @ ''.'') actor d2)
      else Inr d2)))"

definition audit_actor :: "audit_action \<Rightarrow> user \<Rightarrow> (string \<times> string) list \<Rightarrow> db \<Rightarrow> db" where
  "audit_actor action actor columns d =
     record_audit action (Some (u_pk actor)) ''accounts.user'' (u_pk actor) None (Some (SnapFields columns)) d"

definition import_cleaner_workbook ::
  "env \<Rightarrow> import_row list \<Rightarrow> user \<Rightarrow> cleaner_status \<Rightarrow> nat \<times> site \<Rightarrow> db \<Rightarrow> db res" where
  "import_cleaner_workbook e accepted actor status site d =
     rbind (configuration status (snd site)) (\<lambda>_.
     rbind (foldM (import_one e status (fst site) actor) accepted d) (\<lambda>d1.
       Inr (audit_actor A_CREATE actor
         [(''onboarding_status'', status_value status), (''site_id'', str_nat (fst site))] d1)))"

section \<open>Transferring people\<close>

definition assignment_type_for_site :: "site \<Rightarrow> cleaner_site_assignment option \<Rightarrow> cleaner_assignment_type" where
  "assignment_type_for_site s current =
     (case si_work_mode s of WM_SHIFT \<Rightarrow> CT_SHIFT | WM_FULL_TIME \<Rightarrow> CT_FULL_TIME
      | WM_FULL_TIME_AND_SHIFT \<Rightarrow> (case current of None \<Rightarrow> CT_FULL_TIME | Some a \<Rightarrow> csa_assignment_type a))"

text \<open>Newest first: by descending start date and, for the same date, descending key.\<close>

definition newest_first :: "('r \<Rightarrow> date) \<Rightarrow> (nat \<times> 'r) list \<Rightarrow> (nat \<times> 'r) list" where
  "newest_first start xs = rev (sort_key (start \<circ> snd) (sort_key fst xs))"

definition open_assignment :: "cleaner_site_assignment \<Rightarrow> bool" where
  "open_assignment a \<longleftrightarrow> csa_status a \<in> {CA_ACTIVE, CA_DRAFT}"

definition open_assignments :: "db \<Rightarrow> nat \<Rightarrow> (nat \<times> cleaner_site_assignment) list" where
  "open_assignments d c =
     newest_first csa_start_date (tbl_where (\<lambda>_ a. csa_cleaner a = c \<and> open_assignment a) (cleaner_assignments d))"

definition current_program :: "db \<Rightarrow> nat \<Rightarrow> (nat \<times> trainee_program) option" where
  "current_program d c =
     (case newest_first tp_start_date (tbl_where (\<lambda>_ p. tp_cleaner p = c \<and> is_active_program p) (programs d)) of
        [] \<Rightarrow> None | x # _ \<Rightarrow> Some x)"

type_synonym transfer_plan =
  "(nat \<times> cleaner) \<times> (nat \<times> cleaner_site_assignment) list \<times> (nat \<times> trainee_program) option"

definition plan_transfer :: "db \<Rightarrow> nat \<Rightarrow> nat \<times> cleaner \<Rightarrow> transfer_plan res" where
  "plan_transfer d destination c =
     (let assignments = open_assignments d (fst c) in
      if cl_status (snd c) = CL_INACTIVE then Inl (ValidationError ''cleaner_inactive'')
      else if assignments \<noteq> [] \<and> list_all (\<lambda>(_, a). csa_site a = destination) assignments
      then Inl (ValidationError ''already_assigned'')
      else Inr (c, assignments, current_program d (fst c)))"

fun plan_transfers :: "db \<Rightarrow> nat \<Rightarrow> (nat \<times> cleaner) list \<Rightarrow> transfer_plan list res" where
  "plan_transfers d destination [] = Inr []"
| "plan_transfers d destination (c # cs) =
     rbind (plan_transfer d destination c) (\<lambda>p. rbind (plan_transfers d destination cs) (\<lambda>ps. Inr (p # ps)))"

definition end_open :: "env \<Rightarrow> user \<Rightarrow> date \<Rightarrow> (nat \<times> cleaner_site_assignment) list \<Rightarrow> db \<Rightarrow> db res" where
  "end_open e actor effective_date = foldM (\<lambda>x d. end_assignment e x actor (Some effective_date) d)"

definition registry_note :: "date \<Rightarrow> string \<Rightarrow> string" where
  "registry_note effective_date reason = ''HR People Registry transfer on '' @ iso_date effective_date @ '': '' @ strip reason"

definition restored_note :: "date \<Rightarrow> string \<Rightarrow> string" where
  "restored_note effective_date reason =
     ''Training programme restored during HR transfer on '' @ iso_date effective_date @ '': '' @ strip reason"

definition transfer_one :: "env \<Rightarrow> nat \<times> site \<Rightarrow> date \<Rightarrow> string \<Rightarrow> user \<Rightarrow> transfer_plan \<Rightarrow> db \<Rightarrow> db res" where
  "transfer_one e destination effective_date reason actor plan d =
     (let (c, assignments, program) = plan;
          current = (case assignments of [] \<Rightarrow> None | x # _ \<Rightarrow> Some (snd x)) in
      rbind (end_open e actor effective_date assignments d) (\<lambda>d1.
      rbind (assign_cleaner_to_site c (fst destination) (assignment_type_for_site (snd destination) current) effective_date None
          (registry_note effective_date reason) actor d1) (\<lambda>(_, d2).
      case program of
        Some x \<Rightarrow> transfer_trainee_program x (fst destination) effective_date reason actor d2
      | None \<Rightarrow>
          if cl_status (snd c) = CL_TRAINEE then
            db_of (start_trainee_program e c (fst destination) (add_days 90 effective_date) (Some effective_date) None
              (restored_note effective_date reason) actor d2)
          else Inr d2)))"

definition unique_ids :: "nat list \<Rightarrow> nat list" where
  \<comment> \<open>\<open>list(dict.fromkeys(ids))\<close>\<close>
  "unique_ids xs = rev (remdups (rev xs))"

definition transfer_cleaners_between_sites ::
  "env \<Rightarrow> nat list \<Rightarrow> nat \<times> site \<Rightarrow> date \<Rightarrow> string \<Rightarrow> user \<Rightarrow> db \<Rightarrow> db res" where
  "transfer_cleaners_between_sites e cleaner_ids destination effective_date reason actor d =
     (let ids = unique_ids cleaner_ids;
          people = sort_key fst (tbl_where (\<lambda>k _. k \<in> set ids) (cleaners d)) in
      if ids = [] then Inl (ValidationError ''no_cleaners'')
      else if 100 < length ids then Inl (ValidationError ''batch_too_large'')
      else if \<not> si_is_active (snd destination) then Inl (ValidationError ''destination_inactive'')
      else if strip reason = [] then Inl (ValidationError ''reason_required'')
      else if length people \<noteq> length ids then Inl (ValidationError ''cleaner_not_found'')
      else rbind (plan_transfers d (fst destination) people) (\<lambda>plans.
           rbind (foldM (transfer_one e destination effective_date reason actor) plans d) (\<lambda>d1.
             Inr (audit_actor A_UPDATE actor [(''destination_site_id'', str_nat (fst destination)),
               (''effective_date'', iso_date effective_date), (''reason'', strip reason)] d1))))"

definition hr_cleaner_transfer :: "env \<Rightarrow> user \<Rightarrow> nat list \<Rightarrow> nat \<Rightarrow> date \<Rightarrow> string \<Rightarrow> db \<Rightarrow> db res" where
  "hr_cleaner_transfer e u cleaner_ids destination effective_date reason d =
     permit (cleaner_write u) (found (active_row si_is_active (sites d) destination) (\<lambda>s.
       transfer_cleaners_between_sites e cleaner_ids (destination, s) effective_date reason u d))"

definition hr_cleaner_import :: "env \<Rightarrow> user \<Rightarrow> import_row list \<Rightarrow> cleaner_status \<Rightarrow> nat \<Rightarrow> db \<Rightarrow> db res" where
  "hr_cleaner_import e u accepted status site d =
     permit (cleaner_write u) (found (active_row si_is_active (sites d) site) (\<lambda>s.
       import_cleaner_workbook e accepted u status (site, s) d))"

section \<open>What a transfer does\<close>

text \<open>The assignments and the programmes of one cleaner.\<close>

definition assignments_of :: "db \<Rightarrow> nat \<Rightarrow> (nat \<times> cleaner_site_assignment) set" where
  "assignments_of d c = {(k, a). tbl_get (cleaner_assignments d) k = Some a \<and> csa_cleaner a = c}"

definition programs_of :: "db \<Rightarrow> nat \<Rightarrow> (nat \<times> trainee_program) set" where
  "programs_of d c = {(k, p). tbl_get (programs d) k = Some p \<and> tp_cleaner p = c}"

definition open_of :: "db \<Rightarrow> nat \<Rightarrow> (nat \<times> cleaner_site_assignment) set" where
  "open_of d c = {(k, a) \<in> assignments_of d c. open_assignment a}"

definition moved_to :: "nat \<Rightarrow> date \<Rightarrow> db \<Rightarrow> nat \<Rightarrow> bool" where
  "moved_to site day d c \<longleftrightarrow> (\<exists>k a. open_of d c = {(k, a)} \<and> csa_site a = site \<and> csa_start_date a = day) \<and>
     (\<forall>(k, p) \<in> programs_of d c. is_active_program p \<longrightarrow> tp_site p = site)"

lemma moved_to_cong:
  "assignments_of d' c = assignments_of d c \<Longrightarrow> programs_of d' c = programs_of d c \<Longrightarrow> moved_to s day d' c = moved_to s day d c"
  by (simp add: moved_to_def open_of_def)

lemma set_newest_first [simp]: "set (newest_first f xs) = set xs"
  by (simp add: newest_first_def)

lemma distinct_keys_newest_first: "distinct (map fst xs) \<Longrightarrow> distinct (map fst (newest_first f xs))"
  by (auto simp: newest_first_def distinct_map rev_map [symmetric])

lemma open_assignments_set: "tbl_wf (cleaner_assignments d) \<Longrightarrow> set (open_assignments d c) = open_of d c"
  by (auto simp: open_assignments_def open_of_def assignments_of_def tbl_get_mem)

lemma open_assignments_distinct: "tbl_wf (cleaner_assignments d) \<Longrightarrow> distinct (map fst (open_assignments d c))"
  unfolding open_assignments_def tbl_where_def tbl_wf_def
  by (intro distinct_keys_newest_first) (simp add: distinct_map_filter)

lemma current_program_Some:
  assumes "tbl_wf (programs d)" and "current_program d c = Some (k, p)"
  shows "(k, p) \<in> programs_of d c \<and> is_active_program p"
proof -
  have "(k, p) \<in> set (newest_first tp_start_date (tbl_where (\<lambda>_ p. tp_cleaner p = c \<and> is_active_program p) (programs d)))"
    using assms(2) by (auto simp: current_program_def simp del: set_newest_first split: list.splits)
  then show ?thesis using assms(1) by (auto simp: programs_of_def tbl_get_mem)
qed

lemma current_program_None:
  assumes "tbl_wf (programs d)" and "current_program d c = None" and "(k, p) \<in> programs_of d c"
  shows "\<not> is_active_program p"
proof -
  have "set (newest_first tp_start_date (tbl_where (\<lambda>_ p. tp_cleaner p = c \<and> is_active_program p) (programs d))) = {}"
    using assms(2) by (auto simp: current_program_def simp del: set_newest_first split: list.splits)
  then have "(k, p) \<notin> set (tbl_where (\<lambda>_ p. tp_cleaner p = c \<and> is_active_program p) (programs d))" by simp
  with assms(1,3) show ?thesis by (auto simp: programs_of_def tbl_get_mem)
qed

text \<open>Ending assignments: the listed rows end, the others and all programmes stay.\<close>

lemma end_assignment_row:
  assumes "end_assignment e (k, a) u day d = Inr d'"
  shows "\<exists>b. cleaner_assignments d' = tbl_put k b (cleaner_assignments d) \<and> csa_cleaner b = csa_cleaner a \<and>
    csa_status b = CA_ENDED \<and> programs d' = programs d \<and> cleaners d' = cleaners d"
proof -
  obtain d1 where "save_assignment k (a\<lparr>csa_status := CA_ENDED,
      csa_end_date := (case csa_end_date a of None \<Rightarrow> Some (given day (sys_today e)) | Some t \<Rightarrow> Some t),
      csa_updated_by := Some (u_pk u)\<rparr>) d = Inr d1"
    "cleaner_assignments d' = cleaner_assignments d1" "programs d' = programs d1" "cleaners d' = cleaners d1"
    using assms unfolding end_assignment_def Let_def res_simps fst_conv snd_conv
    by (auto simp: emit_assignment_def assignment_audit_def)
  then show ?thesis by (auto simp: save_assignment_def split: if_splits)
qed

lemma end_open_rows:
  assumes "end_open e u day xs d = Inr d'" and "distinct (map fst xs)" and "tbl_wf (cleaner_assignments d)"
    and "\<And>k a. (k, a) \<in> set xs \<Longrightarrow> tbl_get (cleaner_assignments d) k = Some a"
  shows "tbl_wf (cleaner_assignments d') \<and> programs d' = programs d \<and> cleaners d' = cleaners d \<and>
    tbl_next (cleaner_assignments d') = tbl_next (cleaner_assignments d) \<and>
    (\<forall>k. k \<notin> fst ` set xs \<longrightarrow> tbl_get (cleaner_assignments d') k = tbl_get (cleaner_assignments d) k) \<and>
    (\<forall>(k, a) \<in> set xs. \<exists>b. tbl_get (cleaner_assignments d') k = Some b \<and> csa_cleaner b = csa_cleaner a \<and> csa_status b = CA_ENDED)"
  using assms
proof (induction xs arbitrary: d)
  case Nil
  then show ?case by (simp add: end_open_def)
next
  case (Cons x xs)
  obtain k a where x: "x = (k, a)" by fastforce
  obtain d1 where first: "end_assignment e (k, a) u (Some day) d = Inr d1" and rest: "end_open e u day xs d1 = Inr d'"
    using Cons.prems(1) by (auto simp: end_open_def x res_simps)
  obtain b where b: "cleaner_assignments d1 = tbl_put k b (cleaner_assignments d)" "csa_cleaner b = csa_cleaner a"
    "csa_status b = CA_ENDED" "programs d1 = programs d" "cleaners d1 = cleaners d"
    using end_assignment_row [OF first] by blast
  have k: "k \<notin> fst ` set xs" and got: "tbl_get (cleaner_assignments d) k = Some a"
    using Cons.prems(2,4) by (auto simp: x)
  have keep: "tbl_get (cleaner_assignments d1) j = Some c" if "(j, c) \<in> set xs" for j c
  proof -
    have "j \<noteq> k" using that k by force
    then show ?thesis using Cons.prems(4) [of j c] that by (simp add: b(1) tbl_get_put)
  qed
  have wf1: "tbl_wf (cleaner_assignments d1)" using Cons.prems(3) by (simp add: b(1))
  have distinct: "distinct (map fst xs)" using Cons.prems(2) by simp
  note ih = Cons.IH [OF rest distinct wf1 keep]
  have "tbl_get (cleaner_assignments d') k = Some b"
    using ih k got by (simp add: b(1) tbl_get_put)
  then show ?case using ih b by (auto simp: x tbl_get_put)
qed

lemma open_after_end:
  assumes "end_open e u day xs d = Inr d'" and wf: "tbl_wf (cleaner_assignments d)"
    and xs: "set xs = open_of d c" and "distinct (map fst xs)"
  shows "tbl_wf (cleaner_assignments d') \<and> programs d' = programs d \<and> cleaners d' = cleaners d \<and> open_of d' c = {} \<and>
    (\<forall>c'. c' \<noteq> c \<longrightarrow> assignments_of d' c' = assignments_of d c')"
proof -
  have listed: "tbl_get (cleaner_assignments d) k = Some a \<and> csa_cleaner a = c" if "(k, a) \<in> set xs" for k a
    using that by (auto simp: xs open_of_def assignments_of_def)
  have rows: "tbl_wf (cleaner_assignments d')" "programs d' = programs d" "cleaners d' = cleaners d"
    "\<And>k. k \<notin> fst ` set xs \<Longrightarrow> tbl_get (cleaner_assignments d') k = tbl_get (cleaner_assignments d) k"
    and ended: "\<And>k a. (k, a) \<in> set xs \<Longrightarrow>
      \<exists>b. tbl_get (cleaner_assignments d') k = Some b \<and> csa_cleaner b = csa_cleaner a \<and> csa_status b = CA_ENDED"
    using end_open_rows [OF assms(1) assms(4) wf] listed by blast+
  have same: "tbl_get (cleaner_assignments d') k = Some a \<longleftrightarrow> tbl_get (cleaner_assignments d) k = Some a"
    if "csa_cleaner a = c'" "c' \<noteq> c" for k a c'
  proof (cases "k \<in> fst ` set xs")
    case True
    then obtain b where "(k, b) \<in> set xs" by force
    with listed [OF this] ended [OF this] that show ?thesis by auto
  qed (simp add: rows(4))
  have "\<not> open_assignment a" if "tbl_get (cleaner_assignments d') k = Some a" "csa_cleaner a = c" for k a
  proof (cases "k \<in> fst ` set xs")
    case True
    then obtain b where "(k, b) \<in> set xs" by force
    with ended [OF this] that show ?thesis by (auto simp: open_assignment_def)
  next
    case False
    then have "(k, a) \<in> assignments_of d c" using that by (simp add: rows(4) assignments_of_def)
    moreover have "(k, a) \<notin> open_of d c" using False unfolding xs [symmetric] by force
    ultimately show ?thesis by (simp add: open_of_def)
  qed
  then have "open_of d' c = {}" by (auto simp: open_of_def assignments_of_def)
  moreover have "\<forall>c'. c' \<noteq> c \<longrightarrow> assignments_of d' c' = assignments_of d c'"
    using same by (auto simp: assignments_of_def)
  ultimately show ?thesis using rows by blast
qed

lemma assignments_of_insert:
  "cleaner_assignments d' = tbl_insert a (cleaner_assignments d) \<Longrightarrow> tbl_wf (cleaner_assignments d) \<Longrightarrow>
   assignments_of d' c =
     (if csa_cleaner a = c then insert (tbl_next (cleaner_assignments d), a) (assignments_of d c) else assignments_of d c)"
  by (auto simp: assignments_of_def tbl_get_insert tbl_get_fresh split: if_splits)

lemma posted:
  assumes "assign_cleaner_to_site (c, cl) site type day until text u d = Inr (k, d')"
    and wf: "tbl_wf (cleaner_assignments d)" and none: "open_of d c = {}"
  shows "tbl_wf (cleaner_assignments d') \<and> programs d' = programs d \<and> cleaners d' = cleaners d \<and>
    (\<exists>k a. open_of d' c = {(k, a)} \<and> csa_site a = site \<and> csa_start_date a = day) \<and>
    (\<forall>c'. c' \<noteq> c \<longrightarrow> assignments_of d' c' = assignments_of d c')"
proof -
  obtain a where a: "cleaner_assignments d' = tbl_insert a (cleaner_assignments d)" "csa_cleaner a = c" "csa_site a = site"
      "csa_start_date a = day" "open_assignment a" "programs d' = programs d" "cleaners d' = cleaners d"
    using assms(1) unfolding assign_cleaner_to_site_def Let_def
    by (auto simp: emit_assignment_def assignment_audit_def open_assignment_def split: if_splits)
  have "open_of d' c = {(tbl_next (cleaner_assignments d), a)}"
    using none a(2,5) by (auto simp: open_of_def assignments_of_insert [OF a(1) wf])
  then show ?thesis using a wf by (auto simp: assignments_of_insert [OF a(1) wf])
qed

definition trained_at :: "nat \<Rightarrow> db \<Rightarrow> nat \<Rightarrow> bool" where
  "trained_at site d c \<longleftrightarrow> (\<exists>(k, p) \<in> programs_of d c. is_active_program p \<and> tp_site p = site)"

lemma programme_moved:
  assumes "transfer_trainee_program (k, p) site day text u d = Inr d'" and wf: "tbl_wf (programs d)"
    and row: "(k, p) \<in> programs_of d c" and only: "\<And>j q. (j, q) \<in> programs_of d c \<Longrightarrow> is_active_program q \<Longrightarrow> j = k"
  shows "tbl_wf (programs d') \<and> cleaner_assignments d' = cleaner_assignments d \<and> trained_at site d' c \<and>
    (\<forall>(j, q) \<in> programs_of d' c. is_active_program q \<longrightarrow> tp_site q = site) \<and>
    (\<forall>c'. c' \<noteq> c \<longrightarrow> programs_of d' c' = programs_of d c')"
proof -
  obtain q where q: "programs d' = tbl_put k q (programs d)" "tp_cleaner q = tp_cleaner p" "tp_site q = site"
      "tp_status q = tp_status p" "is_active_program p" "cleaner_assignments d' = cleaner_assignments d"
    using assms(1) unfolding transfer_trainee_program_def save_program_def Let_def res_simps fst_conv snd_conv
    by (auto simp: program_audit_def res_simps)
  have p: "tbl_get (programs d) k = Some p" "tp_cleaner p = c" using row by (auto simp: programs_of_def)
  have mem: "(j, r) \<in> programs_of d' c' \<longleftrightarrow> (if j = k then r = q \<and> c' = c else (j, r) \<in> programs_of d c')" for j r c'
    using p q(2) by (auto simp: programs_of_def q(1) tbl_get_put)
  have "is_active_program q" using q(4,5) by (simp add: is_active_program_def)
  then have "trained_at site d' c" using q(3) mem [of k q c] by (auto simp: trained_at_def)
  moreover have "\<forall>(j, r) \<in> programs_of d' c. is_active_program r \<longrightarrow> tp_site r = site"
    using only q(3) by (auto simp: mem split: if_splits)
  moreover have "programs_of d' c' = programs_of d c'" if "c' \<noteq> c" for c'
  proof -
    have "(k, r) \<notin> programs_of d c'" for r using p that by (auto simp: programs_of_def)
    then show ?thesis using that by (auto simp: mem split: if_splits)
  qed
  ultimately show ?thesis using wf q(1,6) by simp
qed

lemma programme_started:
  assumes "start_trainee_program e (c, cl) site until start led text u d = Inr (k, d')" and wf: "tbl_wf (programs d)"
    and none: "\<And>j q. (j, q) \<in> programs_of d c \<Longrightarrow> \<not> is_active_program q"
  shows "tbl_wf (programs d') \<and> cleaner_assignments d' = cleaner_assignments d \<and> trained_at site d' c \<and>
    (\<forall>(j, q) \<in> programs_of d' c. is_active_program q \<longrightarrow> tp_site q = site) \<and>
    (\<forall>c'. c' \<noteq> c \<longrightarrow> programs_of d' c' = programs_of d c')"
proof -
  obtain q where q: "programs d' = tbl_insert q (programs d)" "tp_cleaner q = c" "tp_site q = site"
      "is_active_program q" "cleaner_assignments d' = cleaner_assignments d"
    using assms(1) unfolding start_trainee_program_def Let_def
    by (auto simp: program_audit_def emit_program_def set_cleaner_status_def is_active_program_def split: if_splits)
  have mem: "(j, r) \<in> programs_of d' c' \<longleftrightarrow> (j = tbl_next (programs d) \<and> r = q \<and> c' = c) \<or> (j, r) \<in> programs_of d c'" for j r c'
    using q(2) wf by (auto simp: programs_of_def q(1) tbl_get_insert tbl_get_fresh)
  have "trained_at site d' c" using q(3,4) by (auto simp: trained_at_def mem)
  then show ?thesis using none q wf by (auto simp: mem)
qed

text \<open>What the planning step knows about the cleaner of a plan, and what the transfer leaves.\<close>

definition planned :: "db \<Rightarrow> transfer_plan \<Rightarrow> bool" where
  "planned d plan \<longleftrightarrow> (case plan of ((c, _), xs, program) \<Rightarrow>
     set xs = open_of d c \<and> distinct (map fst xs) \<and>
     (case program of None \<Rightarrow> \<forall>(j, q) \<in> programs_of d c. \<not> is_active_program q
      | Some (k, p) \<Rightarrow> (k, p) \<in> programs_of d c \<and> (\<forall>(j, q) \<in> programs_of d c. is_active_program q \<longrightarrow> j = k)))"

definition posted_to :: "nat \<Rightarrow> date \<Rightarrow> db \<Rightarrow> nat \<times> cleaner \<Rightarrow> bool" where
  "posted_to site day d c \<longleftrightarrow> moved_to site day d (fst c) \<and>
     (cl_status (snd c) = CL_TRAINEE \<longrightarrow> trained_at site d (fst c))"

definition same_person :: "db \<Rightarrow> db \<Rightarrow> nat \<Rightarrow> bool" where
  "same_person d d' c \<longleftrightarrow> assignments_of d' c = assignments_of d c \<and> programs_of d' c = programs_of d c"

lemma same_person_cong:
  "same_person d d' (fst (fst plan)) \<Longrightarrow> planned d' plan = planned d plan"
  "same_person d d' (fst c) \<Longrightarrow> posted_to site day d' c = posted_to site day d c"
  by (auto simp: same_person_def planned_def open_of_def posted_to_def moved_to_def trained_at_def split: prod.splits option.splits)

definition workforce_tables :: "db \<Rightarrow> bool" where
  "workforce_tables d \<longleftrightarrow> tbl_wf (cleaner_assignments d) \<and> tbl_wf (programs d)"

lemma transfer_one_effect:
  assumes run: "transfer_one e (site, s) day why u plan d = Inr d'" and wf: "workforce_tables d" and "planned d plan"
  shows "workforce_tables d' \<and> posted_to site day d' (fst plan) \<and> (\<forall>c. c \<noteq> fst (fst plan) \<longrightarrow> same_person d d' c)"
proof -
  obtain c cl xs program where plan: "plan = ((c, cl), xs, program)" by (metis surj_pair)
  obtain d1 d2 k type label where ended: "end_open e u day xs d = Inr d1"
    and assigned: "assign_cleaner_to_site (c, cl) site type day None label u d1 = Inr (k, d2)"
    and training: "(case program of Some x \<Rightarrow> transfer_trainee_program x site day why u d2 = Inr d'
      | None \<Rightarrow> if cl_status cl = CL_TRAINEE then \<exists>j until start led label. start_trainee_program e (c, cl) site until start led label u d2 = Inr (j, d')
                else d' = d2)"
    using run unfolding transfer_one_def plan Let_def prod.case rbind_Inr fst_conv snd_conv
    by (cases program; cases "cl_status cl = CL_TRAINEE") (simp add: res_simps; blast)+
  have p: "set xs = open_of d c" "distinct (map fst xs)" using assms(3) by (auto simp: planned_def plan)
  have wf': "tbl_wf (cleaner_assignments d)" "tbl_wf (programs d)" using wf by (auto simp: workforce_tables_def)
  note one = open_after_end [OF ended wf'(1) p]
  have two: "tbl_wf (cleaner_assignments d2)" "programs d2 = programs d1"
    "\<exists>k a. open_of d2 c = {(k, a)} \<and> csa_site a = site \<and> csa_start_date a = day"
    "\<forall>c'. c' \<noteq> c \<longrightarrow> assignments_of d2 c' = assignments_of d1 c'"
    using posted [OF assigned] one by blast+
  have prog: "programs d2 = programs d" using two(2) one by simp
  then have programs2: "programs_of d2 = programs_of d" by (simp add: programs_of_def fun_eq_iff)
  have three: "tbl_wf (programs d') \<and> cleaner_assignments d' = cleaner_assignments d2 \<and> (cl_status cl = CL_TRAINEE \<longrightarrow> trained_at site d' c) \<and>
    (\<forall>(j, q) \<in> programs_of d' c. is_active_program q \<longrightarrow> tp_site q = site) \<and>
    (\<forall>c'. c' \<noteq> c \<longrightarrow> programs_of d' c' = programs_of d2 c')"
  proof (cases program)
    case None
    then have "\<And>j q. (j, q) \<in> programs_of d2 c \<Longrightarrow> \<not> is_active_program q"
      using assms(3) by (auto simp: planned_def plan programs2)
    note none = this
    show ?thesis
    proof (cases "cl_status cl = CL_TRAINEE")
      case True
      then obtain j until start led label where "start_trainee_program e (c, cl) site until start led label u d2 = Inr (j, d')"
        using training None by auto
      from programme_started [OF this _ none] wf'(2) prog show ?thesis by simp
    next
      case False
      then show ?thesis using training None none wf'(2) prog by force
    qed
  next
    case (Some x)
    obtain k p where x: "x = (k, p)" by fastforce
    have "(k, p) \<in> programs_of d2 c" "\<And>j q. (j, q) \<in> programs_of d2 c \<Longrightarrow> is_active_program q \<Longrightarrow> j = k"
      using assms(3) by (auto simp: planned_def plan programs2 Some x)
    then show ?thesis using training programme_moved [of k p site day why u d2 d' c] wf'(2) prog by (auto simp: Some x)
  qed
  then have "assignments_of d' = assignments_of d2" by (simp add: assignments_of_def fun_eq_iff)
  then have "same_person d d' c'" if "c' \<noteq> c" for c'
    using that one two(4) three programs2 by (simp add: same_person_def)
  moreover have "posted_to site day d' (c, cl)"
    using two(3) three by (simp add: posted_to_def moved_to_def open_of_def \<open>assignments_of d' = assignments_of d2\<close>)
  ultimately show ?thesis using two(1) three by (simp add: plan workforce_tables_def)
qed

lemma transfer_all_effect:
  assumes "foldM (transfer_one e (site, s) day why u) plans d = Inr d'" and "workforce_tables d"
    and "distinct (map (fst \<circ> fst) plans)" and "\<And>plan. plan \<in> set plans \<Longrightarrow> planned d plan"
  shows "workforce_tables d' \<and> (\<forall>plan \<in> set plans. posted_to site day d' (fst plan)) \<and>
    (\<forall>c. c \<notin> fst ` fst ` set plans \<longrightarrow> same_person d d' c)"
  using assms
proof (induction plans arbitrary: d)
  case Nil
  then show ?case by (simp add: same_person_def)
next
  case (Cons plan plans)
  obtain d1 where first: "transfer_one e (site, s) day why u plan d = Inr d1"
    and rest: "foldM (transfer_one e (site, s) day why u) plans d1 = Inr d'"
    using Cons.prems(1) by (auto simp: res_simps)
  have effect: "workforce_tables d1" "posted_to site day d1 (fst plan)"
    "\<And>c. c \<noteq> fst (fst plan) \<Longrightarrow> same_person d d1 c"
    using transfer_one_effect [OF first Cons.prems(2)] Cons.prems(4) by simp_all
  have other: "fst (fst p) \<noteq> fst (fst plan)" if "p \<in> set plans" for p
    using Cons.prems(3) that by (auto simp: image_iff comp_def)
  have fresh: "fst (fst plan) \<notin> fst ` fst ` set plans" using Cons.prems(3) by (auto simp: image_iff comp_def)
  have keep: "planned d1 p" if "p \<in> set plans" for p
    using same_person_cong(1) [OF effect(3) [OF other [OF that]]] Cons.prems(4) that by simp
  have distinct: "distinct (map (fst \<circ> fst) plans)" using Cons.prems(3) by (simp add: comp_def)
  have ih: "workforce_tables d'" "\<forall>p \<in> set plans. posted_to site day d' (fst p)"
    "\<And>c. c \<notin> fst ` fst ` set plans \<Longrightarrow> same_person d1 d' c"
    using Cons.IH [OF rest effect(1) distinct keep] by blast+
  have "posted_to site day d' (fst plan)"
    using same_person_cong(2) [OF ih(3) [OF fresh]] effect(2) by blast
  moreover have "same_person d d' c" if "c \<notin> fst ` fst ` set (plan # plans)" for c
    using effect(3) [of c] ih(3) [of c] that by (auto simp: same_person_def)
  ultimately show ?case using ih by auto
qed

lemma plan_transfers_list:
  "plan_transfers d site cs = Inr plans \<Longrightarrow> plans = map (\<lambda>c. (c, open_assignments d (fst c), current_program d (fst c))) cs"
  by (induction cs arbitrary: plans) (auto simp: plan_transfer_def Let_def res_simps)

definition one_training :: "db \<Rightarrow> bool" where
  "one_training d \<longleftrightarrow> tbl_unique is_active_program tp_cleaner (programs d)"

lemma plan_of_cleaner:
  assumes "workforce_tables d" and "one_training d"
  shows "planned d (c, open_assignments d (fst c), current_program d (fst c))"
proof (cases "current_program d (fst c)")
  case None
  then show ?thesis using assms current_program_None [of d "fst c"]
    by (auto simp: planned_def workforce_tables_def open_assignments_set open_assignments_distinct split: prod.splits)
next
  case (Some x)
  obtain k p where x: "x = (k, p)" by fastforce
  have row: "(k, p) \<in> programs_of d (fst c)" "is_active_program p"
    using current_program_Some [of d "fst c" k p] Some assms(1) by (auto simp: x workforce_tables_def)
  have "j = k" if "(j, q) \<in> programs_of d (fst c)" "is_active_program q" for j q
    using assms(2) row that unfolding one_training_def programs_of_def
    by (auto dest: tbl_uniqueD)
  then show ?thesis using assms(1) row(1) Some
    by (auto simp: x planned_def workforce_tables_def open_assignments_set open_assignments_distinct split: prod.splits)
qed

lemma set_unique_ids [simp]: "set (unique_ids xs) = set xs" "distinct (unique_ids xs)"
  by (simp_all add: unique_ids_def)

text \<open>As many rows with a key of the list as there are keys: every key has its row.\<close>

lemma all_found:
  assumes "tbl_wf t" and "distinct ids" and "length (tbl_where (\<lambda>k _. k \<in> set ids) t) = length ids"
  shows "fst ` set (tbl_where (\<lambda>k _. k \<in> set ids) t) = set ids"
proof (rule card_subset_eq)
  let ?xs = "tbl_where (\<lambda>k _. k \<in> set ids) t"
  have "distinct (map fst ?xs)" using assms(1) by (simp add: tbl_where_def tbl_wf_def distinct_map_filter)
  then have "card (fst ` set ?xs) = length ?xs" by (metis distinct_card length_map list.set_map)
  then show "card (fst ` set ?xs) = card (set ids)" using assms(2,3) by (simp add: distinct_card)
qed auto

lemma transfer_cleaners_effect:
  assumes run: "transfer_cleaners_between_sites e ids (site, s) day why u d = Inr d'"
    and tables: "workforce_tables d" "tbl_wf (cleaners d)" "one_training d"
  shows "(\<forall>c cl. c \<in> set ids \<longrightarrow> tbl_get (cleaners d) c = Some cl \<longrightarrow> posted_to site day d' (c, cl)) \<and>
    (\<forall>c. c \<notin> set ids \<longrightarrow> same_person d d' c)"
proof -
  let ?rows = "tbl_where (\<lambda>k _. k \<in> set (unique_ids ids)) (cleaners d)"
  let ?plan = "\<lambda>c. (c, open_assignments d (fst c), current_program d (fst c))"
  obtain plans d1 where plans: "plan_transfers d site (sort_key fst ?rows) = Inr plans"
    and moved: "foldM (transfer_one e (site, s) day why u) plans d = Inr d1"
    and last: "cleaner_assignments d' = cleaner_assignments d1" "programs d' = programs d1"
    and all: "length ?rows = length (unique_ids ids)"
    using run unfolding transfer_cleaners_between_sites_def Let_def res_simps
    by (auto simp: audit_actor_def)
  have p: "plans = map ?plan (sort_key fst ?rows)" by (rule plan_transfers_list [OF plans])
  have keys: "map (fst \<circ> fst) plans = map fst (sort_key fst ?rows)" by (simp add: p)
  have distinct: "distinct (map (fst \<circ> fst) plans)"
    unfolding keys using tables(2)
    by (auto simp: distinct_map tbl_where_def tbl_wf_def intro: inj_on_subset)
  have planned: "planned d plan" if "plan \<in> set plans" for plan
    using that plan_of_cleaner [OF tables(1,3)] by (auto simp: p)
  note effect = transfer_all_effect [OF moved tables(1) distinct planned]
  have ids: "fst ` fst ` set plans = set ids"
    using all_found [OF tables(2) set_unique_ids(2) all] by (simp add: p image_image)
  have "posted_to site day d1 (c, cl)" if "c \<in> set ids" "tbl_get (cleaners d) c = Some cl" for c cl
  proof -
    have "?plan (c, cl) \<in> set plans" using that tables(2) by (auto simp: p tbl_get_mem)
    then show ?thesis using effect by force
  qed
  moreover have "posted_to site day d' c = posted_to site day d1 c" "same_person d d' = same_person d d1" for c
    by (auto simp: posted_to_def moved_to_def trained_at_def open_of_def assignments_of_def programs_of_def same_person_def last fun_eq_iff)
  ultimately show ?thesis using effect unfolding ids by auto
qed

text \<open>C28: A transfer by HR moves everyone it names and nobody else: whenever the endpoint accepts a
  batch, every cleaner of the batch has exactly one open (active or draft) assignment afterwards, at
  the destination and from the effective date; any training in progress is at the destination too,
  and a trainee has one; the assignments and programmes of every other cleaner are what they were.
  It needs a state in which no cleaner is in two programmes, which the unique constraint keeps.\<close>

theorem transfer_moves_everyone:
  assumes "hr_cleaner_transfer e u ids site day reason d = Inr d'"
    and "workforce_tables d" and "tbl_wf (cleaners d)" and "one_training d" and "tbl_get (cleaners d) c = Some cl"
  shows "if c \<in> set ids then posted_to site day d' (c, cl) else same_person d d' c"
  using assms transfer_cleaners_effect
  by (fastforce simp: hr_cleaner_transfer_def permit_def found_def split: if_splits option.splits)

section \<open>Concrete instances\<close>

definition hr_officer :: user where
  "hr_officer = \<lparr>u_pk = 2, u_role = HR, u_is_superuser = False, u_is_active = True, u_perms = []\<rparr>"

definition demo_transfer_db :: db where
  "demo_transfer_db = empty_db\<lparr>
     sites := \<lparr>tbl_rows = [(1, demo_site), (2, demo_site\<lparr>si_code := ''S2''\<rparr>)], tbl_next = 3\<rparr>,
     cleaners := \<lparr>tbl_rows = [(1, roster_cleaner), (2, roster_cleaner\<lparr>cl_id_number := ''2'', cl_status := CL_TRAINEE\<rparr>),
       (3, roster_cleaner\<lparr>cl_id_number := ''3''\<rparr>)], tbl_next = 4\<rparr>,
     cleaner_assignments := \<lparr>tbl_rows = map (\<lambda>(k, s). (k, \<lparr>csa_cleaner = k, csa_site = 1, csa_assignment_type = CT_SHIFT,
       csa_start_date = Date 2025 5 1, csa_end_date = None, csa_status = s, csa_assigned_by = None, csa_notes = [],
       csa_created_by = None, csa_updated_by = None\<rparr>)) [(1, CA_ACTIVE), (2, CA_DRAFT), (3, CA_ACTIVE)], tbl_next = 4\<rparr>,
     programs := \<lparr>tbl_rows = [(1, \<lparr>tp_cleaner = 2, tp_site = 1, tp_supervisor = Some 9, tp_start_date = Date 2025 5 1,
       tp_expected_end_date = Date 2025 8 1, tp_actual_end_date = None, tp_status = TP_IN_TRAINING, tp_notes = [],
       tp_created_by = None, tp_updated_by = None\<rparr>)], tbl_next = 2\<rparr>\<rparr>"

definition demo_transfer :: "db \<Rightarrow> db res" where
  "demo_transfer = hr_cleaner_transfer default_env hr_officer [1, 2] 2 (Date 2025 7 1) ''reorganised''"

lemmas transfer_eval = demo_transfer_db_def hr_officer_def hr_cleaner_transfer_def transfer_cleaners_between_sites_def
  unique_ids_def plan_transfer_def open_assignments_def open_assignment_def newest_first_def current_program_def
  transfer_one_def end_open_def assignment_type_for_site_def audit_actor_def transfer_trainee_program_def is_active_program_def
  program_clean_def program_clash_def save_program_def program_audit_def registry_note_def restored_note_def
  cleaner_write_def status_value_def iso_date_def strip_def is_space_def tbl_where_def

lemma demo_transfer_ok: "\<exists>d. demo_transfer demo_transfer_db = Inr d"
  by (simp add: demo_transfer_def transfer_eval roster_eval Let_def)

theorem transfer_moves_everyone_witness:
  "\<exists>d. demo_transfer demo_transfer_db = Inr d \<and>
     posted_to 2 (Date 2025 7 1) d (2, roster_cleaner\<lparr>cl_id_number := ''2'', cl_status := CL_TRAINEE\<rparr>) \<and>
     same_person demo_transfer_db d 3"
proof -
  obtain d where d: "demo_transfer demo_transfer_db = Inr d" using demo_transfer_ok by blast
  have tables: "workforce_tables demo_transfer_db" "tbl_wf (cleaners demo_transfer_db)" "one_training demo_transfer_db"
    by (simp_all add: workforce_tables_def one_training_def demo_transfer_db_def tbl_wf_def tbl_unique_def tbl_get_def)
  note moved = transfer_moves_everyone [OF d [unfolded demo_transfer_def] tables]
  show ?thesis using moved [of 2] moved [of 3] d by (simp add: demo_transfer_db_def tbl_get_def)
qed

section \<open>What the rules do not cover\<close>

text \<open>
  Onboarding on a site worked in shifts: the cleaner is registered, then the full-time posting is
  refused. The request fails, the cleaner stays without a posting, and sending the request again
  fails for the identity number that is now taken.
\<close>

lemma bit_of_one: "bit (Suc 0) 0"
  by (simp add: bit_0)

theorem failed_onboarding_leaves_cleaner:
  "\<exists>d c. cleaner_create default_env hr_officer demo_form CL_TRAINEE 1 demo_transfer_db = (Inl FullClean, d) \<and>
     tbl_get (cleaners d) 4 = Some c \<and> cl_status c = CL_TRAINEE \<and> \<not> tbl_exists (\<lambda>_ a. csa_cleaner a = 4) (cleaner_assignments d) \<and>
     cleaner_create default_env hr_officer (demo_form\<lparr>fm_id_number := ''N1''\<rparr>) CL_TRAINEE 1 d = (Inl FullClean, d)"
  by (simp add: cleaner_create_def register_cleaner_def cleaner_clean_def text_column_def phone_column_def validate_phone_def
      phone_pattern_def is_digit_def age_years_def identity_taken_def identity_def insert_cleaner_def normalised_def
      transfer_eval workforce_eval roster_eval Let_def char_of_def bit_of_one)

text \<open>A workbook row is not validated as a registration is: the import creates a cleaner born last year.\<close>

theorem import_skips_registration_rules:
  "\<exists>d c. hr_cleaner_import default_env hr_officer [(2, demo_form\<lparr>fm_birth_date := Date 2024 1 1\<rparr>, Date 2025 6 1)] CL_ACTIVE 2
       (demo_transfer_db\<lparr>sites := \<lparr>tbl_rows = [(2, demo_site\<lparr>si_work_mode := WM_FULL_TIME\<rparr>)], tbl_next = 3\<rparr>\<rparr>) = Inr d \<and>
     tbl_get (cleaners d) 4 = Some c \<and> cl_birth_date c = Date 2024 1 1 \<and> \<not> cleaner_clean default_env d 4 c"
  by (simp add: hr_cleaner_import_def import_cleaner_workbook_def configuration_def import_one_def get_or_create_cleaner_def
      upper_identity_def insert_cleaner_def normalised_def identity_taken_def identity_def cleaner_clean_def age_years_def
      transfer_eval workforce_eval roster_eval Let_def char_of_def)

end
