(* ===== verification/Accounts.thy ===== *)
theory Accounts
  imports Endpoints
begin

text \<open>
  Accounts: the role groups (\<open>apps/accounts/rbac.py\<close>, \<open>signals.py\<close>), the services of
  \<open>apps/accounts/services.py\<close>, the tokens of \<open>tokens.py\<close>, the bearer authentication of \<open>auth.py\<close> and the endpoints
  of \<open>apps/accounts/api.py\<close>. A request carries the token it is made with; handlers run with the account
  the token authenticates, as it is in the database then. The signer, the password functions and the
  authentication backends are Django's, hence parameters.
\<close>

section \<open>The permissions of a role\<close>

type_synonym permission = "string \<times> string"

definition CUSTOM_PERMISSIONS :: "string list" where
  "CUSTOM_PERMISSIONS = [''submit_site_report'', ''review_zone_report'', ''review_assistant_report'', ''approve_general_report'',
     ''assign_job'', ''verify_job'', ''approve_trainee'', ''manage_site_configuration'', ''manage_cleaners'', ''import_cleaners'',
     ''manage_cleaner_assignments'', ''manage_trainee_lifecycle'', ''manage_store_inventory'',
     ''view_sensitive_cleaner_documents'', ''export_site_management_data'']"

definition ACCOUNT_MODELS :: "string list" where
  "ACCOUNT_MODELS = [''user'', ''apitoken'']"

definition SITE_MODELS :: "string list" where
  "SITE_MODELS = [''site'', ''sitetype'', ''sitestatus'', ''department'', ''asset'', ''assetcategory'', ''staffassignment'', ''notification'']"

definition actions_on :: "string \<Rightarrow> string list \<Rightarrow> string list \<Rightarrow> permission list" where
  "actions_on app actions models = [(app, action @ ''_'' @ model). model \<leftarrow> models, action \<leftarrow> actions]"

definition custom :: "string list \<Rightarrow> permission list" where
  "custom = map (Pair ''accounts'')"

definition view_all :: "permission list" where
  "view_all = actions_on ''accounts'' [''view''] ACCOUNT_MODELS @ actions_on ''site_management'' [''view''] SITE_MODELS"

definition change_site_operations :: "permission list" where
  "change_site_operations = actions_on ''site_management'' [''change'', ''add'', ''view''] SITE_MODELS @ [(''accounts'', ''view_user'')]"

definition group_permission_codenames :: "role_code \<Rightarrow> permission list" where
  "group_permission_codenames role = (case role of
     SYSTEM_ADMIN \<Rightarrow> actions_on ''accounts'' [''view'', ''add'', ''change'', ''delete''] ACCOUNT_MODELS @
       actions_on ''site_management'' [''view'', ''add'', ''change'', ''delete''] SITE_MODELS @ custom CUSTOM_PERMISSIONS
   | HR \<Rightarrow> actions_on ''accounts'' [''view''] ACCOUNT_MODELS @
       actions_on ''site_management'' [''view'', ''add'', ''change''] [''cleaner'', ''cleanerdocument'', ''cleanersiteassignment'',
         ''cleanershiftassignment'', ''traineeprogram'', ''traineeevaluation''] @
       custom [''manage_cleaners'', ''import_cleaners'', ''manage_cleaner_assignments'', ''manage_trainee_lifecycle'',
         ''view_sensitive_cleaner_documents'', ''export_site_management_data'']
   | STORE_MANAGER \<Rightarrow> actions_on ''site_management'' [''view''] SITE_MODELS @
       actions_on ''site_management'' [''view'', ''add'', ''change''] [''sitestore'', ''storeitem'', ''stockmovement'', ''stockrequest'',
         ''stockrequestitem''] @ custom [''manage_store_inventory'', ''export_site_management_data'']
   | GENERAL_SUPERVISOR \<Rightarrow> view_all @ change_site_operations @ custom [''submit_site_report'', ''review_assistant_report'',
       ''approve_general_report'', ''assign_job'', ''verify_job'', ''approve_trainee'', ''manage_cleaners'',
       ''view_sensitive_cleaner_documents'', ''export_site_management_data'']
   | ASSISTANT_GENERAL_SUPERVISOR \<Rightarrow> view_all @ change_site_operations @ custom [''submit_site_report'', ''review_assistant_report'',
       ''assign_job'', ''verify_job'', ''approve_trainee'', ''manage_site_configuration'', ''view_sensitive_cleaner_documents'',
       ''export_site_management_data'']
   | ZONE_SUPERVISOR \<Rightarrow> view_all @ change_site_operations @ custom [''submit_site_report'', ''review_zone_report'', ''assign_job'',
       ''verify_job'', ''manage_site_configuration'', ''export_site_management_data'']
   | SITE_SUPERVISOR \<Rightarrow> view_all @ change_site_operations @ custom [''submit_site_report'', ''assign_job'', ''verify_job'',
       ''manage_site_configuration'']
   | MANAGEMENT_VIEWER \<Rightarrow> view_all @ custom [''export_site_management_data''])"

text \<open>
  The signal after every \<open>save\<close> of an account leaves it in the group of its role and in no other role group.
  The groups carry what \<open>seed_rbac\<close> gives them; a superuser has every permission whatever its groups.
\<close>

definition sync_user_role_group :: "profile \<Rightarrow> user \<Rightarrow> user" where
  "sync_user_role_group p u =
     (if u_is_superuser u then u
      else u\<lparr>u_perms := map (\<lambda>(app, code). app @ ''.'' @ code) (group_permission_codenames (u_role u)) @ pf_other_perms p\<rparr>)"

section \<open>Accounts\<close>

definition get_user :: "db \<Rightarrow> nat \<Rightarrow> user option" where
  "get_user d k = find (\<lambda>u. u_pk u = k) (users d)"

text \<open>\<open>user.full_name\<close> of a row a foreign key points to.\<close>

definition user_full_name :: "db \<Rightarrow> nat \<Rightarrow> string" where
  "user_full_name d k = (case tbl_get (profiles d) k of None \<Rightarrow> []
     | Some p \<Rightarrow> let name = strip (pf_first_name p @ '' '' @ pf_last_name p) in if name = [] then pf_email p else name)"

definition normalize_email :: "string \<Rightarrow> string" where
  "normalize_email s = lower (strip s)"

definition account_audit :: "audit_action \<Rightarrow> nat option \<Rightarrow> nat \<Rightarrow> (string \<times> string) list \<Rightarrow> db \<Rightarrow> db" where
  "account_audit action actor k changes d =
     record_audit action actor ''accounts.user'' k None (if changes = [] then None else Some (SnapFields changes)) d"

definition profile_fits :: "profile \<Rightarrow> bool" where
  \<comment> \<open>the widths of the columns\<close>
  "profile_fits p \<longleftrightarrow> length (pf_email p) \<le> 254 \<and> length (pf_first_name p) \<le> 150 \<and> length (pf_last_name p) \<le> 150 \<and>
     length (pf_phone p) \<le> 16 \<and> length (pf_timezone p) \<le> 64"

definition save_user :: "user \<Rightarrow> profile \<Rightarrow> db \<Rightarrow> db res" where
  "save_user u p d =
     (if \<not> profile_fits p then Inl DataError
      else Inr (d\<lparr>users := map (\<lambda>v. if u_pk v = u_pk u then sync_user_role_group p u else v) (users d),
                  profiles := tbl_put (u_pk u) p (profiles d)\<rparr>))"

record account_form =
  af_email :: string
  af_password :: string
  af_role :: role_code
  af_first_name :: string
  af_last_name :: string
  af_phone :: string
  af_timezone :: string

definition new_profile :: "env \<Rightarrow> account_form \<Rightarrow> profile" where
  "new_profile e f = \<lparr>pf_email = normalize_email (af_email f), pf_first_name = af_first_name f, pf_last_name = af_last_name f,
     pf_phone = af_phone f, pf_timezone = af_timezone f, pf_password = make_password e (af_password f), pf_other_perms = []\<rparr>"

definition new_user :: "nat \<Rightarrow> account_form \<Rightarrow> user" where
  "new_user k f = \<lparr>u_pk = k, u_role = af_role f, u_is_superuser = False, u_is_active = True, u_perms = []\<rparr>"

definition create_user :: "env \<Rightarrow> account_form \<Rightarrow> nat option \<Rightarrow> db \<Rightarrow> (nat \<times> db) res" where
  "create_user e f actor d =
     (let k = tbl_next (profiles d); p = new_profile e f in
      if af_password f = [] \<or> \<not> password_valid e (af_password f) then Inl (ValidationError [])
      else if af_email f = [] then Inl ValueError
      else if \<not> profile_fits p then Inl DataError
      else if tbl_exists (\<lambda>_ q. pf_email q = pf_email p) (profiles d) then Inl IntegrityError
      else Inr (k, account_audit A_CREATE actor k []
        (d\<lparr>users := users d @ [sync_user_role_group p (new_user k f)], profiles := tbl_insert p (profiles d)\<rparr>)))"

record account_update =
  ax_first_name :: "string option"
  ax_last_name :: "string option"
  ax_phone :: "string option"
  ax_timezone :: "string option"
  ax_role :: "role_code option"
  ax_is_active :: "bool option"

definition role_value :: "role_code \<Rightarrow> string" where
  "role_value r = (case r of SYSTEM_ADMIN \<Rightarrow> ''system_admin'' | HR \<Rightarrow> ''hr'' | STORE_MANAGER \<Rightarrow> ''store_manager''
     | SITE_SUPERVISOR \<Rightarrow> ''site_supervisor'' | ZONE_SUPERVISOR \<Rightarrow> ''zone_supervisor''
     | ASSISTANT_GENERAL_SUPERVISOR \<Rightarrow> ''assistant_general_supervisor'' | GENERAL_SUPERVISOR \<Rightarrow> ''general_supervisor''
     | MANAGEMENT_VIEWER \<Rightarrow> ''management_viewer'')"

definition bool_value :: "bool \<Rightarrow> string" where
  "bool_value b = (if b then ''True'' else ''False'')"

definition changed :: "string \<Rightarrow> string \<Rightarrow> string option \<Rightarrow> (string \<times> string) list" where
  \<comment> \<open>the entry of a field in \<open>changes\<close>: its old and its new value, if there is a new one\<close>
  "changed field old new = (case new of None \<Rightarrow> [] | Some v \<Rightarrow> if v = old then [] else [(field, old), (field, v)])"

definition user_changes :: "user \<Rightarrow> profile \<Rightarrow> account_update \<Rightarrow> (string \<times> string) list" where
  "user_changes u p x =
     changed ''first_name'' (pf_first_name p) (ax_first_name x) @ changed ''last_name'' (pf_last_name p) (ax_last_name x) @
     changed ''phone'' (pf_phone p) (ax_phone x) @ changed ''timezone'' (pf_timezone p) (ax_timezone x) @
     changed ''role'' (role_value (u_role u)) (map_option role_value (ax_role x)) @
     changed ''is_active'' (bool_value (u_is_active u)) (map_option bool_value (ax_is_active x))"

definition updated_user :: "account_update \<Rightarrow> user \<Rightarrow> user" where
  "updated_user x u = u\<lparr>u_role := given (ax_role x) (u_role u), u_is_active := given (ax_is_active x) (u_is_active u)\<rparr>"

definition updated_profile :: "account_update \<Rightarrow> profile \<Rightarrow> profile" where
  "updated_profile x p = p\<lparr>pf_first_name := given (ax_first_name x) (pf_first_name p),
     pf_last_name := given (ax_last_name x) (pf_last_name p), pf_phone := given (ax_phone x) (pf_phone p),
     pf_timezone := given (ax_timezone x) (pf_timezone p)\<rparr>"

definition update_user :: "user \<Rightarrow> profile \<Rightarrow> nat \<Rightarrow> account_update \<Rightarrow> db \<Rightarrow> db res" where
  "update_user u p actor x d =
     (let changes = user_changes u p x in
      if changes = [] then Inr d
      else rbind (save_user (updated_user x u) (updated_profile x p) d) (\<lambda>d1.
        Inr (account_audit A_UPDATE (Some actor) (u_pk u) changes d1)))"

definition no_update :: account_update where
  "no_update = \<lparr>ax_first_name = None, ax_last_name = None, ax_phone = None, ax_timezone = None, ax_role = None, ax_is_active = None\<rparr>"

definition set_password :: "env \<Rightarrow> user \<Rightarrow> profile \<Rightarrow> string \<Rightarrow> nat \<Rightarrow> db \<Rightarrow> db res" where
  "set_password e u p new_password actor d =
     (if \<not> password_valid e new_password then Inl (ValidationError [])
      else rbind (save_user u (p\<lparr>pf_password := make_password e new_password\<rparr>) d) (\<lambda>d1.
        Inr (account_audit A_UPDATE (Some actor) (u_pk u) [] d1)))"

definition activate_user :: "user \<Rightarrow> profile \<Rightarrow> nat \<Rightarrow> db \<Rightarrow> db res" where
  "activate_user u p actor d = update_user u p actor (no_update\<lparr>ax_is_active := Some True\<rparr>) d"

definition revoke_active_tokens :: "nat \<Rightarrow> db \<Rightarrow> db" where
  "revoke_active_tokens k d =
     d\<lparr>api_tokens := tbl_update_where (\<lambda>_ t. tk_user t = k \<and> tk_is_active t) (\<lambda>t. t\<lparr>tk_is_active := False\<rparr>) (api_tokens d)\<rparr>"

definition deactivate_user :: "user \<Rightarrow> profile \<Rightarrow> nat \<Rightarrow> db \<Rightarrow> db res" where
  "deactivate_user u p actor d =
     rbind (update_user u p actor (no_update\<lparr>ax_is_active := Some False\<rparr>) d) (\<lambda>d1.
       Inr (account_audit A_TOKEN_REVOKE (Some actor) (u_pk u) [] (revoke_active_tokens (u_pk u) d1)))"

section \<open>Deleting an account\<close>

text \<open>
  \<open>user.delete()\<close>: a row that refers to the account with \<open>PROTECT\<close> refuses it (\<open>ProtectedError\<close> is an
  \<open>IntegrityError\<close>), rows that refer to it with \<open>CASCADE\<close> go with it, and the columns of the others are set to null.
\<close>

definition forget :: "nat \<Rightarrow> nat option \<Rightarrow> nat option" where
  "forget k x = (if x = Some k then None else x)"

definition forget_stores :: "nat \<Rightarrow> db \<Rightarrow> db" where
  "forget_stores k d = d\<lparr>
     supervisor_assignments := tbl_map (\<lambda>_ r. r\<lparr>ssa_created_by := forget k (ssa_created_by r),
       ssa_updated_by := forget k (ssa_updated_by r)\<rparr>) (supervisor_assignments d),
     zone_supervisor_assignments := tbl_map (\<lambda>_ r. r\<lparr>zsa_created_by := forget k (zsa_created_by r),
       zsa_updated_by := forget k (zsa_updated_by r)\<rparr>) (zone_supervisor_assignments d),
     ags_assignments := tbl_map (\<lambda>_ r. r\<lparr>ags_created_by := forget k (ags_created_by r),
       ags_updated_by := forget k (ags_updated_by r)\<rparr>) (ags_assignments d),
     areas := tbl_map (\<lambda>_ r. r\<lparr>sa_created_by := forget k (sa_created_by r),
       sa_updated_by := forget k (sa_updated_by r)\<rparr>) (areas d),
     cleaners := tbl_map (\<lambda>_ r. r\<lparr>cl_created_by := forget k (cl_created_by r),
       cl_updated_by := forget k (cl_updated_by r)\<rparr>) (cleaners d),
     cleaner_assignments := tbl_map (\<lambda>_ r. r\<lparr>csa_assigned_by := forget k (csa_assigned_by r),
       csa_created_by := forget k (csa_created_by r),
       csa_updated_by := forget k (csa_updated_by r)\<rparr>) (cleaner_assignments d),
     cleaner_shifts := tbl_map (\<lambda>_ r. r\<lparr>cha_created_by := forget k (cha_created_by r),
       cha_updated_by := forget k (cha_updated_by r)\<rparr>) (cleaner_shifts d),
     stores := tbl_map (\<lambda>_ r. r\<lparr>st_managed_by := forget k (st_managed_by r),
       st_created_by := forget k (st_created_by r), st_updated_by := forget k (st_updated_by r)\<rparr>) (stores d),
     products := tbl_map (\<lambda>_ r. r\<lparr>cp_created_by := forget k (cp_created_by r),
       cp_updated_by := forget k (cp_updated_by r)\<rparr>) (products d),
     items := tbl_map (\<lambda>_ r. r\<lparr>it_created_by := forget k (it_created_by r),
       it_updated_by := forget k (it_updated_by r)\<rparr>) (items d),
     transfers := tbl_map (\<lambda>_ r. r\<lparr>tr_created_by := forget k (tr_created_by r),
       tr_updated_by := forget k (tr_updated_by r)\<rparr>) (transfers d),
     movements := tbl_map (\<lambda>_ r. r\<lparr>mv_recorded_by := forget k (mv_recorded_by r),
       mv_created_by := forget k (mv_created_by r), mv_updated_by := forget k (mv_updated_by r)\<rparr>) (movements d),
     openings := tbl_map (\<lambda>_ r. r\<lparr>mo_created_by := forget k (mo_created_by r),
       mo_updated_by := forget k (mo_updated_by r)\<rparr>) (openings d)\<rparr>"

definition forget_operations :: "nat \<Rightarrow> db \<Rightarrow> db" where
  "forget_operations k d = d\<lparr>
     requests := tbl_map (\<lambda>_ r. r\<lparr>rq_requested_by := forget k (rq_requested_by r),
       rq_reviewed_by := forget k (rq_reviewed_by r), rq_created_by := forget k (rq_created_by r),
       rq_updated_by := forget k (rq_updated_by r)\<rparr>) (requests d),
     approvals := tbl_map (\<lambda>_ r. r\<lparr>ra_created_by := forget k (ra_created_by r),
       ra_updated_by := forget k (ra_updated_by r)\<rparr>) (approvals d),
     issues := tbl_map (\<lambda>_ r. r\<lparr>is_raised_by := forget k (is_raised_by r),
       is_assigned_to := forget k (is_assigned_to r), is_created_by := forget k (is_created_by r),
       is_updated_by := forget k (is_updated_by r)\<rparr>) (issues d),
     jobs := tbl_map (\<lambda>_ r. r\<lparr>jb_assigned_to_user := forget k (jb_assigned_to_user r),
       jb_assigned_by := forget k (jb_assigned_by r), jb_verified_by := forget k (jb_verified_by r),
       jb_created_by := forget k (jb_created_by r), jb_updated_by := forget k (jb_updated_by r)\<rparr>) (jobs d),
     attendance := tbl_map (\<lambda>_ r. r\<lparr>ar_recorded_by := forget k (ar_recorded_by r),
       ar_created_by := forget k (ar_created_by r), ar_updated_by := forget k (ar_updated_by r)\<rparr>) (attendance d),
     shifts := tbl_map (\<lambda>_ r. r\<lparr>sh_created_by := forget k (sh_created_by r),
       sh_updated_by := forget k (sh_updated_by r)\<rparr>) (shifts d),
     operational_roles := tbl_map (\<lambda>_ r. r\<lparr>op_created_by := forget k (op_created_by r),
       op_updated_by := forget k (op_updated_by r)\<rparr>) (operational_roles d),
     area_schedules := tbl_map (\<lambda>_ r. r\<lparr>sc_created_by := forget k (sc_created_by r),
       sc_updated_by := forget k (sc_updated_by r)\<rparr>) (area_schedules d),
     documents := tbl_map (\<lambda>_ r. r\<lparr>cd_uploaded_by := forget k (cd_uploaded_by r),
       cd_verified_by := forget k (cd_verified_by r), cd_created_by := forget k (cd_created_by r),
       cd_updated_by := forget k (cd_updated_by r)\<rparr>) (documents d),
     programs := tbl_map (\<lambda>_ r. r\<lparr>tp_supervisor := forget k (tp_supervisor r),
       tp_created_by := forget k (tp_created_by r), tp_updated_by := forget k (tp_updated_by r)\<rparr>) (programs d),
     evaluations := tbl_map (\<lambda>_ r. r\<lparr>te_evaluated_by := forget k (te_evaluated_by r)\<rparr>) (evaluations d),
     templates := tbl_map (\<lambda>_ r. r\<lparr>tm_created_by := forget k (tm_created_by r),
       tm_updated_by := forget k (tm_updated_by r)\<rparr>) (templates d),
     inspections := tbl_map (\<lambda>_ r. r\<lparr>in_inspected_by := forget k (in_inspected_by r),
       in_created_by := forget k (in_created_by r), in_updated_by := forget k (in_updated_by r)\<rparr>) (inspections d),
     results := tbl_map (\<lambda>_ r. r\<lparr>ir_uploaded_by := forget k (ir_uploaded_by r)\<rparr>) (results d)\<rparr>"

definition forget_reports :: "nat \<Rightarrow> db \<Rightarrow> db" where
  "forget_reports k d = d\<lparr>
     site_reports := tbl_map (\<lambda>_ r. r\<lparr>sr_created_by := forget k (sr_created_by r),
       sr_updated_by := forget k (sr_updated_by r)\<rparr>) (site_reports d),
     zone_reports := tbl_map (\<lambda>_ r. r\<lparr>zr_zone_supervisor := forget k (zr_zone_supervisor r),
       zr_created_by := forget k (zr_created_by r), zr_updated_by := forget k (zr_updated_by r)\<rparr>) (zone_reports d),
     assistant_reports := tbl_map (\<lambda>_ r. r\<lparr>as_supervisor := forget k (as_supervisor r),
       as_created_by := forget k (as_created_by r),
       as_updated_by := forget k (as_updated_by r)\<rparr>) (assistant_reports d),
     general_reports := tbl_map (\<lambda>_ r. r\<lparr>gr_supervisor := forget k (gr_supervisor r),
       gr_created_by := forget k (gr_created_by r), gr_updated_by := forget k (gr_updated_by r)\<rparr>) (general_reports d),
     timetable := tbl_map (\<lambda>_ r. r\<lparr>tt_relief_person := forget k (tt_relief_person r),
       tt_created_by := forget k (tt_created_by r), tt_updated_by := forget k (tt_updated_by r)\<rparr>) (timetable d),
     checklists := tbl_map (\<lambda>_ r. r\<lparr>ck_reviewed_by := forget k (ck_reviewed_by r),
       ck_created_by := forget k (ck_created_by r), ck_updated_by := forget k (ck_updated_by r)\<rparr>) (checklists d),
     payment_profiles := tbl_map (\<lambda>_ r. r\<lparr>pp_approved_by := forget k (pp_approved_by r),
       pp_created_by := forget k (pp_created_by r), pp_updated_by := forget k (pp_updated_by r)\<rparr>) (payment_profiles d),
     remuneration_reports := tbl_map (\<lambda>_ r. r\<lparr>mr_reviewed_by := forget k (mr_reviewed_by r),
       mr_created_by := forget k (mr_created_by r),
       mr_updated_by := forget k (mr_updated_by r)\<rparr>) (remuneration_reports d),
     remuneration_lines := tbl_map (\<lambda>_ r. r\<lparr>
       ml_payment_saved_by := forget k (ml_payment_saved_by r)\<rparr>) (remuneration_lines d),
     conversations := tbl_map (\<lambda>_ r. r\<lparr>cv_created_by := forget k (cv_created_by r),
       cv_updated_by := forget k (cv_updated_by r)\<rparr>) (conversations d),
     memberships := tbl_map (\<lambda>_ r. r\<lparr>cm_created_by := forget k (cm_created_by r),
       cm_updated_by := forget k (cm_updated_by r)\<rparr>) (memberships d),
     messages := tbl_map (\<lambda>_ r. r\<lparr>ms_sender := forget k (ms_sender r), ms_created_by := forget k (ms_created_by r),
       ms_updated_by := forget k (ms_updated_by r)\<rparr>) (messages d),
     attachments := tbl_map (\<lambda>_ r. r\<lparr>mx_uploaded_by := forget k (mx_uploaded_by r)\<rparr>) (attachments d)\<rparr>"

definition forget_configuration :: "nat \<Rightarrow> db \<Rightarrow> db" where
  "forget_configuration k d = d\<lparr>
     zones := tbl_map (\<lambda>_ r. r\<lparr>zn_created_by := forget k (zn_created_by r),
       zn_updated_by := forget k (zn_updated_by r)\<rparr>) (zones d),
     sites := tbl_map (\<lambda>_ r. r\<lparr>si_created_by := forget k (si_created_by r)\<rparr>) (sites d),
     departments := tbl_map (\<lambda>_ r. r\<lparr>dp_created_by := forget k (dp_created_by r)\<rparr>) (departments d)\<rparr>"

definition delete_cascade :: "nat \<Rightarrow> db \<Rightarrow> db" where
  "delete_cascade k d = d\<lparr>
     users := filter (\<lambda>u. u_pk u \<noteq> k) (users d),
     profiles := tbl_delete_where (\<lambda>j _. j = k) (profiles d),
     api_tokens := tbl_delete_where (\<lambda>_ t. tk_user t = k) (api_tokens d),
     supervisor_assignments := tbl_delete_where (\<lambda>_ a. ssa_user a = k) (supervisor_assignments d),
     zone_supervisor_assignments := tbl_delete_where (\<lambda>_ a. zsa_user a = k) (zone_supervisor_assignments d),
     ags_assignments := tbl_delete_where (\<lambda>_ a. ags_user a = k) (ags_assignments d),
     staff_assignments := tbl_map (\<lambda>_ r. r\<lparr>sf_assigned_by := forget k (sf_assigned_by r)\<rparr>)
       (tbl_delete_where (\<lambda>_ a. sf_user a = k) (staff_assignments d)),
     notifications := tbl_map (\<lambda>_ n. n\<lparr>nt_actor := forget k (nt_actor n)\<rparr>)
       (tbl_delete_where (\<lambda>_ n. nt_recipient n = k) (notifications d)),
     audits := map (\<lambda>a. a\<lparr>au_user := forget k (au_user a)\<rparr>) (audits d),
     events := map (\<lambda>v. v\<lparr>ev_created_by := forget k (ev_created_by v)\<rparr>) (events d)\<rparr>"

definition protects :: "db \<Rightarrow> nat \<Rightarrow> bool" where
  "protects d k \<longleftrightarrow> tbl_exists (\<lambda>_ x. tt_supervisor x = k) (timetable d) \<or> tbl_exists (\<lambda>_ x. ck_supervisor x = k) (checklists d) \<or>
     tbl_exists (\<lambda>_ x. mr_prepared_by x = k) (remuneration_reports d) \<or> tbl_exists (\<lambda>_ x. ra_decision_by x = k) (approvals d) \<or>
     tbl_exists (\<lambda>_ x. cm_user x = k) (memberships d)"

definition delete_user :: "nat \<Rightarrow> db \<Rightarrow> db res" where
  "delete_user k d =
     (if protects d k then Inl IntegrityError
      else Inr (forget_configuration k (forget_reports k (forget_operations k (forget_stores k (delete_cascade k d))))))"

definition protected_relations :: "db \<Rightarrow> nat \<Rightarrow> bool" where
  "protected_relations d k \<longleftrightarrow> list_ex (\<lambda>a. au_user a = Some k) (audits d) \<or>
     tbl_exists (\<lambda>_ t. tk_user t = k) (api_tokens d) \<or> tbl_exists (\<lambda>_ a. ssa_user a = k) (supervisor_assignments d) \<or>
     tbl_exists (\<lambda>_ a. zsa_user a = k) (zone_supervisor_assignments d) \<or> tbl_exists (\<lambda>_ a. ags_user a = k) (ags_assignments d) \<or>
     tbl_exists (\<lambda>_ x. tt_supervisor x = k) (timetable d) \<or> tbl_exists (\<lambda>_ x. ck_supervisor x = k) (checklists d)"

text \<open>No transaction encloses the audit entry and the deletion: the entry stays when the deletion is refused.\<close>

definition permanently_delete_user :: "user \<Rightarrow> profile \<Rightarrow> nat \<Rightarrow> db \<Rightarrow> bool res \<times> db" where
  "permanently_delete_user u p actor d =
     (let k = u_pk u in
      if protected_relations d k then
        (case deactivate_user u p actor d of Inl x \<Rightarrow> (Inl x, d)
         | Inr d1 \<Rightarrow> (Inr False, account_audit A_ARCHIVE (Some actor) k [] d1))
      else
        let d1 = account_audit A_DELETE (Some actor) k [] d in
        case delete_user k d1 of Inl x \<Rightarrow> (Inl x, d1) | Inr d2 \<Rightarrow> (Inr True, d2))"

section \<open>Tokens\<close>

definition ACCESS_TOKEN_SALT :: string where
  "ACCESS_TOKEN_SALT = ''whitebird.access-token''"

definition create_access_token :: "env \<Rightarrow> nat \<Rightarrow> string" where
  "create_access_token e k = signing_dumps e ACCESS_TOKEN_SALT [(''uid'', JNat k)] (now e)"

text \<open>\<open>signing.loads(token, salt, max_age)\<close>: the payload of a genuine token that is not older than \<open>max_age\<close> seconds.\<close>

definition loads :: "env \<Rightarrow> string \<Rightarrow> string \<Rightarrow> int \<Rightarrow> (string \<times> json) list option" where
  "loads e salt token max_age =
     (case signing_loads e salt token of None \<Rightarrow> None
      | Some (payload, signed_at) \<Rightarrow> if max_age < int (now e) - int signed_at then None else Some payload)"

definition access_token_max_age :: "env \<Rightarrow> int" where
  "access_token_max_age e = min (ACCESS_TOKEN_TTL_SECONDS e) (60 * 60 * 24 * 7)"

definition decode_access_token :: "env \<Rightarrow> string \<Rightarrow> nat option" where
  "decode_access_token e token =
     (case loads e ACCESS_TOKEN_SALT token (access_token_max_age e) of None \<Rightarrow> None
      | Some payload \<Rightarrow> (case map_of payload ''uid'' of Some (JNat k) \<Rightarrow> Some k | _ \<Rightarrow> None))"

definition token_usable :: "env \<Rightarrow> api_token \<Rightarrow> bool" where
  "token_usable e t \<longleftrightarrow> tk_is_active t \<and> (case tk_expires_at t of None \<Rightarrow> True | Some s \<Rightarrow> now e < s)"

definition token_row :: "db \<Rightarrow> string \<Rightarrow> (nat \<times> api_token) option" where
  "token_row d key = (case tbl_where (\<lambda>_ t. tk_key t = key) (api_tokens d) of [] \<Rightarrow> None | x # _ \<Rightarrow> Some x)"

definition touch_token :: "env \<Rightarrow> nat \<times> api_token \<Rightarrow> db \<Rightarrow> db" where
  \<comment> \<open>\<open>last_used_at\<close>, at most once in five minutes\<close>
  "touch_token e x d =
     (if (case tk_last_used_at (snd x) of None \<Rightarrow> True | Some s \<Rightarrow> 300 < int (now e) - int s)
      then d\<lparr>api_tokens := tbl_update_where (\<lambda>j _. j = fst x) (\<lambda>t. t\<lparr>tk_last_used_at := Some (now e)\<rparr>) (api_tokens d)\<rparr>
      else d)"

definition issue_api_token :: "env \<Rightarrow> nat \<Rightarrow> string \<Rightarrow> nat option \<Rightarrow> nat option \<Rightarrow> db \<Rightarrow> ((nat \<times> api_token) \<times> db) res" where
  "issue_api_token e user name expires_at actor d =
     (let k = tbl_next (api_tokens d);
          t = \<lparr>tk_user = user, tk_name = name, tk_key = token_urlsafe e, tk_is_active = True, tk_expires_at = expires_at,
               tk_last_used_at = None\<rparr>
      in if (case expires_at of None \<Rightarrow> False | Some s \<Rightarrow> s \<le> now e) then Inl (ValidationError [])
         else if 64 < length name then Inl DataError
         else if tbl_exists (\<lambda>_ s. tk_key s = tk_key t) (api_tokens d) then Inl IntegrityError
         else Inr ((k, t), account_audit A_TOKEN_CREATE actor user [] (d\<lparr>api_tokens := tbl_insert t (api_tokens d)\<rparr>)))"

definition revoke_api_token :: "nat \<times> api_token \<Rightarrow> nat option \<Rightarrow> db \<Rightarrow> db" where
  "revoke_api_token x actor d =
     account_audit A_TOKEN_REVOKE actor (tk_user (snd x)) []
       (d\<lparr>api_tokens := tbl_update_where (\<lambda>j _. j = fst x) (\<lambda>t. t\<lparr>tk_is_active := False\<rparr>) (api_tokens d)\<rparr>)"

definition login_and_issue_tokens ::
  "env \<Rightarrow> string \<Rightarrow> string \<Rightarrow> string \<Rightarrow> db \<Rightarrow> ((user \<times> string \<times> (nat \<times> api_token)) \<times> db) res" where
  "login_and_issue_tokens e email password token_name d =
     (case auth_backend e (normalize_email email) password d of None \<Rightarrow> Inl (ValidationError [])
      | Some k \<Rightarrow> (case get_user d k of None \<Rightarrow> Inl (ValidationError [])
      | Some u \<Rightarrow>
          if \<not> u_is_active u then Inl (ValidationError [])
          else rbind (issue_api_token e (u_pk u) token_name (Some (nat (int (now e) + REFRESH_TOKEN_TTL_SECONDS e))) None d) (\<lambda>(t, d1).
            Inr ((u, create_access_token e (u_pk u), t), account_audit A_LOGIN (Some (u_pk u)) (u_pk u) [] d1))))"

definition refresh_access_token :: "env \<Rightarrow> string \<Rightarrow> db \<Rightarrow> (string \<times> db) res" where
  "refresh_access_token e key d =
     (case token_row d key of None \<Rightarrow> Inl (ValidationError [])
      | Some (k, t) \<Rightarrow>
          if \<not> token_usable e t \<or> \<not> (case get_user d (tk_user t) of None \<Rightarrow> False | Some u \<Rightarrow> u_is_active u)
          then Inl (ValidationError [])
          else Inr (create_access_token e (tk_user t), touch_token e (k, t) d))"

text \<open>\<open>TokenAuth.authenticate\<close>: the account a bearer token stands for, and the database after the look at it.\<close>

definition authenticate :: "env \<Rightarrow> string \<Rightarrow> db \<Rightarrow> user option \<times> db" where
  "authenticate e token d =
     (if token = [] then (None, d)
      else case decode_access_token e token of
        Some k \<Rightarrow> (case get_user d k of None \<Rightarrow> (None, d) | Some u \<Rightarrow> if u_is_active u then (Some u, d) else (None, d))
      | None \<Rightarrow> (case token_row d token of None \<Rightarrow> (None, d)
        | Some (j, t) \<Rightarrow>
            if \<not> token_usable e t then (None, d)
            else (case get_user d (tk_user t) of None \<Rightarrow> (None, d)
              | Some u \<Rightarrow> if u_is_active u then (Some u, touch_token e (j, t) d) else (None, d))))"

section \<open>Endpoints\<close>

text \<open>
  What a request answers and the database it leaves. An endpoint is no transaction: what it wrote before
  it failed stays, and so does the stamp of the authentication.
\<close>

type_synonym response = "unit res \<times> db"

definition respond :: "db \<Rightarrow> db res \<Rightarrow> response" where
  "respond d r = (case r of Inl x \<Rightarrow> (Inl x, d) | Inr d' \<Rightarrow> (Inr (), d'))"

definition with_auth :: "env \<Rightarrow> string \<Rightarrow> db \<Rightarrow> (user \<Rightarrow> db \<Rightarrow> response) \<Rightarrow> response" where
  "with_auth e token d handler =
     (case authenticate e token d of (None, d1) \<Rightarrow> (Inl Unauthorized, d1) | (Some u, d1) \<Rightarrow> handler u d1)"

definition as_denied :: "'a res \<Rightarrow> 'a res" where
  "as_denied r = (case r of Inl (ValidationError _) \<Rightarrow> Inl PermissionDenied | _ \<Rightarrow> r)"

definition login :: "env \<Rightarrow> string \<Rightarrow> string \<Rightarrow> string \<Rightarrow> db \<Rightarrow> response" where
  "login e email password token_name d =
     respond d (as_denied (db_of (login_and_issue_tokens e email password token_name d)))"

definition logout :: "string \<Rightarrow> db \<Rightarrow> response" where
  "logout key d = (Inr (), d\<lparr>api_tokens := tbl_update_where (\<lambda>_ t. tk_key t = key) (\<lambda>t. t\<lparr>tk_is_active := False\<rparr>) (api_tokens d)\<rparr>)"

definition refresh :: "env \<Rightarrow> string \<Rightarrow> db \<Rightarrow> response" where
  "refresh e key d = respond d (as_denied (db_of (refresh_access_token e key d)))"

definition with_profile :: "db \<Rightarrow> user \<Rightarrow> (profile \<Rightarrow> 'a res) \<Rightarrow> 'a res" where
  "with_profile d u f = (case tbl_get (profiles d) (u_pk u) of None \<Rightarrow> Inl DoesNotExist | Some p \<Rightarrow> f p)"

definition password_change :: "env \<Rightarrow> string \<Rightarrow> string \<Rightarrow> user \<Rightarrow> db \<Rightarrow> response" where
  "password_change e current_password new_password u d = respond d (with_profile d u (\<lambda>p.
     permit (auth_backend e (pf_email p) current_password d \<noteq> None) (as_denied (set_password e u p new_password (u_pk u) d))))"

definition create_token :: "env \<Rightarrow> string \<Rightarrow> nat option \<Rightarrow> user \<Rightarrow> db \<Rightarrow> response" where
  "create_token e name expires_at u d = respond d (db_of (issue_api_token e (u_pk u) name expires_at (Some (u_pk u)) d))"

definition revoke_token :: "nat \<Rightarrow> user \<Rightarrow> db \<Rightarrow> response" where
  "revoke_token k u d = respond d (case tbl_get (api_tokens d) k of None \<Rightarrow> Inl PermissionDenied
     | Some t \<Rightarrow> permit (tk_user t = u_pk u) (Inr (revoke_api_token (k, t) (Some (u_pk u)) d)))"

definition staff_create :: "env \<Rightarrow> account_form \<Rightarrow> user \<Rightarrow> db \<Rightarrow> response" where
  "staff_create e f u d = respond d (permit (is_system_admin u) (db_of (create_user e f (Some (u_pk u)) d)))"

definition admin_target_or_404 :: "user \<Rightarrow> nat \<Rightarrow> db \<Rightarrow> (user \<Rightarrow> profile \<Rightarrow> 'a res) \<Rightarrow> 'a res" where
  "admin_target_or_404 u k d f = permit (is_system_admin u)
     (case get_user d k of None \<Rightarrow> Inl (ValidationError []) | Some target \<Rightarrow> with_profile d target (f target))"

definition protect_last_active_administrator :: "db \<Rightarrow> user \<Rightarrow> bool option \<Rightarrow> role_code option \<Rightarrow> unit res" where
  "protect_last_active_administrator d target requested_active requested_role =
     (if is_system_admin target \<and> (requested_active = Some False \<or> requested_role \<noteq> None \<and> requested_role \<noteq> Some SYSTEM_ADMIN) \<and>
         \<not> list_ex (\<lambda>v. u_role v = SYSTEM_ADMIN \<and> u_is_active v \<and> u_pk v \<noteq> u_pk target) (users d)
      then Inl (ValidationError []) else Inr ())"

definition user_disable :: "nat \<Rightarrow> user \<Rightarrow> db \<Rightarrow> response" where
  "user_disable k u d = respond d (admin_target_or_404 u k d (\<lambda>target p.
     if u_pk target = u_pk u then Inl (ValidationError []) else deactivate_user target p (u_pk u) d))"

definition user_activate :: "nat \<Rightarrow> user \<Rightarrow> db \<Rightarrow> response" where
  "user_activate k u d = respond d (admin_target_or_404 u k d (\<lambda>target p. activate_user target p (u_pk u) d))"

definition user_update :: "nat \<Rightarrow> account_update \<Rightarrow> user \<Rightarrow> db \<Rightarrow> response" where
  "user_update k x u d = respond d (admin_target_or_404 u k d (\<lambda>target p.
     rbind (protect_last_active_administrator d target (ax_is_active x) (ax_role x)) (\<lambda>_.
       if u_pk target = u_pk u \<and> ax_is_active x = Some False then Inl (ValidationError [])
       else update_user target p (u_pk u) x d)))"

definition user_password_reset :: "env \<Rightarrow> nat \<Rightarrow> string \<Rightarrow> user \<Rightarrow> db \<Rightarrow> response" where
  "user_password_reset e k new_password u d = respond d (admin_target_or_404 u k d (\<lambda>target p.
     rbind (set_password e target p new_password (u_pk u) d) (\<lambda>d1.
       Inr (account_audit A_TOKEN_REVOKE (Some (u_pk u)) k [] (revoke_active_tokens k d1)))))"

definition user_delete :: "nat \<Rightarrow> user \<Rightarrow> db \<Rightarrow> response" where
  "user_delete k u d =
     (case admin_target_or_404 u k d (\<lambda>target p.
         if u_pk target = u_pk u then Inl (ValidationError [])
         else rbind (protect_last_active_administrator d target (Some False) None) (\<lambda>_. Inr (target, p))) of
        Inl x \<Rightarrow> (Inl x, d)
      | Inr (target, p) \<Rightarrow>
          (case permanently_delete_user target p (u_pk u) d of (Inl x, d1) \<Rightarrow> (Inl x, d1) | (Inr _, d1) \<Rightarrow> (Inr (), d1)))"

section \<open>Requests as a system\<close>

datatype account_call =
    PasswordChange string string
  | CreateToken string "nat option"
  | RevokeToken nat
  | StaffCreate account_form
  | UserDisable nat
  | UserActivate nat
  | UserUpdate nat account_update
  | PasswordReset nat string
  | UserDelete nat

datatype account_request =
    Login string string string
  | Logout string
  | Refresh string
  | Bearer string account_call

fun handle :: "env \<Rightarrow> account_call \<Rightarrow> user \<Rightarrow> db \<Rightarrow> response" where
  "handle e (PasswordChange current new) u d = password_change e current new u d"
| "handle e (CreateToken name expires_at) u d = create_token e name expires_at u d"
| "handle e (RevokeToken k) u d = revoke_token k u d"
| "handle e (StaffCreate f) u d = staff_create e f u d"
| "handle e (UserDisable k) u d = user_disable k u d"
| "handle e (UserActivate k) u d = user_activate k u d"
| "handle e (UserUpdate k x) u d = user_update k x u d"
| "handle e (PasswordReset k new) u d = user_password_reset e k new u d"
| "handle e (UserDelete k) u d = user_delete k u d"

fun account_response :: "db \<Rightarrow> env \<times> account_request \<Rightarrow> response" where
  "account_response d (e, Login email password name) = login e email password name d"
| "account_response d (e, Logout key) = logout key d"
| "account_response d (e, Refresh key) = refresh e key d"
| "account_response d (e, Bearer token call) = with_auth e token d (handle e call)"

definition account_step :: "db \<Rightarrow> env \<times> account_request \<Rightarrow> db res" where
  "account_step d x = Inr (snd (account_response d x))"

section \<open>What the calls do to the accounts\<close>

text \<open>The standing of an account: its role, whether it is a superuser and whether it is active.\<close>

definition standing :: "db \<Rightarrow> nat \<Rightarrow> (role_code \<times> bool \<times> bool) option" where
  "standing d k = map_option (\<lambda>u. (u_role u, u_is_superuser u, u_is_active u)) (get_user d k)"

definition accounts_wf :: "db \<Rightarrow> bool" where
  "accounts_wf d \<longleftrightarrow> distinct (map u_pk (users d)) \<and> tbl_wf (profiles d) \<and> (\<forall>k. standing d k \<noteq> None \<longrightarrow> k < tbl_next (profiles d))"

lemma get_user_pk: "get_user d k = Some u \<Longrightarrow> u_pk u = k"
  by (auto simp: get_user_def find_Some_iff)

lemma get_user_mem: "get_user d k = Some u \<Longrightarrow> u \<in> set (users d)"
  by (auto simp: get_user_def find_Some_iff)

lemma find_map: "find P (map f xs) = map_option f (find (P \<circ> f) xs)"
  by (induction xs) auto

lemma standing_cong: "users d' = users d \<Longrightarrow> standing d' = standing d" "users d' = users d \<Longrightarrow> get_user d' = get_user d"
  by (auto simp: standing_def get_user_def fun_eq_iff)

lemma sync_standing [simp]:
  "u_pk (sync_user_role_group p u) = u_pk u" "u_role (sync_user_role_group p u) = u_role u"
  "u_is_superuser (sync_user_role_group p u) = u_is_superuser u" "u_is_active (sync_user_role_group p u) = u_is_active u"
  by (simp_all add: sync_user_role_group_def)

lemma account_audit_frame [simp]:
  "users (account_audit a w k c d) = users d" "profiles (account_audit a w k c d) = profiles d"
  "api_tokens (account_audit a w k c d) = api_tokens d"
  "standing (account_audit a w k c d) = standing d" "get_user (account_audit a w k c d) = get_user d"
  by (simp_all add: account_audit_def standing_def get_user_def fun_eq_iff)

lemma accounts_wf_audit [simp]: "accounts_wf (account_audit a w k c d) = accounts_wf d"
  by (simp add: accounts_wf_def)

lemma standing_free: "accounts_wf d \<Longrightarrow> standing d (tbl_next (profiles d)) = None"
  unfolding accounts_wf_def by blast

lemma token_ops_frame [simp]:
  "users (revoke_active_tokens k d) = users d" "profiles (revoke_active_tokens k d) = profiles d"
  "users (touch_token e x d) = users d" "profiles (touch_token e x d) = profiles d"
  "users (revoke_api_token y w d) = users d" "profiles (revoke_api_token y w d) = profiles d"
  by (simp_all add: revoke_active_tokens_def touch_token_def revoke_api_token_def)

lemma forget_stores_frame [simp]:
  "users (forget_stores k d) = users d" "profiles (forget_stores k d) = profiles d" "api_tokens (forget_stores k d) = api_tokens d"
proof -
  have "users e = users d \<and> profiles e = profiles d \<and> api_tokens e = api_tokens d" if "e = d\<lparr>
     supervisor_assignments := x0, zone_supervisor_assignments := x1, ags_assignments := x2,
     areas := x3, cleaners := x4, cleaner_assignments := x5,
     cleaner_shifts := x6, stores := x7, products := x8,
     items := x9, transfers := x10, movements := x11,
     openings := x12\<rparr>" for e x0 x1 x2 x3 x4 x5 x6 x7 x8 x9 x10 x11 x12
    using that by simp
  from this [OF forget_stores_def] show "users (forget_stores k d) = users d" "profiles (forget_stores k d) = profiles d"
    "api_tokens (forget_stores k d) = api_tokens d" by blast+
qed

lemma forget_operations_frame [simp]:
  "users (forget_operations k d) = users d" "profiles (forget_operations k d) = profiles d" "api_tokens (forget_operations k d) = api_tokens d"
proof -
  have "users e = users d \<and> profiles e = profiles d \<and> api_tokens e = api_tokens d" if "e = d\<lparr>
     requests := x0, approvals := x1, issues := x2,
     jobs := x3, attendance := x4, shifts := x5,
     operational_roles := x6, area_schedules := x7, documents := x8,
     programs := x9, evaluations := x10, templates := x11,
     inspections := x12, results := x13\<rparr>" for e x0 x1 x2 x3 x4 x5 x6 x7 x8 x9 x10 x11 x12 x13
    using that by simp
  from this [OF forget_operations_def] show "users (forget_operations k d) = users d" "profiles (forget_operations k d) = profiles d"
    "api_tokens (forget_operations k d) = api_tokens d" by blast+
qed

lemma forget_reports_frame [simp]:
  "users (forget_reports k d) = users d" "profiles (forget_reports k d) = profiles d" "api_tokens (forget_reports k d) = api_tokens d"
proof -
  have "users e = users d \<and> profiles e = profiles d \<and> api_tokens e = api_tokens d" if "e = d\<lparr>
     site_reports := x0, zone_reports := x1, assistant_reports := x2,
     general_reports := x3, timetable := x4, checklists := x5,
     payment_profiles := x6, remuneration_reports := x7, remuneration_lines := x8,
     conversations := x9, memberships := x10, messages := x11,
     attachments := x12\<rparr>" for e x0 x1 x2 x3 x4 x5 x6 x7 x8 x9 x10 x11 x12
    using that by simp
  from this [OF forget_reports_def] show "users (forget_reports k d) = users d" "profiles (forget_reports k d) = profiles d"
    "api_tokens (forget_reports k d) = api_tokens d" by blast+
qed

lemma forget_configuration_frame [simp]:
  "users (forget_configuration k d) = users d" "profiles (forget_configuration k d) = profiles d"
  "api_tokens (forget_configuration k d) = api_tokens d"
  by (simp_all add: forget_configuration_def)

lemma save_user_effect:
  assumes "save_user u p d = Inr d'"
  shows "standing d' = (\<lambda>j. if j = u_pk u \<and> standing d j \<noteq> None then Some (u_role u, u_is_superuser u, u_is_active u) else standing d j) \<and>
    map u_pk (users d') = map u_pk (users d) \<and> profiles d' = tbl_put (u_pk u) p (profiles d) \<and> api_tokens d' = api_tokens d"
proof -
  have d': "users d' = map (\<lambda>v. if u_pk v = u_pk u then sync_user_role_group p u else v) (users d)"
    "profiles d' = tbl_put (u_pk u) p (profiles d)" "api_tokens d' = api_tokens d"
    using assms by (auto simp: save_user_def res_simps)
  have "((\<lambda>v. u_pk v = j) \<circ> (\<lambda>v. if u_pk v = u_pk u then sync_user_role_group p u else v)) = (\<lambda>v. u_pk v = j)" for j
    by (simp add: fun_eq_iff)
  then have "get_user d' j = map_option (\<lambda>v. if u_pk v = u_pk u then sync_user_role_group p u else v) (get_user d j)" for j
    by (simp add: get_user_def d'(1) find_map)
  then have "standing d' j = (if j = u_pk u \<and> standing d j \<noteq> None then Some (u_role u, u_is_superuser u, u_is_active u) else standing d j)" for j
    by (cases "get_user d j") (auto simp: standing_def dest: get_user_pk)
  moreover have "map u_pk (users d') = map u_pk (users d)" by (simp add: d'(1))
  ultimately show ?thesis using d' by auto
qed

lemma set_password_effect:
  assumes "set_password e u p pw a d = Inr d'" and "get_user d (u_pk u) = Some u" and "accounts_wf d"
  shows "standing d' = standing d \<and> accounts_wf d' \<and> api_tokens d' = api_tokens d \<and> tbl_next (profiles d') = tbl_next (profiles d)"
proof -
  obtain d1 where d1: "save_user u (p\<lparr>pf_password := make_password e pw\<rparr>) d = Inr d1"
    and d': "d' = account_audit A_UPDATE (Some a) (u_pk u) [] d1"
    using assms(1) by (auto simp: set_password_def res_simps)
  note effect = save_user_effect [OF d1]
  have "standing d1 = standing d" using effect assms(2) by (auto simp: standing_def fun_eq_iff)
  then show ?thesis using effect assms(3) by (auto simp: d' accounts_wf_def)
qed

lemma role_value_inj [simp]: "role_value r = role_value s \<longleftrightarrow> r = s"
  by (cases r; cases s; simp add: role_value_def)

lemma bool_value_inj [simp]: "bool_value b = bool_value c \<longleftrightarrow> b = c"
  by (simp add: bool_value_def)

lemma changed_none: "changed f old new = [] \<longleftrightarrow> given new old = old"
  by (simp add: changed_def given_def split: option.splits)

lemma user_changes_none:
  "user_changes u p x = [] \<Longrightarrow> updated_user x u = u"
  by (auto simp: user_changes_def changed_none updated_user_def given_def split: option.splits)

lemma update_user_effect:
  assumes "update_user u p a x d = Inr d'" and "get_user d (u_pk u) = Some u" and "accounts_wf d"
  shows "standing d' = (standing d)(u_pk u \<mapsto> (u_role (updated_user x u), u_is_superuser u, u_is_active (updated_user x u))) \<and>
    accounts_wf d' \<and> api_tokens d' = api_tokens d \<and> tbl_next (profiles d') = tbl_next (profiles d)"
proof (cases "user_changes u p x = []")
  case True
  then show ?thesis using assms user_changes_none [OF True]
    by (auto simp: update_user_def standing_def fun_eq_iff)
next
  case False
  then obtain d1 where saved: "save_user (updated_user x u) (updated_profile x p) d = Inr d1"
    and d': "d' = account_audit A_UPDATE (Some a) (u_pk u) (user_changes u p x) d1"
    using assms(1) by (auto simp: update_user_def Let_def res_simps)
  have v: "u_pk (updated_user x u) = u_pk u" "u_is_superuser (updated_user x u) = u_is_superuser u"
    by (simp_all add: updated_user_def)
  have some: "standing d (u_pk u) \<noteq> None" using assms(2) by (simp add: standing_def)
  note effect = save_user_effect [OF saved, unfolded v]
  have "standing d1 = (standing d)(u_pk u \<mapsto> (u_role (updated_user x u), u_is_superuser u, u_is_active (updated_user x u)))"
    using effect some by (simp add: fun_eq_iff)
  then show ?thesis using effect assms(3) some by (simp add: d' accounts_wf_def)
qed

lemma deactivate_user_effect:
  assumes "deactivate_user u p a d = Inr d'" and "get_user d (u_pk u) = Some u" and "accounts_wf d"
  shows "standing d' = (standing d)(u_pk u \<mapsto> (u_role u, u_is_superuser u, False)) \<and> accounts_wf d' \<and>
    api_tokens d' = api_tokens (revoke_active_tokens (u_pk u) d) \<and> tbl_next (profiles d') = tbl_next (profiles d)"
proof -
  obtain d1 where d1: "update_user u p a (no_update\<lparr>ax_is_active := Some False\<rparr>) d = Inr d1"
    and d': "d' = account_audit A_TOKEN_REVOKE (Some a) (u_pk u) [] (revoke_active_tokens (u_pk u) d1)"
    using assms(1) by (auto simp: deactivate_user_def res_simps)
  have "users d' = users d1" by (simp add: d')
  then have frame: "standing d' = standing d1" "profiles d' = profiles d1" "users d' = users d1"
    by (rule standing_cong) (simp_all add: d')
  have v: "u_role (updated_user (no_update\<lparr>ax_is_active := Some False\<rparr>) u) = u_role u"
    "\<not> u_is_active (updated_user (no_update\<lparr>ax_is_active := Some False\<rparr>) u)"
    by (simp_all add: updated_user_def no_update_def given_def)
  note effect = update_user_effect [OF d1 assms(2,3), unfolded v]
  have "api_tokens d' = api_tokens (revoke_active_tokens (u_pk u) d)"
    using effect by (simp add: d' revoke_active_tokens_def)
  moreover have "accounts_wf d1" using effect by blast
  then have "accounts_wf d'" unfolding accounts_wf_def frame .
  ultimately show ?thesis using effect v(2) by (simp add: frame)
qed

lemma create_user_effect:
  assumes "create_user e f a d = Inr (k, d')" and "accounts_wf d"
  shows "k = tbl_next (profiles d) \<and> standing d' = (standing d)(k \<mapsto> (af_role f, False, True)) \<and> accounts_wf d' \<and>
    api_tokens d' = api_tokens d \<and> tbl_next (profiles d') = Suc (tbl_next (profiles d))"
proof -
  let ?p = "new_profile e f"
  let ?u = "new_user k f"
  have k: "k = tbl_next (profiles d)"
    and d': "users d' = users d @ [sync_user_role_group ?p ?u]" "profiles d' = tbl_insert ?p (profiles d)" "api_tokens d' = api_tokens d"
    using assms(1) unfolding create_user_def Let_def by (auto split: if_splits)
  have "standing d k = None" using standing_free [OF assms(2)] k by simp
  then have none: "find (\<lambda>v. u_pk v = k) (users d) = None" by (simp add: standing_def get_user_def)
  then have "k \<notin> u_pk ` set (users d)" by (auto simp: find_None_iff)
  have find_append: "find P (xs @ ys) = (case find P xs of None \<Rightarrow> find P ys | Some y \<Rightarrow> Some y)" for P :: "user \<Rightarrow> bool" and xs ys
    by (induction xs) auto
  have "standing d' j = ((standing d)(k \<mapsto> (af_role f, False, True))) j" for j
    using none by (auto simp: standing_def get_user_def d'(1) find_append new_user_def split: option.splits)
  then have "standing d' = (standing d)(k \<mapsto> (af_role f, False, True))" by blast
  then show ?thesis using assms(2) \<open>k \<notin> u_pk ` set (users d)\<close>
    by (auto simp: accounts_wf_def d' k less_Suc_eq new_user_def)
qed

lemma find_filter: "find P (filter Q xs) = find (\<lambda>x. P x \<and> Q x) xs"
  by (induction xs) auto

lemma delete_user_effect:
  assumes "delete_user k d = Inr d'" and "accounts_wf d"
  shows "standing d' = (standing d)(k := None) \<and> accounts_wf d' \<and>
    api_tokens d' = tbl_delete_where (\<lambda>_ t. tk_user t = k) (api_tokens d) \<and> tbl_next (profiles d') = tbl_next (profiles d)"
proof -
  have d': "users d' = filter (\<lambda>u. u_pk u \<noteq> k) (users d)" "profiles d' = tbl_delete_where (\<lambda>j _. j = k) (profiles d)"
    "api_tokens d' = tbl_delete_where (\<lambda>_ t. tk_user t = k) (api_tokens d)"
    using assms(1) by (auto simp: delete_user_def res_simps delete_cascade_def)
  have next_same: "tbl_next (profiles d') = tbl_next (profiles d)" by (simp add: d'(2) tbl_delete_where_def)
  have "standing d' j = ((standing d)(k := None)) j" for j
  proof (cases "j = k")
    case True
    have "(\<lambda>x. u_pk x = k \<and> u_pk x \<noteq> k) = (\<lambda>_. False)" by auto
    then show ?thesis by (simp add: True standing_def get_user_def d'(1) find_filter find_None_iff)
  next
    case False
    then have same: "(\<lambda>x. u_pk x = j \<and> u_pk x \<noteq> k) = (\<lambda>x. u_pk x = j)" by auto
    show ?thesis using False unfolding standing_def get_user_def d'(1) find_filter same by simp
  qed
  then have "standing d' = (standing d)(k := None)" by blast
  moreover have "distinct (map u_pk (users d'))" using assms(2) by (simp add: accounts_wf_def d'(1) distinct_map_filter)
  ultimately show ?thesis using assms(2) next_same by (auto simp: accounts_wf_def d'(2,3))
qed

lemma permanently_delete_effect:
  assumes "permanently_delete_user u p a d = (r, d')" and "get_user d (u_pk u) = Some u" and "accounts_wf d"
  shows "standing d' \<in> {standing d, (standing d)(u_pk u \<mapsto> (u_role u, u_is_superuser u, False)), (standing d)(u_pk u := None)} \<and>
    accounts_wf d' \<and> api_tokens d' \<in> {api_tokens d, api_tokens (revoke_active_tokens (u_pk u) d)} \<and>
    tbl_next (profiles d') = tbl_next (profiles d)"
proof (cases "protected_relations d (u_pk u)")
  case True
  show ?thesis
  proof (cases "deactivate_user u p a d")
    case (Inl x)
    then show ?thesis using assms True by (simp add: permanently_delete_user_def)
  next
    case (Inr d1)
    have d': "d' = account_audit A_ARCHIVE (Some a) (u_pk u) [] d1"
      using assms(1) True Inr by (simp add: permanently_delete_user_def)
    show ?thesis using deactivate_user_effect [OF Inr assms(2,3)] by (simp add: d')
  qed
next
  case False
  let ?d1 = "account_audit A_DELETE (Some a) (u_pk u) [] d"
  have wf: "accounts_wf ?d1" using assms(3) by simp
  show ?thesis
  proof (cases "delete_user (u_pk u) ?d1")
    case (Inl x)
    then have "d' = ?d1" using assms(1) False by (simp add: permanently_delete_user_def)
    then show ?thesis using wf by simp
  next
    case (Inr d2)
    then have "d' = d2" using assms(1) False by (simp add: permanently_delete_user_def)
    have "\<not> tbl_exists (\<lambda>_ t. tk_user t = u_pk u) (api_tokens d)" using False by (simp add: protected_relations_def)
    then have "tbl_delete_where (\<lambda>_ t. tk_user t = u_pk u) (api_tokens d) = api_tokens d"
      by (cases "api_tokens d") (auto simp: tbl_delete_where_def tbl_exists_iff filter_id_conv)
    then show ?thesis using delete_user_effect [OF Inr wf] by (simp add: \<open>d' = d2\<close>)
  qed
qed

section \<open>Who may change whose standing\<close>

definition activates :: "nat \<Rightarrow> account_call \<Rightarrow> bool" where
  "activates k c \<longleftrightarrow> c = UserActivate k \<or> (\<exists>x. c = UserUpdate k x \<and> ax_is_active x = Some True)"

definition is_active_account :: "db \<Rightarrow> nat \<Rightarrow> bool" where
  "is_active_account d k \<longleftrightarrow> (\<exists>r s. standing d k = Some (r, s, True))"

definition is_administrator :: "db \<Rightarrow> nat \<Rightarrow> bool" where
  "is_administrator d k \<longleftrightarrow> (\<exists>r s. standing d k = Some (r, s, True) \<and> (r = SYSTEM_ADMIN \<or> s))"

text \<open>What a call made by the account \<open>u\<close> does.\<close>

definition call_effect :: "user \<Rightarrow> account_call \<Rightarrow> db \<Rightarrow> db \<Rightarrow> bool" where
  "call_effect u c d d' \<longleftrightarrow> accounts_wf d' \<and> tbl_next (profiles d) \<le> tbl_next (profiles d') \<and>
     (\<not> is_system_admin u \<longrightarrow> standing d' = standing d) \<and>
     (is_system_admin u \<longrightarrow> (\<exists>k. is_administrator d' k)) \<and>
     (\<forall>k. k < tbl_next (profiles d) \<longrightarrow> \<not> is_active_account d k \<longrightarrow> is_active_account d' k \<longrightarrow> activates k c)"

definition caller :: "db \<Rightarrow> user \<Rightarrow> bool" where
  "caller d u \<longleftrightarrow> get_user d (u_pk u) = Some u \<and> u_is_active u \<and> accounts_wf d"

lemma callerD:
  assumes "caller d u"
  shows "get_user d (u_pk u) = Some u" and "accounts_wf d"
    and "standing d (u_pk u) = Some (u_role u, u_is_superuser u, True)"
    and "is_system_admin u \<Longrightarrow> is_administrator d (u_pk u)"
  using assms by (auto simp: caller_def standing_def is_administrator_def is_system_admin_def)

lemma same_standing_effect:
  assumes "caller d u" and "standing d' = standing d" and "accounts_wf d'" and "tbl_next (profiles d') = tbl_next (profiles d)"
  shows "call_effect u c d d'"
  using assms callerD(4) [OF assms(1)] by (auto simp: call_effect_def is_administrator_def is_active_account_def)

lemma call_effect_refl: "caller d u \<Longrightarrow> call_effect u c d d"
  by (rule same_standing_effect) (auto dest: callerD)

lemma respond_effect:
  assumes "caller d u" and "\<And>d'. r = Inr d' \<Longrightarrow> call_effect u c d d'"
  shows "call_effect u c d (snd (respond d r))"
  using assms call_effect_refl by (cases r) (auto simp: respond_def)

lemma tokens_only_effect:
  assumes "caller d u" and "users d' = users d" and "profiles d' = profiles d"
  shows "call_effect u c d d'"
proof (rule same_standing_effect [OF assms(1)])
  show s: "standing d' = standing d" using standing_cong(1) [OF assms(2)] .
  show "accounts_wf d'" using callerD(2) [OF assms(1)] unfolding accounts_wf_def s assms(2,3) .
qed (simp add: assms(3))

text \<open>An administrator changes the standing of another account, or keeps being one.\<close>

lemma admin_effect:
  assumes "caller d u" and "is_system_admin u" and "accounts_wf d'" and "tbl_next (profiles d) \<le> tbl_next (profiles d')"
    and "\<exists>k. is_administrator d' k"
    and "\<And>k. k < tbl_next (profiles d) \<Longrightarrow> \<not> is_active_account d k \<Longrightarrow> is_active_account d' k \<Longrightarrow> activates k c"
  shows "call_effect u c d d'"
  using assms by (auto simp: call_effect_def)

lemma other_account_effect:
  assumes u: "caller d u" "is_system_admin u" and d': "standing d' = (standing d)(k := s)" "accounts_wf d'"
    "tbl_next (profiles d) \<le> tbl_next (profiles d')" and other: "k \<noteq> u_pk u"
    and "k < tbl_next (profiles d) \<Longrightarrow> \<not> is_active_account d k \<Longrightarrow> is_active_account d' k \<Longrightarrow> activates k c"
  shows "call_effect u c d d'"
proof (rule admin_effect [OF u d'(2,3)])
  have "is_administrator d' (u_pk u)" using callerD(4) [OF u(1,2)] other by (simp add: is_administrator_def d'(1))
  then show "\<exists>k. is_administrator d' k" ..
  fix j assume j: "j < tbl_next (profiles d)" "\<not> is_active_account d j" "is_active_account d' j"
  then have "j = k" by (auto simp: is_active_account_def d'(1) split: if_splits)
  with assms(7) j show "activates j c" by simp
qed

lemma admin_target_Inr [res_simps]:
  "admin_target_or_404 u k d f = Inr y \<longleftrightarrow>
     is_system_admin u \<and> (\<exists>v p. get_user d k = Some v \<and> tbl_get (profiles d) (u_pk v) = Some p \<and> f v p = Inr y)"
  by (auto simp: admin_target_or_404_def with_profile_def res_simps split: option.splits)

lemma as_denied_Inr [res_simps]: "as_denied r = Inr x \<longleftrightarrow> r = Inr x"
  by (cases r) (auto simp: as_denied_def split: err.splits)

lemma with_profile_Inr [res_simps]: "with_profile d u f = Inr y \<longleftrightarrow> (\<exists>p. tbl_get (profiles d) (u_pk u) = Some p \<and> f p = Inr y)"
  by (auto simp: with_profile_def split: option.splits)

lemma issue_token_frame:
  "issue_api_token e w n x a d = Inr (y, d') \<Longrightarrow> users d' = users d \<and> profiles d' = profiles d"
  by (auto simp: issue_api_token_def Let_def split: if_splits)

lemma handle_tokens_effect:
  assumes "caller d u"
  shows "call_effect u c d (snd (create_token e n x u d))" and "call_effect u c d (snd (revoke_token k u d))"
  unfolding create_token_def revoke_token_def
  by (rule respond_effect [OF assms], rule tokens_only_effect [OF assms];
      auto simp: res_simps permit_def dest: issue_token_frame split: option.splits if_splits)+

lemma password_change_effect:
  assumes "caller d u"
  shows "call_effect u c d (snd (password_change e old new u d))"
  unfolding password_change_def
  by (rule respond_effect [OF assms], rule same_standing_effect [OF assms])
    (auto simp: res_simps dest: set_password_effect [OF _ callerD(1,2) [OF assms]])

lemma staff_create_effect:
  assumes "caller d u"
  shows "call_effect u (StaffCreate f) d (snd (staff_create e f u d))"
  unfolding staff_create_def
proof (rule respond_effect [OF assms])
  fix d' assume "permit (is_system_admin u) (db_of (create_user e f (Some (u_pk u)) d)) = Inr d'"
  then obtain k where admin: "is_system_admin u" and made: "create_user e f (Some (u_pk u)) d = Inr (k, d')"
    by (auto simp: res_simps)
  note effect = create_user_effect [OF made callerD(2) [OF assms]]
  have "standing d (tbl_next (profiles d)) = None" by (rule standing_free [OF callerD(2) [OF assms]])
  then have "k \<noteq> u_pk u" using effect callerD(3) [OF assms] by auto
  then show "call_effect u (StaffCreate f) d d'"
    using effect by (intro other_account_effect [OF assms admin, of d' k]) auto
qed

lemma target_row: "get_user d k = Some v \<Longrightarrow> u_pk v = k \<and> get_user d (u_pk v) = Some v"
  using get_user_pk by blast

lemma user_disable_effect:
  assumes "caller d u"
  shows "call_effect u (UserDisable k) d (snd (user_disable k u d))"
  unfolding user_disable_def
proof (rule respond_effect [OF assms])
  fix d' assume "admin_target_or_404 u k d (\<lambda>target p. if u_pk target = u_pk u then Inl (ValidationError [])
    else deactivate_user target p (u_pk u) d) = Inr d'"
  then obtain v p where admin: "is_system_admin u" and v: "get_user d k = Some v" "u_pk v \<noteq> u_pk u"
    and off: "deactivate_user v p (u_pk u) d = Inr d'" by (auto simp: res_simps)
  note effect = deactivate_user_effect [OF off conjunct2 [OF target_row [OF v(1)]] callerD(2) [OF assms]]
  then show "call_effect u (UserDisable k) d d'"
    by (intro other_account_effect [OF assms admin _ _ _ v(2)]) (auto simp: is_active_account_def)
qed

lemma user_activate_effect:
  assumes "caller d u"
  shows "call_effect u (UserActivate k) d (snd (user_activate k u d))"
  unfolding user_activate_def
proof (rule respond_effect [OF assms])
  fix d' assume "admin_target_or_404 u k d (\<lambda>target p. activate_user target p (u_pk u) d) = Inr d'"
  then obtain v p where admin: "is_system_admin u" and v: "get_user d k = Some v"
    and on: "update_user v p (u_pk u) (no_update\<lparr>ax_is_active := Some True\<rparr>) d = Inr d'"
    by (auto simp: res_simps activate_user_def)
  have x: "u_role (updated_user (no_update\<lparr>ax_is_active := Some True\<rparr>) v) = u_role v"
    "u_is_active (updated_user (no_update\<lparr>ax_is_active := Some True\<rparr>) v)"
    by (simp_all add: updated_user_def no_update_def given_def)
  note effect = update_user_effect [OF on conjunct2 [OF target_row [OF v]] callerD(2) [OF assms], unfolded x(1)]
  have k: "u_pk v = k" using target_row [OF v] by simp
  show "call_effect u (UserActivate k) d d'"
  proof (cases "k = u_pk u")
    case True
    then have "v = u" using v callerD(1) [OF assms] by simp
    then have "standing d' = standing d" using effect callerD(3) [OF assms] x(2) by (simp add: fun_upd_idem)
    then show ?thesis using effect by (intro same_standing_effect [OF assms]) auto
  next
    case False
    then show ?thesis using effect k
      by (intro other_account_effect [OF assms admin, of d' k]) (auto simp: activates_def)
  qed
qed

lemma find_distinct: "distinct (map f xs) \<Longrightarrow> w \<in> set xs \<Longrightarrow> find (\<lambda>u. f u = f w) xs = Some w"
  by (induction xs) (auto simp: image_iff)

lemma other_administrator:
  assumes "caller d u" and "is_system_admin u"
    and "protect_last_active_administrator d u a r = Inr ()" and "r \<noteq> None" and "r \<noteq> Some SYSTEM_ADMIN"
  obtains j where "j \<noteq> u_pk u" and "is_administrator d j"
proof -
  obtain w where w: "w \<in> set (users d)" "u_role w = SYSTEM_ADMIN" "u_is_active w" "u_pk w \<noteq> u_pk u"
    using assms(2-5) by (auto simp: protect_last_active_administrator_def list_ex_iff split: if_splits)
  have "distinct (map u_pk (users d))" using callerD(2) [OF assms(1)] by (simp add: accounts_wf_def)
  then have "get_user d (u_pk w) = Some w" using w(1)
    unfolding get_user_def by (rule find_distinct)
  then have "is_administrator d (u_pk w)" using w(2,3) by (auto simp: is_administrator_def standing_def)
  with w(4) that show thesis by blast
qed

lemma user_update_effect:
  assumes u: "caller d u"
  shows "call_effect u (UserUpdate k x) d (snd (user_update k x u d))"
  unfolding user_update_def
proof (rule respond_effect [OF u])
  fix d' assume "admin_target_or_404 u k d (\<lambda>target p.
     rbind (protect_last_active_administrator d target (ax_is_active x) (ax_role x)) (\<lambda>_.
       if u_pk target = u_pk u \<and> ax_is_active x = Some False then Inl (ValidationError [])
       else update_user target p (u_pk u) x d)) = Inr d'"
  then obtain v p where admin: "is_system_admin u" and v: "get_user d k = Some v"
    and guard: "protect_last_active_administrator d v (ax_is_active x) (ax_role x) = Inr ()"
    and self: "\<not> (u_pk v = u_pk u \<and> ax_is_active x = Some False)" and change: "update_user v p (u_pk u) x d = Inr d'"
    by (auto simp: res_simps)
  note effect = update_user_effect [OF change conjunct2 [OF target_row [OF v]] callerD(2) [OF u]]
  have k: "u_pk v = k" using target_row [OF v] by simp
  show "call_effect u (UserUpdate k x) d d'"
  proof (cases "k = u_pk u")
    case False
    have "\<not> is_active_account d k \<Longrightarrow> u_is_active (updated_user x v) \<Longrightarrow> ax_is_active x = Some True"
      using v by (auto simp: is_active_account_def standing_def updated_user_def given_def split: option.splits)
    then show ?thesis using effect k False
      by (intro other_account_effect [OF u admin, of d' k]) (auto simp: activates_def is_active_account_def)
  next
    case True
    then have v: "v = u" using v callerD(1) [OF u] by simp
    have active: "u_is_active (updated_user x u)"
      using self u by (auto simp: v updated_user_def given_def caller_def split: option.splits)
    have d': "standing d' = (standing d)(u_pk u \<mapsto> (u_role (updated_user x u), u_is_superuser u, True))"
      using effect active by (simp add: v)
    have "\<exists>j. is_administrator d' j"
    proof (cases "ax_role x = None \<or> ax_role x = Some SYSTEM_ADMIN")
      case True
      then have "is_administrator d' (u_pk u)"
        using admin by (auto simp: is_administrator_def d' updated_user_def given_def is_system_admin_def)
      then show ?thesis ..
    next
      case False
      then obtain j where "j \<noteq> u_pk u" "is_administrator d j"
        using other_administrator [OF u admin guard [unfolded v]] by blast
      then have "is_administrator d' j" by (simp add: is_administrator_def d')
      then show ?thesis ..
    qed
    moreover have "is_active_account d j" if "is_active_account d' j" for j
      using that callerD(3) [OF u] by (auto simp: is_active_account_def d' split: if_splits)
    ultimately show ?thesis using effect by (intro admin_effect [OF u admin]) auto
  qed
qed

lemma user_password_reset_effect:
  assumes u: "caller d u"
  shows "call_effect u c d (snd (user_password_reset e k pw u d))"
  unfolding user_password_reset_def
proof (rule respond_effect [OF u])
  fix d' assume "admin_target_or_404 u k d (\<lambda>target p. rbind (set_password e target p pw (u_pk u) d) (\<lambda>d1.
       Inr (account_audit A_TOKEN_REVOKE (Some (u_pk u)) k [] (revoke_active_tokens k d1)))) = Inr d'"
  then obtain v p d1 where v: "get_user d k = Some v" and set: "set_password e v p pw (u_pk u) d = Inr d1"
    and d': "d' = account_audit A_TOKEN_REVOKE (Some (u_pk u)) k [] (revoke_active_tokens k d1)"
    by (auto simp: res_simps)
  note effect = set_password_effect [OF set conjunct2 [OF target_row [OF v]] callerD(2) [OF u]]
  have users: "users d' = users d1" "profiles d' = profiles d1" by (simp_all add: d')
  have standing: "standing d' = standing d" using standing_cong(1) [OF users(1)] effect by simp
  have "accounts_wf d1" using effect by blast
  then have "accounts_wf d'" unfolding accounts_wf_def users standing_cong(1) [OF users(1)] .
  then show "call_effect u c d d'" using effect standing users by (intro same_standing_effect [OF u]) auto
qed

lemma user_delete_effect:
  assumes u: "caller d u"
  shows "call_effect u (UserDelete k) d (snd (user_delete k u d))"
proof (cases "admin_target_or_404 u k d (\<lambda>target p. if u_pk target = u_pk u then Inl (ValidationError [])
         else rbind (protect_last_active_administrator d target (Some False) None) (\<lambda>_. Inr (target, p)))")
  case (Inl x)
  then show ?thesis using call_effect_refl [OF u] by (simp add: user_delete_def)
next
  case (Inr y)
  then obtain v p where y: "y = (v, p)" and admin: "is_system_admin u" and v: "get_user d k = Some v" "u_pk v \<noteq> u_pk u"
    by (auto simp: res_simps)
  obtain r d' where gone: "permanently_delete_user v p (u_pk u) d = (r, d')" by fastforce
  have d': "snd (user_delete k u d) = d'" using Inr gone by (cases r) (simp_all add: user_delete_def y)
  note effect = permanently_delete_effect [OF gone conjunct2 [OF target_row [OF v(1)]] callerD(2) [OF u]]
  then consider "standing d' = standing d" | s where "standing d' = (standing d)(u_pk v := s)" "s \<noteq> None \<Longrightarrow> \<not> snd (snd (the s))"
    by fastforce
  then have "call_effect u (UserDelete k) d d'"
  proof cases
    case 1
    then show ?thesis using effect by (intro same_standing_effect [OF u]) auto
  next
    case 2
    then have "\<not> is_active_account d' (u_pk v)" by (cases s) (auto simp: is_active_account_def)
    then show ?thesis using effect 2(1) by (intro other_account_effect [OF u admin 2(1) _ _ v(2)]) auto
  qed
  then show ?thesis by (simp add: d')
qed

lemma handle_effect: "caller d u \<Longrightarrow> call_effect u c d (snd (handle e c u d))"
  by (cases c) (simp_all add: handle_tokens_effect password_change_effect staff_create_effect user_disable_effect
      user_activate_effect user_update_effect user_password_reset_effect user_delete_effect)

section \<open>The requests\<close>

lemma authenticate_None: "authenticate e token d = (None, d1) \<Longrightarrow> d1 = d"
  by (auto simp: authenticate_def split: if_splits option.splits)

lemma authenticate_caller:
  assumes "authenticate e token d = (Some u, d1)"
  shows "get_user d (u_pk u) = Some u \<and> u_is_active u \<and> users d1 = users d \<and> profiles d1 = profiles d"
  using assms by (auto simp: authenticate_def split: if_splits option.splits dest: target_row)

definition request_effect :: "db \<Rightarrow> env \<times> account_request \<Rightarrow> db \<Rightarrow> bool" where
  "request_effect d x d' \<longleftrightarrow> accounts_wf d' \<and> tbl_next (profiles d) \<le> tbl_next (profiles d') \<and>
     ((\<exists>k. is_administrator d k) \<longrightarrow> (\<exists>k. is_administrator d' k)) \<and>
     (\<forall>k. k < tbl_next (profiles d) \<longrightarrow> \<not> is_active_account d k \<longrightarrow> is_active_account d' k \<longrightarrow>
        (\<exists>e token c u. x = (e, Bearer token c) \<and> activates k c \<and> fst (authenticate e token d) = Some u \<and> is_system_admin u))"

lemma request_effect_same:
  assumes "accounts_wf d" and "users d' = users d" and "profiles d' = profiles d"
  shows "request_effect d x d'"
proof -
  have s: "standing d' = standing d" using standing_cong(1) [OF assms(2)] .
  have "accounts_wf d'" using assms(1) unfolding accounts_wf_def s assms(2,3) .
  then show ?thesis by (auto simp: request_effect_def is_administrator_def is_active_account_def s assms(3))
qed

lemma respond_same:
  "(\<And>d'. r = Inr d' \<Longrightarrow> users d' = users d \<and> profiles d' = profiles d) \<Longrightarrow>
     users (snd (respond d r)) = users d \<and> profiles (snd (respond d r)) = profiles d"
  by (cases r) (auto simp: respond_def)

lemma login_frame: "login_and_issue_tokens e m pw n d = Inr (y, d') \<Longrightarrow> users d' = users d \<and> profiles d' = profiles d"
  by (auto simp: login_and_issue_tokens_def res_simps split: option.splits if_splits dest: issue_token_frame)

lemma refresh_frame: "refresh_access_token e key d = Inr (y, d') \<Longrightarrow> users d' = users d \<and> profiles d' = profiles d"
  by (auto simp: refresh_access_token_def res_simps split: option.splits if_splits)

lemma bearer_effect:
  assumes wf: "accounts_wf d" and auth: "authenticate e token d = (Some u, d1)"
  shows "request_effect d (e, Bearer token c) (snd (handle e c u d1))"
proof -
  have u: "get_user d (u_pk u) = Some u" "u_is_active u" and same: "users d1 = users d" "profiles d1 = profiles d"
    using authenticate_caller [OF auth] by auto
  have s: "standing d1 = standing d" "get_user d1 = get_user d" using standing_cong [OF same(1)] by auto
  have "accounts_wf d1" using wf unfolding accounts_wf_def s same .
  then have "caller d1 u" using u by (simp add: caller_def s)
  from handle_effect [OF this, of c e] show ?thesis
    using auth callerD(4) [OF \<open>caller d1 u\<close>]
    by (cases "is_system_admin u") (auto simp: call_effect_def request_effect_def is_active_account_def is_administrator_def s same)
qed

lemma account_step_effect:
  assumes "accounts_wf d"
  shows "request_effect d x (snd (account_response d x))"
proof -
  obtain e r where x: "x = (e, r)" by fastforce
  show ?thesis
  proof (cases r)
    case (Bearer token c)
    then show ?thesis
      using bearer_effect [OF assms] request_effect_same [OF assms, of d]
      by (cases "authenticate e token d"; cases "fst (authenticate e token d)") (auto simp: x with_auth_def dest: authenticate_None)
  next
    case (Login m pw n)
    then show ?thesis
      by (auto simp: x login_def res_simps intro!: request_effect_same [OF assms] respond_same [THEN conjunct1] respond_same [THEN conjunct2] dest: login_frame)
  next
    case (Logout key)
    then show ?thesis by (auto simp: x logout_def intro!: request_effect_same [OF assms])
  next
    case (Refresh key)
    then show ?thesis
      by (auto simp: x refresh_def res_simps intro!: request_effect_same [OF assms] respond_same [THEN conjunct1] respond_same [THEN conjunct2] dest: refresh_frame)
  qed
qed

lemma commit_account_step [simp]: "commit d (account_step d x) = snd (account_response d x)"
  by (simp add: account_step_def)

interpretation accounts: safe_system account_step "\<lambda>d. accounts_wf d \<and> (\<exists>k. is_administrator d k)"
proof
  fix d x d' assume "accounts_wf d \<and> (\<exists>k. is_administrator d k)" and "account_step d x = Inr d'"
  then show "accounts_wf d' \<and> (\<exists>k. is_administrator d' k)"
    using account_step_effect [of d x] unfolding account_step_def request_effect_def sum.inject by blast
qed

text \<open>C31: an administrator remains. Whatever requests are made, authenticated or not, if some active account is an
  administrator (by its role or as a superuser) now, some active account is one afterwards: nobody can disable, deactivate or
  delete their own account, and giving up the role is refused when no other active system administrator is left.\<close>

theorem administrator_remains:
  assumes "accounts_wf d" and "is_administrator d k"
  shows "\<exists>j. is_administrator (run_calls account_step d calls) j"
  using accounts.run_inv [of d calls] assms by blast

lemma reactivated_by:
  assumes "accounts_wf d" and "k < tbl_next (profiles d)" and "\<not> is_active_account d k"
    and "is_active_account (run_calls account_step d calls) k"
  shows "\<exists>xs e token c ys u. calls = xs @ (e, Bearer token c) # ys \<and> activates k c \<and>
    fst (authenticate e token (run_calls account_step d xs)) = Some u \<and> is_system_admin u"
  using assms
proof (induction calls arbitrary: d)
  case Nil
  then show ?case by simp
next
  case (Cons x xs)
  let ?d = "snd (account_response d x)"
  note effect = account_step_effect [OF Cons.prems(1), of x, unfolded request_effect_def]
  show ?case
  proof (cases "is_active_account ?d k")
    case True
    then obtain e token c u where "x = (e, Bearer token c)" "activates k c" "fst (authenticate e token d) = Some u" "is_system_admin u"
      using effect Cons.prems(2,3) by blast
    then have "x # xs = [] @ (e, Bearer token c) # xs \<and> activates k c \<and>
      fst (authenticate e token (run_calls account_step d [])) = Some u \<and> is_system_admin u" by simp
    then show ?thesis by blast
  next
    case False
    have "k < tbl_next (profiles ?d)" using effect Cons.prems(2) by linarith
    moreover have "is_active_account (run_calls account_step ?d xs) k"
      using Cons.prems(4) by simp
    ultimately obtain ws e token c ys u where "xs = ws @ (e, Bearer token c) # ys" "activates k c"
      "fst (authenticate e token (run_calls account_step ?d ws)) = Some u" "is_system_admin u"
      using Cons.IH [OF _ _ False] effect by blast
    then have "x # xs = (x # ws) @ (e, Bearer token c) # ys \<and> activates k c \<and>
      fst (authenticate e token (run_calls account_step d (x # ws))) = Some u \<and> is_system_admin u"
      by simp
    then show ?thesis by blast
  qed
qed

text \<open>C29: a disabled account is locked out. If an account is not active now and, after some requests, a bearer token is
  accepted as standing for it, then one of the requests was made by an administrator, with a token that authenticated one at that moment,
  and activated the account. No token issued before, of either kind, brings the account back.\<close>

theorem disabled_account_locked_out:
  assumes "accounts_wf d" and "k < tbl_next (profiles d)" and "\<not> is_active_account d k"
    and "fst (authenticate e token (run_calls account_step d calls)) = Some v" and "u_pk v = k"
  shows "\<exists>xs e' admin_token c ys u. calls = xs @ (e', Bearer admin_token c) # ys \<and> activates k c \<and>
    fst (authenticate e' admin_token (run_calls account_step d xs)) = Some u \<and> is_system_admin u"
proof (rule reactivated_by [OF assms(1-3)])
  let ?d = "run_calls account_step d calls"
  have "get_user ?d k = Some v \<and> u_is_active v"
    using authenticate_caller [of e token ?d v] assms(4,5) by (cases "authenticate e token ?d") auto
  then show "is_active_account ?d k" by (simp add: is_active_account_def standing_def)
qed

section \<open>Tokens are never revived\<close>

definition token_mv :: "api_token \<Rightarrow> api_token \<Rightarrow> bool" where
  "token_mv t t' \<longleftrightarrow> tk_key t' = tk_key t \<and> tk_user t' = tk_user t \<and> tk_expires_at t' = tk_expires_at t \<and>
     (tk_is_active t' \<longrightarrow> tk_is_active t)"

abbreviation tokens_ok :: "db \<Rightarrow> bool" where
  "tokens_ok d \<equiv> table_ok (\<lambda>_. True) tk_key (api_tokens d)"

abbreviation tokens_kept :: "db \<Rightarrow> db \<Rightarrow> bool" where
  "tokens_kept d d' \<equiv> table_moved (\<lambda>_. True) tk_key token_mv (api_tokens d) (api_tokens d')"

lemma token_mv_refl [simp]: "token_mv t t"
  by (simp add: token_mv_def)

lemma tokens_kept_refl: "tokens_ok d \<Longrightarrow> api_tokens d' = api_tokens d \<Longrightarrow> tokens_kept d d'"
  by (simp add: table_moved_same)

lemma tokens_kept_update:
  assumes "tokens_ok d" and "\<And>t. token_mv t (f t)" and d': "api_tokens d' = tbl_update_where P f (api_tokens d)"
  shows "tokens_kept d d'"
proof -
  have "tk_key (f t) = tk_key t" for t using assms(2) by (simp add: token_mv_def)
  then have "tbl_unique (\<lambda>_. True) tk_key (tbl_update_where P f (api_tokens d))"
    using table_okD(2) [OF assms(1)] by (intro tbl_unique_update_where) auto
  then show ?thesis using assms(1,2) unfolding table_moved_def d'
    by (auto simp: table_ok_def tbl_wf_update_where tbl_all_def tbl_get_update_where)
qed

lemma tokens_kept_trans: "tokens_kept d d1 \<Longrightarrow> tokens_kept d1 d2 \<Longrightarrow> tokens_kept d d2"
  by (rule table_moved_trans) (auto simp: token_mv_def)

lemma tokens_kept_ok: "tokens_kept d d' \<Longrightarrow> tokens_ok d'"
  by (simp add: table_moved_def)

lemma update_user_tokens: "update_user u p a x d = Inr d' \<Longrightarrow> api_tokens d' = api_tokens d"
  by (auto simp: update_user_def Let_def res_simps dest: save_user_effect split: if_splits)

lemma set_password_tokens: "set_password e u p pw a d = Inr d' \<Longrightarrow> api_tokens d' = api_tokens d"
  by (auto simp: set_password_def res_simps dest: save_user_effect)

lemma create_user_tokens: "create_user e f a d = Inr (k, d') \<Longrightarrow> api_tokens d' = api_tokens d"
  unfolding create_user_def Let_def by (auto split: if_splits)

lemma revoke_kept: "tokens_ok d \<Longrightarrow> tokens_kept d (revoke_active_tokens k d)"
  by (rule tokens_kept_update [where f = "\<lambda>t. t\<lparr>tk_is_active := False\<rparr>"]) (auto simp: revoke_active_tokens_def token_mv_def)

lemma revoke_cong: "api_tokens d1 = api_tokens d \<Longrightarrow> api_tokens (revoke_active_tokens k d1) = api_tokens (revoke_active_tokens k d)"
  by (simp add: revoke_active_tokens_def)

lemma deactivate_kept:
  assumes "tokens_ok d" and "deactivate_user u p a d = Inr d'"
  shows "tokens_kept d d'"
proof -
  obtain d1 where same: "api_tokens d1 = api_tokens d" and d': "api_tokens d' = api_tokens (revoke_active_tokens (u_pk u) d1)"
    using assms(2) by (auto simp: deactivate_user_def res_simps dest: update_user_tokens)
  show ?thesis using revoke_kept [OF assms(1), of "u_pk u"] unfolding d' revoke_cong [OF same] .
qed

lemma permanently_delete_kept:
  assumes ok: "tokens_ok d" and "permanently_delete_user u p a d = (r, d')"
  shows "tokens_kept d d'"
proof (cases "protected_relations d (u_pk u)")
  case True
  show ?thesis
  proof (cases "deactivate_user u p a d")
    case (Inl x)
    then have "d' = d" using assms(2) True by (simp add: permanently_delete_user_def)
    then show ?thesis using tokens_kept_refl [OF ok] by simp
  next
    case (Inr d1)
    then have "api_tokens d' = api_tokens d1" using assms(2) True by (auto simp: permanently_delete_user_def)
    then show ?thesis using deactivate_kept [OF ok Inr] by simp
  qed
next
  case False
  then have "\<not> tbl_exists (\<lambda>_ t. tk_user t = u_pk u) (api_tokens d)" by (simp add: protected_relations_def)
  then have same: "tbl_delete_where (\<lambda>_ t. tk_user t = u_pk u) (api_tokens d) = api_tokens d"
    by (cases "api_tokens d") (auto simp: tbl_delete_where_def tbl_exists_iff filter_id_conv)
  have "api_tokens d' = api_tokens d"
  proof (cases "delete_user (u_pk u) (account_audit A_DELETE (Some a) (u_pk u) [] d)")
    case (Inl x)
    then show ?thesis using assms(2) False by (auto simp: permanently_delete_user_def)
  next
    case (Inr d2)
    then have "d' = d2" using assms(2) False by (simp add: permanently_delete_user_def)
    moreover have "api_tokens d2 = tbl_delete_where (\<lambda>_ t. tk_user t = u_pk u) (api_tokens d)"
      using Inr by (auto simp: delete_user_def res_simps delete_cascade_def)
    ultimately show ?thesis using same by simp
  qed
  then show ?thesis by (rule tokens_kept_refl [OF ok])
qed

lemma issue_kept: "tokens_ok d \<Longrightarrow> issue_api_token e w n x a d = Inr (y, d') \<Longrightarrow> tokens_kept d d'"
  unfolding issue_api_token_def Let_def by (auto split: if_splits intro!: table_moved_insert)

lemma touch_kept: "tokens_ok d \<Longrightarrow> tokens_kept d (touch_token e x d)"
  using tokens_kept_update [of d "\<lambda>t. t\<lparr>tk_last_used_at := Some (now e)\<rparr>" "touch_token e x d" "\<lambda>j _. j = fst x"]
  by (auto simp: touch_token_def token_mv_def intro: tokens_kept_refl)

lemma authenticate_kept: "tokens_ok d \<Longrightarrow> authenticate e token d = (u, d1) \<Longrightarrow> tokens_kept d d1"
  by (auto simp: authenticate_def touch_kept tokens_kept_refl split: if_splits option.splits)

lemma respond_kept: "tokens_ok d \<Longrightarrow> (\<And>d'. r = Inr d' \<Longrightarrow> tokens_kept d d') \<Longrightarrow> tokens_kept d (snd (respond d r))"
  by (cases r) (auto simp: respond_def intro: tokens_kept_refl)

lemma user_delete_kept: "tokens_ok d \<Longrightarrow> tokens_kept d (snd (user_delete k u d))"
  unfolding user_delete_def
  by (auto intro: tokens_kept_refl permanently_delete_kept split: sum.splits prod.splits)

lemma handle_kept:
  assumes ok: "tokens_ok d"
  shows "tokens_kept d (snd (handle e c u d))"
proof (cases c)
  case (PasswordChange x y)
  have "tokens_kept d (snd (password_change e x y u d))"
    unfolding password_change_def
    by (rule respond_kept [OF ok], rule tokens_kept_refl [OF ok]) (auto simp: res_simps dest: set_password_tokens)
  then show ?thesis by (simp add: PasswordChange)
next
  case (CreateToken n x)
  then show ?thesis using ok by (auto simp: create_token_def res_simps intro!: respond_kept intro: issue_kept)
next
  case (RevokeToken k)
  then show ?thesis using ok
    by (auto simp: revoke_token_def revoke_api_token_def res_simps permit_def token_mv_def split: option.splits
        intro!: respond_kept tokens_kept_update [where f = "\<lambda>t. t\<lparr>tk_is_active := False\<rparr>"])
next
  case (StaffCreate f)
  have "tokens_kept d (snd (staff_create e f u d))"
    unfolding staff_create_def
    by (rule respond_kept [OF ok], rule tokens_kept_refl [OF ok])
      (auto simp: res_simps split: if_splits dest: create_user_tokens)
  then show ?thesis by (simp add: StaffCreate)
next
  case (UserDisable k)
  then show ?thesis using ok by (auto simp: user_disable_def res_simps intro!: respond_kept intro: deactivate_kept)
next
  case (UserActivate k)
  have "tokens_kept d (snd (user_activate k u d))"
    unfolding user_activate_def
    by (rule respond_kept [OF ok], rule tokens_kept_refl [OF ok])
      (auto simp: activate_user_def res_simps split: if_splits dest: update_user_tokens)
  then show ?thesis by (simp add: UserActivate)
next
  case (UserUpdate k x)
  have "tokens_kept d (snd (user_update k x u d))"
    unfolding user_update_def
    by (rule respond_kept [OF ok], rule tokens_kept_refl [OF ok])
      (auto simp: res_simps split: if_splits dest: update_user_tokens)
  then show ?thesis by (simp add: UserUpdate)
next
  case (PasswordReset k pw)
  have "tokens_kept d d'" if "api_tokens d1 = api_tokens d" "api_tokens d' = api_tokens (revoke_active_tokens k d1)" for d1 d'
    using revoke_kept [OF ok, of k] unfolding that(2) revoke_cong [OF that(1)] .
  then have "tokens_kept d (snd (user_password_reset e k pw u d))"
    unfolding user_password_reset_def
    by (intro respond_kept [OF ok]) (auto simp: res_simps dest!: set_password_tokens)
  then show ?thesis by (simp add: PasswordReset)
next
  case (UserDelete k)
  then show ?thesis using user_delete_kept [OF ok] by simp
qed

lemma account_step_kept:
  assumes ok: "tokens_ok d"
  shows "tokens_kept d (snd (account_response d x))"
proof -
  obtain e r where x: "x = (e, r)" by fastforce
  show ?thesis
  proof (cases r)
    case (Bearer token c)
    obtain u d1 where auth: "authenticate e token d = (u, d1)" by fastforce
    note kept = authenticate_kept [OF ok auth]
    from tokens_kept_trans [OF kept handle_kept [OF tokens_kept_ok [OF kept]]] kept show ?thesis
      by (cases u) (simp_all add: x Bearer with_auth_def auth)
  next
    case (Login m pw n)
    have "tokens_kept d d'" if "login_and_issue_tokens e m pw n d = Inr (y, d')" for y d'
      using that issue_kept [OF ok] by (auto simp: login_and_issue_tokens_def res_simps split: option.splits if_splits)
    then show ?thesis using ok by (auto simp: x Login login_def res_simps intro!: respond_kept)
  next
    case (Logout key)
    show ?thesis
      by (rule tokens_kept_update [OF ok, of "\<lambda>t. t\<lparr>tk_is_active := False\<rparr>" _ "\<lambda>_ t. tk_key t = key"])
        (simp_all add: x Logout logout_def token_mv_def)
  next
    case (Refresh key)
    have "tokens_kept d d'" if "refresh_access_token e key d = Inr (y, d')" for y d'
      using that touch_kept [OF ok] by (auto simp: refresh_access_token_def res_simps split: option.splits if_splits)
    then show ?thesis using ok by (auto simp: x Refresh refresh_def res_simps intro!: respond_kept)
  qed
qed

interpretation tokens: table_flow account_step api_tokens "\<lambda>_. True" tk_key token_mv
  by unfold_locales (auto simp: account_step_def intro: account_step_kept)

lemma token_row_unique:
  assumes "tokens_ok d" and "tbl_get (api_tokens d) k = Some t"
  shows "token_row d (tk_key t) = Some (k, t)"
proof -
  have "(k, t) \<in> set (tbl_where (\<lambda>_ s. tk_key s = tk_key t) (api_tokens d))"
    using assms(2) by (simp add: tbl_get_in)
  then obtain j s rest where rows: "tbl_where (\<lambda>_ s. tk_key s = tk_key t) (api_tokens d) = (j, s) # rest"
    by (cases "tbl_where (\<lambda>_ s. tk_key s = tk_key t) (api_tokens d)") auto
  then have "(j, s) \<in> set (tbl_where (\<lambda>_ s. tk_key s = tk_key t) (api_tokens d))" by simp
  then have "tbl_get (api_tokens d) j = Some s" "tk_key s = tk_key t"
    using table_okD(1) [OF assms(1)] by (auto simp: tbl_get_mem)
  then have "j = k" using tbl_uniqueD [OF table_okD(2) [OF assms(1)]] assms(2) by metis
  then show ?thesis using rows \<open>tbl_get (api_tokens d) j = Some s\<close> assms(2) by (simp add: token_row_def)
qed

text \<open>C30: a dead token stays dead. Once the row of a token is revoked (by its owner, a logout, a password reset or the
  deactivation of its account) or past its expiry, then after any further requests its key is refused: it can be exchanged for no
  access token, and no request can be made with it.\<close>

theorem dead_token_stays_dead:
  assumes "tokens_ok d" and "tbl_get (api_tokens d) k = Some t" and "\<not> token_usable e t"
    and "decode_access_token e (tk_key t) = None"
  shows "refresh e (tk_key t) (run_calls account_step d calls) = (Inl PermissionDenied, run_calls account_step d calls) \<and>
    account_response (run_calls account_step d calls) (e, Bearer (tk_key t) c) = (Inl Unauthorized, run_calls account_step d calls)"
proof -
  let ?d = "run_calls account_step d calls"
  obtain s where s: "tbl_get (api_tokens ?d) k = Some s" "tk_key s = tk_key t \<and> \<not> token_usable e s"
    using tokens.row_absorbing [of "\<lambda>s. tk_key s = tk_key t \<and> \<not> token_usable e s", OF _ assms(1,2)] assms(3)
    by (auto simp: token_mv_def token_usable_def)
  have "tokens_ok ?d" by (rule tokens.run_inv [OF assms(1)])
  then have row: "token_row ?d (tk_key t) = Some (k, s)" using token_row_unique s by metis
  show ?thesis using s(2) assms(4)
    by (simp add: refresh_def refresh_access_token_def row respond_def db_of_def as_denied_def with_auth_def authenticate_def)
qed

section \<open>Access tokens\<close>


section \<open>Concrete instances\<close>

text \<open>A signer that writes the account and the second in unary.\<close>

definition signed_at :: "nat \<Rightarrow> env" where
  "signed_at t = default_env\<lparr>now := t, ACCESS_TOKEN_TTL_SECONDS := 4,
     signing_dumps := (\<lambda>_ p s. (case p of (_, JNat k) # _ \<Rightarrow> replicate k (CHR ''u'') | _ \<Rightarrow> []) @ replicate s (CHR ''s'')),
     signing_loads := (\<lambda>_ s. if s \<noteq> [] \<and> set s \<subseteq> {CHR ''u'', CHR ''s''} then
       Some ([(''uid'', JNat (length (takeWhile (\<lambda>c. c = CHR ''u'') s)))], length (filter (\<lambda>c. c = CHR ''s'') s)) else None),
     auth_backend := (\<lambda>_ pw _. if pw = ''root'' then Some 1 else None)\<rparr>"

definition demo_account :: "nat \<Rightarrow> role_code \<Rightarrow> bool \<Rightarrow> user" where
  "demo_account k role super = \<lparr>u_pk = k, u_role = role, u_is_superuser = super, u_is_active = True, u_perms = []\<rparr>"

definition demo_profile :: "string \<Rightarrow> profile" where
  "demo_profile email = \<lparr>pf_email = email, pf_first_name = [], pf_last_name = [], pf_phone = [], pf_timezone = [],
     pf_password = [], pf_other_perms = []\<rparr>"

definition demo_token :: "nat \<Rightarrow> string \<Rightarrow> api_token" where
  "demo_token k key = \<lparr>tk_user = k, tk_name = [], tk_key = key, tk_is_active = True, tk_expires_at = Some 100, tk_last_used_at = None\<rparr>"

text \<open>A superuser in HR, a system administrator and a viewer who holds a token.\<close>

definition demo_accounts_db :: db where
  "demo_accounts_db = empty_db\<lparr>users := [demo_account 1 HR True, demo_account 2 SYSTEM_ADMIN False, demo_account 3 MANAGEMENT_VIEWER False],
     profiles := \<lparr>tbl_rows = [(1, demo_profile ''a''), (2, demo_profile ''b''), (3, demo_profile ''c'')], tbl_next = 4\<rparr>,
     api_tokens := \<lparr>tbl_rows = [(1, demo_token 3 ''key'')], tbl_next = 2\<rparr>\<rparr>"

definition root_token :: string where
  "root_token = ''us''"

definition demo_requests :: "(env \<times> account_request) list" where
  "demo_requests = [(signed_at 2, Bearer root_token (UserDisable 3)), (signed_at 3, Bearer ''key'' (CreateToken ''mine'' None)),
     (signed_at 4, Bearer root_token (UserActivate 3))]"

lemmas account_eval = demo_accounts_db_def demo_requests_def root_token_def demo_account_def demo_profile_def demo_token_def signed_at_def
  empty_db_def default_env_def ACCESS_TOKEN_SALT_def
  with_auth_def authenticate_def decode_access_token_def loads_def access_token_max_age_def create_access_token_def
  token_row_def token_usable_def touch_token_def get_user_def respond_def admin_target_or_404_def with_profile_def permit_def
  is_system_admin_def user_disable_def deactivate_user_def user_activate_def activate_user_def user_update_def update_user_def
  protect_last_active_administrator_def user_changes_def changed_def updated_user_def updated_profile_def no_update_def given_def
  role_value_def bool_value_def save_user_def profile_fits_def sync_user_role_group_def revoke_active_tokens_def account_audit_def
  record_audit_def create_token_def issue_api_token_def db_of_def is_active_account_def is_administrator_def standing_def
  tbl_get_def tbl_exists_def tbl_insert_def tbl_put_def tbl_update_where_def tbl_empty_def tbl_where_def

abbreviation demo_accounts :: db where
  "demo_accounts \<equiv> run_calls account_step demo_accounts_db demo_requests"

lemma demo_accounts_wf: "accounts_wf demo_accounts_db" "tokens_ok demo_accounts_db"
  by (auto simp: accounts_wf_def demo_accounts_db_def demo_account_def empty_db_def tbl_wf_def standing_def get_user_def
      table_ok_def tbl_unique_def tbl_all_def tbl_get_def)

text \<open>The viewer is disabled, the token is refused, the viewer is active again, the token stays revoked.\<close>

lemma demo_accounts_run:
  "is_active_account demo_accounts 3 \<and> map_option tk_is_active (tbl_get (api_tokens demo_accounts) 1) = Some False \<and>
   map (fst \<circ> (\<lambda>n. account_response (run_calls account_step demo_accounts_db (take n demo_requests)) (demo_requests ! n))) [0, 1, 2] =
     [Inr (), Inl Unauthorized, Inr ()]"
  by (simp add: account_eval Let_def ex_bool_eq)

theorem administrator_remains_witness: "\<exists>j. is_administrator demo_accounts j"
  by (rule administrator_remains [OF demo_accounts_wf(1), of 2]) (simp add: account_eval ex_bool_eq)


definition disabled_db :: db where
  "disabled_db = run_calls account_step demo_accounts_db (take 1 demo_requests)"

theorem dead_token_stays_dead_witness:
  "\<exists>t. tbl_get (api_tokens disabled_db) 1 = Some t \<and> \<not> token_usable (signed_at 5) t \<and>
     refresh (signed_at 5) ''key'' (run_calls account_step disabled_db (drop 1 demo_requests)) =
       (Inl PermissionDenied, run_calls account_step disabled_db (drop 1 demo_requests))"
proof -
  have ok: "tokens_ok disabled_db" unfolding disabled_db_def by (rule tokens.run_inv [OF demo_accounts_wf(2)])
  obtain t where t: "tbl_get (api_tokens disabled_db) 1 = Some t" "tk_key t = ''key''" "\<not> tk_is_active t"
    unfolding disabled_db_def by (simp add: account_eval Let_def)
  then have dead: "\<not> token_usable (signed_at 5) t" by (simp add: token_usable_def)
  have "decode_access_token (signed_at 5) (tk_key t) = None" by (simp add: t(2) account_eval)
  from dead_token_stays_dead [OF ok t(1) dead this, of "drop 1 demo_requests"] t dead show ?thesis by auto
qed

theorem disabled_account_locked_out_witness:
  "\<exists>xs e' admin_token c ys u. drop 1 demo_requests = xs @ (e', Bearer admin_token c) # ys \<and> activates 3 c \<and>
     fst (authenticate e' admin_token (run_calls account_step disabled_db xs)) = Some u \<and> is_system_admin u"
proof (rule disabled_account_locked_out)
  show "accounts_wf disabled_db"
    using account_step_effect [OF demo_accounts_wf(1), of "(signed_at 2, Bearer root_token (UserDisable 3))"]
    by (simp add: disabled_db_def demo_requests_def request_effect_def)
  show "3 < tbl_next (profiles disabled_db)" "\<not> is_active_account disabled_db 3"
    unfolding disabled_db_def by (simp_all add: account_eval Let_def ex_bool_eq)
  show "fst (authenticate (signed_at 5) ''uuusssss'' (run_calls account_step disabled_db (drop 1 demo_requests))) =
    Some (the (get_user demo_accounts 3))" "u_pk (the (get_user demo_accounts 3)) = 3"
    unfolding disabled_db_def by (simp_all add: account_eval Let_def)
qed

section \<open>What the rules do not protect\<close>

text \<open>
  Disabling an account skips the check that editing and deleting make: a superuser disables the last
  account with the role of a system administrator, which the edit refuses.
\<close>

theorem disable_skips_last_administrator:
  "(\<exists>d. user_disable 2 (demo_account 1 HR True) demo_accounts_db = (Inr (), d) \<and>
      \<not> list_ex (\<lambda>v. u_role v = SYSTEM_ADMIN \<and> u_is_active v) (users d)) \<and>
   fst (user_update 2 (no_update\<lparr>ax_is_active := Some False\<rparr>) (demo_account 1 HR True) demo_accounts_db) = Inl (ValidationError [])"
  by (simp add: account_eval Let_def)

text \<open>Deactivating an account by editing it leaves its tokens as they are; they work again when it is activated.\<close>

theorem edit_leaves_tokens:
  "\<exists>d d'. user_update 3 (no_update\<lparr>ax_is_active := Some False\<rparr>) (demo_account 1 HR True) demo_accounts_db = (Inr (), d) \<and>
     \<not> is_active_account d 3 \<and> user_activate 3 (demo_account 1 HR True) d = (Inr (), d') \<and>
     map_option u_pk (fst (authenticate (signed_at 5) ''key'' d')) = Some 3"
  by (simp add: account_eval Let_def)

text \<open>
  A password reset answers that the active sessions are revoked; an access token issued before still
  authenticates afterwards, until it expires.
\<close>

theorem reset_keeps_access_tokens:
  "\<exists>d. user_password_reset (signed_at 3) 3 ''long-enough'' (demo_account 1 HR True) demo_accounts_db = (Inr (), d) \<and>
     map_option u_pk (fst (authenticate (signed_at 5) (create_access_token (signed_at 2) 3) d)) = Some 3"
  by (simp add: account_eval user_password_reset_def set_password_def numeral_2_eq_2 numeral_3_eq_3 Let_def)

text \<open>
  Someone who has done nothing but belongs to a conversation is neither deleted nor deactivated: the
  deletion fails on the protected membership, and the audit entry that says it happened stays.
\<close>

theorem delete_of_a_member_fails:
  "\<exists>d. user_delete 2 (demo_account 1 HR True)
       (demo_accounts_db\<lparr>users := [demo_account 1 HR True, demo_account 2 MANAGEMENT_VIEWER False],
         memberships := \<lparr>tbl_rows = [(1, \<lparr>cm_conversation = 1, cm_user = 2, cm_joined_at = 1, cm_left_at = None, cm_is_active = True,
           cm_last_read_at = None, cm_created_by = Some 1, cm_updated_by = Some 1\<rparr>)], tbl_next = 2\<rparr>\<rparr>) = (Inl IntegrityError, d) \<and>
     is_active_account d 2 \<and> map au_action (audits d) = [A_DELETE]"
  by (simp add: user_delete_def permanently_delete_user_def protected_relations_def delete_user_def protects_def account_eval Let_def)

end
