(* ===== verification/Downloads.thy ===== *)
theory Downloads
  imports Accounts Inspections Issues Cleaners
begin

text \<open>
  Private files: the signed links of \<open>apps/core/files.py\<close>, the endpoints of \<open>apps/site_management/api.py\<close> that make
  one and the endpoint of \<open>apps/core/api.py\<close> that serves the file. A row keeps the content of its file, so a
  file that is missing from the storage is not modelled; the models without a \<open>file\<close> column have no file.
\<close>

section \<open>Links\<close>

definition FILE_TOKEN_SALT :: string where
  "FILE_TOKEN_SALT = ''whitebird.private-file''"

definition file_token_ttl_seconds :: "env \<Rightarrow> int" where
  "file_token_ttl_seconds e = (if FILE_TOKEN_TTL_SECONDS e \<noteq> 0 then FILE_TOKEN_TTL_SECONDS e else SETTINGS_FILE_TOKEN_TTL_SECONDS e)"

definition file_payload :: "nat \<Rightarrow> string \<Rightarrow> nat \<Rightarrow> (string \<times> json) list" where
  "file_payload user model_name object_id =
     [(''type'', JStr ''file''), (''uid'', JNat user), (''model'', JStr (''site_management.'' @ model_name)), (''oid'', JStr (str_nat object_id))]"

definition create_file_token :: "env \<Rightarrow> nat \<Rightarrow> string \<Rightarrow> nat \<Rightarrow> string" where
  "create_file_token e user model_name object_id =
     signing_dumps e FILE_TOKEN_SALT (file_payload user model_name object_id) (now e)"

definition decode_file_token :: "env \<Rightarrow> string \<Rightarrow> (string \<times> json) list option" where
  "decode_file_token e token =
     (case loads e FILE_TOKEN_SALT token (file_token_ttl_seconds e) of None \<Rightarrow> None
      | Some payload \<Rightarrow> if map_of payload ''type'' = Some (JStr ''file'') then Some payload else None)"

section \<open>Endpoints that make a link\<close>

definition can_view_document :: "user \<Rightarrow> bool" where
  "can_view_document u \<longleftrightarrow> is_system_admin u \<or> u_role u = HR \<or> has_perm u ''accounts.view_sensitive_cleaner_documents''"

definition document_download_url :: "env \<Rightarrow> user \<Rightarrow> nat \<Rightarrow> nat \<Rightarrow> db \<Rightarrow> string res" where
  "document_download_url e u cleaner k d = permit (management_required u)
     (load_document_or_404 d cleaner k (\<lambda>_. permit (can_view_document u) (Inr (create_file_token e (u_pk u) ''cleanerdocument'' k))))"

definition inspection_result_download_url :: "env \<Rightarrow> user \<Rightarrow> nat \<Rightarrow> nat \<Rightarrow> db \<Rightarrow> string res" where
  "inspection_result_download_url e u inspection k d = permit (inspection_read u) (load_or_404 (inspections d) inspection (\<lambda>(_, i).
     permit (site_in_user_scope e d u (Some (in_site i))) (found (tbl_get (results d) k) (\<lambda>r.
       if ir_inspection r \<noteq> inspection \<or> ir_file r = None then Inl Http404
       else Inr (create_file_token e (u_pk u) ''inspectionresult'' k)))))"

definition job_photo_download_url :: "env \<Rightarrow> user \<Rightarrow> nat \<Rightarrow> db \<Rightarrow> string res" where
  "job_photo_download_url e u k d = permit (report_read u) (load_or_404 (jobs d) k (\<lambda>(_, j).
     permit (site_in_user_scope e d u (Some (jb_site j)))
       (if jb_file j = None then Inl Http404 else Inr (create_file_token e (u_pk u) ''job'' k))))"

section \<open>The download\<close>

definition row_with_pk :: "string \<Rightarrow> 'r table \<Rightarrow> (nat \<times> 'r) option" where
  \<comment> \<open>\<open>model.objects.filter(pk=oid).first()\<close>\<close>
  "row_with_pk oid t = (case tbl_where (\<lambda>k _. str_nat k = oid) t of [] \<Rightarrow> None | x # _ \<Rightarrow> Some x)"

definition private_file :: "db \<Rightarrow> string \<Rightarrow> string \<Rightarrow> (nat \<times> upload) option" where
  \<comment> \<open>the file of the row a label and a key name, if the model has a \<open>file\<close> and the row one\<close>
  "private_file d label oid =
     (if label = ''site_management.cleanerdocument'' then map_option (\<lambda>(k, r). (k, cd_file r)) (row_with_pk oid (documents d))
      else if label = ''site_management.conversationmessageattachment'' then map_option (\<lambda>(k, r). (k, mx_file r)) (row_with_pk oid (attachments d))
      else if label = ''site_management.inspectionresult'' then
        Option.bind (row_with_pk oid (results d)) (\<lambda>(k, r). map_option (Pair k) (ir_file r))
      else if label = ''site_management.job'' then Option.bind (row_with_pk oid (jobs d)) (\<lambda>(k, r). map_option (Pair k) (jb_file r))
      else None)"

definition audit_file_download :: "nat \<Rightarrow> string \<Rightarrow> nat \<Rightarrow> db \<Rightarrow> db" where
  "audit_file_download user label k d = record_audit A_FILE_DOWNLOAD (Some user) label k None None d"

definition signed_file_download :: "env \<Rightarrow> user \<Rightarrow> string \<Rightarrow> db \<Rightarrow> (upload \<times> db) res" where
  "signed_file_download e u token d =
     (case decode_file_token e token of None \<Rightarrow> Inl Http404
      | Some payload \<Rightarrow>
          if map_of payload ''uid'' \<noteq> Some (JNat (u_pk u)) \<and> \<not> is_system_admin u then Inl Forbidden
          else (case (map_of payload ''model'', map_of payload ''oid'') of
              (Some (JStr label), Some (JStr oid)) \<Rightarrow>
                (case private_file d label oid of None \<Rightarrow> Inl Http404
                 | Some (k, f) \<Rightarrow> Inr (f, audit_file_download (u_pk u) label k d))
            | _ \<Rightarrow> Inl Http404))"

section \<open>A link opens its file\<close>

lemma row_with_pk_str_nat:
  assumes "tbl_wf t"
  shows "row_with_pk (str_nat k) t = map_option (Pair k) (tbl_get t k)"
proof (cases "tbl_get t k")
  case None
  then have "tbl_where (\<lambda>j _. j = k) t = []"
    using assms by (auto simp: tbl_where_def filter_empty_conv tbl_get_mem)
  then show ?thesis using None by (simp add: row_with_pk_def)
next
  case (Some r)
  then have "(k, r) \<in> set (tbl_where (\<lambda>j _. j = k) t)" by (simp add: tbl_get_in)
  then obtain x xs where x: "tbl_where (\<lambda>j _. j = k) t = x # xs" by (cases "tbl_where (\<lambda>j _. j = k) t") auto
  have "\<forall>y \<in> set (tbl_where (\<lambda>j _. j = k) t). y = (k, r)" using assms Some by (auto simp: tbl_get_mem)
  then have "x = (k, r)" unfolding x by simp
  then show ?thesis using Some x by (simp add: row_with_pk_def)
qed

definition genuine :: "env \<Rightarrow> env \<Rightarrow> nat \<Rightarrow> string \<Rightarrow> nat \<Rightarrow> bool" where
  \<comment> \<open>the signer of the second moment reads what the signer of the first one signed\<close>
  "genuine e e' user model_name k \<longleftrightarrow>
     signing_loads e' FILE_TOKEN_SALT (create_file_token e user model_name k) = Some (file_payload user model_name k, now e)"

definition in_time :: "env \<Rightarrow> env \<Rightarrow> bool" where
  "in_time e e' \<longleftrightarrow> int (now e') \<le> int (now e) + file_token_ttl_seconds e'"

lemma decode_created:
  "genuine e e' user model_name k \<Longrightarrow>
     decode_file_token e' (create_file_token e user model_name k) = (if in_time e e' then Some (file_payload user model_name k) else None)"
  by (auto simp: genuine_def decode_file_token_def loads_def in_time_def file_payload_def)


text \<open>A link is only made for someone who may see the document.\<close>

lemma document_link_permission:
  "document_download_url e u cleaner k d = Inr token \<Longrightarrow>
     management_required u \<and> can_view_document u \<and> (\<exists>r. tbl_get (documents d) k = Some r \<and> cd_cleaner r = cleaner)"
  by (auto simp: document_download_url_def load_document_or_404_def res_simps split: if_splits)

section \<open>Concrete instances\<close>

definition link_env :: "nat \<Rightarrow> env" where
  "link_env t = default_env\<lparr>now := t, FILE_TOKEN_TTL_SECONDS := 4, signing_dumps := (\<lambda>_ _ s. replicate s (CHR ''s'')),
     signing_loads := (\<lambda>_ s. Some (file_payload 5 ''cleanerdocument'' 1, length s))\<rparr>"

definition link_owner :: user where
  "link_owner = \<lparr>u_pk = 5, u_role = HR, u_is_superuser = False, u_is_active = True, u_perms = []\<rparr>"

definition link_document :: cleaner_document where
  "link_document = \<lparr>cd_cleaner = 1, cd_document_type = DOC_NIDA, cd_document_number = [],
     cd_file = \<lparr>up_name = ''id.pdf'', up_content_type = [], up_size = 1, up_content = ''scan''\<rparr>, cd_original_filename = ''id.pdf'',
     cd_content_type = [], cd_size_bytes = 1, cd_uploaded_by = None, cd_file_hash = [], cd_status = DS_PENDING, cd_verified_by = None,
     cd_verified_at = None, cd_rejection_reason = [], cd_expires_at = None, cd_is_primary_id = False, cd_created_by = None,
     cd_updated_by = None\<rparr>"

definition link_db :: db where
  "link_db = empty_db\<lparr>documents := \<lparr>tbl_rows = [(1, link_document)], tbl_next = 2\<rparr>\<rparr>"


end
