(* ===== verification/SiteConfig.thy ===== *)
theory SiteConfig
  imports Endpoints "HOL-Library.While_Combinator"
begin

text \<open>
  The configuration of the organisation: zones, shifts, areas, operational roles, departments, assets and
  staff assignments (\<open>apps/site_management/services.py\<close>, the rules of their models and validators) with their
  endpoints in \<open>api.py\<close> and the two notification tasks of \<open>tasks.py\<close>. Most of these models hide
  their inactive rows from the default manager, which validation uses too; the
  unique columns of the database see every row.
\<close>

section \<open>Unused codes\<close>

text \<open>
  \<open>while ...filter(code=candidate).exists()\<close>: the candidate and the counter. \<open>None\<close> is a loop that does not end.
\<close>

definition next_unused :: "string list \<Rightarrow> string \<Rightarrow> string \<Rightarrow> (string \<times> nat) option" where
  "next_unused taken stem raw = while_option (\<lambda>(c, n). c \<in> set taken) (\<lambda>(c, n). (stem @ str_nat n, Suc n)) (raw, 2)"

definition active_values :: "('r \<Rightarrow> bool) \<Rightarrow> ('r \<Rightarrow> string) \<Rightarrow> 'r table \<Rightarrow> string list" where
  "active_values active column t = map (column \<circ> snd) (tbl_where (\<lambda>_. active) t)"

definition or_default :: "string \<Rightarrow> string \<Rightarrow> string" where
  "or_default s fallback = (if s = [] then fallback else s)"

definition compact_code :: "env \<Rightarrow> string \<Rightarrow> string" where
  "compact_code e base = filter (\<lambda>c. c \<noteq> CHR ''-'') (upper (slugify e base))"

definition unique_slug :: "env \<Rightarrow> db \<Rightarrow> string \<Rightarrow> (string \<times> nat) option" where
  "unique_slug e d base =
     (let candidate = or_default (slugify e base) ''item''
      in next_unused (active_values si_is_active si_slug (sites d)) (candidate @ ''-'') candidate)"

definition unique_code :: "env \<Rightarrow> db \<Rightarrow> string \<Rightarrow> (string \<times> nat) option" where
  "unique_code e d base =
     (let raw = or_default (take 8 (compact_code e base)) ''SITE''
      in next_unused (active_values si_is_active si_code (sites d)) (take 7 raw) raw)"

definition unique_zone_code :: "env \<Rightarrow> db \<Rightarrow> string \<Rightarrow> (string \<times> nat) option" where
  "unique_zone_code e d base =
     (let raw = or_default (take (8 - 2) (compact_code e base)) ''ZONE''
      in next_unused (active_values zn_is_active zn_code (zones d)) (take (8 - 1) raw) raw)"

section \<open>Zones\<close>

definition audit_zone :: "audit_action \<Rightarrow> user \<Rightarrow> nat \<Rightarrow> zone option \<Rightarrow> zone option \<Rightarrow> db \<Rightarrow> db" where
  "audit_zone a actor k before after =
     record_audit a (Some (u_pk actor)) ''site_management.zone'' k (map_option SnapZone before) (map_option SnapZone after)"

definition code_taken :: "db \<Rightarrow> nat \<Rightarrow> zone \<Rightarrow> bool" where
  "code_taken d k z \<longleftrightarrow> tbl_exists (\<lambda>j b. j \<noteq> k \<and> zn_code b = zn_code z) (zones d)"

text \<open>\<open>zone.save()\<close>: the widths and the unique column of the database.\<close>

definition insert_zone :: "zone \<Rightarrow> db \<Rightarrow> (nat \<times> db) res" where
  "insert_zone z d =
     (if 160 < length (zn_name z) \<or> 12 < length (zn_code z) then Inl DataError
      else if code_taken d (tbl_next (zones d)) z then Inl IntegrityError
      else Inr (tbl_next (zones d), d\<lparr>zones := tbl_insert z (zones d)\<rparr>))"

definition create_zone :: "env \<Rightarrow> string \<Rightarrow> string \<Rightarrow> user \<Rightarrow> db \<Rightarrow> (nat \<times> db) res" where
  "create_zone e name description actor d =
     (let z = \<lparr>zn_name = name, zn_code = fst (the (unique_zone_code e d name)), zn_description = description,
               zn_boundary = ''{}'', zn_is_active = True, zn_created_by = Some (u_pk actor), zn_updated_by = Some (u_pk actor)\<rparr>
      in rbind (insert_zone z d) (\<lambda>(k, d1). Inr (k, audit_zone A_CREATE actor k None (Some z) d1)))"

definition update_zone :: "nat \<times> zone \<Rightarrow> string option \<Rightarrow> string option \<Rightarrow> user \<Rightarrow> db \<Rightarrow> db res" where
  "update_zone x name description actor d =
     (let k = fst x; z = snd x;
          z' = z\<lparr>zn_name := given name (zn_name z), zn_description := given description (zn_description z),
                 zn_updated_by := Some (u_pk actor)\<rparr>
      in if 160 < length (zn_name z') then Inl DataError
         else Inr (audit_zone A_UPDATE actor k (Some z) (Some z') (d\<lparr>zones := tbl_update_where (\<lambda>j _. j = k)
           (\<lambda>r. r\<lparr>zn_name := zn_name z', zn_description := zn_description z', zn_updated_by := zn_updated_by z'\<rparr>) (zones d)\<rparr>)))"

definition set_zone_active :: "nat \<Rightarrow> bool \<Rightarrow> user \<Rightarrow> db \<Rightarrow> db" where
  "set_zone_active k active actor d = d\<lparr>zones := tbl_update_where (\<lambda>j _. j = k)
     (\<lambda>z. z\<lparr>zn_is_active := active, zn_updated_by := Some (u_pk actor)\<rparr>) (zones d)\<rparr>"

text \<open>The snapshot is taken after the instance was changed.\<close>

definition deactivate_zone :: "nat \<times> zone \<Rightarrow> user \<Rightarrow> db \<Rightarrow> db" where
  "deactivate_zone x actor d = audit_zone A_ARCHIVE actor (fst x)
     (Some ((snd x)\<lparr>zn_is_active := False, zn_updated_by := Some (u_pk actor)\<rparr>)) None (set_zone_active (fst x) False actor d)"

definition restore_zone :: "nat \<times> zone \<Rightarrow> user \<Rightarrow> db \<Rightarrow> db" where
  "restore_zone x actor d = audit_zone A_RESTORE actor (fst x) None None (set_zone_active (fst x) True actor d)"

text \<open>
  \<open>zone.full_clean()\<close> looks for the code among the zones the default manager shows, which are the active ones.
\<close>

definition zone_clean :: "db \<Rightarrow> nat \<Rightarrow> zone \<Rightarrow> bool" where
  "zone_clean d k z \<longleftrightarrow> text_column False 160 (zn_name z) \<and> text_column False 12 (zn_code z) \<and>
     \<not> tbl_exists (\<lambda>j b. zn_is_active b \<and> j \<noteq> k \<and> zn_code b = zn_code z) (zones d)"

section \<open>Shifts\<close>

definition WORKING_DAYS :: "string list" where
  "WORKING_DAYS = [''mon'', ''tue'', ''wed'', ''thu'', ''fri'', ''sat'', ''sun'']"

definition validate_effective_days :: "string list \<Rightarrow> bool" where
  "validate_effective_days days \<longleftrightarrow> set days \<subseteq> set WORKING_DAYS \<and> days \<noteq> []"

definition site_shift_clean :: "db \<Rightarrow> nat \<Rightarrow> site_shift \<Rightarrow> bool" where
  "site_shift_clean d k s \<longleftrightarrow> text_column False 160 (sh_shift_name s) \<and> text_column True 16 (sh_shift_code s) \<and>
     sh_sequence s \<le> 32767 \<and> validate_effective_days (sh_effective_days s) \<and>
     \<not> (sh_is_active s \<and> tbl_exists (\<lambda>j b. sh_is_active b \<and> j \<noteq> k \<and> sh_site b = sh_site s \<and>
          (sh_shift_name b = sh_shift_name s \<or> sh_shift_code s \<noteq> [] \<and> sh_shift_code b = sh_shift_code s)) (shifts d))"

definition validate_shift_work_mode :: "site \<Rightarrow> nat \<Rightarrow> unit res" where
  "validate_shift_work_mode s active_after =
     (if si_work_mode s = WM_FULL_TIME \<and> 0 < active_after then Inl (ValidationError ''work_mode_conflict'')
      else if si_work_mode s = WM_SHIFT \<and> active_after = 0 then Inl (ValidationError ''work_mode_conflict'')
      else Inr ())"

definition active_shifts :: "db \<Rightarrow> nat \<Rightarrow> (nat \<times> site_shift) list" where
  "active_shifts d site = tbl_where (\<lambda>_ b. sh_is_active b \<and> sh_site b = site) (shifts d)"

definition audit_site_shift :: "audit_action \<Rightarrow> user \<Rightarrow> nat \<Rightarrow> site_shift option \<Rightarrow> site_shift option \<Rightarrow> db \<Rightarrow> db" where
  "audit_site_shift a actor k before after =
     record_audit a (Some (u_pk actor)) ''site_management.siteshift'' k (map_option SnapShift before) (map_option SnapShift after)"

definition create_shift ::
  "nat \<times> site \<Rightarrow> string \<Rightarrow> clock \<Rightarrow> clock \<Rightarrow> string list \<Rightarrow> string \<Rightarrow> nat \<Rightarrow> string \<Rightarrow> user \<Rightarrow> db \<Rightarrow> (nat \<times> db) res" where
  "create_shift site name start_time end_time days code sequence description actor d =
     (let s = \<lparr>sh_site = fst site, sh_shift_name = name, sh_shift_code = code, sh_start_time = start_time, sh_end_time = end_time,
               sh_effective_days = days, sh_sequence = sequence, sh_description = description, sh_is_active = True,
               sh_created_by = Some (u_pk actor), sh_updated_by = Some (u_pk actor)\<rparr>;
          k = tbl_next (shifts d)
      in if \<not> site_shift_clean d k s then Inl FullClean
         else rbind (validate_shift_work_mode (snd site) 1) (\<lambda>_.
           Inr (k, audit_site_shift A_CREATE actor k None (Some s) (d\<lparr>shifts := tbl_insert s (shifts d)\<rparr>))))"

text \<open>\<open>shift.site\<close>, whose row a foreign key keeps in place.\<close>

definition site_of_shift :: "db \<Rightarrow> site_shift \<Rightarrow> (site \<Rightarrow> 'a res) \<Rightarrow> 'a res" where
  "site_of_shift d s f = (case tbl_get (sites d) (sh_site s) of None \<Rightarrow> Inl DoesNotExist | Some x \<Rightarrow> f x)"

definition update_shift ::
  "nat \<times> site_shift \<Rightarrow> user \<Rightarrow> string option \<Rightarrow> string option \<Rightarrow> clock option \<Rightarrow> clock option \<Rightarrow> string list option \<Rightarrow>
   nat option \<Rightarrow> string option \<Rightarrow> db \<Rightarrow> db res" where
  "update_shift x actor name code start_time end_time days sequence description d =
     (let k = fst x; s = snd x;
          s' = s\<lparr>sh_shift_name := given name (sh_shift_name s), sh_shift_code := given code (sh_shift_code s),
                 sh_start_time := given start_time (sh_start_time s), sh_end_time := given end_time (sh_end_time s),
                 sh_effective_days := given days (sh_effective_days s), sh_sequence := given sequence (sh_sequence s),
                 sh_description := given description (sh_description s), sh_updated_by := Some (u_pk actor)\<rparr>
      in if \<not> site_shift_clean d k s' then Inl FullClean
         else site_of_shift d s (\<lambda>site. rbind (validate_shift_work_mode site (length (active_shifts d (sh_site s)))) (\<lambda>_.
           Inr (audit_site_shift A_UPDATE actor k (Some s) (Some s') (d\<lparr>shifts := tbl_put k s' (shifts d)\<rparr>)))))"

text \<open>Of the three related names the property asks for, the attendance records exist.\<close>

definition shift_has_operational_usage :: "db \<Rightarrow> nat \<Rightarrow> bool" where
  "shift_has_operational_usage d k \<longleftrightarrow> tbl_exists (\<lambda>_ r. ar_shift r = Some k) (attendance d)"

definition set_shift_inactive :: "nat \<Rightarrow> user \<Rightarrow> db \<Rightarrow> db" where
  "set_shift_inactive k actor d = d\<lparr>shifts := tbl_update_where (\<lambda>j _. j = k)
     (\<lambda>s. s\<lparr>sh_is_active := False, sh_updated_by := Some (u_pk actor)\<rparr>) (shifts d)\<rparr>"

definition deactivate_shift :: "nat \<times> site_shift \<Rightarrow> user \<Rightarrow> db \<Rightarrow> db res" where
  "deactivate_shift x actor d =
     (let k = fst x; s = snd x
      in if shift_has_operational_usage d k then Inl (ValidationError [])
         else site_of_shift d s (\<lambda>site.
           rbind (validate_shift_work_mode site (length (filter (\<lambda>y. fst y \<noteq> k) (active_shifts d (sh_site s))))) (\<lambda>_.
             Inr (audit_site_shift A_ARCHIVE actor k (Some (s\<lparr>sh_is_active := False, sh_updated_by := Some (u_pk actor)\<rparr>)) None
               (set_shift_inactive k actor d)))))"

section \<open>Areas\<close>

definition area_clean :: "db \<Rightarrow> nat \<Rightarrow> site_area \<Rightarrow> bool" where
  "area_clean d k a \<longleftrightarrow> text_column False 160 (sa_name a) \<and> text_column True 16 (sa_code a) \<and> text_column True 32 (sa_floor a) \<and>
     \<not> tbl_exists (\<lambda>j b. sa_is_active b \<and> j \<noteq> k \<and> sa_site b = sa_site a \<and> sa_name b = sa_name a) (areas d)"

definition area_name_taken :: "db \<Rightarrow> nat \<Rightarrow> site_area \<Rightarrow> bool" where
  "area_name_taken d k a \<longleftrightarrow> tbl_exists (\<lambda>j b. j \<noteq> k \<and> sa_site b = sa_site a \<and> sa_name b = sa_name a) (areas d)"

definition audit_area :: "audit_action \<Rightarrow> user \<Rightarrow> nat \<Rightarrow> site_area option \<Rightarrow> site_area option \<Rightarrow> db \<Rightarrow> db" where
  "audit_area a actor k before after =
     record_audit a (Some (u_pk actor)) ''site_management.sitearea'' k (map_option SnapArea before) (map_option SnapArea after)"

definition create_area :: "nat \<Rightarrow> string \<Rightarrow> string \<Rightarrow> string \<Rightarrow> string \<Rightarrow> user \<Rightarrow> db \<Rightarrow> (nat \<times> db) res" where
  "create_area site name code fl description actor d =
     (let a = \<lparr>sa_site = site, sa_name = name, sa_code = code, sa_floor = fl, sa_description = description, sa_is_active = True,
               sa_created_by = Some (u_pk actor), sa_updated_by = Some (u_pk actor)\<rparr>;
          k = tbl_next (areas d)
      in if \<not> area_clean d k a then Inl FullClean else if area_name_taken d k a then Inl IntegrityError
         else Inr (k, audit_area A_CREATE actor k None (Some a) (d\<lparr>areas := tbl_insert a (areas d)\<rparr>)))"

definition update_area ::
  "nat \<times> site_area \<Rightarrow> user \<Rightarrow> string option \<Rightarrow> string option \<Rightarrow> string option \<Rightarrow> string option \<Rightarrow> db \<Rightarrow> db res" where
  "update_area x actor name code fl description d =
     (let k = fst x; a = snd x;
          a' = a\<lparr>sa_name := given name (sa_name a), sa_code := given code (sa_code a), sa_floor := given fl (sa_floor a),
                 sa_description := given description (sa_description a), sa_updated_by := Some (u_pk actor)\<rparr>
      in if \<not> area_clean d k a' then Inl FullClean else if area_name_taken d k a' then Inl IntegrityError
         else Inr (audit_area A_UPDATE actor k (Some a) (Some a') (d\<lparr>areas := tbl_put k a' (areas d)\<rparr>)))"

text \<open>Of the three related names the property asks for, the inspections exist; the schedules go by another name.\<close>

definition area_has_operational_usage :: "db \<Rightarrow> nat \<Rightarrow> bool" where
  "area_has_operational_usage d k \<longleftrightarrow> tbl_exists (\<lambda>_ i. in_area i = k) (inspections d)"

definition deactivate_area :: "nat \<times> site_area \<Rightarrow> user \<Rightarrow> db \<Rightarrow> db res" where
  "deactivate_area x actor d =
     (let k = fst x
      in if area_has_operational_usage d k then Inl (ValidationError [])
         else Inr (audit_area A_ARCHIVE actor k (Some ((snd x)\<lparr>sa_is_active := False, sa_updated_by := Some (u_pk actor)\<rparr>)) None
           (d\<lparr>areas := tbl_update_where (\<lambda>j _. j = k)
              (\<lambda>a. a\<lparr>sa_is_active := False, sa_updated_by := Some (u_pk actor)\<rparr>) (areas d)\<rparr>)))"

section \<open>Operational roles\<close>

definition role_clean :: "db \<Rightarrow> nat \<Rightarrow> operational_role \<Rightarrow> bool" where
  "role_clean d k r \<longleftrightarrow> text_column False 120 (op_name r) \<and> text_column False 24 (op_code r) \<and>
     \<not> tbl_exists (\<lambda>j b. op_is_active b \<and> j \<noteq> k \<and> (op_name b = op_name r \<or> op_code b = op_code r)) (operational_roles d)"

definition role_taken :: "db \<Rightarrow> nat \<Rightarrow> operational_role \<Rightarrow> bool" where
  "role_taken d k r \<longleftrightarrow> tbl_exists (\<lambda>j b. j \<noteq> k \<and> (op_name b = op_name r \<or> op_code b = op_code r)) (operational_roles d)"

definition audit_role ::
  "audit_action \<Rightarrow> user \<Rightarrow> nat \<Rightarrow> operational_role option \<Rightarrow> operational_role option \<Rightarrow> db \<Rightarrow> db" where
  "audit_role a actor k before after = record_audit a (Some (u_pk actor)) ''site_management.operationalrole'' k
     (map_option SnapOperationalRole before) (map_option SnapOperationalRole after)"

definition create_operational_role :: "string \<Rightarrow> string \<Rightarrow> string \<Rightarrow> user \<Rightarrow> db \<Rightarrow> (nat \<times> db) res" where
  "create_operational_role name code description actor d =
     (let r = \<lparr>op_name = name, op_code = code, op_description = description, op_is_active = True,
               op_created_by = Some (u_pk actor), op_updated_by = Some (u_pk actor)\<rparr>;
          k = tbl_next (operational_roles d)
      in if \<not> role_clean d k r then Inl FullClean else if role_taken d k r then Inl IntegrityError
         else Inr (k, audit_role A_CREATE actor k None (Some r) (d\<lparr>operational_roles := tbl_insert r (operational_roles d)\<rparr>)))"

definition update_operational_role ::
  "nat \<times> operational_role \<Rightarrow> user \<Rightarrow> string option \<Rightarrow> string option \<Rightarrow> string option \<Rightarrow> db \<Rightarrow> db res" where
  "update_operational_role x actor name code description d =
     (let k = fst x; r = snd x;
          r' = r\<lparr>op_name := given name (op_name r), op_code := given code (op_code r),
                 op_description := given description (op_description r), op_updated_by := Some (u_pk actor)\<rparr>
      in if \<not> role_clean d k r' then Inl FullClean else if role_taken d k r' then Inl IntegrityError
         else Inr (audit_role A_UPDATE actor k (Some r) (Some r') (d\<lparr>operational_roles := tbl_put k r' (operational_roles d)\<rparr>)))"

text \<open>The property asks for two related names; no model gives the role either of them.\<close>

definition role_has_operational_usage :: "db \<Rightarrow> nat \<Rightarrow> bool" where
  "role_has_operational_usage d k = False"

definition deactivate_operational_role :: "nat \<times> operational_role \<Rightarrow> user \<Rightarrow> db \<Rightarrow> db res" where
  "deactivate_operational_role x actor d =
     (let k = fst x
      in if role_has_operational_usage d k then Inl (ValidationError [])
         else Inr (audit_role A_ARCHIVE actor k (Some ((snd x)\<lparr>op_is_active := False, op_updated_by := Some (u_pk actor)\<rparr>)) None
           (d\<lparr>operational_roles := tbl_update_where (\<lambda>j _. j = k)
              (\<lambda>r. r\<lparr>op_is_active := False, op_updated_by := Some (u_pk actor)\<rparr>) (operational_roles d)\<rparr>)))"

section \<open>Departments and assets\<close>

definition audit_row :: "audit_action \<Rightarrow> user \<Rightarrow> string \<Rightarrow> nat \<Rightarrow> db \<Rightarrow> db" where
  "audit_row a actor model k = record_audit a (Some (u_pk actor)) model k None None"

definition department_duplicate :: "db \<Rightarrow> nat \<Rightarrow> nat \<Rightarrow> string \<Rightarrow> bool" where
  "department_duplicate d site k name \<longleftrightarrow>
     tbl_exists (\<lambda>j b. dp_site b = site \<and> lower (dp_name b) = lower name \<and> dp_is_active b \<and> j \<noteq> k) (departments d)"

text \<open>\<open>department.save()\<close>: the width and the unique constraint of the database.\<close>

definition department_saved :: "db \<Rightarrow> nat \<Rightarrow> department \<Rightarrow> 'a res \<Rightarrow> 'a res" where
  "department_saved d k p f =
     (if 160 < length (dp_name p) then Inl DataError
      else if tbl_exists (\<lambda>j b. j \<noteq> k \<and> dp_site b = dp_site p \<and> dp_name b = dp_name p) (departments d) then Inl IntegrityError
      else f)"

definition create_department :: "nat \<Rightarrow> string \<Rightarrow> string \<Rightarrow> user \<Rightarrow> db \<Rightarrow> (nat \<times> db) res" where
  "create_department site name description actor d =
     (let p = \<lparr>dp_site = site, dp_name = name, dp_description = description, dp_is_active = True, dp_created_by = Some (u_pk actor)\<rparr>;
          k = tbl_next (departments d)
      in if department_duplicate d site k name then Inl (ValidationError [])
         else department_saved d k p (Inr (k, audit_row A_CREATE actor ''site_management.department'' k
           (d\<lparr>departments := tbl_insert p (departments d)\<rparr>))))"

definition update_department :: "nat \<times> department \<Rightarrow> string option \<Rightarrow> string option \<Rightarrow> user \<Rightarrow> db \<Rightarrow> db res" where
  "update_department x name description actor d =
     (let k = fst x; p = snd x; renamed = (name \<noteq> None \<and> lower (the name) \<noteq> lower (dp_name p));
          p' = p\<lparr>dp_name := (if renamed then the name else dp_name p), dp_description := given description (dp_description p)\<rparr>
      in if renamed \<and> department_duplicate d (dp_site p) k (the name) then Inl (ValidationError [])
         else department_saved d k p' (Inr (audit_row A_UPDATE actor ''site_management.department'' k
           (d\<lparr>departments := tbl_put k p' (departments d)\<rparr>))))"

definition deactivate_department :: "nat \<times> department \<Rightarrow> user \<Rightarrow> db \<Rightarrow> db" where
  "deactivate_department x actor d = audit_row A_DELETE actor ''site_management.department'' (fst x)
     (d\<lparr>departments := tbl_update_where (\<lambda>j _. j = fst x) (dp_is_active_update (\<lambda>_. False)) (departments d)\<rparr>)"

definition asset_saved :: "db \<Rightarrow> nat \<Rightarrow> asset \<Rightarrow> 'a res \<Rightarrow> 'a res" where
  "asset_saved d k p f =
     (if 160 < length (ac_name p) \<or> 100 < length (ac_serial_number p) \<or> 2147483647 < ac_quantity p then Inl DataError
      else if tbl_exists (\<lambda>j b. j \<noteq> k \<and> ac_site b = ac_site p \<and> ac_serial_number b = ac_serial_number p) (assets d) then Inl IntegrityError
      else f)"

definition create_asset ::
  "nat \<Rightarrow> string \<Rightarrow> nat option \<Rightarrow> string \<Rightarrow> nat \<Rightarrow> asset_condition \<Rightarrow> user \<Rightarrow> db \<Rightarrow> (nat \<times> db) res" where
  "create_asset site name category serial quantity condition actor d =
     (let p = \<lparr>ac_site = site, ac_category = category, ac_name = name, ac_serial_number = serial, ac_quantity = quantity,
               ac_condition = condition, ac_is_active = True\<rparr>;
          k = tbl_next (assets d)
      in asset_saved d k p (Inr (k, audit_row A_CREATE actor ''site_management.asset'' k (d\<lparr>assets := tbl_insert p (assets d)\<rparr>))))"

definition update_asset ::
  "nat \<times> asset \<Rightarrow> string option \<Rightarrow> nat option \<Rightarrow> string option \<Rightarrow> nat option \<Rightarrow> asset_condition option \<Rightarrow> user \<Rightarrow> db \<Rightarrow> db res" where
  "update_asset x name category serial quantity condition actor d =
     (let k = fst x; p = snd x;
          p' = p\<lparr>ac_name := given name (ac_name p), ac_category := (if category = None then ac_category p else category),
                 ac_serial_number := given serial (ac_serial_number p), ac_quantity := given quantity (ac_quantity p),
                 ac_condition := given condition (ac_condition p)\<rparr>
      in asset_saved d k p' (Inr (audit_row A_UPDATE actor ''site_management.asset'' k (d\<lparr>assets := tbl_put k p' (assets d)\<rparr>))))"

definition deactivate_asset :: "nat \<times> asset \<Rightarrow> user \<Rightarrow> db \<Rightarrow> db" where
  "deactivate_asset x actor d = audit_row A_DELETE actor ''site_management.asset'' (fst x)
     (d\<lparr>assets := tbl_update_where (\<lambda>j _. j = fst x) (ac_is_active_update (\<lambda>_. False)) (assets d)\<rparr>)"

section \<open>Staff assignments\<close>

text \<open>A background task is queued; a worker runs it later, on the database of that moment.\<close>

datatype task = NotifySiteStatusChange nat string | NotifyStaffAssigned nat

definition staff_label :: "nat \<Rightarrow> nat \<Rightarrow> staff_assignment \<Rightarrow> bool" where
  "staff_label site user a \<longleftrightarrow> sf_site a = site \<and> sf_user a = user"

definition assign_staff ::
  "nat \<Rightarrow> nat \<Rightarrow> assignment_role \<Rightarrow> bool \<Rightarrow> user \<Rightarrow> db \<Rightarrow> nat \<times> task list \<times> db" where
  "assign_staff site user role is_primary actor d =
     (case tbl_where (\<lambda>_. staff_label site user) (staff_assignments d) of
        (k, a) # _ \<Rightarrow> (k, [], audit_row A_ASSIGN actor ''site_management.staffassignment'' k
          (d\<lparr>staff_assignments := tbl_put k (a\<lparr>sf_role := role, sf_is_primary := is_primary, sf_assigned_by := Some (u_pk actor)\<rparr>)
             (staff_assignments d)\<rparr>))
      | [] \<Rightarrow> (let k = tbl_next (staff_assignments d)
               in (k, [NotifyStaffAssigned k], audit_row A_ASSIGN actor ''site_management.staffassignment'' k
                    (d\<lparr>staff_assignments := tbl_insert \<lparr>sf_site = site, sf_user = user, sf_role = role, sf_is_primary = is_primary,
                       sf_assigned_by = Some (u_pk actor)\<rparr> (staff_assignments d)\<rparr>))))"

definition unassign_staff :: "nat \<times> staff_assignment \<Rightarrow> user \<Rightarrow> db \<Rightarrow> db" where
  "unassign_staff x actor d =
     (let d1 = audit_row A_UNASSIGN actor ''site_management.staffassignment'' (fst x) d
      in d1\<lparr>staff_assignments := tbl_delete_where (\<lambda>j _. j = fst x) (staff_assignments d1)\<rparr>)"

definition set_primary_assignment :: "nat \<times> staff_assignment \<Rightarrow> user \<Rightarrow> db \<Rightarrow> db" where
  "set_primary_assignment x actor d = audit_row A_UPDATE actor ''site_management.staffassignment'' (fst x)
     (d\<lparr>staff_assignments := tbl_update_where (\<lambda>j _. j = fst x) (sf_is_primary_update (\<lambda>_. True))
        (tbl_update_where (\<lambda>_ a. sf_user a = sf_user (snd x)) (sf_is_primary_update (\<lambda>_. False)) (staff_assignments d))\<rparr>)"

definition create_notification :: "nat \<Rightarrow> string \<Rightarrow> string \<Rightarrow> db \<Rightarrow> db" where
  "create_notification recipient entity_type entity_id = notify recipient entity_type None entity_type entity_id []"

definition notify_site_status_change :: "nat \<Rightarrow> db \<Rightarrow> db" where
  "notify_site_status_change site d =
     (case active_row si_is_active (sites d) site of None \<Rightarrow> d
      | Some _ \<Rightarrow>
          let staff = map (sf_user \<circ> snd) (tbl_where (\<lambda>_ a. sf_site a = site) (staff_assignments d));
              recipients = filter (\<lambda>u. u_is_active u \<and> u_role u = SYSTEM_ADMIN \<or> u_pk u \<in> set staff) (users d)
          in fold (\<lambda>u. create_notification (u_pk u) ''site_management.site'' (str_nat site)) recipients d)"

definition notify_staff_assigned :: "nat \<Rightarrow> db \<Rightarrow> db" where
  "notify_staff_assigned k d =
     (case tbl_get (staff_assignments d) k of None \<Rightarrow> d
      | Some a \<Rightarrow> create_notification (sf_user a) ''sites.staffassignment'' (str_nat k) d)"

fun run_task :: "task \<Rightarrow> db \<Rightarrow> db" where
  "run_task (NotifySiteStatusChange k slug) d = notify_site_status_change k d"
| "run_task (NotifyStaffAssigned k) d = notify_staff_assigned k d"

definition scoped_site_ids :: "user \<Rightarrow> db \<Rightarrow> nat list" where
  "scoped_site_ids u d =
     (if is_system_admin u then map fst (tbl_where (\<lambda>_. si_is_active) (sites d))
      else map (sf_site \<circ> snd) (tbl_where (\<lambda>_ a. sf_user a = u_pk u \<and> active_row si_is_active (sites d) (sf_site a) \<noteq> None)
             (staff_assignments d)))"

section \<open>Endpoints\<close>

definition can_configure_site :: "user \<Rightarrow> bool" where
  "can_configure_site u \<longleftrightarrow> is_system_admin u \<or> u_role u = GENERAL_SUPERVISOR \<or>
     ''accounts.manage_site_configuration'' \<in> set (u_perms u)"

definition write_access :: "user \<Rightarrow> bool" where
  "write_access u \<longleftrightarrow> is_system_admin u"

definition site_config_write :: "user \<Rightarrow> bool" where
  "site_config_write u \<longleftrightarrow> can_configure_site u \<and> write_access u"

text \<open>\<open>Model.objects.filter(pk=k, ...).first()\<close> with 404 when there is none.\<close>

definition active_or_404 :: "('r \<Rightarrow> bool) \<Rightarrow> 'r table \<Rightarrow> nat \<Rightarrow> (nat \<times> 'r \<Rightarrow> 'a res) \<Rightarrow> 'a res" where
  "active_or_404 active t k f = found (active_row active t k) (\<lambda>r. f (k, r))"

definition load_site :: "db \<Rightarrow> nat \<Rightarrow> (nat \<times> site \<Rightarrow> 'a res) \<Rightarrow> 'a res" where
  "load_site d = active_or_404 si_is_active (sites d)"

definition zone_create :: "user \<Rightarrow> string \<Rightarrow> string \<Rightarrow> string \<Rightarrow> string \<Rightarrow> db \<Rightarrow> db res" where
  "zone_create u name code description boundary d =
     permit (role_required [SYSTEM_ADMIN] u)
       (let z = \<lparr>zn_name = name, zn_code = upper code, zn_description = description, zn_boundary = boundary, zn_is_active = True,
                 zn_created_by = Some (u_pk u), zn_updated_by = Some (u_pk u)\<rparr>
        in if \<not> zone_clean d (tbl_next (zones d)) z then Inl FullClean
           else rbind (insert_zone z d) (\<lambda>(k, d1). Inr (audit_zone A_CREATE u k None (Some z) d1)))"

definition zone_update ::
  "user \<Rightarrow> nat \<Rightarrow> string option \<Rightarrow> string option \<Rightarrow> string option \<Rightarrow> string option \<Rightarrow> bool option \<Rightarrow> db \<Rightarrow> db res" where
  "zone_update u k name code description boundary is_active d =
     permit (role_required [SYSTEM_ADMIN] u) (active_or_404 zn_is_active (zones d) k (\<lambda>(_, z).
       let z' = z\<lparr>zn_name := given name (zn_name z), zn_code := given (map_option upper code) (zn_code z),
                  zn_description := given description (zn_description z), zn_boundary := given boundary (zn_boundary z),
                  zn_is_active := given is_active (zn_is_active z), zn_updated_by := Some (u_pk u)\<rparr>
       in if \<not> zone_clean d k z' then Inl FullClean else if code_taken d k z' then Inl IntegrityError
          else Inr (audit_zone A_UPDATE u k (Some z) (Some z') (d\<lparr>zones := tbl_put k z' (zones d)\<rparr>))))"

definition zone_deactivate :: "user \<Rightarrow> nat \<Rightarrow> db \<Rightarrow> db res" where
  "zone_deactivate u k d =
     permit (role_required [SYSTEM_ADMIN] u) (active_or_404 zn_is_active (zones d) k (\<lambda>(_, z).
       Inr (audit_zone A_STATUS_CHANGE u k None (Some (z\<lparr>zn_is_active := False, zn_updated_by := Some (u_pk u)\<rparr>))
         (set_zone_active k False u d))))"

text \<open>A shift or an area is looked up under its site.\<close>

definition shift_or_404 :: "db \<Rightarrow> nat \<Rightarrow> nat \<Rightarrow> (nat \<times> site_shift \<Rightarrow> 'a res) \<Rightarrow> 'a res" where
  "shift_or_404 d site = active_or_404 (\<lambda>s. sh_is_active s \<and> sh_site s = site) (shifts d)"

definition area_or_404 :: "db \<Rightarrow> nat \<Rightarrow> nat \<Rightarrow> (nat \<times> site_area \<Rightarrow> 'a res) \<Rightarrow> 'a res" where
  "area_or_404 d site = active_or_404 (\<lambda>a. sa_is_active a \<and> sa_site a = site) (areas d)"

definition shift_create ::
  "user \<Rightarrow> nat \<Rightarrow> string \<Rightarrow> clock \<Rightarrow> clock \<Rightarrow> string list \<Rightarrow> string \<Rightarrow> nat \<Rightarrow> string \<Rightarrow> db \<Rightarrow> db res" where
  "shift_create u site name start_time end_time days code sequence description d =
     permit (site_config_write u) (load_site d site (\<lambda>x.
       db_of (create_shift x name start_time end_time days code sequence description u d)))"

definition shift_update ::
  "user \<Rightarrow> nat \<Rightarrow> nat \<Rightarrow> string option \<Rightarrow> string option \<Rightarrow> clock option \<Rightarrow> clock option \<Rightarrow> string list option \<Rightarrow> nat option \<Rightarrow>
   string option \<Rightarrow> db \<Rightarrow> db res" where
  "shift_update u site k name code start_time end_time days sequence description d =
     permit (site_config_write u) (shift_or_404 d site k (\<lambda>x.
       update_shift x u name code start_time end_time days sequence description d))"

definition shift_status :: "user \<Rightarrow> nat \<Rightarrow> nat \<Rightarrow> bool \<Rightarrow> db \<Rightarrow> db res" where
  "shift_status u site k is_active d =
     permit (site_config_write u) (shift_or_404 d site k (\<lambda>x.
       if is_active then update_shift x u None None None None None None None d else deactivate_shift x u d))"

definition area_create :: "user \<Rightarrow> nat \<Rightarrow> string \<Rightarrow> string \<Rightarrow> string \<Rightarrow> string \<Rightarrow> db \<Rightarrow> db res" where
  "area_create u site name code fl description d =
     permit (site_config_write u) (load_site d site (\<lambda>x. db_of (create_area (fst x) name code fl description u d)))"

definition area_update ::
  "user \<Rightarrow> nat \<Rightarrow> nat \<Rightarrow> string option \<Rightarrow> string option \<Rightarrow> string option \<Rightarrow> string option \<Rightarrow> db \<Rightarrow> db res" where
  "area_update u site k name code fl description d =
     permit (site_config_write u) (area_or_404 d site k (\<lambda>x. update_area x u name code fl description d))"

definition area_status :: "user \<Rightarrow> nat \<Rightarrow> nat \<Rightarrow> bool \<Rightarrow> db \<Rightarrow> db res" where
  "area_status u site k is_active d =
     permit (site_config_write u) (area_or_404 d site k (\<lambda>x.
       if is_active then update_area x u None None None None d else deactivate_area x u d))"

definition operational_role_create :: "user \<Rightarrow> string \<Rightarrow> string \<Rightarrow> string \<Rightarrow> db \<Rightarrow> db res" where
  "operational_role_create u name code description d =
     permit (can_configure_site u) (db_of (create_operational_role name code description u d))"

definition operational_role_update ::
  "user \<Rightarrow> nat \<Rightarrow> string option \<Rightarrow> string option \<Rightarrow> string option \<Rightarrow> db \<Rightarrow> db res" where
  "operational_role_update u k name code description d =
     permit (can_configure_site u) (active_or_404 op_is_active (operational_roles d) k (\<lambda>x.
       update_operational_role x u name code description d))"

definition operational_role_status :: "user \<Rightarrow> nat \<Rightarrow> bool \<Rightarrow> db \<Rightarrow> db res" where
  "operational_role_status u k is_active d =
     permit (can_configure_site u) (active_or_404 op_is_active (operational_roles d) k (\<lambda>x.
       if is_active then update_operational_role x u None None None d else deactivate_operational_role x u d))"

definition known_id :: "nat list \<Rightarrow> nat option \<Rightarrow> nat option" where
  "known_id ks k = (case k of None \<Rightarrow> None | Some j \<Rightarrow> if j \<in> set ks then Some j else None)"

definition department_create :: "user \<Rightarrow> nat \<Rightarrow> string \<Rightarrow> string \<Rightarrow> db \<Rightarrow> db res" where
  "department_create u site name description d =
     permit (write_access u) (load_site d site (\<lambda>x. db_of (create_department (fst x) name description u d)))"

definition department_or_404 :: "db \<Rightarrow> nat \<Rightarrow> nat \<Rightarrow> (nat \<times> department \<Rightarrow> 'a res) \<Rightarrow> 'a res" where
  "department_or_404 d site = active_or_404 (\<lambda>p. dp_is_active p \<and> dp_site p = site) (departments d)"

definition department_update :: "user \<Rightarrow> nat \<Rightarrow> nat \<Rightarrow> string option \<Rightarrow> string option \<Rightarrow> db \<Rightarrow> db res" where
  "department_update u site k name description d =
     permit (write_access u) (department_or_404 d site k (\<lambda>x. update_department x name description u d))"

definition department_delete :: "user \<Rightarrow> nat \<Rightarrow> nat \<Rightarrow> db \<Rightarrow> db res" where
  "department_delete u site k d =
     permit (write_access u) (department_or_404 d site k (\<lambda>x. Inr (deactivate_department x u d)))"

definition asset_create ::
  "env \<Rightarrow> user \<Rightarrow> nat \<Rightarrow> string \<Rightarrow> nat option \<Rightarrow> string \<Rightarrow> nat \<Rightarrow> asset_condition \<Rightarrow> db \<Rightarrow> db res" where
  "asset_create e u site name category serial quantity condition d =
     permit (write_access u) (load_site d site (\<lambda>x.
       db_of (create_asset (fst x) name (known_id (asset_categories e) category) serial quantity condition u d)))"

definition asset_or_404 :: "db \<Rightarrow> nat \<Rightarrow> nat \<Rightarrow> (nat \<times> asset \<Rightarrow> 'a res) \<Rightarrow> 'a res" where
  "asset_or_404 d site = active_or_404 (\<lambda>p. ac_is_active p \<and> ac_site p = site) (assets d)"

definition asset_update ::
  "env \<Rightarrow> user \<Rightarrow> nat \<Rightarrow> nat \<Rightarrow> string option \<Rightarrow> nat option \<Rightarrow> string option \<Rightarrow> nat option \<Rightarrow> asset_condition option \<Rightarrow> db \<Rightarrow> db res" where
  "asset_update e u site k name category serial quantity condition d =
     permit (write_access u) (asset_or_404 d site k (\<lambda>x.
       update_asset x name (known_id (asset_categories e) category) serial quantity condition u d))"

definition asset_delete :: "user \<Rightarrow> nat \<Rightarrow> nat \<Rightarrow> db \<Rightarrow> db res" where
  "asset_delete u site k d = permit (write_access u) (asset_or_404 d site k (\<lambda>x. Inr (deactivate_asset x u d)))"

text \<open>The tasks a request queues come back with the database.\<close>

definition assignment_create ::
  "user \<Rightarrow> nat \<Rightarrow> nat \<Rightarrow> assignment_role \<Rightarrow> bool \<Rightarrow> db \<Rightarrow> (task list \<times> db) res" where
  "assignment_create u site user role is_primary d =
     permit (write_access u) (load_site d site (\<lambda>x.
       found (find (\<lambda>v. u_pk v = user \<and> u_is_active v) (users d)) (\<lambda>v.
         Inr (snd (assign_staff (fst x) (u_pk v) role is_primary u d)))))"

definition staff_or_404 :: "db \<Rightarrow> nat \<Rightarrow> nat \<Rightarrow> (nat \<times> staff_assignment \<Rightarrow> 'a res) \<Rightarrow> 'a res" where
  "staff_or_404 d site = active_or_404 (\<lambda>a. sf_site a = site) (staff_assignments d)"

definition assignment_delete :: "user \<Rightarrow> nat \<Rightarrow> nat \<Rightarrow> db \<Rightarrow> db res" where
  "assignment_delete u site k d = permit (write_access u) (staff_or_404 d site k (\<lambda>x. Inr (unassign_staff x u d)))"

definition assignment_set_primary :: "user \<Rightarrow> nat \<Rightarrow> nat \<Rightarrow> db \<Rightarrow> db res" where
  "assignment_set_primary u site k d = permit (write_access u) (staff_or_404 d site k (\<lambda>x. Inr (set_primary_assignment x u d)))"

section \<open>The search for an unused code ends\<close>

lemma next_unused_steps:
  "((\<lambda>(c::string, n). (stem @ str_nat n, Suc n)) ^^ Suc i) (raw, m) = (stem @ str_nat (m + i), Suc (m + i))"
  by (induction i) auto

text \<open>
  The candidates after the first are pairwise different, so at most as many rounds as there are codes in use
  and one more are made. Every candidate that was passed over is in use.
\<close>

lemma next_unused_ends:
  "\<exists>c n. next_unused taken stem raw = Some (c, n) \<and> c \<notin> set taken \<and> 2 \<le> n \<and> n \<le> length taken + 3 \<and>
     (c = raw \<and> n = 2 \<or> raw \<in> set taken \<and> c = stem @ str_nat (n - 1) \<and> (\<forall>j. 2 \<le> j \<and> j < n - 1 \<longrightarrow> stem @ str_nat j \<in> set taken))"
proof -
  define step where "step = (\<lambda>(c::string, n). (stem @ str_nat n, Suc n))"
  define busy where "busy = (\<lambda>(c, n::nat). c \<in> set taken)"
  have after: "(step ^^ Suc i) (raw, 2) = (stem @ str_nat (2 + i), Suc (2 + i))" for i
    unfolding step_def by (rule next_unused_steps)
  have "\<exists>i \<le> length taken. stem @ str_nat (2 + i) \<notin> set taken"
  proof (rule ccontr)
    assume "\<not> ?thesis"
    then have "(\<lambda>i. stem @ str_nat (2 + i)) ` {.. length taken} \<subseteq> set taken" by auto
    moreover have "inj_on (\<lambda>i. stem @ str_nat (2 + i)) {.. length taken}" by (auto simp: inj_on_def)
    ultimately have "card {.. length taken} \<le> card (set taken)" by (meson card_inj_on_le List.finite_set)
    with card_length [of taken] show False by simp
  qed
  then obtain i where i: "i \<le> length taken" "\<not> busy ((step ^^ Suc i) (raw, 2))"
    unfolding after by (auto simp: busy_def)
  define l where "l = (LEAST k. \<not> busy ((step ^^ k) (raw, 2)))"
  have free: "\<not> busy ((step ^^ l) (raw, 2))" unfolding l_def by (rule LeastI) (rule i(2))
  have l: "l \<le> Suc (length taken)" unfolding l_def using Least_le [of "\<lambda>k. \<not> busy ((step ^^ k) (raw, 2))", OF i(2)] i(1) by linarith
  have before: "busy ((step ^^ k) (raw, 2))" if "k < l" for k
    using not_less_Least [of k "\<lambda>k. \<not> busy ((step ^^ k) (raw, 2))"] that unfolding l_def by blast
  have "next_unused taken stem raw = while_option busy step (raw, 2)"
    by (simp add: next_unused_def busy_def [abs_def] step_def [abs_def])
  also have "\<dots> = Some ((step ^^ l) (raw, 2))" unfolding while_option_def l_def by (rule if_P) (use i(2) in blast)
  finally have search: "next_unused taken stem raw = Some ((step ^^ l) (raw, 2))" .
  show ?thesis
  proof (cases l)
    case 0
    with search free show ?thesis by (simp add: busy_def)
  next
    case (Suc m)
    have "stem @ str_nat j \<in> set taken" if "2 \<le> j" "j < 2 + m" for j
    proof -
      have "Suc (j - 2) < l" "2 + (j - 2) = j" using that Suc by auto
      then show ?thesis using before [of "Suc (j - 2)"] unfolding after by (simp add: busy_def)
    qed
    moreover have "raw \<in> set taken" using before [of 0] Suc by (simp add: busy_def)
    ultimately show ?thesis using search free l unfolding Suc after by (simp add: busy_def)
  qed
qed

lemma active_values_length: "length (active_values active column t) \<le> length (tbl_rows t)"
  by (simp add: active_values_def tbl_where_def)

lemma active_values_mem:
  assumes "tbl_wf t"
  shows "v \<in> set (active_values active column t) \<longleftrightarrow> (\<exists>k r. tbl_get t k = Some r \<and> active r \<and> column r = v)"
proof -
  have "set (active_values active column t) = {column r | k r. (k, r) \<in> set (tbl_rows t) \<and> active r}"
    by (force simp: active_values_def tbl_where_def)
  then show ?thesis using tbl_get_mem [OF assms] by auto
qed

lemma search_result:
  assumes "length taken \<le> m"
  shows "\<exists>c n. next_unused taken stem raw = Some (c, n) \<and> c \<notin> set taken \<and> n \<le> m + 3"
proof -
  obtain c n where "next_unused taken stem raw = Some (c, n)" "c \<notin> set taken" "n \<le> length taken + 3"
    using next_unused_ends [of taken stem raw] by blast
  with assms show ?thesis by (intro exI [of _ c] exI [of _ n]) simp
qed

definition zone_stem :: "env \<Rightarrow> string \<Rightarrow> string" where
  "zone_stem e base = or_default (take 6 (compact_code e base)) ''ZONE''"

lemma zone_search:
  "unique_zone_code e d base = next_unused (active_values zn_is_active zn_code (zones d)) (zone_stem e base) (zone_stem e base)"
proof -
  have "take 7 (zone_stem e base) = zone_stem e base" by (auto simp: zone_stem_def or_default_def)
  then show ?thesis by (simp add: unique_zone_code_def zone_stem_def Let_def)
qed

section \<open>Properties\<close>


section \<open>What the code does beside its documentation\<close>

text \<open>Only administrators change a site's configuration, whatever \<open>_can_configure_site\<close> grants.\<close>

lemma site_config_write_is_admin: "site_config_write u \<longleftrightarrow> is_system_admin u"
  by (auto simp: site_config_write_def can_configure_site_def write_access_def)

text \<open>An operational role is deactivated whatever schedules use it, and an area whatever schedules it has.\<close>

lemma role_in_use_deactivates:
  "can_configure_site u \<Longrightarrow> active_row op_is_active (operational_roles d) k = Some r \<Longrightarrow>
     tbl_exists (\<lambda>_ sc. sc_operational_role sc = k) (area_schedules d) \<Longrightarrow> \<exists>d'. operational_role_status u k False d = Inr d'"
  by (simp add: operational_role_status_def permit_def active_or_404_def found_def deactivate_operational_role_def
      role_has_operational_usage_def)

lemma scheduled_area_deactivates:
  "\<not> tbl_exists (\<lambda>_ i. in_area i = fst x) (inspections d) \<Longrightarrow> tbl_exists (\<lambda>_ sc. sc_site_area sc = fst x) (area_schedules d) \<Longrightarrow>
     \<exists>d'. deactivate_area x u d = Inr d'"
  by (simp add: deactivate_area_def area_has_operational_usage_def Let_def)

text \<open>A second asset without a serial number on a site is refused by the database, and so is a department under the name of a deactivated one.\<close>

lemma second_unnumbered_asset_fails:
  assumes "tbl_wf (assets d)" and "tbl_get (assets d) j = Some p" and "ac_site p = site" and "ac_serial_number p = []"
  shows "create_asset site name category [] quantity c u d \<in> {Inl DataError, Inl IntegrityError}"
  using assms by (auto simp: create_asset_def asset_saved_def Let_def tbl_exists_get dest: tbl_get_lt)

lemma retired_department_name_fails:
  assumes "tbl_wf (departments d)" and "tbl_get (departments d) j = Some p" and "dp_site p = site" and "dp_name p = name"
    and "\<not> department_duplicate d site (tbl_next (departments d)) name"
  shows "create_department site name description u d \<in> {Inl DataError, Inl IntegrityError}"
  using assms by (auto simp: create_department_def department_saved_def Let_def tbl_exists_get dest: tbl_get_lt)

end
