(* ===== verification/Sites.thy ===== *)
theory Sites
  imports SiteConfig Store
begin

text \<open>
  Sites: creation with the daily cleanliness setup every new site gets (\<open>cleanliness_templates.py\<close>) and its store, updates,
  archiving (\<open>apps/site_management/services.py\<close>) and the endpoints in \<open>api.py\<close>; then the whole
  configuration as one system. The rows of the worksheet are copied from the source.
\<close>

section \<open>The daily cleanliness setup\<close>

definition TOILETS_ITEMS :: "(string \<times> string) list" where
  "TOILETS_ITEMS =
    [(''Floor and wall surfaces have been washed and cleaned'',
      ''Confirm floors and walls are visibly clean.''),
     (''Mirrors have been cleaned'',
      ''Check mirrors for marks, dust, and water spots.''),
     (''Rubbish bin has been cleaned'',
      ''Empty, wash, line, and reset the bin.''),
     (''Toilet has been washed and cleaned'',
      ''Check the toilet bowl, seat, base, and surrounding floor.''),
     (''Soap, brushes, and cleaning tools are washed and stored properly'',
      ''Confirm tools are clean and returned to their designated place.''),
     (''Water has been put into the cleaning tank'',
      ''Confirm water is available for cleaning work.''),
     (''Water has been put into the hand-washing container'',
      ''Confirm hand-washing water is available.''),
     (''Towels have been placed'',
      ''Confirm clean hand towels are available where required.''),
     (''Toilet paper has been placed'',
      ''Confirm toilet paper is available and replenished.'')]"

definition OFFICES_ITEMS :: "(string \<times> string) list" where
  "OFFICES_ITEMS =
    [(''Floor and wall surfaces have been cleaned'',
      ''Complete before the office opens.''),
     (''Chairs, tables, and office equipment have been dusted'',
      ''Dust before the office is opened.''),
     (''Rubbish bin has been washed and cleaned'',
      ''Empty, wash, line, and reset the bin.''),
     (''Desk has been arranged and cleaned'',
      ''Leave the desk orderly and ready for use.''),
     (''Floors, doors, and windows have been cleaned'',
      ''Check the full office entry and working area.''),
     (''Tables have been arranged and curtains straightened'',
      ''Restore the room to its expected arrangement.''),
     (''Ceiling has been wiped and cobwebs removed'',
      ''Check corners, ceiling edges, and fittings.''),
     (''Furniture has been arranged'',
      ''Confirm chairs and furniture are in the agreed layout.''),
     (''Rubbish bin has been placed'',
      ''Confirm the bin is returned to its designated location.'')]"

definition INDOOR_ITEMS :: "(string \<times> string) list" where
  "INDOOR_ITEMS =
    [(''Floor and wall surfaces have been cleaned'',
      ''Check all indoor surfaces included in the daily route.''),
     (''Stairs have been cleaned before opening'',
      ''Check steps, rails, landings, and edges.''),
     (''Rubbish bin has been cleaned'',
      ''Empty, wash, line, and reset the bin.''),
     (''Entrance has been wiped and cleaned'',
      ''Check the entrance, doors, and immediate approach.''),
     (''Floors and doors have been cleaned'',
      ''Check the full indoor circulation route.''),
     (''Furniture has been arranged and curtains straightened'',
      ''Restore the area to its expected presentation.''),
     (''Ceiling has been wiped and cobwebs removed'',
      ''Check corners and ceiling edges.''),
     (''Furniture has been arranged'',
      ''Confirm furniture is ready for use.''),
     (''Bin has been placed'',
      ''Confirm the bin is returned to its designated location.''),
     (''Water has been put in the water container and it has been covered'',
      ''Confirm water is available and safely covered.'')]"

definition OUTDOOR_ITEMS :: "(string \<times> string) list" where
  "OUTDOOR_ITEMS =
    [(''Grass has been cut'',
      ''Check the designated outdoor grass areas.''),
     (''Parking area has been cleaned'',
      ''Remove litter, leaves, and visible dirt from parking.''),
     (''Fence has been cleaned'',
      ''Check the visible fence line and entrance points.''),
     (''Paths and passages have been cleaned'',
      ''Ensure safe, clear movement through the site.''),
     (''All surrounding areas have been cleaned'',
      ''Check the perimeter and areas around buildings.''),
     (''Outdoor area has been watered'',
      ''Confirm watering was completed where scheduled.''),
     (''Rubbish bin has been wiped and cleaned'',
      ''Reset outdoor bins and remove visible residue.'')]"

definition GARDEN_ITEMS :: "(string \<times> string) list" where
  "GARDEN_ITEMS =
    [(''Grass has been cut'',
      ''Check grass and maintained lawn areas.''),
     (''Flower beds have been watered'',
      ''Confirm flower beds received the required water.''),
     (''Flowers have been pruned'',
      ''Remove dead growth and maintain the agreed appearance.''),
     (''Garden area has been cleared'',
      ''Remove litter, leaves, and unnecessary material.''),
     (''Garden area has been watered'',
      ''Confirm all scheduled garden watering is complete.''),
     (''Safe paths have been created'',
      ''Keep paths clear, visible, and safe to use.''),
     (''Garden has been maintained with care'',
      ''Record an exception if the garden needs additional work.''),
     (''Branches have been cut'',
      ''Remove unsafe or obstructive branches where assigned.''),
     (''Damaged plants have been removed or replaced'',
      ''Record the action or exception clearly.'')]"

definition STORE_ITEMS :: "(string \<times> string) list" where
  "STORE_ITEMS =
    [(''Store door is locked and the key has been handed over'',
      ''Record the handover in the shift notes when needed.''),
     (''Store door is locked and the key has been returned to the store'',
      ''Confirm the key is controlled and accounted for.''),
     (''All equipment is returned to its place and organized'',
      ''Check the equipment layout against the store standard.''),
     (''Used equipment has been washed and returned to the store'',
      ''Do not close the check while used tools remain dirty.''),
     (''Used equipment is returned to its proper location'',
      ''Confirm equipment is easy to find for the next shift.''),
     (''Equipment needing repair has been separated and reported'',
      ''Record the item and raise a stock or maintenance issue.'')]"

definition STAFF_ITEMS :: "(string \<times> string) list" where
  "STAFF_ITEMS =
    [(''Worker can perform within the required time'',
      ''Use the exception note for coaching or time-risk details.''),
     (''Worker is honest and hardworking'',
      ''Record only work-related, evidenced observations.''),
     (''Worker completes tasks before the required time'',
      ''Use the exception note if support or retraining is needed.''),
     (''Worker is present in all assigned work areas'',
      ''Cross-check attendance and assigned route.''),
     (''Worker does not leave the work area without informing the supervisor'',
      ''Record the responsible cleaner and corrective action when applicable.''),
     (''Worker follows instructions and performs assigned work'',
      ''Use the exception note for a clear follow-up action.'')]"

definition DEFAULT_CLEANLINESS_AREAS :: "(string \<times> string \<times> string) list" where
  "DEFAULT_CLEANLINESS_AREAS =
    [(''Toilets / Vyooni'', ''TOILETS'',
      ''Toilet facilities and hygiene supplies.''),
     (''Offices / Ofisini'', ''OFFICES'',
      ''Office floors, furniture, equipment, and readiness.''),
     (''Indoor areas / Eneo la ndani'', ''INDOOR'',
      ''Indoor floors, entrances, furniture, and water readiness.''),
     (''Outdoor areas / Eneo la nje'', ''OUTDOOR'',
      ''Paths, parking, fences, grass, and surrounding areas.''),
     (''Garden / Bustani'', ''GARDEN'',
      ''Garden maintenance, watering, pruning, and safe paths.''),
     (''Store and equipment / Usimamizi wa store'', ''STORE'',
      ''Store keys, equipment return, cleaning, and repair separation.''),
     (''Staff performance / Maendeleo ya wafanyakazi'', ''STAFF'',
      ''Daily staff punctuality, attendance, conduct, and task completion.'')]"

definition CLEANLINESS_ITEMS_BY_CODE :: "(string \<times> (string \<times> string) list) list" where
  "CLEANLINESS_ITEMS_BY_CODE =
    [(''TOILETS'', TOILETS_ITEMS), (''OFFICES'', OFFICES_ITEMS), (''INDOOR'', INDOOR_ITEMS), (''OUTDOOR'', OUTDOOR_ITEMS), (''GARDEN'', GARDEN_ITEMS), (''STORE'', STORE_ITEMS), (''STAFF'', STAFF_ITEMS)]"

definition provision_area :: "nat \<Rightarrow> user \<Rightarrow> string \<times> string \<times> string \<Rightarrow> db \<Rightarrow> db res" where
  "provision_area site actor row d =
     (let a = \<lparr>sa_site = site, sa_name = fst row, sa_code = fst (snd row), sa_floor = [], sa_description = snd (snd row),
               sa_is_active = True, sa_created_by = Some (u_pk actor), sa_updated_by = Some (u_pk actor)\<rparr>;
          k = tbl_next (areas d)
      in if area_name_taken d k a then Inl IntegrityError
         else Inr (audit_area A_CREATE actor k None (Some a) (d\<lparr>areas := tbl_insert a (areas d)\<rparr>)))"

text \<open>\<open>Model.objects.get_or_create\<close>: more than one match is an error; a new row goes to the database.\<close>

definition area_get_or_create :: "nat \<Rightarrow> user \<Rightarrow> string \<times> string \<times> string \<Rightarrow> db \<Rightarrow> ((nat \<times> site_area) \<times> db) res" where
  "area_get_or_create site actor row d =
     (let a = \<lparr>sa_site = site, sa_name = fst row, sa_code = fst (snd row), sa_floor = [], sa_description = snd (snd row),
               sa_is_active = True, sa_created_by = Some (u_pk actor), sa_updated_by = Some (u_pk actor)\<rparr>;
          k = tbl_next (areas d)
      in case tbl_where (\<lambda>_ b. sa_is_active b \<and> sa_site b = site \<and> sa_code b = fst (snd row)) (areas d) of
           [x] \<Rightarrow> Inr (x, d)
         | [] \<Rightarrow> if area_name_taken d k a then Inl IntegrityError else Inr ((k, a), d\<lparr>areas := tbl_insert a (areas d)\<rparr>)
         | _ \<Rightarrow> Inl MultipleObjectsReturned)"

definition daily_survey :: "string \<Rightarrow> string" where
  "daily_survey area_name = ''Daily Cleanliness Survey '' @ [CHR 0xB7] @ '' '' @ area_name"

definition template_get_or_create :: "nat \<Rightarrow> user \<Rightarrow> nat \<times> site_area \<Rightarrow> db \<Rightarrow> ((nat \<times> inspection_template \<times> bool) \<times> db) res" where
  "template_get_or_create site actor area d =
     (let name = daily_survey (sa_name (snd area)); k = tbl_next (templates d);
          t = \<lparr>tm_name = name, tm_description = ''PDF-derived daily cleanliness worksheet for '' @ sa_name (snd area) @ ''.'',
               tm_site = Some site, tm_area = Some (fst area), tm_frequency = FR_DAILY, tm_is_active = True,
               tm_created_by = Some (u_pk actor), tm_updated_by = Some (u_pk actor)\<rparr>
      in case tbl_where (\<lambda>_ b. tm_is_active b \<and> tm_site b = Some site \<and> tm_area b = Some (fst area) \<and> tm_name b = name) (templates d) of
           [(j, b)] \<Rightarrow> Inr ((j, b, False), d)
         | [] \<Rightarrow> if 160 < length name then Inl DataError else Inr ((k, t, True), d\<lparr>templates := tbl_insert t (templates d)\<rparr>)
         | _ \<Rightarrow> Inl MultipleObjectsReturned)"

definition survey_item :: "nat \<Rightarrow> nat \<times> string \<times> string \<Rightarrow> template_item" where
  "survey_item template row = \<lparr>ti_template = template, ti_label = fst (snd row), ti_type = IT_YES_NO, ti_required = True,
     ti_sequence = fst row, ti_help_text = snd (snd row)\<rparr>"

definition add_survey_items :: "nat \<Rightarrow> (string \<times> string) list \<Rightarrow> db \<Rightarrow> db" where
  "add_survey_items template rows d =
     d\<lparr>template_items := fold (\<lambda>row. tbl_insert (survey_item template row)) (zip [1..<Suc (length rows)] rows) (template_items d)\<rparr>"

definition survey_rows :: "string \<Rightarrow> (string \<times> string) list" where
  "survey_rows code = (case map_of CLEANLINESS_ITEMS_BY_CODE code of None \<Rightarrow> [] | Some rows \<Rightarrow> rows)"

definition provision_template :: "nat \<Rightarrow> user \<Rightarrow> string \<times> string \<times> string \<Rightarrow> nat \<times> db \<Rightarrow> (nat \<times> db) res" where
  "provision_template site actor row s =
     rbind (area_get_or_create site actor row (snd s)) (\<lambda>(area, d1).
       if \<not> sa_is_active (snd area) then Inr (fst s, d1)
       else rbind (template_get_or_create site actor area d1) (\<lambda>((k, t, created), d2).
         if \<not> created then Inr (fst s, d2)
         else Inr (Suc (fst s), record_audit A_CREATE (Some (u_pk actor)) ''site_management.inspectiontemplate'' k None
                (Some (SnapTemplate t)) (add_survey_items k (survey_rows (fst (snd row))) d2))))"

definition provision_site_cleanliness_templates :: "nat \<Rightarrow> user \<Rightarrow> db \<Rightarrow> (nat \<times> db) res" where
  "provision_site_cleanliness_templates site actor d = foldM (provision_template site actor) DEFAULT_CLEANLINESS_AREAS (0, d)"

definition provision_site_cleanliness_setup :: "nat \<Rightarrow> user \<Rightarrow> db \<Rightarrow> (nat \<times> db) res" where
  "provision_site_cleanliness_setup site actor d =
     rbind (if tbl_exists (\<lambda>_ a. sa_is_active a \<and> sa_site a = site) (areas d) then Inr d
            else foldM (provision_area site actor) DEFAULT_CLEANLINESS_AREAS d)
       (provision_site_cleanliness_templates site actor)"

section \<open>Sites\<close>

record site_draft =
  dr_name :: string
  dr_zone :: "nat option"
  dr_site_type :: "nat option"
  dr_status :: "nat option"
  dr_description :: string
  dr_building_name :: string
  dr_location :: string
  dr_address :: string
  dr_city :: string
  dr_region :: string
  dr_country :: string
  dr_postal_code :: string
  dr_latitude :: "rat option"
  dr_longitude :: "rat option"
  dr_capacity :: nat
  dr_contact_person :: string
  dr_contact_email :: string
  dr_contact_phone :: string
  dr_work_mode :: work_mode
  dr_working_days :: "string list"
  dr_notes :: string

definition apply_draft :: "site_draft \<Rightarrow> site \<Rightarrow> site" where
  "apply_draft dr s = s\<lparr>si_name := dr_name dr, si_zone := dr_zone dr, si_site_type := dr_site_type dr, si_status := dr_status dr,
     si_description := dr_description dr, si_building_name := dr_building_name dr, si_location := dr_location dr,
     si_address := dr_address dr, si_city := dr_city dr, si_region := dr_region dr, si_country := dr_country dr,
     si_postal_code := dr_postal_code dr, si_latitude := dr_latitude dr, si_longitude := dr_longitude dr,
     si_capacity := dr_capacity dr, si_contact_person := dr_contact_person dr, si_contact_email := dr_contact_email dr,
     si_contact_phone := dr_contact_phone dr, si_work_mode := dr_work_mode dr, si_working_days := dr_working_days dr,
     si_notes := dr_notes dr\<rparr>"

text \<open>The row \<open>Site.objects.create\<close> makes: the arguments given, the draft, and \<open>is_active\<close> by default.\<close>

definition new_site :: "string \<Rightarrow> string \<Rightarrow> user \<Rightarrow> site_draft \<Rightarrow> site" where
  "new_site slug code actor dr = \<lparr>si_name = dr_name dr, si_slug = slug, si_code = code, si_zone = dr_zone dr,
     si_site_type = dr_site_type dr, si_status = dr_status dr, si_building_name = dr_building_name dr, si_location = dr_location dr,
     si_description = dr_description dr, si_address = dr_address dr, si_city = dr_city dr, si_region = dr_region dr,
     si_country = dr_country dr, si_postal_code = dr_postal_code dr, si_latitude = dr_latitude dr, si_longitude = dr_longitude dr,
     si_capacity = dr_capacity dr, si_contact_person = dr_contact_person dr, si_contact_email = dr_contact_email dr,
     si_contact_phone = dr_contact_phone dr, si_work_mode = dr_work_mode dr, si_working_days = dr_working_days dr,
     si_notes = dr_notes dr, si_is_active = True, si_created_by = Some (u_pk actor)\<rparr>"

text \<open>What the database refuses: a text wider than its column, a number that does not fit, and a slug or code in use.\<close>

definition site_fits :: "site \<Rightarrow> bool" where
  "site_fits s \<longleftrightarrow> length (si_name s) \<le> 160 \<and> length (si_slug s) \<le> 160 \<and> length (si_code s) \<le> 12 \<and>
     length (si_building_name s) \<le> 200 \<and> length (si_location s) \<le> 255 \<and> length (si_address s) \<le> 255 \<and>
     length (si_city s) \<le> 120 \<and> length (si_region s) \<le> 120 \<and> length (si_country s) \<le> 2 \<and> length (si_postal_code s) \<le> 20 \<and>
     si_capacity s \<le> 2147483647 \<and> length (si_contact_person s) \<le> 150 \<and> length (si_contact_email s) \<le> 254 \<and>
     length (si_contact_phone s) \<le> 32"

definition site_key_taken :: "db \<Rightarrow> nat \<Rightarrow> site \<Rightarrow> bool" where
  "site_key_taken d k s \<longleftrightarrow> tbl_exists (\<lambda>j b. j \<noteq> k \<and> (si_slug b = si_slug s \<or> si_code b = si_code s)) (sites d)"

definition save_site :: "nat \<Rightarrow> site \<Rightarrow> db \<Rightarrow> 'a res \<Rightarrow> 'a res" where
  "save_site k s d f = (if \<not> site_fits s then Inl DataError else if site_key_taken d k s then Inl IntegrityError else f)"

definition audit_site_row :: "audit_action \<Rightarrow> user \<Rightarrow> nat \<Rightarrow> site option \<Rightarrow> site option \<Rightarrow> db \<Rightarrow> db" where
  "audit_site_row a actor k before after =
     record_audit a (Some (u_pk actor)) ''site_management.site'' k (map_option SnapSite before) (map_option SnapSite after)"

definition create_site :: "env \<Rightarrow> site_draft \<Rightarrow> user \<Rightarrow> db \<Rightarrow> (nat \<times> db) res" where
  "create_site e dr actor d =
     (let s = new_site (fst (the (unique_slug e d (dr_name dr)))) (fst (the (unique_code e d (dr_name dr)))) actor dr;
          k = tbl_next (sites d)
      in save_site k s d (
           rbind (provision_site_cleanliness_setup k actor
                    (audit_site_row A_CREATE actor k None (Some s) (d\<lparr>sites := tbl_insert s (sites d)\<rparr>))) (\<lambda>(_, d1).
             if tbl_exists (\<lambda>_ st. st_site st = Some k \<and> st_is_active st) (stores d1) then Inr (k, d1)
             else rbind (create_store (Some k) (dr_name dr @ '' Store'') actor SITE None [] None d1) (\<lambda>(_, d2). Inr (k, d2)))))"

definition on_status_changed :: "env \<Rightarrow> nat \<Rightarrow> site \<Rightarrow> user \<Rightarrow> db \<Rightarrow> task list \<times> db" where
  "on_status_changed e k s actor d =
     ((case si_status s of None \<Rightarrow> []
       | Some j \<Rightarrow> (case map_of (site_statuses e) j of None \<Rightarrow> [] | Some slug \<Rightarrow> [NotifySiteStatusChange k slug])),
      audit_site_row A_STATUS_CHANGE actor k None None d)"

text \<open>The check of the work mode looks at the changed instance and the shifts of the database.\<close>

definition update_site :: "env \<Rightarrow> nat \<times> site \<Rightarrow> site_draft \<Rightarrow> user \<Rightarrow> db \<Rightarrow> (task list \<times> db) res" where
  "update_site e x dr actor d =
     (let k = fst x; s = snd x; s' = apply_draft dr s
      in if si_work_mode s' = WM_FULL_TIME \<and> active_shifts d k \<noteq> [] then Inl (ValidationError ''work_mode_conflict'')
         else save_site k s' d (
           let d1 = audit_site_row A_UPDATE actor k (Some s) (Some s') (d\<lparr>sites := tbl_put k s' (sites d)\<rparr>)
           in Inr (if si_status s' \<noteq> si_status s then on_status_changed e k s' actor d1 else ([], d1))))"

definition set_site_active :: "nat \<Rightarrow> bool \<Rightarrow> db \<Rightarrow> db" where
  "set_site_active k active d = d\<lparr>sites := tbl_update_where (\<lambda>j _. j = k) (si_is_active_update (\<lambda>_. active)) (sites d)\<rparr>"

definition archive_site :: "nat \<Rightarrow> user \<Rightarrow> db \<Rightarrow> db" where
  "archive_site k actor d = audit_site_row A_ARCHIVE actor k None None (set_site_active k False d)"

definition restore_site :: "nat \<Rightarrow> user \<Rightarrow> db \<Rightarrow> db" where
  "restore_site k actor d = audit_site_row A_RESTORE actor k None None (set_site_active k True d)"

section \<open>Endpoints\<close>

text \<open>A payload of an update: absent fields keep the current value, and so does a reference that is not found, except that it is cleared.\<close>

record site_patch =
  pt_name :: "string option"
  pt_zone_id :: "nat option"
  pt_site_type_id :: "nat option"
  pt_status_id :: "nat option"
  pt_description :: "string option"
  pt_building_name :: "string option"
  pt_location :: "string option"
  pt_address :: "string option"
  pt_city :: "string option"
  pt_region :: "string option"
  pt_country :: "string option"
  pt_postal_code :: "string option"
  pt_latitude :: "rat option"
  pt_longitude :: "rat option"
  pt_capacity :: "nat option"
  pt_contact_person :: "string option"
  pt_contact_email :: "string option"
  pt_contact_phone :: "string option"
  pt_work_mode :: "work_mode option"
  pt_working_days :: "string list option"
  pt_notes :: "string option"

definition zone_or_none :: "db \<Rightarrow> nat option \<Rightarrow> nat option" where
  "zone_or_none d = known_id (map fst (tbl_where (\<lambda>_. zn_is_active) (zones d)))"

definition type_or_none :: "env \<Rightarrow> nat option \<Rightarrow> nat option" where
  "type_or_none e = known_id (site_types e)"

definition status_or_none :: "env \<Rightarrow> nat option \<Rightarrow> nat option" where
  "status_or_none e = known_id (map fst (site_statuses e))"

definition pick_reference :: "(nat option \<Rightarrow> nat option) \<Rightarrow> nat option \<Rightarrow> nat option \<Rightarrow> nat option" where
  "pick_reference lookup new old = (if new \<noteq> None then lookup new else old)"

definition draft_from_update :: "env \<Rightarrow> db \<Rightarrow> site_patch \<Rightarrow> site \<Rightarrow> site_draft" where
  "draft_from_update e d p s = \<lparr>dr_name = given (pt_name p) (si_name s),
     dr_zone = pick_reference (zone_or_none d) (pt_zone_id p) (si_zone s),
     dr_site_type = pick_reference (type_or_none e) (pt_site_type_id p) (si_site_type s),
     dr_status = pick_reference (status_or_none e) (pt_status_id p) (si_status s),
     dr_description = given (pt_description p) (si_description s), dr_building_name = given (pt_building_name p) (si_building_name s),
     dr_location = given (pt_location p) (si_location s), dr_address = given (pt_address p) (si_address s),
     dr_city = given (pt_city p) (si_city s), dr_region = given (pt_region p) (si_region s),
     dr_country = given (pt_country p) (si_country s), dr_postal_code = given (pt_postal_code p) (si_postal_code s),
     dr_latitude = (if pt_latitude p = None then si_latitude s else pt_latitude p),
     dr_longitude = (if pt_longitude p = None then si_longitude s else pt_longitude p),
     dr_capacity = given (pt_capacity p) (si_capacity s), dr_contact_person = given (pt_contact_person p) (si_contact_person s),
     dr_contact_email = given (pt_contact_email p) (si_contact_email s),
     dr_contact_phone = given (pt_contact_phone p) (si_contact_phone s), dr_work_mode = given (pt_work_mode p) (si_work_mode s),
     dr_working_days = given (pt_working_days p) (si_working_days s), dr_notes = given (pt_notes p) (si_notes s)\<rparr>"

text \<open>The payload of a creation, its references looked up.\<close>

definition draft_from_create :: "env \<Rightarrow> db \<Rightarrow> site_draft \<Rightarrow> site_draft" where
  "draft_from_create e d dr = dr\<lparr>dr_zone := zone_or_none d (dr_zone dr), dr_site_type := type_or_none e (dr_site_type dr),
     dr_status := status_or_none e (dr_status dr)\<rparr>"

definition site_create :: "env \<Rightarrow> user \<Rightarrow> site_draft \<Rightarrow> db \<Rightarrow> db res" where
  "site_create e u payload d =
     permit (role_required [SYSTEM_ADMIN] u) (db_of (create_site e (draft_from_create e d payload) u d))"

definition site_update :: "env \<Rightarrow> user \<Rightarrow> nat \<Rightarrow> site_patch \<Rightarrow> db \<Rightarrow> (task list \<times> db) res" where
  "site_update e u k payload d =
     permit (write_access u) (load_site d k (\<lambda>x. update_site e x (draft_from_update e d payload (snd x)) u d))"

definition site_archive :: "user \<Rightarrow> nat \<Rightarrow> db \<Rightarrow> db res" where
  "site_archive u k d = permit (write_access u) (load_site d k (\<lambda>x. Inr (archive_site (fst x) u d)))"

definition site_restore :: "user \<Rightarrow> nat \<Rightarrow> db \<Rightarrow> db res" where
  "site_restore u k d =
     permit (role_required [SYSTEM_ADMIN] u) (found (tbl_get (sites d) k) (\<lambda>_. Inr (restore_site k u d)))"

section \<open>Sequences of requests\<close>

datatype config_call =
    ZoneCreate user string string string string
  | ZoneUpdate user nat "string option" "string option" "string option" "string option" "bool option"
  | ZoneDeactivate user nat
  | ShiftCreate user nat string clock clock "string list" string nat string
  | ShiftUpdate user nat nat "string option" "string option" "clock option" "clock option" "string list option" "nat option" "string option"
  | ShiftStatus user nat nat bool
  | AreaCreate user nat string string string string
  | AreaUpdate user nat nat "string option" "string option" "string option" "string option"
  | AreaStatus user nat nat bool
  | RoleCreate user string string string
  | RoleUpdate user nat "string option" "string option" "string option"
  | RoleStatus user nat bool
  | SiteCreate user site_draft
  | SiteUpdate user nat site_patch
  | SiteArchive user nat
  | SiteRestore user nat

fun config_step :: "db \<Rightarrow> env \<times> config_call \<Rightarrow> db res" where
  "config_step d (e, ZoneCreate u n c ds b) = zone_create u n c ds b d"
| "config_step d (e, ZoneUpdate u k n c ds b a) = zone_update u k n c ds b a d"
| "config_step d (e, ZoneDeactivate u k) = zone_deactivate u k d"
| "config_step d (e, ShiftCreate u s n st en dy c sq ds) = shift_create u s n st en dy c sq ds d"
| "config_step d (e, ShiftUpdate u s k n c st en dy sq ds) = shift_update u s k n c st en dy sq ds d"
| "config_step d (e, ShiftStatus u s k a) = shift_status u s k a d"
| "config_step d (e, AreaCreate u s n c f ds) = area_create u s n c f ds d"
| "config_step d (e, AreaUpdate u s k n c f ds) = area_update u s k n c f ds d"
| "config_step d (e, AreaStatus u s k a) = area_status u s k a d"
| "config_step d (e, RoleCreate u n c ds) = operational_role_create u n c ds d"
| "config_step d (e, RoleUpdate u k n c ds) = operational_role_update u k n c ds d"
| "config_step d (e, RoleStatus u k a) = operational_role_status u k a d"
| "config_step d (e, SiteCreate u p) = site_create e u p d"
| "config_step d (e, SiteUpdate u k p) = db_of (site_update e u k p d)"
| "config_step d (e, SiteArchive u k) = site_archive u k d"
| "config_step d (e, SiteRestore u k) = site_restore u k d"

section \<open>How a request moves the sites and the shifts\<close>

lemmas config_audit_defs = audit_zone_def audit_site_shift_def audit_area_def audit_role_def audit_row_def audit_site_row_def

lemma active_or_404_Inr [res_simps]:
  "active_or_404 active t k f = Inr y \<longleftrightarrow> (\<exists>r. tbl_get t k = Some r \<and> active r \<and> f (k, r) = Inr y)"
  by (auto simp: active_or_404_def res_simps)

lemma save_site_Inr [res_simps]: "save_site k s d f = Inr y \<longleftrightarrow> site_fits s \<and> \<not> site_key_taken d k s \<and> f = Inr y"
  by (simp add: save_site_def)

definition site_mode :: "db \<Rightarrow> nat \<Rightarrow> work_mode option" where
  "site_mode d k = map_option si_work_mode (tbl_get (sites d) k)"

definition shift_label :: "site_shift \<Rightarrow> nat \<times> string" where
  "shift_label s = (sh_site s, sh_shift_name s)"

definition label_free :: "db \<Rightarrow> nat \<Rightarrow> site_shift \<Rightarrow> bool" where
  "label_free d k s \<longleftrightarrow> \<not> tbl_exists (\<lambda>j b. j \<noteq> k \<and> sh_is_active b \<and> shift_label b = shift_label s) (shifts d)"

inductive config_move :: "db \<Rightarrow> db \<Rightarrow> bool" where
  same: "sites d' = sites d \<Longrightarrow> shifts d' = shifts d \<Longrightarrow> config_move d d'"
| new_site: "sites d' = tbl_insert s (sites d) \<Longrightarrow> shifts d' = shifts d \<Longrightarrow> config_move d d'"
| site_saved: "sites d' = tbl_put k s (sites d) \<Longrightarrow> shifts d' = shifts d \<Longrightarrow>
    si_work_mode s = WM_FULL_TIME \<longrightarrow> active_shifts d k = [] \<Longrightarrow> config_move d d'"
| site_flag: "sites d' = tbl_update_where (\<lambda>j _. j = k) (si_is_active_update f) (sites d) \<Longrightarrow> shifts d' = shifts d \<Longrightarrow> config_move d d'"
| new_shift: "sites d' = sites d \<Longrightarrow> shifts d' = tbl_insert s (shifts d) \<Longrightarrow> sh_is_active s \<Longrightarrow>
    site_mode d (sh_site s) = Some m \<Longrightarrow> m \<noteq> WM_FULL_TIME \<Longrightarrow> label_free d (tbl_next (shifts d)) s \<Longrightarrow> config_move d d'"
| shift_saved: "sites d' = sites d \<Longrightarrow> shifts d' = tbl_put k s (shifts d) \<Longrightarrow> tbl_get (shifts d) k = Some r \<Longrightarrow>
    sh_is_active r \<Longrightarrow> sh_is_active s \<Longrightarrow> sh_site s = sh_site r \<Longrightarrow> label_free d k s \<Longrightarrow> config_move d d'"
| shift_ended: "sites d' = sites d \<Longrightarrow> shifts d' = tbl_update_where (\<lambda>j _. j = k) f (shifts d) \<Longrightarrow>
    tbl_get (shifts d) k = Some r \<Longrightarrow> sh_is_active r \<Longrightarrow> (\<And>b. \<not> sh_is_active (f b)) \<Longrightarrow>
    site_mode d (sh_site r) = Some WM_SHIFT \<longrightarrow> (\<exists>y \<in> set (active_shifts d (sh_site r)). fst y \<noteq> k) \<Longrightarrow> config_move d d'"

lemma zone_move:
  "zone_create u n c ds b d = Inr d' \<Longrightarrow> config_move d d'"
  "zone_update u k no co dso bo ao d = Inr d' \<Longrightarrow> config_move d d'"
  "zone_deactivate u k d = Inr d' \<Longrightarrow> config_move d d'"
  by (auto simp: zone_create_def zone_update_def zone_deactivate_def insert_zone_def set_zone_active_def
      config_audit_defs Let_def res_simps intro: config_move.same)

text \<open>The services of areas and operational roles leave both tables alone.\<close>

definition keeps_sites :: "db \<Rightarrow> db \<Rightarrow> bool" where
  "keeps_sites d d' \<longleftrightarrow> sites d' = sites d \<and> shifts d' = shifts d"

lemma keeps_sites_move: "keeps_sites d d' \<Longrightarrow> config_move d d'"
  by (auto simp: keeps_sites_def intro: config_move.same)

lemma area_keeps:
  "create_area s n c f ds u d = Inr (k, d') \<Longrightarrow> keeps_sites d d'"
  "update_area x u no co fo dso d = Inr d' \<Longrightarrow> keeps_sites d d'"
  "deactivate_area x u d = Inr d' \<Longrightarrow> keeps_sites d d'"
  by (auto simp: create_area_def update_area_def deactivate_area_def keeps_sites_def config_audit_defs Let_def res_simps)

lemma role_keeps:
  "create_operational_role n c ds u d = Inr (k, d') \<Longrightarrow> keeps_sites d d'"
  "update_operational_role x u no co dso d = Inr d' \<Longrightarrow> keeps_sites d d'"
  "deactivate_operational_role x u d = Inr d' \<Longrightarrow> keeps_sites d d'"
  by (auto simp: create_operational_role_def update_operational_role_def deactivate_operational_role_def keeps_sites_def
      config_audit_defs Let_def res_simps)

lemma area_move:
  "area_create u s n c f ds d = Inr d' \<Longrightarrow> config_move d d'"
  "area_update u s k no co fo dso d = Inr d' \<Longrightarrow> config_move d d'"
  "area_status u s k a d = Inr d' \<Longrightarrow> config_move d d'"
  by (auto simp: area_create_def area_update_def area_status_def area_or_404_def load_site_def res_simps
      intro!: keeps_sites_move split: if_splits dest: area_keeps)

lemma role_move:
  "operational_role_create u n c ds d = Inr d' \<Longrightarrow> config_move d d'"
  "operational_role_update u k no co dso d = Inr d' \<Longrightarrow> config_move d d'"
  "operational_role_status u k a d = Inr d' \<Longrightarrow> config_move d d'"
  by (auto simp: operational_role_create_def operational_role_update_def operational_role_status_def res_simps
      intro!: keeps_sites_move split: if_splits dest: role_keeps)

lemma label_freeI: "site_shift_clean d k s \<Longrightarrow> sh_is_active s \<Longrightarrow> label_free d k s"
  by (auto simp: site_shift_clean_def label_free_def shift_label_def tbl_exists_iff)

lemma shift_create_move:
  assumes "shift_create u k n st en dy c sq ds d = Inr d'"
  shows "config_move d d'"
proof -
  obtain x j where x: "tbl_get (sites d) k = Some x" and made: "create_shift (k, x) n st en dy c sq ds u d = Inr (j, d')"
    using assms by (auto simp: shift_create_def load_site_def res_simps)
  define s where "s = \<lparr>sh_site = k, sh_shift_name = n, sh_shift_code = c, sh_start_time = st, sh_end_time = en,
    sh_effective_days = dy, sh_sequence = sq, sh_description = ds, sh_is_active = True,
    sh_created_by = Some (u_pk u), sh_updated_by = Some (u_pk u)\<rparr>"
  have "site_shift_clean d (tbl_next (shifts d)) s" "si_work_mode x \<noteq> WM_FULL_TIME"
    "sites d' = sites d" "shifts d' = tbl_insert s (shifts d)"
    using made by (auto simp: create_shift_def validate_shift_work_mode_def Let_def res_simps s_def config_audit_defs split: if_splits)
  then show ?thesis
    by (intro config_move.new_shift [where s = s and m = "si_work_mode x"])
      (auto simp: s_def site_mode_def x intro: label_freeI)
qed

lemma update_shift_move:
  assumes got: "tbl_get (shifts d) k = Some s" "sh_is_active s"
    and made: "update_shift (k, s) u n c st en dy sq ds d = Inr d'"
  shows "config_move d d'"
proof -
  obtain s' where s': "shifts d' = tbl_put k s' (shifts d)" "sites d' = sites d" "site_shift_clean d k s'"
    "sh_is_active s'" "sh_site s' = sh_site s"
    using made got(2) by (auto simp: update_shift_def Let_def res_simps site_of_shift_def config_audit_defs)
  then show ?thesis using got by (intro config_move.shift_saved [where s = s' and r = s]) (auto intro: label_freeI)
qed

lemma deactivate_shift_move:
  assumes got: "tbl_get (shifts d) k = Some s" "sh_is_active s"
    and made: "deactivate_shift (k, s) u d = Inr d'"
  shows "config_move d d'"
proof -
  obtain x where x: "tbl_get (sites d) (sh_site s) = Some x"
    and ok: "validate_shift_work_mode x (length (filter (\<lambda>y. fst y \<noteq> k) (active_shifts d (sh_site s)))) = Inr ()"
    and d': "d' = audit_site_shift A_ARCHIVE u k (Some (s\<lparr>sh_is_active := False, sh_updated_by := Some (u_pk u)\<rparr>)) None
      (set_shift_inactive k u d)"
    using made by (auto simp: deactivate_shift_def Let_def res_simps site_of_shift_def)
  have "si_work_mode x = WM_SHIFT \<Longrightarrow> filter (\<lambda>y. fst y \<noteq> k) (active_shifts d (sh_site s)) \<noteq> []"
    using ok by (auto simp: validate_shift_work_mode_def split: if_splits)
  then have "site_mode d (sh_site s) = Some WM_SHIFT \<longrightarrow> (\<exists>y \<in> set (active_shifts d (sh_site s)). fst y \<noteq> k)"
    by (auto simp: site_mode_def x filter_empty_conv)
  then show ?thesis using got
    by (intro config_move.shift_ended [where k = k and r = s]) (auto simp: d' config_audit_defs set_shift_inactive_def)
qed

lemma shift_move:
  "shift_update u k j n c st en dy sq ds d = Inr d' \<Longrightarrow> config_move d d'"
  "shift_status u k j a d = Inr d' \<Longrightarrow> config_move d d'"
  by (auto simp: shift_update_def shift_status_def shift_or_404_def res_simps split: if_splits
      intro: update_shift_move deactivate_shift_move)

lemma area_get_or_create_keeps: "area_get_or_create site a row d = Inr (x, d') \<Longrightarrow> keeps_sites d d'"
  by (auto simp: area_get_or_create_def Let_def keeps_sites_def res_simps split: list.splits)

lemma template_get_or_create_keeps: "template_get_or_create site a x d = Inr (y, d') \<Longrightarrow> keeps_sites d d'"
  by (auto simp: template_get_or_create_def Let_def keeps_sites_def res_simps split: list.splits prod.splits)

lemma keeps_sites_trans: "keeps_sites a b \<Longrightarrow> keeps_sites b c \<Longrightarrow> keeps_sites a c"
  by (simp add: keeps_sites_def)

lemma add_survey_items_keeps: "keeps_sites d (add_survey_items k rows d)"
  by (simp add: keeps_sites_def add_survey_items_def)

lemma provision_template_keeps:
  assumes "provision_template site a row (i, d) = Inr (j, d')"
  shows "keeps_sites d d'"
proof (cases "area_get_or_create site a row d")
  case (Inl err)
  with assms show ?thesis by (simp add: provision_template_def)
next
  case (Inr p)
  obtain x d1 where p: "p = (x, d1)" by fastforce
  note area = area_get_or_create_keeps [OF Inr [unfolded p]]
  show ?thesis
  proof (cases "template_get_or_create site a x d1")
    case (Inl err)
    with assms area show ?thesis by (simp add: provision_template_def Inr p split: if_splits)
  next
    case (Inr q)
    obtain k t c d2 where q: "q = ((k, t, c), d2)" by (metis prod.exhaust)
    note template = template_get_or_create_keeps [OF Inr [unfolded q]]
    show ?thesis
      using assms area keeps_sites_trans [OF area template]
        keeps_sites_trans [OF keeps_sites_trans [OF area template] add_survey_items_keeps [of d2 k "survey_rows (fst (snd row))"]]
      by (auto simp: provision_template_def \<open>area_get_or_create site a row d = Inr p\<close> p Inr q keeps_sites_def split: if_splits)
  qed
qed

lemma provision_keeps:
  assumes "provision_site_cleanliness_setup site a d = Inr (n, d')"
  shows "keeps_sites d d'"
proof -
  obtain d1 where d1: "(if tbl_exists (\<lambda>_ a. sa_is_active a \<and> sa_site a = site) (areas d) then Inr d
      else foldM (provision_area site a) DEFAULT_CLEANLINESS_AREAS d) = Inr d1"
    and d': "foldM (provision_template site a) DEFAULT_CLEANLINESS_AREAS (0, d1) = Inr (n, d')"
    using assms by (auto simp: provision_site_cleanliness_setup_def provision_site_cleanliness_templates_def res_simps)
  have "keeps_sites d d1"
  proof (cases "tbl_exists (\<lambda>_ a. sa_is_active a \<and> sa_site a = site) (areas d)")
    case True
    with d1 show ?thesis by (simp add: keeps_sites_def)
  next
    case False
    then have "foldM (provision_area site a) DEFAULT_CLEANLINESS_AREAS d = Inr d1" using d1 by simp
    then show ?thesis
      by (rule foldM_invariant) (auto simp: keeps_sites_def provision_area_def config_audit_defs Let_def res_simps)
  qed
  moreover have "keeps_sites d1 (snd (n, d'))"
    by (rule foldM_invariant [OF d', where P = "\<lambda>s. keeps_sites d1 (snd s)"])
      (auto simp: keeps_sites_def [of d1 d1] intro: keeps_sites_trans [OF _ provision_template_keeps])
  ultimately show ?thesis by (auto intro: keeps_sites_trans)
qed

lemma create_store_keeps: "create_store st n u ty p l m d = Inr (k, d') \<Longrightarrow> keeps_sites d d'"
  by (auto simp: create_store_def Let_def keeps_sites_def res_simps)

lemma create_site_result:
  assumes "create_site e dr u d = Inr (k, d')"
  obtains s n d1 d2 where "s = new_site (fst (the (unique_slug e d (dr_name dr)))) (fst (the (unique_code e d (dr_name dr)))) u dr"
    and "k = tbl_next (sites d)" and "site_fits s" and "\<not> site_key_taken d k s"
    and "d1 = audit_site_row A_CREATE u k None (Some s) (d\<lparr>sites := tbl_insert s (sites d)\<rparr>)"
    and "provision_site_cleanliness_setup k u d1 = Inr (n, d2)"
    and "d' = d2 \<and> tbl_exists (\<lambda>_ st. st_site st = Some k \<and> st_is_active st) (stores d2) \<or>
      (\<exists>j. create_store (Some k) (dr_name dr @ '' Store'') u SITE None [] None d2 = Inr (j, d'))"
  using assms unfolding create_site_def Let_def by (auto simp: res_simps split: if_splits)

lemma create_site_move:
  assumes "create_site e dr u d = Inr (k, d')"
  shows "config_move d d'"
proof -
  obtain s n d1 d2 where d1: "d1 = audit_site_row A_CREATE u k None (Some s) (d\<lparr>sites := tbl_insert s (sites d)\<rparr>)"
    and d2: "provision_site_cleanliness_setup k u d1 = Inr (n, d2)"
    and d': "d' = d2 \<and> tbl_exists (\<lambda>_ st. st_site st = Some k \<and> st_is_active st) (stores d2) \<or>
      (\<exists>j. create_store (Some k) (dr_name dr @ '' Store'') u SITE None [] None d2 = Inr (j, d'))"
    by (rule create_site_result [OF assms])
  have "keeps_sites d2 d'" using d' by (auto simp: keeps_sites_def [of d2 d2] dest: create_store_keeps)
  with provision_keeps [OF d2] have "keeps_sites d1 d'" by (rule keeps_sites_trans)
  then show ?thesis by (intro config_move.new_site [where s = s]) (simp_all add: keeps_sites_def d1 config_audit_defs)
qed

lemma site_move:
  "site_create e u p d = Inr d' \<Longrightarrow> config_move d d'"
  "site_archive u k d = Inr d' \<Longrightarrow> config_move d d'"
  "site_restore u k d = Inr d' \<Longrightarrow> config_move d d'"
  by (auto simp: site_create_def site_archive_def site_restore_def load_site_def archive_site_def restore_site_def set_site_active_def
      config_audit_defs res_simps intro: create_site_move config_move.site_flag)

lemma site_update_move:
  assumes "site_update e u k p d = Inr (ts, d')"
  shows "config_move d d'"
proof -
  obtain x where made: "update_site e (k, x) (draft_from_update e d p x) u d = Inr (ts, d')"
    using assms by (auto simp: site_update_def load_site_def res_simps)
  define s where "s = apply_draft (draft_from_update e d p x) x"
  have "\<not> (si_work_mode s = WM_FULL_TIME \<and> active_shifts d k \<noteq> [])"
    "sites d' = tbl_put k s (sites d)" "shifts d' = shifts d"
    using made by (auto simp: update_site_def on_status_changed_def Let_def res_simps config_audit_defs s_def split: if_splits)
  then show ?thesis by (intro config_move.site_saved [where s = s and k = k]) auto
qed

lemma config_step_move: "config_step d c = Inr d' \<Longrightarrow> config_move d d'"
  by (cases "(d, c)" rule: config_step.cases)
    (auto simp: db_of_Inr intro: zone_move area_move role_move shift_create_move shift_move site_move site_update_move)

section \<open>Work modes and shifts\<close>

text \<open>
  An active shift belongs to a site that is not full-time, and the active shifts of a site have different names.
\<close>

definition config_inv :: "db \<Rightarrow> bool" where
  "config_inv d \<longleftrightarrow> tbl_wf (sites d) \<and> tbl_wf (shifts d) \<and> tbl_unique sh_is_active shift_label (shifts d) \<and>
     (\<forall>k s. tbl_get (shifts d) k = Some s \<and> sh_is_active s \<longrightarrow>
        (\<exists>m. site_mode d (sh_site s) = Some m \<and> m \<noteq> WM_FULL_TIME))"

lemma active_shifts_empty: "active_shifts d k = [] \<longleftrightarrow> \<not> tbl_exists (\<lambda>_ b. sh_is_active b \<and> sh_site b = k) (shifts d)"
  by (auto simp: active_shifts_def tbl_where_def tbl_exists_iff filter_empty_conv)

lemma config_move_inv:
  assumes "config_move d d'" and inv: "config_inv d"
  shows "config_inv d'"
  using assms(1)
proof cases
  case same
  then have "site_mode d' = site_mode d" by (simp add: site_mode_def fun_eq_iff)
  with same have "config_inv d' = config_inv d" unfolding config_inv_def by (simp only:)
  with inv show ?thesis by simp
next
  case (new_site s)
  with inv show ?thesis by (fastforce simp: config_inv_def site_mode_def tbl_get_insert dest: tbl_get_lt)
next
  case (site_saved k s)
  with inv have free: "si_work_mode s = WM_FULL_TIME \<Longrightarrow> tbl_get (shifts d) j = Some b \<Longrightarrow> sh_is_active b \<Longrightarrow> sh_site b \<noteq> k" for j b
    by (auto simp: active_shifts_empty tbl_exists_get config_inv_def)
  from site_saved inv show ?thesis
    by (auto simp: config_inv_def site_mode_def tbl_get_put dest: free split: if_splits)
next
  case (site_flag k f)
  then have "site_mode d' j = site_mode d j" for j
    by (cases "tbl_get (sites d) j") (auto simp: site_mode_def tbl_get_update_where)
  with inv site_flag show ?thesis unfolding config_inv_def by (auto simp: tbl_wf_update_where)
next
  case (new_shift s m)
  then have modes: "site_mode d' = site_mode d" by (simp add: site_mode_def fun_eq_iff)
  have "tbl_unique sh_is_active shift_label (shifts d')"
    using inv new_shift by (auto simp: config_inv_def label_free_def intro: tbl_unique_insert_free)
  then show ?thesis using inv new_shift by (auto simp: config_inv_def modes tbl_get_insert split: if_splits)
next
  case (shift_saved k s r)
  then have modes: "site_mode d' = site_mode d" by (simp add: site_mode_def fun_eq_iff)
  have "tbl_unique sh_is_active shift_label (shifts d')"
    using inv shift_saved by (auto simp: config_inv_def label_free_def intro: tbl_unique_put_free)
  then show ?thesis using inv shift_saved by (auto simp: config_inv_def modes tbl_get_put split: if_splits)
next
  case (shift_ended k f r)
  then have modes: "site_mode d' = site_mode d" by (simp add: site_mode_def fun_eq_iff)
  have "tbl_unique sh_is_active shift_label (shifts d')"
    using inv shift_ended by (auto simp: config_inv_def intro: tbl_unique_update_where)
  then show ?thesis using inv shift_ended
    by (auto simp: config_inv_def modes tbl_get_update_where tbl_wf_update_where split: if_splits)
qed

interpretation configuration: safe_system config_step config_inv
  by unfold_locales (rule config_move_inv [OF config_step_move])

text \<open>A site that is staffed by shifts and has none.\<close>

definition unstaffed :: "db \<Rightarrow> nat \<Rightarrow> bool" where
  "unstaffed d k \<longleftrightarrow> site_mode d k = Some WM_SHIFT \<and> active_shifts d k = []"

lemma config_move_staffed:
  assumes "config_move d d'" and inv: "config_inv d" and "\<not> unstaffed d k" and gone: "unstaffed d' k"
  shows "site_mode d k \<noteq> Some WM_SHIFT"
proof
  assume mode: "site_mode d k = Some WM_SHIFT"
  with assms(3) obtain i b where b: "tbl_get (shifts d) i = Some b" "sh_is_active b" "sh_site b = k"
    using inv by (auto simp: unstaffed_def active_shifts_empty tbl_exists_get config_inv_def)
  have inv': "config_inv d'" by (rule config_move_inv [OF assms(1) inv])
  then have none: "tbl_get (shifts d') j = Some c \<Longrightarrow> sh_is_active c \<Longrightarrow> sh_site c \<noteq> k" for j c
    using gone by (auto simp: unstaffed_def active_shifts_empty tbl_exists_get config_inv_def)
  from assms(1) show False
  proof cases
    case same
    with b none show ?thesis by auto
  next
    case (new_site s)
    with b none show ?thesis by auto
  next
    case (site_saved j s)
    with b none show ?thesis by auto
  next
    case (site_flag j f)
    with b none show ?thesis by auto
  next
    case (new_shift s m)
    with b none [of i b] inv show ?thesis by (auto simp: config_inv_def tbl_get_insert dest: tbl_get_lt)
  next
    case (shift_saved j s r)
    with b none [of i s] none [of i b] show ?thesis by (cases "i = j") (auto simp: tbl_get_put)
  next
    case (shift_ended j f r)
    show ?thesis
    proof (cases "i = j \<and> sh_site r = k")
      case True
      with shift_ended mode obtain y where y: "y \<in> set (active_shifts d k)" "fst y \<noteq> j" by auto
      then have "tbl_get (shifts d) (fst y) = Some (snd y)" "sh_is_active (snd y)" "sh_site (snd y) = k"
        using inv by (auto simp: active_shifts_def config_inv_def tbl_get_mem [symmetric] tbl_where_def)
      with y(2) shift_ended none [of "fst y" "snd y"] show ?thesis by (auto simp: tbl_get_update_where)
    next
      case False
      with b shift_ended(3) have "i \<noteq> j" by auto
      with b shift_ended(2) none [of i b] show ?thesis by (simp add: tbl_get_update_where)
    qed
  qed
qed

section \<open>Properties\<close>

text \<open>
  C35: However the configuration is edited, a full-time site never has an active shift: along every
  sequence of requests that create, change, deactivate or archive sites and shifts, the site of an active shift
  exists and its work mode is not full-time, and no two active shifts of a site share a name.
\<close>

theorem full_time_sites_have_no_shifts:
  assumes "config_inv d" and "t \<in> set (call_states config_step d cs)"
    and "tbl_get (shifts t) k = Some s" and "sh_is_active s"
  shows "(\<exists>x. tbl_get (sites t) (sh_site s) = Some x \<and> si_work_mode x \<noteq> WM_FULL_TIME) \<and>
    (\<forall>j r. tbl_get (shifts t) j = Some r \<and> sh_is_active r \<and> sh_site r = sh_site s \<and> sh_shift_name r = sh_shift_name s \<longrightarrow> j = k)"
proof -
  have inv: "config_inv t" by (rule configuration.states_inv [OF assms(1,2)])
  then have "j = k" if "tbl_get (shifts t) j = Some r" "sh_is_active r" "shift_label r = shift_label s" for j r
    using tbl_uniqueD [of sh_is_active shift_label "shifts t" j r k s] that assms(3,4) by (simp add: config_inv_def)
  moreover obtain m where "site_mode t (sh_site s) = Some m" "m \<noteq> WM_FULL_TIME"
    using inv assms(3,4) unfolding config_inv_def by blast
  ultimately show ?thesis unfolding shift_label_def site_mode_def map_option_eq_Some by blast
qed

text \<open>
  A site staffed by shifts keeps one. If at the end of a sequence of requests a site has the work mode of shifts and no
  active shift, which was not so at its beginning, then somewhere in between it did not have that work mode: deactivating shifts
  alone never gets there, only creating the site or changing its work mode does.
\<close>

theorem last_shift_is_kept:
  assumes inv: "config_inv d" and start: "\<not> (site_mode d k = Some WM_SHIFT \<and> active_shifts d k = [])"
    and final: "site_mode (run_calls config_step d cs) k = Some WM_SHIFT \<and> active_shifts (run_calls config_step d cs) k = []"
  shows "\<exists>t \<in> set (call_states config_step d cs). site_mode t k \<noteq> Some WM_SHIFT"
proof -
  have "\<exists>t \<in> set (call_states config_step d cs). \<not> config_inv t \<or> site_mode t k \<noteq> Some WM_SHIFT"
  proof (rule run_change [where P = "\<lambda>s. unstaffed s k"])
    show "\<not> config_inv s \<or> site_mode s k \<noteq> Some WM_SHIFT"
      if "config_step s x = Inr s'" "\<not> unstaffed s k" "unstaffed s' k" for s x s'
      using config_move_staffed [OF config_step_move [OF that(1)] _ that(2,3)] by blast
  qed (use start final in \<open>simp_all add: unstaffed_def\<close>)
  then show ?thesis using configuration.states_inv [OF inv] by blast
qed

section \<open>What the setup leaves\<close>

definition default_area :: "nat \<Rightarrow> user \<Rightarrow> string \<times> string \<times> string \<Rightarrow> site_area" where
  "default_area site u row = \<lparr>sa_site = site, sa_name = fst row, sa_code = fst (snd row), sa_floor = [],
     sa_description = snd (snd row), sa_is_active = True, sa_created_by = Some (u_pk u), sa_updated_by = Some (u_pk u)\<rparr>"

lemma default_area_columns [simp]:
  "sa_site (default_area site u row) = site" "sa_name (default_area site u row) = fst row"
  "sa_code (default_area site u row) = fst (snd row)" "sa_is_active (default_area site u row)"
  by (simp_all add: default_area_def)

lemma tbl_where_inserts:
  "tbl_where P (fold tbl_insert rs t) = tbl_where P t @ filter (\<lambda>(j, r). P j r) (enumerate (tbl_next t) rs)"
proof (induction rs arbitrary: t)
  case Nil
  then show ?case by simp
next
  case (Cons r rs)
  show ?case by (simp add: Cons.IH tbl_where_insert)
qed

lemma tbl_wf_inserts: "tbl_wf t \<Longrightarrow> tbl_wf (fold tbl_insert rs t)"
  by (induction rs arbitrary: t) auto

lemma tbl_get_inserts: "tbl_wf t \<Longrightarrow> tbl_get t k = Some r \<Longrightarrow> tbl_get (fold tbl_insert rs t) k = Some r"
proof (induction rs arbitrary: t)
  case Nil
  then show ?case by simp
next
  case (Cons a rs)
  from Cons.prems have "tbl_get (tbl_insert a t) k = Some r" by (auto simp: tbl_get_insert dest: tbl_get_lt)
  with Cons show ?case by simp
qed

lemma provision_areas:
  assumes "distinct (map fst rows)"
    and "\<And>row. row \<in> set rows \<Longrightarrow> \<not> tbl_exists (\<lambda>_ b. sa_site b = site \<and> sa_name b = fst row) (areas d)"
  shows "\<exists>d'. foldM (provision_area site u) rows d = Inr d' \<and>
    areas d' = fold tbl_insert (map (default_area site u) rows) (areas d) \<and>
    templates d' = templates d \<and> template_items d' = template_items d \<and> stores d' = stores d"
  using assms
proof (induction rows arbitrary: d)
  case Nil
  then show ?case by simp
next
  case (Cons row rows)
  define d1 where "d1 = audit_area A_CREATE u (tbl_next (areas d)) None (Some (default_area site u row))
    (d\<lparr>areas := tbl_insert (default_area site u row) (areas d)\<rparr>)"
  have "\<not> area_name_taken d (tbl_next (areas d)) (default_area site u row)"
    using Cons.prems(2) [of row] by (auto simp: area_name_taken_def default_area_def tbl_exists_iff)
  then have step: "provision_area site u row d = Inr d1"
    by (simp add: provision_area_def Let_def d1_def default_area_def)
  have d1: "areas d1 = tbl_insert (default_area site u row) (areas d)" "templates d1 = templates d"
    "template_items d1 = template_items d" "stores d1 = stores d" by (simp_all add: d1_def audit_area_def)
  have "\<not> tbl_exists (\<lambda>_ b. sa_site b = site \<and> sa_name b = fst r) (areas d1)" if "r \<in> set rows" for r
    using Cons.prems that by (auto simp: d1 tbl_exists_def tbl_where_insert tbl_insert_def default_area_def)
  from Cons.IH [of d1, OF _ this] Cons.prems(1) show ?case by (simp add: step d1)
qed

text \<open>A row of the catalogue that is set up: its area, its one daily survey, and the survey's lines in order.\<close>

definition survey_of :: "nat \<Rightarrow> nat \<times> site_area \<Rightarrow> nat \<Rightarrow> inspection_template \<Rightarrow> bool" where
  "survey_of site area k t \<longleftrightarrow> tm_is_active t \<and> tm_site t = Some site \<and> tm_area t = Some (fst area) \<and>
     tm_name t = daily_survey (sa_name (snd area))"

definition area_found :: "db \<Rightarrow> nat \<Rightarrow> string \<times> string \<times> string \<Rightarrow> nat \<times> site_area \<Rightarrow> bool" where
  "area_found d site row x \<longleftrightarrow> sa_name (snd x) = fst row \<and>
     tbl_where (\<lambda>_ b. sa_is_active b \<and> sa_site b = site \<and> sa_code b = fst (snd row)) (areas d) = [x]"

definition survey_lines :: "db \<Rightarrow> nat \<Rightarrow> (nat \<times> string \<times> string) list" where
  "survey_lines d k = map (\<lambda>(_, i). (ti_sequence i, ti_label i, ti_help_text i))
     (tbl_where (\<lambda>_ i. ti_template i = k) (template_items d))"

definition numbered_rows :: "string \<Rightarrow> (nat \<times> string \<times> string) list" where
  "numbered_rows code = zip [1..<Suc (length (survey_rows code))] (survey_rows code)"

definition set_up :: "db \<Rightarrow> nat \<Rightarrow> string \<times> string \<times> string \<Rightarrow> bool" where
  "set_up d site row \<longleftrightarrow> (\<exists>x k t. area_found d site row x \<and> tbl_where (survey_of site x) (templates d) = [(k, t)] \<and>
     tm_frequency t = FR_DAILY \<and> survey_lines d k = numbered_rows (fst (snd row)))"

definition pending :: "db \<Rightarrow> nat \<Rightarrow> string \<times> string \<times> string \<Rightarrow> bool" where
  "pending d site row \<longleftrightarrow> length (daily_survey (fst row)) \<le> 160 \<and>
     (\<exists>x. area_found d site row x \<and> \<not> tbl_exists (\<lambda>_ t. tm_area t = Some (fst x)) (templates d))"

definition items_known :: "db \<Rightarrow> bool" where
  "items_known d \<longleftrightarrow> tbl_wf (templates d) \<and> (\<forall>(j, i) \<in> set (tbl_rows (template_items d)). ti_template i < tbl_next (templates d))"

lemma tbl_where_single: "tbl_where P t = [x] \<Longrightarrow> x \<in> set (tbl_rows t) \<and> P (fst x) (snd x)"
  by (metis list.set_intros(1) prod.collapse tbl_where_mem)

lemma area_foundD:
  assumes "area_found d site row x"
  shows "x \<in> set (tbl_rows (areas d))" and "sa_is_active (snd x)" and "sa_site (snd x) = site"
    and "sa_code (snd x) = fst (snd row)" and "sa_name (snd x) = fst row"
    and "area_get_or_create site u row d = Inr (x, d)"
  using assms tbl_where_single [of "\<lambda>_ b. sa_is_active b \<and> sa_site b = site \<and> sa_code b = fst (snd row)" "areas d" x]
  by (auto simp: area_found_def area_get_or_create_def Let_def)

lemma survey_found:
  "tbl_where (survey_of site x) (templates d) = [(k, t)] \<Longrightarrow>
     template_get_or_create site u x d = Inr ((k, t, False), d)"
  by (simp add: template_get_or_create_def survey_of_def [abs_def] Let_def)

lemma set_up_again: "set_up d site row \<Longrightarrow> provision_template site u row (n, d) = Inr (n, d)"
  by (auto simp: set_up_def provision_template_def area_foundD survey_found dest: area_foundD(2))

lemma add_survey_items_rows:
  "template_items (add_survey_items k rows d) =
     fold tbl_insert (map (survey_item k) (zip [1..<Suc (length rows)] rows)) (template_items d)"
  by (simp add: add_survey_items_def fold_map comp_def)

lemma add_survey_items_frame [simp]:
  "templates (add_survey_items k rows d) = templates d" "areas (add_survey_items k rows d) = areas d"
  "stores (add_survey_items k rows d) = stores d"
  by (simp_all add: add_survey_items_def)

lemma tbl_rows_inserts: "tbl_rows (fold tbl_insert rs t) = tbl_rows t @ enumerate (tbl_next t) rs"
  using tbl_where_inserts [of "\<lambda>_ _. True" rs t] by (simp add: tbl_where_def)

lemma survey_item_template: "(n, i) \<in> set (enumerate m (map (survey_item k) xs)) \<Longrightarrow> ti_template i = k"
  by (auto simp: enumerate_eq_zip survey_item_def dest!: set_zip_rightD)

lemma survey_items_where:
  assumes "items_known d" and "tbl_next (templates d) \<le> k"
  shows "tbl_where (\<lambda>_ i. ti_template i = j) (template_items (add_survey_items k rows d)) =
    (if j = k then enumerate (tbl_next (template_items d)) (map (survey_item k) (zip [1..<Suc (length rows)] rows))
     else tbl_where (\<lambda>_ i. ti_template i = j) (template_items d))"
proof -
  have none: "tbl_where (\<lambda>_ i. ti_template i = k) (template_items d) = []"
    using assms by (auto simp: items_known_def tbl_where_def filter_empty_conv)
  show ?thesis
    unfolding add_survey_items_rows tbl_where_inserts using none
    by (auto simp: filter_id_conv filter_empty_conv dest: survey_item_template)
qed

lemma survey_item_lines:
  "map (\<lambda>(_, i). (ti_sequence i, ti_label i, ti_help_text i)) (enumerate n (map (survey_item k) rows)) = rows"
  by (induction rows arbitrary: n) (auto simp: survey_item_def)

lemma provision_one:
  assumes known: "items_known d" and wfs: "tbl_wf (areas d)" "tbl_wf (template_items d)" and "pending d site row"
  shows "\<exists>d'. provision_template site u row (n, d) = Inr (Suc n, d') \<and> set_up d' site row \<and> areas d' = areas d \<and> stores d' = stores d \<and>
    items_known d' \<and> tbl_wf (template_items d') \<and>
    (\<forall>r. set_up d site r \<longrightarrow> fst (snd r) \<noteq> fst (snd row) \<longrightarrow> set_up d' site r) \<and>
    (\<forall>r. pending d site r \<longrightarrow> fst (snd r) \<noteq> fst (snd row) \<longrightarrow> pending d' site r)"
proof -
  obtain x where x: "area_found d site row x" "\<not> tbl_exists (\<lambda>_ t. tm_area t = Some (fst x)) (templates d)"
    and short: "length (daily_survey (fst row)) \<le> 160" using assms(4) by (auto simp: pending_def)
  define k where "k = tbl_next (templates d)"
  define t where "t = \<lparr>tm_name = daily_survey (sa_name (snd x)),
    tm_description = ''PDF-derived daily cleanliness worksheet for '' @ sa_name (snd x) @ ''.'',
    tm_site = Some site, tm_area = Some (fst x), tm_frequency = FR_DAILY, tm_is_active = True,
    tm_created_by = Some (u_pk u), tm_updated_by = Some (u_pk u)\<rparr>"
  define d1 where "d1 = d\<lparr>templates := tbl_insert t (templates d)\<rparr>"
  define d2 where "d2 = add_survey_items k (survey_rows (fst (snd row))) d1"
  define d' where "d' = record_audit A_CREATE (Some (u_pk u)) ''site_management.inspectiontemplate'' k None (Some (SnapTemplate t)) d2"
  note active = area_foundD(2-4) [OF x(1)]
  have absent: "tbl_where (survey_of site x) (templates d) = []"
    using x(2) by (auto simp: survey_of_def tbl_where_def filter_empty_conv tbl_exists_iff)
  note area_foundD(6) [OF x(1), of u]
  moreover have "template_get_or_create site u x d = Inr ((k, t, True), d1)"
    using absent short x(1)
    by (simp add: template_get_or_create_def Let_def survey_of_def [abs_def] area_found_def d1_def t_def k_def)
  ultimately have step: "provision_template site u row (n, d) = Inr (Suc n, d')"
    by (simp add: provision_template_def active d'_def d2_def)
  have same: "areas d' = areas d" "stores d' = stores d" "templates d' = tbl_insert t (templates d)"
    by (simp_all add: d'_def d2_def d1_def)
  have known1: "items_known d1" using known by (auto simp: items_known_def d1_def dest: less_SucI)
  have items: "tbl_where (\<lambda>_ i. ti_template i = j) (template_items d') =
    (if j = k then enumerate (tbl_next (template_items d)) (map (survey_item k) (numbered_rows (fst (snd row))))
     else tbl_where (\<lambda>_ i. ti_template i = j) (template_items d))" for j
  proof -
    have "template_items d1 = template_items d" by (simp add: d1_def)
    then have "items_known (d1\<lparr>templates := templates d\<rparr>)" using known by (simp add: items_known_def d1_def)
    from survey_items_where [OF this, of k j "survey_rows (fst (snd row))"] show ?thesis
      by (simp add: d'_def d2_def k_def add_survey_items_rows d1_def numbered_rows_def)
  qed
  have lines: "survey_lines d' j = (if j = k then numbered_rows (fst (snd row)) else survey_lines d j)" for j
    by (simp add: survey_lines_def items survey_item_lines)
  have found: "area_found d' site r y = area_found d site r y" for r y by (simp add: area_found_def same)
  have new: "survey_of site x k t" by (simp add: survey_of_def t_def active)
  have done_row: "set_up d' site row"
    unfolding set_up_def found same tbl_where_insert lines
    by (rule exI [of _ x], rule exI [of _ k], rule exI [of _ t])
      (simp add: x(1) absent new k_def [symmetric], simp add: t_def)
  have other: "fst y \<noteq> fst x" if "area_found d site r y" "fst (snd r) \<noteq> fst (snd row)" for r y
  proof
    assume eq: "fst y = fst x"
    note found_y = area_foundD(1,4) [OF that(1)]
    have "tbl_get (areas d) (fst x) = Some (snd x)" "tbl_get (areas d) (fst y) = Some (snd y)"
      using area_foundD(1) [OF x(1)] found_y(1) tbl_get_mem [OF wfs(1)] by (metis prod.collapse)+
    then have "snd y = snd x" using eq by simp
    then show False using active found_y(2) that(2) by simp
  qed
  have keep: "set_up d' site r" if r: "set_up d site r" and code: "fst (snd r) \<noteq> fst (snd row)" for r
  proof -
    obtain y j s where y: "area_found d site r y" "tbl_where (survey_of site y) (templates d) = [(j, s)]" "tm_frequency s = FR_DAILY"
      "survey_lines d j = numbered_rows (fst (snd r))"
      using r unfolding set_up_def by blast
    have "(j, s) \<in> set (tbl_rows (templates d))" using tbl_where_single [OF y(2)] by simp
    then have "j \<noteq> k" using known tbl_get_lt [of "templates d" j s] by (auto simp: k_def items_known_def tbl_get_mem)
    moreover have "\<not> survey_of site y k t" using other [OF y(1) code] by (simp add: survey_of_def t_def)
    ultimately show ?thesis unfolding set_up_def found same tbl_where_insert lines k_def [symmetric]
      using y by (intro exI [of _ y] exI [of _ j] exI [of _ s]) simp
  qed
  have wait: "pending d' site r" if r: "pending d site r" and code: "fst (snd r) \<noteq> fst (snd row)" for r
  proof -
    obtain y where y: "area_found d site r y" "\<not> tbl_exists (\<lambda>_ t. tm_area t = Some (fst y)) (templates d)"
      and len: "length (daily_survey (fst r)) \<le> 160"
      using r unfolding pending_def by blast
    have "\<not> tbl_exists (\<lambda>_ t. tm_area t = Some (fst y)) (templates d')"
      using y(2) other [OF y(1) code] by (auto simp: same tbl_exists_def tbl_insert_def t_def)
    with y(1) len show ?thesis unfolding pending_def found by blast
  qed
  have rows: "tbl_rows (template_items d') = tbl_rows (template_items d) @ enumerate (tbl_next (template_items d))
      (map (survey_item k) (zip [1..<Suc (length (survey_rows (fst (snd row))))] (survey_rows (fst (snd row)))))"
    by (simp add: d'_def d2_def d1_def add_survey_items_rows tbl_rows_inserts)
  have known': "items_known d'"
    using known unfolding items_known_def rows same
    by (auto simp: k_def [symmetric] dest!: survey_item_template intro: less_SucI)
  have wf': "tbl_wf (template_items d')"
    by (simp add: d'_def d2_def d1_def add_survey_items_rows tbl_wf_inserts wfs(2))
  show ?thesis using step done_row same(1,2) known' wf' keep wait by blast
qed

lemma provision_all:
  assumes "items_known d" and "tbl_wf (areas d)" and "tbl_wf (template_items d)" and "distinct (map (fst \<circ> snd) rows)"
    and "\<And>row. row \<in> set rows \<Longrightarrow> pending d site row"
  shows "\<exists>d'. foldM (provision_template site u) rows (n, d) = Inr (n + length rows, d') \<and> areas d' = areas d \<and> stores d' = stores d \<and>
    (\<forall>row \<in> set rows. set_up d' site row) \<and> (\<forall>row. set_up d site row \<longrightarrow> fst (snd row) \<notin> (fst \<circ> snd) ` set rows \<longrightarrow> set_up d' site row)"
  using assms
proof (induction rows arbitrary: n d)
  case Nil
  then show ?case by simp
next
  case (Cons row rows)
  obtain d1 where d1: "provision_template site u row (n, d) = Inr (Suc n, d1)" "set_up d1 site row"
    "areas d1 = areas d" "stores d1 = stores d" "items_known d1" "tbl_wf (template_items d1)"
    "\<forall>r. set_up d site r \<longrightarrow> fst (snd r) \<noteq> fst (snd row) \<longrightarrow> set_up d1 site r"
    "\<forall>r. pending d site r \<longrightarrow> fst (snd r) \<noteq> fst (snd row) \<longrightarrow> pending d1 site r"
    using provision_one [OF Cons.prems(1-3) Cons.prems(5), of row u n] by auto
  have codes: "fst (snd r) \<noteq> fst (snd row)" if "r \<in> set rows" for r
  proof -
    have "fst (snd row) \<notin> (fst \<circ> snd) ` set rows" using Cons.prems(4) by simp
    with imageI [OF that, of "fst \<circ> snd"] show ?thesis by (metis comp_apply)
  qed
  have wf1: "tbl_wf (areas d1)" using Cons.prems(2) d1(3) by simp
  have dist: "distinct (map (fst \<circ> snd) rows)" using Cons.prems(4) by (simp only: list.map distinct.simps)
  have pend: "pending d1 site r" if "r \<in> set rows" for r
    using d1(8) Cons.prems(5) [of r] codes [OF that] that by (simp only: list.set_intros(2) simp_thms)
  obtain d' where d': "foldM (provision_template site u) rows (Suc n, d1) = Inr (Suc n + length rows, d')"
    "areas d' = areas d1" "stores d' = stores d1" "\<forall>row \<in> set rows. set_up d' site row"
    "\<forall>row. set_up d1 site row \<longrightarrow> fst (snd row) \<notin> (fst \<circ> snd) ` set rows \<longrightarrow> set_up d' site row"
    using Cons.IH [OF d1(5) wf1 d1(6) dist pend, of "Suc n"] by blast
  have other: "fst (snd row) \<notin> (fst \<circ> snd) ` set rows" using Cons.prems(4) by simp
  have "set_up d' site row" using d'(5) d1(2) other by blast
  with d'(4) have "\<forall>r \<in> set (row # rows). set_up d' site r" by simp
  moreover have "set_up d' site r" if "set_up d site r" "fst (snd r) \<notin> (fst \<circ> snd) ` set (row # rows)" for r
  proof -
    have "fst (snd r) \<noteq> fst (snd row)" "fst (snd r) \<notin> (fst \<circ> snd) ` set rows" using that(2) by auto
    with d1(7) d'(5) that(1) show ?thesis by blast
  qed
  ultimately show ?case using d1(1,3,4) d'(1-3) by (intro exI [of _ d']) auto
qed

lemma provision_again:
  "(\<And>row. row \<in> set rows \<Longrightarrow> set_up d site row) \<Longrightarrow> foldM (provision_template site u) rows (n, d) = Inr (n, d)"
  by (induction rows) (simp_all add: set_up_again)

text \<open>The next site is nobody's site yet.\<close>

definition unused_site :: "db \<Rightarrow> nat \<Rightarrow> bool" where
  "unused_site d k \<longleftrightarrow> \<not> tbl_exists (\<lambda>_ a. sa_site a = k) (areas d) \<and>
     \<not> tbl_exists (\<lambda>_ t. \<exists>a. tm_area t = Some a \<and> tbl_next (areas d) \<le> a) (templates d) \<and>
     \<not> tbl_exists (\<lambda>_ s. st_site s = Some k) (stores d)"

lemmas catalogue_defs = DEFAULT_CLEANLINESS_AREAS_def

lemma catalogue_distinct:
  "distinct (map fst DEFAULT_CLEANLINESS_AREAS)" "distinct (map (fst \<circ> snd) DEFAULT_CLEANLINESS_AREAS)"
  by (simp_all add: catalogue_defs)

lemma catalogue_short: "row \<in> set DEFAULT_CLEANLINESS_AREAS \<Longrightarrow> length (daily_survey (fst row)) \<le> 160"
  by (auto simp: catalogue_defs daily_survey_def)

lemma enumerated_code:
  assumes "distinct (map (fst \<circ> snd) rows)" and "row \<in> set rows"
  shows "\<exists>j. filter (\<lambda>(_, b). sa_is_active b \<and> sa_site b = site \<and> sa_code b = fst (snd row))
    (enumerate n (map (default_area site u) rows)) = [(j, default_area site u row)] \<and> n \<le> j"
  using assms
proof (induction rows arbitrary: n)
  case Nil
  then show ?case by simp
next
  case (Cons r rows)
  show ?case
  proof (cases "row = r")
    case True
    have "b \<notin> set (map (default_area site u) rows)" if "sa_code b = fst (snd r)" for b
    proof
      assume "b \<in> set (map (default_area site u) rows)"
      then obtain r' where r': "r' \<in> set rows" "b = default_area site u r'" by auto
      with that have "(fst \<circ> snd) r' = (fst \<circ> snd) r" by simp
      with r'(1) have "(fst \<circ> snd) r \<in> (fst \<circ> snd) ` set rows" by (metis imageI)
      with Cons.prems(1) show False by simp
    qed
    then have "filter (\<lambda>(_, b). sa_is_active b \<and> sa_site b = site \<and> sa_code b = fst (snd row))
      (enumerate (Suc n) (map (default_area site u) rows)) = []"
      unfolding True by (auto simp: filter_empty_conv enumerate_eq_zip dest: set_zip_rightD)
    then show ?thesis by (simp add: True)
  next
    case False
    with Cons.prems(2) have "row \<in> set rows" by simp
    moreover have "distinct (map (fst \<circ> snd) rows)" using Cons.prems(1) by (simp only: list.map distinct.simps)
    ultimately obtain j where "filter (\<lambda>(_, b). sa_is_active b \<and> sa_site b = site \<and> sa_code b = fst (snd row))
      (enumerate (Suc n) (map (default_area site u) rows)) = [(j, default_area site u row)]" "Suc n \<le> j"
      using Cons.IH by blast
    moreover have "fst (snd r) \<noteq> fst (snd row)" using Cons.prems False by force
    ultimately show ?thesis by auto
  qed
qed

lemma setup_complete:
  assumes "unused_site d site" and "items_known d" and wfs: "tbl_wf (areas d)" "tbl_wf (template_items d)"
  shows "\<exists>d'. provision_site_cleanliness_setup site u d = Inr (7, d') \<and> stores d' = stores d \<and>
    map snd (tbl_where (\<lambda>_ a. sa_site a = site) (areas d')) = map (default_area site u) DEFAULT_CLEANLINESS_AREAS \<and>
    (\<forall>row \<in> set DEFAULT_CLEANLINESS_AREAS. set_up d' site row)"
proof -
  have fresh: "\<not> tbl_exists (\<lambda>_ b. sa_site b = site \<and> P b) (areas d)" for P
    using assms(1) by (auto simp: unused_site_def tbl_exists_iff)
  obtain d1 where d1: "foldM (provision_area site u) DEFAULT_CLEANLINESS_AREAS d = Inr d1"
    "areas d1 = fold tbl_insert (map (default_area site u) DEFAULT_CLEANLINESS_AREAS) (areas d)"
    "templates d1 = templates d" "template_items d1 = template_items d" "stores d1 = stores d"
    using provision_areas [OF catalogue_distinct(1) fresh] by blast
  have none: "tbl_where (\<lambda>_ b. Q b \<and> sa_site b = site \<and> R b) (areas d) = []" for Q R
    using fresh [of "\<lambda>b. Q b \<and> R b"] by (auto simp: tbl_where_def filter_empty_conv tbl_exists_iff)
  have "pending d1 site row" if row: "row \<in> set DEFAULT_CLEANLINESS_AREAS" for row
  proof -
    obtain j where j: "filter (\<lambda>(_, b). sa_is_active b \<and> sa_site b = site \<and> sa_code b = fst (snd row))
      (enumerate (tbl_next (areas d)) (map (default_area site u) DEFAULT_CLEANLINESS_AREAS)) = [(j, default_area site u row)]"
      "tbl_next (areas d) \<le> j"
      using enumerated_code [OF catalogue_distinct(2) row] by blast
    have "area_found d1 site row (j, default_area site u row)"
      using none [of sa_is_active "\<lambda>b. sa_code b = fst (snd row)"] j(1)
      by (simp add: area_found_def d1(2) tbl_where_inserts)
    moreover have "\<not> tbl_exists (\<lambda>_ t. tm_area t = Some j) (templates d1)"
      using assms(1) j(2) by (auto simp: unused_site_def d1 tbl_exists_iff)
    ultimately show ?thesis using catalogue_short [OF row] unfolding pending_def by (metis fst_conv)
  qed
  moreover have "items_known d1" "tbl_wf (areas d1)" "tbl_wf (template_items d1)"
    using assms by (simp_all add: items_known_def d1 tbl_wf_inserts)
  ultimately obtain d' where d': "foldM (provision_template site u) DEFAULT_CLEANLINESS_AREAS (0, d1) = Inr (0 + length DEFAULT_CLEANLINESS_AREAS, d')"
    "areas d' = areas d1" "stores d' = stores d1" "\<forall>row \<in> set DEFAULT_CLEANLINESS_AREAS. set_up d' site row"
    using provision_all [OF _ _ _ catalogue_distinct(2), of d1 site u 0] by blast
  have "tbl_where (\<lambda>_ a. sa_site a = site) (areas d') = enumerate (tbl_next (areas d)) (map (default_area site u) DEFAULT_CLEANLINESS_AREAS)"
    using none [of "\<lambda>_. True" "\<lambda>_. True"]
    by (simp add: d'(2) d1(2) tbl_where_inserts filter_id_conv)
      (auto simp: enumerate_eq_zip dest!: set_zip_rightD)
  moreover have "length DEFAULT_CLEANLINESS_AREAS = 7" by (simp add: catalogue_defs)
  moreover have "provision_site_cleanliness_setup site u d = Inr (7, d')"
    using fresh [of sa_is_active] d1(1) d'(1) \<open>length DEFAULT_CLEANLINESS_AREAS = 7\<close>
    by (simp add: provision_site_cleanliness_setup_def provision_site_cleanliness_templates_def conj_commute)
  ultimately show ?thesis using d' d1(5) by auto
qed

lemma set_up_cong:
  "areas d' = areas d \<Longrightarrow> templates d' = templates d \<Longrightarrow> template_items d' = template_items d \<Longrightarrow>
     set_up d' site row = set_up d site row"
  by (simp only: set_up_def area_found_def survey_lines_def)

text \<open>The tables a creation starts from: no row refers to the next site.\<close>

definition ready_for_site :: "db \<Rightarrow> bool" where
  "ready_for_site d \<longleftrightarrow> tbl_wf (sites d) \<and> tbl_wf (areas d) \<and> tbl_wf (template_items d) \<and> tbl_wf (stores d) \<and>
     items_known d \<and> unused_site d (tbl_next (sites d))"

definition site_to_create :: "env \<Rightarrow> site_draft \<Rightarrow> user \<Rightarrow> db \<Rightarrow> site" where
  "site_to_create e dr u d = new_site (fst (the (unique_slug e d (dr_name dr)))) (fst (the (unique_code e d (dr_name dr)))) u dr"

lemma setup_of_new_site:
  assumes "ready_for_site d"
  shows "\<exists>d2. provision_site_cleanliness_setup (tbl_next (sites d)) u
      (audit_site_row A_CREATE u (tbl_next (sites d)) None (Some s) (d\<lparr>sites := tbl_insert s (sites d)\<rparr>)) = Inr (7, d2) \<and>
    stores d2 = stores d \<and>
    map snd (tbl_where (\<lambda>_ a. sa_site a = tbl_next (sites d)) (areas d2)) =
      map (default_area (tbl_next (sites d)) u) DEFAULT_CLEANLINESS_AREAS \<and>
    (\<forall>row \<in> set DEFAULT_CLEANLINESS_AREAS. set_up d2 (tbl_next (sites d)) row) \<and>
    tbl_get (sites d2) (tbl_next (sites d)) = Some s"
proof -
  define d1 where "d1 = audit_site_row A_CREATE u (tbl_next (sites d)) None (Some s) (d\<lparr>sites := tbl_insert s (sites d)\<rparr>)"
  have same: "areas d1 = areas d" "templates d1 = templates d" "template_items d1 = template_items d" "stores d1 = stores d"
    "sites d1 = tbl_insert s (sites d)" by (simp_all add: d1_def audit_site_row_def)
  have "unused_site d1 (tbl_next (sites d))" "items_known d1" "tbl_wf (areas d1)" "tbl_wf (template_items d1)"
    using assms by (simp_all add: ready_for_site_def unused_site_def items_known_def same)
  from setup_complete [OF this, of u] obtain d2 where
    d2: "provision_site_cleanliness_setup (tbl_next (sites d)) u d1 = Inr (7, d2)" "stores d2 = stores d1"
      "map snd (tbl_where (\<lambda>_ a. sa_site a = tbl_next (sites d)) (areas d2)) =
         map (default_area (tbl_next (sites d)) u) DEFAULT_CLEANLINESS_AREAS"
      "\<forall>row \<in> set DEFAULT_CLEANLINESS_AREAS. set_up d2 (tbl_next (sites d)) row" by blast
  have "sites d2 = sites d1" using provision_keeps [OF d2(1)] by (simp add: keeps_sites_def)
  then have "tbl_get (sites d2) (tbl_next (sites d)) = Some s"
    using assms by (simp add: same ready_for_site_def tbl_get_insert)
  with d2 same show ?thesis unfolding d1_def by (intro exI [of _ d2]) simp
qed

lemma create_site_store:
  "create_store (Some k) (n @ '' Store'') u SITE None [] None d =
     (if n @ '' Store'' \<noteq> [] \<and> length (n @ '' Store'') \<le> 160
      then Inr (tbl_next (stores d), record_audit A_CREATE (Some (u_pk u)) ''site_management.sitestore'' (tbl_next (stores d)) None
        (Some (SnapStore \<lparr>st_site = Some k, st_store_name = n @ '' Store'', st_store_type = SITE, st_parent_store = None,
           st_location = [], st_managed_by = None, st_is_active = True, st_created_by = Some (u_pk u), st_updated_by = Some (u_pk u)\<rparr>))
        (d\<lparr>stores := tbl_insert \<lparr>st_site = Some k, st_store_name = n @ '' Store'', st_store_type = SITE, st_parent_store = None,
           st_location = [], st_managed_by = None, st_is_active = True, st_created_by = Some (u_pk u), st_updated_by = Some (u_pk u)\<rparr>
           (stores d)\<rparr>)) else Inl FullClean)"
  by (simp add: create_store_def site_store_clean_def parent_type_in_def Let_def)

lemma create_site_cases:
  assumes ready: "ready_for_site d"
  shows "let s = site_to_create e dr u d; k = tbl_next (sites d) in
    (\<not> site_fits s \<longrightarrow> create_site e dr u d = Inl DataError) \<and>
    (site_fits s \<and> site_key_taken d k s \<longrightarrow> create_site e dr u d = Inl IntegrityError) \<and>
    (site_fits s \<and> \<not> site_key_taken d k s \<and> 154 < length (dr_name dr) \<longrightarrow> create_site e dr u d = Inl FullClean) \<and>
    (site_fits s \<and> \<not> site_key_taken d k s \<and> length (dr_name dr) \<le> 154 \<longrightarrow>
      (\<exists>d'. create_site e dr u d = Inr (k, d') \<and> tbl_get (sites d') k = Some s \<and>
        map snd (tbl_where (\<lambda>_ a. sa_site a = k) (areas d')) = map (default_area k u) DEFAULT_CLEANLINESS_AREAS \<and>
        (\<forall>row \<in> set DEFAULT_CLEANLINESS_AREAS. set_up d' k row) \<and>
        tbl_exists (\<lambda>_ st. st_site st = Some k \<and> st_is_active st) (stores d')))"
proof -
  define s where "s = site_to_create e dr u d"
  define k where "k = tbl_next (sites d)"
  obtain d2 where d2: "provision_site_cleanliness_setup k u (audit_site_row A_CREATE u k None (Some s) (d\<lparr>sites := tbl_insert s (sites d)\<rparr>)) = Inr (7, d2)"
    "stores d2 = stores d" "map snd (tbl_where (\<lambda>_ a. sa_site a = k) (areas d2)) = map (default_area k u) DEFAULT_CLEANLINESS_AREAS"
    "\<forall>row \<in> set DEFAULT_CLEANLINESS_AREAS. set_up d2 k row" "tbl_get (sites d2) k = Some s"
    using setup_of_new_site [OF ready, of u s] unfolding k_def by blast
  have "\<not> tbl_exists (\<lambda>_ st. st_site st = Some k \<and> st_is_active st) (stores d2)"
    using ready by (auto simp: ready_for_site_def unused_site_def d2(2) k_def tbl_exists_iff)
  then have unfolded: "create_site e dr u d = save_site k s d
      (rbind (create_store (Some k) (dr_name dr @ '' Store'') u SITE None [] None d2) (\<lambda>(_, d2). Inr (k, d2)))"
    by (simp add: create_site_def s_def [symmetric] site_to_create_def [symmetric] k_def [symmetric] Let_def d2(1))
  show ?thesis
  proof (cases "length (dr_name dr) \<le> 154")
    case False
    then have "create_store (Some k) (dr_name dr @ '' Store'') u SITE None [] None d2 = Inl FullClean"
      by (simp add: create_site_store)
    with False show ?thesis unfolding Let_def s_def [symmetric] k_def [symmetric] unfolded save_site_def by simp
  next
    case True
    then obtain j d3 where d3: "create_store (Some k) (dr_name dr @ '' Store'') u SITE None [] None d2 = Inr (j, d3)"
      "areas d3 = areas d2" "templates d3 = templates d2" "template_items d3 = template_items d2" "sites d3 = sites d2"
      "tbl_exists (\<lambda>_ st. st_site st = Some k \<and> st_is_active st) (stores d3)"
      unfolding create_site_store by (simp add: tbl_exists_def tbl_insert_def)
    have "set_up d3 k row = set_up d2 k row" for row by (rule set_up_cong [OF d3(2-4)])
    with True d2(3-5) d3 show ?thesis unfolding Let_def s_def [symmetric] k_def [symmetric] unfolded save_site_def by simp
  qed
qed

text \<open>
  C36: Creating a site leaves it ready for work: under a new key there is an active site with the name, zone and work mode of the
  draft and with a slug and a code no other site has; it has exactly the seven areas of the cleanliness catalogue, each with
  one active daily survey whose lines are those of the catalogue, numbered from one; it has an active store;
  and setting it up once more creates nothing and changes nothing.
\<close>

theorem site_starts_set_up:
  assumes "ready_for_site d" and "create_site e dr u d = Inr (k, d')"
  shows "(\<exists>s. tbl_get (sites d') k = Some s \<and> si_is_active s \<and> si_name s = dr_name dr \<and> si_zone s = dr_zone dr \<and>
        si_work_mode s = dr_work_mode dr \<and> \<not> tbl_exists (\<lambda>_ b. si_slug b = si_slug s \<or> si_code b = si_code s) (sites d)) \<and>
    map snd (tbl_where (\<lambda>_ a. sa_site a = k) (areas d')) = map (default_area k u) DEFAULT_CLEANLINESS_AREAS \<and>
    (\<forall>row \<in> set DEFAULT_CLEANLINESS_AREAS. set_up d' k row) \<and>
    tbl_exists (\<lambda>_ st. st_site st = Some k \<and> st_is_active st) (stores d') \<and>
    provision_site_cleanliness_templates k u d' = Inr (0, d')"
proof -
  define s where "s = site_to_create e dr u d"
  have facts: "k = tbl_next (sites d) \<and> \<not> site_key_taken d k s \<and> tbl_get (sites d') k = Some s \<and>
      map snd (tbl_where (\<lambda>_ a. sa_site a = k) (areas d')) = map (default_area k u) DEFAULT_CLEANLINESS_AREAS \<and>
      (\<forall>row \<in> set DEFAULT_CLEANLINESS_AREAS. set_up d' k row) \<and>
      tbl_exists (\<lambda>_ st. st_site st = Some k \<and> st_is_active st) (stores d')"
    using create_site_cases [OF assms(1), of e dr u] assms(2) unfolding Let_def s_def [symmetric]
    by (cases "length (dr_name dr) \<le> 154"; cases "site_fits s"; cases "site_key_taken d (tbl_next (sites d)) s") auto
  then have k': "k = tbl_next (sites d)" and new: "\<not> site_key_taken d k s" and row: "tbl_get (sites d') k = Some s"
    and areas: "map snd (tbl_where (\<lambda>_ a. sa_site a = k) (areas d')) = map (default_area k u) DEFAULT_CLEANLINESS_AREAS"
    and rows: "\<forall>row \<in> set DEFAULT_CLEANLINESS_AREAS. set_up d' k row"
    and store: "tbl_exists (\<lambda>_ st. st_site st = Some k \<and> st_is_active st) (stores d')" by blast+
  have "\<not> tbl_exists (\<lambda>_ b. si_slug b = si_slug s \<or> si_code b = si_code s) (sites d)"
    using new assms(1) next_key_other [of "sites d"] by (simp add: site_key_taken_def k' ready_for_site_def)
  moreover have "provision_site_cleanliness_templates k u d' = Inr (0, d')"
    unfolding provision_site_cleanliness_templates_def by (rule provision_again) (use rows in blast)
  moreover have "\<exists>s. tbl_get (sites d') k = Some s \<and> si_is_active s \<and> si_name s = dr_name dr \<and> si_zone s = dr_zone dr \<and>
      si_work_mode s = dr_work_mode dr \<and> \<not> tbl_exists (\<lambda>_ b. si_slug b = si_slug s \<or> si_code b = si_code s) (sites d)"
    using row calculation(1) by (intro exI [of _ s]) (simp add: s_def site_to_create_def new_site_def)
  ultimately show ?thesis using rows store areas by blast
qed


section \<open>Concrete instances\<close>

definition demo_boss :: user where
  "demo_boss = \<lparr>u_pk = 1, u_role = SYSTEM_ADMIN, u_is_superuser = False, u_is_active = True, u_perms = []\<rparr>"

definition demo_shift :: site_shift where
  "demo_shift = \<lparr>sh_site = 1, sh_shift_name = ''Day'', sh_shift_code = [], sh_start_time = Clock 6 0 0, sh_end_time = Clock 14 0 0,
     sh_effective_days = [''mon''], sh_sequence = 0, sh_description = [], sh_is_active = True, sh_created_by = None, sh_updated_by = None\<rparr>"

definition demo_config_db :: db where
  "demo_config_db = empty_db\<lparr>sites := tbl_insert demo_site \<lparr>tbl_rows = [], tbl_next = 1\<rparr>,
     shifts := tbl_insert demo_shift \<lparr>tbl_rows = [], tbl_next = 1\<rparr>\<rparr>"

definition demo_draft :: site_draft where
  "demo_draft = \<lparr>dr_name = ''DEPOT'', dr_zone = None, dr_site_type = None, dr_status = None, dr_description = [], dr_building_name = [],
     dr_location = [], dr_address = [], dr_city = [], dr_region = [], dr_country = ''TZ'', dr_postal_code = [], dr_latitude = None,
     dr_longitude = None, dr_capacity = 0, dr_contact_person = [], dr_contact_email = [], dr_contact_phone = [],
     dr_work_mode = WM_FULL_TIME, dr_working_days = [], dr_notes = []\<rparr>"

lemma demo_ready: "ready_for_site empty_db"
  by (simp add: ready_for_site_def unused_site_def items_known_def empty_db_def tbl_exists_def tbl_empty_def tbl_wf_def)

lemma demo_codes:
  "unique_slug default_env empty_db ''DEPOT'' = Some (''DEPOT'', 2)" "unique_code default_env empty_db ''DEPOT'' = Some (''DEPOT'', 2)"
  by (simp_all add: unique_slug_def unique_code_def next_unused_def active_values_def empty_db_def tbl_empty_def tbl_where_def
      while_option_unfold default_env_def or_default_def compact_code_def upper_def upper_char_def)

lemma empty_sites: "sites empty_db = tbl_empty"
  by (simp add: empty_db_def)

lemma demo_site_made: "\<exists>d'. create_site default_env demo_draft demo_boss empty_db = Inr (1, d')"
proof -
  have name: "dr_name demo_draft = ''DEPOT''" by (simp add: demo_draft_def)
  have "site_fits (site_to_create default_env demo_draft demo_boss empty_db)"
    by (simp add: site_to_create_def name demo_codes site_fits_def new_site_def) (simp add: demo_draft_def)
  moreover have "\<not> site_key_taken empty_db k s" for k s
    by (simp add: site_key_taken_def empty_sites tbl_exists_def tbl_empty_def)
  moreover have "tbl_next (sites empty_db) = 1" by (simp add: empty_sites tbl_empty_def)
  ultimately show ?thesis using create_site_cases [OF demo_ready, of default_env demo_draft demo_boss] unfolding Let_def name
    by auto
qed

theorem site_starts_set_up_witness:
  "\<exists>d'. create_site default_env demo_draft demo_boss empty_db = Inr (1, d') \<and>
     provision_site_cleanliness_templates 1 demo_boss d' = Inr (0, d') \<and>
     tbl_exists (\<lambda>_ st. st_site st = Some 1 \<and> st_is_active st) (stores d')"
  using demo_site_made site_starts_set_up [OF demo_ready, of default_env demo_draft demo_boss 1] by blast


lemma demo_inv: "config_inv demo_config_db"
  by (simp add: config_inv_def demo_config_db_def tbl_wf_def tbl_insert_def tbl_unique_def tbl_get_def site_mode_def demo_site_def
      demo_shift_def)

lemmas demo_config_defs = demo_config_db_def shift_status_def shift_or_404_def site_config_write_def can_configure_site_def
  write_access_def is_system_admin_def demo_boss_def permit_def active_or_404_def found_def active_row_def deactivate_shift_def
  shift_has_operational_usage_def site_of_shift_def active_shifts_def validate_shift_work_mode_def tbl_exists_def tbl_where_def
  tbl_get_def tbl_insert_def tbl_empty_def empty_db_def demo_site_def demo_shift_def rbind_def Let_def

text \<open>The only shift of the site stays, whoever asks.\<close>

lemma demo_last_shift: "config_step demo_config_db (e, ShiftStatus demo_boss 1 1 False) = Inl (ValidationError ''work_mode_conflict'')"
  by (simp add: demo_config_defs)

theorem full_time_sites_have_no_shifts_witness:
  "let t = run_calls config_step demo_config_db [(default_env, ShiftStatus demo_boss 1 1 False)]
   in \<exists>x. tbl_get (sites t) 1 = Some x \<and> si_work_mode x \<noteq> WM_FULL_TIME"
proof -
  let ?t = "run_calls config_step demo_config_db [(default_env, ShiftStatus demo_boss 1 1 False)]"
  have "?t = demo_config_db" by (simp add: demo_last_shift del: config_step.simps One_nat_def)
  then have "?t \<in> set (call_states config_step demo_config_db [])" "tbl_get (shifts ?t) 1 = Some demo_shift"
    by (simp_all add: demo_config_db_def tbl_get_def tbl_insert_def)
  from full_time_sites_have_no_shifts [OF demo_inv this] show ?thesis by (simp add: demo_shift_def Let_def)
qed

definition no_change :: site_patch where
  "no_change = \<lparr>pt_name = None, pt_zone_id = None, pt_site_type_id = None, pt_status_id = None, pt_description = None,
     pt_building_name = None, pt_location = None, pt_address = None, pt_city = None, pt_region = None, pt_country = None,
     pt_postal_code = None, pt_latitude = None, pt_longitude = None, pt_capacity = None, pt_contact_person = None,
     pt_contact_email = None, pt_contact_phone = None, pt_work_mode = None, pt_working_days = None, pt_notes = None\<rparr>"

lemma draft_no_change: "apply_draft (draft_from_update e d no_change s) s = s"
  by (simp add: apply_draft_def draft_from_update_def no_change_def given_def pick_reference_def)

lemma draft_mode: "apply_draft (draft_from_update e d (no_change\<lparr>pt_work_mode := Some m\<rparr>) s) s = s\<lparr>si_work_mode := m\<rparr>"
  by (simp add: apply_draft_def draft_from_update_def no_change_def given_def pick_reference_def)

definition demo_full_time_db :: db where
  "demo_full_time_db = empty_db\<lparr>sites := tbl_insert (demo_site\<lparr>si_work_mode := WM_FULL_TIME\<rparr>) tbl_empty\<rparr>"

definition demo_switch :: "env \<times> config_call" where
  "demo_switch = (default_env, SiteUpdate demo_boss 1 (no_change\<lparr>pt_work_mode := Some WM_SHIFT\<rparr>))"

lemma demo_full_time_inv: "config_inv demo_full_time_db"
  by (simp add: config_inv_def demo_full_time_db_def tbl_wf_def tbl_insert_def tbl_unique_def tbl_get_def site_mode_def
      tbl_empty_def empty_db_def)

lemma demo_switched:
  "\<exists>d'. config_step demo_full_time_db demo_switch = Inr d' \<and> sites d' = tbl_put 1 demo_site (sites demo_full_time_db) \<and>
     shifts d' = shifts demo_full_time_db"
proof -
  have row: "tbl_get (sites demo_full_time_db) 1 = Some (demo_site\<lparr>si_work_mode := WM_FULL_TIME\<rparr>)"
    by (simp add: demo_full_time_db_def tbl_get_def tbl_insert_def tbl_empty_def)
  have saved: "(demo_site\<lparr>si_work_mode := WM_FULL_TIME\<rparr>)\<lparr>si_work_mode := WM_SHIFT\<rparr> = demo_site" by (simp add: demo_site_def)
  have "site_fits demo_site" by (simp add: site_fits_def demo_site_def)
  moreover have "\<not> site_key_taken demo_full_time_db 1 demo_site"
    by (simp add: site_key_taken_def demo_full_time_db_def tbl_exists_def tbl_insert_def tbl_empty_def)
  moreover have "si_is_active demo_site" "si_work_mode demo_site = WM_SHIFT" by (simp_all add: demo_site_def)
  ultimately show ?thesis
    by (simp add: demo_switch_def site_update_def permit_def write_access_def is_system_admin_def demo_boss_def load_site_def
        active_or_404_def found_def active_row_def row update_site_def draft_mode saved Let_def save_site_def db_of_def
        on_status_changed_def audit_site_row_def del: One_nat_def)
qed

theorem last_shift_is_kept_witness:
  "site_mode (run_calls config_step demo_full_time_db [demo_switch]) 1 = Some WM_SHIFT \<and>
   (\<exists>t \<in> set (call_states config_step demo_full_time_db [demo_switch]). site_mode t 1 \<noteq> Some WM_SHIFT)"
proof -
  obtain d' where d': "config_step demo_full_time_db demo_switch = Inr d'"
    "sites d' = tbl_put 1 demo_site (sites demo_full_time_db)" "shifts d' = shifts demo_full_time_db"
    using demo_switched by blast
  have run: "run_calls config_step demo_full_time_db [demo_switch] = d'" by (simp add: d'(1))
  have row: "tbl_get (sites demo_full_time_db) 1 \<noteq> None" "tbl_rows (shifts demo_full_time_db) = []"
    by (simp_all add: demo_full_time_db_def tbl_get_def tbl_insert_def tbl_empty_def empty_db_def)
  have final: "site_mode (run_calls config_step demo_full_time_db [demo_switch]) 1 = Some WM_SHIFT \<and>
      active_shifts (run_calls config_step demo_full_time_db [demo_switch]) 1 = []"
    unfolding run site_mode_def active_shifts_def tbl_where_def d' using row by (auto simp: tbl_get_put demo_site_def)
  have "site_mode demo_full_time_db 1 = Some WM_FULL_TIME"
    by (simp add: site_mode_def demo_full_time_db_def tbl_get_def tbl_insert_def tbl_empty_def)
  then have "\<not> (site_mode demo_full_time_db 1 = Some WM_SHIFT \<and> active_shifts demo_full_time_db 1 = [])" by simp
  from last_shift_is_kept [OF demo_full_time_inv this final] final show ?thesis by blast
qed

section \<open>What the code does beside its documentation\<close>

text \<open>The endpoint that activates or deactivates a shift never activates one: no request changes an inactive shift.\<close>

lemma inactive_shift_moves:
  assumes "config_move d d'" and "tbl_wf (shifts d)" and "tbl_get (shifts d) k = Some s" and "\<not> sh_is_active s"
  shows "tbl_get (shifts d') k = Some s"
  using assms(1)
  by cases (use assms(2-4) in \<open>auto simp: tbl_get_put tbl_get_update_where tbl_get_insert dest: tbl_get_lt\<close>)

lemma inactive_shift_is_final:
  assumes "config_inv d" and "tbl_get (shifts d) k = Some s" and "\<not> sh_is_active s"
  shows "tbl_get (shifts (run_calls config_step d cs)) k = Some s"
  using assms
proof (induction cs arbitrary: d)
  case Nil
  then show ?case by simp
next
  case (Cons c cs)
  show ?case
  proof (cases "config_step d c")
    case (Inl err)
    with Cons show ?thesis by simp
  next
    case (Inr d')
    have "config_inv d'" by (rule config_move_inv [OF config_step_move [OF Inr] Cons.prems(1)])
    moreover have "tbl_get (shifts d') k = Some s"
      using inactive_shift_moves [OF config_step_move [OF Inr]] Cons.prems by (simp add: config_inv_def)
    ultimately show ?thesis using Cons.IH Cons.prems(3) by (simp add: Inr)
  qed
qed

text \<open>A zone that is not found clears the zone of a site, although absent fields keep theirs.\<close>

lemma unknown_zone_clears:
  "j \<notin> set (map fst (tbl_where (\<lambda>_. zn_is_active) (zones d))) \<Longrightarrow>
     dr_zone (draft_from_update e d (no_change\<lparr>pt_zone_id := Some j\<rparr>) s) = None"
  by (simp add: draft_from_update_def no_change_def pick_reference_def zone_or_none_def known_id_def)

text \<open>The creation of a zone whose code a deactivated zone holds passes the validation and fails in the database.\<close>

lemma retired_zone_code_fails:
  assumes "tbl_wf (zones d)" and "tbl_get (zones d) j = Some b" and "zn_code b = upper code" and "role_required [SYSTEM_ADMIN] u"
  shows "zone_create u name code ds bd d \<in> {Inl FullClean, Inl DataError, Inl IntegrityError}"
  using assms by (auto simp: zone_create_def permit_def insert_zone_def code_taken_def tbl_exists_get rbind_def Let_def dest: tbl_get_lt)

end
