(* ===== verification/Gateway.thy ===== *)
theory Gateway
  imports Accounts
begin

text \<open>
  What surrounds every request: the rate limiter (\<open>apps/core/throttling.py\<close>), the pages of a list and their links
  (\<open>apps/core/pagination.py\<close>) and the status an error is answered with (\<open>apps/core/handlers.py\<close>). The cache is a list of keys with a value and
  the second it expires in; the clock of the environment is \<open>time.time()\<close>.
\<close>

section \<open>Rates\<close>

fun split_on :: "char \<Rightarrow> string \<Rightarrow> string list" where
  "split_on c [] = [[]]"
| "split_on c (x # xs) = (if x = c then [] # split_on c xs
     else (case split_on c xs of [] \<Rightarrow> [[x]] | w # ws \<Rightarrow> (x # w) # ws))"

text \<open>Python's \<open>int(s)\<close> on ASCII text: white space around, a sign, digits with single underscores between them.\<close>

fun int_digits :: "bool \<Rightarrow> nat \<Rightarrow> string \<Rightarrow> nat option" where
  "int_digits after_digit n [] = (if after_digit then Some n else None)"
| "int_digits after_digit n (c # cs) =
     (if is_digit c then int_digits True (10 * n + (of_char c - 48)) cs
      else if c = CHR ''_'' \<and> after_digit then int_digits False n cs else None)"

definition python_int :: "string \<Rightarrow> int option" where
  "python_int s = (case strip s of [] \<Rightarrow> None
     | c # cs \<Rightarrow> if c = CHR ''-'' then map_option (\<lambda>n. - int n) (int_digits False 0 cs)
                else if c = CHR ''+'' then map_option int (int_digits False 0 cs)
                else map_option int (int_digits False 0 (c # cs)))"

definition starts_with :: "string \<Rightarrow> string \<Rightarrow> bool" where
  "starts_with p s \<longleftrightarrow> take (length p) s = p"

text \<open>The requests allowed in sixty seconds, at least one; a rate that cannot be read limits nothing.\<close>

definition parse_rate :: "string \<Rightarrow> int option" where
  "parse_rate rate = (case split_on (CHR ''/'') (map lower_char (strip rate)) of
       [amount, unit] \<Rightarrow> map_option (\<lambda>n. max (n * (if starts_with ''min'' unit then 1 else if starts_with ''sec'' unit then 60 else 1)) 1)
         (python_int amount)
     | _ \<Rightarrow> None)"

section \<open>The limiter\<close>

record throttle_settings =
  API_THROTTLE_ENABLED :: bool
  API_V1_PREFIX :: string
  API_THROTTLE_AUTH_RATE :: string
  API_THROTTLE_ANON_RATE :: string

record http_request =
  path_info :: string
  http_authorization :: string
  remote_addr :: string

definition bearer :: string where
  "bearer = ''Bearer ''"

definition request_identity :: "env \<Rightarrow> http_request \<Rightarrow> string \<times> bool" where
  "request_identity e r =
     (if starts_with bearer (http_authorization r) then
        let token = strip (drop (length bearer) (http_authorization r))
        in case decode_access_token e token of
             Some k \<Rightarrow> (''user:'' @ str_nat k, True)
           | None \<Rightarrow> (''token:'' @ take 16 (sha256 e token), True)
      else (''anon:'' @ remote_addr r, False))"

type_synonym cache = "(string \<times> int \<times> nat) list"

definition cache_get :: "nat \<Rightarrow> string \<Rightarrow> int \<Rightarrow> cache \<Rightarrow> int" where
  "cache_get t key fallback c = (case map_of c key of None \<Rightarrow> fallback | Some (v, expires) \<Rightarrow> if t < expires then v else fallback)"

definition cache_set :: "nat \<Rightarrow> string \<Rightarrow> int \<Rightarrow> nat \<Rightarrow> cache \<Rightarrow> cache" where
  "cache_set t key v timeout c = (key, v, t + timeout) # filter (\<lambda>x. fst x \<noteq> key) c"

definition throttle_key :: "env \<Rightarrow> http_request \<Rightarrow> string" where
  "throttle_key e r = ''wbz:throttle'' @ '':'' @ fst (request_identity e r) @ '':'' @ str_nat (now e div 60)"

definition throttle_limit :: "throttle_settings \<Rightarrow> env \<Rightarrow> http_request \<Rightarrow> int option" where
  "throttle_limit s e r =
     (if \<not> API_THROTTLE_ENABLED s \<or> \<not> starts_with (''/'' @ API_V1_PREFIX s @ ''/'') (path_info r) then None
      else parse_rate (if snd (request_identity e r) then API_THROTTLE_AUTH_RATE s else API_THROTTLE_ANON_RATE s))"

text \<open>Whether the request is let through, and the cache afterwards.\<close>

definition throttle :: "throttle_settings \<Rightarrow> env \<Rightarrow> http_request \<Rightarrow> cache \<Rightarrow> bool \<times> cache" where
  "throttle s e r c =
     (case throttle_limit s e r of None \<Rightarrow> (True, c)
      | Some limit \<Rightarrow>
          let key = throttle_key e r; n = cache_get (now e) key 0 c
          in if limit \<le> n then (False, c) else (True, cache_set (now e) key (n + 1) 65 c))"

section \<open>Pages\<close>

definition resolve_page_size :: "int \<Rightarrow> int \<Rightarrow> int option \<Rightarrow> int" where
  "resolve_page_size fallback maximum page_size = max 1 (min (given page_size fallback) maximum)"

definition paginate :: "int \<Rightarrow> int \<Rightarrow> 'a list \<Rightarrow> nat \<Rightarrow> int option \<Rightarrow> 'a list \<times> nat \<times> nat \<times> nat" where
  "paginate fallback maximum rows page page_size =
     (let per_page = nat (resolve_page_size fallback maximum page_size)
      in (take per_page (drop ((page - 1) * per_page) rows), length rows, page, per_page))"

definition total_pages :: "nat \<Rightarrow> nat \<Rightarrow> nat" where
  \<comment> \<open>\<open>max(1, -(-count // resolved))\<close>\<close>
  "total_pages per_page n = max 1 (nat (- ((- int n) div int per_page)))"

text \<open>The numbers of the next and the previous page that get a link.\<close>

definition page_links :: "int \<Rightarrow> int \<Rightarrow> nat \<Rightarrow> int option \<Rightarrow> nat \<Rightarrow> nat option \<times> nat option" where
  "page_links fallback maximum page page_size n =
     (let per_page = nat (resolve_page_size fallback maximum page_size)
      in (if page < total_pages per_page n then Some (page + 1) else None, if 1 < page then Some (page - 1) else None))"

text \<open>The whitelisted key to sort by and whether in descending order.\<close>

definition apply_ordering :: "string option \<Rightarrow> string list \<Rightarrow> (string \<times> bool) option" where
  "apply_ordering requested allowed = (case requested of None \<Rightarrow> None | Some s \<Rightarrow>
     if s = [] then None
     else let descending = (hd s = CHR ''-''); field = (if descending then tl s else s)
          in if field \<in> set allowed then Some (field, descending) else None)"

section \<open>Errors\<close>

text \<open>The status of the answer to an error a service raises; what no handler names is an internal error.\<close>

fun http_status :: "err \<Rightarrow> nat" where
  "http_status (ValidationError c) = 422"
| "http_status FullClean = 422"
| "http_status Forbidden = 403"
| "http_status DoesNotExist = 404"
| "http_status MultipleObjectsReturned = 500"
| "http_status IntegrityError = 500"
| "http_status DataError = 500"
| "http_status ValueError = 500"
| "http_status PermissionDenied = 403"
| "http_status Http404 = 404"
| "http_status Unauthorized = 401"


section \<open>The keys of the limiter\<close>

lemma colon_free: "CHR '':'' \<notin> set (str_nat n)"
proof (induction n rule: str_nat.induct)
  case (1 n)
  have digit: "CHR '':'' \<noteq> char_of (48 + d)" if "d < 10" for d :: nat
  proof
    assume "CHR '':'' = char_of (48 + d)"
    then have "(of_char (CHR '':'') :: nat) = of_char (char_of (48 + d) :: char)" by simp
    with that show False by simp
  qed
  show ?case
  proof (cases "n < 10")
    case True
    then show ?thesis using digit by (subst str_nat.simps) simp
  next
    case False
    then show ?thesis using 1 digit [of "n mod 10"] by (subst str_nat.simps) simp
  qed
qed

lemma last_part:
  assumes "x @ c # a = y @ c # b" and "c \<notin> set a" and "c \<notin> set b"
  shows "x = y \<and> a = b"
proof -
  have part: "takeWhile (\<lambda>z. z \<noteq> c) (rev (x @ c # a)) = rev a" if "c \<notin> set a" for x a
    using that by (simp, subst takeWhile_append2) auto
  have "rev a = rev b" using part [OF assms(2), of x] part [OF assms(3), of y] assms(1) by simp
  with assms(1) show ?thesis by simp
qed

lemma throttle_key_eq:
  assumes "throttle_key e r = throttle_key e' r'"
  shows "now e div 60 = now e' div 60" and "snd (request_identity e r) = snd (request_identity e' r')"
proof -
  have "fst (request_identity e r) = fst (request_identity e' r') \<and> str_nat (now e div 60) = str_nat (now e' div 60)"
    using assms last_part [of "''wbz:throttle'' @ '':'' @ fst (request_identity e r)" "CHR '':''" "str_nat (now e div 60)"
        "''wbz:throttle'' @ '':'' @ fst (request_identity e' r')" "str_nat (now e' div 60)"]
    by (simp add: throttle_key_def colon_free)
  then show "now e div 60 = now e' div 60" and "snd (request_identity e r) = snd (request_identity e' r')"
    by (auto simp: request_identity_def Let_def split: option.splits if_splits)
qed

text \<open>A run of requests: the keys of those that were counted and let through, and the cache.\<close>

fun admit :: "throttle_settings \<Rightarrow> (env \<times> http_request) list \<Rightarrow> string list \<times> cache \<Rightarrow> string list \<times> cache" where
  "admit s [] (ks, c) = (ks, c)"
| "admit s ((e, r) # xs) (ks, c) =
     (let (ok, c') = throttle s e r c
      in admit s xs (if ok \<and> throttle_limit s e r \<noteq> None then throttle_key e r # ks else ks, c'))"

definition tally :: "string list \<Rightarrow> cache \<Rightarrow> bool" where
  "tally ks c \<longleftrightarrow> (\<forall>e r. case map_of c (throttle_key e r) of None \<Rightarrow> count_list ks (throttle_key e r) = 0
     | Some (v, x) \<Rightarrow> v = int (count_list ks (throttle_key e r)) \<and> 60 * (now e div 60) + 60 \<le> x)"

lemma tally_get:
  assumes "tally ks c"
  shows "cache_get (now e) (throttle_key e r) 0 c = int (count_list ks (throttle_key e r))"
proof -
  have "now e < 60 * (now e div 60) + 60" by presburger
  then show ?thesis
    using assms [unfolded tally_def, rule_format, of e r] by (auto simp: cache_get_def split: option.splits prod.splits)
qed

lemma map_of_filter_other: "key \<noteq> key' \<Longrightarrow> map_of (filter (\<lambda>x. fst x \<noteq> key') c) key = map_of c key"
  by (induction c) auto

lemma tally_step:
  assumes "tally ks c" and "throttle s e r c = (ok, c')"
  shows "tally (if ok \<and> throttle_limit s e r \<noteq> None then throttle_key e r # ks else ks) c'"
proof (cases "ok \<and> throttle_limit s e r \<noteq> None")
  case False
  then have "c' = c" using assms(2) by (auto simp: throttle_def Let_def split: option.splits if_splits)
  show ?thesis unfolding \<open>c' = c\<close> if_not_P [OF False] by (rule assms(1))
next
  case True
  then have c': "c' = cache_set (now e) (throttle_key e r) (int (count_list ks (throttle_key e r)) + 1) 65 c"
    using assms by (auto simp: throttle_def Let_def tally_get split: option.splits if_splits)
  have bucket: "60 * (now e div 60) + 60 \<le> now e + 65" by presburger
  have "case map_of c' (throttle_key f q) of None \<Rightarrow> count_list (throttle_key e r # ks) (throttle_key f q) = 0
     | Some (v, x) \<Rightarrow> v = int (count_list (throttle_key e r # ks) (throttle_key f q)) \<and> 60 * (now f div 60) + 60 \<le> x" for f q
  proof (cases "throttle_key f q = throttle_key e r")
    case True
    then show ?thesis using throttle_key_eq(1) [OF True] bucket by (simp add: c' cache_set_def)
  next
    case False
    then show ?thesis using assms(1) [unfolded tally_def, rule_format, of f q]
      by (cases "map_of c (throttle_key f q)") (auto simp: c' cache_set_def map_of_filter_other)
  qed
  with True show ?thesis by (simp add: tally_def)
qed

lemma admit_tally: "tally ks c \<Longrightarrow> admit s xs (ks, c) = (ks', c') \<Longrightarrow> tally ks' c'"
proof (induction xs arbitrary: ks c)
  case Nil
  then show ?case by simp
next
  case (Cons x xs)
  obtain e r where x: "x = (e, r)" by fastforce
  obtain ok c1 where t: "throttle s e r c = (ok, c1)" by fastforce
  show ?case using Cons.IH [OF tally_step [OF Cons.prems(1) t]] Cons.prems(2) by (simp add: x t)
qed

lemma parse_rate_positive: "parse_rate rate = Some l \<Longrightarrow> 1 \<le> l"
  by (auto simp: parse_rate_def split: list.splits)

lemma admit_bound:
  assumes "tally ks c" and "admit s xs (ks, c) = (ks', c')" and "throttle_limit s e r = Some l"
    and "int (count_list ks (throttle_key e r)) \<le> l"
  shows "int (count_list ks' (throttle_key e r)) \<le> l"
  using assms
proof (induction xs arbitrary: ks c)
  case Nil
  then show ?case by simp
next
  case (Cons x xs)
  obtain f q where x: "x = (f, q)" by fastforce
  obtain ok c1 where t: "throttle s f q c = (ok, c1)" by fastforce
  let ?ks = "if ok \<and> throttle_limit s f q \<noteq> None then throttle_key f q # ks else ks"
  have "int (count_list ?ks (throttle_key e r)) \<le> l"
  proof (cases "ok \<and> throttle_limit s f q \<noteq> None \<and> throttle_key f q = throttle_key e r")
    case True
    then have "throttle_limit s f q = Some l"
      using Cons.prems(3) throttle_key_eq(2) [of f q e r] by (auto simp: throttle_limit_def split: if_splits)
    then have "cache_get (now f) (throttle_key f q) 0 c < l"
      using t True by (auto simp: throttle_def Let_def split: if_splits)
    then have "int (count_list ks (throttle_key f q)) < l" using tally_get [OF Cons.prems(1), of f q] by simp
    with True show ?thesis by simp
  next
    case False
    with Cons.prems(4) show ?thesis by auto
  qed
  then show ?case using Cons.IH [OF tally_step [OF Cons.prems(1) t]] Cons.prems(2,3) by (simp add: x t)
qed

section \<open>Pages\<close>

lemma concat_pages: "concat (map (\<lambda>p. take s (drop (p * s) xs)) [0 ..< n]) = take (n * s) xs"
proof (induction n)
  case 0
  then show ?case by simp
next
  case (Suc n)
  have "take (Suc n * s) xs = take (n * s) xs @ take s (drop (n * s) xs)" by (simp add: add.commute [of s] take_add)
  with Suc show ?case by simp
qed

lemma total_pages_bounds:
  assumes "0 < s"
  shows "n \<le> total_pages s n * s" and "Suc p < total_pages s n \<longleftrightarrow> Suc p * s < n"
proof -
  define q where "q = (- int n) div int s"
  have split: "- int n = q * int s + (- int n) mod int s" by (simp add: q_def)
  have "0 \<le> (- int n) mod int s" "(- int n) mod int s < int s" using assms by simp_all
  with split have q: "q * int s \<le> - int n" "- int n < (q + 1) * int s" by (simp_all only: distrib_right)
  have t: "total_pages s n = max 1 (nat (- q))" by (simp add: total_pages_def q_def)
  have "q \<le> 0"
  proof (rule ccontr)
    assume "\<not> q \<le> 0"
    then have "0 < q * int s" using assms by (intro mult_pos_pos) auto
    with q(1) show False by linarith
  qed
  then have c: "int (nat (- q)) = - q" by simp
  have "int (nat (- q) * s) = - (q * int s)" by (simp only: of_nat_mult c mult_minus_left)
  with q(1) have "int n \<le> int (nat (- q) * s)" by linarith
  then show "n \<le> total_pages s n * s" unfolding t by (smt (verit) le_trans max.cobounded2 mult_le_mono1 of_nat_le_iff)
  have "Suc p < nat (- q) \<longleftrightarrow> Suc p * s < n"
  proof
    assume "Suc p < nat (- q)"
    then have "int (Suc p) * int s \<le> (- q - 1) * int s" by (intro mult_right_mono) auto
    with q(2) have "int (Suc p) * int s < int n" by (simp add: algebra_simps)
    then have "int (Suc p * s) < int n" by (simp only: of_nat_mult)
    then show "Suc p * s < n" by (simp only: of_nat_less_iff)
  next
    assume "Suc p * s < n"
    then have "int (Suc p) * int s < int n" by (simp only: of_nat_mult [symmetric] of_nat_less_iff)
    with q(1) have "int (Suc p) * int s < (- q) * int s" unfolding mult_minus_left by linarith
    then have "int (Suc p) < - q" using assms mult_less_cancel_right_pos [of "int s"] by fastforce
    then show "Suc p < nat (- q)" by simp
  qed
  then show "Suc p < total_pages s n \<longleftrightarrow> Suc p * s < n" unfolding t by auto
qed

section \<open>Properties\<close>

text \<open>
  C13: The rate limiter counts exactly. After any run of requests, in any order and at any times, that starts with an empty cache,
  a limited request is let through if and only if fewer requests of the same identity and minute than the limit were let
  through before; so in no minute more requests of an identity pass than its rate allows.
\<close>

theorem throttle_counts_exactly:
  assumes "throttle_limit s e r = Some l"
  shows "(fst (throttle s e r (snd (admit s xs ([], [])))) \<longleftrightarrow>
      int (count_list (fst (admit s xs ([], []))) (throttle_key e r)) < l) \<and>
    int (count_list (fst (admit s xs ([], []))) (throttle_key e r)) \<le> l"
proof -
  obtain ks c where run: "admit s xs ([], []) = (ks, c)" by fastforce
  have start: "tally [] []" by (simp add: tally_def)
  have "0 \<le> l" using assms parse_rate_positive by (fastforce simp: throttle_limit_def split: if_splits)
  then have "int (count_list ks (throttle_key e r)) \<le> l" using admit_bound [OF start run assms] by simp
  moreover have "fst (throttle s e r c) \<longleftrightarrow> int (count_list ks (throttle_key e r)) < l"
    using assms by (simp add: throttle_def Let_def tally_get [OF admit_tally [OF start run]])
  ultimately show ?thesis by (simp add: run)
qed

text \<open>
  C38: The pages of a list are the list: put together, the pages from the first to the last, as the number of pages counts them, give
  every row once and in order, whatever page size is asked for; no page is longer than the resolved size, which lies between
  1 and the larger of 1 and the maximum, and a page has a link to the next one exactly when rows remain after it.
\<close>

theorem pages_partition_the_list:
  "concat (map (\<lambda>page. fst (paginate fallback maximum rows page page_size))
     [1 ..< Suc (total_pages (nat (resolve_page_size fallback maximum page_size)) (length rows))]) = rows \<and>
   length (fst (paginate fallback maximum rows page page_size)) \<le> nat (resolve_page_size fallback maximum page_size) \<and>
   resolve_page_size fallback maximum page_size \<in> {1 .. max 1 maximum} \<and>
   fst (page_links fallback maximum (Suc p) page_size (length rows)) =
     (if drop (Suc p * nat (resolve_page_size fallback maximum page_size)) rows = [] then None else Some (Suc (Suc p)))"
proof -
  define s where "s = nat (resolve_page_size fallback maximum page_size)"
  have "0 < s" by (simp add: s_def resolve_page_size_def)
  note pages = total_pages_bounds [OF this]
  have upt: "[1 ..< Suc n] = map Suc [0 ..< n]" for n by (simp add: map_Suc_upt)
  have "concat (map (\<lambda>page. fst (paginate fallback maximum rows page page_size)) [1 ..< Suc (total_pages s (length rows))]) =
      take (total_pages s (length rows) * s) rows"
    unfolding upt by (simp add: paginate_def s_def [symmetric] comp_def concat_pages del: upt_Suc)
  then have "concat (map (\<lambda>page. fst (paginate fallback maximum rows page page_size)) [1 ..< Suc (total_pages s (length rows))]) = rows"
    using pages(1) [of "length rows"] by simp
  moreover have "length (fst (paginate fallback maximum rows page page_size)) \<le> s" by (simp add: paginate_def s_def Let_def)
  moreover have "fst (page_links fallback maximum (Suc p) page_size (length rows)) =
      (if drop (Suc p * s) rows = [] then None else Some (Suc (Suc p)))"
    using pages(2) [of p "length rows"] by (auto simp: page_links_def s_def [symmetric])
  moreover have "resolve_page_size fallback maximum page_size \<in> {1 .. max 1 maximum}" by (auto simp: resolve_page_size_def)
  ultimately show ?thesis unfolding s_def by blast
qed

section \<open>Witnesses\<close>

definition demo_throttle :: throttle_settings where
  "demo_throttle = \<lparr>API_THROTTLE_ENABLED = True, API_V1_PREFIX = ''api/v1'', API_THROTTLE_AUTH_RATE = ''120/m'',
     API_THROTTLE_ANON_RATE = ''2/m''\<rparr>"

definition demo_request :: http_request where
  "demo_request = \<lparr>path_info = ''/api/v1/sites'', http_authorization = [], remote_addr = ''10.0.0.1''\<rparr>"

theorem throttle_counts_exactly_witness:
  "fst (throttle demo_throttle default_env demo_request (snd (admit demo_throttle
     [(default_env, demo_request), (default_env, demo_request), (default_env, demo_request)] ([], [])))) = False"
proof -
  have lim: "throttle_limit demo_throttle default_env demo_request = Some 2"
    by (simp add: throttle_limit_def demo_throttle_def demo_request_def starts_with_def request_identity_def bearer_def parse_rate_def
        python_int_def strip_def is_space_def is_digit_def lower_char_def)
  have clock: "now default_env = 1000" by (simp add: default_env_def)
  have "count_list (fst (admit demo_throttle [(default_env, demo_request), (default_env, demo_request), (default_env, demo_request)]
      ([], []))) (throttle_key default_env demo_request) = 2"
    by (simp add: lim throttle_def Let_def cache_get_def cache_set_def clock)
  with throttle_counts_exactly [OF lim, of "[(default_env, demo_request), (default_env, demo_request), (default_env, demo_request)]"]
  show ?thesis by simp
qed

end
