(* ===== verification/Roster.thy ===== *)
theory Roster
  imports Calendar Accounts SiteConfig "HOL-Library.List_Lexorder" "HOL-Library.Char_ord"
begin

text \<open>
  The personal timetables of the zone and assistant general supervisors and the checklists they fill in
  (\<open>apps/site_management/supervisor_roster_services.py\<close>, the rules of the two models and their endpoints in
  \<open>api.py\<close>). The foreign keys of the rows hold in the database; the validation of the payloads by their schemas is not
  modelled, and the lists are given without their order.
\<close>

section \<open>Rules of the models\<close>

definition timetable_clean :: "db \<Rightarrow> timetable_entry \<Rightarrow> bool" where
  "timetable_clean d t \<longleftrightarrow> text_column True 255 (tt_title t) \<and> validate_effective_days (tt_work_days t) \<and>
     \<not> (case tt_effective_to t of None \<Rightarrow> False | Some until \<Rightarrow> until < tt_effective_from t) \<and>
     (case tbl_get (sites d) (tt_site t) of None \<Rightarrow> False | Some s \<Rightarrow> si_zone s = Some (tt_zone t)) \<and>
     set (tt_off_days t) \<subseteq> set WORKING_DAYS \<and> set (tt_work_days t) \<inter> set (tt_off_days t) = {}"

definition is_scheduled_for :: "timetable_entry \<Rightarrow> date \<Rightarrow> bool" where
  "is_scheduled_for t work_date \<longleftrightarrow> tt_is_active t \<and> tt_effective_from t \<le> work_date \<and>
     (case tt_effective_to t of None \<Rightarrow> True | Some until \<Rightarrow> work_date \<le> until) \<and>
     weekday_code (weekday work_date) \<in> set (tt_work_days t) \<and> weekday_code (weekday work_date) \<notin> set (tt_off_days t)"

definition checklist_editable :: "checklist \<Rightarrow> bool" where
  "checklist_editable c \<longleftrightarrow> ck_status c \<in> {CK_DRAFT, CK_RETURNED}"

text \<open>A required JSON column refuses the empty list.\<close>

definition checklist_clean :: "db \<Rightarrow> checklist \<Rightarrow> bool" where
  "checklist_clean d c \<longleftrightarrow> ck_table_entries c \<noteq> [] \<and> text_column False 64 (ck_supervisor_role c) \<and>
     (case tbl_get (sites d) (ck_site c) of None \<Rightarrow> False | Some s \<Rightarrow> si_zone s = Some (ck_zone c)) \<and>
     (case tbl_get (timetable d) (ck_timetable_entry c) of None \<Rightarrow> False | Some t \<Rightarrow> tt_supervisor t = ck_supervisor c)"

section \<open>Timetables\<close>

definition audit_timetable :: "audit_action \<Rightarrow> user \<Rightarrow> nat \<Rightarrow> timetable_entry option \<Rightarrow> timetable_entry option \<Rightarrow> db \<Rightarrow> db" where
  "audit_timetable a actor k before after = record_audit a (Some (u_pk actor)) ''site_management.supervisortimetableentry'' k
     (map_option SnapTimetable before) (map_option SnapTimetable after)"

definition PERSONAL_ROLES :: "role_code set" where
  "PERSONAL_ROLES = {ZONE_SUPERVISOR, ASSISTANT_GENERAL_SUPERVISOR}"

text \<open>\<open>entry.supervisor\<close>.\<close>

definition supervisor_of :: "db \<Rightarrow> timetable_entry \<Rightarrow> (user \<Rightarrow> 'a res) \<Rightarrow> 'a res" where
  "supervisor_of d t f = (case get_user d (tt_supervisor t) of None \<Rightarrow> Inl DoesNotExist | Some s \<Rightarrow> f s)"

definition create_timetable_entry :: "env \<Rightarrow> user \<Rightarrow> timetable_entry \<Rightarrow> db \<Rightarrow> (nat \<times> db) res" where
  "create_timetable_entry e actor values d =
     (let k = tbl_next (timetable d);
          t = values\<lparr>tt_created_by := Some (u_pk actor), tt_updated_by := Some (u_pk actor)\<rparr>
      in if \<not> is_system_admin actor then Inl PermissionDenied
         else supervisor_of d t (\<lambda>s.
           if u_role s \<notin> PERSONAL_ROLES then Inl (ValidationError [])
           else if \<not> site_in_user_scope e d s (Some (tt_site t)) then Inl (ValidationError [])
           else if \<not> timetable_clean d t then Inl FullClean
           else Inr (k, audit_timetable A_CREATE actor k None (Some t) (d\<lparr>timetable := tbl_insert t (timetable d)\<rparr>))))"

text \<open>The columns an update may name; \<open>None\<close> leaves one alone. The two nullable ones may be cleared.\<close>

record timetable_patch =
  tu_title :: "string option"
  tu_effective_from :: "date option"
  tu_effective_to :: "date option option"
  tu_work_days :: "string list option"
  tu_off_days :: "string list option"
  tu_shift_slot :: "shift_slot option"
  tu_relief_person :: "nat option option"
  tu_notes :: "string option"
  tu_is_active :: "bool option"

definition patch_timetable :: "timetable_patch \<Rightarrow> timetable_entry \<Rightarrow> timetable_entry" where
  "patch_timetable p t = t\<lparr>tt_title := given (tu_title p) (tt_title t),
     tt_effective_from := given (tu_effective_from p) (tt_effective_from t),
     tt_effective_to := given (tu_effective_to p) (tt_effective_to t),
     tt_work_days := given (tu_work_days p) (tt_work_days t), tt_off_days := given (tu_off_days p) (tt_off_days t),
     tt_shift_slot := given (tu_shift_slot p) (tt_shift_slot t), tt_relief_person := given (tu_relief_person p) (tt_relief_person t),
     tt_notes := given (tu_notes p) (tt_notes t), tt_is_active := given (tu_is_active p) (tt_is_active t)\<rparr>"

definition update_timetable_entry :: "env \<Rightarrow> nat \<times> timetable_entry \<Rightarrow> timetable_patch \<Rightarrow> user \<Rightarrow> db \<Rightarrow> db res" where
  "update_timetable_entry e x p actor d =
     (let k = fst x; t = (patch_timetable p (snd x))\<lparr>tt_updated_by := Some (u_pk actor)\<rparr>
      in if \<not> is_system_admin actor then Inl PermissionDenied
         else supervisor_of d t (\<lambda>s.
           if \<not> site_in_user_scope e d s (Some (tt_site t)) then Inl (ValidationError [])
           else if \<not> timetable_clean d t then Inl FullClean
           else Inr (audit_timetable A_UPDATE actor k (Some (snd x)) (Some t) (d\<lparr>timetable := tbl_put k t (timetable d)\<rparr>))))"

definition deactivate_timetable_entry :: "nat \<times> timetable_entry \<Rightarrow> user \<Rightarrow> db \<Rightarrow> db res" where
  "deactivate_timetable_entry x actor d =
     (let k = fst x; t = (snd x)\<lparr>tt_is_active := False, tt_updated_by := Some (u_pk actor)\<rparr>
      in if \<not> is_system_admin actor then Inl PermissionDenied
         else if \<not> tt_is_active (snd x) then Inr d
         else Inr (audit_timetable A_STATUS_CHANGE actor k (Some (snd x)) (Some t) (d\<lparr>timetable := tbl_put k t (timetable d)\<rparr>)))"

text \<open>Whether the entry was kept because checklists refer to it.\<close>

definition delete_timetable_entry :: "nat \<times> timetable_entry \<Rightarrow> user \<Rightarrow> db \<Rightarrow> (bool \<times> db) res" where
  "delete_timetable_entry x actor d =
     (if \<not> is_system_admin actor then Inl PermissionDenied
      else if tbl_exists (\<lambda>_ c. ck_timetable_entry c = fst x) (checklists d)
      then rbind (deactivate_timetable_entry x actor d) (\<lambda>d1. Inr (True, d1))
      else (let d1 = audit_timetable A_DELETE actor (fst x) (Some (snd x)) None d
            in Inr (False, d1\<lparr>timetable := tbl_delete_where (\<lambda>k _. k = fst x) (timetable d1)\<rparr>)))"

section \<open>Checklists\<close>

definition checklist_kind_value :: "checklist_kind \<Rightarrow> string" where
  "checklist_kind_value kind = (case kind of SITE_ZILIZO_TEMBELEWA \<Rightarrow> ''site_zilizotembelewa''
     | MAENEO_YALIYOKAGULIWA \<Rightarrow> ''maeneo_yaliyokaguliwa'' | KAZI_ZILIZOFANYIKA \<Rightarrow> ''kazi_zilizofanyika''
     | TAARIFA_ZA_VITENDEA_KAZI \<Rightarrow> ''taarifa_za_vitendeakazi'')"

definition checklist_kind_of :: "string \<Rightarrow> checklist_kind option" where
  "checklist_kind_of s = find (\<lambda>kind. checklist_kind_value kind = s)
     [SITE_ZILIZO_TEMBELEWA, MAENEO_YALIYOKAGULIWA, KAZI_ZILIZOFANYIKA, TAARIFA_ZA_VITENDEA_KAZI]"

definition PDF_TABLE_LABELS :: "checklist_kind \<Rightarrow> string" where
  "PDF_TABLE_LABELS kind = (case kind of SITE_ZILIZO_TEMBELEWA \<Rightarrow> ''SITE ZILIZO TEMBELEWA''
     | MAENEO_YALIYOKAGULIWA \<Rightarrow> ''MAENEO YALIYOKAGULIWA'' | KAZI_ZILIZOFANYIKA \<Rightarrow> ''KAZI ZILIZOFANYIKA''
     | TAARIFA_ZA_VITENDEA_KAZI \<Rightarrow> ''TAARIFA ZA VITENDEA KAZI'')"

definition audit_checklist :: "audit_action \<Rightarrow> user \<Rightarrow> nat \<Rightarrow> checklist option \<Rightarrow> checklist \<Rightarrow> db \<Rightarrow> db" where
  "audit_checklist a actor k before c = record_audit a (Some (u_pk actor)) ''site_management.supervisorchecklistsubmission'' k
     (map_option SnapChecklist before) (Some (SnapChecklist c))"

text \<open>The tables of a role.\<close>

definition kind_allowed :: "role_code \<Rightarrow> checklist_kind \<Rightarrow> bool" where
  "kind_allowed role kind \<longleftrightarrow> \<not> (role = ZONE_SUPERVISOR \<and> kind = KAZI_ZILIZOFANYIKA) \<and>
     \<not> (role = ASSISTANT_GENERAL_SUPERVISOR \<and> kind \<in> {SITE_ZILIZO_TEMBELEWA, MAENEO_YALIYOKAGULIWA})"

definition new_checklist :: "user \<Rightarrow> nat \<times> timetable_entry \<Rightarrow> date \<Rightarrow> checklist_kind \<Rightarrow> table_row list \<Rightarrow> string \<Rightarrow> checklist" where
  "new_checklist actor x work_date kind entries remarks =
     \<lparr>ck_timetable_entry = fst x, ck_supervisor = u_pk actor, ck_supervisor_role = role_value (u_role actor),
      ck_site = tt_site (snd x), ck_zone = tt_zone (snd x), ck_work_date = work_date, ck_shift_slot = tt_shift_slot (snd x),
      ck_kind = kind, ck_table_entries = entries, ck_notes = remarks, ck_status = CK_DRAFT, ck_submitted_at = None,
      ck_reviewed_at = None, ck_reviewed_by = None, ck_return_reason = [], ck_snapshot = None,
      ck_created_by = Some (u_pk actor), ck_updated_by = Some (u_pk actor)\<rparr>"

text \<open>The rows of one timetable entry, day and table; the unique constraint leaves at most one.\<close>

definition checklists_of :: "db \<Rightarrow> nat \<Rightarrow> date \<Rightarrow> checklist_kind \<Rightarrow> (nat \<times> checklist) list" where
  "checklists_of d entry work_date kind =
     tbl_where (\<lambda>_ c. ck_timetable_entry c = entry \<and> ck_work_date c = work_date \<and> ck_kind c = kind) (checklists d)"

text \<open>The row, written by \<open>get_or_create\<close>, is undone when its validation fails.\<close>

definition write_checklist ::
  "user \<Rightarrow> nat \<times> timetable_entry \<Rightarrow> date \<Rightarrow> checklist_kind \<Rightarrow> table_row list \<Rightarrow> string \<Rightarrow> db \<Rightarrow> (nat \<times> db) res" where
  "write_checklist actor x work_date kind entries remarks d =
     (case checklists_of d (fst x) work_date kind of
        [] \<Rightarrow>
          let k = tbl_next (checklists d); c = new_checklist actor x work_date kind entries remarks
          in if \<not> checklist_clean d c then Inl FullClean
             else Inr (k, audit_checklist A_CREATE actor k None c (d\<lparr>checklists := tbl_insert c (checklists d)\<rparr>))
      | (k, r) # _ \<Rightarrow>
          let c = r\<lparr>ck_table_entries := entries, ck_notes := remarks, ck_updated_by := Some (u_pk actor)\<rparr>
          in if \<not> checklist_editable r then Inl (ValidationError [])
             else if \<not> checklist_clean d c then Inl FullClean
             else Inr (k, audit_checklist A_UPDATE actor k (Some r) c (d\<lparr>checklists := tbl_put k c (checklists d)\<rparr>)))"

definition save_supervisor_checklist ::
  "env \<Rightarrow> user \<Rightarrow> nat \<times> timetable_entry \<Rightarrow> date \<Rightarrow> string \<Rightarrow> table_row list \<Rightarrow> string \<Rightarrow> db \<Rightarrow> (nat \<times> db) res" where
  "save_supervisor_checklist e actor x work_date checklist_kind entries remarks d =
     (if u_pk actor \<noteq> tt_supervisor (snd x) then Inl PermissionDenied
      else if u_role actor \<notin> PERSONAL_ROLES then Inl PermissionDenied
      else if \<not> is_scheduled_for (snd x) work_date then Inl (ValidationError [])
      else if \<not> site_in_user_scope e d actor (Some (tt_site (snd x))) then Inl PermissionDenied
      else case checklist_kind_of checklist_kind of None \<Rightarrow> Inl (ValidationError [])
        | Some kind \<Rightarrow> if \<not> kind_allowed (u_role actor) kind then Inl PermissionDenied
            else write_checklist actor x work_date kind entries remarks d)"

definition checklist_evidence :: "db \<Rightarrow> checklist \<Rightarrow> checklist_snapshot" where
  "checklist_evidence d c =
     \<lparr>ks_table_label = PDF_TABLE_LABELS (ck_kind c),
      ks_site_name = (case tbl_get (sites d) (ck_site c) of None \<Rightarrow> [] | Some s \<Rightarrow> si_name s),
      ks_zone_name = (case tbl_get (zones d) (ck_zone c) of None \<Rightarrow> [] | Some z \<Rightarrow> zn_name z),
      ks_work_date = ck_work_date c, ks_shift = ck_shift_slot c, ks_supervisor = user_full_name d (ck_supervisor c),
      ks_role = ck_supervisor_role c, ks_entries = ck_table_entries c, ks_notes = ck_notes c\<rparr>"

definition submit_supervisor_checklist :: "env \<Rightarrow> nat \<times> checklist \<Rightarrow> user \<Rightarrow> db \<Rightarrow> db res" where
  "submit_supervisor_checklist e x actor d =
     (let k = fst x; r = snd x;
          c = r\<lparr>ck_status := CK_SUBMITTED, ck_submitted_at := Some (now e), ck_return_reason := [],
                ck_snapshot := Some (checklist_evidence d r), ck_updated_by := Some (u_pk actor)\<rparr>
      in if u_pk actor \<noteq> ck_supervisor r then Inl PermissionDenied
         else if \<not> checklist_editable r then Inl (ValidationError [])
         else if ck_table_entries r = [] then Inl (ValidationError [])
         else if \<not> checklist_clean d c then Inl FullClean
         else Inr (audit_checklist A_STATUS_CHANGE actor k (Some r) c (d\<lparr>checklists := tbl_put k c (checklists d)\<rparr>)))"

definition may_review_checklist :: "env \<Rightarrow> db \<Rightarrow> user \<Rightarrow> checklist \<Rightarrow> bool" where
  "may_review_checklist e d u c \<longleftrightarrow> is_system_admin u \<or> u_role u = GENERAL_SUPERVISOR \<or>
     ck_supervisor_role c = role_value ZONE_SUPERVISOR \<and> u_role u = ASSISTANT_GENERAL_SUPERVISOR \<and>
     site_in_user_scope e d u (Some (ck_site c))"

definition review_supervisor_checklist :: "env \<Rightarrow> nat \<times> checklist \<Rightarrow> user \<Rightarrow> review_status \<Rightarrow> string \<Rightarrow> db \<Rightarrow> db res" where
  "review_supervisor_checklist e x actor action reason d =
     (let k = fst x; r = snd x;
          c = r\<lparr>ck_status := action, ck_reviewed_by := Some (u_pk actor), ck_reviewed_at := Some (now e),
                ck_return_reason := (if action = CK_RETURNED then strip reason else []), ck_updated_by := Some (u_pk actor)\<rparr>
      in if \<not> may_review_checklist e d actor r then Inl PermissionDenied
         else if ck_status r \<noteq> CK_SUBMITTED then Inl (ValidationError [])
         else if action = CK_RETURNED \<and> strip reason = [] then Inl (ValidationError [])
         else if action \<notin> {CK_REVIEWED, CK_RETURNED} then Inl (ValidationError [])
         else Inr (audit_checklist A_STATUS_CHANGE actor k (Some r) c (d\<lparr>checklists := tbl_put k c (checklists d)\<rparr>)))"

section \<open>Endpoints\<close>

text \<open>\<open>User.objects.filter(pk=..., is_active=True).first()\<close>.\<close>

definition active_user :: "db \<Rightarrow> nat \<Rightarrow> user option" where
  "active_user d k = (case get_user d k of None \<Rightarrow> None | Some u \<Rightarrow> if u_is_active u then Some u else None)"

text \<open>A relief person that is not given, or given as 0, is none; one that is no active account is not found.\<close>

definition relief_or_404 :: "db \<Rightarrow> nat option \<Rightarrow> (nat option \<Rightarrow> 'a res) \<Rightarrow> 'a res" where
  "relief_or_404 d relief f = (case relief of None \<Rightarrow> f None
     | Some k \<Rightarrow> if k = 0 then f None else found (active_user d k) (\<lambda>_. f (Some k)))"

text \<open>The payload of a new entry is given as its row, whose last three columns do not count.\<close>

definition supervisor_timetable_create :: "env \<Rightarrow> user \<Rightarrow> timetable_entry \<Rightarrow> db \<Rightarrow> (nat \<times> db) res" where
  "supervisor_timetable_create e u payload d = permit (is_system_admin u)
     (found (active_user d (tt_supervisor payload)) (\<lambda>_. found (active_row zn_is_active (zones d) (tt_zone payload)) (\<lambda>_.
      found (active_row si_is_active (sites d) (tt_site payload)) (\<lambda>_. relief_or_404 d (tt_relief_person payload) (\<lambda>relief.
      create_timetable_entry e u (payload\<lparr>tt_relief_person := relief, tt_is_active := True\<rparr>) d)))))"

definition empty_patch :: timetable_patch where
  "empty_patch = \<lparr>tu_title = None, tu_effective_from = None, tu_effective_to = None, tu_work_days = None, tu_off_days = None,
     tu_shift_slot = None, tu_relief_person = None, tu_notes = None, tu_is_active = None\<rparr>"

definition supervisor_timetable_update :: "env \<Rightarrow> user \<Rightarrow> nat \<Rightarrow> timetable_patch \<Rightarrow> db \<Rightarrow> db res" where
  "supervisor_timetable_update e u k p d = permit (is_system_admin u) (load_or_404 (timetable d) k (\<lambda>x.
     case tu_relief_person p of
       None \<Rightarrow> if p = empty_patch\<lparr>tu_is_active := Some False\<rparr> then deactivate_timetable_entry x u d
               else update_timetable_entry e x p u d
     | Some relief \<Rightarrow> relief_or_404 d relief (\<lambda>r. update_timetable_entry e x (p\<lparr>tu_relief_person := Some r\<rparr>) u d)))"

definition supervisor_timetable_delete :: "user \<Rightarrow> nat \<Rightarrow> db \<Rightarrow> (bool \<times> db) res" where
  "supervisor_timetable_delete u k d =
     permit (is_system_admin u) (load_or_404 (timetable d) k (\<lambda>x. delete_timetable_entry x u d))"

definition supervisor_checklist_save ::
  "env \<Rightarrow> user \<Rightarrow> nat \<Rightarrow> date \<Rightarrow> string \<Rightarrow> table_row list \<Rightarrow> string \<Rightarrow> db \<Rightarrow> (nat \<times> db) res" where
  "supervisor_checklist_save e u entry work_date kind entries remarks d =
     load_or_404 (timetable d) entry (\<lambda>x. save_supervisor_checklist e u x work_date kind entries remarks d)"

definition supervisor_checklist_submit :: "env \<Rightarrow> user \<Rightarrow> nat \<Rightarrow> db \<Rightarrow> db res" where
  "supervisor_checklist_submit e u k d = load_or_404 (checklists d) k (\<lambda>x. submit_supervisor_checklist e x u d)"

definition supervisor_checklist_review :: "env \<Rightarrow> user \<Rightarrow> nat \<Rightarrow> review_status \<Rightarrow> string \<Rightarrow> db \<Rightarrow> db res" where
  "supervisor_checklist_review e u k action reason d =
     load_or_404 (checklists d) k (\<lambda>x. review_supervisor_checklist e x u action reason d)"

definition supervisor_timetable_for_day :: "user \<Rightarrow> date \<Rightarrow> db \<Rightarrow> (nat \<times> timetable_entry) list res" where
  "supervisor_timetable_for_day u work_date d = permit (u_role u \<in> PERSONAL_ROLES)
     (Inr (filter (\<lambda>(_, t). is_scheduled_for t work_date) (tbl_where (\<lambda>_ t. tt_supervisor t = u_pk u \<and> tt_is_active t \<and>
       tt_effective_from t \<le> work_date \<and> (case tt_effective_to t of None \<Rightarrow> True | Some until \<Rightarrow> work_date \<le> until)) (timetable d))))"

definition zone_supervisor_timetable_range ::
  "user \<Rightarrow> env \<Rightarrow> role_code \<Rightarrow> date option \<Rightarrow> date option \<Rightarrow> db \<Rightarrow> (nat \<times> timetable_entry) list res" where
  "zone_supervisor_timetable_range u e scope_role start_date end_date d =
     permit (scope_role \<in> PERSONAL_ROLES \<and> u_role u = scope_role)
       (if (case (start_date, end_date) of (Some from_date, Some until) \<Rightarrow> until < from_date | _ \<Rightarrow> False) then Inl (ValidationError ''end_date'')
        else Inr (tbl_where (\<lambda>_ t. tt_supervisor t = u_pk u \<and> tt_is_active t \<and>
          (case start_date of None \<Rightarrow> True | Some from_date \<Rightarrow>
             (case tt_effective_to t of None \<Rightarrow> True | Some until \<Rightarrow> from_date \<le> until)) \<and>
          (case end_date of None \<Rightarrow> True | Some until \<Rightarrow> tt_effective_from t \<le> until) \<and>
          tt_zone t \<in> set (visible_zones d u) \<and> tt_site t \<in> set (visible_sites e d u)) (timetable d)))"

definition supervisor_checklist_list :: "user \<Rightarrow> date \<Rightarrow> db \<Rightarrow> (nat \<times> checklist) list res" where
  "supervisor_checklist_list u work_date d = permit (u_role u \<in> PERSONAL_ROLES)
     (Inr (tbl_where (\<lambda>_ c. ck_supervisor c = u_pk u \<and> ck_work_date c = work_date) (checklists d)))"

section \<open>Batches\<close>

record timetable_batch =
  tb_scope_role :: role_code
  tb_supervisor_ids :: "nat list"
  tb_zone_ids :: "nat list"
  tb_site_ids :: "nat list"
  tb_title :: string
  tb_effective_from :: date
  tb_effective_to :: "date option"
  tb_work_days :: "string list"
  tb_off_days :: "string list"
  tb_shift_slot :: shift_slot
  tb_notes :: string

definition expected_role :: "timetable_batch \<Rightarrow> role_code" where
  "expected_role p = (if tb_scope_role p = ZONE_SUPERVISOR then ZONE_SUPERVISOR else ASSISTANT_GENERAL_SUPERVISOR)"

definition batch_zones :: "db \<Rightarrow> timetable_batch \<Rightarrow> (nat \<times> zone) list" where
  "batch_zones d p = tbl_where (\<lambda>k z. k \<in> set (tb_zone_ids p) \<and> zn_is_active z) (zones d)"

definition batch_sites :: "db \<Rightarrow> timetable_batch \<Rightarrow> (nat \<times> site) list" where
  "batch_sites d p = sort_key (\<lambda>x. si_name (snd x)) (tbl_where (\<lambda>k s. si_is_active s \<and>
     (if tb_site_ids p \<noteq> [] then k \<in> set (tb_site_ids p)
      else case si_zone s of None \<Rightarrow> False | Some z \<Rightarrow> z \<in> set (tb_zone_ids p))) (sites d))"

definition profile_column :: "db \<Rightarrow> (profile \<Rightarrow> string) \<Rightarrow> user \<Rightarrow> string" where
  "profile_column d f u = (case tbl_get (profiles d) (u_pk u) of None \<Rightarrow> [] | Some p \<Rightarrow> f p)"

definition batch_supervisors :: "db \<Rightarrow> timetable_batch \<Rightarrow> user list" where
  \<comment> \<open>\<open>order_by("first_name", "last_name", "email")\<close>; \<open>sort_key\<close> is stable\<close>
  "batch_supervisors d p = sort_key (profile_column d pf_first_name) (sort_key (profile_column d pf_last_name)
     (sort_key (profile_column d pf_email) (filter (\<lambda>u. u_pk u \<in> set (tb_supervisor_ids p) \<and> u_is_active u) (users d))))"

text \<open>The supervisors whose assignment covers every zone, and the selected zones the others are assigned to.\<close>

definition universal_supervisor :: "env \<Rightarrow> db \<Rightarrow> timetable_batch \<Rightarrow> user \<Rightarrow> bool" where
  "universal_supervisor e d p u \<longleftrightarrow> expected_role p \<noteq> ZONE_SUPERVISOR \<and>
     tbl_exists (\<lambda>_ a. ags_user a = u_pk u \<and> ags_is_active a \<and> is_current e (ags_assigned_from a) (ags_assigned_to a) \<and>
       ags_all_zones a) (ags_assignments d)"

definition zone_coverage :: "env \<Rightarrow> db \<Rightarrow> timetable_batch \<Rightarrow> user \<Rightarrow> nat list" where
  "zone_coverage e d p u =
     (if expected_role p = ZONE_SUPERVISOR
      then map (zsa_zone \<circ> snd) (tbl_where (\<lambda>_ a. zsa_user a = u_pk u \<and> zsa_is_active a \<and>
             is_current e (zsa_assigned_from a) (zsa_assigned_to a) \<and> zsa_zone a \<in> set (tb_zone_ids p)) (zone_supervisor_assignments d))
      else map (the \<circ> ags_zone \<circ> snd) (tbl_where (\<lambda>_ a. ags_user a = u_pk u \<and> ags_is_active a \<and>
             is_current e (ags_assigned_from a) (ags_assigned_to a) \<and> \<not> ags_all_zones a \<and>
             (case ags_zone a of None \<Rightarrow> False | Some z \<Rightarrow> z \<in> set (tb_zone_ids p))) (ags_assignments d)))"

definition covers :: "env \<Rightarrow> db \<Rightarrow> timetable_batch \<Rightarrow> site \<Rightarrow> user \<Rightarrow> bool" where
  "covers e d p s u \<longleftrightarrow> universal_supervisor e d p u \<or>
     (case si_zone s of None \<Rightarrow> False | Some z \<Rightarrow> z \<in> set (zone_coverage e d p u))"

text \<open>The refusals before anything is written.\<close>

definition batch_check :: "env \<Rightarrow> db \<Rightarrow> timetable_batch \<Rightarrow> 'a res \<Rightarrow> 'a res" where
  "batch_check e d p f =
     (if length (batch_zones d p) \<noteq> length (remdups (tb_zone_ids p)) then Inl (ValidationError ''zone_ids'')
      else if tb_site_ids p \<noteq> [] \<and> length (batch_sites d p) \<noteq> length (remdups (tb_site_ids p)) then Inl (ValidationError ''site_ids'')
      else if length (batch_supervisors d p) \<noteq> length (remdups (tb_supervisor_ids p)) then Inl (ValidationError ''supervisor_ids'')
      else if list_ex (\<lambda>(_, s). case si_zone s of None \<Rightarrow> True | Some z \<Rightarrow> z \<notin> set (tb_zone_ids p)) (batch_sites d p)
        then Inl (ValidationError ''site_ids'')
      else if list_ex (\<lambda>u. u_role u \<noteq> expected_role p) (batch_supervisors d p) then Inl (ValidationError ''supervisor_ids'')
      else if expected_role p = ZONE_SUPERVISOR \<and> tb_site_ids p = [] then Inl (ValidationError ''site_ids'')
      else if list_ex (\<lambda>u. \<not> universal_supervisor e d p u \<and> zone_coverage e d p u = []) (batch_supervisors d p)
        then Inl (ValidationError ''supervisor_ids'')
      else f)"

text \<open>The pairs of a site and a supervisor who covers it, in the order of the two loops, and the entry of a pair.\<close>

definition covered_pairs :: "env \<Rightarrow> db \<Rightarrow> timetable_batch \<Rightarrow> ((nat \<times> site) \<times> user) list" where
  "covered_pairs e d p =
     concat (map (\<lambda>s. map (Pair s) (filter (covers e d p (snd s)) (batch_supervisors d p))) (batch_sites d p))"

definition batch_entry :: "timetable_batch \<Rightarrow> (nat \<times> site) \<times> user \<Rightarrow> timetable_entry" where
  "batch_entry p x = \<lparr>tt_supervisor = u_pk (snd x), tt_zone = the (si_zone (snd (fst x))), tt_site = fst (fst x),
     tt_title = strip (tb_title p), tt_effective_from = tb_effective_from p, tt_effective_to = tb_effective_to p,
     tt_work_days = tb_work_days p, tt_off_days = tb_off_days p, tt_shift_slot = tb_shift_slot p, tt_relief_person = None,
     tt_notes = tb_notes p, tt_is_active = True, tt_created_by = None, tt_updated_by = None\<rparr>"

definition create_one :: "env \<Rightarrow> user \<Rightarrow> timetable_batch \<Rightarrow> (nat \<times> site) \<times> user \<Rightarrow> nat list \<times> db \<Rightarrow> (nat list \<times> db) res" where
  "create_one e u p x s =
     rbind (create_timetable_entry e u (batch_entry p x) (snd s)) (\<lambda>(k, d). Inr (fst s @ [k], d))"

text \<open>A list of keys as its JSON text.\<close>

fun json_keys :: "nat list \<Rightarrow> string" where
  "json_keys [] = []"
| "json_keys [k] = str_nat k"
| "json_keys (k # ks) = str_nat k @ '', '' @ json_keys ks"

definition audit_batch :: "user \<Rightarrow> timetable_batch \<Rightarrow> nat list \<Rightarrow> db \<Rightarrow> db" where
  "audit_batch u p ks = record_audit A_CREATE (Some (u_pk u)) ''site_management.supervisortimetableentry'' (hd ks) None
     (Some (SnapFields [(''scope_role'', role_value (tb_scope_role p)),
       (''supervisor_ids'', json_keys (sort (remdups (tb_supervisor_ids p)))), (''zone_ids'', json_keys (sort (remdups (tb_zone_ids p)))),
       (''site_ids'', json_keys (sort (remdups (tb_site_ids p)))), (''entry_ids'', json_keys ks)]))"

definition supervisor_timetable_batch_create :: "env \<Rightarrow> user \<Rightarrow> timetable_batch \<Rightarrow> db \<Rightarrow> (nat list \<times> db) res" where
  "supervisor_timetable_batch_create e u p d = permit (is_system_admin u) (batch_check e d p
     (rbind (foldM (create_one e u p) (covered_pairs e d p) ([], d)) (\<lambda>(ks, d1).
       if ks = [] then Inl (ValidationError ''site_ids'') else Inr (ks, audit_batch u p ks d1))))"

section \<open>Calls\<close>

datatype roster_call =
    CreateEntry timetable_entry
  | CreateBatch timetable_batch
  | UpdateEntry nat timetable_patch
  | DeleteEntry nat
  | SaveChecklist nat date string "table_row list" string
  | SubmitChecklist nat
  | ReviewChecklist nat review_status string

fun roster_step :: "db \<Rightarrow> (env \<times> user) \<times> roster_call \<Rightarrow> db res" where
  "roster_step d ((e, u), CreateEntry t) = rbind (supervisor_timetable_create e u t d) (\<lambda>x. Inr (snd x))"
| "roster_step d ((e, u), CreateBatch p) = rbind (supervisor_timetable_batch_create e u p d) (\<lambda>x. Inr (snd x))"
| "roster_step d ((e, u), UpdateEntry k p) = supervisor_timetable_update e u k p d"
| "roster_step d ((e, u), DeleteEntry k) = rbind (supervisor_timetable_delete u k d) (\<lambda>x. Inr (snd x))"
| "roster_step d ((e, u), SaveChecklist k day kind entries remarks) =
     rbind (supervisor_checklist_save e u k day kind entries remarks d) (\<lambda>x. Inr (snd x))"
| "roster_step d ((e, u), SubmitChecklist k) = supervisor_checklist_submit e u k d"
| "roster_step d ((e, u), ReviewChecklist k action reason) = supervisor_checklist_review e u k action reason d"

section \<open>Every call\<close>

definition checklist_key :: "checklist \<Rightarrow> nat \<times> date \<times> checklist_kind" where
  "checklist_key c = (ck_timetable_entry c, ck_work_date c, ck_kind c)"

text \<open>What a checklist says about the shift it is for, and what its supervisor wrote and submitted.\<close>

definition checklist_shift :: "checklist \<Rightarrow> nat \<times> nat \<times> nat \<times> string \<times> shift_slot" where
  "checklist_shift c = (ck_supervisor c, ck_site c, ck_zone c, ck_supervisor_role c, ck_shift_slot c)"

definition checklist_content :: "checklist \<Rightarrow> table_row list \<times> string \<times> nat option \<times> checklist_snapshot option" where
  "checklist_content c = (ck_table_entries c, ck_notes c, ck_submitted_at c, ck_snapshot c)"

definition evidence_of :: "checklist \<Rightarrow> checklist_snapshot \<Rightarrow> bool" where
  "evidence_of c s \<longleftrightarrow> ks_entries s = ck_table_entries c \<and> ks_notes s = ck_notes c \<and> ks_work_date s = ck_work_date c \<and>
     ks_shift s = ck_shift_slot c \<and> ks_role s = ck_supervisor_role c \<and> ks_table_label s = PDF_TABLE_LABELS (ck_kind c)"

definition checklist_ok :: "checklist \<Rightarrow> bool" where
  "checklist_ok c \<longleftrightarrow> ck_table_entries c \<noteq> [] \<and> (ck_status c \<in> {CK_SUBMITTED, CK_REVIEWED} \<longrightarrow>
     ck_submitted_at c \<noteq> None \<and> (case ck_snapshot c of None \<Rightarrow> False | Some s \<Rightarrow> evidence_of c s))"

fun checklist_edge :: "review_status \<Rightarrow> review_status \<Rightarrow> bool" where
  "checklist_edge CK_DRAFT CK_SUBMITTED = True"
| "checklist_edge CK_RETURNED CK_SUBMITTED = True"
| "checklist_edge CK_SUBMITTED CK_REVIEWED = True"
| "checklist_edge CK_SUBMITTED CK_RETURNED = True"
| "checklist_edge _ _ = False"

definition checklist_moves :: "checklist \<Rightarrow> checklist \<Rightarrow> bool" where
  "checklist_moves r s \<longleftrightarrow> checklist_key s = checklist_key r \<and> checklist_shift s = checklist_shift r \<and>
     (ck_status s = ck_status r \<or> checklist_edge (ck_status r) (ck_status s)) \<and>
     (\<not> checklist_editable r \<longrightarrow> checklist_content s = checklist_content r) \<and> (ck_status r = CK_REVIEWED \<longrightarrow> s = r)"

abbreviation checklists_ok :: "checklist table \<Rightarrow> bool" where
  "checklists_ok \<equiv> table_ok checklist_ok checklist_key"

abbreviation checklists_moved :: "checklist table \<Rightarrow> checklist table \<Rightarrow> bool" where
  "checklists_moved \<equiv> table_moved checklist_ok checklist_key checklist_moves"

lemma checklist_moves_refl [simp]: "checklist_moves r r"
  by (simp add: checklist_moves_def)

lemma audit_checklist_frame [simp]:
  "checklists (audit_checklist a u k b c d) = checklists d" "timetable (audit_checklist a u k b c d) = timetable d"
  by (simp_all add: audit_checklist_def)

lemma audit_timetable_frame [simp]:
  "checklists (audit_timetable a u k b c d) = checklists d" "timetable (audit_timetable a u k b c d) = timetable d"
  by (simp_all add: audit_timetable_def)

lemma audit_batch_frame [simp]: "checklists (audit_batch u p ks d) = checklists d" "timetable (audit_batch u p ks d) = timetable d"
  by (simp_all add: audit_batch_def)

lemma checklists_of_Nil:
  "checklists_of d k day kind = [] \<longleftrightarrow> \<not> tbl_exists (\<lambda>_ b. checklist_key b = (k, day, kind)) (checklists d)"
  by (auto simp: checklists_of_def tbl_exists_iff tbl_where_def filter_empty_conv checklist_key_def)

lemma checklists_of_Cons:
  assumes "checklists_of d k day kind = (j, r) # xs" and "tbl_wf (checklists d)"
  shows "tbl_get (checklists d) j = Some r \<and> checklist_key r = (k, day, kind)"
proof -
  have "(j, r) \<in> set (checklists_of d k day kind)" using assms(1) by simp
  then show ?thesis using assms(2) by (simp add: checklists_of_def tbl_get_mem checklist_key_def)
qed

text \<open>What saving writes: a new draft, or the table of an open row.\<close>

lemma write_checklist_cases:
  assumes run: "write_checklist u x day kind entries remarks d = Inr (k, d')" and wf: "tbl_wf (checklists d)"
  obtains (new) "k = tbl_next (checklists d)" and
      "checklists d' = tbl_insert (new_checklist u x day kind entries remarks) (checklists d)" and "timetable d' = timetable d" and
      "\<not> tbl_exists (\<lambda>_ b. checklist_key b = (fst x, day, kind)) (checklists d)" and "entries \<noteq> []"
    | (old) r where "tbl_get (checklists d) k = Some r" and "checklist_key r = (fst x, day, kind)" and "checklist_editable r" and
      "checklists d' = tbl_put k (r\<lparr>ck_table_entries := entries, ck_notes := remarks, ck_updated_by := Some (u_pk u)\<rparr>) (checklists d)" and
      "timetable d' = timetable d" and "entries \<noteq> []"
proof (cases "checklists_of d (fst x) day kind")
  case Nil
  with run have "k = tbl_next (checklists d)" "checklists d' = tbl_insert (new_checklist u x day kind entries remarks) (checklists d)"
    "timetable d' = timetable d" "entries \<noteq> []"
    by (auto simp: write_checklist_def Let_def new_checklist_def checklist_clean_def split: if_splits)
  with Nil show thesis using new by (simp add: checklists_of_Nil)
next
  case (Cons y ys)
  obtain j r where y: "y = (j, r)" by fastforce
  have "j = k" "checklist_editable r" "timetable d' = timetable d" "entries \<noteq> []"
    "checklists d' = tbl_put k (r\<lparr>ck_table_entries := entries, ck_notes := remarks, ck_updated_by := Some (u_pk u)\<rparr>) (checklists d)"
    using run Cons y by (auto simp: write_checklist_def Let_def checklist_clean_def split: if_splits)
  with checklists_of_Cons [of d "fst x" day kind j r ys] Cons y wf show thesis using old by simp
qed

text \<open>The timetable: an entry with checklists stays for the same supervisor, site and zone.\<close>

definition roster_of :: "timetable_entry \<Rightarrow> nat \<times> nat \<times> nat" where
  "roster_of t = (tt_supervisor t, tt_site t, tt_zone t)"

definition timetable_kept :: "db \<Rightarrow> db \<Rightarrow> bool" where
  "timetable_kept d d' \<longleftrightarrow> checklists d' = checklists d \<and> (tbl_wf (timetable d) \<longrightarrow> tbl_wf (timetable d') \<and>
     (\<forall>k t. tbl_get (timetable d) k = Some t \<longrightarrow> tbl_exists (\<lambda>_ c. ck_timetable_entry c = k) (checklists d) \<longrightarrow>
        (\<exists>t'. tbl_get (timetable d') k = Some t' \<and> roster_of t' = roster_of t)))"

lemma timetable_kept_refl [simp]: "timetable_kept d d"
  by (simp add: timetable_kept_def)

lemma timetable_kept_trans: "timetable_kept d d1 \<Longrightarrow> timetable_kept d1 d2 \<Longrightarrow> timetable_kept d d2"
  unfolding timetable_kept_def by metis

lemma patch_keeps_roster [simp]: "roster_of ((patch_timetable p t)\<lparr>tt_updated_by := w\<rparr>) = roster_of t"
  by (simp add: patch_timetable_def roster_of_def)

lemma create_entry_inserts:
  "create_timetable_entry e u t d = Inr (k, d') \<Longrightarrow> k = tbl_next (timetable d) \<and> checklists d' = checklists d \<and>
     timetable d' = tbl_insert (t\<lparr>tt_created_by := Some (u_pk u), tt_updated_by := Some (u_pk u)\<rparr>) (timetable d)"
  by (auto simp: create_timetable_entry_def supervisor_of_def Let_def split: if_splits option.splits)

lemma create_entry_kept: "create_timetable_entry e u t d = Inr (k, d') \<Longrightarrow> timetable_kept d d'"
  by (drule create_entry_inserts) (auto simp: timetable_kept_def tbl_get_insert dest: tbl_get_lt)

lemma put_entry_kept:
  assumes "tbl_get (timetable d) k = Some t" and "roster_of t' = roster_of t"
    and "checklists d' = checklists d" and "timetable d' = tbl_put k t' (timetable d)"
  shows "timetable_kept d d'"
  using assms by (auto simp: timetable_kept_def tbl_get_put)

lemma update_entry_puts:
  "update_timetable_entry e (k, t) p u d = Inr d' \<Longrightarrow> checklists d' = checklists d \<and>
     timetable d' = tbl_put k ((patch_timetable p t)\<lparr>tt_updated_by := Some (u_pk u)\<rparr>) (timetable d)"
  by (auto simp: update_timetable_entry_def supervisor_of_def Let_def res_simps)

lemma update_entry_kept:
  assumes "tbl_get (timetable d) k = Some t" and "update_timetable_entry e (k, t) p u d = Inr d'"
  shows "timetable_kept d d'"
  using put_entry_kept [OF assms(1) patch_keeps_roster] update_entry_puts [OF assms(2)] by blast

lemma deactivate_entry_kept:
  assumes "tbl_get (timetable d) k = Some t" and run: "deactivate_timetable_entry (k, t) u d = Inr d'"
  shows "timetable_kept d d'"
proof (cases "tt_is_active t")
  case True
  let ?t = "t\<lparr>tt_is_active := False, tt_updated_by := Some (u_pk u)\<rparr>"
  have "checklists d' = checklists d \<and> timetable d' = tbl_put k ?t (timetable d)"
    using run True by (auto simp: deactivate_timetable_entry_def Let_def res_simps)
  then show ?thesis using put_entry_kept [OF assms(1), of ?t] by (simp add: roster_of_def)
next
  case False
  with run have "d' = d" by (auto simp: deactivate_timetable_entry_def Let_def res_simps)
  then show ?thesis by simp
qed

lemma delete_entry_kept:
  assumes t: "tbl_get (timetable d) k = Some t" and run: "delete_timetable_entry (k, t) u d = Inr (b, d')"
  shows "timetable_kept d d'"
proof (cases "tbl_exists (\<lambda>_ c. ck_timetable_entry c = k) (checklists d)")
  case True
  with run have "deactivate_timetable_entry (k, t) u d = Inr d'"
    by (auto simp: delete_timetable_entry_def res_simps)
  then show ?thesis by (rule deactivate_entry_kept [OF t])
next
  case False
  with run have "checklists d' = checklists d" "timetable d' = tbl_delete_where (\<lambda>j _. j = k) (timetable d)"
    by (auto simp: delete_timetable_entry_def Let_def split: if_splits)
  with False show ?thesis by (auto simp: timetable_kept_def tbl_get_delete_where)
qed

lemma batch_kept:
  assumes run: "supervisor_timetable_batch_create e u p d = Inr (ks, d')"
  shows "timetable_kept d d'"
proof -
  obtain d1 where fold: "foldM (create_one e u p) (covered_pairs e d p) ([], d) = Inr (ks, d1)" and d': "d' = audit_batch u p ks d1"
    using run by (auto simp: supervisor_timetable_batch_create_def batch_check_def res_simps split: if_splits)
  have "timetable_kept d (snd (ks, d1))"
  proof (rule foldM_invariant [OF fold])
    show "timetable_kept d (snd ([], d))" by simp
  next
    fix x and s s' :: "nat list \<times> db"
    assume "timetable_kept d (snd s)" and "create_one e u p x s = Inr s'"
    then show "timetable_kept d (snd s')" by (auto simp: create_one_def res_simps dest!: create_entry_kept intro: timetable_kept_trans)
  qed
  then show ?thesis by (simp add: d' timetable_kept_def)
qed

text \<open>What holds of the two tables together: a checklist has the entry it was written for, with the supervisor, the site and the zone it names.\<close>

definition roster_kept :: "db \<Rightarrow> checklist \<Rightarrow> bool" where
  "roster_kept d c \<longleftrightarrow> (case tbl_get (timetable d) (ck_timetable_entry c) of None \<Rightarrow> False
     | Some t \<Rightarrow> roster_of t = (ck_supervisor c, ck_site c, ck_zone c))"

definition roster_inv :: "db \<Rightarrow> bool" where
  "roster_inv d \<longleftrightarrow> checklists_ok (checklists d) \<and> tbl_wf (timetable d) \<and> tbl_all (roster_kept d) (checklists d)"

definition checklists_written :: "db \<Rightarrow> db \<Rightarrow> bool" where
  "checklists_written d d' \<longleftrightarrow> timetable d' = timetable d \<and> checklists_moved (checklists d) (checklists d') \<and>
     (\<forall>k c. tbl_get (checklists d') k = Some c \<longrightarrow> tbl_get (checklists d) k = None \<longrightarrow> roster_kept d c)"

lemma put_checklist_written:
  assumes "checklists_ok (checklists d)" and "tbl_get (checklists d) k = Some r" and "checklist_ok c" and "checklist_moves r c"
    and "checklists d' = tbl_put k c (checklists d)" and "timetable d' = timetable d"
  shows "checklists_written d d'"
proof -
  have "checklists_moved (checklists d) (tbl_put k c (checklists d))"
    by (rule table_moved_put [OF assms(1,2)]) (use assms(3,4) in \<open>simp_all add: checklist_moves_def\<close>)
  then show ?thesis using assms(5,6) by (auto simp: checklists_written_def tbl_get_put split: if_splits)
qed

lemma save_checklist_written:
  assumes ok: "checklists_ok (checklists d)" and t: "tbl_get (timetable d) j = Some t"
    and run: "save_supervisor_checklist e u (j, t) day kind entries remarks d = Inr (k, d')"
  shows "checklists_written d d'"
proof -
  note wf = table_okD(1) [OF ok]
  have owner: "u_pk u = tt_supervisor t" and "\<exists>kd. write_checklist u (j, t) day kd entries remarks d = Inr (k, d')"
    using run by (auto simp: save_supervisor_checklist_def split: if_splits option.splits)
  then obtain kd where w: "write_checklist u (j, t) day kd entries remarks d = Inr (k, d')" by blast
  from w wf show ?thesis
  proof (cases rule: write_checklist_cases)
    case new
    have "checklists_moved (checklists d) (checklists d')" unfolding new(2) by (rule table_moved_insert [OF ok])
      (use new(4,5) in \<open>auto simp: new_checklist_def checklist_ok_def checklist_key_def\<close>)
    moreover have "roster_kept d (new_checklist u (j, t) day kd entries remarks)"
      using t owner by (simp add: roster_kept_def new_checklist_def roster_of_def)
    ultimately show ?thesis using new(2,3) by (auto simp: checklists_written_def tbl_get_insert [OF wf] split: if_splits)
  next
    case (old r)
    show ?thesis by (rule put_checklist_written [OF ok old(1) _ _ old(4,5)])
      (use old(3,6) in \<open>auto simp: checklist_ok_def checklist_key_def checklist_moves_def checklist_shift_def checklist_editable_def\<close>)
  qed
qed

lemma submit_checklist_written:
  assumes ok: "checklists_ok (checklists d)" and r: "tbl_get (checklists d) k = Some r"
    and run: "submit_supervisor_checklist e (k, r) u d = Inr d'"
  shows "checklists_written d d'"
proof -
  let ?c = "r\<lparr>ck_status := CK_SUBMITTED, ck_submitted_at := Some (now e), ck_return_reason := [],
    ck_snapshot := Some (checklist_evidence d r), ck_updated_by := Some (u_pk u)\<rparr>"
  have open_row: "checklist_editable r" and d': "checklists d' = tbl_put k ?c (checklists d)" "timetable d' = timetable d"
    using run by (auto simp: submit_supervisor_checklist_def Let_def res_simps)
  have "checklist_ok ?c"
    using table_okD(3) [OF ok r] by (simp add: checklist_ok_def evidence_of_def checklist_evidence_def)
  moreover have "checklist_moves r ?c"
    using open_row by (auto simp: checklist_moves_def checklist_key_def checklist_shift_def checklist_editable_def)
  ultimately show ?thesis by (rule put_checklist_written [OF ok r _ _ d'])
qed

lemma review_checklist_written:
  assumes ok: "checklists_ok (checklists d)" and r: "tbl_get (checklists d) k = Some r"
    and run: "review_supervisor_checklist e (k, r) u action reason d = Inr d'"
  shows "checklists_written d d'"
proof -
  let ?c = "r\<lparr>ck_status := action, ck_reviewed_by := Some (u_pk u), ck_reviewed_at := Some (now e),
    ck_return_reason := (if action = CK_RETURNED then strip reason else []), ck_updated_by := Some (u_pk u)\<rparr>"
  have status: "ck_status r = CK_SUBMITTED" "action \<in> {CK_REVIEWED, CK_RETURNED}"
    and d': "checklists d' = tbl_put k ?c (checklists d)" "timetable d' = timetable d"
    using run by (auto simp: review_supervisor_checklist_def Let_def res_simps)
  have "checklist_ok ?c"
    using table_okD(3) [OF ok r] status(1) by (auto simp: checklist_ok_def evidence_of_def split: option.splits)
  moreover have "checklist_moves r ?c"
    using status by (auto simp: checklist_moves_def checklist_key_def checklist_shift_def checklist_content_def)
  ultimately show ?thesis by (rule put_checklist_written [OF ok r _ _ d'])
qed

lemma relief_InrD: "relief_or_404 d w f = Inr y \<Longrightarrow> \<exists>r. f r = Inr y"
  by (auto simp: relief_or_404_def found_Inr split: option.splits if_splits)

text \<open>A call writes the timetable or the checklists, never both.\<close>

lemma roster_step_cases:
  assumes ok: "checklists_ok (checklists d)" and run: "roster_step d c = Inr d'"
  shows "timetable_kept d d' \<or> checklists_written d d'"
proof -
  obtain e u x where c: "c = ((e, u), x)" by (metis surj_pair)
  show ?thesis
  proof (cases x)
    case (CreateEntry t)
    then have "\<exists>k t. create_timetable_entry e u t d = Inr (k, d')"
      using run c by (fastforce simp: supervisor_timetable_create_def res_simps dest!: relief_InrD)
    with create_entry_kept show ?thesis by blast
  next
    case (CreateBatch p)
    then have "\<exists>ks. supervisor_timetable_batch_create e u p d = Inr (ks, d')" using run c by (auto simp: res_simps)
    with batch_kept show ?thesis by blast
  next
    case (UpdateEntry k p)
    then obtain t where t: "tbl_get (timetable d) k = Some t"
      "deactivate_timetable_entry (k, t) u d = Inr d' \<or> (\<exists>q. update_timetable_entry e (k, t) q u d = Inr d')"
      using run c by (fastforce simp: supervisor_timetable_update_def res_simps split: option.splits if_splits dest!: relief_InrD)
    with update_entry_kept [OF t(1)] deactivate_entry_kept [OF t(1)] show ?thesis by blast
  next
    case (DeleteEntry k)
    then obtain t b where "tbl_get (timetable d) k = Some t" "delete_timetable_entry (k, t) u d = Inr (b, d')"
      using run c by (auto simp: supervisor_timetable_delete_def res_simps)
    with delete_entry_kept show ?thesis by blast
  next
    case (SaveChecklist k day kind entries remarks)
    then obtain t j where "tbl_get (timetable d) k = Some t" "save_supervisor_checklist e u (k, t) day kind entries remarks d = Inr (j, d')"
      using run c by (auto simp: supervisor_checklist_save_def res_simps)
    with save_checklist_written [OF ok] show ?thesis by blast
  next
    case (SubmitChecklist k)
    then obtain r where "tbl_get (checklists d) k = Some r" "submit_supervisor_checklist e (k, r) u d = Inr d'"
      using run c by (auto simp: supervisor_checklist_submit_def res_simps)
    with submit_checklist_written [OF ok] show ?thesis by blast
  next
    case (ReviewChecklist k action reason)
    then obtain r where "tbl_get (checklists d) k = Some r" "review_supervisor_checklist e (k, r) u action reason d = Inr d'"
      using run c by (auto simp: supervisor_checklist_review_def res_simps)
    with review_checklist_written [OF ok] show ?thesis by blast
  qed
qed

lemma roster_step_moved:
  assumes "checklists_ok (checklists d)" and "roster_step d c = Inr d'"
  shows "checklists_moved (checklists d) (checklists d')"
  using roster_step_cases [OF assms] assms(1)
  by (auto simp: timetable_kept_def checklists_written_def intro!: table_moved_same)

lemma roster_step_inv:
  assumes inv: "roster_inv d" and run: "roster_step d c = Inr d'"
  shows "roster_inv d'"
proof -
  have ok: "checklists_ok (checklists d)" and wf: "tbl_wf (timetable d)"
    and keep: "\<And>k c. tbl_get (checklists d) k = Some c \<Longrightarrow> roster_kept d c"
    using inv by (auto simp: roster_inv_def tbl_all_def)
  have moved: "checklists_moved (checklists d) (checklists d')" by (rule roster_step_moved [OF ok run])
  from roster_step_cases [OF ok run] have "tbl_wf (timetable d') \<and> tbl_all (roster_kept d') (checklists d')"
  proof
    assume kept: "timetable_kept d d'"
    have "roster_kept d' c" if c: "tbl_get (checklists d) k = Some c" for k c
    proof -
      have "tbl_exists (\<lambda>_ b. ck_timetable_entry b = ck_timetable_entry c) (checklists d)"
        using c tbl_exists_get [OF table_okD(1) [OF ok]] by blast
      with keep [OF c] kept wf show ?thesis by (force simp: roster_kept_def timetable_kept_def split: option.splits)
    qed
    with kept wf show ?thesis by (auto simp: timetable_kept_def tbl_all_def)
  next
    assume w: "checklists_written d d'"
    have "roster_kept d c" if c: "tbl_get (checklists d') k = Some c" for k c
    proof (cases "tbl_get (checklists d) k")
      case None
      with c w show ?thesis by (auto simp: checklists_written_def)
    next
      case (Some r)
      with c moved have "checklist_moves r c" by (fastforce simp: table_moved_def)
      with keep [OF Some] show ?thesis by (auto simp: roster_kept_def checklist_moves_def checklist_key_def checklist_shift_def split: option.splits)
    qed
    with w wf show ?thesis by (auto simp: checklists_written_def tbl_all_def roster_kept_def)
  qed
  with moved show ?thesis by (simp add: roster_inv_def table_moved_def)
qed

interpretation roster: safe_system roster_step roster_inv
  by unfold_locales (rule roster_step_inv)

interpretation checklist_flow: table_flow roster_step checklists checklist_ok checklist_key checklist_moves
  by unfold_locales (rule roster_step_moved, simp_all)

section \<open>Batches\<close>

definition stamped :: "user \<Rightarrow> timetable_entry \<Rightarrow> timetable_entry" where
  "stamped u t = t\<lparr>tt_created_by := Some (u_pk u), tt_updated_by := Some (u_pk u)\<rparr>"

lemma batch_loop:
  "foldM (create_one e u p) xs (ks, d) = Inr (ks', d') \<Longrightarrow>
     ks' = ks @ [tbl_next (timetable d) ..< tbl_next (timetable d) + length xs] \<and>
     tbl_rows (timetable d') = tbl_rows (timetable d) @
       zip [tbl_next (timetable d) ..< tbl_next (timetable d) + length xs] (map (stamped u \<circ> batch_entry p) xs)"
proof (induction xs arbitrary: ks d)
  case Nil
  then show ?case by simp
next
  case (Cons x xs)
  obtain k d1 where one: "create_timetable_entry e u (batch_entry p x) d = Inr (k, d1)"
    and rest: "foldM (create_one e u p) xs (ks @ [k], d1) = Inr (ks', d')"
    using Cons.prems by (simp add: create_one_def [of e u p x] res_simps) blast
  have k: "k = tbl_next (timetable d)" and d1: "timetable d1 = tbl_insert (stamped u (batch_entry p x)) (timetable d)"
    using create_entry_inserts [OF one] by (simp_all add: stamped_def)
  have range: "[n ..< n + length (x # xs)] = n # [Suc n ..< Suc n + length xs]" for n :: nat by (simp add: upt_rec)
  show ?case unfolding range using Cons.IH [OF rest] by (simp add: k d1 tbl_insert_def)
qed

section \<open>What the code does beside its documentation\<close>

text \<open>
  A new row is written before it is validated, and a required JSON column refuses the empty list: nobody can save a checklist without
  rows, so the check for rows at submission never fails on a saved one.
\<close>

lemma empty_checklist_is_refused:
  "tbl_wf (checklists d) \<Longrightarrow> save_supervisor_checklist e u x day kind [] remarks d \<noteq> Inr y"
  by (cases y) (auto simp: save_supervisor_checklist_def split: if_splits option.splits elim: write_checklist_cases)

text \<open>Only the creation of an entry asks for the role of the supervisor: an entry can be changed and reactivated for someone who lost it.\<close>

lemma former_supervisor_keeps_entries:
  assumes "is_system_admin actor" and "get_user d (tt_supervisor t) = Some s" and "u_role s \<notin> PERSONAL_ROLES"
    and "site_in_user_scope e d s (Some (tt_site t))"
    and "timetable_clean d ((patch_timetable p t)\<lparr>tt_updated_by := Some (u_pk actor)\<rparr>)"
  shows "\<exists>d'. update_timetable_entry e (k, t) p actor d = Inr d'" and "create_timetable_entry e actor t d = Inl (ValidationError [])"
  using assms by (auto simp: update_timetable_entry_def create_timetable_entry_def supervisor_of_def Let_def patch_timetable_def)

section \<open>Properties\<close>

text \<open>
  C9: No call breaks the link between a checklist and the roster it comes from. After any sequence of calls that starts with an empty
  roster, every checklist has its timetable entry (deleting one with checklists only deactivates it), the entry is for the
  supervisor, the site and the zone the checklist names, the table has at least one row, and a submitted or reviewed checklist has
  a submission time and a snapshot that agrees with its rows, its notes, its day, its slot and the role it was written in.
\<close>

theorem checklists_keep_their_roster:
  assumes "timetable d = tbl_empty" and "checklists d = tbl_empty"
    and "tbl_get (checklists (run_calls roster_step d xs)) k = Some c"
  shows "(\<exists>t. tbl_get (timetable (run_calls roster_step d xs)) (ck_timetable_entry c) = Some t \<and>
      roster_of t = (ck_supervisor c, ck_site c, ck_zone c)) \<and> ck_table_entries c \<noteq> [] \<and>
    (ck_status c \<in> {CK_SUBMITTED, CK_REVIEWED} \<longrightarrow> ck_submitted_at c \<noteq> None \<and> (\<exists>s. ck_snapshot c = Some s \<and> evidence_of c s))"
proof -
  have "roster_inv d" by (simp add: roster_inv_def assms(1,2) tbl_all_empty)
  then have inv: "roster_inv (run_calls roster_step d xs)" by (rule roster.run_inv)
  then have "checklist_ok c" and "roster_kept (run_calls roster_step d xs) c"
    using assms(3) by (auto simp: roster_inv_def dest: table_okD(3) tbl_allD)
  then show ?thesis by (auto simp: roster_kept_def checklist_ok_def split: option.splits)
qed

lemma moves_status: "checklist_moves\<^sup>*\<^sup>* r s \<Longrightarrow> ck_status r \<noteq> CK_DRAFT \<Longrightarrow> ck_status s \<noteq> CK_DRAFT"
  by (induction rule: rtranclp_induct) (auto simp: checklist_moves_def elim!: checklist_edge.elims)

lemma moves_reviewed: "checklist_moves\<^sup>*\<^sup>* r s \<Longrightarrow> ck_status r = CK_REVIEWED \<Longrightarrow> s = r"
  by (induction rule: rtranclp_induct) (auto simp: checklist_moves_def)

text \<open>
  A submitted checklist is sealed. Whatever calls follow, a reviewed checklist stays as it is, in every column, and
  the rows, the notes, the submission time and the snapshot of a submitted one only change after a reviewer returned it.
\<close>

theorem submitted_checklist_is_sealed:
  assumes "checklists_ok (checklists d)" and "tbl_get (checklists d) k = Some r" and "ck_status r \<in> {CK_SUBMITTED, CK_REVIEWED}"
  shows "\<exists>c. tbl_get (checklists (run_calls roster_step d xs)) k = Some c \<and> (if ck_status r = CK_REVIEWED then c = r
     else checklist_content c = checklist_content r \<or>
       (\<exists>t \<in> set (call_states roster_step d xs). \<exists>q. tbl_get (checklists t) k = Some q \<and> ck_status q = CK_RETURNED))"
proof -
  obtain c where c: "tbl_get (checklists (run_calls roster_step d xs)) k = Some c" "checklist_moves\<^sup>*\<^sup>* r c"
    using checklist_flow.run_row [OF assms(1,2)] by blast
  have "\<exists>t \<in> set (call_states roster_step d xs). \<exists>q. tbl_get (checklists t) k = Some q \<and> ck_status q = CK_RETURNED"
    if changed: "checklist_content c \<noteq> checklist_content r"
  proof -
    have closed: "checklist_moves a b \<Longrightarrow> \<not> checklist_editable a \<Longrightarrow> checklist_content b = checklist_content a" for a b
      by (simp add: checklist_moves_def)
    obtain t q where t: "t \<in> set (call_states roster_step d xs)" and q: "tbl_get (checklists t) k = Some q" "checklist_editable q"
      using checklist_flow.change_needs_open [OF closed assms(1,2) c(1) changed] by blast
    from checklist_flow.states_row [OF assms(1,2) t] q(1) have "checklist_moves\<^sup>*\<^sup>* r q" by auto
    from moves_status [OF this] assms(3) have "ck_status q \<noteq> CK_DRAFT" by auto
    with t q show ?thesis by (auto simp: checklist_editable_def)
  qed
  with c moves_reviewed [OF c(2)] show ?thesis by auto
qed


section \<open>Witnesses\<close>

definition demo_roster_user :: "nat \<Rightarrow> role_code \<Rightarrow> user" where
  "demo_roster_user k role = \<lparr>u_pk = k, u_role = role, u_is_superuser = False, u_is_active = True, u_perms = []\<rparr>"

definition demo_rota_db :: db where
  "demo_rota_db = empty_db\<lparr>
     users := [demo_roster_user 1 SYSTEM_ADMIN, demo_roster_user 2 ZONE_SUPERVISOR, demo_roster_user 3 GENERAL_SUPERVISOR],
     zones := \<lparr>tbl_rows = [(1, \<lparr>zn_name = ''North'', zn_code = ''N'', zn_description = [], zn_boundary = ''{}'', zn_is_active = True,
       zn_created_by = None, zn_updated_by = None\<rparr>)], tbl_next = 2\<rparr>,
     sites := \<lparr>tbl_rows = [(1, demo_site\<lparr>si_zone := Some 1\<rparr>)], tbl_next = 2\<rparr>,
     zone_supervisor_assignments := \<lparr>tbl_rows = [(1, \<lparr>zsa_user = 2, zsa_zone = 1, zsa_assigned_from = Date 2025 1 1,
       zsa_assigned_to = None, zsa_is_active = True, zsa_created_by = None, zsa_updated_by = None\<rparr>)], tbl_next = 2\<rparr>\<rparr>"

definition demo_rota_entry :: timetable_entry where
  "demo_rota_entry = \<lparr>tt_supervisor = 2, tt_zone = 1, tt_site = 1, tt_title = ''Week'', tt_effective_from = Date 2025 6 1,
     tt_effective_to = None, tt_work_days = [''mon'', ''tue''], tt_off_days = [''sun''], tt_shift_slot = SLOT_ASUBUHI,
     tt_relief_person = None, tt_notes = [], tt_is_active = True, tt_created_by = None, tt_updated_by = None\<rparr>"

definition demo_rota_calls :: "((env \<times> user) \<times> roster_call) list" where
  "demo_rota_calls =
     [((default_env, demo_roster_user 1 SYSTEM_ADMIN), CreateEntry demo_rota_entry),
      ((default_env, demo_roster_user 2 ZONE_SUPERVISOR), SaveChecklist 1 (Date 2025 6 10) ''maeneo_yaliyokaguliwa'' [[(''area'', ''Lobby'')]] []),
      ((default_env, demo_roster_user 2 ZONE_SUPERVISOR), SubmitChecklist 1),
      ((default_env, demo_roster_user 1 SYSTEM_ADMIN), DeleteEntry 1)]"

text \<open>The part of the database the run reads, and its two tables.\<close>

definition rota_state :: "timetable_entry table \<Rightarrow> checklist table \<Rightarrow> db \<Rightarrow> bool" where
  "rota_state t c d \<longleftrightarrow> users d = users demo_rota_db \<and> zones d = zones demo_rota_db \<and> sites d = sites demo_rota_db \<and>
     zone_supervisor_assignments d = zone_supervisor_assignments demo_rota_db \<and> ags_assignments d = tbl_empty \<and>
     timetable d = t \<and> checklists d = c"

lemma rota_frames [simp]:
  "rota_state t c (audit_timetable a u k x y d) = rota_state t c d" "rota_state t c (audit_checklist a u k v w d) = rota_state t c d"
  by (simp_all add: rota_state_def audit_timetable_def audit_checklist_def)

lemma rota_scope: "rota_state t c d \<Longrightarrow> site_in_user_scope default_env d (demo_roster_user 2 ZONE_SUPERVISOR) (Some 1)"
  by (simp add: rota_state_def demo_rota_db_def demo_roster_user_def demo_site_def site_in_user_scope_def visible_sites_def
      sees_all_zones_def is_system_admin_def in_assigned_zone_def assigned_zone_ids_def tbl_where_def)

lemma rota_reads:
  assumes "rota_state t c d"
  shows "get_user d 2 = Some (demo_roster_user 2 ZONE_SUPERVISOR)"
    and "\<exists>z. tbl_get (zones d) 1 = Some z \<and> zn_is_active z"
    and "\<exists>s. tbl_get (sites d) 1 = Some s \<and> si_is_active s \<and> si_zone s = Some 1"
    and "timetable d = t" and "checklists d = c"
  using assms by (simp_all add: rota_state_def demo_rota_db_def get_user_def demo_roster_user_def tbl_get_def demo_site_def)

abbreviation rota_admin :: user where
  "rota_admin \<equiv> demo_roster_user 1 SYSTEM_ADMIN"

abbreviation rota_supervisor :: user where
  "rota_supervisor \<equiv> demo_roster_user 2 ZONE_SUPERVISOR"

lemma rota_create:
  assumes "rota_state tbl_empty tbl_empty d"
  shows "\<exists>d'. create_timetable_entry default_env rota_admin demo_rota_entry d = Inr (1, d') \<and>
    rota_state (tbl_insert (stamped rota_admin demo_rota_entry) tbl_empty) tbl_empty d'"
proof -
  note reads = rota_reads [OF assms]
  obtain s where s: "tbl_get (sites d) 1 = Some s" "si_zone s = Some 1" using reads(3) by blast
  have "timetable_clean d (stamped rota_admin demo_rota_entry)"
    using s by (simp add: timetable_clean_def stamped_def demo_rota_entry_def text_column_def validate_effective_days_def WORKING_DAYS_def)
  then show ?thesis using assms reads rota_scope [OF assms]
    by (simp add: is_system_admin_def demo_roster_user_def create_timetable_entry_def supervisor_of_def PERSONAL_ROLES_def stamped_def
        demo_rota_entry_def rota_state_def tbl_empty_def audit_timetable_def Let_def)
qed

lemma rota_create_call:
  assumes "rota_state tbl_empty tbl_empty d"
  shows "\<exists>d'. roster_step d ((default_env, rota_admin), CreateEntry demo_rota_entry) = Inr d' \<and>
    rota_state (tbl_insert (stamped rota_admin demo_rota_entry) tbl_empty) tbl_empty d'"
proof -
  note reads = rota_reads [OF assms]
  have "demo_rota_entry\<lparr>tt_relief_person := None, tt_is_active := True\<rparr> = demo_rota_entry" "tt_supervisor demo_rota_entry = 2"
    "tt_zone demo_rota_entry = 1" "tt_site demo_rota_entry = 1" "tt_relief_person demo_rota_entry = None"
    by (simp_all add: demo_rota_entry_def)
  moreover have "is_system_admin rota_admin" "u_is_active rota_supervisor" by (simp_all add: is_system_admin_def demo_roster_user_def)
  ultimately show ?thesis using reads(1-3) rota_create [OF assms]
    by (auto simp: supervisor_timetable_create_def permit_def found_def active_user_def active_row_def relief_or_404_def
        simp del: One_nat_def)
qed

definition rota_entries :: "timetable_entry table" where
  "rota_entries = tbl_insert (stamped rota_admin demo_rota_entry) tbl_empty"

definition rota_draft :: checklist where
  "rota_draft = new_checklist rota_supervisor (1, stamped rota_admin demo_rota_entry) (Date 2025 6 10) MAENEO_YALIYOKAGULIWA
     [[(''area'', ''Lobby'')]] []"

lemma weekday_tuesday: "weekday (Date 2025 6 10) = 1"
  by (simp add: weekday_def ordinal_def days_before_year_def days_before_month_def days_in_month_def leap_year_def upt_rec)

lemma rota_tuesday: "is_scheduled_for (stamped rota_admin demo_rota_entry) (Date 2025 6 10)"
  unfolding is_scheduled_for_def weekday_tuesday
  by (simp add: stamped_def demo_rota_entry_def weekday_code_def date_order_defs)

lemma rota_entries_get [simp]: "tbl_get rota_entries k = (if k = 1 then Some (stamped rota_admin demo_rota_entry) else None)"
  by (simp add: rota_entries_def tbl_get_def tbl_insert_def tbl_empty_def)

lemma rota_save:
  assumes "rota_state rota_entries tbl_empty d"
  shows "\<exists>d'. roster_step d ((default_env, rota_supervisor),
      SaveChecklist 1 (Date 2025 6 10) ''maeneo_yaliyokaguliwa'' [[(''area'', ''Lobby'')]] []) = Inr d' \<and>
    rota_state rota_entries (tbl_insert rota_draft tbl_empty) d'"
proof -
  note reads = rota_reads [OF assms]
  obtain s where s: "tbl_get (sites d) 1 = Some s" "si_zone s = Some 1" using reads(3) by blast
  have clean: "checklist_clean d rota_draft"
    using s reads(4) by (simp add: checklist_clean_def rota_draft_def new_checklist_def text_column_def role_value_def
        demo_roster_user_def stamped_def demo_rota_entry_def)
  have entry: "tt_supervisor (stamped rota_admin demo_rota_entry) = 2" "tt_site (stamped rota_admin demo_rota_entry) = 1"
    by (simp_all add: stamped_def demo_rota_entry_def)
  have kind: "checklist_kind_of ''maeneo_yaliyokaguliwa'' = Some MAENEO_YALIYOKAGULIWA"
    by (simp add: checklist_kind_of_def checklist_kind_value_def)
  have none: "checklists_of d 1 (Date 2025 6 10) MAENEO_YALIYOKAGULIWA = []"
    using reads(5) by (simp add: checklists_of_def tbl_where_def tbl_empty_def)
  have user: "u_pk rota_supervisor = 2" "u_role rota_supervisor = ZONE_SUPERVISOR" by (simp_all add: demo_roster_user_def)
  have "write_checklist rota_supervisor (1, stamped rota_admin demo_rota_entry) (Date 2025 6 10) MAENEO_YALIYOKAGULIWA
      [[(''area'', ''Lobby'')]] [] d = Inr (1, audit_checklist A_CREATE rota_supervisor 1 None rota_draft
        (d\<lparr>checklists := tbl_insert rota_draft tbl_empty\<rparr>))"
    using none clean reads(5) by (simp add: write_checklist_def rota_draft_def [symmetric] Let_def del: One_nat_def) (simp add: tbl_empty_def)
  moreover have "save_supervisor_checklist default_env rota_supervisor (1, stamped rota_admin demo_rota_entry) (Date 2025 6 10)
      ''maeneo_yaliyokaguliwa'' [[(''area'', ''Lobby'')]] [] d =
    write_checklist rota_supervisor (1, stamped rota_admin demo_rota_entry) (Date 2025 6 10) MAENEO_YALIYOKAGULIWA
      [[(''area'', ''Lobby'')]] [] d"
    unfolding save_supervisor_checklist_def snd_conv entry kind user
    using rota_tuesday rota_scope [OF assms] by (simp add: PERSONAL_ROLES_def kind_allowed_def)
  moreover have "rota_state rota_entries (tbl_insert rota_draft tbl_empty) (d\<lparr>checklists := tbl_insert rota_draft tbl_empty\<rparr>)"
    using assms by (simp add: rota_state_def)
  ultimately show ?thesis using reads(4) by (simp add: supervisor_checklist_save_def load_or_404_def found_def)
qed

definition rota_submitted :: "db \<Rightarrow> checklist" where
  "rota_submitted d = rota_draft\<lparr>ck_status := CK_SUBMITTED, ck_submitted_at := Some (now default_env), ck_return_reason := [],
     ck_snapshot := Some (checklist_evidence d rota_draft), ck_updated_by := Some 2\<rparr>"

lemma rota_draft_get: "tbl_get (tbl_insert rota_draft tbl_empty) 1 = Some rota_draft"
  by (simp add: tbl_get_def tbl_insert_def tbl_empty_def)

lemma rota_submit:
  assumes "rota_state rota_entries (tbl_insert rota_draft tbl_empty) d"
  shows "\<exists>d'. roster_step d ((default_env, rota_supervisor), SubmitChecklist 1) = Inr d' \<and>
    rota_state rota_entries (tbl_put 1 (rota_submitted d) (tbl_insert rota_draft tbl_empty)) d'"
proof -
  note reads = rota_reads [OF assms]
  obtain s where s: "tbl_get (sites d) 1 = Some s" "si_zone s = Some 1" using reads(3) by blast
  have draft: "ck_supervisor rota_draft = u_pk rota_supervisor" "checklist_editable rota_draft" "ck_table_entries rota_draft \<noteq> []"
    by (simp_all add: rota_draft_def new_checklist_def checklist_editable_def)
  have clean: "checklist_clean d (rota_submitted d)"
    using s reads(4) by (simp add: checklist_clean_def rota_submitted_def rota_draft_def new_checklist_def text_column_def role_value_def
        demo_roster_user_def stamped_def demo_rota_entry_def)
  have pk: "u_pk rota_supervisor = 2" by (simp add: demo_roster_user_def)
  have "submit_supervisor_checklist default_env (1, rota_draft) rota_supervisor d =
    Inr (audit_checklist A_STATUS_CHANGE rota_supervisor 1 (Some rota_draft) (rota_submitted d)
      (d\<lparr>checklists := tbl_put 1 (rota_submitted d) (checklists d)\<rparr>))"
    using draft clean unfolding pk by (simp add: submit_supervisor_checklist_def Let_def pk rota_submitted_def del: One_nat_def)
  moreover have "rota_state rota_entries (tbl_put 1 (rota_submitted d) (tbl_insert rota_draft tbl_empty))
      (d\<lparr>checklists := tbl_put 1 (rota_submitted d) (checklists d)\<rparr>)"
    using assms by (simp add: rota_state_def)
  ultimately show ?thesis using reads(5) rota_draft_get
    by (simp add: supervisor_checklist_submit_def load_or_404_def found_def del: One_nat_def)
qed

lemma rota_delete:
  assumes "rota_state rota_entries (tbl_put 1 c (tbl_insert rota_draft tbl_empty)) d" and "ck_timetable_entry c = 1"
  shows "\<exists>d'. roster_step d ((default_env, rota_admin), DeleteEntry 1) = Inr d' \<and>
    rota_state (tbl_put 1 ((stamped rota_admin demo_rota_entry)\<lparr>tt_is_active := False\<rparr>) rota_entries)
      (tbl_put 1 c (tbl_insert rota_draft tbl_empty)) d'"
proof -
  note reads = rota_reads [OF assms(1)]
  have admin: "is_system_admin rota_admin" "u_pk rota_admin = 1" by (simp_all add: is_system_admin_def demo_roster_user_def)
  have "tbl_exists (\<lambda>_ b. ck_timetable_entry b = 1) (checklists d)"
    using reads(5) assms(2) by (simp add: tbl_exists_def tbl_put_def tbl_update_where_def tbl_insert_def tbl_empty_def)
  moreover have "tt_is_active (stamped rota_admin demo_rota_entry)"
    "(stamped rota_admin demo_rota_entry)\<lparr>tt_is_active := False, tt_updated_by := Some 1\<rparr> =
       (stamped rota_admin demo_rota_entry)\<lparr>tt_is_active := False\<rparr>"
    by (simp_all add: stamped_def demo_rota_entry_def demo_roster_user_def)
  ultimately show ?thesis using reads(4) admin assms(1)
    by (simp add: supervisor_timetable_delete_def permit_def load_or_404_def found_def delete_timetable_entry_def
        deactivate_timetable_entry_def Let_def rota_state_def audit_timetable_def del: One_nat_def)
qed

text \<open>The run: an entry, a draft for a Tuesday, its submission, and the attempt to delete the entry.\<close>

lemma rota_calls_four: "demo_rota_calls = [demo_rota_calls ! 0, demo_rota_calls ! 1, demo_rota_calls ! 2, demo_rota_calls ! 3]"
  by (simp add: demo_rota_calls_def)

lemma demo_rota_run:
  "\<exists>c. tbl_get (checklists (run_calls roster_step demo_rota_db demo_rota_calls)) 1 = Some c \<and> ck_status c = CK_SUBMITTED \<and>
     ck_timetable_entry c = 1 \<and>
     tbl_get (timetable (run_calls roster_step demo_rota_db demo_rota_calls)) 1 =
       Some ((stamped rota_admin demo_rota_entry)\<lparr>tt_is_active := False\<rparr>)"
proof -
  have "rota_state tbl_empty tbl_empty demo_rota_db" by (simp add: rota_state_def demo_rota_db_def empty_db_def)
  from rota_create_call [OF this] obtain d1 where d1: "roster_step demo_rota_db (demo_rota_calls ! 0) = Inr d1"
    "rota_state rota_entries tbl_empty d1" by (auto simp: demo_rota_calls_def rota_entries_def)
  from rota_save [OF d1(2)] obtain d2 where d2: "roster_step d1 (demo_rota_calls ! 1) = Inr d2"
    "rota_state rota_entries (tbl_insert rota_draft tbl_empty) d2" by (auto simp: demo_rota_calls_def)
  from rota_submit [OF d2(2)] obtain d3 where d3: "roster_step d2 (demo_rota_calls ! 2) = Inr d3"
    "rota_state rota_entries (tbl_put 1 (rota_submitted d2) (tbl_insert rota_draft tbl_empty)) d3"
    by (auto simp: demo_rota_calls_def)
  have entry: "ck_timetable_entry (rota_submitted d2) = 1" by (simp add: rota_submitted_def rota_draft_def new_checklist_def)
  from rota_delete [OF d3(2) entry] obtain d4 where d4: "roster_step d3 (demo_rota_calls ! 3) = Inr d4"
    "rota_state (tbl_put 1 ((stamped rota_admin demo_rota_entry)\<lparr>tt_is_active := False\<rparr>) rota_entries)
      (tbl_put 1 (rota_submitted d2) (tbl_insert rota_draft tbl_empty)) d4"
    by (auto simp: demo_rota_calls_def)
  have "run_calls roster_step demo_rota_db [demo_rota_calls ! 0, demo_rota_calls ! 1, demo_rota_calls ! 2, demo_rota_calls ! 3] = d4"
    by (simp only: run_calls.simps d1(1) d2(1) d3(1) d4(1) commit_simps)
  then have run: "run_calls roster_step demo_rota_db demo_rota_calls = d4"
    by (subst rota_calls_four)
  have "tbl_get (checklists d4) 1 = Some (rota_submitted d2)"
    using rota_reads(5) [OF d4(2)] rota_draft_get by (simp add: tbl_get_put del: One_nat_def)
  then show ?thesis unfolding run using rota_reads(4) [OF d4(2)] entry
    by (simp add: tbl_get_put rota_submitted_def del: One_nat_def)
qed

theorem checklists_keep_their_roster_witness:
  "\<exists>t c. tbl_get (checklists (run_calls roster_step demo_rota_db demo_rota_calls)) 1 = Some c \<and>
     tbl_get (timetable (run_calls roster_step demo_rota_db demo_rota_calls)) (ck_timetable_entry c) = Some t \<and>
     roster_of t = (ck_supervisor c, ck_site c, ck_zone c) \<and> \<not> tt_is_active t"
proof -
  have "timetable demo_rota_db = tbl_empty" "checklists demo_rota_db = tbl_empty" by (simp_all add: demo_rota_db_def empty_db_def)
  with demo_rota_run show ?thesis using checklists_keep_their_roster [of demo_rota_db demo_rota_calls 1] by fastforce
qed

text \<open>A reviewed checklist and the attempt to save, submit and return it.\<close>

definition rota_reviewed_db :: db where
  "rota_reviewed_db = demo_rota_db\<lparr>timetable := rota_entries, checklists := tbl_insert (rota_draft\<lparr>ck_status := CK_REVIEWED,
     ck_submitted_at := Some 1, ck_snapshot := Some (checklist_evidence demo_rota_db rota_draft)\<rparr>) tbl_empty\<rparr>"

theorem submitted_checklist_is_sealed_witness:
  "\<exists>c. tbl_get (checklists (run_calls roster_step rota_reviewed_db (tl demo_rota_calls))) 1 = Some c \<and> ck_status c = CK_REVIEWED"
proof -
  let ?c = "rota_draft\<lparr>ck_status := CK_REVIEWED, ck_submitted_at := Some 1,
    ck_snapshot := Some (checklist_evidence demo_rota_db rota_draft)\<rparr>"
  have ok: "checklist_ok ?c"
    by (simp add: checklist_ok_def rota_draft_def new_checklist_def evidence_of_def checklist_evidence_def)
  have row: "tbl_get (checklists rota_reviewed_db) 1 = Some ?c"
    by (simp add: rota_reviewed_db_def tbl_get_def tbl_insert_def tbl_empty_def)
  have "checklists_ok (checklists rota_reviewed_db)"
    unfolding rota_reviewed_db_def by (simp del: One_nat_def) (rule table_ok_insert [where ok = checklist_ok and key = checklist_key, OF table_ok_empty ok], simp add: tbl_exists_def tbl_empty_def)
  from submitted_checklist_is_sealed [OF this row, of "tl demo_rota_calls"] show ?thesis by simp
qed

definition demo_batch :: timetable_batch where
  "demo_batch = \<lparr>tb_scope_role = ZONE_SUPERVISOR, tb_supervisor_ids = [2], tb_zone_ids = [1], tb_site_ids = [1], tb_title = '' Week '',
     tb_effective_from = Date 2025 6 1, tb_effective_to = None, tb_work_days = [''mon'', ''tue''], tb_off_days = [''sun''],
     tb_shift_slot = SLOT_ASUBUHI, tb_notes = []\<rparr>"

lemmas batch_eval = demo_batch_def demo_rota_db_def batch_zones_def batch_sites_def batch_supervisors_def expected_role_def
  universal_supervisor_def zone_coverage_def covers_def is_current_def demo_roster_user_def demo_site_def tbl_where_def
  default_env_def date_order_defs empty_db_def

lemma demo_pairs: "covered_pairs default_env demo_rota_db demo_batch = [((1, demo_site\<lparr>si_zone := Some 1\<rparr>), rota_supervisor)]"
  by (simp add: covered_pairs_def batch_eval)

lemma demo_batch_accepted: "batch_check default_env demo_rota_db demo_batch f = f"
  by (simp add: batch_check_def batch_eval)

lemma demo_batch_made: "\<exists>d'. supervisor_timetable_batch_create default_env rota_admin demo_batch demo_rota_db = Inr ([1], d')"
proof -
  have start: "rota_state tbl_empty tbl_empty demo_rota_db" by (simp add: rota_state_def demo_rota_db_def empty_db_def)
  have entry: "batch_entry demo_batch ((1, demo_site\<lparr>si_zone := Some 1\<rparr>), rota_supervisor) = demo_rota_entry"
    by (simp add: batch_entry_def demo_batch_def demo_rota_entry_def demo_roster_user_def strip_def is_space_def)
  have admin: "is_system_admin rota_admin" by (simp add: is_system_admin_def demo_roster_user_def)
  have "\<exists>d'. create_timetable_entry default_env rota_admin demo_rota_entry demo_rota_db = Inr (1, d')"
    using rota_create [OF start] by blast
  then show ?thesis using admin by (auto simp: supervisor_timetable_batch_create_def permit_def demo_batch_accepted demo_pairs
      create_one_def entry simp del: One_nat_def)
qed


end
