(* ===== verification/Remuneration.thy ===== *)
theory Remuneration
  imports Calendar Accounts Cleaners "HOL-Library.List_Lexorder" "HOL-Library.Char_ord"
begin

text \<open>
  The monthly remuneration forms and the payment contacts they change (\<open>apps/site_management/remuneration_services.py\<close>, the rules of the
  three models and their endpoints in \<open>api.py\<close>). Each form has a line per cleaner with counts from the attendance; the payment
  profile of a cleaner is written by the review of a form alone. Foreign keys hold in the database, and the texts are ASCII.
\<close>

section \<open>Months\<close>

definition month_bounds :: "date \<Rightarrow> date \<times> date" where
  "month_bounds period = (Date (date_year period) (date_month period) 1, month_end period)"

definition remuneration_window_is_open :: "date \<Rightarrow> bool" where
  "remuneration_window_is_open today \<longleftrightarrow> 15 \<le> date_day today \<and> date_day today \<le> 25"

definition in_month :: "date \<Rightarrow> date \<Rightarrow> bool" where
  "in_month period day \<longleftrightarrow> fst (month_bounds period) \<le> day \<and> day \<le> snd (month_bounds period)"

section \<open>Rules of the models\<close>

definition form_editable :: "remuneration_report \<Rightarrow> bool" where
  "form_editable r \<longleftrightarrow> mr_status r \<in> {CK_DRAFT, CK_RETURNED}"

definition form_clean :: "db \<Rightarrow> nat \<Rightarrow> remuneration_report \<Rightarrow> bool" where
  "form_clean d k r \<longleftrightarrow> date_day (mr_period r) = 1 \<and>
     \<not> tbl_exists (\<lambda>j b. j \<noteq> k \<and> mr_site b = mr_site r \<and> mr_period b = mr_period r) (remuneration_reports d)"

definition line_clean :: "db \<Rightarrow> nat \<Rightarrow> remuneration_line \<Rightarrow> bool" where
  "line_clean d k l \<longleftrightarrow> ml_present_days l \<le> 32767 \<and> ml_absent_days l \<le> 32767 \<and>
     text_column True 16 (ml_previous_phone l) \<and> text_column True 64 (ml_previous_account l) \<and>
     text_column True 160 (ml_previous_holder_name l) \<and> phone_column (ml_proposed_phone l) \<and>
     text_column True 64 (ml_proposed_account l) \<and> text_column True 160 (ml_proposed_holder_name l) \<and>
     (case (tbl_get (cleaner_assignments d) (ml_assignment l), tbl_get (remuneration_reports d) (ml_report l)) of
        (Some a, Some r) \<Rightarrow> csa_site a = mr_site r \<and> csa_cleaner a = ml_cleaner l | _ \<Rightarrow> False) \<and>
     \<not> tbl_exists (\<lambda>j b. j \<noteq> k \<and> ml_report b = ml_report l \<and> ml_cleaner b = ml_cleaner l) (remuneration_lines d)"

definition profile_clean :: "payment_profile \<Rightarrow> bool" where
  "profile_clean p \<longleftrightarrow> phone_column (pp_yas_zantel_phone p) \<and> text_column True 64 (pp_pbz_account_number p) \<and>
     text_column True 160 (pp_account_holder_name p)"

definition audit_form :: "audit_action \<Rightarrow> user \<Rightarrow> nat \<Rightarrow> remuneration_report option \<Rightarrow> remuneration_report \<Rightarrow> db \<Rightarrow> db" where
  "audit_form a actor k before r = record_audit a (Some (u_pk actor)) ''site_management.monthlyremunerationreport'' k
     (map_option SnapRemuneration before) (Some (SnapRemuneration r))"

section \<open>Preparing a form\<close>

definition supervisor_scope :: "env \<Rightarrow> db \<Rightarrow> user \<Rightarrow> nat \<Rightarrow> 'a res \<Rightarrow> 'a res" where
  "supervisor_scope e d actor site f =
     (if u_role actor \<noteq> SITE_SUPERVISOR then Inl PermissionDenied
      else if \<not> site_in_user_scope e d actor (Some site) then Inl PermissionDenied else f)"

text \<open>\<open>_monthly_counts\<close>: the attendance records of the month, not its days.\<close>

definition month_records :: "db \<Rightarrow> nat \<Rightarrow> nat \<Rightarrow> date \<Rightarrow> attendance_status set \<Rightarrow> (nat \<times> attendance_record) list" where
  "month_records d site cleaner period st = tbl_where (\<lambda>_ r. ar_site r = site \<and> ar_cleaner r = cleaner \<and>
     in_month period (ar_attendance_date r) \<and> ar_status r \<in> st) (attendance d)"

definition monthly_counts :: "db \<Rightarrow> nat \<Rightarrow> nat \<Rightarrow> date \<Rightarrow> nat \<times> nat" where
  "monthly_counts d site cleaner period =
     (length (month_records d site cleaner period {AT_PRESENT, AT_LATE}), length (month_records d site cleaner period {AT_ABSENT}))"

definition assignment_in_month :: "date \<Rightarrow> cleaner_site_assignment \<Rightarrow> bool" where
  "assignment_in_month period a \<longleftrightarrow> csa_status a = CA_ACTIVE \<and> csa_start_date a \<le> snd (month_bounds period) \<and>
     (case csa_end_date a of None \<Rightarrow> True | Some until \<Rightarrow> fst (month_bounds period) \<le> until)"

definition month_assignments :: "db \<Rightarrow> nat \<Rightarrow> date \<Rightarrow> (nat \<times> cleaner_site_assignment) list" where
  "month_assignments d site period = tbl_where (\<lambda>_ a. csa_site a = site \<and> assignment_in_month period a) (cleaner_assignments d)"

definition start_in_month :: "date \<Rightarrow> cleaner_site_assignment \<Rightarrow> date option" where
  "start_in_month period a = (if in_month period (csa_start_date a) then Some (csa_start_date a) else None)"

definition new_line :: "nat \<Rightarrow> nat \<times> cleaner_site_assignment \<Rightarrow> nat \<times> nat \<Rightarrow> date option \<Rightarrow> remuneration_line" where
  "new_line report a counts start =
     \<lparr>ml_report = report, ml_cleaner = csa_cleaner (snd a), ml_assignment = fst a, ml_present_days = fst counts,
      ml_absent_days = snd counts, ml_start_work_date = start, ml_previous_phone = [], ml_previous_account = [],
      ml_previous_holder_name = [], ml_proposed_phone = [], ml_proposed_account = [], ml_proposed_holder_name = [],
      ml_phone_change_status = PC_PENDING, ml_account_change_status = PC_PENDING, ml_payment_saved_by = None,
      ml_payment_saved_at = None\<rparr>"

definition recounted :: "nat \<times> cleaner_site_assignment \<Rightarrow> nat \<times> nat \<Rightarrow> date option \<Rightarrow> remuneration_line \<Rightarrow> remuneration_line" where
  "recounted a counts start l = l\<lparr>ml_assignment := fst a, ml_present_days := fst counts, ml_absent_days := snd counts,
     ml_start_work_date := start\<rparr>"

definition lines_of :: "db \<Rightarrow> nat \<Rightarrow> (nat \<times> remuneration_line) list" where
  "lines_of d report = tbl_where (\<lambda>_ l. ml_report l = report) (remuneration_lines d)"

text \<open>The body of the loop: a missing line is added to any form, a line that is there is brought up to date on an open form only.\<close>

definition refresh_line :: "nat \<times> remuneration_report \<Rightarrow> nat \<times> cleaner_site_assignment \<Rightarrow> db \<Rightarrow> db res" where
  "refresh_line x a d =
     (let counts = monthly_counts d (mr_site (snd x)) (csa_cleaner (snd a)) (mr_period (snd x));
          start = start_in_month (mr_period (snd x)) (snd a)
      in case filter (\<lambda>y. ml_cleaner (snd y) = csa_cleaner (snd a)) (lines_of d (fst x)) of
           [] \<Rightarrow> Inr (d\<lparr>remuneration_lines := tbl_insert (new_line (fst x) a counts start) (remuneration_lines d)\<rparr>)
         | (j, l) # _ \<Rightarrow>
             if \<not> form_editable (snd x) then Inr d
             else if \<not> line_clean d j (recounted a counts start l) then Inl FullClean
             else Inr (d\<lparr>remuneration_lines := tbl_put j (recounted a counts start l) (remuneration_lines d)\<rparr>))"

definition refresh_report_lines :: "nat \<times> remuneration_report \<Rightarrow> db \<Rightarrow> db res" where
  "refresh_report_lines x d = foldM (refresh_line x) (month_assignments d (mr_site (snd x)) (mr_period (snd x))) d"

definition new_form :: "nat \<Rightarrow> date \<Rightarrow> user \<Rightarrow> remuneration_report" where
  "new_form site period actor =
     \<lparr>mr_site = site, mr_period = period, mr_prepared_by = u_pk actor, mr_status = CK_DRAFT, mr_submitted_at = None,
      mr_reviewed_at = None, mr_reviewed_by = None, mr_return_reason = [], mr_snapshot = None,
      mr_created_by = Some (u_pk actor), mr_updated_by = Some (u_pk actor)\<rparr>"

definition prepare_monthly_remuneration :: "env \<Rightarrow> user \<Rightarrow> nat \<Rightarrow> date \<Rightarrow> db \<Rightarrow> (nat \<times> db) res" where
  "prepare_monthly_remuneration e actor site period d = supervisor_scope e d actor site
     (if date_day period \<noteq> 1 then Inl (ValidationError [])
      else if period \<noteq> fst (month_bounds (localdate e)) then Inl (ValidationError [])
      else if \<not> remuneration_window_is_open (localdate e) then Inl (ValidationError [])
      else let ((k, r), t) = get_or_create (\<lambda>r. mr_site r = site \<and> mr_period r = period) (new_form site period actor)
                 (remuneration_reports d);
               created = (\<not> tbl_exists (\<lambda>_ r. mr_site r = site \<and> mr_period r = period) (remuneration_reports d))
           in if mr_prepared_by r \<noteq> u_pk actor then Inl PermissionDenied
              else rbind (refresh_report_lines (k, r) (d\<lparr>remuneration_reports := t\<rparr>)) (\<lambda>d1.
                Inr (k, if created then audit_form A_CREATE actor k None r d1 else d1)))"

section \<open>Payment contacts\<close>

definition profile_of :: "db \<Rightarrow> nat \<Rightarrow> (nat \<times> payment_profile) option" where
  "profile_of d cleaner = (case tbl_where (\<lambda>_ p. pp_cleaner p = cleaner) (payment_profiles d) of [] \<Rightarrow> None | x # _ \<Rightarrow> Some x)"

definition profile_text :: "db \<Rightarrow> nat \<Rightarrow> (payment_profile \<Rightarrow> string) \<Rightarrow> string" where
  "profile_text d cleaner f = (case profile_of d cleaner of None \<Rightarrow> [] | Some p \<Rightarrow> f (snd p))"

definition decided :: "env \<Rightarrow> db \<Rightarrow> user \<Rightarrow> string \<Rightarrow> string \<Rightarrow> string \<Rightarrow> remuneration_line \<Rightarrow> remuneration_line" where
  "decided e d actor phone account holder l =
     l\<lparr>ml_previous_phone := profile_text d (ml_cleaner l) pp_yas_zantel_phone,
       ml_previous_account := profile_text d (ml_cleaner l) pp_pbz_account_number,
       ml_previous_holder_name := profile_text d (ml_cleaner l) pp_account_holder_name,
       ml_proposed_phone := strip phone, ml_proposed_account := strip account, ml_proposed_holder_name := strip holder,
       ml_phone_change_status := PC_PENDING, ml_account_change_status := PC_PENDING,
       ml_payment_saved_by := Some (u_pk actor), ml_payment_saved_at := Some (now e)\<rparr>"

definition save_payment_contact_decision ::
  "env \<Rightarrow> nat \<times> remuneration_report \<Rightarrow> nat \<times> remuneration_line \<Rightarrow> user \<Rightarrow> string \<Rightarrow> string \<Rightarrow> string \<Rightarrow> db \<Rightarrow> db res" where
  "save_payment_contact_decision e x y actor phone account holder d = supervisor_scope e d actor (mr_site (snd x))
     (let j = fst y; l = decided e d actor phone account holder (snd y)
      in if mr_prepared_by (snd x) \<noteq> u_pk actor \<or> \<not> form_editable (snd x) then Inl PermissionDenied
         else if ml_report (snd y) \<noteq> fst x then Inl (ValidationError [])
         else if \<not> line_clean d j l then Inl FullClean
         else Inr (record_audit A_UPDATE (Some (u_pk actor)) ''site_management.monthlyremunerationline'' j
           (Some (SnapRemunerationLine (snd y))) (Some (SnapRemunerationLine l))
           (d\<lparr>remuneration_lines := tbl_put j l (remuneration_lines d)\<rparr>)))"

section \<open>Submission and review\<close>

definition cleaner_text :: "db \<Rightarrow> nat \<Rightarrow> (cleaner \<Rightarrow> string) \<Rightarrow> string" where
  "cleaner_text d k f = (case tbl_get (cleaners d) k of None \<Rightarrow> [] | Some c \<Rightarrow> f c)"

text \<open>\<open>report.lines\<close> in the default order, by the names of the cleaners.\<close>

definition ordered_lines :: "db \<Rightarrow> nat \<Rightarrow> (nat \<times> remuneration_line) list" where
  "ordered_lines d report = sort_key (\<lambda>y. cleaner_text d (ml_cleaner (snd y)) cl_last_name)
     (sort_key (\<lambda>y. cleaner_text d (ml_cleaner (snd y)) cl_first_name) (lines_of d report))"

definition snapshot_line :: "db \<Rightarrow> remuneration_line \<Rightarrow> remuneration_snapshot_line" where
  "snapshot_line d l = \<lparr>rs_cleaner_name = cleaner_text d (ml_cleaner l) full_name, rs_present_days = ml_present_days l,
     rs_absent_days = ml_absent_days l, rs_start_work_date = ml_start_work_date l,
     rs_phone_change_recorded = (ml_proposed_phone l \<noteq> []), rs_account_change_recorded = (ml_proposed_account l \<noteq> []),
     rs_holder_name_recorded = (ml_proposed_holder_name l \<noteq> [])\<rparr>"

definition form_snapshot :: "db \<Rightarrow> user \<Rightarrow> nat \<times> remuneration_report \<Rightarrow> remuneration_snapshot" where
  "form_snapshot d actor x = \<lparr>rm_site_name = (case tbl_get (sites d) (mr_site (snd x)) of None \<Rightarrow> [] | Some s \<Rightarrow> si_name s),
     rm_period = mr_period (snd x), rm_prepared_by = user_full_name d (u_pk actor),
     rm_lines = map (snapshot_line d \<circ> snd) (ordered_lines d (fst x))\<rparr>"

definition submit_monthly_remuneration :: "env \<Rightarrow> nat \<times> remuneration_report \<Rightarrow> user \<Rightarrow> db \<Rightarrow> db res" where
  "submit_monthly_remuneration e x actor d = supervisor_scope e d actor (mr_site (snd x))
     (let k = fst x;
          r = (snd x)\<lparr>mr_status := CK_SUBMITTED, mr_submitted_at := Some (now e), mr_return_reason := [],
                      mr_snapshot := Some (form_snapshot d actor x), mr_updated_by := Some (u_pk actor)\<rparr>
      in if mr_prepared_by (snd x) \<noteq> u_pk actor \<or> \<not> form_editable (snd x) then Inl PermissionDenied
         else if \<not> form_clean d k r then Inl FullClean
         else Inr (audit_form A_STATUS_CHANGE actor k (Some (snd x)) r (d\<lparr>remuneration_reports := tbl_put k r (remuneration_reports d)\<rparr>)))"

definition new_profile_row :: "nat \<Rightarrow> user \<Rightarrow> payment_profile" where
  "new_profile_row cleaner actor = \<lparr>pp_cleaner = cleaner, pp_yas_zantel_phone = [], pp_pbz_account_number = [],
     pp_account_holder_name = [], pp_approved_at = None, pp_approved_by = None, pp_created_by = Some (u_pk actor),
     pp_updated_by = Some (u_pk actor)\<rparr>"

definition proposes_change :: "remuneration_line \<Rightarrow> bool" where
  "proposes_change l \<longleftrightarrow> ml_proposed_phone l \<noteq> [] \<or> ml_proposed_account l \<noteq> [] \<or> ml_proposed_holder_name l \<noteq> []"

definition chosen :: "string \<Rightarrow> string \<Rightarrow> string" where
  "chosen proposed old = (if proposed = [] then old else proposed)"

definition approved_profile :: "env \<Rightarrow> user \<Rightarrow> remuneration_line \<Rightarrow> payment_profile \<Rightarrow> payment_profile" where
  "approved_profile e actor l p = p\<lparr>pp_yas_zantel_phone := chosen (ml_proposed_phone l) (pp_yas_zantel_phone p),
     pp_pbz_account_number := chosen (ml_proposed_account l) (pp_pbz_account_number p),
     pp_account_holder_name := chosen (ml_proposed_holder_name l) (pp_account_holder_name p),
     pp_approved_at := Some (now e), pp_approved_by := Some (u_pk actor), pp_updated_by := Some (u_pk actor)\<rparr>"

definition approved_line :: "remuneration_line \<Rightarrow> remuneration_line" where
  "approved_line l =
     l\<lparr>ml_phone_change_status := (if ml_proposed_phone l \<noteq> [] then PC_APPROVED else ml_phone_change_status l),
       ml_account_change_status := (if ml_proposed_account l \<noteq> [] then PC_APPROVED else ml_account_change_status l)\<rparr>"

text \<open>The body of the loop over the lines of a reviewed form; the profile is created whether the line proposes anything or not.\<close>

definition approve_line :: "env \<Rightarrow> user \<Rightarrow> nat \<times> remuneration_line \<Rightarrow> db \<Rightarrow> db res" where
  "approve_line e actor y d =
     (let l = snd y;
          ((k, p), t) = get_or_create (\<lambda>p. pp_cleaner p = ml_cleaner l) (new_profile_row (ml_cleaner l) actor) (payment_profiles d);
          q = approved_profile e actor l p
      in if \<not> proposes_change l then Inr (d\<lparr>payment_profiles := t\<rparr>)
         else if \<not> profile_clean q then Inl FullClean
         else Inr (record_audit A_UPDATE (Some (u_pk actor)) ''site_management.cleanerpaymentprofile'' k None (Some (SnapPaymentProfile q))
           (d\<lparr>payment_profiles := tbl_put k q t, remuneration_lines := tbl_put (fst y) (approved_line l) (remuneration_lines d)\<rparr>)))"

definition reviewed_form :: "env \<Rightarrow> user \<Rightarrow> review_status \<Rightarrow> string \<Rightarrow> remuneration_report \<Rightarrow> remuneration_report" where
  "reviewed_form e actor action reason r =
     r\<lparr>mr_status := action, mr_reviewed_by := Some (u_pk actor), mr_reviewed_at := Some (now e),
       mr_return_reason := (if action = CK_RETURNED then strip reason else []), mr_updated_by := Some (u_pk actor)\<rparr>"

definition review_monthly_remuneration ::
  "env \<Rightarrow> nat \<times> remuneration_report \<Rightarrow> user \<Rightarrow> review_status \<Rightarrow> string \<Rightarrow> db \<Rightarrow> db res" where
  "review_monthly_remuneration e x actor action reason d =
     (let k = fst x; r = reviewed_form e actor action reason (snd x)
      in if u_role actor \<notin> {HR, SYSTEM_ADMIN} then Inl PermissionDenied
         else if mr_status (snd x) \<noteq> CK_SUBMITTED then Inl (ValidationError [])
         else if action = CK_RETURNED \<and> strip reason = [] then Inl (ValidationError [])
         else if action \<notin> {CK_REVIEWED, CK_RETURNED} then Inl (ValidationError [])
         else rbind (if action = CK_REVIEWED then foldM (approve_line e actor) (ordered_lines d k) d else Inr d) (\<lambda>d1.
           Inr (audit_form A_STATUS_CHANGE actor k (Some (snd x)) r
             (d1\<lparr>remuneration_reports := tbl_put k r (remuneration_reports d1)\<rparr>))))"

section \<open>Views\<close>

text \<open>\<open>_masked\<close>: bullets (three bytes of UTF-8 each) and the last three characters.\<close>

definition bullet :: string where
  "bullet = map char_of [226 :: nat, 128, 162]"

definition masked :: "string \<Rightarrow> string" where
  "masked s = (let raw = strip s in
     if raw = [] then [] else if length raw \<le> 3 then concat (replicate (length raw) bullet)
     else concat (replicate (max 4 (length raw - 3)) bullet) @ drop (length raw - 3) raw)"

record line_view =
  lv_id :: nat
  lv_cleaner_id :: nat
  lv_cleaner_name :: string
  lv_present_days :: nat
  lv_absent_days :: nat
  lv_start_work_date :: "date option"
  lv_last_phone_masked :: string
  lv_last_account_masked :: string
  lv_last_holder_name :: string
  lv_proposed_phone :: string
  lv_proposed_account :: string
  lv_proposed_holder_name :: string
  lv_phone_change_status :: payment_change_status
  lv_account_change_status :: payment_change_status

definition remuneration_line_view :: "db \<Rightarrow> nat \<times> remuneration_line \<Rightarrow> line_view" where
  "remuneration_line_view d y = (let l = snd y; c = ml_cleaner l in
     \<lparr>lv_id = fst y, lv_cleaner_id = c, lv_cleaner_name = cleaner_text d c full_name, lv_present_days = ml_present_days l,
      lv_absent_days = ml_absent_days l, lv_start_work_date = ml_start_work_date l,
      lv_last_phone_masked = masked (profile_text d c pp_yas_zantel_phone),
      lv_last_account_masked = masked (profile_text d c pp_pbz_account_number),
      lv_last_holder_name = profile_text d c pp_account_holder_name, lv_proposed_phone = ml_proposed_phone l,
      lv_proposed_account = ml_proposed_account l, lv_proposed_holder_name = ml_proposed_holder_name l,
      lv_phone_change_status = ml_phone_change_status l, lv_account_change_status = ml_account_change_status l\<rparr>)"

text \<open>A row of the registers of all sites; \<open>None\<close> stands for \<open>"not_recorded"\<close> and \<open>"not_prepared"\<close>.\<close>

record register_row =
  gx_site_id :: nat
  gx_site_name :: string
  gx_cleaner_id :: nat
  gx_cleaner_name :: string
  gx_present_days :: nat
  gx_absent_days :: nat
  gx_start_work_date :: "date option"
  gx_previous_holder_name :: string
  gx_new_holder_name :: string
  gx_phone_change_status :: "payment_change_status option"
  gx_account_change_status :: "payment_change_status option"
  gx_payment_saved_by :: string
  gx_payment_saved_at :: "nat option"
  gx_form_status :: "review_status option"
  gx_form_prepared_by :: string
  gx_form_submitted_at :: "nat option"
  gx_form_reviewed_by :: string
  gx_form_reviewed_at :: "nat option"

text \<open>The four columns the administrator sees in addition.\<close>

record admin_row = register_row +
  gx_previous_phone :: string
  gx_previous_account :: string
  gx_new_phone :: string
  gx_new_account :: string

definition form_of :: "db \<Rightarrow> nat \<Rightarrow> date \<Rightarrow> (nat \<times> remuneration_report) option" where
  "form_of d site period = (case tbl_where (\<lambda>_ r. mr_site r = site \<and> mr_period r = period) (remuneration_reports d) of
     [] \<Rightarrow> None | x # _ \<Rightarrow> Some x)"

definition line_of :: "db \<Rightarrow> nat \<Rightarrow> nat \<Rightarrow> date \<Rightarrow> remuneration_line option" where
  "line_of d site cleaner period = (case form_of d site period of None \<Rightarrow> None
     | Some x \<Rightarrow> map_option snd (find (\<lambda>y. ml_cleaner (snd y) = cleaner) (lines_of d (fst x))))"

definition user_name :: "db \<Rightarrow> nat option \<Rightarrow> string" where
  "user_name d k = (case k of None \<Rightarrow> [] | Some u \<Rightarrow> user_full_name d u)"

definition from_line :: "remuneration_line option \<Rightarrow> (remuneration_line \<Rightarrow> 'a) \<Rightarrow> 'a \<Rightarrow> 'a" where
  "from_line l f fallback = (case l of None \<Rightarrow> fallback | Some x \<Rightarrow> f x)"

definition from_form :: "(nat \<times> remuneration_report) option \<Rightarrow> (remuneration_report \<Rightarrow> 'a) \<Rightarrow> 'a \<Rightarrow> 'a" where
  "from_form r f fallback = (case r of None \<Rightarrow> fallback | Some x \<Rightarrow> f (snd x))"

definition month_register :: "db \<Rightarrow> date \<Rightarrow> (nat \<times> cleaner_site_assignment) list" where
  "month_register d period = tbl_where (\<lambda>_ a. assignment_in_month period a) (cleaner_assignments d)"

text \<open>What a line recorded as the old value, or the profile's value where it recorded none.\<close>

definition previous_value :: "db \<Rightarrow> remuneration_line option \<Rightarrow> nat \<Rightarrow> (remuneration_line \<Rightarrow> string) \<Rightarrow> (payment_profile \<Rightarrow> string) \<Rightarrow> string" where
  "previous_value d l cleaner f g = chosen (from_line l f []) (profile_text d cleaner g)"

definition register_row_of :: "db \<Rightarrow> date \<Rightarrow> nat \<times> cleaner_site_assignment \<Rightarrow> register_row" where
  "register_row_of d period x =
     (let a = snd x; site = csa_site a; c = csa_cleaner a; l = line_of d site c period; r = form_of d site period;
          counts = monthly_counts d site c period
      in \<lparr>gx_site_id = site, gx_site_name = (case tbl_get (sites d) site of None \<Rightarrow> [] | Some s \<Rightarrow> si_name s), gx_cleaner_id = c,
          gx_cleaner_name = cleaner_text d c full_name, gx_present_days = from_line l ml_present_days (fst counts),
          gx_absent_days = from_line l ml_absent_days (snd counts),
          gx_start_work_date = from_line l ml_start_work_date (start_in_month period a),
          gx_previous_holder_name = previous_value d l c ml_previous_holder_name pp_account_holder_name,
          gx_new_holder_name = from_line l ml_proposed_holder_name [],
          gx_phone_change_status = from_line l (Some \<circ> ml_phone_change_status) None,
          gx_account_change_status = from_line l (Some \<circ> ml_account_change_status) None,
          gx_payment_saved_by = from_line l (user_name d \<circ> ml_payment_saved_by) [],
          gx_payment_saved_at = from_line l ml_payment_saved_at None, gx_form_status = from_form r (Some \<circ> mr_status) None,
          gx_form_prepared_by = from_form r (user_full_name d \<circ> mr_prepared_by) [],
          gx_form_submitted_at = from_form r mr_submitted_at None, gx_form_reviewed_by = from_form r (user_name d \<circ> mr_reviewed_by) [],
          gx_form_reviewed_at = from_form r mr_reviewed_at None\<rparr>)"

definition admin_row_of :: "db \<Rightarrow> date \<Rightarrow> nat \<times> cleaner_site_assignment \<Rightarrow> admin_row" where
  "admin_row_of d period x =
     (let c = csa_cleaner (snd x); l = line_of d (csa_site (snd x)) c period
      in register_row.extend (register_row_of d period x)
           (admin_row.fields (previous_value d l c ml_previous_phone pp_yas_zantel_phone)
             (previous_value d l c ml_previous_account pp_pbz_account_number)
             (from_line l ml_proposed_phone []) (from_line l ml_proposed_account [])))"

definition administrator_monthly_remuneration_rows :: "user \<Rightarrow> date \<Rightarrow> db \<Rightarrow> admin_row list res" where
  "administrator_monthly_remuneration_rows actor period d =
     permit (is_system_admin actor) (Inr (map (admin_row_of d period) (month_register d period)))"

definition leadership_monthly_remuneration_rows :: "user \<Rightarrow> date \<Rightarrow> db \<Rightarrow> register_row list res" where
  "leadership_monthly_remuneration_rows actor period d =
     permit (is_system_admin actor \<or> u_role actor \<in> {HR, GENERAL_SUPERVISOR, ASSISTANT_GENERAL_SUPERVISOR})
       (Inr (map (register_row_of d period) (month_register d period)))"

section \<open>Endpoints\<close>

definition remuneration_prepare :: "env \<Rightarrow> user \<Rightarrow> nat \<Rightarrow> date \<Rightarrow> db \<Rightarrow> (nat \<times> db) res" where
  "remuneration_prepare e u site period d = load_site_or_404 d site (prepare_monthly_remuneration e u site period d)"

definition remuneration_detail :: "env \<Rightarrow> user \<Rightarrow> nat \<Rightarrow> date \<Rightarrow> db \<Rightarrow> (nat \<times> line_view list) res" where
  "remuneration_detail e u site period d = permit (site_in_user_scope e d u (Some site)) (found (form_of d site period) (\<lambda>x.
     permit (\<not> (u_role u = SITE_SUPERVISOR \<and> mr_prepared_by (snd x) \<noteq> u_pk u))
       (Inr (fst x, map (remuneration_line_view d) (ordered_lines d (fst x))))))"

definition remuneration_payment_decision :: "env \<Rightarrow> user \<Rightarrow> nat \<Rightarrow> nat \<Rightarrow> string \<Rightarrow> string \<Rightarrow> string \<Rightarrow> db \<Rightarrow> db res" where
  "remuneration_payment_decision e u k j phone account holder d = load_or_404 (remuneration_reports d) k (\<lambda>x.
     load_or_404 (remuneration_lines d) j (\<lambda>y. if ml_report (snd y) \<noteq> k then Inl Http404
       else save_payment_contact_decision e x y u phone account holder d))"

definition remuneration_submit :: "env \<Rightarrow> user \<Rightarrow> nat \<Rightarrow> db \<Rightarrow> db res" where
  "remuneration_submit e u k d = load_or_404 (remuneration_reports d) k (\<lambda>x. submit_monthly_remuneration e x u d)"

definition remuneration_review :: "env \<Rightarrow> user \<Rightarrow> nat \<Rightarrow> review_status \<Rightarrow> string \<Rightarrow> db \<Rightarrow> db res" where
  "remuneration_review e u k action reason d =
     load_or_404 (remuneration_reports d) k (\<lambda>x. review_monthly_remuneration e x u action reason d)"

datatype remuneration_call =
    PrepareForm nat date
  | SaveDecision nat nat string string string
  | SubmitForm nat
  | ReviewForm nat review_status string

fun remuneration_step :: "db \<Rightarrow> (env \<times> user) \<times> remuneration_call \<Rightarrow> db res" where
  "remuneration_step d ((e, u), PrepareForm site period) = rbind (remuneration_prepare e u site period d) (\<lambda>x. Inr (snd x))"
| "remuneration_step d ((e, u), SaveDecision k j phone account holder) = remuneration_payment_decision e u k j phone account holder d"
| "remuneration_step d ((e, u), SubmitForm k) = remuneration_submit e u k d"
| "remuneration_step d ((e, u), ReviewForm k action reason) = remuneration_review e u k action reason d"

section \<open>What every call keeps\<close>

definition form_key :: "remuneration_report \<Rightarrow> nat \<times> date" where
  "form_key r = (mr_site r, mr_period r)"

definition line_key :: "remuneration_line \<Rightarrow> nat \<times> nat" where
  "line_key l = (ml_report l, ml_cleaner l)"

definition starts_month :: "remuneration_report \<Rightarrow> bool" where
  "starts_month r \<longleftrightarrow> date_day (mr_period r) = 1"

abbreviation any_row :: "'r \<Rightarrow> bool" where
  "any_row \<equiv> \<lambda>_. True"

definition remuneration_inv :: "db \<Rightarrow> bool" where
  "remuneration_inv d \<longleftrightarrow> table_ok starts_month form_key (remuneration_reports d) \<and>
     table_ok any_row line_key (remuneration_lines d) \<and> table_ok any_row pp_cleaner (payment_profiles d)"

lemma remuneration_invD:
  assumes "remuneration_inv d"
  shows "table_ok starts_month form_key (remuneration_reports d)" and "table_ok any_row line_key (remuneration_lines d)"
    and "table_ok any_row pp_cleaner (payment_profiles d)"
  using assms by (simp_all add: remuneration_inv_def)

lemma audit_form_frame [simp]:
  "remuneration_reports (audit_form a u k b r d) = remuneration_reports d"
  "remuneration_lines (audit_form a u k b r d) = remuneration_lines d"
  "payment_profiles (audit_form a u k b r d) = payment_profiles d" "attendance (audit_form a u k b r d) = attendance d"
  by (simp_all add: audit_form_def)

lemma line_key_updates [simp]:
  "line_key (recounted a n w l) = line_key l" "line_key (decided e d u x y z l) = line_key l" "line_key (approved_line l) = line_key l"
  by (simp_all add: line_key_def recounted_def decided_def approved_line_def)

lemma table_ok_any_put: "table_ok any_row key t \<Longrightarrow> tbl_get t k = Some r \<Longrightarrow> key s = key r \<Longrightarrow> table_ok any_row key (tbl_put k s t)"
  by (rule table_ok_put) auto

lemma lines_of_mem:
  assumes "tbl_wf (remuneration_lines d)"
  shows "(j, l) \<in> set (lines_of d k) \<longleftrightarrow> tbl_get (remuneration_lines d) j = Some l \<and> ml_report l = k"
  using tbl_get_mem [OF assms] by (simp add: lines_of_def)

lemma ordered_lines_set [simp]: "set (ordered_lines d k) = set (lines_of d k)"
  by (simp add: ordered_lines_def)

lemma ordered_lines_distinct:
  assumes ok: "table_ok any_row line_key (remuneration_lines d)"
  shows "distinct (map (ml_cleaner \<circ> snd) (ordered_lines d k))"
proof -
  note wf = table_okD(1) [OF ok]
  have "distinct (map fst (lines_of d k))" using wf by (auto simp: tbl_wf_def lines_of_def tbl_where_def intro: distinct_map_filter)
  then have "distinct (lines_of d k)" by (simp add: distinct_map)
  moreover have "inj_on (ml_cleaner \<circ> snd) (set (lines_of d k))"
  proof (rule inj_onI)
    fix x y
    assume x: "x \<in> set (lines_of d k)" and y: "y \<in> set (lines_of d k)" and eq: "(ml_cleaner \<circ> snd) x = (ml_cleaner \<circ> snd) y"
    have gx: "tbl_get (remuneration_lines d) (fst x) = Some (snd x)" "ml_report (snd x) = k"
      and gy: "tbl_get (remuneration_lines d) (fst y) = Some (snd y)" "ml_report (snd y) = k"
      using x y lines_of_mem [OF wf, of "fst x" "snd x" k] lines_of_mem [OF wf, of "fst y" "snd y" k] by simp_all
    have "fst x = fst y" using tbl_uniqueD [OF table_okD(2) [OF ok] gx(1) gy(1)] gx(2) gy(2) eq by (simp add: line_key_def)
    with gx gy show "x = y" by (simp add: prod_eq_iff)
  qed
  ultimately show ?thesis by (simp add: distinct_map ordered_lines_def)
qed

text \<open>The loop that brings the lines up to date.\<close>

lemma refresh_line_cases:
  assumes ok: "table_ok any_row line_key (remuneration_lines d)" and run: "refresh_line x a d = Inr d'"
  obtains (new) "\<not> tbl_exists (\<lambda>_ l. line_key l = (fst x, csa_cleaner (snd a))) (remuneration_lines d)"
      and "d' = d\<lparr>remuneration_lines := tbl_insert (new_line (fst x) a
        (monthly_counts d (mr_site (snd x)) (csa_cleaner (snd a)) (mr_period (snd x))) (start_in_month (mr_period (snd x)) (snd a)))
        (remuneration_lines d)\<rparr>"
    | (old) j l where "tbl_get (remuneration_lines d) j = Some l" and "line_key l = (fst x, csa_cleaner (snd a))"
      and "d' = (if form_editable (snd x) then d\<lparr>remuneration_lines := tbl_put j (recounted a
        (monthly_counts d (mr_site (snd x)) (csa_cleaner (snd a)) (mr_period (snd x))) (start_in_month (mr_period (snd x)) (snd a)) l)
        (remuneration_lines d)\<rparr> else d)"
proof (cases "filter (\<lambda>y. ml_cleaner (snd y) = csa_cleaner (snd a)) (lines_of d (fst x))")
  case Nil
  have "\<not> tbl_exists (\<lambda>_ l. line_key l = (fst x, csa_cleaner (snd a))) (remuneration_lines d)"
  proof
    assume "tbl_exists (\<lambda>_ l. line_key l = (fst x, csa_cleaner (snd a))) (remuneration_lines d)"
    then obtain k l where "(k, l) \<in> set (tbl_rows (remuneration_lines d))" "line_key l = (fst x, csa_cleaner (snd a))"
      by (auto simp: tbl_exists_iff)
    then have "(k, l) \<in> set (filter (\<lambda>y. ml_cleaner (snd y) = csa_cleaner (snd a)) (lines_of d (fst x)))"
      by (simp add: lines_of_def line_key_def)
    with Nil show False by simp
  qed
  with Nil run new show thesis by (simp add: refresh_line_def Let_def)
next
  case (Cons y ys)
  obtain j l where y: "y = (j, l)" by fastforce
  have "y \<in> set (filter (\<lambda>y. ml_cleaner (snd y) = csa_cleaner (snd a)) (lines_of d (fst x)))" using Cons by simp
  then have row: "tbl_get (remuneration_lines d) j = Some l" "line_key l = (fst x, csa_cleaner (snd a))"
    using lines_of_mem [OF table_okD(1) [OF ok], of j l "fst x"] by (auto simp: y line_key_def)
  show thesis by (rule old [OF row]) (use run in \<open>simp add: refresh_line_def Let_def Cons y split: if_splits\<close>)
qed

definition lines_only :: "db \<Rightarrow> db \<Rightarrow> bool" where
  "lines_only d d' \<longleftrightarrow> remuneration_reports d' = remuneration_reports d \<and> payment_profiles d' = payment_profiles d \<and>
     attendance d' = attendance d \<and>
     (table_ok any_row line_key (remuneration_lines d) \<longrightarrow> table_ok any_row line_key (remuneration_lines d'))"

lemma refresh_line_only:
  assumes ok: "table_ok any_row line_key (remuneration_lines d)" and run: "refresh_line x a d = Inr d'"
  shows "lines_only d d'"
  using ok run
proof (cases rule: refresh_line_cases)
  case new
  have "table_ok any_row line_key (remuneration_lines d')" unfolding new(2) using new(1)
    by (auto simp: new_line_def line_key_def intro: table_ok_insert [OF ok])
  then show ?thesis by (simp add: lines_only_def new(2))
next
  case (old j l)
  then show ?thesis using ok by (auto simp: lines_only_def intro: table_ok_any_put)
qed

lemma refresh_only:
  "foldM (refresh_line x) as d = Inr d' \<Longrightarrow> table_ok any_row line_key (remuneration_lines d) \<Longrightarrow> lines_only d d'"
proof (induction as arbitrary: d)
  case Nil
  then show ?case by (simp add: lines_only_def)
next
  case (Cons a as)
  then obtain d1 where "refresh_line x a d = Inr d1" "foldM (refresh_line x) as d1 = Inr d'" by (auto simp: res_simps)
  with Cons.IH Cons.prems(2) refresh_line_only show ?case by (fastforce simp: lines_only_def)
qed

text \<open>The payment contact of a cleaner, and what a line makes of it.\<close>

definition payment_of :: "db \<Rightarrow> nat \<Rightarrow> string \<times> string \<times> string" where
  "payment_of d c = (profile_text d c pp_yas_zantel_phone, profile_text d c pp_pbz_account_number, profile_text d c pp_account_holder_name)"

definition proposed_payment :: "remuneration_line \<Rightarrow> string \<times> string \<times> string \<Rightarrow> string \<times> string \<times> string" where
  "proposed_payment l p = (chosen (ml_proposed_phone l) (fst p), chosen (ml_proposed_account l) (fst (snd p)),
     chosen (ml_proposed_holder_name l) (snd (snd p)))"

lemma payment_of_row:
  assumes ok: "table_ok any_row pp_cleaner (payment_profiles d)" and p: "tbl_get (payment_profiles d) k = Some p"
  shows "payment_of d (pp_cleaner p) = (pp_yas_zantel_phone p, pp_pbz_account_number p, pp_account_holder_name p)"
proof -
  note wf = table_okD(1) [OF ok]
  have "(k, p) \<in> set (tbl_where (\<lambda>_ q. pp_cleaner q = pp_cleaner p) (payment_profiles d))"
    using p tbl_get_mem [OF wf] by simp
  then obtain y ys where ys: "tbl_where (\<lambda>_ q. pp_cleaner q = pp_cleaner p) (payment_profiles d) = y # ys"
    by (cases "tbl_where (\<lambda>_ q. pp_cleaner q = pp_cleaner p) (payment_profiles d)") auto
  then have "y \<in> set (tbl_where (\<lambda>_ q. pp_cleaner q = pp_cleaner p) (payment_profiles d))" by simp
  then have "tbl_get (payment_profiles d) (fst y) = Some (snd y)" "pp_cleaner (snd y) = pp_cleaner p"
    using tbl_get_mem [OF wf, of "fst y" "snd y"] by (auto simp: tbl_where_def)
  with tbl_uniqueD [OF table_okD(2) [OF ok] _ p] p have "snd y = p" by fastforce
  with ys show ?thesis by (simp add: payment_of_def profile_text_def profile_of_def)
qed

lemma payment_of_none:
  assumes "\<not> tbl_exists (\<lambda>_ p. pp_cleaner p = c) (payment_profiles d)"
  shows "payment_of d c = ([], [], [])"
proof -
  have "tbl_where (\<lambda>_ p. pp_cleaner p = c) (payment_profiles d) = []"
    using assms by (auto simp: tbl_where_def filter_empty_conv tbl_exists_iff)
  then show ?thesis by (simp add: payment_of_def profile_text_def profile_of_def)
qed

text \<open>Two databases with the same rows for the others agree on them.\<close>

lemma payment_of_cong:
  assumes "table_ok any_row pp_cleaner (payment_profiles d)" and "table_ok any_row pp_cleaner (payment_profiles d')"
    and "\<And>k p. pp_cleaner p = c \<Longrightarrow> tbl_get (payment_profiles d') k = Some p \<longleftrightarrow> tbl_get (payment_profiles d) k = Some p"
  shows "payment_of d' c = payment_of d c"
proof (cases "tbl_exists (\<lambda>_ p. pp_cleaner p = c) (payment_profiles d)")
  case True
  then obtain k p where p: "tbl_get (payment_profiles d) k = Some p" "pp_cleaner p = c"
    using tbl_exists_get [OF table_okD(1) [OF assms(1)], of "\<lambda>_ p. pp_cleaner p = c"] by auto
  then have p': "tbl_get (payment_profiles d') k = Some p" using assms(3) by simp
  show ?thesis using payment_of_row [OF assms(1) p(1)] payment_of_row [OF assms(2) p'] p(2) by simp
next
  case False
  then have "\<not> tbl_exists (\<lambda>_ p. pp_cleaner p = c) (payment_profiles d')"
    using assms(3) tbl_exists_get [OF table_okD(1) [OF assms(1)], of "\<lambda>_ p. pp_cleaner p = c"]
      tbl_exists_get [OF table_okD(1) [OF assms(2)], of "\<lambda>_ p. pp_cleaner p = c"] by auto
  with False show ?thesis by (simp add: payment_of_none)
qed

definition approving :: "db \<Rightarrow> db \<Rightarrow> bool" where
  "approving d d' \<longleftrightarrow> remuneration_inv d' \<and> remuneration_reports d' = remuneration_reports d"

lemma approve_line_payment:
  assumes inv: "remuneration_inv d" and l: "\<exists>l0. tbl_get (remuneration_lines d) j = Some l0 \<and> line_key l0 = line_key l"
    and run: "approve_line e u (j, l) d = Inr d'"
  shows "approving d d' \<and> payment_of d' (ml_cleaner l) = proposed_payment l (payment_of d (ml_cleaner l)) \<and>
    (\<forall>c. c \<noteq> ml_cleaner l \<longrightarrow> payment_of d' c = payment_of d c) \<and>
    (\<forall>i. map_option line_key (tbl_get (remuneration_lines d') i) = map_option line_key (tbl_get (remuneration_lines d) i))"
proof -
  note ok = remuneration_invD [OF inv]
  note wf = table_okD(1) [OF ok(3)]
  obtain k p t where goc: "get_or_create (\<lambda>p. pp_cleaner p = ml_cleaner l) (new_profile_row (ml_cleaner l) u) (payment_profiles d) = ((k, p), t)"
    by (metis prod.exhaust)
  let ?q = "approved_profile e u l p"
  note made = get_or_create_result [OF goc wf]
  have owner: "pp_cleaner p = ml_cleaner l" using made by (auto simp: new_profile_row_def)
  have t: "table_ok any_row pp_cleaner t" "tbl_get t k = Some p"
    using made ok(3) by (auto simp: tbl_get_insert [OF wf] new_profile_row_def intro: table_ok_insert)
  have others: "tbl_get t i = Some r \<longleftrightarrow> tbl_get (payment_profiles d) i = Some r" if "pp_cleaner r \<noteq> ml_cleaner l" for i r
    using made that tbl_get_fresh [OF wf] by (auto simp: tbl_get_insert [OF wf] new_profile_row_def split: if_splits)
  have old: "payment_of d (ml_cleaner l) = (pp_yas_zantel_phone p, pp_pbz_account_number p, pp_account_holder_name p)"
    using made payment_of_row [OF ok(3), of k p] payment_of_none [of "ml_cleaner l" d] owner
    by (auto simp: new_profile_row_def)
  have q: "pp_cleaner ?q = pp_cleaner p" by (simp add: approved_profile_def)
  show ?thesis
  proof (cases "proposes_change l")
    case False
    then have d': "d' = d\<lparr>payment_profiles := t\<rparr>" using run by (simp add: approve_line_def goc)
    have "payment_of d' (ml_cleaner l) = (pp_yas_zantel_phone p, pp_pbz_account_number p, pp_account_holder_name p)"
      using payment_of_row [of d' k p] t owner by (simp add: d')
    moreover have "payment_of d' c = payment_of d c" if "c \<noteq> ml_cleaner l" for c
      by (rule payment_of_cong) (use ok(3) t(1) others that in \<open>auto simp: d'\<close>)
    ultimately show ?thesis using False ok t(1) old
      by (auto simp: approving_def remuneration_inv_def d' proposed_payment_def proposes_change_def chosen_def)
  next
    case True
    then have d': "payment_profiles d' = tbl_put k ?q t" "remuneration_lines d' = tbl_put j (approved_line l) (remuneration_lines d)"
      "remuneration_reports d' = remuneration_reports d"
      using run by (auto simp: approve_line_def goc Let_def split: if_splits)
    have tq: "table_ok any_row pp_cleaner (tbl_put k ?q t)" by (rule table_ok_any_put [OF t q])
    have "payment_of d' (ml_cleaner l) = (pp_yas_zantel_phone ?q, pp_pbz_account_number ?q, pp_account_holder_name ?q)"
      using payment_of_row [of d' k ?q] tq owner q t(2) by (simp add: d'(1) tbl_get_put)
    moreover have "payment_of d' c = payment_of d c" if "c \<noteq> ml_cleaner l" for c
    proof (rule payment_of_cong)
      show "tbl_get (payment_profiles d') i = Some r \<longleftrightarrow> tbl_get (payment_profiles d) i = Some r" if "pp_cleaner r = c" for i r
        using others [of r i] \<open>pp_cleaner r = c\<close> \<open>c \<noteq> ml_cleaner l\<close> owner q t(2) by (auto simp: d'(1) tbl_get_put)
    qed (use ok(3) tq in \<open>simp_all add: d'(1)\<close>)
    moreover have "table_ok any_row line_key (remuneration_lines d')"
      unfolding d'(2) using l by (auto intro: table_ok_any_put [OF ok(2)])
    ultimately show ?thesis using l ok tq old
      by (auto simp: approving_def remuneration_inv_def d' proposed_payment_def approved_profile_def tbl_get_put)
  qed
qed

text \<open>The loop over the lines of a form, which are of different cleaners.\<close>

lemma approve_lines_payment:
  "foldM (approve_line e u) ys d = Inr d' \<Longrightarrow> remuneration_inv d \<Longrightarrow> distinct (map (ml_cleaner \<circ> snd) ys) \<Longrightarrow>
   (\<And>j l. (j, l) \<in> set ys \<Longrightarrow> \<exists>l0. tbl_get (remuneration_lines d) j = Some l0 \<and> line_key l0 = line_key l) \<Longrightarrow>
   approving d d' \<and> (\<forall>c. if c \<in> (ml_cleaner \<circ> snd) ` set ys
      then \<exists>j l. (j, l) \<in> set ys \<and> ml_cleaner l = c \<and> payment_of d' c = proposed_payment l (payment_of d c)
      else payment_of d' c = payment_of d c)"
proof (induction ys arbitrary: d)
  case Nil
  then show ?case by (simp add: approving_def)
next
  case (Cons y ys)
  obtain j l where y: "y = (j, l)" by fastforce
  obtain d1 where d1: "approve_line e u (j, l) d = Inr d1" and rest: "foldM (approve_line e u) ys d1 = Inr d'"
    using Cons.prems(1) by (auto simp: y res_simps)
  have "\<exists>l0. tbl_get (remuneration_lines d) j = Some l0 \<and> line_key l0 = line_key l" using Cons.prems(4) [of j l] by (simp add: y)
  note one = approve_line_payment [OF Cons.prems(2) this d1]
  have still: "\<exists>l0. tbl_get (remuneration_lines d1) i = Some l0 \<and> line_key l0 = line_key m" if "(i, m) \<in> set ys" for i m
  proof -
    obtain l0 where l0: "tbl_get (remuneration_lines d) i = Some l0" "line_key l0 = line_key m" using Cons.prems(4) [of i m] \<open>(i, m) \<in> set ys\<close> by auto
    have "map_option line_key (tbl_get (remuneration_lines d1) i) = Some (line_key l0)" using one l0(1) by simp
    with l0(2) show ?thesis by auto
  qed
  have ih: "approving d1 d' \<and> (\<forall>c. if c \<in> (ml_cleaner \<circ> snd) ` set ys
      then \<exists>j l. (j, l) \<in> set ys \<and> ml_cleaner l = c \<and> payment_of d' c = proposed_payment l (payment_of d1 c)
      else payment_of d' c = payment_of d1 c)"
    by (rule Cons.IH [OF rest]) (use one Cons.prems(3) still in \<open>auto simp: approving_def\<close>)
  have all: "if c \<in> (ml_cleaner \<circ> snd) ` set (y # ys)
      then \<exists>j l. (j, l) \<in> set (y # ys) \<and> ml_cleaner l = c \<and> payment_of d' c = proposed_payment l (payment_of d c)
      else payment_of d' c = payment_of d c" for c
  proof (cases "c = ml_cleaner l")
    case True
    then have "c \<notin> (ml_cleaner \<circ> snd) ` set ys" using Cons.prems(3) by (auto simp: y)
    with ih one True show ?thesis by (auto simp: y)
  next
    case False
    then have "payment_of d1 c = payment_of d c" using one by simp
    moreover have "if c \<in> (ml_cleaner \<circ> snd) ` set ys
      then \<exists>j l. (j, l) \<in> set ys \<and> ml_cleaner l = c \<and> payment_of d' c = proposed_payment l (payment_of d1 c)
      else payment_of d' c = payment_of d1 c" using ih by blast
    ultimately show ?thesis using False by (cases "c \<in> (ml_cleaner \<circ> snd) ` set ys") (auto simp: y)
  qed
  have "approving d d'" using ih one by (simp add: approving_def)
  with all show ?case by blast
qed

section \<open>Every call\<close>

lemma prepare_form_cases:
  assumes run: "prepare_monthly_remuneration e u site period d = Inr (k, d')"
  obtains r t d1 where "get_or_create (\<lambda>r. mr_site r = site \<and> mr_period r = period) (new_form site period u) (remuneration_reports d) = ((k, r), t)"
    and "refresh_report_lines (k, r) (d\<lparr>remuneration_reports := t\<rparr>) = Inr d1" and "mr_prepared_by r = u_pk u" and "date_day period = 1"
    and "remuneration_reports d' = remuneration_reports d1" and "remuneration_lines d' = remuneration_lines d1"
    and "payment_profiles d' = payment_profiles d1" and "attendance d' = attendance d1"
proof -
  obtain j r t where goc: "get_or_create (\<lambda>r. mr_site r = site \<and> mr_period r = period) (new_form site period u) (remuneration_reports d) = ((j, r), t)"
    by (metis prod.exhaust)
  have "j = k" using run by (auto simp: prepare_monthly_remuneration_def supervisor_scope_def goc Let_def res_simps split: if_splits)
  with run goc that show thesis
    by (auto simp: prepare_monthly_remuneration_def supervisor_scope_def Let_def res_simps split: if_splits)
qed

definition form_moves :: "remuneration_report \<Rightarrow> remuneration_report \<Rightarrow> bool" where
  "form_moves r s \<longleftrightarrow> form_key s = form_key r \<and> mr_prepared_by s = mr_prepared_by r \<and>
     (\<not> form_editable r \<longrightarrow> mr_snapshot s = mr_snapshot r \<and> mr_submitted_at s = mr_submitted_at r) \<and>
     (mr_status r = CK_REVIEWED \<longrightarrow> s = r)"

lemma prepare_form_effect:
  assumes inv: "remuneration_inv d" and run: "prepare_monthly_remuneration e u site period d = Inr (k, d')"
  shows "remuneration_inv d' \<and> payment_profiles d' = payment_profiles d \<and> attendance d' = attendance d \<and>
    (\<exists>r. tbl_get (remuneration_reports d') k = Some r \<and> form_key r = (site, period))"
proof -
  note ok = remuneration_invD [OF inv]
  obtain r t d1 where goc: "get_or_create (\<lambda>r. mr_site r = site \<and> mr_period r = period) (new_form site period u) (remuneration_reports d) = ((k, r), t)"
    and refresh: "refresh_report_lines (k, r) (d\<lparr>remuneration_reports := t\<rparr>) = Inr d1" and first: "date_day period = 1"
    and d': "remuneration_reports d' = remuneration_reports d1" "remuneration_lines d' = remuneration_lines d1"
      "payment_profiles d' = payment_profiles d1" "attendance d' = attendance d1"
    by (rule prepare_form_cases [OF run])
  note made = get_or_create_result [OF goc table_okD(1) [OF ok(1)]]
  have new: "starts_month (new_form site period u)" "form_key (new_form site period u) = (site, period)"
    using first by (simp_all add: starts_month_def form_key_def new_form_def)
  have "table_ok starts_month form_key t"
    using made ok(1) new by (auto intro!: table_ok_insert simp: form_key_def)
  moreover have "tbl_get t k = Some r" "form_key r = (site, period)"
    using made new(2) by (auto simp: tbl_get_insert [OF table_okD(1) [OF ok(1)]] form_key_def)
  moreover have "lines_only (d\<lparr>remuneration_reports := t\<rparr>) d1"
    using refresh_only refresh ok(2) by (fastforce simp: refresh_report_lines_def)
  ultimately show ?thesis using ok by (auto simp: remuneration_inv_def lines_only_def d')
qed

lemma saved_decision_effect:
  assumes inv: "remuneration_inv d" and l: "tbl_get (remuneration_lines d) j = Some l"
    and run: "save_payment_contact_decision e x (j, l) u phone account holder d = Inr d'"
  shows "remuneration_inv d' \<and> payment_profiles d' = payment_profiles d \<and> remuneration_reports d' = remuneration_reports d"
proof -
  have d': "remuneration_lines d' = tbl_put j (decided e d u phone account holder l) (remuneration_lines d)"
    "payment_profiles d' = payment_profiles d" "remuneration_reports d' = remuneration_reports d"
    using run by (auto simp: save_payment_contact_decision_def supervisor_scope_def Let_def res_simps)
  show ?thesis using inv table_ok_any_put [OF remuneration_invD(2) [OF inv] l, of "decided e d u phone account holder l"]
    by (simp add: remuneration_inv_def d')
qed

lemma put_form_inv:
  assumes "remuneration_inv d" and "tbl_get (remuneration_reports d) k = Some r" and "form_key s = form_key r"
    and "remuneration_reports d' = tbl_put k s (remuneration_reports d)" and "remuneration_lines d' = remuneration_lines d"
    and "payment_profiles d' = payment_profiles d"
  shows "remuneration_inv d'"
proof -
  note ok = remuneration_invD(1) [OF assms(1)]
  have "starts_month s" using table_okD(3) [OF ok assms(2)] assms(3) by (simp add: starts_month_def form_key_def)
  with table_ok_put [OF ok assms(2,3)] assms(1,4-6) show ?thesis by (simp add: remuneration_inv_def)
qed

lemma submit_form_effect:
  assumes inv: "remuneration_inv d" and r: "tbl_get (remuneration_reports d) k = Some r"
    and run: "submit_monthly_remuneration e (k, r) u d = Inr d'"
  shows "remuneration_inv d' \<and> payment_profiles d' = payment_profiles d"
proof -
  let ?r = "r\<lparr>mr_status := CK_SUBMITTED, mr_submitted_at := Some (now e), mr_return_reason := [],
    mr_snapshot := Some (form_snapshot d u (k, r)), mr_updated_by := Some (u_pk u)\<rparr>"
  have d': "remuneration_reports d' = tbl_put k ?r (remuneration_reports d)" "remuneration_lines d' = remuneration_lines d"
    "payment_profiles d' = payment_profiles d"
    using run by (auto simp: submit_monthly_remuneration_def supervisor_scope_def Let_def res_simps)
  have "form_key ?r = form_key r" by (simp add: form_key_def)
  from put_form_inv [OF inv r this d'] d'(3) show ?thesis by blast
qed

text \<open>A review: a returned form changes no contact; a reviewed one approves the lines it has.\<close>

lemma review_form_effect:
  assumes inv: "remuneration_inv d" and r: "tbl_get (remuneration_reports d) k = Some r"
    and run: "review_monthly_remuneration e (k, r) u action reason d = Inr d'"
  shows "remuneration_inv d' \<and> u_role u \<in> {HR, SYSTEM_ADMIN} \<and> mr_status r = CK_SUBMITTED \<and>
    (\<forall>c. payment_of d' c = payment_of d c \<or> action = CK_REVIEWED \<and> (\<exists>j l. tbl_get (remuneration_lines d) j = Some l \<and>
       line_key l = (k, c) \<and> payment_of d' c = proposed_payment l (payment_of d c)))"
proof -
  note ok = remuneration_invD [OF inv]
  obtain d1 where who: "u_role u \<in> {HR, SYSTEM_ADMIN}" "mr_status r = CK_SUBMITTED"
    and loop: "(if action = CK_REVIEWED then foldM (approve_line e u) (ordered_lines d k) d else Inr d) = Inr d1"
    and d': "remuneration_reports d' = tbl_put k (reviewed_form e u action reason r) (remuneration_reports d1)"
      "remuneration_lines d' = remuneration_lines d1" "payment_profiles d' = payment_profiles d1"
    using run by (auto simp: review_monthly_remuneration_def Let_def res_simps)
  have key: "form_key (reviewed_form e u action reason r) = form_key r" by (simp add: reviewed_form_def form_key_def)
  have pay: "payment_of d' c = payment_of d1 c" for c by (simp add: payment_of_def profile_text_def profile_of_def d'(3))
  show ?thesis
  proof (cases "action = CK_REVIEWED")
    case False
    with loop have "d1 = d" by simp
    then have "remuneration_inv d'" using put_form_inv [OF inv r key] d' by simp
    with \<open>d1 = d\<close> who pay show ?thesis by simp
  next
    case True
    with loop have fold: "foldM (approve_line e u) (ordered_lines d k) d = Inr d1" by simp
    note all = approve_lines_payment [OF fold inv ordered_lines_distinct [OF ok(2)]]
    have rows: "\<exists>l0. tbl_get (remuneration_lines d) j = Some l0 \<and> line_key l0 = line_key l" if "(j, l) \<in> set (ordered_lines d k)" for j l
      using that lines_of_mem [OF table_okD(1) [OF ok(2)]] by simp
    have inv1: "approving d d1" using all rows by blast
    then have "remuneration_inv d'" using put_form_inv [of d1, OF _ _ key] r d' by (simp add: approving_def)
    moreover have "payment_of d1 c = payment_of d c \<or> (\<exists>j l. tbl_get (remuneration_lines d) j = Some l \<and> line_key l = (k, c) \<and>
        payment_of d1 c = proposed_payment l (payment_of d c))" for c
    proof -
      have "if c \<in> (ml_cleaner \<circ> snd) ` set (ordered_lines d k)
        then \<exists>j l. (j, l) \<in> set (ordered_lines d k) \<and> ml_cleaner l = c \<and> payment_of d1 c = proposed_payment l (payment_of d c)
        else payment_of d1 c = payment_of d c" using all rows by blast
      then show ?thesis
        using lines_of_mem [OF table_okD(1) [OF ok(2)]]
        by (cases "c \<in> (ml_cleaner \<circ> snd) ` set (ordered_lines d k)") (auto simp: line_key_def)
    qed
    ultimately show ?thesis using who pay True by simp
  qed
qed

lemma remuneration_step_effect:
  assumes inv: "remuneration_inv d" and run: "remuneration_step d ((e, u), x) = Inr d'"
  shows "remuneration_inv d' \<and> (\<forall>c. payment_of d' c = payment_of d c \<or> (\<exists>k reason r j l. x = ReviewForm k CK_REVIEWED reason \<and>
     u_role u \<in> {HR, SYSTEM_ADMIN} \<and> tbl_get (remuneration_reports d) k = Some r \<and> mr_status r = CK_SUBMITTED \<and>
     tbl_get (remuneration_lines d) j = Some l \<and> line_key l = (k, c) \<and> payment_of d' c = proposed_payment l (payment_of d c)))"
proof -
  have same: "payment_profiles d' = payment_profiles d \<Longrightarrow> payment_of d' c = payment_of d c" for c
    by (simp add: payment_of_def profile_text_def profile_of_def)
  show ?thesis
  proof (cases x)
    case (PrepareForm site period)
    then obtain k where "prepare_monthly_remuneration e u site period d = Inr (k, d')"
      using run by (auto simp: remuneration_prepare_def res_simps)
    with prepare_form_effect [OF inv] same show ?thesis by blast
  next
    case (SaveDecision k j phone account holder)
    then obtain y l where "tbl_get (remuneration_lines d) j = Some l" "save_payment_contact_decision e y (j, l) u phone account holder d = Inr d'"
      using run by (auto simp: remuneration_payment_decision_def res_simps)
    with saved_decision_effect [OF inv] same show ?thesis by blast
  next
    case (SubmitForm k)
    then obtain r where "tbl_get (remuneration_reports d) k = Some r" "submit_monthly_remuneration e (k, r) u d = Inr d'"
      using run by (auto simp: remuneration_submit_def res_simps)
    with submit_form_effect [OF inv] same show ?thesis by blast
  next
    case (ReviewForm k action reason)
    then obtain r where r: "tbl_get (remuneration_reports d) k = Some r" "review_monthly_remuneration e (k, r) u action reason d = Inr d'"
      using run by (auto simp: remuneration_review_def res_simps)
    note eff = review_form_effect [OF inv r]
    have "payment_of d' c = payment_of d c \<or> (\<exists>j l. x = ReviewForm k CK_REVIEWED reason \<and> tbl_get (remuneration_lines d) j = Some l \<and>
      line_key l = (k, c) \<and> payment_of d' c = proposed_payment l (payment_of d c))" for c
      using eff ReviewForm by blast
    with eff r(1) show ?thesis by blast
  qed
qed

interpretation remuneration: safe_system remuneration_step remuneration_inv
proof
  show "remuneration_inv d'" if "remuneration_inv d" "remuneration_step d x = Inr d'" for d x d'
    using remuneration_step_effect [of d "fst (fst x)" "snd (fst x)" "snd x"] that by simp
qed

section \<open>Counts\<close>

definition counted :: "nat \<times> remuneration_report \<Rightarrow> db \<Rightarrow> nat \<Rightarrow> bool" where
  "counted x d c \<longleftrightarrow> (\<exists>j l. tbl_get (remuneration_lines d) j = Some l \<and> line_key l = (fst x, c) \<and>
     (ml_present_days l, ml_absent_days l) = monthly_counts d (mr_site (snd x)) c (mr_period (snd x)))"

lemma monthly_counts_cong: "attendance d' = attendance d \<Longrightarrow> monthly_counts d' s c p = monthly_counts d s c p"
  by (simp add: monthly_counts_def month_records_def)

lemma refresh_line_counts:
  assumes ok: "table_ok any_row line_key (remuneration_lines d)" and run: "refresh_line x a d = Inr d'" and "form_editable (snd x)"
  shows "counted x d' (csa_cleaner (snd a)) \<and> (counted x d c \<longrightarrow> counted x d' c)"
proof -
  have same: "attendance d' = attendance d" using refresh_line_only [OF ok run] by (simp add: lines_only_def)
  note mc = monthly_counts_cong [OF same]
  from ok run show ?thesis
  proof (cases rule: refresh_line_cases)
    case new
    have fresh: "tbl_get (remuneration_lines d') j = Some l" if "tbl_get (remuneration_lines d) j = Some l" for j l
      using that tbl_get_fresh [OF table_okD(1) [OF ok]] by (auto simp: new(2) tbl_get_insert [OF table_okD(1) [OF ok]])
    have "counted x d' (csa_cleaner (snd a))" unfolding counted_def mc
      by (rule exI [of _ "tbl_next (remuneration_lines d)"])
        (simp add: new(2) tbl_get_insert [OF table_okD(1) [OF ok]] new_line_def line_key_def)
    with fresh show ?thesis unfolding counted_def mc by blast
  next
    case (old j l)
    let ?l = "recounted a (monthly_counts d (mr_site (snd x)) (csa_cleaner (snd a)) (mr_period (snd x)))
      (start_in_month (mr_period (snd x)) (snd a)) l"
    have lines: "remuneration_lines d' = tbl_put j ?l (remuneration_lines d)" using old(3) assms(3) by simp
    have now: "tbl_get (remuneration_lines d') j = Some ?l" using old(1) by (simp add: lines tbl_get_put)
    have this_one: "counted x d' (csa_cleaner (snd a))" unfolding counted_def mc
      using now old(2) by (intro exI [of _ j] exI [of _ ?l]) (simp add: recounted_def line_key_def)
    have "counted x d' c" if before: "counted x d c"
    proof (cases "c = csa_cleaner (snd a)")
      case True
      with this_one show ?thesis by simp
    next
      case False
      from before obtain i m where m: "tbl_get (remuneration_lines d) i = Some m" "line_key m = (fst x, c)"
        "(ml_present_days m, ml_absent_days m) = monthly_counts d (mr_site (snd x)) c (mr_period (snd x))"
        unfolding counted_def by blast
      have "i \<noteq> j" using m(1,2) old(1,2) False by auto
      with m show ?thesis unfolding counted_def mc by (intro exI [of _ i] exI [of _ m]) (simp add: lines tbl_get_put)
    qed
    with this_one show ?thesis by blast
  qed
qed

lemma refresh_counts:
  assumes "foldM (refresh_line x) as d = Inr d'" and "table_ok any_row line_key (remuneration_lines d)" and "form_editable (snd x)"
  shows "(\<forall>a \<in> set as. counted x d' (csa_cleaner (snd a))) \<and> (counted x d c \<longrightarrow> counted x d' c)"
  using assms
proof (induction as arbitrary: d c)
  case Nil
  then show ?case by simp
next
  case (Cons a as)
  obtain d1 where one: "refresh_line x a d = Inr d1" and rest: "foldM (refresh_line x) as d1 = Inr d'"
    using Cons.prems(1) by (auto simp: res_simps)
  have ok1: "table_ok any_row line_key (remuneration_lines d1)"
    using refresh_line_only [OF Cons.prems(2) one] Cons.prems(2) by (simp add: lines_only_def)
  note ih = Cons.IH [OF rest ok1 Cons.prems(3)]
  note here = refresh_line_counts [OF Cons.prems(2) one Cons.prems(3)]
  have "counted x d' (csa_cleaner (snd a))" using ih [of "csa_cleaner (snd a)"] here by blast
  moreover have "counted x d c \<longrightarrow> counted x d' c" using ih [of c] here [of c] by blast
  ultimately show ?case using ih by simp
qed

section \<open>What the code does beside its documentation\<close>

text \<open>The loop adds the line of a cleaner who has none to any form of the site and month, submitted and reviewed ones too.\<close>

lemma sealed_form_grows:
  assumes "\<not> tbl_exists (\<lambda>_ l. line_key l = (fst x, csa_cleaner (snd a))) (remuneration_lines d)"
  shows "\<exists>d' l. refresh_line x a d = Inr d' \<and> remuneration_lines d' = tbl_insert l (remuneration_lines d) \<and> ml_report l = fst x"
proof -
  have "filter (\<lambda>y. ml_cleaner (snd y) = csa_cleaner (snd a)) (lines_of d (fst x)) = []"
    using assms by (fastforce simp: filter_empty_conv lines_of_def tbl_exists_iff line_key_def)
  then have "refresh_line x a d = Inr (d\<lparr>remuneration_lines := tbl_insert (new_line (fst x) a (monthly_counts d (mr_site (snd x))
      (csa_cleaner (snd a)) (mr_period (snd x))) (start_in_month (mr_period (snd x)) (snd a))) (remuneration_lines d)\<rparr>)"
    by (simp add: refresh_line_def Let_def)
  moreover have "ml_report (new_line k a n w) = k" for k n w by (simp add: new_line_def)
  ultimately show ?thesis by fastforce
qed

text \<open>\<open>present_days\<close> counts attendance records: two shifts on one day are two days.\<close>

lemma two_shifts_count_twice:
  assumes "tbl_wf (attendance d)" and "tbl_get (attendance d) i = Some r" and "tbl_get (attendance d) j = Some s" and "i \<noteq> j"
    and "ar_site r = site" "ar_site s = site" "ar_cleaner r = c" "ar_cleaner s = c" "ar_status r = AT_PRESENT" "ar_status s = AT_PRESENT"
    and "ar_attendance_date r = day" "ar_attendance_date s = day" "in_month period day"
  shows "2 \<le> fst (monthly_counts d site c period)"
proof -
  let ?rows = "month_records d site c period {AT_PRESENT, AT_LATE}"
  have "(i, r) \<in> set ?rows" "(j, s) \<in> set ?rows" using assms by (simp_all add: month_records_def tbl_get_mem)
  then have "card {(i, r), (j, s)} \<le> card (set ?rows)" by (intro card_mono) auto
  also have "\<dots> \<le> length ?rows" by (rule card_length)
  finally show ?thesis using assms(4) by (simp add: monthly_counts_def)
qed

text \<open>Only \<open>prepare\<close> looks at the window: a form that is open is submitted on any day.\<close>

lemma submission_ignores_the_window:
  "submit_monthly_remuneration (e\<lparr>localdate := day\<rparr>) x u d = submit_monthly_remuneration e x u d"
  if "site_in_user_scope (e\<lparr>localdate := day\<rparr>) d u (Some (mr_site (snd x))) = site_in_user_scope e d u (Some (mr_site (snd x)))"
  using that by (simp add: submit_monthly_remuneration_def supervisor_scope_def)

section \<open>Properties\<close>

text \<open>
  C6: A payment contact only changes through an approval. When a call changes the telephone number, the account or the holder recorded for a
  cleaner, then it is a review with the outcome "reviewed" by HR or a system administrator of a form that was submitted, the form
  has a line of that cleaner, and each of the three values is now the one the line proposes or, where it proposes none, the old one.
\<close>

theorem payment_contact_needs_approval:
  assumes "remuneration_inv d" and "remuneration_step d ((e, u), x) = Inr d'" and "payment_of d' c \<noteq> payment_of d c"
  shows "\<exists>k reason r j l. x = ReviewForm k CK_REVIEWED reason \<and> u_role u \<in> {HR, SYSTEM_ADMIN} \<and>
    tbl_get (remuneration_reports d) k = Some r \<and> mr_status r = CK_SUBMITTED \<and>
    tbl_get (remuneration_lines d) j = Some l \<and> line_key l = (k, c) \<and> payment_of d' c = proposed_payment l (payment_of d c)"
  using remuneration_step_effect [OF assms(1,2)] assms(3) by blast


section \<open>Witnesses\<close>

definition demo_payment_db :: db where
  "demo_payment_db = empty_db\<lparr>
     remuneration_reports := \<lparr>tbl_rows = [(1, (new_form 1 (Date 2025 6 1) (demo_supervisor 2))\<lparr>mr_status := CK_SUBMITTED, mr_submitted_at := Some 1\<rparr>)],
       tbl_next = 2\<rparr>,
     remuneration_lines := \<lparr>tbl_rows = [(1, \<lparr>ml_report = 1, ml_cleaner = 5, ml_assignment = 1, ml_present_days = 8, ml_absent_days = 0,
       ml_start_work_date = None, ml_previous_phone = ''0712345678'', ml_previous_account = [], ml_previous_holder_name = [],
       ml_proposed_phone = [], ml_proposed_account = ''0401'', ml_proposed_holder_name = ''Asha'', ml_phone_change_status = PC_PENDING,
       ml_account_change_status = PC_PENDING, ml_payment_saved_by = Some 2, ml_payment_saved_at = Some 1\<rparr>)], tbl_next = 2\<rparr>,
     payment_profiles := \<lparr>tbl_rows = [(1, (new_profile_row 5 (demo_supervisor 2))\<lparr>pp_yas_zantel_phone := ''0712345678''\<rparr>)], tbl_next = 2\<rparr>\<rparr>"

definition payment_reviewer :: user where
  "payment_reviewer = \<lparr>u_pk = 9, u_role = HR, u_is_superuser = False, u_is_active = True, u_perms = []\<rparr>"

lemmas payment_eval = demo_payment_db_def payment_reviewer_def new_form_def new_profile_row_def demo_supervisor_def tbl_get_def tbl_where_def
  tbl_put_def tbl_update_where_def

lemma demo_payment_inv: "remuneration_inv demo_payment_db"
  by (simp add: remuneration_inv_def table_ok_def tbl_wf_def tbl_unique_def tbl_all_def payment_eval starts_month_def)

lemma demo_profile_clean: "phone_column ''0712345678''"
  by (simp add: phone_column_def validate_phone_def phone_pattern_def is_digit_def)

lemma demo_review_runs: "\<exists>d'. remuneration_step demo_payment_db ((default_env, payment_reviewer), ReviewForm 1 CK_REVIEWED []) = Inr d' \<and>
    payment_of d' 5 = (''0712345678'', ''0401'', ''Asha'')"
  using demo_profile_clean
  by (simp add: remuneration_review_def load_or_404_def found_def review_monthly_remuneration_def reviewed_form_def
      ordered_lines_def lines_of_def approve_line_def get_or_create_def proposes_change_def approved_profile_def chosen_def
      profile_clean_def text_column_def payment_eval Let_def payment_of_def profile_text_def profile_of_def audit_form_def)

theorem payment_contact_needs_approval_witness:
  "\<exists>r. tbl_get (remuneration_reports demo_payment_db) 1 = Some r \<and> mr_status r = CK_SUBMITTED \<and> u_role payment_reviewer \<in> {HR, SYSTEM_ADMIN}"
proof -
  obtain d' where d': "remuneration_step demo_payment_db ((default_env, payment_reviewer), ReviewForm 1 CK_REVIEWED []) = Inr d'"
    "payment_of d' 5 = (''0712345678'', ''0401'', ''Asha'')" using demo_review_runs by blast
  have "payment_of demo_payment_db 5 = (''0712345678'', [], [])"
    by (simp add: payment_of_def profile_text_def profile_of_def payment_eval)
  with d'(2) have "payment_of d' 5 \<noteq> payment_of demo_payment_db 5" by simp
  from payment_contact_needs_approval [OF demo_payment_inv d'(1) this] show ?thesis by auto
qed

text \<open>A site supervisor prepares the form of June 2025 on the twentieth: one present and one absent day.\<close>

definition demo_attendance :: "date \<Rightarrow> attendance_status \<Rightarrow> attendance_record" where
  "demo_attendance day st = \<lparr>ar_cleaner = 5, ar_site = 1, ar_shift = None, ar_attendance_date = day, ar_status = st,
     ar_check_in_time = None, ar_check_out_time = None, ar_notes = [], ar_recorded_by = None, ar_submitted_at = None,
     ar_review_status = RV_DRAFT, ar_return_reason = [], ar_created_by = None, ar_updated_by = None\<rparr>"

definition demo_contract :: cleaner_site_assignment where
  "demo_contract = \<lparr>csa_cleaner = 5, csa_site = 1, csa_assignment_type = CT_FULL_TIME, csa_start_date = Date 2025 1 1,
     csa_end_date = None, csa_status = CA_ACTIVE, csa_assigned_by = None, csa_notes = [], csa_created_by = None, csa_updated_by = None\<rparr>"

definition demo_month_db :: db where
  "demo_month_db = (demo_org [demo_assignment 2 None])\<lparr>
     cleaner_assignments := \<lparr>tbl_rows = [(1, demo_contract)], tbl_next = 2\<rparr>,
     attendance := \<lparr>tbl_rows = [(1, demo_attendance (Date 2025 6 2) AT_LATE), (2, demo_attendance (Date 2025 6 3) AT_ABSENT),
       (3, demo_attendance (Date 2025 5 30) AT_PRESENT)], tbl_next = 4\<rparr>\<rparr>"

definition twentieth :: env where
  "twentieth = default_env\<lparr>localdate := Date 2025 6 20\<rparr>"

lemma demo_month_scope: "supervisor_scope twentieth demo_month_db (demo_supervisor 2) 1 f = f"
  by (simp add: supervisor_scope_def demo_supervisor_def site_in_user_scope_def visible_sites_def sees_all_zones_def is_system_admin_def
      site_supervisor_query_def demo_month_db_def demo_org_def demo_assignment_def demo_site_def tbl_where_def tbl_exists_def
      twentieth_def default_env_def date_order_defs empty_db_def)

lemma demo_month_contract:
  "cleaner_assignments d = cleaner_assignments demo_month_db \<Longrightarrow> month_assignments d 1 (Date 2025 6 1) = [(1, demo_contract)]"
  by (simp add: month_assignments_def tbl_where_def demo_month_db_def demo_contract_def assignment_in_month_def month_bounds_def
      month_end_def days_in_month_def date_order_defs)

lemma demo_month_made:
  "\<exists>d' r. prepare_monthly_remuneration twentieth (demo_supervisor 2) 1 (Date 2025 6 1) demo_month_db = Inr (1, d') \<and>
     tbl_get (remuneration_reports d') 1 = Some r \<and> form_editable r"
proof -
  have today: "localdate twentieth = Date 2025 6 20" by (simp add: twentieth_def)
  have empty: "remuneration_reports demo_month_db = tbl_empty" "remuneration_lines demo_month_db = tbl_empty"
    by (simp_all add: demo_month_db_def demo_org_def empty_db_def)
  have goc: "get_or_create (\<lambda>r. mr_site r = 1 \<and> mr_period r = Date 2025 6 1) (new_form 1 (Date 2025 6 1) (demo_supervisor 2))
      (remuneration_reports demo_month_db) =
    ((1, new_form 1 (Date 2025 6 1) (demo_supervisor 2)), tbl_insert (new_form 1 (Date 2025 6 1) (demo_supervisor 2)) tbl_empty)"
    by (simp add: get_or_create_def empty tbl_where_def tbl_empty_def)
  let ?x = "(1, new_form 1 (Date 2025 6 1) (demo_supervisor 2))"
  let ?d = "demo_month_db\<lparr>remuneration_reports := tbl_insert (new_form 1 (Date 2025 6 1) (demo_supervisor 2)) tbl_empty\<rparr>"
  have "\<not> tbl_exists (\<lambda>_ l. line_key l = (fst ?x, csa_cleaner (snd (1 :: nat, demo_contract)))) (remuneration_lines ?d)"
    by (simp add: empty tbl_exists_def tbl_empty_def)
  from sealed_form_grows [OF this] obtain d1 where "refresh_line ?x (1, demo_contract) ?d = Inr d1" by blast
  moreover have "month_assignments ?d 1 (Date 2025 6 1) = [(1, demo_contract)]" by (rule demo_month_contract) simp
  moreover have "mr_site (new_form 1 (Date 2025 6 1) (demo_supervisor 2)) = 1"
    "mr_period (new_form 1 (Date 2025 6 1) (demo_supervisor 2)) = Date 2025 6 1" by (simp_all add: new_form_def)
  ultimately have d1: "refresh_report_lines ?x ?d = Inr d1" by (simp only: refresh_report_lines_def snd_conv foldM.simps rbind_simps)
  have "lines_only (demo_month_db\<lparr>remuneration_reports := tbl_insert (new_form 1 (Date 2025 6 1) (demo_supervisor 2)) tbl_empty\<rparr>) d1"
    using d1 empty(2) refresh_only by (fastforce simp: refresh_report_lines_def)
  then have "tbl_get (remuneration_reports d1) 1 = Some (new_form 1 (Date 2025 6 1) (demo_supervisor 2))"
    by (simp add: lines_only_def tbl_get_def tbl_insert_def tbl_empty_def)
  moreover have "form_editable (new_form 1 (Date 2025 6 1) (demo_supervisor 2))"
    "mr_prepared_by (new_form 1 (Date 2025 6 1) (demo_supervisor 2)) = u_pk (demo_supervisor 2)"
    by (simp_all add: new_form_def form_editable_def)
  ultimately show ?thesis using d1
    by (simp add: prepare_monthly_remuneration_def demo_month_scope today month_bounds_def remuneration_window_is_open_def goc
        del: One_nat_def)
qed


end
