(* ===== verification/Spec2Isabelle.thy ===== *)
theory Spec2Isabelle
  imports Org Policies Store StockRequests Issues Attendance Calendar Endpoints Reporting Inspections Assignments Trainees Onboarding Accounts Downloads SiteConfig Sites Gateway Roster Remuneration
begin

text \<open>
  WhiteBird Site Management: a Django backend for a cleaning company. People hold one of seven roles;
  sites belong to zones; cleaners are posted to sites, their attendance is taken, sites are inspected, issues
  become jobs, stores hold stock that is counted, moved and requested monthly, and every site, zone
  and assistant reports up to general management. This development translates the write side of that
  backend (\<open>src/apps/accounts\<close>, \<open>src/apps/core\<close>, \<open>src/apps/site_management\<close>) and proves what the operations promise.

  \<^bold>\<open>How the program is modelled.\<close>
  The relational database is one record, \<open>Schema.db\<close>, with a table per model class; a table is a list of keyed rows and the
  next primary key (\<open>Prelude\<close>). A service is a function from its arguments and a database to \<open>Inl\<close> an error (the exception
  the code raises, with its code) or \<open>Inr\<close> the result and the new database. Services run in a transaction, so
  a call that fails leaves the database as it was: \<open>commit\<close> and \<open>run_calls\<close> say this, and
  each component has a datatype of its calls and a step function over it. What a call reads besides the database (the
  two calendars and the clock, the run-time configuration, the digest, signer, password hasher, random key, slug function, column
  rounding) is the record \<open>Schema.env\<close> or a parameter, with documented behaviour as hypotheses where a property needs any.
  Instances are pairs of a key and a row, fetched by the caller and passed to the service, as the code does; where
  the code writes a stale copy back, the model does too.

  \<^bold>\<open>Theories and sources\<close> (paths under \<open>src/apps/\<close>).
  \<^item> \<open>Prelude\<close>: results and loops that stop at the first error, tables, unique constraints, and the
    interfaces: \<open>row_store\<close> (lookup after insert and update), \<open>safe_system\<close> (every call keeps an
    invariant), \<open>workflow\<close> (a status moves along a fixed graph: reachability, absorbing states, waypoints),
    \<open>audited_system\<close> (a log only grows) and \<open>table_flow\<close> (how the rows of a table may move). Every
    component interprets those that fit it on its own step function; its properties rest on the facts.
  \<^item> \<open>Values\<close>, \<open>Calendar\<close>: dates, weeks and months, exact decimals, strings.
  \<^item> \<open>Rows\<close>, \<open>Schema\<close>: the enumerations, the columns of the models (\<open>site_management/models.py\<close>,
    \<open>accounts/models.py\<close>, \<open>core/models.py\<close>), the database, the environment, an empty database.
  \<^item> \<open>Core\<close>: audit trail and outbox (\<open>core/services.py\<close>), upload validation (\<open>core/files.py\<close>), notifications
    (\<open>site_management/services.py\<close>). The lemmas say which table each touches and that notifications coalesce.
  \<^item> \<open>Org\<close>: supervisor assignments of sites, zones and assistants and the scopes that follow from them
    (\<open>services.py\<close>, \<open>models.py\<close>, \<open>selectors.py\<close>). \<open>Policies\<close>: who may see and manage what (\<open>accounts/permissions.py\<close>,
    \<open>site_management/policies.py\<close>). \<open>Endpoints\<close>: the checks shared by the handlers of \<open>api.py\<close>.
  \<^item> \<open>Store\<close>, \<open>StockRequests\<close> (\<open>store_services.py\<close>): catalogue, store items, stock movements and transfers, monthly
    openings; the approval chain of stock requests. Invariant: every quantity is the sum of its
    movements; the abstract view of a store is a map from items to amounts that the services refine.
  \<^item> \<open>Issues\<close> (\<open>issues_services.py\<close>): the state machines of issues and jobs. \<open>Attendance\<close>
    (\<open>attendance_services.py\<close>): generating, entering, submitting and locking a sheet.
  \<^item> \<open>Reporting\<close> (\<open>reporting_services.py\<close> and its endpoints): site reports, zone summaries, assistant summaries,
    the general report, and the chain between them.
  \<^item> \<open>Inspections\<close> (\<open>inspection_services.py\<close> and endpoints): templates, weighted scores and their bounds.
  \<^item> \<open>Assignments\<close> (\<open>assignment_services.py\<close> and endpoints): postings of cleaners, shift bindings and area schedules; no
    cleaner is double booked, and the overlap test is equivalent to comparing the minutes covered.
  \<^item> \<open>Cleaners\<close> (\<open>cleaner_services.py\<close>), \<open>Trainees\<close> (\<open>trainee_services.py\<close>), \<open>Onboarding\<close>
    (\<open>hr_services.py\<close>) with their endpoints: registration, documents, status changes; programmes and
    evaluations; onboarding, workbook import and the transfer of people between sites.
  \<^item> \<open>Accounts\<close> (\<open>accounts/services.py\<close>, \<open>tokens.py\<close>, \<open>auth.py\<close>, \<open>rbac.py\<close>, \<open>api.py\<close>): accounts, role
    groups, access and refresh tokens, bearer authentication. \<open>Downloads\<close>: signed links to private files (\<open>core/files.py\<close>, \<open>core/api.py\<close>).
  \<^item> \<open>SiteConfig\<close>, \<open>Sites\<close> (\<open>services.py\<close>, \<open>cleanliness_templates.py\<close>, two tasks of \<open>tasks.py\<close>, endpoints): zones,
    shifts, areas, roles, departments, assets, staff; sites with their store and inspection templates. The lemmas give every
    outcome of a creation, and what a site's work mode says of its shifts.
  \<^item> \<open>Roster\<close> (\<open>supervisor_roster_services.py\<close> and endpoints): personal timetables, one by one and in batches, and the
    checklists filled in along them. \<open>Remuneration\<close> (\<open>remuneration_services.py\<close> and endpoints): the monthly forms with counts
    from the attendance; payment contacts change by review only.
  \<^item> \<open>Gateway\<close> (\<open>core/throttling.py\<close>, \<open>core/pagination.py\<close>, \<open>core/handlers.py\<close>): the rate limiter over a cache with expiry,
    the pages of a list, the status of an error.

  \<^bold>\<open>How the parts interact.\<close> Every service writes the audit trail, most publish an event, several notify. The policies
  read the assignments of \<open>Org\<close>; handlers apply a policy and then call one service. Store requests create movements; issues
  create jobs; the reports aggregate attendance, inspections, issues and jobs; onboarding composes the registry, the documents and the
  postings; deleting an account looks at every table that refers to it; remuneration reads postings and attendance; creating a site
  creates its store and templates. The limiter decodes the access tokens of \<open>Accounts\<close>.

  \<^bold>\<open>Loops and bounds.\<close> Loops over rows are folds over finite lists (\<open>foldM\<close>). The search for an unused slug or code
  is a \<open>while_option\<close>, proved to end: a table of n rows blocks at most n of the candidates.
  Quantities, counters and amounts are exact integers and rationals as in Python; the width of a database column appears
  only where the code rounds to it (\<open>numeric_column\<close>, the two-decimal scores) and where text is written unvalidated (\<open>site_fits\<close>).

  \<^bold>\<open>Not modelled, and why.\<close> Request parsing and the field rules of the payload schemas, routing and response bodies (glue of
  the web framework); read-only selectors and dashboards except those a service or policy calls; exports, e-mail
  and PDF rendering, the realtime channel, conversations (\<open>messaging_services.py\<close>), the map and
  language-model clients, the periodic tasks, the admin site, other middleware, caches
  (apart from the limiter's the cache calls only invalidate), settings, migrations and test factories. Human-readable text of audit entries and
  notifications is dropped. Rows come in the order they were inserted. Upper and lower case are those of ASCII.
  \<open>has_perm\<close> is a list of strings per user. Calls run one after the other: concurrent transactions and row locks
  are outside the model. Columns that no modelled operation reads or writes are left out of the rows.
\<close>

end
